(* ===== verification/Tasq_Prelude.thy ===== *)
theory Tasq_Prelude
  imports Main "HOL-Library.Char_ord" "HOL-Library.List_Lexorder" "HOL-Library.Code_Target_Nat"
begin

text \<open>
  Shared vocabulary of the development: results of fallible code, the JavaScript notions the
  sources rely on (safe integers, truthiness, blank strings), tables as lists of rows with
  SQL-like access, and the generic lemmas and collections the component theories use.

  A fallible computation is a value of \<open>'e + 'a\<close>: \<open>Inl\<close> is the thrown error, \<open>Inr\<close> the
  value. The sequencing of the sources (a \<open>throw\<close> leaves the function, otherwise execution goes
  on) is written as \<open>case m of Inl e \<Rightarrow> Inl e | Inr x \<Rightarrow> \<dots>\<close>; the collection \<open>res\<close> decomposes the
  fact that such a chain ended in \<open>Inr\<close> into the facts that every link did.
\<close>

named_theorems res \<open>decomposition of successful results\<close>

lemma case_Inl_eq_Inr [res]:
  "(case m of Inl e \<Rightarrow> Inl (g e) | Inr x \<Rightarrow> f x) = Inr y \<longleftrightarrow> (\<exists>x. m = Inr x \<and> f x = Inr y)"
  by (cases m) auto

lemma case_Inl_eta_eq_Inr [res]:
  "case_sum Inl f m = Inr y \<longleftrightarrow> (\<exists>x. m = Inr x \<and> f x = Inr y)"
  by (cases m) auto

lemma if_Inl_eq_Inr [res]:
  "(if c then Inl e else k) = Inr y \<longleftrightarrow> \<not> c \<and> k = Inr y"
  by simp

lemma case_option_Inl_eq_Inr [res]:
  "(case m of None \<Rightarrow> Inl e | Some x \<Rightarrow> f x) = Inr y \<longleftrightarrow> (\<exists>x. m = Some x \<and> f x = Inr y)"
  by (cases m) auto

text \<open>A \<open>map\<close> whose function may throw.\<close>

fun map_res :: "('a \<Rightarrow> 'e + 'b) \<Rightarrow> 'a list \<Rightarrow> 'e + 'b list" where
  "map_res f [] = Inr []"
| "map_res f (x # xs) = (case f x of Inl e \<Rightarrow> Inl e | Inr y \<Rightarrow>
     (case map_res f xs of Inl e \<Rightarrow> Inl e | Inr ys \<Rightarrow> Inr (y # ys)))"

lemma map_res_Inr [res]: "map_res f xs = Inr ys \<longleftrightarrow> map f xs = map Inr ys"
proof (induction xs arbitrary: ys)
  case (Cons x xs)
  have "map_res f (x # xs) = Inr ys \<longleftrightarrow> (\<exists>z zs. f x = Inr z \<and> map_res f xs = Inr zs \<and> ys = z # zs)"
    by (auto simp: res)
  also have "\<dots> \<longleftrightarrow> map f (x # xs) = map Inr ys" unfolding Cons.IH by (cases ys) auto
  finally show ?case .
qed auto

section \<open>JavaScript numbers and strings\<close>

definition MAX_SAFE_INTEGER :: int where
  "MAX_SAFE_INTEGER = 9007199254740991"

definition isSafeInteger :: "int \<Rightarrow> bool" where
  "isSafeInteger n \<longleftrightarrow> \<bar>n\<bar> \<le> MAX_SAFE_INTEGER"

text \<open>Truthiness of an optional string and of an optional number: \<open>undefined\<close>, \<open>null\<close>, the
  empty string and zero are falsy.\<close>

definition truthy_str :: "string option \<Rightarrow> bool" where
  "truthy_str x \<longleftrightarrow> x \<noteq> None \<and> x \<noteq> Some []"

definition truthy_num :: "int option \<Rightarrow> bool" where
  "truthy_num x \<longleftrightarrow> x \<noteq> None \<and> x \<noteq> Some 0"

lemma truthy_str_simps [simp]:
  "\<not> truthy_str None" "\<not> truthy_str (Some [])" "truthy_str (Some (c # cs))"
  by (simp_all add: truthy_str_def)

lemma truthy_str_some: "truthy_str x \<Longrightarrow> \<exists>s. x = Some s \<and> s \<noteq> []"
  by (cases x) (auto simp: truthy_str_def)

lemma truthy_num_simps [simp]:
  "\<not> truthy_num None" "truthy_num (Some n) \<longleftrightarrow> n \<noteq> 0"
  by (simp_all add: truthy_num_def)

text \<open>Strings are lists of code units below 256. \<open>String.prototype.trim\<close> removes the white
  space characters among them.\<close>

definition js_space :: "char \<Rightarrow> bool" where
  "js_space c \<longleftrightarrow> (let n = (of_char c :: nat) in (9 \<le> n \<and> n \<le> 13) \<or> n = 32 \<or> n = 160)"

definition js_trim :: "string \<Rightarrow> string" where
  "js_trim s = rev (dropWhile js_space (rev (dropWhile js_space s)))"

text \<open>\<open>trim\<close> of the database strips blanks only.\<close>

definition sql_trim :: "string \<Rightarrow> string" where
  "sql_trim s = (let strip = dropWhile (\<lambda>c. c = CHR '' '') in rev (strip (rev (strip s))))"

definition sql_blank :: "string \<Rightarrow> bool" where
  "sql_blank s \<longleftrightarrow> sql_trim s = []"

definition js_blank :: "string \<Rightarrow> bool" where
  "js_blank s \<longleftrightarrow> js_trim s = []"

lemma js_blank_Nil [simp]: "js_blank []"
  by (simp add: js_blank_def js_trim_def)

lemma js_trim_last_aux:
  assumes "dropWhile P xs \<noteq> []" shows "\<not> P (hd (dropWhile P xs))"
  using assms by (rule hd_dropWhile)

lemma js_blank_iff: "js_blank s \<longleftrightarrow> (\<forall>c \<in> set s. js_space c)"
proof -
  have "js_blank s \<longleftrightarrow> (\<forall>c \<in> set (dropWhile js_space s). js_space c)"
    by (simp add: js_blank_def js_trim_def dropWhile_eq_Nil_conv)
  also have "\<dots> \<longleftrightarrow> dropWhile js_space s = []"
    by (metis dropWhile_eq_Nil_conv hd_dropWhile hd_in_set list.set(1) empty_iff)
  finally show ?thesis by (simp add: dropWhile_eq_Nil_conv)
qed

text \<open>Decimal digits of a non-negative integer, as \<open>JSON.stringify\<close> and template strings print
  it.\<close>

definition digit_char :: "nat \<Rightarrow> char" where
  "digit_char n = char_of (48 + n)"

fun dec_nat :: "nat \<Rightarrow> string" where
  "dec_nat n = (if n < 10 then [digit_char n] else dec_nat (n div 10) @ [digit_char (n mod 10)])"

declare dec_nat.simps [simp del]

definition dec_int :: "int \<Rightarrow> string" where
  "dec_int n = (if n < 0 then CHR ''-'' # dec_nat (nat (- n)) else dec_nat (nat n))"

fun join_with :: "string \<Rightarrow> string list \<Rightarrow> string" where
  "join_with sep [] = []"
| "join_with sep [x] = x"
| "join_with sep (x # xs) = x @ sep @ join_with sep xs"

section \<open>Tables\<close>

text \<open>
  A table is the list of its rows in insertion order. \<open>select \<dots> where P limit 1\<close> is \<open>find P\<close>,
  \<open>update \<dots> set f where P\<close> is \<open>update_rows\<close>; \<open>returning\<close> gives the updated rows.
\<close>

definition update_rows :: "('a \<Rightarrow> bool) \<Rightarrow> ('a \<Rightarrow> 'a) \<Rightarrow> 'a list \<Rightarrow> 'a list" where
  "update_rows P f = map (\<lambda>r. if P r then f r else r)"

lemma update_rows_simps [simp]:
  "update_rows P f [] = []"
  "update_rows P f (r # rs) = (if P r then f r else r) # update_rows P f rs"
  by (simp_all add: update_rows_def)

lemma update_rows_append: "update_rows P f (xs @ ys) = update_rows P f xs @ update_rows P f ys"
  by (simp add: update_rows_def)

lemma length_update_rows [simp]: "length (update_rows P f xs) = length xs"
  by (simp add: update_rows_def)

lemma set_update_rows:
  "set (update_rows P f xs) = (\<lambda>r. if P r then f r else r) ` set xs"
  by (simp add: update_rows_def)

lemma in_update_rows:
  "r \<in> set (update_rows P f xs) \<longleftrightarrow> (\<exists>x \<in> set xs. r = (if P x then f x else x))"
  by (auto simp: set_update_rows)

lemma update_rows_cases:
  assumes "r \<in> set (update_rows P f xs)"
  obtains (hit) x where "x \<in> set xs" "P x" "r = f x" | (other) "r \<in> set xs" "\<not> P r"
  using assms by (auto simp: in_update_rows split: if_splits)

lemma update_rows_none: "(\<And>r. r \<in> set xs \<Longrightarrow> \<not> P r) \<Longrightarrow> update_rows P f xs = xs"
  by (induction xs) auto

lemma map_update_rows:
  "(\<And>r. P r \<Longrightarrow> g (f r) = g r) \<Longrightarrow> map g (update_rows P f xs) = map g xs"
  by (induction xs) auto

lemma find_update_rows_other:
  "(\<And>r. r \<in> set xs \<Longrightarrow> P r \<Longrightarrow> \<not> Q r \<and> \<not> Q (f r)) \<Longrightarrow> find Q (update_rows P f xs) = find Q xs"
  by (induction xs) auto

lemma find_update_rows_same:
  "(\<And>r. P r \<Longrightarrow> P (f r)) \<Longrightarrow> find P (update_rows P f xs) = map_option f (find P xs)"
  by (induction xs) auto

lemma find_update_rows_key:
  "(\<And>r. Q (f r) = Q r) \<Longrightarrow>
    find Q (update_rows P f xs) = map_option (\<lambda>r. if P r then f r else r) (find Q xs)"
  by (induction xs) auto

lemma find_SomeD: "find P xs = Some x \<Longrightarrow> P x \<and> x \<in> set xs"
  by (auto simp: find_Some_iff)

lemma find_NoneD: "find P xs = None \<Longrightarrow> x \<in> set xs \<Longrightarrow> \<not> P x"
  by (auto simp: find_None_iff)

lemma find_append:
  "find P (xs @ ys) = (case find P xs of None \<Rightarrow> find P ys | Some x \<Rightarrow> Some x)"
  by (induction xs) auto

lemma find_cong_ext: "(\<And>x. P x = Q x) \<Longrightarrow> find P xs = find Q xs"
  by (induction xs) auto

text \<open>A key is unique in a table when no two rows share it.\<close>

definition uniq_by :: "('a \<Rightarrow> 'k) \<Rightarrow> 'a list \<Rightarrow> bool" where
  "uniq_by k xs \<longleftrightarrow> distinct (map k xs)"

lemma uniq_by_Nil [simp]: "uniq_by k []"
  by (simp add: uniq_by_def)

lemma uniq_by_append1:
  "uniq_by k (xs @ [x]) \<longleftrightarrow> uniq_by k xs \<and> (\<forall>y \<in> set xs. k y \<noteq> k x)"
  by (simp add: uniq_by_def image_iff) metis

lemma uniq_by_update_rows:
  "uniq_by k xs \<Longrightarrow> (\<And>r. k (f r) = k r) \<Longrightarrow> uniq_by k (update_rows P f xs)"
  by (simp add: uniq_by_def map_update_rows)

lemma uniq_by_eqD: "uniq_by k xs \<Longrightarrow> x \<in> set xs \<Longrightarrow> y \<in> set xs \<Longrightarrow> k x = k y \<Longrightarrow> x = y"
  unfolding uniq_by_def by (metis distinct_map inj_on_def)

lemma find_uniq:
  assumes "uniq_by k xs" and "x \<in> set xs" and "P x" and "\<And>y. P y \<Longrightarrow> k y = k x"
  shows "find P xs = Some x"
proof -
  from assms(2,3) have "find P xs \<noteq> None" by (auto simp: find_None_iff)
  then obtain y where y: "find P xs = Some y" by auto
  then have "P y" "y \<in> set xs" by (auto dest: find_SomeD)
  with assms have "y = x" by (metis uniq_by_eqD)
  with y show ?thesis by simp
qed

end
