(* ===== verification/Ids.thy ===== *)
theory Ids
  imports Tasq_Prelude "HOL-Library.Word"
begin

text \<open>
  UUIDv7 identifiers (\<open>packages/tasq-schema/src/ids.ts\<close>): generation from a millisecond
  timestamp and ten random bytes, recognition, and extraction of the timestamp. The random bytes
  come from the host (\<open>crypto.getRandomValues\<close>) and are an argument.
\<close>

unbundle bit_operations_syntax

type_synonym byte = "8 word"

definition HEX_CHARS :: string where
  "HEX_CHARS = ''0123456789abcdef''"

definition hex_digit :: "nat \<Rightarrow> char" where
  "hex_digit n = HEX_CHARS ! n"

fun bytesToHex :: "byte list \<Rightarrow> string" where
  "bytesToHex [] = []"
| "bytesToHex (b # bs) =
     hex_digit (unat (drop_bit 4 b)) # hex_digit (unat (b AND 15)) # bytesToHex bs"

definition slice :: "nat \<Rightarrow> nat \<Rightarrow> string \<Rightarrow> string" where
  "slice i j s = take (j - i) (drop i s)"

definition formatUuid :: "byte list \<Rightarrow> string" where
  "formatUuid bytes = (let hex = bytesToHex bytes in
     slice 0 8 hex @ ''-'' @ slice 8 12 hex @ ''-'' @ slice 12 16 hex @ ''-'' @
     slice 16 20 hex @ ''-'' @ slice 20 32 hex)"

text \<open>\<open>(x >>> k) & 0xff\<close> on a non-negative number is its \<open>k\<close>-shifted value truncated to a byte.\<close>

definition byte_at :: "nat \<Rightarrow> nat \<Rightarrow> byte" where
  "byte_at k x = of_nat (x div 2 ^ k)"

definition uuidv7 :: "nat \<Rightarrow> byte list \<Rightarrow> string" where
  "uuidv7 ms rand =
     (let high = ms div 4294967296;
          low = ms - high * 4294967296;
          b6 = 112 OR (rand ! 0 AND 15);
          b7 = rand ! 1;
          b8 = 128 OR (rand ! 2 AND 63)
      in formatUuid ([byte_at 8 high, byte_at 0 high,
                      byte_at 24 low, byte_at 16 low, byte_at 8 low, byte_at 0 low,
                      b6, b7, b8] @ take 7 (drop 3 rand)))"

text \<open>Recognition: the case-insensitive shape \<open>8-4-4-4-12\<close> of hexadecimal digits.\<close>

definition hex_val :: "char \<Rightarrow> nat option" where
  "hex_val c = (let n = (of_char c :: nat) in
     if 48 \<le> n \<and> n \<le> 57 then Some (n - 48)
     else if 97 \<le> n \<and> n \<le> 102 then Some (n - 87)
     else if 65 \<le> n \<and> n \<le> 70 then Some (n - 55)
     else None)"

definition all_hex :: "string \<Rightarrow> bool" where
  "all_hex s \<longleftrightarrow> list_all (\<lambda>c. hex_val c \<noteq> None) s"

definition isUuid :: "string \<Rightarrow> bool" where
  "isUuid v \<longleftrightarrow> length v = 36 \<and>
     all_hex (slice 0 8 v) \<and> v ! 8 = CHR ''-'' \<and> all_hex (slice 9 13 v) \<and> v ! 13 = CHR ''-'' \<and>
     all_hex (slice 14 18 v) \<and> v ! 18 = CHR ''-'' \<and> all_hex (slice 19 23 v) \<and> v ! 23 = CHR ''-'' \<and>
     all_hex (slice 24 36 v)"

definition isUuidv7 :: "string \<Rightarrow> bool" where
  "isUuidv7 v \<longleftrightarrow> isUuid v \<and> v ! 14 = CHR ''7''"

definition shortId :: "string \<Rightarrow> string" where
  "shortId uuid = slice 0 18 uuid"

definition parse_hex :: "string \<Rightarrow> nat" where
  "parse_hex s = foldl (\<lambda>n c. 16 * n + (case hex_val c of None \<Rightarrow> 0 | Some k \<Rightarrow> k)) 0 s"

datatype uuid_error = NotUuidv7 string

definition timestampFromUuidv7 :: "string \<Rightarrow> uuid_error + nat" where
  "timestampFromUuidv7 uuid =
     (if \<not> isUuidv7 uuid then Inl (NotUuidv7 uuid)
      else let hex = slice 0 8 uuid @ slice 9 13 uuid;
               high = parse_hex (slice 0 4 hex);
               low = parse_hex (slice 4 12 hex)
           in Inr (high * 4294967296 + low))"

section \<open>Hexadecimal digits and bytes\<close>

lemma all_below_16:
  assumes "P 0" "P 1" "P 2" "P 3" "P 4" "P 5" "P 6" "P 7"
    "P 8" "P 9" "P 10" "P 11" "P 12" "P 13" "P 14" "P 15"
  shows "n < 16 \<Longrightarrow> P (n :: nat)"
proof -
  assume "n < 16"
  then have "n \<in> set [0..<16]" by simp
  also have "[0..<16] = [0,1,2,3,4,5,6,7,8,9,10,11,12,13,14,15::nat]"
    by (simp add: upt_rec)
  finally show ?thesis using assms by auto
qed

lemma hex_val_digit [simp]: "n < 16 \<Longrightarrow> hex_val (hex_digit n) = Some n"
  by (rule all_below_16) (simp_all add: hex_val_def hex_digit_def HEX_CHARS_def Let_def)

lemma unat_byte_less: "unat (b :: byte) < 256"
  using unsigned_less [where ?'a = nat, of b] by simp

lemma unat_high_nibble: "unat (drop_bit 4 (b :: byte)) = unat b div 16"
  by (simp add: unat_drop_bit_eq drop_bit_nat_def)

lemma unat_low_nibble: "unat ((b :: byte) AND 15) = unat b mod 16"
proof -
  have "(15 :: byte) = mask 4" by (simp add: mask_eq_exp_minus_1)
  then have "(b AND 15) = take_bit 4 b" by (simp add: take_bit_eq_mask)
  then show ?thesis by (simp add: unsigned_take_bit_eq take_bit_nat_def)
qed

lemmas nibbles = unat_high_nibble unat_low_nibble

lemma nibbles_less [simp]:
  "unat (drop_bit 4 (b :: byte)) < 16" "unat ((b :: byte) AND 15) < 16"
  using unat_byte_less [of b] by (simp_all add: nibbles)

lemma length_bytesToHex [simp]: "length (bytesToHex bs) = 2 * length bs"
  by (induction bs) auto

lemma bytesToHex_append: "bytesToHex (xs @ ys) = bytesToHex xs @ bytesToHex ys"
  by (induction xs) auto

lemma all_hex_bytesToHex: "set s \<subseteq> set (bytesToHex bs) \<Longrightarrow> all_hex s"
proof -
  have "list_all (\<lambda>c. hex_val c \<noteq> None) (bytesToHex bs)" by (induction bs) auto
  then show "set s \<subseteq> set (bytesToHex bs) \<Longrightarrow> all_hex s"
    by (auto simp: all_hex_def list_all_iff)
qed

lemma parse_hex_snoc:
  "parse_hex (s @ [c]) = 16 * parse_hex s + (case hex_val c of None \<Rightarrow> 0 | Some k \<Rightarrow> k)"
  by (simp add: parse_hex_def)

lemma parse_hex_append:
  "parse_hex (s @ t) = parse_hex s * 16 ^ length t + parse_hex t"
proof (induction t rule: rev_induct)
  case (snoc c t)
  have "parse_hex (s @ t @ [c]) = 16 * parse_hex (s @ t) + (case hex_val c of None \<Rightarrow> 0 | Some k \<Rightarrow> k)"
    using parse_hex_snoc [of "s @ t" c] by simp
  with snoc show ?case by (simp add: parse_hex_snoc algebra_simps)
qed (simp add: parse_hex_def)

lemma parse_hex_byte:
  "parse_hex (bytesToHex [b]) = unat b"
proof -
  have "unat b div 16 < 16" using unat_byte_less [of b] by simp
  then show ?thesis by (simp add: parse_hex_def nibbles)
qed

lemma parse_hex_bytes:
  "parse_hex (bytesToHex (b # bs)) = unat b * 256 ^ length bs + parse_hex (bytesToHex bs)"
  using bytesToHex_append [of "[b]" bs] parse_hex_append [of "bytesToHex [b]" "bytesToHex bs"]
  by (simp add: parse_hex_byte power_mult del: bytesToHex.simps)

lemma unat_byte_at: "unat (byte_at k x) = x div 2 ^ k mod 256"
  by (simp add: byte_at_def unat_of_nat)


text \<open>The first six bytes of an identifier, and its text as the hexadecimal digits of its sixteen
  bytes with dashes between the groups.\<close>

definition stamp_bytes :: "nat \<Rightarrow> byte list" where
  "stamp_bytes ms = (let high = ms div 4294967296; low = ms - high * 4294967296 in
     [byte_at 8 high, byte_at 0 high,
      byte_at 24 low, byte_at 16 low, byte_at 8 low, byte_at 0 low])"

lemma low_bytes:
  assumes "(x :: nat) < 4294967296"
  shows "x div 16777216 mod 256 * 16777216 + (x div 65536 mod 256 * 65536
      + (x div 256 mod 256 * 256 + x mod 256)) = x"
proof -
  define y where "y = x div 256"
  define z where "z = y div 256"
  have x: "x = y * 256 + x mod 256" and y: "y = z * 256 + y mod 256"
    by (simp_all only: y_def z_def div_mult_mod_eq)
  have z: "z = (z div 256) * 256 + z mod 256" by (simp only: div_mult_mod_eq)
  have e: "x div 65536 = z" "x div 16777216 = z div 256"
    by (simp_all add: y_def z_def flip: div_mult2_eq)
  have "z div 256 < 256" using assms e(2) by simp
  then have "z div 256 mod 256 = z div 256" by simp
  then show ?thesis unfolding e y_def [symmetric] using x y z by linarith
qed

lemma parse_hex_stamp:
  assumes "ms < 2 ^ 48"
  shows "parse_hex (bytesToHex (stamp_bytes ms)) = ms"
    and "parse_hex (take 4 (bytesToHex (stamp_bytes ms))) = ms div 4294967296"
    and "parse_hex (drop 4 (bytesToHex (stamp_bytes ms))) = ms mod 4294967296"
proof -
  define hi where "hi = ms div 4294967296"
  define lo where "lo = ms mod 4294967296"
  have lo: "ms - hi * 4294967296 = lo" by (simp add: hi_def lo_def minus_div_mult_eq_mod)
  have "hi < 65536" using assms by (simp add: hi_def)
  then have "hi div 256 mod 256 = hi div 256" by simp
  then have h: "hi div 256 mod 256 * 256 + hi mod 256 = hi" by (simp only: div_mult_mod_eq)
  have l: "lo div 16777216 mod 256 * 16777216 + (lo div 65536 mod 256 * 65536
      + (lo div 256 mod 256 * 256 + lo mod 256)) = lo"
    by (rule low_bytes) (simp add: lo_def)
  have l2: "lo div 16777216 < 256" by (simp add: lo_def)
  let ?H = "[byte_at 8 hi, byte_at 0 hi]"
  let ?L = "[byte_at 24 lo, byte_at 16 lo, byte_at 8 lo, byte_at 0 lo]"
  have split: "bytesToHex (stamp_bytes ms) = bytesToHex ?H @ bytesToHex ?L"
    by (simp add: stamp_bytes_def Let_def hi_def [symmetric] lo)
  have nil: "parse_hex (bytesToHex []) = 0" by (simp add: parse_hex_def)
  have ph: "parse_hex (bytesToHex ?H) = hi"
    using h by (simp add: parse_hex_bytes unat_byte_at nil del: bytesToHex.simps)
  have pl: "parse_hex (bytesToHex ?L) = lo"
    using l l2 by (simp add: parse_hex_bytes unat_byte_at nil del: bytesToHex.simps)
  show "parse_hex (take 4 (bytesToHex (stamp_bytes ms))) = ms div 4294967296"
    using ph by (simp add: split hi_def del: bytesToHex.simps)
  show "parse_hex (drop 4 (bytesToHex (stamp_bytes ms))) = ms mod 4294967296"
    using pl by (simp add: split lo_def del: bytesToHex.simps)
  show "parse_hex (bytesToHex (stamp_bytes ms)) = ms"
    using ph pl by (simp add: split parse_hex_append hi_def lo_def del: bytesToHex.simps)
qed

lemma uuidv7_stamp:
  assumes "length rand = 10"
  shows "\<exists>tl. uuidv7 ms rand = take 8 (bytesToHex (stamp_bytes ms)) @ ''-'' @
           drop 8 (bytesToHex (stamp_bytes ms)) @ ''-'' @ tl"
proof -
  define rest where "rest = [112 OR (rand ! 0 AND 15), rand ! 1, 128 OR (rand ! 2 AND 63)]
    @ take 7 (drop 3 rand)"
  define h where "h = bytesToHex (stamp_bytes ms)"
  have u: "uuidv7 ms rand = formatUuid (stamp_bytes ms @ rest)"
    by (simp add: uuidv7_def stamp_bytes_def rest_def Let_def)
  have [simp]: "length h = 12" by (simp add: h_def stamp_bytes_def Let_def)
  have hx: "bytesToHex (stamp_bytes ms @ rest) = h @ bytesToHex rest"
    by (simp add: bytesToHex_append h_def)
  show ?thesis
    unfolding u formatUuid_def slice_def hx h_def [symmetric] Let_def by simp
qed

lemma version_nibble: "unat (112 OR (b AND 15 :: byte)) div 16 = 7"
proof -
  have "n < 16 \<Longrightarrow> unat (112 OR of_nat n :: byte) div 16 = 7" for n :: nat
    by (rule all_below_16) simp_all
  from this [of "unat (b AND 15)"] show ?thesis by simp
qed

section \<open>Lexicographic order\<close>

lemma list_less_append_eqlen:
  "length xs = length ys \<Longrightarrow> xs @ s < ys @ t \<longleftrightarrow> xs < ys \<or> xs = ys \<and> s < (t :: 'a :: linorder list)"
  by (induction xs ys rule: list_induct2) auto

lemma hex_digit_less: "i < 16 \<Longrightarrow> j < 16 \<Longrightarrow> i < j \<Longrightarrow> hex_digit i < hex_digit j"
proof -
  have "\<forall>i \<in> set [0..<16]. \<forall>j \<in> set [0..<16]. i < j \<longrightarrow> hex_digit i < hex_digit j" by code_simp
  then show "i < 16 \<Longrightarrow> j < 16 \<Longrightarrow> i < j \<Longrightarrow> hex_digit i < hex_digit j" by simp
qed

lemma parse_hex_bound: "parse_hex (bytesToHex bs) < 256 ^ length bs"
proof (induction bs)
  case (Cons b bs)
  have "unat b + 1 \<le> 256" using unat_byte_less [of b] by simp
  then have "(unat b + 1) * 256 ^ length bs \<le> 256 * 256 ^ length bs" by (rule mult_le_mono1)
  then have "unat b * 256 ^ length bs + 256 ^ length bs \<le> 256 * 256 ^ length bs"
    by (simp only: add_mult_distrib mult_1)
  with Cons have "unat b * 256 ^ length bs + parse_hex (bytesToHex bs) < 256 * 256 ^ length bs"
    by linarith
  then show ?case by (simp only: parse_hex_bytes list.size power_Suc add_0_right add_Suc_right)
qed (simp add: parse_hex_def)

lemma byte_hex_less:
  assumes "unat (x :: byte) < unat y" shows "bytesToHex [x] < bytesToHex [y]"
proof -
  have "unat x div 16 < unat y div 16 \<or> unat x div 16 = unat y div 16 \<and> unat x mod 16 < unat y mod 16"
    using div_le_mono [of "unat x" "unat y" 16] assms
      div_mult_mod_eq [of "unat x" 16] div_mult_mod_eq [of "unat y" 16] by linarith
  then show ?thesis using hex_digit_less unat_byte_less [of x] unat_byte_less [of y]
    by (auto simp: nibbles)
qed

lemma bytesToHex_less:
  "length xs = length ys \<Longrightarrow> parse_hex (bytesToHex xs) < parse_hex (bytesToHex ys) \<Longrightarrow>
    bytesToHex xs < bytesToHex ys"
proof (induction xs ys rule: list_induct2)
  case (Cons x xs y ys)
  let ?B = "256 ^ length ys :: nat"
  have lt: "unat x * ?B + parse_hex (bytesToHex xs) < unat y * ?B + parse_hex (bytesToHex ys)"
    using Cons.prems Cons.hyps by (simp add: parse_hex_bytes del: bytesToHex.simps)
  have "parse_hex (bytesToHex ys) < ?B" by (rule parse_hex_bound)
  with lt have "unat x * ?B < (unat y + 1) * ?B" by simp
  then have "unat x \<le> unat y" by (simp only: mult_less_cancel2) simp
  then consider "unat x < unat y" | "x = y" "parse_hex (bytesToHex xs) < parse_hex (bytesToHex ys)"
    using lt by (metis add_less_cancel_left le_neq_implies_less unsigned_word_eqI)
  then show ?case
  proof cases
    case 1 then show ?thesis
      using list_less_append_eqlen [of "bytesToHex [x]" "bytesToHex [y]"] byte_hex_less [of x y]
      by simp blast
  qed (use Cons.IH in simp)
qed simp

lemma list_less_dash:
  assumes "length a = length c" "length b = length d" and "a @ b < c @ d"
  shows "a @ x @ b @ s < c @ x @ d @ (t :: string)"
  using assms by (auto simp: list_less_append_eqlen)

lemma uuidv7_text:
  assumes "length rand = 10"
  shows "\<exists>g1 g2 g3 g4 g5. uuidv7 ms rand = g1 @ ''-'' @ g2 @ ''-'' @ g3 @ ''-'' @ g4 @ ''-'' @ g5 \<and>
     map length [g1, g2, g3, g4, g5] = [8, 4, 4, 4, 12] \<and>
     list_all all_hex [g1, g2, g3, g4, g5] \<and> g3 ! 0 = CHR ''7''"
proof -
  define bs where "bs = stamp_bytes ms @ [112 OR (rand ! 0 AND 15), rand ! 1, 128 OR (rand ! 2 AND 63)]
    @ take 7 (drop 3 rand)"
  define h where "h = bytesToHex bs"
  have len: "length h = 32" using assms by (simp add: h_def bs_def stamp_bytes_def Let_def)
  have u: "uuidv7 ms rand = take 8 h @ ''-'' @ take 4 (drop 8 h) @ ''-'' @ take 4 (drop 12 h) @ ''-'' @
      take 4 (drop 16 h) @ ''-'' @ take 12 (drop 20 h)"
    by (simp add: uuidv7_def formatUuid_def slice_def Let_def h_def bs_def stamp_bytes_def)
  have x: "all_hex (take n (drop m h))" for n m
    by (rule all_hex_bytesToHex [of _ bs])
      (use set_take_subset [of n "drop m h"] set_drop_subset [of m h] in \<open>auto simp: h_def\<close>)
  have "h ! 12 = CHR ''7''"
    by (simp add: h_def bs_def stamp_bytes_def Let_def unat_high_nibble version_nibble nth_append
        bytesToHex_append hex_digit_def HEX_CHARS_def)
  then have "take 4 (drop 12 h) ! 0 = CHR ''7''" using len by simp
  moreover have "all_hex (drop 20 h)" using x [of 12 20] len by simp
  ultimately show ?thesis using u len x [of 8 0] x by (intro exI conjI) (assumption | simp)+
qed

lemma isUuidv7_uuidv7: "length rand = 10 \<Longrightarrow> isUuidv7 (uuidv7 ms rand)"
  using uuidv7_text [of rand ms]
  by (auto simp: isUuidv7_def isUuid_def slice_def nth_append simp del: append_Cons)

section \<open>Properties\<close>

text \<open>C40. Generating an identifier and extracting its timestamp is the identity on every
  millisecond timestamp below \<open>2^48\<close>, whatever the random bytes; in particular every generated
  identifier is recognised as a UUIDv7.\<close>

theorem timestamp_roundtrip:
  assumes "ms < 2 ^ 48" and "length rand = 10"
  shows "timestampFromUuidv7 (uuidv7 ms rand) = Inr ms"
proof -
  define h where "h = bytesToHex (stamp_bytes ms)"
  have len: "length h = 12" by (simp add: h_def stamp_bytes_def Let_def)
  obtain tl where u: "uuidv7 ms rand = take 8 h @ ''-'' @ drop 8 h @ ''-'' @ tl"
    using uuidv7_stamp [OF assms(2), of ms] by (auto simp: h_def)
  have hex: "slice 0 8 (uuidv7 ms rand) @ slice 9 13 (uuidv7 ms rand) = h"
    using len by (simp add: u slice_def)
  have "take 4 h @ drop 4 h = h" by simp
  moreover have "slice 0 4 h = take 4 h" "slice 4 12 h = drop 4 h"
    using len by (simp_all add: slice_def)
  ultimately show ?thesis
    using parse_hex_stamp [OF assms(1)] isUuidv7_uuidv7 [OF assms(2), of ms]
    by (simp add: timestampFromUuidv7_def Let_def hex h_def mult.commute)
qed

theorem timestamp_roundtrip_witness:
  "timestampFromUuidv7 (uuidv7 1735689600000 (replicate 10 255)) = Inr 1735689600000"
  by (rule timestamp_roundtrip) simp_all

text \<open>Identifiers sort lexicographically by creation time: a later millisecond gives a greater
  identifier, whatever the random bytes.\<close>

theorem uuidv7_time_ordered:
  assumes "ms1 < ms2" and "ms2 < 2 ^ 48" and "length r1 = 10" and "length r2 = 10"
  shows "uuidv7 ms1 r1 < uuidv7 ms2 r2"
proof -
  let ?h = "\<lambda>ms. bytesToHex (stamp_bytes ms)"
  have len: "length (?h ms) = 12" "length (stamp_bytes ms) = 6" for ms
    by (simp_all add: stamp_bytes_def Let_def)
  have "?h ms1 < ?h ms2"
    by (rule bytesToHex_less) (use assms in \<open>simp_all add: parse_hex_stamp(1) len\<close>)
  then have lt: "take 8 (?h ms1) @ drop 8 (?h ms1) < take 8 (?h ms2) @ drop 8 (?h ms2)" by simp
  obtain t1 where u1: "uuidv7 ms1 r1 = take 8 (?h ms1) @ ''-'' @ drop 8 (?h ms1) @ ''-'' @ t1"
    using uuidv7_stamp [OF assms(3), of ms1] by blast
  obtain t2 where u2: "uuidv7 ms2 r2 = take 8 (?h ms2) @ ''-'' @ drop 8 (?h ms2) @ ''-'' @ t2"
    using uuidv7_stamp [OF assms(4), of ms2] by blast
  show ?thesis unfolding u1 u2
    by (rule list_less_dash [OF _ _ lt]) (simp_all only: length_take length_drop len)
qed

theorem uuidv7_time_ordered_witness:
  "uuidv7 4294967295 (replicate 10 255) < uuidv7 4294967296 (replicate 10 0)"
  by (rule uuidv7_time_ordered) simp_all

end
