(* ===== verification/Json_Value.thy ===== *)
theory Json_Value
  imports Tasq_Prelude "HOL-Library.Multiset"
begin

text \<open>
  JSON values and their canonical text (\<open>packages/tasq-core/src/util/canonical-json.ts\<close>), on
  which every request digest rests, and the shallow record difference
  (\<open>packages/tasq-core/src/util/diff.ts\<close>) that update events carry. Numbers are integers; an
  object is the list of its entries in insertion order; \<open>JUndef\<close> is JavaScript's \<open>undefined\<close>.
\<close>

datatype json =
    JUndef
  | JNull
  | JBool bool
  | JInt int
  | JStr string
  | JArr "json list"
  | JObj "(string \<times> json) list"

text \<open>\<open>JSON.stringify\<close> of a string.\<close>

definition json_esc :: "char \<Rightarrow> string" where
  "json_esc c = (let n = (of_char c :: nat) in
     if n = 34 then [CHR 0x5C, CHR 0x22]
     else if n = 92 then [CHR 0x5C, CHR 0x5C]
     else if n = 8 then CHR 0x5C # ''b''
     else if n = 9 then CHR 0x5C # ''t''
     else if n = 10 then CHR 0x5C # ''n''
     else if n = 12 then CHR 0x5C # ''f''
     else if n = 13 then CHR 0x5C # ''r''
     else if n < 32 then CHR 0x5C # ''u00'' @ [if n < 16 then CHR ''0'' else CHR ''1''] @
       [if n mod 16 < 10 then char_of (48 + n mod 16) else char_of (87 + n mod 16)]
     else [c])"

definition json_quote :: "string \<Rightarrow> string" where
  "json_quote s = CHR 0x22 # concat (map json_esc s) @ [CHR 0x22]"

text \<open>The entries of an object in the order \<open>canonicalJson\<close> prints them.\<close>

definition sorted_entries :: "(string \<times> json) list \<Rightarrow> (string \<times> json) list" where
  "sorted_entries kvs = sort_key fst (filter (\<lambda>(k, v). v \<noteq> JUndef) kvs)"

lemma set_sorted_entries: "set (sorted_entries kvs) = {(k, v) \<in> set kvs. v \<noteq> JUndef}"
  by (auto simp: sorted_entries_def)

lemma size_entries: "(k, v) \<in> set kvs \<Longrightarrow> size v < size_list (\<lambda>x. Suc (size (snd x))) kvs"
  by (induction kvs) auto

lemma size_sorted_entries [termination_simp]:
  "(k, v) \<in> set (sorted_entries kvs) \<Longrightarrow> size v < Suc (size_list (\<lambda>x. Suc (size (snd x))) kvs)"
  using size_entries [of k v kvs] by (simp add: set_sorted_entries)

fun canonicalJson :: "json \<Rightarrow> string" where
  "canonicalJson (JArr xs) = ''['' @ join_with '','' (map canonicalJson xs) @ '']''"
| "canonicalJson JUndef = ''null''"
| "canonicalJson JNull = ''null''"
| "canonicalJson (JStr s) = json_quote s"
| "canonicalJson (JBool b) = (if b then ''true'' else ''false'')"
| "canonicalJson (JInt n) = dec_int n"
| "canonicalJson (JObj kvs) = ''{'' @
     join_with '','' (map (\<lambda>(k, v). json_quote k @ '':'' @ canonicalJson v) (sorted_entries kvs)) @ ''}''"


text \<open>\<open>stableSerialize\<close> of \<open>service/tasks.ts\<close> differs in the order of the entries only: keys are
  compared by \<open>localeCompare\<close>, a parameter \<open>le\<close>. The sort is stable.\<close>

fun insert_by :: "('a \<Rightarrow> 'a \<Rightarrow> bool) \<Rightarrow> 'a \<Rightarrow> 'a list \<Rightarrow> 'a list" where
  "insert_by le x [] = [x]"
| "insert_by le x (y # ys) = (if le x y then x # y # ys else y # insert_by le x ys)"

definition sort_by :: "('a \<Rightarrow> 'a \<Rightarrow> bool) \<Rightarrow> 'a list \<Rightarrow> 'a list" where
  "sort_by le xs = foldr (insert_by le) xs []"

lemma set_insert_by [simp]: "set (insert_by le x xs) = insert x (set xs)"
  by (induction xs) auto

lemma set_sort_by [simp]: "set (sort_by le xs) = set xs"
  by (induction xs) (auto simp: sort_by_def)

definition locale_entries :: "(string \<Rightarrow> string \<Rightarrow> bool) \<Rightarrow> (string \<times> json) list \<Rightarrow> (string \<times> json) list" where
  "locale_entries le kvs = sort_by (\<lambda>a b. le (fst a) (fst b)) (filter (\<lambda>(k, v). v \<noteq> JUndef) kvs)"

lemma size_locale_entries [termination_simp]:
  "(k, v) \<in> set (locale_entries le kvs) \<Longrightarrow> size v < Suc (size_list (\<lambda>x. Suc (size (snd x))) kvs)"
  using size_entries [of k v kvs] by (simp add: locale_entries_def)

fun stableSerialize :: "(string \<Rightarrow> string \<Rightarrow> bool) \<Rightarrow> json \<Rightarrow> string" where
  "stableSerialize le (JArr xs) = ''['' @ join_with '','' (map (stableSerialize le) xs) @ '']''"
| "stableSerialize le (JObj kvs) = ''{'' @ join_with '',''
     (map (\<lambda>(k, v). json_quote k @ '':'' @ stableSerialize le v) (locale_entries le kvs)) @ ''}''"
| "stableSerialize le JUndef = ''null''"
| "stableSerialize le JNull = ''null''"
| "stableSerialize le (JStr s) = json_quote s"
| "stableSerialize le (JBool b) = (if b then ''true'' else ''false'')"
| "stableSerialize le (JInt n) = dec_int n"

text \<open>\<open>JSON.stringify\<close>: insertion order, undefined entries dropped; \<open>undefined\<close> itself has no text.\<close>

fun json_text :: "json \<Rightarrow> string" where
  "json_text (JArr xs) = ''['' @ join_with '','' (map json_text xs) @ '']''"
| "json_text (JObj kvs) = ''{'' @ join_with '',''
     (map (\<lambda>(k, v). json_quote k @ '':'' @ json_text v) (filter (\<lambda>(k, v). v \<noteq> JUndef) kvs)) @ ''}''"
| "json_text JUndef = ''null''"
| "json_text JNull = ''null''"
| "json_text (JStr s) = json_quote s"
| "json_text (JBool b) = (if b then ''true'' else ''false'')"
| "json_text (JInt n) = dec_int n"

definition json_stringify :: "json \<Rightarrow> string option" where
  "json_stringify v = (if v = JUndef then None else Some (json_text v))"

text \<open>A nullable and an optional field of an object literal.\<close>

definition nullable :: "('a \<Rightarrow> json) \<Rightarrow> 'a option \<Rightarrow> json" where
  "nullable j x = (case x of None \<Rightarrow> JNull | Some v \<Rightarrow> j v)"

definition optional :: "('a \<Rightarrow> json) \<Rightarrow> 'a option \<Rightarrow> json" where
  "optional j x = (case x of None \<Rightarrow> JUndef | Some v \<Rightarrow> j v)"

text \<open>Reading a key of an object, and the shallow difference of two records: the entries of either
  that print differently, with the value before and the value after.\<close>

definition obj_get :: "(string \<times> json) list \<Rightarrow> string \<Rightarrow> json" where
  "obj_get r k = (case map_of r k of None \<Rightarrow> JUndef | Some v \<Rightarrow> v)"

definition diffRecords ::
  "(string \<times> json) list \<Rightarrow> (string \<times> json) list \<Rightarrow> (string \<times> json) list \<times> (string \<times> json) list" where
  "diffRecords before after =
     (let keys = rev (remdups (rev (map fst before @ map fst after)));
          ks = filter (\<lambda>k. json_stringify (obj_get before k) \<noteq> json_stringify (obj_get after k)) keys
      in (map (\<lambda>k. (k, obj_get before k)) ks, map (\<lambda>k. (k, obj_get after k)) ks))"

text \<open>The canonical form of a value: entries sorted by key, undefined entries dropped, an undefined
  element or value turned into \<open>null\<close>. \<open>canonicalJson\<close> prints it; two values have the same
  text exactly when they have the same canonical form.\<close>

fun json_norm :: "json \<Rightarrow> json" where
  "json_norm (JArr xs) = JArr (map json_norm xs)"
| "json_norm JUndef = JNull"
| "json_norm (JObj kvs) = JObj (map (\<lambda>(k, v). (k, json_norm v)) (sorted_entries kvs))"
| "json_norm v = v"

text \<open>Printing a value as it stands.\<close>

fun json_print :: "json \<Rightarrow> string" where
  "json_print (JArr xs) = ''['' @ join_with '','' (map json_print xs) @ '']''"
| "json_print JUndef = ''null''"
| "json_print JNull = ''null''"
| "json_print (JStr s) = json_quote s"
| "json_print (JBool b) = (if b then ''true'' else ''false'')"
| "json_print (JInt n) = dec_int n"
| "json_print (JObj kvs) = ''{'' @
     join_with '','' (map (\<lambda>(k, v). json_quote k @ '':'' @ json_print v) kvs) @ ''}''"

lemma canonicalJson_print: "canonicalJson v = json_print (json_norm v)"
proof (induction v rule: canonicalJson.induct)
  case (7 kvs)
  then have "map (\<lambda>(k, v). json_quote k @ '':'' @ canonicalJson v) (sorted_entries kvs) =
      map (\<lambda>(k, v). json_quote k @ '':'' @ json_print v) (map (\<lambda>(k, v). (k, json_norm v)) (sorted_entries kvs))"
    by (auto simp: comp_def)
  then show ?case by (simp only: canonicalJson.simps json_norm.simps json_print.simps)
qed (auto simp: comp_def cong: map_cong)

fun json_defined :: "json \<Rightarrow> bool" where
  "json_defined JUndef \<longleftrightarrow> False"
| "json_defined (JArr xs) \<longleftrightarrow> (\<forall>x \<in> set xs. json_defined x)"
| "json_defined (JObj kvs) \<longleftrightarrow> (\<forall>(k, v) \<in> set kvs. json_defined v)"
| "json_defined _ \<longleftrightarrow> True"

lemma json_defined_norm: "json_defined (json_norm v)"
  by (induction v rule: json_norm.induct) auto

section \<open>Unique readability\<close>

definition is_digit :: "char \<Rightarrow> bool" where
  "is_digit c \<longleftrightarrow> c \<in> set ''0123456789''"

text \<open>A text that may follow a printed value does not go on with a digit.\<close>

definition stops :: "string \<Rightarrow> bool" where
  "stops s \<longleftrightarrow> (case s of [] \<Rightarrow> True | c # _ \<Rightarrow> \<not> is_digit c)"

lemma stops_simps [simp]: "stops []" "stops (c # s) \<longleftrightarrow> \<not> is_digit c"
  by (simp_all add: stops_def)

lemma digit_char_is_digit [simp]: "n < 10 \<Longrightarrow> is_digit (digit_char n)"
proof -
  have "\<forall>n \<in> set [0..<10]. is_digit (digit_char n)" by code_simp
  then show "n < 10 \<Longrightarrow> is_digit (digit_char n)" by simp
qed

lemma digit_char_inj: "m < 10 \<Longrightarrow> n < 10 \<Longrightarrow> digit_char m = digit_char n \<Longrightarrow> m = n"
proof -
  have "\<forall>m \<in> set [0..<10]. \<forall>n \<in> set [0..<10]. digit_char m = digit_char n \<longrightarrow> m = n" by code_simp
  then show "m < 10 \<Longrightarrow> n < 10 \<Longrightarrow> digit_char m = digit_char n \<Longrightarrow> m = n" by simp
qed

lemma dec_nat_digits: "\<forall>c \<in> set (dec_nat n). is_digit c"
proof (induction n rule: dec_nat.induct)
  case (1 n) then show ?case by (subst dec_nat.simps) auto
qed

lemma dec_nat_nonempty [simp]: "dec_nat n \<noteq> []"
  by (subst dec_nat.simps) simp

lemma digits_split:
  "\<forall>c \<in> set xs. is_digit c \<Longrightarrow> \<forall>c \<in> set ys. is_digit c \<Longrightarrow> stops s \<Longrightarrow> stops t \<Longrightarrow>
    xs @ s = ys @ t \<Longrightarrow> xs = ys \<and> s = t"
proof (induction xs arbitrary: ys)
  case Nil then show ?case by (cases ys) auto
next
  case (Cons x xs) then show ?case by (cases ys) auto
qed

lemma dec_nat_inj: "dec_nat m = dec_nat n \<Longrightarrow> m = n"
proof (induction m arbitrary: n rule: dec_nat.induct)
  case (1 m)
  have "m < 10 \<longleftrightarrow> n < 10" using 1(2)
    using dec_nat_nonempty [of "m div 10"] dec_nat_nonempty [of "n div 10"]
    by (auto simp: dec_nat.simps [of m] dec_nat.simps [of n] append_eq_Cons_conv Cons_eq_append_conv split: if_splits)
  show ?case
  proof (cases "m < 10")
    case True with \<open>m < 10 \<longleftrightarrow> n < 10\<close> 1(2) show ?thesis
      by (simp add: dec_nat.simps [of m] dec_nat.simps [of n] digit_char_inj)
  next
    case False
    with \<open>m < 10 \<longleftrightarrow> n < 10\<close> 1(2) have "dec_nat (m div 10) = dec_nat (n div 10)"
      "digit_char (m mod 10) = digit_char (n mod 10)"
      by (simp_all add: dec_nat.simps [of m] dec_nat.simps [of n])
    with 1(1) [OF False] have "m div 10 = n div 10" "m mod 10 = n mod 10"
      by (auto intro: digit_char_inj)
    then show ?thesis by (metis div_mult_mod_eq)
  qed
qed

lemma dec_int_split:
  assumes "dec_int m @ s = dec_int n @ t" and "stops s" and "stops t"
  shows "m = n \<and> s = t"
proof -
  have neg: "dec_nat k @ u \<noteq> CHR ''-'' # w" for k u w
    using dec_nat_digits [of k] dec_nat_nonempty [of k]
    by (cases "dec_nat k") (auto simp: is_digit_def)
  have "(m < 0) = (n < 0)" using assms(1) neg by (auto simp: dec_int_def dest: sym split: if_splits)
  moreover have "dec_nat (nat \<bar>m\<bar>) @ s = dec_nat (nat \<bar>n\<bar>) @ t"
    using assms(1) calculation by (auto simp: dec_int_def split: if_splits)
  then have "nat \<bar>m\<bar> = nat \<bar>n\<bar> \<and> s = t"
    using digits_split [OF dec_nat_digits dec_nat_digits assms(2,3)] dec_nat_inj by blast
  ultimately show ?thesis by auto
qed


text \<open>Reading one escaped character back.\<close>

definition json_unesc :: "string \<Rightarrow> (char \<times> string) option" where
  "json_unesc s = (case s of
     [] \<Rightarrow> None
   | c # u \<Rightarrow>
       if c \<noteq> CHR 0x5C then Some (c, u)
       else (case u of
          [] \<Rightarrow> None
        | d # w \<Rightarrow>
            if d = CHR ''u'' then
              Some (char_of ((if w ! 2 = CHR ''0'' then 0 else 16) +
                (let k = (of_char (w ! 3) :: nat) in if k < 60 then k - 48 else k - 87)), drop 4 w)
            else Some (if d = CHR ''b'' then char_of (8 :: nat) else if d = CHR ''t'' then char_of (9 :: nat)
              else if d = CHR ''n'' then char_of (10 :: nat) else if d = CHR ''f'' then char_of (12 :: nat)
              else if d = CHR ''r'' then char_of (13 :: nat) else d, w)))"

lemma json_unesc_control:
  "n < 32 \<Longrightarrow> json_unesc (json_esc (char_of (n :: nat)) @ u) = Some (char_of n, u)"
proof -
  have "list_all (\<lambda>n. json_unesc (json_esc (char_of n) @ u) = Some (char_of n, u)) [0..<32]"
    by (simp add: upt_rec json_unesc_def json_esc_def Let_def)
  then show "n < 32 \<Longrightarrow> ?thesis" by (simp add: list_all_iff)
qed

lemma json_unesc: "json_unesc (json_esc c @ u) = Some (c, u)"
proof (cases "(of_char c :: nat) < 32")
  case True
  with json_unesc_control [OF True, of u] show ?thesis by simp
next
  case False
  have eq: "(of_char c :: nat) = n \<Longrightarrow> c = char_of n" for n by auto
  have "char_of (92 :: nat) = CHR 0x5C" "char_of (34 :: nat) = CHR 0x22" by code_simp+
  with eq [of 92] eq [of 34]
  have "(of_char c :: nat) = 92 \<Longrightarrow> c = CHR 0x5C" "(of_char c :: nat) = 34 \<Longrightarrow> c = CHR 0x22" by metis+
  with False have plain: "c \<noteq> CHR 0x5C \<Longrightarrow> c \<noteq> CHR 0x22 \<Longrightarrow> json_esc c = [c]"
    by (auto simp: json_esc_def Let_def)
  have esc: "json_esc (CHR 0x5C) = [CHR 0x5C, CHR 0x5C]" "json_esc (CHR 0x22) = [CHR 0x5C, CHR 0x22]"
    by code_simp+
  show ?thesis
    by (cases "c = CHR 0x5C"; cases "c = CHR 0x22") (simp_all add: plain esc json_unesc_def)
qed

lemma json_esc_not_quote: "json_esc c @ u \<noteq> CHR 0x22 # w"
proof
  assume a: "json_esc c @ u = CHR 0x22 # w"
  then have "c = CHR 0x22" using json_unesc [of c u] by (simp add: json_unesc_def)
  moreover have "json_esc (CHR 0x22) = [CHR 0x5C, CHR 0x22]" by code_simp
  ultimately show False using a by simp
qed

lemma json_esc_split: "json_esc c @ u = json_esc d @ w \<Longrightarrow> c = d \<and> u = w"
  by (metis json_unesc option.inject prod.inject)

lemma json_quote_split: "json_quote a @ s = json_quote b @ t \<Longrightarrow> a = b \<and> s = t"
proof -
  have "concat (map json_esc a) @ CHR 0x22 # s = concat (map json_esc b) @ CHR 0x22 # t \<Longrightarrow> a = b \<and> s = t"
  proof (induction a arbitrary: b)
    case Nil then show ?case
      by (cases b) (auto dest: sym [THEN json_esc_not_quote [THEN notE]])
  next
    case (Cons c a)
    then obtain d b' where b: "b = d # b'" by (cases b) (auto simp: json_esc_not_quote)
    with Cons.prems json_esc_split [of c "concat (map json_esc a) @ CHR 0x22 # s" d
        "concat (map json_esc b') @ CHR 0x22 # t"] Cons.IH [of b'] show ?case by simp
  qed
  then show "json_quote a @ s = json_quote b @ t \<Longrightarrow> a = b \<and> s = t"
    by (simp add: json_quote_def)
qed


text \<open>Reading back a list of printed elements: every element is readable, and the text that follows
  a list starts with neither a comma nor anything an element may start with.\<close>

lemma join_with_Cons: "join_with sep (x # xs) = x @ (if xs = [] then [] else sep @ join_with sep xs)"
  by (cases xs) auto

lemma join_split:
  assumes "join_with '','' (map pr xs) @ c # s = join_with '','' (map pr ys) @ c # t"
    and "\<And>x y s t. x \<in> set xs \<Longrightarrow> y \<in> set ys \<Longrightarrow> pr x @ s = pr y @ t \<Longrightarrow> stops s \<Longrightarrow> stops t \<Longrightarrow>
      x = y \<and> s = t"
    and close: "\<not> is_digit c" "c \<noteq> CHR '',''" "\<And>x u w. pr x @ u \<noteq> c # w"
  shows "xs = ys \<and> s = t"
  using assms(1,2)
proof (induction xs arbitrary: ys)
  case Nil
  then show ?case using close(3) by (cases ys) (auto simp: join_with_Cons dest: sym)
next
  case (Cons x xs)
  then obtain y ys' where ys: "ys = y # ys'"
    using close(3) [of x _ t] by (cases ys) (auto simp: join_with_Cons)
  let ?r = "\<lambda>xs s. (if xs = [] then [] else '','' @ join_with '','' (map pr xs)) @ c # s"
  have "pr x @ ?r xs s = pr y @ ?r ys' t"
    using Cons.prems(1) ys by (simp add: join_with_Cons)
  moreover have "stops (?r xs s)" "stops (?r ys' t)" using close(1) by (simp_all add: is_digit_def)
  ultimately have xy: "x = y" "?r xs s = ?r ys' t"
    using Cons.prems(2) [of x y "?r xs s" "?r ys' t"] ys by auto
  then have "(xs = []) = (ys' = [])" using close(2) by (auto split: if_splits)
  with xy(2) have "join_with '','' (map pr xs) @ c # s = join_with '','' (map pr ys') @ c # t"
    by (auto split: if_splits)
  with Cons.IH [of ys'] Cons.prems(2) ys have "xs = ys' \<and> s = t" by auto
  with xy ys show ?case by simp
qed

lemma dec_int_head: "\<exists>c r. dec_int n = c # r \<and> (is_digit c \<or> c = CHR ''-'')"
proof (cases "n < 0")
  case False
  then show ?thesis
    using dec_nat_digits [of "nat n"] dec_nat_nonempty [of "nat n"]
    by (cases "dec_nat (nat n)") (auto simp: dec_int_def)
qed (simp add: dec_int_def)

text \<open>The first character of a printed value tells its constructor.\<close>

definition tag_of_char :: "char \<Rightarrow> nat" where
  "tag_of_char c = (if c = CHR ''['' then 0 else if c = CHR ''n'' then 1 else if c = CHR 0x22 then 2
     else if c = CHR ''t'' then 3 else if c = CHR ''f'' then 4
     else if is_digit c \<or> c = CHR ''-'' then 5 else if c = CHR ''{'' then 6 else 7)"

definition json_tag :: "json \<Rightarrow> nat" where
  "json_tag v = (case v of JArr _ \<Rightarrow> 0 | JUndef \<Rightarrow> 1 | JNull \<Rightarrow> 1 | JStr _ \<Rightarrow> 2
     | JBool b \<Rightarrow> (if b then 3 else 4) | JInt _ \<Rightarrow> 5 | JObj _ \<Rightarrow> 6)"

lemma tag_of_digit: "is_digit c \<or> c = CHR ''-'' \<Longrightarrow> tag_of_char c = 5"
  by (auto simp: tag_of_char_def is_digit_def)

lemma json_print_head: "\<exists>c r. json_print v = c # r \<and> tag_of_char c = json_tag v"
proof (cases v)
  case (JInt n)
  obtain c r where "dec_int n = c # r" "is_digit c \<or> c = CHR ''-''" using dec_int_head by blast
  then show ?thesis using JInt tag_of_digit by (simp add: json_tag_def)
qed (simp_all add: json_tag_def json_quote_def tag_of_char_def is_digit_def)

lemma json_tag_less: "json_tag v < 7"
  by (cases v) (simp_all add: json_tag_def)

lemma json_print_not: "tag_of_char c = 7 \<Longrightarrow> json_print v @ u \<noteq> c # w"
  using json_print_head [of v] json_tag_less [of v] by auto

lemma json_print_same_tag: "json_print v @ s = json_print w @ t \<Longrightarrow> json_tag v = json_tag w"
  using json_print_head [of v] json_print_head [of w] by auto

lemma tag_close: "tag_of_char (CHR '']'') = 7" "tag_of_char (CHR ''}'') = 7"
  by code_simp+

lemma json_print_split:
  "json_defined v \<Longrightarrow> json_defined w \<Longrightarrow> json_print v @ s = json_print w @ t \<Longrightarrow> stops s \<Longrightarrow> stops t \<Longrightarrow>
    v = w \<and> s = t"
proof (induction v arbitrary: w s t)
  case (JArr xs)
  then obtain ys where w: "w = JArr ys"
    using json_print_same_tag [OF JArr.prems(3)] by (cases w) (auto simp: json_tag_def split: if_splits)
  have join: "join_with '','' (map json_print xs) @ CHR '']'' # s = join_with '','' (map json_print ys) @ CHR '']'' # t"
    using JArr.prems(3) w by simp
  have step: "x = y \<and> s = t" if "x \<in> set xs" "y \<in> set ys" "json_print x @ s = json_print y @ t"
      "stops s" "stops t" for x y s t
    using JArr.IH [OF that(1) _ _ that(3-5)] JArr.prems(1,2) that(1,2) w by simp
  have "xs = ys \<and> s = t"
    by (rule join_split [OF join step]) (simp_all add: json_print_not tag_close is_digit_def)
  with w show ?case by simp
next
  case (JObj kvs)
  then obtain kws where w: "w = JObj kws"
    using json_print_same_tag [OF JObj.prems(3)] by (cases w) (auto simp: json_tag_def split: if_splits)
  let ?pr = "\<lambda>(k, v). json_quote k @ '':'' @ json_print v"
  have join: "join_with '','' (map ?pr kvs) @ CHR ''}'' # s = join_with '','' (map ?pr kws) @ CHR ''}'' # t"
    using JObj.prems(3) w by simp
  have step: "x = y \<and> s = t" if "x \<in> set kvs" "y \<in> set kws" "?pr x @ s = ?pr y @ t"
      "stops s" "stops t" for x y s t
  proof -
    obtain k v k' v' where xy: "x = (k, v)" "y = (k', v')" by fastforce
    with that(3) have "json_quote k @ CHR '':'' # json_print v @ s = json_quote k' @ CHR '':'' # json_print v' @ t"
      by simp
    then have "k = k'" "json_print v @ s = json_print v' @ t" using json_quote_split by blast+
    moreover have "json_defined v" "json_defined v'" using JObj.prems(1,2) that(1,2) w xy by auto
    ultimately show ?thesis using JObj.IH [of x v v' s t] that xy by (simp add: snds.simps)
  qed
  have "kvs = kws \<and> s = t"
    by (rule join_split [OF join step]) (auto simp: json_quote_def is_digit_def)
  with w show ?case by simp
next
  case JUndef then show ?case by simp
next
  case JNull then show ?case
    using json_print_same_tag [OF JNull.prems(3)] by (cases w) (auto simp: json_tag_def split: if_splits)
next
  case (JBool b) then show ?case
    using json_print_same_tag [OF JBool.prems(3)] by (cases w) (auto simp: json_tag_def split: if_splits)
next
  case (JInt n) then show ?case
    using json_print_same_tag [OF JInt.prems(3)]
    by (cases w) (auto simp: json_tag_def dest: dec_int_split split: if_splits)
next
  case (JStr n) then show ?case
    using json_print_same_tag [OF JStr.prems(3)]
    by (cases w) (auto simp: json_tag_def dest: json_quote_split split: if_splits)
qed

section \<open>Properties\<close>

lemma sorted_entries_perm:
  assumes "distinct (map fst kvs)" and "mset kvs = mset kws"
  shows "sorted_entries kvs = sorted_entries kws"
proof (rule map_sorted_distinct_set_unique [where f = fst])
  have d: "distinct (map fst kws)" using assms by (metis mset_eq_imp_distinct_iff mset_map)
  have "mset (map fst (sorted_entries xs)) = mset (map fst (filter (\<lambda>(k, v). v \<noteq> JUndef) xs))" for xs
    by (simp add: sorted_entries_def)
  then have "distinct (map fst xs) \<Longrightarrow> distinct (map fst (sorted_entries xs))" for xs
    by (metis distinct_map_filter mset_eq_imp_distinct_iff)
  with assms(1) d show "distinct (map fst (sorted_entries kvs))" "distinct (map fst (sorted_entries kws))"
    by blast+
  show set: "set (sorted_entries kvs) = set (sorted_entries kws)"
    using mset_eq_setD [OF assms(2)] by (simp add: set_sorted_entries)
  have "inj_on fst (set (sorted_entries kvs))"
    using assms(1) inj_on_subset [of fst "set kvs" "set (sorted_entries kvs)"]
    by (auto simp: distinct_map set_sorted_entries)
  with set show "inj_on fst (set (sorted_entries kvs) \<union> set (sorted_entries kws))" by simp
qed (simp_all add: sorted_entries_def)

lemma canonicalJson_eq_iff: "canonicalJson v = canonicalJson w \<longleftrightarrow> json_norm v = json_norm w"
proof
  assume "canonicalJson v = canonicalJson w"
  then have "json_print (json_norm v) @ [] = json_print (json_norm w) @ []"
    by (simp add: canonicalJson_print)
  then show "json_norm v = json_norm w"
    by (rule json_print_split [OF json_defined_norm json_defined_norm, THEN conjunct1]) simp_all
qed (simp add: canonicalJson_print)


text \<open>The order in which the entries of an object were inserted does not change its canonical
  text.\<close>

theorem canonicalJson_key_order:
  assumes "distinct (map fst kvs)" and "mset kvs = mset kws"
  shows "canonicalJson (JObj kvs) = canonicalJson (JObj kws)"
  using sorted_entries_perm [OF assms] by simp

theorem canonicalJson_key_order_witness:
  "canonicalJson (JObj [(''b'', JInt 1), (''a'', JNull)]) = canonicalJson (JObj [(''a'', JNull), (''b'', JInt 1)])"
  by (rule canonicalJson_key_order) simp_all

end
