(* ===== verification/Effect_Rows.thy ===== *)
theory Effect_Rows
  imports Json_Value
begin

text \<open>
  The rows of the effect ledger (\<open>packages/tasq-schema/src/tables.ts\<close>, \<open>effects.ts\<close>): effects with
  their exact request, decisions about them, and the receipts of connectors. A column that holds
  JSON text is the value it encodes; the canonical text of a request and of a report, which their
  integrity rests on, is kept beside the value. Columns that repeat a part of the request or of the
  report are read from there.
\<close>

type_synonym json_object = "(string \<times> json) list"

datatype effect_status = EffectProposed | EffectAuthorized | EffectExecuting | EffectCommitted | EffectFailed |
  EffectIndeterminate | EffectCancelled

datatype approval_decision = ApprovalApproved | ApprovalDenied | ApprovalRevoked

datatype verification_level = SelfAsserted | AuthenticatedContext | Cryptographic

datatype receipt_outcome = ReceiptCommitted | ReceiptFailed | ReceiptIndeterminate

datatype receipt_coverage = ProviderAccount | ProviderOperation | RequestIdentity | OutcomeCoverage

fun effect_status_text :: "effect_status \<Rightarrow> string" where
  "effect_status_text EffectProposed = ''proposed''"
| "effect_status_text EffectAuthorized = ''authorized''"
| "effect_status_text EffectExecuting = ''executing''"
| "effect_status_text EffectCommitted = ''committed''"
| "effect_status_text EffectFailed = ''failed''"
| "effect_status_text EffectIndeterminate = ''indeterminate''"
| "effect_status_text EffectCancelled = ''cancelled''"

fun approval_decision_text :: "approval_decision \<Rightarrow> string" where
  "approval_decision_text ApprovalApproved = ''approved''"
| "approval_decision_text ApprovalDenied = ''denied''"
| "approval_decision_text ApprovalRevoked = ''revoked''"

fun verification_level_text :: "verification_level \<Rightarrow> string" where
  "verification_level_text SelfAsserted = ''self_asserted''"
| "verification_level_text AuthenticatedContext = ''authenticated_context''"
| "verification_level_text Cryptographic = ''cryptographic''"

fun receipt_outcome_text :: "receipt_outcome \<Rightarrow> string" where
  "receipt_outcome_text ReceiptCommitted = ''committed''"
| "receipt_outcome_text ReceiptFailed = ''failed''"
| "receipt_outcome_text ReceiptIndeterminate = ''indeterminate''"

fun receipt_coverage_text :: "receipt_coverage \<Rightarrow> string" where
  "receipt_coverage_text ProviderAccount = ''provider_account''"
| "receipt_coverage_text ProviderOperation = ''provider_operation''"
| "receipt_coverage_text RequestIdentity = ''request_identity''"
| "receipt_coverage_text OutcomeCoverage = ''outcome''"

record secret_binding =
  sx_name :: string
  sx_ref :: string
  sx_version :: string
  sx_contentDigest :: "string option"

record connector_binding =
  kb_operationUri :: string
  kb_operationVersion :: int
  kb_contractDigest :: string
  kb_instanceRef :: string
  kb_bindingDigest :: string

record effect_request =
  fq_workspaceId :: string
  fq_effectTypeUri :: string
  fq_effectSchemaVersion :: int
  fq_connector :: connector_binding
  fq_parameters :: json_object
  fq_secretBindings :: "secret_binding list"

record effect =
  fx_id :: string
  fx_tenantId :: string
  fx_taskId :: string
  fx_attemptId :: "string option"
  fx_request :: effect_request
  fx_canonicalRequest :: string
  fx_requestDigest :: string
  fx_dispatchIdempotencyKey :: string
  fx_status :: effect_status
  fx_authorizedByApprovalId :: "string option"
  fx_outcomeReceiptId :: "string option"
  fx_claimId :: "string option"
  fx_fence :: "int option"
  fx_supersedesEffectId :: "string option"
  fx_compensationOfEffectId :: "string option"
  fx_createdByPrincipalId :: string
  fx_revision :: int
  fx_authorizedAt :: "int option"
  fx_executionStartedAt :: "int option"
  fx_indeterminateAt :: "int option"
  fx_resolvedAt :: "int option"
  fx_cancelledAt :: "int option"
  fx_cancelReason :: "string option"
  fx_createdAt :: int
  fx_updatedAt :: int

record effect_approval =
  fa_id :: string
  fa_tenantId :: string
  fa_effectId :: string
  fa_requestDigest :: string
  fa_approverPrincipalId :: string
  fa_decision :: approval_decision
  fa_scope :: json_object
  fa_limits :: json_object
  fa_validFrom :: "int option"
  fa_expiresAt :: "int option"
  fa_verificationLevel :: verification_level
  fa_verificationMethod :: string
  fa_verification :: json_object
  fa_supersedesApprovalId :: "string option"
  fa_decidedAt :: int

record effect_report =
  fr_workspaceId :: string
  fr_effectId :: string
  fr_requestDigest :: string
  fr_dispatchIdempotencyKey :: string
  fr_approvalId :: string
  fr_claimId :: string
  fr_fence :: int
  fr_connectorInstanceRef :: string
  fr_connectorBindingDigest :: string
  fr_externalReceiptId :: string
  fr_providerOperationId :: "string option"
  fr_outcome :: receipt_outcome
  fr_occurredAt :: int
  fr_rawRef :: string
  fr_rawDigest :: string
  fr_payload :: json_object
  fr_resolvesReceiptId :: "string option"

record effect_receipt =
  fc_id :: string
  fc_tenantId :: string
  fc_effectId :: string
  fc_taskId :: string
  fc_attemptId :: string
  fc_approvalId :: string
  fc_evidenceId :: string
  fc_report :: effect_report
  fc_canonicalReport :: string
  fc_receiptDigest :: string
  fc_verificationLevel :: verification_level
  fc_verificationMethod :: string
  fc_coverage :: "receipt_coverage list"
  fc_verification :: json_object
  fc_recordedByPrincipalId :: string
  fc_recordedAt :: int

text \<open>The registration of a type by an extension, as far as effects look at it.\<close>

record extension_type =
  ft_id :: string
  ft_tenantId :: string
  ft_recordKind :: string
  ft_typeUri :: string
  ft_schemaVersion :: int

end
