(* ===== verification/Store.thy ===== *)
theory Store
  imports Effect_Rows
begin

text \<open>
  The state of a ledger: the rows of its tables (\<open>packages/tasq-schema/src/tables.ts\<close>), the
  constants and enumerations of \<open>types.ts\<close>, the errors a mutation can raise, and transactions
  (\<open>packages/tasq-core/src/db.ts\<close>). Identifiers are strings, times are unix milliseconds. Field
  names carry the initial of their table. Unique indexes and primary keys are checked by the
  insertion functions, as are the lifecycle and chronology \<open>CHECK\<close> constraints of claims, attempts
  and leases; column types and enumerations are carried by the HOL types.
\<close>

type_synonym metadata = "(string \<times> json) list"

section \<open>Enumerations\<close>

datatype task_status = Open | InProgress | Blocked | Done | Cancelled

datatype completion_mode = Assertion | EvidenceMode

datatype attempt_status = Running | InputRequired | Succeeded | Failed | AttemptCancelled

datatype principal_kind = Human | Agent | Service | Runtime

datatype principal_status = Enabled | Disabled

datatype recurrence_unit = Daily | Weekly | Monthly | Yearly

datatype recurrence_anchor = AnchorDue | AnchorScheduled | AnchorCompletion

datatype wait_status = Waiting | Satisfied | Expired | WaitCancelled

datatype assignment_status = Proposed | Accepted | Rejected | Revoked | AssignmentReleased

datatype retention_class = Standard | Durable

datatype policy_kind = Deterministic | Attestation | Optimistic | Adjudicated

datatype validation_outcome = OutAccepted | OutRejected | OutTooEarly | OutIndeterminate | OutChallenged

datatype authenticity = Unverified | AuthenticatedPrincipal | AuthenticatedSource | ProviderVerified

datatype trust_action = Attest | Revoke

fun task_status_text :: "task_status \<Rightarrow> string" where
  "task_status_text Open = ''open''"
| "task_status_text InProgress = ''in_progress''"
| "task_status_text Blocked = ''blocked''"
| "task_status_text Done = ''done''"
| "task_status_text Cancelled = ''cancelled''"

fun completion_mode_text :: "completion_mode \<Rightarrow> string" where
  "completion_mode_text Assertion = ''assertion''"
| "completion_mode_text EvidenceMode = ''evidence''"

fun attempt_status_text :: "attempt_status \<Rightarrow> string" where
  "attempt_status_text Running = ''running''"
| "attempt_status_text InputRequired = ''input_required''"
| "attempt_status_text Succeeded = ''succeeded''"
| "attempt_status_text Failed = ''failed''"
| "attempt_status_text AttemptCancelled = ''cancelled''"

fun recurrence_unit_text :: "recurrence_unit \<Rightarrow> string" where
  "recurrence_unit_text Daily = ''daily''"
| "recurrence_unit_text Weekly = ''weekly''"
| "recurrence_unit_text Monthly = ''monthly''"
| "recurrence_unit_text Yearly = ''yearly''"

fun recurrence_anchor_text :: "recurrence_anchor \<Rightarrow> string" where
  "recurrence_anchor_text AnchorDue = ''due''"
| "recurrence_anchor_text AnchorScheduled = ''scheduled''"
| "recurrence_anchor_text AnchorCompletion = ''completion''"

definition LEGACY_DEFAULT_WORKSPACE_ID :: string where
  "LEGACY_DEFAULT_WORKSPACE_ID = ''gwendall''"

definition MAX_TASK_DEPTH :: nat where
  "MAX_TASK_DEPTH = 5"

definition terminal :: "task_status \<Rightarrow> bool" where
  "terminal s \<longleftrightarrow> s = Done \<or> s = Cancelled"

definition active_attempt_status :: "attempt_status \<Rightarrow> bool" where
  "active_attempt_status s \<longleftrightarrow> s = Running \<or> s = InputRequired"

lemma terminal_simps [simp]:
  "\<not> terminal Open" "\<not> terminal InProgress" "\<not> terminal Blocked" "terminal Done" "terminal Cancelled"
  by (simp_all add: terminal_def)

lemma active_attempt_status_simps [simp]:
  "active_attempt_status Running" "active_attempt_status InputRequired"
  "\<not> active_attempt_status Succeeded" "\<not> active_attempt_status Failed"
  "\<not> active_attempt_status AttemptCancelled"
  by (simp_all add: active_attempt_status_def)

section \<open>Rows\<close>

record principal =
  p_id :: string
  p_tenantId :: string
  p_kind :: principal_kind
  p_displayName :: string
  p_localAlias :: "string option"
  p_status :: principal_status
  p_metadata :: metadata
  p_revision :: int
  p_createdAt :: int
  p_updatedAt :: int

record task =
  t_id :: string
  t_tenantId :: string
  t_projectId :: "string option"
  t_goalId :: "string option"
  t_areaId :: "string option"
  t_parentTaskId :: "string option"
  t_title :: string
  t_description :: "string option"
  t_nextAction :: "string option"
  t_successCriteria :: "string option"
  t_completionMode :: completion_mode
  t_validationRequired :: bool
  t_status :: task_status
  t_priority :: "int option"
  t_estimatedMinutes :: "int option"
  t_scheduledAt :: "int option"
  t_dueAt :: "int option"
  t_startedAt :: "int option"
  t_completedAt :: "int option"
  t_recurrence :: "recurrence_unit option"
  t_recurrenceInterval :: int
  t_recurrenceAnchor :: recurrence_anchor
  t_lastDoneAt :: "int option"
  t_streak :: int
  t_recurrenceParentId :: "string option"
  t_metadata :: metadata
  t_revision :: int
  t_createdAt :: int
  t_updatedAt :: int
  t_deletedAt :: "int option"

record event =
  ev_sequence :: int
  ev_id :: string
  ev_tenantId :: string
  ev_actor :: string
  ev_principalId :: string
  ev_entityType :: string
  ev_entityId :: string
  ev_eventType :: string
  ev_payload :: json
  ev_occurredAt :: "int option"
  ev_createdAt :: int

record task_claim =
  c_id :: string
  c_tenantId :: string
  c_taskId :: string
  c_actor :: string
  c_principalId :: "string option"
  c_revision :: int
  c_fence :: int
  c_acquiredAt :: int
  c_heartbeatAt :: int
  c_expiresAt :: int
  c_releasedAt :: "int option"
  c_releaseReason :: "string option"
  c_metadata :: metadata
  c_createdAt :: int
  c_updatedAt :: int

record task_attempt =
  a_id :: string
  a_tenantId :: string
  a_taskId :: string
  a_claimId :: "string option"
  a_actor :: string
  a_principalId :: "string option"
  a_revision :: int
  a_runtime :: string
  a_externalId :: "string option"
  a_contextId :: "string option"
  a_status :: attempt_status
  a_statusMessage :: "string option"
  a_startedAt :: int
  a_endedAt :: "int option"
  a_metadata :: metadata
  a_createdAt :: int
  a_updatedAt :: int

record task_evidence =
  e_id :: string
  e_tenantId :: string
  e_taskId :: string
  e_attemptId :: "string option"
  e_supersedesEvidenceId :: "string option"
  e_actor :: string
  e_principalId :: "string option"
  e_kind :: string
  e_summary :: "string option"
  e_uri :: "string option"
  e_digest :: "string option"
  e_source :: "string option"
  e_observedAt :: int
  e_metadata :: metadata
  e_createdAt :: int

record artifact =
  ar_id :: string
  ar_tenantId :: string
  ar_taskId :: string
  ar_attemptId :: "string option"
  ar_typeUri :: string
  ar_schemaVersion :: int
  ar_name :: string
  ar_mediaType :: "string option"
  ar_uri :: "string option"
  ar_digest :: string
  ar_inlineDataRef :: "string option"
  ar_createdByPrincipalId :: string
  ar_metadata :: metadata
  ar_createdAt :: int

record wait_condition =
  w_id :: string
  w_tenantId :: string
  w_taskId :: string
  w_kind :: string
  w_typeUri :: string
  w_schemaVersion :: int
  w_evaluatorUri :: string
  w_evaluatorVersion :: int
  w_evaluatorImplementationDigest :: string
  w_parameters :: json
  w_status :: wait_status
  w_notBefore :: int
  w_deadlineAt :: "int option"
  w_fallbackKind :: string
  w_fallbackSpec :: "json option"
  w_fallbackTargetTaskId :: "string option"
  w_fallbackResultTaskId :: "string option"
  w_supersedesConditionId :: "string option"
  w_satisfiedByObservationId :: "string option"
  w_satisfiedAt :: "int option"
  w_expiredAt :: "int option"
  w_cancelledAt :: "int option"
  w_cancelReason :: "string option"
  w_createdAt :: int
  w_updatedAt :: int

record criterion =
  cn_id :: string
  cn_statement :: string
  cn_minimumEvidenceCount :: int
  cn_acceptedEvidenceKinds :: "string list"
  cn_acceptedSources :: "string list"
  cn_minimumAuthenticity :: authenticity
  cn_maxAgeMs :: "int option"
  cn_minimumRetentionMs :: int
  cn_evaluatorInput :: metadata

record resolution_contract =
  rc_id :: string
  rc_tenantId :: string
  rc_taskId :: string
  rc_taskRevision :: int
  rc_successCriteriaSnapshot :: string
  rc_criteria :: "criterion list"
  rc_criteriaDigest :: string
  rc_policyKind :: policy_kind
  rc_policyUri :: string
  rc_policyVersion :: int
  rc_implementationDigest :: string
  rc_notBefore :: "int option"
  rc_challengeWindowMs :: int
  rc_allowSelfValidation :: bool
  rc_eligibleValidatorPrincipalIds :: "string list"
  rc_adjudicatorPrincipalIds :: "string list"
  rc_contractDigest :: string
  rc_createdByPrincipalId :: string
  rc_metadata :: metadata
  rc_createdAt :: int

record evidence_trust_record =
  tr_id :: string
  tr_tenantId :: string
  tr_taskId :: string
  tr_evidenceId :: string
  tr_action :: trust_action
  tr_authenticity :: authenticity
  tr_authorityUri :: string
  tr_authorityVersion :: int
  tr_authorityDigest :: string
  tr_supersedesTrustRecordId :: "string option"
  tr_reason :: string
  tr_verifiedAt :: int
  tr_validUntil :: "int option"
  tr_retentionUntil :: "int option"
  tr_recordedByPrincipalId :: string
  tr_createdAt :: int

record criterion_evidence =
  ce_criterionId :: string
  ce_evidenceIds :: "string list"

record completion_proposal =
  cp_id :: string
  cp_tenantId :: string
  cp_taskId :: string
  cp_resolutionContractId :: string
  cp_contractDigest :: string
  cp_proposerPrincipalId :: string
  cp_criterionEvidence :: "criterion_evidence list"
  cp_summary :: "string option"
  cp_proposalDigest :: string
  cp_proposedAt :: int

record completion_challenge =
  ch_id :: string
  ch_tenantId :: string
  ch_taskId :: string
  ch_proposalId :: string
  ch_challengerPrincipalId :: string
  ch_reasonCode :: string
  ch_explanation :: string
  ch_counterEvidenceIds :: "string list"
  ch_challengedAt :: int

record validation_decision =
  vd_id :: string
  vd_tenantId :: string
  vd_taskId :: string
  vd_resolutionContractId :: string
  vd_proposalId :: string
  vd_outcome :: validation_outcome
  vd_policyUri :: string
  vd_policyVersion :: int
  vd_implementationDigest :: string
  vd_policyInputDigest :: string
  vd_evidenceIds :: "string list"
  vd_trustRecordIds :: "string list"
  vd_supersedesDecisionId :: "string option"
  vd_decidedByPrincipalId :: string
  vd_reasonCode :: string
  vd_explanation :: string
  vd_decidedAt :: int

record completion_record =
  cr_id :: string
  cr_tenantId :: string
  cr_taskId :: string
  cr_resultingRevision :: int
  cr_completionPolicyUri :: string
  cr_completionPolicyVersion :: int
  cr_policyInputDigest :: string
  cr_evidenceIds :: "string list"
  cr_resolutionContractId :: "string option"
  cr_validationDecisionId :: "string option"
  cr_decidedByPrincipalId :: string
  cr_decidedAt :: int

record idempotency_record =
  ik_tenantId :: string
  ik_callerScope :: string
  ik_operation :: string
  ik_key :: string
  ik_digestVersion :: string
  ik_requestDigest :: string
  ik_resultType :: string
  ik_resultId :: string
  ik_resultStatus :: "string option"
  ik_resultRevision :: "int option"
  ik_eventSequence :: "int option"
  ik_retentionClass :: retention_class
  ik_expiresAt :: "int option"
  ik_createdAt :: int

record contention =
  k_tenantId :: string
  k_commitmentId :: string
  k_kind :: string
  k_requestedByPrincipalId :: string
  k_requestedByLabel :: string
  k_holderPrincipalId :: string
  k_holderLabel :: string
  k_firstAt :: int
  k_lastAt :: int
  k_attempts :: int

record commitment_relation =
  r_id :: string
  r_tenantId :: string
  r_fromTaskId :: string
  r_relationType :: string
  r_toTaskId :: string
  r_revision :: int
  r_createdByPrincipalId :: string
  r_createdAt :: int
  r_endedByPrincipalId :: "string option"
  r_endedAt :: "int option"

record task_dependency =
  d_id :: string
  d_tenantId :: string
  d_fromTaskId :: string
  d_toTaskId :: string
  d_type :: string
  d_createdAt :: int
  d_updatedAt :: int
  d_deletedAt :: "int option"

record assignment =
  as_id :: string
  as_tenantId :: string
  as_taskId :: string
  as_assignerPrincipalId :: string
  as_assigneePrincipalId :: string
  as_role :: string
  as_status :: assignment_status
  as_instructionsRef :: "string option"
  as_acceptedAt :: "int option"
  as_endedAt :: "int option"
  as_revision :: int
  as_createdAt :: int
  as_updatedAt :: int

record external_ref =
  x_id :: string
  x_tenantId :: string
  x_recordType :: string
  x_recordId :: string
  x_system :: string
  x_resourceType :: string
  x_externalId :: string
  x_url :: "string option"
  x_version :: "string option"
  x_digest :: "string option"
  x_metadata :: metadata
  x_createdByPrincipalId :: string
  x_createdAt :: int

record assumption =
  au_id :: string
  au_tenantId :: string
  au_text :: string
  au_normalizedText :: string
  au_withdrawn :: bool
  au_statedByPrincipalId :: string
  au_statedAt :: int
  au_withdrawnByPrincipalId :: "string option"
  au_withdrawnAt :: "int option"
  au_withdrawalReason :: "string option"
  au_withdrawalEvidenceIds :: "string list option"

record assumption_link =
  al_id :: string
  al_tenantId :: string
  al_assumptionId :: string
  al_taskId :: string
  al_active :: bool
  al_linkedByPrincipalId :: string
  al_linkedAt :: int
  al_unlinkedByPrincipalId :: "string option"
  al_unlinkedAt :: "int option"
  al_unlinkReason :: "string option"

record coordination_space =
  cs_workspaceId :: string
  cs_createdByPrincipalId :: string
  cs_createdAt :: int

record resource_lease =
  l_id :: string
  l_workspaceId :: string
  l_resourceKey :: string
  l_holderActor :: string
  l_holderPrincipalId :: string
  l_revision :: int
  l_fence :: int
  l_acquiredAt :: int
  l_heartbeatAt :: int
  l_expiresAt :: int
  l_releasedAt :: "int option"
  l_releaseReason :: "string option"
  l_metadata :: metadata
  l_createdAt :: int
  l_updatedAt :: int

record resource_event =
  le_sequence :: int
  le_id :: string
  le_workspaceId :: string
  le_resourceKey :: string
  le_leaseId :: string
  le_actor :: string
  le_principalId :: string
  le_eventType :: string
  le_payload :: json
  le_createdAt :: int

text \<open>
  The database, with the two autoincrement counters, and the state of the process beside it: the
  external journal fed by the events of committed transactions, the number of committed domain
  mutations, and the number of identifiers drawn so far.
\<close>

record observation =
  ob_id :: string
  ob_tenantId :: string
  ob_source :: string
  ob_externalEventId :: string
  ob_kind :: string
  ob_typeUri :: string
  ob_schemaVersion :: int
  ob_subjectRef :: string
  ob_payload :: string
  ob_occurredAt :: int
  ob_recordedAt :: int
  ob_recordedBy :: string
  ob_verificationLevel :: string
  ob_verificationMethod :: "string option"
  ob_rawRef :: "string option"
  ob_digest :: "string option"
  ob_metadata :: metadata

record db =
  tasks :: "task list"
  claims :: "task_claim list"
  attempts :: "task_attempt list"
  evidence :: "task_evidence list"
  artifacts :: "artifact list"
  waits :: "wait_condition list"
  contracts :: "resolution_contract list"
  proposals :: "completion_proposal list"
  decisions :: "validation_decision list"
  trustRecords :: "evidence_trust_record list"
  challenges :: "completion_challenge list"
  observations :: "observation list"
  completions :: "completion_record list"
  principals :: "principal list"
  events :: "event list"
  eventSeq :: int
  idems :: "idempotency_record list"
  contentions :: "contention list"
  relations :: "commitment_relation list"
  dependencies :: "task_dependency list"
  assignments :: "assignment list"
  externalRefs :: "external_ref list"
  assumptions :: "assumption list"
  assumptionLinks :: "assumption_link list"
  spaces :: "coordination_space list"
  leases :: "resource_lease list"
  leaseEvents :: "resource_event list"
  leaseEventSeq :: int
  effects :: "effect list"
  effectApprovals :: "effect_approval list"
  effectReceipts :: "effect_receipt list"
  extensionTypes :: "extension_type list"
  journal :: "event list"
  committedMutations :: nat
  draws :: nat

definition empty_db :: db where
  "empty_db = \<lparr>tasks = [], claims = [], attempts = [], evidence = [], artifacts = [], waits = [], contracts = [],
     proposals = [], decisions = [], trustRecords = [], challenges = [], observations = [], completions = [], principals = [], events = [], eventSeq = 0,
     idems = [], contentions = [], relations = [], dependencies = [], assignments = [],
     externalRefs = [], assumptions = [], assumptionLinks = [], spaces = [], leases = [],
     leaseEvents = [], leaseEventSeq = 0, effects = [], effectApprovals = [], effectReceipts = [],
     extensionTypes = [], journal = [], committedMutations = 0, draws = 0\<rparr>"

section \<open>Errors, context and clock\<close>

text \<open>The facts a refusal carries (\<open>ContentionFacts\<close>), and the errors: a refusal worth counting
  (\<open>ContentionError\<close>), a cost bound (\<open>CostBoundError\<close>), a violated unique index or \<open>CHECK\<close> constraint
  of a table, an input the schema rejects, and the other \<open>throw new Error(\<dots>)\<close> with their fixed text
  and the identifiers they name.\<close>

record contention_facts =
  f_tenantId :: string
  f_commitmentId :: string
  f_kind :: string
  f_requestedByPrincipalId :: string
  f_requestedByLabel :: string
  f_holderPrincipalId :: string
  f_holderLabel :: string

datatype err =
    Contended contention_facts
  | CostBound string
  | UniqueViolation string
  | CheckViolation string
  | InvalidInput string
  | Refused string "string list"

text \<open>What the program takes from its host: the digest function (hexadecimal SHA-256 of a text), the
  \<open>n\<close>-th identifier drawn at a time, and the order of \<open>localeCompare\<close>.\<close>

record env =
  sha256_hex :: "string \<Rightarrow> string"
  uuid :: "nat \<Rightarrow> int \<Rightarrow> string"
  localeLe :: "string \<Rightarrow> string \<Rightarrow> bool"

definition sha256Digest :: "env \<Rightarrow> string \<Rightarrow> string" where
  "sha256Digest env value = ''sha256:'' @ sha256_hex env value"

text \<open>\<open>uuidv7(now)\<close>: the identifier and the state with one more identifier drawn.\<close>

definition fresh_id :: "env \<Rightarrow> int \<Rightarrow> db \<Rightarrow> db \<times> string" where
  "fresh_id env now d = (d\<lparr>draws := draws d + 1\<rparr>, uuid env (draws d) now)"

text \<open>\<open>ServiceContext\<close>; the clock is the value it reads.\<close>

record service_context =
  ctx_actor :: "string option"
  ctx_principalId :: "string option"
  ctx_tenantId :: "string option"
  ctx_idempotencyKey :: "string option"
  ctx_expectedRevision :: "int option"
  ctx_clock :: int
  ctx_now :: "int option"

definition or_else :: "'a option \<Rightarrow> 'a \<Rightarrow> 'a" where
  "or_else x y = (case x of None \<Rightarrow> y | Some v \<Rightarrow> v)"

lemma or_else_simps [simp]: "or_else None y = y" "or_else (Some v) y = v"
  by (simp_all add: or_else_def)

definition tenant_of :: "service_context \<Rightarrow> string" where
  "tenant_of ctx = or_else (ctx_tenantId ctx) LEGACY_DEFAULT_WORKSPACE_ID"

definition actor_of :: "service_context \<Rightarrow> string" where
  "actor_of ctx = or_else (ctx_actor ctx) ''system''"

definition unixMs :: "int \<Rightarrow> err + int" where
  "unixMs value = (if \<not> isSafeInteger value \<or> value < 0
     then Inl (Refused ''Clock must be a non-negative unix-ms integer'' []) else Inr value)"

definition clockNow :: "int \<Rightarrow> int option \<Rightarrow> err + int" where
  "clockNow clock explicit = unixMs (or_else explicit clock)"

definition serviceNow :: "service_context \<Rightarrow> err + int" where
  "serviceNow ctx = clockNow (ctx_clock ctx) (ctx_now ctx)"

text \<open>A call whose explicit time is an option of its own.\<close>

definition serviceNowAt :: "service_context \<Rightarrow> int option \<Rightarrow> err + int" where
  "serviceNowAt ctx explicit = clockNow (ctx_clock ctx) explicit"

lemma unixMs_Inr [res]: "unixMs v = Inr n \<longleftrightarrow> n = v \<and> isSafeInteger v \<and> 0 \<le> v"
  by (auto simp: unixMs_def)

lemma serviceNow_nonneg: "serviceNow ctx = Inr now \<Longrightarrow> 0 \<le> now"
  by (simp add: serviceNow_def clockNow_def res)

lemma serviceNowAt_nonneg: "serviceNowAt ctx t = Inr now \<Longrightarrow> 0 \<le> now"
  by (simp add: serviceNowAt_def clockNow_def res)

section \<open>Transactions\<close>

text \<open>
  A transaction body maps the database to an error or to the new database, a result and the events
  to mirror after the commit. \<open>runInTransaction\<close> keeps the old database on an error (\<open>ROLLBACK\<close>),
  otherwise commits, counts the mutation and only then appends the events to the journal.
  Transactions on a handle are queued one after the other, so a body sees no other one's state;
  the identifiers a rolled back body drew may be drawn again.
\<close>

definition runInTransaction ::
  "(db \<Rightarrow> err + db \<times> 'a \<times> event list) \<Rightarrow> db \<Rightarrow> db \<times> (err + 'a)" where
  "runInTransaction body d = (case body d of
      Inl e \<Rightarrow> (d, Inl e)
    | Inr (d', x, evs) \<Rightarrow>
        (d'\<lparr>committedMutations := committedMutations d' + 1, journal := journal d' @ evs\<rparr>, Inr x))"

text \<open>\<open>runOperationalTransaction\<close> does not count as a domain mutation.\<close>

definition runOperationalTransaction ::
  "(db \<Rightarrow> err + db \<times> 'a) \<Rightarrow> db \<Rightarrow> db \<times> (err + 'a)" where
  "runOperationalTransaction body d = (case body d of
      Inl e \<Rightarrow> (d, Inl e)
    | Inr (d', x) \<Rightarrow> (d', Inr x))"

text \<open>A call that fails before its transaction leaves the database alone.\<close>

definition prologue :: "(err + 'a) \<Rightarrow> ('a \<Rightarrow> db \<Rightarrow> db \<times> (err + 'b)) \<Rightarrow> db \<Rightarrow> db \<times> (err + 'b)" where
  "prologue m k d = (case m of Inl e \<Rightarrow> (d, Inl e) | Inr x \<Rightarrow> k x d)"

lemma runInTransaction_Inr [res]:
  "runInTransaction body d = (d', Inr x) \<longleftrightarrow> (\<exists>d1 evs. body d = Inr (d1, x, evs) \<and>
     d' = d1\<lparr>committedMutations := committedMutations d1 + 1, journal := journal d1 @ evs\<rparr>)"
  by (auto simp: runInTransaction_def split: sum.splits)

lemma runInTransaction_Inl [res]:
  "runInTransaction body d = (d', Inl e) \<longleftrightarrow> body d = Inl e \<and> d' = d"
  by (auto simp: runInTransaction_def split: sum.splits)

lemma prologue_Inr [res]:
  "prologue m k d = (d', Inr y) \<longleftrightarrow> (\<exists>x. m = Inr x \<and> k x d = (d', Inr y))"
  by (auto simp: prologue_def split: sum.splits)

lemma prologue_cases:
  "prologue m k d = (d', r) \<Longrightarrow> (\<exists>e. m = Inl e \<and> r = Inl e \<and> d' = d) \<or> (\<exists>x. m = Inr x \<and> k x d = (d', r))"
  by (auto simp: prologue_def split: sum.splits)

section \<open>Insertions and constraint checks\<close>

definition insert_row ::
  "string \<Rightarrow> bool \<Rightarrow> bool \<Rightarrow> db \<Rightarrow> err + db" where
  "insert_row name unique check d' =
     (if \<not> unique then Inl (UniqueViolation name) else if \<not> check then Inl (CheckViolation name) else Inr d')"

lemma insert_row_Inr [res]: "insert_row n u c d' = Inr d'' \<longleftrightarrow> u \<and> c \<and> d'' = d'"
  by (auto simp: insert_row_def)

definition insert_task :: "task \<Rightarrow> db \<Rightarrow> err + db" where
  "insert_task r d = insert_row ''task'' (\<forall>x \<in> set (tasks d). t_id x \<noteq> t_id r) True
     (d\<lparr>tasks := tasks d @ [r]\<rparr>)"

definition claim_check :: "task_claim \<Rightarrow> bool" where
  "claim_check c \<longleftrightarrow> c_expiresAt c > c_acquiredAt c \<and> c_heartbeatAt c \<ge> c_acquiredAt c \<and>
     c_expiresAt c > c_heartbeatAt c \<and> c_fence c > 0 \<and> c_revision c > 0 \<and>
     (case (c_releasedAt c, c_releaseReason c) of
        (None, None) \<Rightarrow> True
      | (Some t, Some r) \<Rightarrow> t \<ge> c_acquiredAt c \<and> \<not> sql_blank r
      | _ \<Rightarrow> False)"

definition insert_claim :: "task_claim \<Rightarrow> db \<Rightarrow> err + db" where
  "insert_claim r d = insert_row ''task_claim''
     (\<forall>x \<in> set (claims d). c_id x \<noteq> c_id r \<and>
        \<not> (c_tenantId x = c_tenantId r \<and> c_taskId x = c_taskId r \<and>
           (c_fence x = c_fence r \<or> c_releasedAt x = None \<and> c_releasedAt r = None)))
     (claim_check r)
     (d\<lparr>claims := claims d @ [r]\<rparr>)"

definition update_claims :: "(task_claim \<Rightarrow> bool) \<Rightarrow> (task_claim \<Rightarrow> task_claim) \<Rightarrow> db \<Rightarrow> err + db" where
  "update_claims P f d = insert_row ''task_claim'' True (\<forall>x \<in> set (claims d). P x \<longrightarrow> claim_check (f x))
     (d\<lparr>claims := update_rows P f (claims d)\<rparr>)"

definition attempt_check :: "task_attempt \<Rightarrow> bool" where
  "attempt_check a \<longleftrightarrow> a_revision a > 0 \<and>
     (if active_attempt_status (a_status a) then a_endedAt a = None
      else (case a_endedAt a of None \<Rightarrow> False | Some t \<Rightarrow> t \<ge> a_startedAt a))"

definition insert_attempt :: "task_attempt \<Rightarrow> db \<Rightarrow> err + db" where
  "insert_attempt r d = insert_row ''task_attempt'' (\<forall>x \<in> set (attempts d). a_id x \<noteq> a_id r)
     (attempt_check r) (d\<lparr>attempts := attempts d @ [r]\<rparr>)"

definition update_attempts :: "(task_attempt \<Rightarrow> bool) \<Rightarrow> (task_attempt \<Rightarrow> task_attempt) \<Rightarrow> db \<Rightarrow> err + db" where
  "update_attempts P f d = insert_row ''task_attempt'' True (\<forall>x \<in> set (attempts d). P x \<longrightarrow> attempt_check (f x))
     (d\<lparr>attempts := update_rows P f (attempts d)\<rparr>)"

definition evidence_check :: "task_evidence \<Rightarrow> bool" where
  "evidence_check e \<longleftrightarrow> ((case e_summary e of None \<Rightarrow> False | Some s \<Rightarrow> \<not> sql_blank s) \<or>
       (case e_uri e of None \<Rightarrow> False | Some u \<Rightarrow> \<not> sql_blank u)) \<and>
     e_supersedesEvidenceId e \<noteq> Some (e_id e)"

definition insert_evidence :: "task_evidence \<Rightarrow> db \<Rightarrow> err + db" where
  "insert_evidence r d = insert_row ''task_evidence'' (\<forall>x \<in> set (evidence d). e_id x \<noteq> e_id r)
     (evidence_check r) (d\<lparr>evidence := evidence d @ [r]\<rparr>)"

definition insert_completion :: "completion_record \<Rightarrow> db \<Rightarrow> err + db" where
  "insert_completion r d = insert_row ''completion_record''
     (\<forall>x \<in> set (completions d). cr_id x \<noteq> cr_id r \<and>
        \<not> (cr_tenantId x = cr_tenantId r \<and> cr_taskId x = cr_taskId r \<and>
           cr_resultingRevision x = cr_resultingRevision r))
     (cr_resultingRevision r > 0 \<and> cr_completionPolicyVersion r > 0 \<and>
       (cr_resolutionContractId r = None) = (cr_validationDecisionId r = None))
     (d\<lparr>completions := completions d @ [r]\<rparr>)"

section \<open>A sample host\<close>

text \<open>A concrete host and caller, on which the hypotheses of the properties are shown to hold: the
  digest is the text itself, identifiers are numbered, and keys are compared by code units.\<close>

definition sample_env :: env where
  "sample_env = \<lparr>sha256_hex = (\<lambda>s. s), uuid = (\<lambda>n now. ''id-'' @ dec_nat n), localeLe = (\<le>)\<rparr>"

text \<open>A host whose digest is constant, for the records that check its form.\<close>

definition hex_env :: env where
  "hex_env = sample_env\<lparr>sha256_hex := \<lambda>_. replicate 64 (CHR ''a'')\<rparr>"

definition sample_ctx :: "string \<Rightarrow> int \<Rightarrow> service_context" where
  "sample_ctx actor now = \<lparr>ctx_actor = Some actor, ctx_principalId = None, ctx_tenantId = Some ''w'',
     ctx_idempotencyKey = None, ctx_expectedRevision = None, ctx_clock = now, ctx_now = None\<rparr>"

end
