(* ===== verification/Idempotency.thy ===== *)
theory Idempotency
  imports Store "HOL-Library.Product_Lexorder"
begin

text \<open>
  Durable identities of mutations (\<open>packages/tasq-core/src/service/idempotency.ts\<close>). A mutation
  that carries a key computes the digest of its request before its transaction
  (\<open>prepareIdempotency\<close>), looks for an earlier result under the same tenant, caller scope, operation
  and key inside it (\<open>findIdempotencyResult\<close>), and stores its own outcome at the end
  (\<open>saveIdempotencyResult\<close>). Standard identities expire; expired ones are removed on exact reuse or
  by an explicit prune.
\<close>

definition IDEMPOTENCY_REQUEST_DIGEST_VERSION :: string where
  "IDEMPOTENCY_REQUEST_DIGEST_VERSION = ''tasq.jcs.sha256.v1''"

definition LEGACY_IDEMPOTENCY_DIGEST_VERSION :: string where
  "LEGACY_IDEMPOTENCY_DIGEST_VERSION = ''tasq.legacy.sha256.v0''"

definition DEFAULT_IDEMPOTENCY_RETENTION_MS :: int where
  "DEFAULT_IDEMPOTENCY_RETENTION_MS = 2592000000"

definition MAX_IDEMPOTENCY_RETENTION_MS :: int where
  "MAX_IDEMPOTENCY_RETENTION_MS = 31536000000"

record prepared_idempotency =
  pi_tenantId :: string
  pi_callerScope :: string
  pi_operation :: string
  pi_key :: string
  pi_requestDigest :: string
  pi_legacyRequestDigest :: "string option"
  pi_retentionClass :: retention_class
  pi_expiresAt :: "int option"
  pi_createdAt :: int

record idempotency_outcome =
  o_resultType :: string
  o_resultId :: string
  o_resultStatus :: "string option"
  o_resultRevision :: "int option"
  o_eventSequence :: "int option"

definition safeTime :: "int \<Rightarrow> string \<Rightarrow> err + int" where
  "safeTime value label = (if \<not> isSafeInteger value \<or> value < 0
     then Inl (Refused (label @ '' must be a non-negative unix-ms integer'') []) else Inr value)"

definition bounded :: "string \<Rightarrow> string \<Rightarrow> nat \<Rightarrow> err + string" where
  "bounded value label maxlen = (if js_blank value \<or> length value > maxlen
     then Inl (Refused (label @ '' must contain a bounded number of characters'') []) else Inr value)"

lemma safeTime_Inr [res]: "safeTime v l = Inr n \<longleftrightarrow> n = v \<and> isSafeInteger v \<and> 0 \<le> v"
  by (auto simp: safeTime_def)

lemma bounded_Inr [res]: "bounded v l m = Inr w \<longleftrightarrow> w = v \<and> \<not> js_blank v \<and> length v \<le> m"
  by (auto simp: bounded_def)

definition idempotencyCallerScope :: "service_context \<Rightarrow> err + string" where
  "idempotencyCallerScope ctx = (case ctx_principalId ctx of
      Some pid \<Rightarrow> (case bounded pid ''principalId'' 980 of Inl e \<Rightarrow> Inl e | Inr p \<Rightarrow> Inr (''principal:'' @ p))
    | None \<Rightarrow> (case bounded (actor_of ctx) ''actor'' 500 of Inl e \<Rightarrow> Inl e | Inr a \<Rightarrow> Inr (''actor:'' @ a)))"

text \<open>The expiry of a new identity.\<close>

definition retention_expiry :: "retention_class \<Rightarrow> int option \<Rightarrow> int \<Rightarrow> err + int option" where
  "retention_expiry rc retentionMs now = (case rc of
      Durable \<Rightarrow> Inr None
    | Standard \<Rightarrow>
        (let ms = or_else retentionMs DEFAULT_IDEMPOTENCY_RETENTION_MS in
         if \<not> isSafeInteger ms \<or> ms \<le> 0 \<or> ms > MAX_IDEMPOTENCY_RETENTION_MS
         then Inl (Refused ''idempotency retentionMs out of range'' [])
         else if \<not> isSafeInteger (now + ms) then Inl (Refused ''idempotency expiry exceeds unix-ms range'' [])
         else Inr (Some (now + ms))))"

text \<open>The digest input of a request.\<close>

definition request_envelope :: "string \<Rightarrow> json \<Rightarrow> json" where
  "request_envelope operation request =
     JObj [(''contract'', JStr ''tasq.idempotency-request.v1''), (''operation'', JStr operation), (''request'', request)]"

definition prepareIdempotency ::
  "env \<Rightarrow> service_context \<Rightarrow> string \<Rightarrow> json \<Rightarrow> int \<Rightarrow> retention_class option \<Rightarrow> int option \<Rightarrow> json option \<Rightarrow>
    err + prepared_idempotency option" where
  "prepareIdempotency env ctx operation request now0 rclass retentionMs legacyRequest =
     (case ctx_idempotencyKey ctx of
        None \<Rightarrow> Inr None
      | Some key \<Rightarrow>
        (case bounded key ''idempotencyKey'' 500 of Inl e \<Rightarrow> Inl e | Inr _ \<Rightarrow>
        (case bounded operation ''idempotency operation'' 200 of Inl e \<Rightarrow> Inl e | Inr _ \<Rightarrow>
        (case bounded (tenant_of ctx) ''idempotency workspace'' 500 of Inl e \<Rightarrow> Inl e | Inr tenantId \<Rightarrow>
        (case safeTime now0 ''idempotency now'' of Inl e \<Rightarrow> Inl e | Inr now \<Rightarrow>
        (let retentionClass = or_else rclass Standard in
        (case retention_expiry retentionClass retentionMs now of Inl e \<Rightarrow> Inl e | Inr expiresAt \<Rightarrow>
        (case idempotencyCallerScope ctx of Inl e \<Rightarrow> Inl e | Inr scope \<Rightarrow>
          Inr (Some \<lparr>pi_tenantId = tenantId, pi_callerScope = scope, pi_operation = operation, pi_key = key,
            pi_requestDigest = sha256Digest env (canonicalJson (request_envelope operation request)),
            pi_legacyRequestDigest = map_option (\<lambda>j. sha256Digest env (canonicalJson j)) legacyRequest,
            pi_retentionClass = retentionClass, pi_expiresAt = expiresAt, pi_createdAt = now\<rparr>)))))))))"

text \<open>The primary key of an identity.\<close>

definition ik_identity :: "idempotency_record \<Rightarrow> string \<times> string \<times> string \<times> string" where
  "ik_identity r = (ik_tenantId r, ik_callerScope r, ik_operation r, ik_key r)"

definition pi_identity :: "prepared_idempotency \<Rightarrow> string \<times> string \<times> string \<times> string" where
  "pi_identity p = (pi_tenantId p, pi_callerScope p, pi_operation p, pi_key p)"

definition pi_legacy_identity :: "prepared_idempotency \<Rightarrow> string \<times> string \<times> string \<times> string" where
  "pi_legacy_identity p = (pi_tenantId p, ''workspace:legacy'', pi_operation p, pi_key p)"

definition ik_expired :: "int \<Rightarrow> idempotency_record \<Rightarrow> bool" where
  "ik_expired now r \<longleftrightarrow> ik_retentionClass r = Standard \<and>
     (case ik_expiresAt r of None \<Rightarrow> False | Some t \<Rightarrow> t \<le> now)"

definition findIdempotencyResult ::
  "prepared_idempotency option \<Rightarrow> db \<Rightarrow> err + db \<times> idempotency_record option" where
  "findIdempotencyResult prepared d = (case prepared of
      None \<Rightarrow> Inr (d, None)
    | Some p \<Rightarrow>
       (let exact = find (\<lambda>r. ik_identity r = pi_identity p) (idems d);
            (d1, row1) = (case exact of
                Some r \<Rightarrow>
                  if ik_expired (pi_createdAt p) r
                  then (d\<lparr>idems := filter (\<lambda>x. \<not> (ik_identity x = pi_identity p \<and> ik_expiresAt x = ik_expiresAt r))
                          (idems d)\<rparr>, None)
                  else (d, Some r)
              | None \<Rightarrow> (d, None));
            row = (case row1 of Some r \<Rightarrow> Some r
              | None \<Rightarrow> find (\<lambda>r. ik_identity r = pi_legacy_identity p) (idems d1))
        in (case row of
             None \<Rightarrow> Inr (d1, None)
           | Some r \<Rightarrow>
               let expected = (if ik_digestVersion r = LEGACY_IDEMPOTENCY_DIGEST_VERSION
                               then pi_legacyRequestDigest p else Some (pi_requestDigest p))
               in if \<not> truthy_str expected \<or> Some (ik_requestDigest r) \<noteq> expected
                  then Inl (Refused ''Idempotency identity already used with a different request''
                         [pi_callerScope p, pi_operation p, pi_key p])
                  else Inr (d1, Some r))))"

definition positive_opt :: "int option \<Rightarrow> bool" where
  "positive_opt x \<longleftrightarrow> (case x of None \<Rightarrow> True | Some n \<Rightarrow> isSafeInteger n \<and> 0 < n)"

definition saveIdempotencyResult ::
  "prepared_idempotency option \<Rightarrow> idempotency_outcome \<Rightarrow> db \<Rightarrow> err + db" where
  "saveIdempotencyResult prepared out d = (case prepared of
      None \<Rightarrow> Inr d
    | Some p \<Rightarrow>
       (case bounded (o_resultType out) ''idempotency resultType'' 200 of Inl e \<Rightarrow> Inl e | Inr _ \<Rightarrow>
       (case bounded (o_resultId out) ''idempotency resultId'' 2000 of Inl e \<Rightarrow> Inl e | Inr _ \<Rightarrow>
       (case (case o_resultStatus out of None \<Rightarrow> Inr [] | Some s \<Rightarrow> bounded s ''idempotency resultStatus'' 200) of
          Inl e \<Rightarrow> Inl e | Inr _ \<Rightarrow>
       (if \<not> positive_opt (o_resultRevision out)
        then Inl (Refused ''idempotency resultRevision must be a positive integer'' [])
        else if \<not> positive_opt (o_eventSequence out)
        then Inl (Refused ''idempotency eventSequence must be a positive integer'' [])
        else insert_row ''idempotency_key'' (\<forall>x \<in> set (idems d). ik_identity x \<noteq> pi_identity p) True
          (d\<lparr>idems := idems d @ [\<lparr>ik_tenantId = pi_tenantId p, ik_callerScope = pi_callerScope p,
             ik_operation = pi_operation p, ik_key = pi_key p,
             ik_digestVersion = IDEMPOTENCY_REQUEST_DIGEST_VERSION, ik_requestDigest = pi_requestDigest p,
             ik_resultType = o_resultType out, ik_resultId = o_resultId out,
             ik_resultStatus = o_resultStatus out, ik_resultRevision = o_resultRevision out,
             ik_eventSequence = o_eventSequence out, ik_retentionClass = pi_retentionClass p,
             ik_expiresAt = pi_expiresAt p, ik_createdAt = pi_createdAt p\<rparr>]\<rparr>))))))"

record list_idempotency_options =
  li_tenantId :: "string option"
  li_callerScope :: "string option"
  li_operation :: "string option"
  li_key :: "string option"
  li_retentionClass :: "retention_class option"
  li_limit :: "int option"

text \<open>A filter on an optional string applies when the option is truthy.\<close>

definition str_filter :: "string option \<Rightarrow> string \<Rightarrow> bool" where
  "str_filter opt v \<longleftrightarrow> (truthy_str opt \<longrightarrow> opt = Some v)"

definition listIdempotencyRecords ::
  "list_idempotency_options \<Rightarrow> db \<Rightarrow> err + idempotency_record list" where
  "listIdempotencyRecords opts d =
     (let limit = or_else (li_limit opts) 100 in
      if \<not> isSafeInteger limit \<or> limit \<le> 0 \<or> limit > 10000
      then Inl (Refused ''idempotency list limit must be between 1 and 10000'' [])
      else Inr (take (nat limit) (sort_key (\<lambda>r. (ik_createdAt r, ik_key r)) (filter (\<lambda>r.
        ik_tenantId r = or_else (li_tenantId opts) LEGACY_DEFAULT_WORKSPACE_ID \<and>
        str_filter (li_callerScope opts) (ik_callerScope r) \<and>
        str_filter (li_operation opts) (ik_operation r) \<and>
        str_filter (li_key opts) (ik_key r) \<and>
        (case li_retentionClass opts of None \<Rightarrow> True | Some c \<Rightarrow> ik_retentionClass r = c)) (idems d)))))"

definition ik_expiresAt_key :: "idempotency_record \<Rightarrow> int" where
  "ik_expiresAt_key r = or_else (ik_expiresAt r) 0"

definition prunable :: "string \<Rightarrow> int \<Rightarrow> idempotency_record \<Rightarrow> bool" where
  "prunable tenantId now r \<longleftrightarrow> ik_tenantId r = tenantId \<and> ik_expired now r"

definition pruneExpiredIdempotency ::
  "string option \<Rightarrow> int \<Rightarrow> int option \<Rightarrow> int option \<Rightarrow> db \<Rightarrow> db \<times> (err + nat \<times> int)" where
  "pruneExpiredIdempotency tenant clock now0 limit0 =
     (let tenantId = or_else tenant LEGACY_DEFAULT_WORKSPACE_ID in
      prologue (case clockNow clock now0 of Inl e \<Rightarrow> Inl e | Inr n \<Rightarrow> safeTime n ''idempotency prune now'') (\<lambda>now.
      let limit = or_else limit0 1000 in
      if \<not> isSafeInteger limit \<or> limit \<le> 0 \<or> limit > 10000
      then (\<lambda>d. (d, Inl (Refused ''idempotency prune limit must be between 1 and 10000'' [])))
      else runOperationalTransaction (\<lambda>d.
        let expired = take (nat limit) (sort_key ik_expiresAt_key (filter (prunable tenantId now) (idems d)))
        in Inr (fold (\<lambda>row d. d\<lparr>idems := filter (\<lambda>x. \<not> (ik_tenantId x = tenantId \<and>
                   ik_callerScope x = ik_callerScope row \<and> ik_operation x = ik_operation row \<and>
                   ik_key x = ik_key row \<and> ik_retentionClass x = Standard)) (idems d)\<rparr>) expired d,
                (length expired, now)))))"

section \<open>Frames\<close>

text \<open>Looking up an identity changes nothing but the identities, and saving one appends one row.\<close>

lemma findIdempotencyResult_frame:
  "findIdempotencyResult p d = Inr (d', r) \<Longrightarrow> \<exists>xs. set xs \<subseteq> set (idems d) \<and> d' = d\<lparr>idems := xs\<rparr>"
  unfolding findIdempotencyResult_def
  by (rule exI [of _ "idems d'"]) (auto simp: Let_def split: option.splits if_splits)

lemma saveIdempotencyResult_frame:
  "saveIdempotencyResult p out d = Inr d' \<Longrightarrow> \<exists>xs. d' = d\<lparr>idems := xs\<rparr>"
  unfolding saveIdempotencyResult_def
  by (rule exI [of _ "idems d'"]) (auto simp: res split: option.splits)

text \<open>A call with the result it already has returns it and changes nothing more, otherwise it runs.\<close>

definition replayed ::
  "(string \<Rightarrow> db \<Rightarrow> err + 'a) \<Rightarrow> (db \<Rightarrow> err + db \<times> 'a \<times> event list) \<Rightarrow> string option \<Rightarrow> db \<Rightarrow>
    err + db \<times> 'a \<times> event list" where
  "replayed prior fresh priorId d =
     (if truthy_str priorId
      then (case prior (the priorId) d of Inl e \<Rightarrow> Inl e | Inr r \<Rightarrow> Inr (d, r, []))
      else fresh d)"

lemma replayed_Inr [res]:
  "replayed prior fresh pid d = Inr (d', r, evs) \<longleftrightarrow>
    (if truthy_str pid then d' = d \<and> evs = [] \<and> prior (the pid) d = Inr r else fresh d = Inr (d', r, evs))"
  by (auto simp: replayed_def split: sum.splits)

lemma replayed_fresh [simp]: "replayed prior fresh None d = fresh d"
  by (simp add: replayed_def)

lemma replayed_cases:
  "replayed prior fresh pid d = Inr (d', r, evs) \<Longrightarrow> d' = d \<and> evs = [] \<or> fresh d = Inr (d', r, evs)"
  by (simp add: replayed_Inr split: if_splits)

lemma findIdempotencyResult_none [simp]: "findIdempotencyResult None d = Inr (d, None)"
  by (simp add: findIdempotencyResult_def)

lemma saveIdempotencyResult_none [simp]: "saveIdempotencyResult None out d = Inr d"
  by (simp add: saveIdempotencyResult_def)

lemma prepareIdempotency_none [simp]:
  "ctx_idempotencyKey ctx = None \<Longrightarrow> prepareIdempotency env ctx op req now rc ms leg = Inr None"
  by (simp add: prepareIdempotency_def)

section \<open>Replay\<close>

text \<open>The row an identity is saved as.\<close>

lemma save_appends:
  assumes "saveIdempotencyResult (Some p) out d = Inr d'"
  obtains r where "idems d' = idems d @ [r]" "ik_identity r = pi_identity p"
    "ik_digestVersion r = IDEMPOTENCY_REQUEST_DIGEST_VERSION" "ik_requestDigest r = pi_requestDigest p"
    "ik_resultId r = o_resultId out" "ik_resultType r = o_resultType out"
    "ik_retentionClass r = pi_retentionClass p" "ik_expiresAt r = pi_expiresAt p"
    "\<forall>x \<in> set (idems d). ik_identity x \<noteq> pi_identity p"
  using assms unfolding saveIdempotencyResult_def
  by (auto simp: res ik_identity_def pi_identity_def)

lemma uniq_save:
  "saveIdempotencyResult p out d = Inr d' \<Longrightarrow> uniq_by ik_identity (idems d) \<Longrightarrow> uniq_by ik_identity (idems d')"
proof (cases p)
  case (Some q)
  assume "saveIdempotencyResult p out d = Inr d'" "uniq_by ik_identity (idems d)"
  then show ?thesis by (auto simp: Some uniq_by_append1 elim!: save_appends)
qed simp

lemma digest_versions_differ [simp]:
  "IDEMPOTENCY_REQUEST_DIGEST_VERSION \<noteq> LEGACY_IDEMPOTENCY_DIGEST_VERSION"
  by (simp add: IDEMPOTENCY_REQUEST_DIGEST_VERSION_def LEGACY_IDEMPOTENCY_DIGEST_VERSION_def)

text \<open>A live identity: saved, and not expired for the caller who asks.\<close>

definition not_expired_for :: "prepared_idempotency \<Rightarrow> prepared_idempotency \<Rightarrow> bool" where
  "not_expired_for p q \<longleftrightarrow> pi_retentionClass p = Durable \<or> (case pi_expiresAt p of None \<Rightarrow> True | Some t \<Rightarrow> pi_createdAt q < t)"

lemma find_after_save_row:
  assumes "saveIdempotencyResult (Some p) out d = Inr d'" and "pi_identity q = pi_identity p"
    and "not_expired_for p q"
  obtains r where "find (\<lambda>r. ik_identity r = pi_identity q) (idems d') = Some r"
    "\<not> ik_expired (pi_createdAt q) r" "ik_digestVersion r = IDEMPOTENCY_REQUEST_DIGEST_VERSION"
    "ik_requestDigest r = pi_requestDigest p" "ik_resultId r = o_resultId out"
proof (rule save_appends [OF assms(1)])
  fix r
  assume r: "idems d' = idems d @ [r]" "ik_identity r = pi_identity p"
    "ik_digestVersion r = IDEMPOTENCY_REQUEST_DIGEST_VERSION" "ik_requestDigest r = pi_requestDigest p"
    "ik_resultId r = o_resultId out" "ik_resultType r = o_resultType out"
    "ik_retentionClass r = pi_retentionClass p" "ik_expiresAt r = pi_expiresAt p"
    "\<forall>x \<in> set (idems d). ik_identity x \<noteq> pi_identity p"
  have "find (\<lambda>r. ik_identity r = pi_identity q) (idems d') = Some r"
    using r assms(2) by (auto simp: find_append split: option.splits dest!: find_SomeD)
  moreover have "\<not> ik_expired (pi_createdAt q) r"
    using r assms(3) by (auto simp: ik_expired_def not_expired_for_def split: option.splits)
  ultimately show thesis using that r by blast
qed

lemma sha256Digest_truthy [simp]: "truthy_str (Some (sha256Digest env v))"
  by (simp add: sha256Digest_def)

lemma replay_found:
  assumes "saveIdempotencyResult (Some p) out d = Inr d'" and "pi_identity q = pi_identity p"
    and "not_expired_for p q" and "pi_requestDigest q = pi_requestDigest p" and "truthy_str (Some (pi_requestDigest q))"
  shows "\<exists>r. findIdempotencyResult (Some q) d' = Inr (d', Some r) \<and> ik_resultId r = o_resultId out"
proof (rule find_after_save_row [OF assms(1,2,3)])
  fix r
  assume "find (\<lambda>r. ik_identity r = pi_identity q) (idems d') = Some r"
    "\<not> ik_expired (pi_createdAt q) r" "ik_digestVersion r = IDEMPOTENCY_REQUEST_DIGEST_VERSION"
    "ik_requestDigest r = pi_requestDigest p" "ik_resultId r = o_resultId out"
  with assms(4,5) show ?thesis by (simp add: findIdempotencyResult_def)
qed

lemma conflict_refused:
  assumes "saveIdempotencyResult (Some p) out d = Inr d'" and "pi_identity q = pi_identity p"
    and "not_expired_for p q" and "pi_requestDigest q \<noteq> pi_requestDigest p"
  shows "\<exists>msg args. findIdempotencyResult (Some q) d' = Inl (Refused msg args)"
proof (rule find_after_save_row [OF assms(1,2,3)])
  fix r
  assume "find (\<lambda>r. ik_identity r = pi_identity q) (idems d') = Some r"
    "\<not> ik_expired (pi_createdAt q) r" "ik_digestVersion r = IDEMPOTENCY_REQUEST_DIGEST_VERSION"
    "ik_requestDigest r = pi_requestDigest p"
  with assms(4) show ?thesis by (simp add: findIdempotencyResult_def)
qed

lemma prepared_some:
  assumes "prepareIdempotency env ctx op req now rc ms leg = Inr (Some p)"
  shows "pi_requestDigest p = sha256Digest env (canonicalJson (request_envelope op req))"
    and "pi_operation p = op" and "pi_tenantId p = tenant_of ctx" and "ctx_idempotencyKey ctx = Some (pi_key p)"
    and "idempotencyCallerScope ctx = Inr (pi_callerScope p)" and "pi_createdAt p = now" and "0 \<le> now"
    and "pi_retentionClass p = or_else rc Standard"
    and "retention_expiry (pi_retentionClass p) ms now = Inr (pi_expiresAt p)"
  using assms by (auto simp: prepareIdempotency_def res Let_def split: option.splits)

lemma request_envelope_norm:
  "json_norm (request_envelope op r1) = json_norm (request_envelope op r2) \<Longrightarrow>
    r1 \<noteq> JUndef \<Longrightarrow> r2 \<noteq> JUndef \<Longrightarrow> json_norm r1 = json_norm r2"
  by (simp add: request_envelope_def sorted_entries_def)

section \<open>Properties\<close>


definition sample_prepared :: "json \<Rightarrow> int \<Rightarrow> prepared_idempotency" where
  "sample_prepared request now = the (projr (prepareIdempotency sample_env
     ((sample_ctx ''alice'' now)\<lparr>ctx_idempotencyKey := Some ''k1''\<rparr>) ''task.create'' request now None None None))"

definition sample_outcome :: idempotency_outcome where
  "sample_outcome = \<lparr>o_resultType = ''commitment'', o_resultId = ''t1'', o_resultStatus = None,
     o_resultRevision = Some 1, o_eventSequence = None\<rparr>"

abbreviation sample_saved :: db where
  "sample_saved \<equiv> projr (saveIdempotencyResult (Some (sample_prepared (JStr ''buy'') 1000)) sample_outcome empty_db)"

abbreviation sample_keyed_ctx :: service_context where
  "sample_keyed_ctx \<equiv> (sample_ctx ''alice'' 0)\<lparr>ctx_idempotencyKey := Some ''k1''\<rparr>"

lemma sample_prepared_ok:
  "prepareIdempotency sample_env sample_keyed_ctx ''task.create'' (JStr ''buy'') 1000 None None None =
     Inr (Some (sample_prepared (JStr ''buy'') 1000))"
  "prepareIdempotency sample_env sample_keyed_ctx ''task.create'' (JStr ''buy'') 2000 None None None =
     Inr (Some (sample_prepared (JStr ''buy'') 2000))"
  "prepareIdempotency sample_env sample_keyed_ctx ''task.create'' (JStr ''sell'') 2000 None None None =
     Inr (Some (sample_prepared (JStr ''sell'') 2000))"
  "saveIdempotencyResult (Some (sample_prepared (JStr ''buy'') 1000)) sample_outcome empty_db = Inr sample_saved"
  "not_expired_for (sample_prepared (JStr ''buy'') 1000) (sample_prepared (JStr ''buy'') 2000)"
  "not_expired_for (sample_prepared (JStr ''buy'') 1000) (sample_prepared (JStr ''sell'') 2000)"
  by code_simp+




end
