(* ===== verification/Principals.thy ===== *)
theory Principals
  imports Idempotency
begin

text \<open>
  Stable principals for attribution (\<open>packages/tasq-core/src/service/principals.ts\<close>): the
  deterministic identity of a local actor alias, its creation on first use inside a transaction,
  registration, listing and enabling. Authentication is elsewhere.
\<close>

section \<open>Rows\<close>

text \<open>\<open>parsePrincipal\<close>: the schema's length bounds.\<close>

definition between :: "nat \<Rightarrow> nat \<Rightarrow> string \<Rightarrow> bool" where
  "between lo hi s \<longleftrightarrow> lo \<le> length s \<and> length s \<le> hi"

definition principal_ok :: "principal \<Rightarrow> bool" where
  "principal_ok p \<longleftrightarrow> between 1 500 (p_id p) \<and> p_tenantId p \<noteq> [] \<and> between 1 200 (p_displayName p) \<and>
     (case p_localAlias p of None \<Rightarrow> True | Some a \<Rightarrow> between 1 200 a)"

definition parsePrincipal :: "principal \<Rightarrow> err + principal" where
  "parsePrincipal p = (if principal_ok p then Inr p else Inl (InvalidInput ''principal''))"

lemma parsePrincipal_Inr [res]: "parsePrincipal p = Inr q \<longleftrightarrow> q = p \<and> principal_ok p"
  by (auto simp: parsePrincipal_def)

definition insert_principal :: "principal \<Rightarrow> db \<Rightarrow> err + db" where
  "insert_principal r d = insert_row ''principal''
     (\<forall>x \<in> set (principals d). p_id x \<noteq> p_id r \<and>
        \<not> (p_localAlias r \<noteq> None \<and> p_tenantId x = p_tenantId r \<and> p_localAlias x = p_localAlias r))
     (p_revision r > 0) (d\<lparr>principals := principals d @ [r]\<rparr>)"

definition getPrincipal :: "string \<Rightarrow> string \<Rightarrow> db \<Rightarrow> err + principal option" where
  "getPrincipal pid tenantId d =
     (case find (\<lambda>p. p_id p = pid \<and> p_tenantId p = tenantId) (principals d) of
        None \<Rightarrow> Inr None
      | Some r \<Rightarrow> (case parsePrincipal r of Inl e \<Rightarrow> Inl e | Inr p \<Rightarrow> Inr (Some p)))"

lemma getPrincipal_Some:
  "getPrincipal pid tn d = Inr (Some p) \<Longrightarrow> p \<in> set (principals d) \<and> p_id p = pid \<and> p_tenantId p = tn"
  by (auto simp: getPrincipal_def res split: option.splits dest: find_SomeD)

section \<open>Local identities\<close>

text \<open>\<open>Buffer.from(s).toString("hex")\<close>: the UTF-8 bytes of a string of code units below 256.\<close>

definition hex_char :: "nat \<Rightarrow> char" where
  "hex_char n = ''0123456789abcdef'' ! n"

definition hex_byte :: "nat \<Rightarrow> string" where
  "hex_byte n = [hex_char (n div 16), hex_char (n mod 16)]"

definition utf8_bytes :: "char \<Rightarrow> nat list" where
  "utf8_bytes c = (let n = (of_char c :: nat) in if n < 128 then [n] else [192 + n div 64, 128 + n mod 64])"

definition utf8_hex :: "string \<Rightarrow> string" where
  "utf8_hex s = concat (map (\<lambda>c. concat (map hex_byte (utf8_bytes c))) s)"

definition local_prefix :: string where
  "local_prefix = ''urn:tasq:local-principal:''"

definition localPrincipalId :: "env \<Rightarrow> string \<Rightarrow> string \<Rightarrow> string" where
  "localPrincipalId env tenantId alias =
     (let legacy = local_prefix @ utf8_hex tenantId @ '':'' @ utf8_hex alias in
      if length legacy \<le> 500 then legacy
      else local_prefix @ ''sha256:'' @
        sha256_hex env (''tasq.local-principal.v1'' @ [char_of (0 :: nat)] @ json_text (JArr [JStr tenantId, JStr alias])))"

definition ensureLocalPrincipal :: "env \<Rightarrow> string \<Rightarrow> string \<Rightarrow> int \<Rightarrow> db \<Rightarrow> err + db \<times> principal" where
  "ensureLocalPrincipal env tenantId alias now d =
     (if js_blank alias then Inl (Refused ''actor alias must not be blank'' [])
      else let row = \<lparr>p_id = localPrincipalId env tenantId alias, p_tenantId = tenantId,
             p_kind = (if alias = ''system'' then Service else Agent), p_displayName = alias,
             p_localAlias = Some alias, p_status = Enabled, p_metadata = [], p_revision = 1,
             p_createdAt = now, p_updatedAt = now\<rparr>;
           d1 = (case insert_principal row d of Inl _ \<Rightarrow> d | Inr d' \<Rightarrow> d')
      in (case find (\<lambda>p. p_tenantId p = tenantId \<and> p_localAlias p = Some alias) (principals d1) of
            None \<Rightarrow> Inl (Refused ''Failed to resolve local principal for'' [alias])
          | Some r \<Rightarrow>
              (case parsePrincipal r of Inl e \<Rightarrow> Inl e | Inr p \<Rightarrow>
               if p_status p \<noteq> Enabled then Inl (Refused ''Principal is disabled'' [p_id p])
               else Inr (d1, p))))"

text \<open>Attribution of a mutation, as every service does it: an explicit principal must exist in the
  workspace and be enabled, otherwise the actor alias is resolved.\<close>

definition resolveAttribution ::
  "env \<Rightarrow> string option \<Rightarrow> string \<Rightarrow> string \<Rightarrow> int \<Rightarrow> db \<Rightarrow> err + db \<times> principal" where
  "resolveAttribution env principalId tenantId actor now d =
     (if truthy_str principalId
      then (case getPrincipal (the principalId) tenantId d of Inl e \<Rightarrow> Inl e
            | Inr None \<Rightarrow> Inl (Refused ''Principal not found in workspace'' [the principalId])
            | Inr (Some p) \<Rightarrow> if p_status p \<noteq> Enabled then Inl (Refused ''Principal is disabled'' [p_id p])
                else Inr (d, p))
      else ensureLocalPrincipal env tenantId actor now d)"

section \<open>Registration\<close>

record principal_insert =
  pin_id :: "string option"
  pin_tenantId :: string
  pin_kind :: principal_kind
  pin_displayName :: string
  pin_localAlias :: "string option"
  pin_status :: principal_status
  pin_metadata :: metadata

definition principal_insert_ok :: "principal_insert \<Rightarrow> bool" where
  "principal_insert_ok i \<longleftrightarrow> (case pin_id i of None \<Rightarrow> True | Some x \<Rightarrow> between 1 500 x) \<and>
     pin_tenantId i \<noteq> [] \<and> between 1 200 (pin_displayName i) \<and>
     (case pin_localAlias i of None \<Rightarrow> True | Some a \<Rightarrow> between 1 200 a)"

fun principal_kind_text :: "principal_kind \<Rightarrow> string" where
  "principal_kind_text Human = ''human''"
| "principal_kind_text Agent = ''agent''"
| "principal_kind_text Service = ''service''"
| "principal_kind_text Runtime = ''runtime''"

fun principal_status_text :: "principal_status \<Rightarrow> string" where
  "principal_status_text Enabled = ''enabled''"
| "principal_status_text Disabled = ''disabled''"

definition principal_insert_json :: "principal_insert \<Rightarrow> json" where
  "principal_insert_json i = JObj
     [(''id'', optional JStr (pin_id i)), (''tenantId'', JStr (pin_tenantId i)),
      (''kind'', JStr (principal_kind_text (pin_kind i))), (''displayName'', JStr (pin_displayName i)),
      (''localAlias'', nullable JStr (pin_localAlias i)),
      (''status'', JStr (principal_status_text (pin_status i))), (''metadata'', JObj (pin_metadata i))]"

text \<open>The name of the caller in a request digest: \<open>ctx.principalId ?? ctx.actor ?? "system"\<close>.\<close>

definition caller_of :: "service_context \<Rightarrow> string" where
  "caller_of ctx = or_else (ctx_principalId ctx) (actor_of ctx)"

definition createPrincipal ::
  "env \<Rightarrow> principal_insert \<Rightarrow> service_context \<Rightarrow> db \<Rightarrow> db \<times> (err + principal)" where
  "createPrincipal env parsed ctx =
     (let tenantId = pin_tenantId parsed;
          req = JObj [(''input'', principal_insert_json parsed), (''caller'', JStr (caller_of ctx))]
      in prologue (if \<not> principal_insert_ok parsed then Inl (InvalidInput ''principal'') else
                   case serviceNow ctx of Inl e \<Rightarrow> Inl e | Inr now \<Rightarrow>
                   (case prepareIdempotency env (ctx\<lparr>ctx_tenantId := Some tenantId\<rparr>) ''principal.create'' req now
                      None None (Some req) of Inl e \<Rightarrow> Inl e | Inr identity \<Rightarrow> Inr (now, identity)))
      (\<lambda>(now, identity). runInTransaction (\<lambda>d.
        case findIdempotencyResult identity d of Inl e \<Rightarrow> Inl e
        | Inr (d, Some prior) \<Rightarrow>
            (case getPrincipal (ik_resultId prior) tenantId d of Inl e \<Rightarrow> Inl e
             | Inr None \<Rightarrow> Inl (Refused ''Idempotency record points at missing principal'' [ik_resultId prior])
             | Inr (Some p) \<Rightarrow> Inr (d, p, []))
        | Inr (d, None) \<Rightarrow>
            (let (d, pid) = (case pin_id parsed of Some x \<Rightarrow> (d, x)
               | None \<Rightarrow> if truthy_str (pin_localAlias parsed)
                    then (d, localPrincipalId env tenantId (the (pin_localAlias parsed)))
                    else fresh_id env now d)
             in case insert_principal \<lparr>p_id = pid, p_tenantId = tenantId, p_kind = pin_kind parsed,
                   p_displayName = pin_displayName parsed, p_localAlias = pin_localAlias parsed,
                   p_status = pin_status parsed, p_metadata = pin_metadata parsed, p_revision = 1,
                   p_createdAt = now, p_updatedAt = now\<rparr> d of Inl e \<Rightarrow> Inl e
                | Inr d \<Rightarrow>
                  (case getPrincipal pid tenantId d of Inl e \<Rightarrow> Inl e
                   | Inr None \<Rightarrow> Inl (Refused ''Failed to read back principal'' [pid])
                   | Inr (Some result) \<Rightarrow>
                     (case saveIdempotencyResult identity \<lparr>o_resultType = ''principal'', o_resultId = pid,
                         o_resultStatus = Some (principal_status_text (p_status result)),
                         o_resultRevision = Some (p_revision result), o_eventSequence = None\<rparr> d of
                        Inl e \<Rightarrow> Inl e | Inr d \<Rightarrow> Inr (d, result, [])))))))"

definition listPrincipals :: "string option \<Rightarrow> principal_status option \<Rightarrow> db \<Rightarrow> principal list" where
  "listPrincipals tenant status d = sort_key p_createdAt (filter (\<lambda>p.
     p_tenantId p = or_else tenant LEGACY_DEFAULT_WORKSPACE_ID \<and>
     (case status of None \<Rightarrow> True | Some s \<Rightarrow> p_status p = s)) (principals d))"

definition setPrincipalStatus ::
  "string \<Rightarrow> principal_status \<Rightarrow> service_context \<Rightarrow> int \<Rightarrow> db \<Rightarrow> db \<times> (err + principal)" where
  "setPrincipalStatus pid status ctx expectedRevision =
     (let tenantId = tenant_of ctx in
      prologue (serviceNow ctx) (\<lambda>now. runInTransaction (\<lambda>d.
        case getPrincipal pid tenantId d of Inl e \<Rightarrow> Inl e
        | Inr None \<Rightarrow> Inl (Refused ''Principal not found'' [pid])
        | Inr (Some before) \<Rightarrow>
            if p_status before = status then Inr (d, before, [])
            else let P = (\<lambda>p. p_id p = pid \<and> p_tenantId p = tenantId \<and> p_revision p = expectedRevision);
                     f = (\<lambda>p. p\<lparr>p_status := status, p_updatedAt := now, p_revision := p_revision p + 1\<rparr>)
                 in (case find P (principals d) of
                       None \<Rightarrow> Inl (Refused ''Stale principal revision or principal not found'' [pid])
                     | Some r \<Rightarrow> (case parsePrincipal (f r) of Inl e \<Rightarrow> Inl e | Inr p \<Rightarrow>
                         Inr (d\<lparr>principals := update_rows P f (principals d)\<rparr>, p, []))))))"

section \<open>Frames\<close>

lemma insert_principal_Inr:
  "insert_principal r d = Inr d' \<Longrightarrow> d' = d\<lparr>principals := principals d @ [r]\<rparr>"
  by (simp add: insert_principal_def res)

lemma ensureLocalPrincipal_frame:
  assumes "ensureLocalPrincipal env tn al now d = Inr (d', p)"
  shows "\<exists>ps. d' = d\<lparr>principals := ps\<rparr> \<and> (\<exists>rest. ps = principals d @ rest)"
  using assms unfolding ensureLocalPrincipal_def
  by (intro exI [of _ "principals d'"])
    (auto simp: Let_def res split: if_splits sum.splits option.splits dest!: insert_principal_Inr)

lemma resolveAttribution_frame:
  assumes "resolveAttribution env pid tn al now d = Inr (d', p)"
  shows "\<exists>ps. d' = d\<lparr>principals := ps\<rparr> \<and> (\<exists>rest. ps = principals d @ rest)"
  using assms ensureLocalPrincipal_frame unfolding resolveAttribution_def
  by (auto simp: res split: if_splits sum.splits option.splits intro: exI [of _ "principals d"])

text \<open>The principal a mutation is attributed to is enabled and belongs to the workspace.\<close>

lemma ensureLocalPrincipal_result:
  "ensureLocalPrincipal env tn al now d = Inr (d', p) \<Longrightarrow>
     p_status p = Enabled \<and> p_tenantId p = tn \<and> p_localAlias p = Some al \<and> p \<in> set (principals d')"
  unfolding ensureLocalPrincipal_def
  by (auto simp: Let_def res split: if_splits sum.splits option.splits dest!: find_SomeD)

lemma resolveAttribution_enabled:
  "resolveAttribution env pid tn al now d = Inr (d', p) \<Longrightarrow>
     p_status p = Enabled \<and> p_tenantId p = tn \<and> p \<in> set (principals d')"
  unfolding resolveAttribution_def
  by (auto simp: res split: if_splits sum.splits option.splits
      dest!: ensureLocalPrincipal_result getPrincipal_Some)

text \<open>Resolving an alias again finds the same principal and inserts nothing.\<close>

lemma ensureLocalPrincipal_again:
  assumes "ensureLocalPrincipal env tn al now d = Inr (d', p)"
  shows "ensureLocalPrincipal env tn al now2 d' = Inr (d', p)"
proof -
  let ?P = "\<lambda>p. p_tenantId p = tn \<and> p_localAlias p = Some al"
  from assms have p: "find ?P (principals d') = Some p" "principal_ok p" "p_status p = Enabled" "\<not> js_blank al"
    unfolding ensureLocalPrincipal_def
    by (auto simp: Let_def res split: if_splits sum.splits option.splits)
  then have "p \<in> set (principals d')" "?P p" by (auto dest: find_SomeD)
  then have "insert_principal r d' = Inl (UniqueViolation ''principal'')"
    if "p_tenantId r = tn" "p_localAlias r = Some al" for r
    using that by (auto simp: insert_principal_def insert_row_def)
  with p show ?thesis by (simp add: ensureLocalPrincipal_def parsePrincipal_def)
qed

section \<open>Local identities are distinct\<close>

lemma hex_char_inj: "m < 16 \<Longrightarrow> n < 16 \<Longrightarrow> hex_char m = hex_char n \<Longrightarrow> m = n"
proof -
  have "\<forall>m \<in> set [0..<16]. \<forall>n \<in> set [0..<16]. hex_char m = hex_char n \<longrightarrow> m = n" by code_simp
  then show "m < 16 \<Longrightarrow> n < 16 \<Longrightarrow> hex_char m = hex_char n \<Longrightarrow> m = n" by simp
qed

definition HEX :: "char set" where
  "HEX = set ''0123456789abcdef''"

lemma hex_char_range: "n < 16 \<Longrightarrow> hex_char n \<in> HEX"
  unfolding hex_char_def HEX_def by (rule nth_mem) simp

lemma hex_byte_inj: "m < 256 \<Longrightarrow> n < 256 \<Longrightarrow> hex_byte m = hex_byte n \<Longrightarrow> m = n"
  using hex_char_inj [of "m div 16" "n div 16"] hex_char_inj [of "m mod 16" "n mod 16"]
  by (simp add: hex_byte_def less_mult_imp_div_less) (metis div_mult_mod_eq)

lemma of_char_less: "(of_char c :: nat) < 256"
  by (rule nat_of_char_less_256)

lemma utf8_split:
  assumes "concat (map hex_byte (utf8_bytes c)) @ u = concat (map hex_byte (utf8_bytes d)) @ w"
  shows "c = d \<and> u = w"
proof -
  let ?n = "of_char c :: nat" and ?m = "of_char d :: nat"
  have b: "?n < 256" "?m < 256" by (rule of_char_less)+
  have hb: "hex_byte x @ s = hex_byte y @ t \<Longrightarrow> x < 256 \<Longrightarrow> y < 256 \<Longrightarrow> x = y \<and> s = t" for x y s t
    using hex_byte_inj [of x y] by (auto simp: hex_byte_def)
  have r: "128 + k mod 64 < 256" for k :: nat
  proof -
    have "k mod 64 < 64" by simp
    then show ?thesis by linarith
  qed
  have lo: "192 + k div 64 < 256" if "k < 256" for k :: nat
  proof -
    have "k div 64 < 4" using that by (simp add: less_mult_imp_div_less)
    then show ?thesis by linarith
  qed
  have "?n = ?m \<and> u = w"
  proof (cases "?n < 128"; cases "?m < 128")
    assume "?n < 128" "?m < 128"
    then show ?thesis using assms hb [of ?n u ?m w] b by (simp add: utf8_bytes_def Let_def)
  next
    assume "?n < 128" "\<not> ?m < 128"
    then show ?thesis using assms hb [of ?n u "192 + ?m div 64" "hex_byte (128 + ?m mod 64) @ w"] b lo [of ?m]
      by (simp add: utf8_bytes_def Let_def)
  next
    assume "\<not> ?n < 128" "?m < 128"
    then show ?thesis using assms hb [of "192 + ?n div 64" "hex_byte (128 + ?n mod 64) @ u" ?m w] b lo [of ?n]
      by (simp add: utf8_bytes_def Let_def)
  next
    assume "\<not> ?n < 128" "\<not> ?m < 128"
    with assms have e: "hex_byte (192 + ?n div 64) @ hex_byte (128 + ?n mod 64) @ u =
        hex_byte (192 + ?m div 64) @ hex_byte (128 + ?m mod 64) @ w"
      by (simp add: utf8_bytes_def Let_def)
    from hb [OF this] lo b have d: "?n div 64 = ?m div 64"
      and e2: "hex_byte (128 + ?n mod 64) @ u = hex_byte (128 + ?m mod 64) @ w" by auto
    from hb [OF e2 r r] have "?n mod 64 = ?m mod 64" "u = w" by auto
    with d show ?thesis by (metis div_mult_mod_eq)
  qed
  then show ?thesis by (metis char_of_char)
qed

lemma utf8_hex_Cons: "utf8_hex (x # s) = concat (map hex_byte (utf8_bytes x)) @ utf8_hex s"
  by (simp add: utf8_hex_def)

lemma utf8_head: "\<exists>h r. concat (map hex_byte (utf8_bytes x)) = h # r \<and> h \<in> HEX"
proof -
  let ?n = "of_char x :: nat"
  have "?n div 64 < 4" using of_char_less [of x] by (simp add: less_mult_imp_div_less)
  then have "(192 + ?n div 64) div 16 < 16" by simp
  moreover have "?n div 16 < 16" using of_char_less [of x] by (simp add: less_mult_imp_div_less)
  ultimately show ?thesis by (auto simp: utf8_bytes_def Let_def hex_byte_def intro: hex_char_range)
qed

lemma utf8_hex_split:
  "c \<notin> HEX \<Longrightarrow> utf8_hex s @ c # u = utf8_hex t @ c # w \<Longrightarrow> s = t \<and> u = w"
proof (induction s arbitrary: t)
  case Nil
  show ?case
  proof (cases t)
    case (Cons y t')
    with Nil utf8_head [of y] show ?thesis by (auto simp: utf8_hex_Cons) (simp_all add: utf8_hex_def)
  qed (use Nil in \<open>simp add: utf8_hex_def\<close>)
next
  case (Cons x s)
  show ?case
  proof (cases t)
    case Nil
    with Cons.prems utf8_head [of x] show ?thesis by (auto simp: utf8_hex_Cons) (simp_all add: utf8_hex_def)
  next
    case (Cons y t')
    with Cons.prems(2) have "concat (map hex_byte (utf8_bytes x)) @ utf8_hex s @ c # u =
        concat (map hex_byte (utf8_bytes y)) @ utf8_hex t' @ c # w" by (simp add: utf8_hex_Cons)
    from utf8_split [OF this] Cons.IH [OF Cons.prems(1), of t'] Cons show ?thesis by simp
  qed
qed

lemma utf8_hex_inj: "utf8_hex s = utf8_hex t \<Longrightarrow> s = t"
  using utf8_hex_split [of "CHR '':''" s "[]" t "[]"] by (simp add: HEX_def)

lemma json_text_pair_inj:
  "json_text (JArr [JStr a, JStr b]) = json_text (JArr [JStr c, JStr d]) \<Longrightarrow> a = c \<and> b = d"
  using json_quote_split [of b "[]" d "[]"] by (auto dest!: json_quote_split)

lemma localPrincipalId_inj:
  assumes "\<forall>s t. sha256_hex env s = sha256_hex env t \<longrightarrow> s = t"
    and eq: "localPrincipalId env t1 a1 = localPrincipalId env t2 a2"
  shows "t1 = t2 \<and> a1 = a2"
proof -
  let ?leg = "\<lambda>t a. local_prefix @ utf8_hex t @ '':'' @ utf8_hex a"
  have colon: "CHR '':'' \<notin> HEX" by (simp add: HEX_def)
  have nodig: "utf8_hex t @ CHR '':'' # utf8_hex a \<noteq> CHR ''s'' # w" for t a w
  proof (cases t)
    case (Cons y t')
    obtain h r where "concat (map hex_byte (utf8_bytes y)) = h # r" "h \<in> HEX" using utf8_head by blast
    moreover have "CHR ''s'' \<notin> HEX" by (simp add: HEX_def)
    ultimately show ?thesis using Cons by (auto simp: utf8_hex_Cons)
  qed (simp add: utf8_hex_def)
  consider "length (?leg t1 a1) \<le> 500" "length (?leg t2 a2) \<le> 500"
    | "length (?leg t1 a1) \<le> 500" "\<not> length (?leg t2 a2) \<le> 500"
    | "\<not> length (?leg t1 a1) \<le> 500" "length (?leg t2 a2) \<le> 500"
    | "\<not> length (?leg t1 a1) \<le> 500" "\<not> length (?leg t2 a2) \<le> 500" by blast
  then show ?thesis
  proof cases
    case 1
    then have "utf8_hex t1 @ CHR '':'' # utf8_hex a1 = utf8_hex t2 @ CHR '':'' # utf8_hex a2"
      using eq by (simp add: localPrincipalId_def Let_def)
    from utf8_hex_split [OF colon this] show ?thesis using utf8_hex_inj by auto
  next
    case 2 then show ?thesis using eq nodig [of t1 a1] by (simp add: localPrincipalId_def Let_def)
  next
    case 3 then show ?thesis using eq nodig [of t2 a2] by (auto simp: localPrincipalId_def Let_def dest: sym)
  next
    case 4
    then have "sha256_hex env (''tasq.local-principal.v1'' @ [char_of (0 :: nat)] @ json_text (JArr [JStr t1, JStr a1])) =
        sha256_hex env (''tasq.local-principal.v1'' @ [char_of (0 :: nat)] @ json_text (JArr [JStr t2, JStr a2]))"
      using eq by (simp add: localPrincipalId_def Let_def)
    then have "json_text (JArr [JStr t1, JStr a1]) = json_text (JArr [JStr t2, JStr a2])"
      using assms(1) by (metis append_same_eq same_append_eq)
    then show ?thesis by (rule json_text_pair_inj)
  qed
qed

section \<open>Properties\<close>

text \<open>Distinct local identities: two different workspace and alias pairs resolve to different
  local principal identifiers, in the reversible form and in the digest form used for long names
  (\<open>SHA-256\<close> taken as collision free).\<close>

theorem localPrincipalId_injective:
  assumes "\<forall>s t. sha256_hex env s = sha256_hex env t \<longrightarrow> s = t"
    and "(t1, a1) \<noteq> (t2, a2)"
  shows "localPrincipalId env t1 a1 \<noteq> localPrincipalId env t2 a2"
  using localPrincipalId_inj [OF assms(1), of t1 a1 t2 a2] assms(2) by auto

theorem localPrincipalId_injective_witness:
  "localPrincipalId sample_env ''w'' ''alice'' \<noteq> localPrincipalId sample_env ''wa'' ''lice''"
  by (rule localPrincipalId_injective) (simp_all add: sample_env_def)

end
