(* ===== verification/Events.thy ===== *)
theory Events
  imports Principals
begin

text \<open>
  The append-only event log (\<open>packages/tasq-core/src/service/events.ts\<close>). \<open>recordEvent\<close> attributes
  an event to an enabled principal of the workspace and appends it with the next sequence number;
  the external journal receives it after the commit (\<open>runInTransaction\<close>). The laws of a numbered
  append-only log are stated once, in the locale \<open>numbered_log\<close>, for this log and the log of
  resource events.
\<close>

section \<open>Numbered append-only logs\<close>

locale numbered_log =
  fixes seq :: "'r \<Rightarrow> int"
    and renumber :: "int \<Rightarrow> 'r \<Rightarrow> 'r"
  assumes seq_renumber: "seq (renumber n r) = n"
begin

definition log_inv :: "'r list \<Rightarrow> int \<Rightarrow> bool" where
  "log_inv rs n \<longleftrightarrow> map seq rs = map int [1..<Suc (length rs)] \<and> n = int (length rs)"

definition log_append :: "'r \<Rightarrow> 'r list \<times> int \<Rightarrow> 'r list \<times> int" where
  "log_append r = (\<lambda>(rs, n). (rs @ [renumber (n + 1) r], n + 1))"

lemma log_inv_Nil: "log_inv [] 0"
  by (simp add: log_inv_def)

lemma log_inv_append:
  "log_inv rs n \<Longrightarrow> log_inv (fst (log_append r (rs, n))) (snd (log_append r (rs, n)))"
  by (simp add: log_inv_def log_append_def seq_renumber)

lemma log_inv_sorted: "log_inv rs n \<Longrightarrow> sorted_wrt (<) (map seq rs)"
proof -
  have "sorted_wrt (<) (map int [1..<Suc (length rs)])"
    by (simp add: sorted_wrt_map sorted_wrt_upt del: upt_Suc)
  then show "log_inv rs n \<Longrightarrow> ?thesis" by (simp add: log_inv_def del: upt_Suc)
qed

lemma log_inv_nth: "log_inv rs n \<Longrightarrow> i < length rs \<Longrightarrow> seq (rs ! i) = int i + 1"
proof -
  assume "log_inv rs n" "i < length rs"
  then have "map seq rs ! i = map int [1..<Suc (length rs)] ! i" by (simp add: log_inv_def del: upt_Suc)
  with \<open>i < length rs\<close> show ?thesis by (simp del: upt_Suc)
qed

end

section \<open>Recording\<close>

record event_insert =
  ei_id :: "string option"
  ei_tenantId :: string
  ei_actor :: string
  ei_principalId :: "string option"
  ei_entityType :: string
  ei_entityId :: string
  ei_eventType :: string
  ei_payload :: json
  ei_occurredAt :: "int option"

definition event_insert_ok :: "event_insert \<Rightarrow> bool" where
  "event_insert_ok i \<longleftrightarrow> ei_tenantId i \<noteq> [] \<and> ei_actor i \<noteq> [] \<and> ei_principalId i \<noteq> Some [] \<and>
     ei_eventType i \<noteq> [] \<and> (case ei_occurredAt i of None \<Rightarrow> True | Some t \<Rightarrow> 0 \<le> t)"

definition recordEvent :: "env \<Rightarrow> event_insert \<Rightarrow> int \<Rightarrow> db \<Rightarrow> err + db \<times> event" where
  "recordEvent env inp now d =
     (if \<not> event_insert_ok inp then Inl (InvalidInput ''event'') else
      let (d, eid) = (case ei_id inp of Some x \<Rightarrow> (d, x) | None \<Rightarrow> fresh_id env now d) in
      case resolveAttribution env (ei_principalId inp) (ei_tenantId inp) (ei_actor inp) now d of
        Inl e \<Rightarrow> Inl e
      | Inr (d, attribution) \<Rightarrow>
          let e = \<lparr>ev_sequence = eventSeq d + 1, ev_id = eid, ev_tenantId = ei_tenantId inp,
                ev_actor = ei_actor inp, ev_principalId = p_id attribution, ev_entityType = ei_entityType inp,
                ev_entityId = ei_entityId inp, ev_eventType = ei_eventType inp, ev_payload = ei_payload inp,
                ev_occurredAt = ei_occurredAt inp, ev_createdAt = now\<rparr>
          in case insert_row ''event'' (\<forall>x \<in> set (events d). ev_id x \<noteq> eid) True
                (d\<lparr>events := events d @ [e], eventSeq := eventSeq d + 1\<rparr>) of
               Inl er \<Rightarrow> Inl er
             | Inr d \<Rightarrow> Inr (d, e))"

text \<open>An event on a task, as the services record it.\<close>

definition task_event ::
  "string \<Rightarrow> string \<Rightarrow> string option \<Rightarrow> string \<Rightarrow> string \<Rightarrow> (string \<times> json) list \<Rightarrow> event_insert" where
  "task_event tenantId actor principalId taskId eventType payload =
     \<lparr>ei_id = None, ei_tenantId = tenantId, ei_actor = actor, ei_principalId = principalId,
      ei_entityType = ''task'', ei_entityId = taskId, ei_eventType = eventType, ei_payload = JObj payload,
      ei_occurredAt = None\<rparr>"

section \<open>Reading\<close>

record list_events_options =
  lo_tenantId :: "string option"
  lo_entityType :: "string option"
  lo_entityId :: "string option"
  lo_actor :: "string option"
  lo_sinceMs :: "int option"
  lo_beforeMs :: "int option"
  lo_afterSequence :: "int option"
  lo_beforeSequence :: "int option"
  lo_limit :: "int option"
  lo_ascending :: bool

definition int_filter :: "(int \<Rightarrow> int \<Rightarrow> bool) \<Rightarrow> int option \<Rightarrow> int \<Rightarrow> bool" where
  "int_filter P opt v \<longleftrightarrow> (case opt of None \<Rightarrow> True | Some b \<Rightarrow> P v b)"

definition event_matches :: "list_events_options \<Rightarrow> event \<Rightarrow> bool" where
  "event_matches opts e \<longleftrightarrow>
     ev_tenantId e = or_else (lo_tenantId opts) LEGACY_DEFAULT_WORKSPACE_ID \<and>
     str_filter (lo_entityType opts) (ev_entityType e) \<and>
     str_filter (lo_entityId opts) (ev_entityId e) \<and>
     str_filter (lo_actor opts) (ev_actor e) \<and>
     int_filter (>) (lo_sinceMs opts) (ev_createdAt e) \<and>
     int_filter (<) (lo_beforeMs opts) (ev_createdAt e) \<and>
     int_filter (>) (lo_afterSequence opts) (ev_sequence e) \<and>
     int_filter (<) (lo_beforeSequence opts) (ev_sequence e)"

text \<open>A negative \<open>LIMIT\<close> is no limit in SQLite.\<close>

definition sql_limit :: "int \<Rightarrow> 'a list \<Rightarrow> 'a list" where
  "sql_limit n xs = (if n < 0 then xs else take (nat n) xs)"

definition listEvents :: "list_events_options \<Rightarrow> db \<Rightarrow> event list" where
  "listEvents opts d =
     (let asc = sort_key ev_sequence (filter (event_matches opts) (events d)) in
      sql_limit (or_else (lo_limit opts) 100) (if lo_ascending opts then asc else rev asc))"

definition getEvent :: "string \<Rightarrow> string \<Rightarrow> db \<Rightarrow> event option" where
  "getEvent eid tenantId d = find (\<lambda>e. ev_id e = eid \<and> ev_tenantId e = tenantId) (events d)"

section \<open>The log\<close>

interpretation task_log: numbered_log ev_sequence "\<lambda>n e. e\<lparr>ev_sequence := n\<rparr>"
  by unfold_locales simp

definition events_inv :: "db \<Rightarrow> bool" where
  "events_inv d \<longleftrightarrow> task_log.log_inv (events d) (eventSeq d)"

lemma fresh_id_simp: "fresh_id env now d = (d\<lparr>draws := draws d + 1\<rparr>, uuid env (draws d) now)"
  by (rule fresh_id_def)

lemma recordEvent_frame:
  assumes "recordEvent env inp now d = Inr (d', e)"
  shows "\<exists>ps k. d' = d\<lparr>principals := principals d @ ps, draws := k, events := events d @ [e], eventSeq := eventSeq d + 1\<rparr>"
  using assms unfolding recordEvent_def
  by (intro exI [of _ "drop (length (principals d)) (principals d')"] exI [of _ "draws d'"])
    (auto simp: Let_def res fresh_id_def split: option.splits prod.splits if_splits dest!: resolveAttribution_frame)

lemma recordEvent_event:
  assumes "recordEvent env inp now d = Inr (d', e)"
  shows "ev_sequence e = eventSeq d + 1" "ev_entityId e = ei_entityId inp" "ev_eventType e = ei_eventType inp"
    "ev_payload e = ei_payload inp" "ev_tenantId e = ei_tenantId inp" "ev_createdAt e = now"
    "ev_actor e = ei_actor inp"
  using assms
  by (auto simp: recordEvent_def Let_def res fresh_id_def split: option.splits prod.splits if_splits dest!: resolveAttribution_frame)

lemma recordEvent_log:
  assumes "recordEvent env inp now d = Inr (d', e)"
  shows "(events d', eventSeq d') = task_log.log_append e (events d, eventSeq d)"
  using recordEvent_frame [OF assms] recordEvent_event(1) [OF assms]
  by (auto simp: task_log.log_append_def)

lemma recordEvent_events_inv: "recordEvent env inp now d = Inr (d', e) \<Longrightarrow> events_inv d \<Longrightarrow> events_inv d'"
  unfolding events_inv_def
  by (metis recordEvent_log task_log.log_inv_append fst_conv snd_conv)

end
