(* ===== verification/Contention.thy ===== *)
theory Contention
  imports Events
begin

text \<open>
  What the ledger refused (\<open>packages/tasq-core/src/service/contention.ts\<close>): one row per shape of a
  standoff with a counter of attempts, written outside the transaction that was rolled back, and its
  reading and summary.
\<close>

type_synonym standoff = "string \<times> string \<times> string \<times> string \<times> string"

definition standoff_of :: "contention \<Rightarrow> standoff" where
  "standoff_of k = (k_tenantId k, k_commitmentId k, k_kind k, k_requestedByPrincipalId k, k_holderPrincipalId k)"

definition facts_standoff :: "contention_facts \<Rightarrow> standoff" where
  "facts_standoff f = (f_tenantId f, f_commitmentId f, f_kind f, f_requestedByPrincipalId f, f_holderPrincipalId f)"

text \<open>\<open>insert \<dots> on conflict do update set lastAt, attempts + 1\<close>.\<close>

definition recordContention :: "contention_facts \<Rightarrow> int \<Rightarrow> db \<Rightarrow> db" where
  "recordContention f now d =
     (if \<exists>k \<in> set (contentions d). standoff_of k = facts_standoff f
      then d\<lparr>contentions := update_rows (\<lambda>k. standoff_of k = facts_standoff f)
             (\<lambda>k. k\<lparr>k_lastAt := now, k_attempts := k_attempts k + 1\<rparr>) (contentions d)\<rparr>
      else d\<lparr>contentions := contentions d @ [\<lparr>k_tenantId = f_tenantId f, k_commitmentId = f_commitmentId f,
             k_kind = f_kind f, k_requestedByPrincipalId = f_requestedByPrincipalId f,
             k_requestedByLabel = f_requestedByLabel f, k_holderPrincipalId = f_holderPrincipalId f,
             k_holderLabel = f_holderLabel f, k_firstAt = now, k_lastAt = now, k_attempts = 1\<rparr>]\<rparr>)"

definition withContentionRecorded :: "int \<Rightarrow> (db \<Rightarrow> db \<times> (err + 'a)) \<Rightarrow> db \<Rightarrow> db \<times> (err + 'a)" where
  "withContentionRecorded now work d = (case work d of
      (d', Inl (Contended f)) \<Rightarrow> (recordContention f now d', Inl (Contended f))
    | r \<Rightarrow> r)"

lemma withContentionRecorded_Inr [res]:
  "withContentionRecorded now work d = (d', Inr x) \<longleftrightarrow> work d = (d', Inr x)"
  by (auto simp: withContentionRecorded_def split: prod.splits sum.splits err.splits)

lemma refusal_counted:
  assumes "withContentionRecorded now (runInTransaction body) d = (d', Inl (Contended f))"
  shows "d' = recordContention f now d"
  using assms by (auto simp: withContentionRecorded_def runInTransaction_def split: sum.splits err.splits prod.splits)

definition listContention :: "string \<Rightarrow> int \<Rightarrow> db \<Rightarrow> contention list" where
  "listContention tenantId since d =
     sort_key (\<lambda>k. - k_lastAt k) (filter (\<lambda>k. k_tenantId k = tenantId \<and> k_lastAt k \<ge> since) (contentions d))"

record contention_summary =
  ks_since :: int
  ks_situations :: nat
  ks_attempts :: int
  ks_byKind :: "(string \<times> nat \<times> int) list"
  ks_commitments :: nat

definition bump_kind :: "contention \<Rightarrow> (string \<times> nat \<times> int) list \<Rightarrow> (string \<times> nat \<times> int) list" where
  "bump_kind k m = (case map_of m (k_kind k) of
      None \<Rightarrow> m @ [(k_kind k, 1, k_attempts k)]
    | Some (n, a) \<Rightarrow> map (\<lambda>(x, e). if x = k_kind k then (x, n + 1, a + k_attempts k) else (x, e)) m)"

definition contentionSummary :: "string \<Rightarrow> int \<Rightarrow> db \<Rightarrow> contention_summary" where
  "contentionSummary tenantId since d =
     (let rows = listContention tenantId since d in
      \<lparr>ks_since = since, ks_situations = length rows,
       ks_attempts = foldl (\<lambda>t k. t + k_attempts k) 0 rows,
       ks_byKind = fold bump_kind rows [],
       ks_commitments = card (set (map k_commitmentId rows))\<rparr>)"

section \<open>One row per standoff\<close>

definition contentions_inv :: "db \<Rightarrow> bool" where
  "contentions_inv d \<longleftrightarrow> uniq_by standoff_of (contentions d)"

lemma recordContention_frame: "\<exists>ks. recordContention f now d = d\<lparr>contentions := ks\<rparr>"
  by (auto simp: recordContention_def)

lemma recordContention_inv: "contentions_inv d \<Longrightarrow> contentions_inv (recordContention f now d)"
  by (auto simp: contentions_inv_def recordContention_def uniq_by_append1 standoff_of_def facts_standoff_def
      intro!: uniq_by_update_rows)

text \<open>The attempts counted on a standoff.\<close>

definition attempts_on :: "standoff \<Rightarrow> db \<Rightarrow> int" where
  "attempts_on s d = (case find (\<lambda>k. standoff_of k = s) (contentions d) of None \<Rightarrow> 0 | Some k \<Rightarrow> k_attempts k)"

lemma attempts_on_record:
  "attempts_on s (recordContention f now d) = attempts_on s d + (if s = facts_standoff f then 1 else 0)"
proof (cases "\<exists>k \<in> set (contentions d). standoff_of k = facts_standoff f")
  case True
  have key: "standoff_of (k\<lparr>k_lastAt := now, k_attempts := k_attempts k + 1\<rparr>) = standoff_of k" for k
    by (simp add: standoff_of_def)
  from True show ?thesis
    by (auto simp: recordContention_def attempts_on_def find_update_rows_key key split: option.splits
        dest!: find_SomeD find_NoneD)
next
  case False
  then have "find (\<lambda>k. standoff_of k = facts_standoff f) (contentions d) = None"
    by (simp add: find_None_iff)
  with False show ?thesis
    by (auto simp: recordContention_def attempts_on_def find_append standoff_of_def facts_standoff_def
        split: option.splits)
qed

end
