(* ===== verification/Tasks.thy ===== *)
theory Tasks
  imports Contention
begin

text \<open>
  Commitments (\<open>packages/tasq-core/src/service/tasks.ts\<close>, up to the update of non-status fields):
  reading, the flat hierarchy policy, depth and height of the decomposition tree, creation,
  activation of a fallback, and update with reparenting. The hierarchy policy is a seam of the code
  and a parameter here; \<open>flatHierarchyPolicy\<close> is the kernel's own.
\<close>

section \<open>Reading\<close>

definition opt_all :: "('a \<Rightarrow> bool) \<Rightarrow> 'a option \<Rightarrow> bool" where
  "opt_all P x \<longleftrightarrow> (case x of None \<Rightarrow> True | Some v \<Rightarrow> P v)"

definition task_ok :: "task \<Rightarrow> bool" where
  "task_ok t \<longleftrightarrow> t_tenantId t \<noteq> [] \<and> between 1 500 (t_title t) \<and>
     opt_all (between 1 2000) (t_successCriteria t) \<and> opt_all (\<lambda>p. 1 \<le> p \<and> p \<le> 5) (t_priority t) \<and>
     opt_all (\<lambda>m. 0 < m) (t_estimatedMinutes t) \<and> opt_all (\<lambda>x. 0 \<le> x) (t_scheduledAt t) \<and>
     opt_all (\<lambda>x. 0 \<le> x) (t_dueAt t) \<and> opt_all (\<lambda>x. 0 \<le> x) (t_startedAt t) \<and>
     opt_all (\<lambda>x. 0 \<le> x) (t_completedAt t) \<and> 0 < t_recurrenceInterval t \<and>
     opt_all (\<lambda>x. 0 \<le> x) (t_lastDoneAt t) \<and> 0 \<le> t_streak t \<and> 0 < t_revision t \<and>
     0 \<le> t_createdAt t \<and> 0 \<le> t_updatedAt t \<and> opt_all (\<lambda>x. 0 \<le> x) (t_deletedAt t)"

definition parseTask :: "task \<Rightarrow> err + task" where
  "parseTask t = (if task_ok t then Inr t else Inl (InvalidInput ''task''))"

lemma parseTask_Inr [res]: "parseTask t = Inr u \<longleftrightarrow> u = t \<and> task_ok t"
  by (auto simp: parseTask_def)

definition task_row :: "string \<Rightarrow> string \<Rightarrow> db \<Rightarrow> task option" where
  "task_row tid tenantId d = find (\<lambda>t. t_id t = tid \<and> t_tenantId t = tenantId) (tasks d)"

definition getTask :: "string \<Rightarrow> string \<Rightarrow> db \<Rightarrow> err + task option" where
  "getTask tid tenantId d = (case task_row tid tenantId d of
      None \<Rightarrow> Inr None
    | Some r \<Rightarrow> (case parseTask r of Inl e \<Rightarrow> Inl e | Inr t \<Rightarrow> Inr (Some t)))"

lemma getTask_Some [res]:
  "getTask tid tn d = Inr (Some t) \<longleftrightarrow> task_row tid tn d = Some t \<and> task_ok t"
  by (auto simp: getTask_def res split: option.splits)

lemma getTask_None [res]: "getTask tid tn d = Inr None \<longleftrightarrow> task_row tid tn d = None"
  by (auto simp: getTask_def res split: option.splits)

lemma task_row_Some:
  "task_row tid tn d = Some t \<Longrightarrow> t \<in> set (tasks d) \<and> t_id t = tid \<and> t_tenantId t = tn"
  by (auto simp: task_row_def dest: find_SomeD)

text \<open>The record of a task as the API shows it, key by key.\<close>

definition task_json :: "task \<Rightarrow> (string \<times> json) list" where
  "task_json t =
     [(''id'', JStr (t_id t)), (''tenantId'', JStr (t_tenantId t)),
      (''projectId'', nullable JStr (t_projectId t)), (''goalId'', nullable JStr (t_goalId t)),
      (''areaId'', nullable JStr (t_areaId t)), (''parentTaskId'', nullable JStr (t_parentTaskId t)),
      (''title'', JStr (t_title t)), (''description'', nullable JStr (t_description t)),
      (''nextAction'', nullable JStr (t_nextAction t)), (''successCriteria'', nullable JStr (t_successCriteria t)),
      (''completionMode'', JStr (completion_mode_text (t_completionMode t))),
      (''validationRequired'', JBool (t_validationRequired t)),
      (''status'', JStr (task_status_text (t_status t))), (''priority'', nullable JInt (t_priority t)),
      (''estimatedMinutes'', nullable JInt (t_estimatedMinutes t)),
      (''scheduledAt'', nullable JInt (t_scheduledAt t)), (''dueAt'', nullable JInt (t_dueAt t)),
      (''startedAt'', nullable JInt (t_startedAt t)), (''completedAt'', nullable JInt (t_completedAt t)),
      (''recurrence'', nullable (\<lambda>r. JStr (recurrence_unit_text r)) (t_recurrence t)),
      (''recurrenceInterval'', JInt (t_recurrenceInterval t)),
      (''recurrenceAnchor'', JStr (recurrence_anchor_text (t_recurrenceAnchor t))),
      (''lastDoneAt'', nullable JInt (t_lastDoneAt t)), (''streak'', JInt (t_streak t)),
      (''recurrenceParentId'', nullable JStr (t_recurrenceParentId t)), (''metadata'', JObj (t_metadata t)),
      (''revision'', JInt (t_revision t)), (''createdAt'', JInt (t_createdAt t)),
      (''updatedAt'', JInt (t_updatedAt t)), (''deletedAt'', nullable JInt (t_deletedAt t))]"

section \<open>Hierarchy policy\<close>

text \<open>An optional nullable field: \<open>None\<close> is absent, \<open>Some None\<close> is \<open>null\<close>.\<close>

definition nullish :: "'a option option \<Rightarrow> 'a option" where
  "nullish x = (case x of None \<Rightarrow> None | Some v \<Rightarrow> v)"

lemma nullish_simps [simp]: "nullish None = None" "nullish (Some v) = v"
  by (simp_all add: nullish_def)

record scope_input =
  si_areaId :: "string option option"
  si_goalId :: "string option option"
  si_projectId :: "string option option"
  si_parentTaskId :: "string option option"
  si_inherited :: bool

record canonical_scope =
  sc_areaId :: "string option"
  sc_goalId :: "string option"
  sc_projectId :: "string option"
  sc_parentTaskId :: "string option"

record hierarchy_policy =
  resolveScope :: "string \<Rightarrow> scope_input \<Rightarrow> db \<Rightarrow> err + canonical_scope"
  assertLiveAncestors :: "string \<Rightarrow> string option \<Rightarrow> string option \<Rightarrow> string option \<Rightarrow> db \<Rightarrow> err + unit"

definition planning_refused :: err where
  "planning_refused = Refused ''area, goal and project require an injected planning-profile policy'' []"

definition flat_resolveScope :: "string \<Rightarrow> scope_input \<Rightarrow> db \<Rightarrow> err + canonical_scope" where
  "flat_resolveScope tenantId inp d =
     (let scoped = (nullish (si_projectId inp) \<noteq> None \<or> nullish (si_goalId inp) \<noteq> None \<or> nullish (si_areaId inp) \<noteq> None)
      in if scoped \<and> \<not> si_inherited inp then Inl planning_refused
      else case nullish (si_parentTaskId inp) of
          None \<Rightarrow> Inr \<lparr>sc_areaId = None, sc_goalId = None, sc_projectId = None, sc_parentTaskId = None\<rparr>
        | Some pid \<Rightarrow>
            (case getTask pid tenantId d of Inl e \<Rightarrow> Inl e
             | Inr None \<Rightarrow> Inl (Refused ''Parent commitment not found'' [pid])
             | Inr (Some parent) \<Rightarrow>
                 if t_deletedAt parent \<noteq> None then Inl (Refused ''Parent commitment not found'' [pid])
                 else Inr \<lparr>sc_areaId = None, sc_goalId = None, sc_projectId = None, sc_parentTaskId = Some pid\<rparr>))"

definition flat_assertLiveAncestors ::
  "string \<Rightarrow> string option \<Rightarrow> string option \<Rightarrow> string option \<Rightarrow> db \<Rightarrow> err + unit" where
  "flat_assertLiveAncestors tenantId areaId goalId projectId d =
     (if areaId = None \<and> goalId = None \<and> projectId = None then Inr () else Inl planning_refused)"

definition flatHierarchyPolicy :: hierarchy_policy where
  "flatHierarchyPolicy = \<lparr>resolveScope = flat_resolveScope, assertLiveAncestors = flat_assertLiveAncestors\<rparr>"

definition live_ancestors :: "hierarchy_policy \<Rightarrow> string \<Rightarrow> task \<Rightarrow> db \<Rightarrow> err + unit" where
  "live_ancestors hp tenantId t d = assertLiveAncestors hp tenantId (t_areaId t) (t_goalId t) (t_projectId t) d"

section \<open>Depth and height\<close>

text \<open>The first argument counts the iterations the loop condition still allows.\<close>

fun depth_loop :: "nat \<Rightarrow> string \<Rightarrow> db \<Rightarrow> nat \<Rightarrow> string option \<Rightarrow> string list \<Rightarrow> err + nat" where
  "depth_loop 0 tenantId d depth cur seen = Inr depth"
| "depth_loop (Suc n) tenantId d depth cur seen =
     (if \<not> truthy_str cur then Inr depth
      else if the cur \<in> set seen then Inl (Refused ''Cycle detected in task hierarchy at'' [the cur])
      else case task_row (the cur) tenantId d of
          None \<Rightarrow> Inr depth
        | Some r \<Rightarrow> (case t_parentTaskId r of
              None \<Rightarrow> Inr depth
            | Some p \<Rightarrow> depth_loop n tenantId d (depth + 1) (Some p) (the cur # seen)))"

definition getTaskDepth :: "string \<Rightarrow> string \<Rightarrow> db \<Rightarrow> err + nat" where
  "getTaskDepth tid tenantId d = depth_loop (MAX_TASK_DEPTH + 1) tenantId d 1 (Some tid) []"

definition live_children :: "string list \<Rightarrow> string \<Rightarrow> db \<Rightarrow> task list" where
  "live_children frontier tenantId d = filter (\<lambda>t. t_tenantId t = tenantId \<and>
     (case t_parentTaskId t of None \<Rightarrow> False | Some p \<Rightarrow> p \<in> set frontier) \<and> t_deletedAt t = None) (tasks d)"

fun height_loop :: "nat \<Rightarrow> string \<Rightarrow> db \<Rightarrow> nat \<Rightarrow> string list \<Rightarrow> nat" where
  "height_loop 0 tenantId d height frontier = height"
| "height_loop (Suc n) tenantId d height frontier =
     (let rows = live_children frontier tenantId d in
      if rows = [] then height else height_loop n tenantId d (height + 1) (map t_id rows))"

definition subtreeHeight :: "string \<Rightarrow> string \<Rightarrow> db \<Rightarrow> nat" where
  "subtreeHeight tid tenantId d = height_loop (MAX_TASK_DEPTH + 2) tenantId d 1 [tid]"

text \<open>A task and its descendants, breadth first; each round keeps the children not seen before.\<close>

lemma filter_length_less:
  "x \<in> set xs \<Longrightarrow> P x \<Longrightarrow> \<not> Q x \<Longrightarrow> (\<And>y. Q y \<Longrightarrow> P y) \<Longrightarrow> length (filter Q xs) < length (filter P xs)"
proof (induction xs)
  case (Cons a xs)
  have "length (filter Q xs) \<le> length (filter P xs)"
    using Cons.prems(4) by (induction xs) auto
  with Cons show ?case by (auto simp: less_Suc_eq_le)
qed simp

definition tree_children :: "bool \<Rightarrow> string list \<Rightarrow> string \<Rightarrow> db \<Rightarrow> task list" where
  "tree_children includeDeleted frontier tenantId d = sort_key t_createdAt (filter (\<lambda>t. t_tenantId t = tenantId \<and>
     (case t_parentTaskId t of None \<Rightarrow> False | Some p \<Rightarrow> p \<in> set frontier) \<and>
     (includeDeleted \<or> t_deletedAt t = None)) (tasks d))"

text \<open>The stateful filter of a page: keep a child the first time its identifier is met.\<close>

fun fresh_rows :: "string list \<Rightarrow> task list \<Rightarrow> task list" where
  "fresh_rows seen [] = []"
| "fresh_rows seen (t # ts) =
     (if t_id t \<in> set seen then fresh_rows seen ts else t # fresh_rows (t_id t # seen) ts)"

lemma fresh_rows_sound: "t \<in> set (fresh_rows seen ts) \<Longrightarrow> t \<in> set ts \<and> t_id t \<notin> set seen"
  by (induction seen ts rule: fresh_rows.induct) (auto split: if_splits)

lemma tree_round_decreases:
  assumes "fresh_rows seen (tree_children b fr tn d) = t # ts"
  shows "length (filter (\<lambda>x. t_id x \<notin> set (map t_id (t # ts) @ seen)) (tasks d))
       < length (filter (\<lambda>x. t_id x \<notin> set seen) (tasks d))"
proof -
  from assms have "t \<in> set (tree_children b fr tn d)" "t_id t \<notin> set seen"
    using fresh_rows_sound [of t seen "tree_children b fr tn d"] by auto
  then show ?thesis by (intro filter_length_less [of t]) (auto simp: tree_children_def)
qed

function tree_loop :: "bool \<Rightarrow> string \<Rightarrow> db \<Rightarrow> string list \<Rightarrow> string list \<Rightarrow> err + task list" where
  "tree_loop includeDeleted tenantId d frontier seen =
     (let rows = tree_children includeDeleted frontier tenantId d in
      if \<not> list_all task_ok rows then Inl (InvalidInput ''task'')
      else case fresh_rows seen rows of
          [] \<Rightarrow> Inr []
        | t # ts \<Rightarrow>
            (case tree_loop includeDeleted tenantId d (map t_id (t # ts)) (map t_id (t # ts) @ seen) of
               Inl e \<Rightarrow> Inl e | Inr rest \<Rightarrow> Inr (t # ts @ rest)))"
  by pat_completeness auto
termination
  by (relation "measure (\<lambda>(b, tn, d, fr, seen). length (filter (\<lambda>x. t_id x \<notin> set seen) (tasks d)))")
    (auto dest!: tree_round_decreases)

declare tree_loop.simps [simp del]

definition getTaskTree :: "string \<Rightarrow> string \<Rightarrow> bool \<Rightarrow> db \<Rightarrow> err + task list option" where
  "getTaskTree rootId tenantId includeDeleted d = (case getTask rootId tenantId d of
      Inl e \<Rightarrow> Inl e
    | Inr None \<Rightarrow> Inr None
    | Inr (Some root) \<Rightarrow> (case tree_loop includeDeleted tenantId d [rootId] [rootId] of
          Inl e \<Rightarrow> Inl e | Inr rest \<Rightarrow> Inr (Some (root # rest))))"

section \<open>Creation\<close>

record task_insert =
  ti_id :: "string option"
  ti_tenantId :: string
  ti_projectId :: "string option option"
  ti_goalId :: "string option option"
  ti_areaId :: "string option option"
  ti_parentTaskId :: "string option option"
  ti_title :: string
  ti_description :: "string option"
  ti_nextAction :: "string option"
  ti_successCriteria :: "string option"
  ti_completionMode :: completion_mode
  ti_validationRequired :: bool
  ti_status :: task_status
  ti_priority :: "int option"
  ti_estimatedMinutes :: "int option"
  ti_scheduledAt :: "int option"
  ti_dueAt :: "int option"
  ti_recurrence :: "recurrence_unit option"
  ti_recurrenceInterval :: int
  ti_recurrenceAnchor :: recurrence_anchor
  ti_recurrenceParentId :: "string option option"
  ti_metadata :: metadata

text \<open>\<open>TaskInsert.parse\<close>: the refinements of the schema.\<close>

definition task_insert_ok :: "task_insert \<Rightarrow> bool" where
  "task_insert_ok i \<longleftrightarrow> opt_all (\<lambda>x. x \<noteq> []) (ti_id i) \<and> ti_tenantId i \<noteq> [] \<and> between 1 500 (ti_title i) \<and>
     opt_all (\<lambda>p. 1 \<le> p \<and> p \<le> 5) (ti_priority i) \<and> opt_all (\<lambda>m. 0 < m) (ti_estimatedMinutes i) \<and>
     opt_all (\<lambda>x. 0 \<le> x) (ti_scheduledAt i) \<and> opt_all (\<lambda>x. 0 \<le> x) (ti_dueAt i) \<and>
     0 < ti_recurrenceInterval i"

definition blank_opt :: "string option \<Rightarrow> bool" where
  "blank_opt s \<longleftrightarrow> (case s of None \<Rightarrow> True | Some t \<Rightarrow> js_blank t)"

text \<open>The checks a creation makes before it touches the database.\<close>

definition creation_guard :: "task_insert \<Rightarrow> err + unit" where
  "creation_guard i =
     (if ti_status i \<noteq> Open then Inl (Refused ''Tasks must be created open; use a status transition'' [])
      else if ti_completionMode i = EvidenceMode \<and> blank_opt (ti_successCriteria i)
      then Inl (Refused ''Evidence-backed tasks require explicit successCriteria'' [])
      else if ti_validationRequired i \<and> ti_completionMode i \<noteq> EvidenceMode
      then Inl (Refused ''Independently validated tasks must use evidence completion mode'' [])
      else Inr ())"

definition new_task :: "task_insert \<Rightarrow> string \<Rightarrow> string \<Rightarrow> canonical_scope \<Rightarrow> int \<Rightarrow> task" where
  "new_task i tid tenantId scope now =
     \<lparr>t_id = tid, t_tenantId = tenantId, t_projectId = sc_projectId scope, t_goalId = sc_goalId scope,
      t_areaId = sc_areaId scope, t_parentTaskId = sc_parentTaskId scope, t_title = ti_title i,
      t_description = ti_description i, t_nextAction = ti_nextAction i, t_successCriteria = ti_successCriteria i,
      t_completionMode = ti_completionMode i, t_validationRequired = ti_validationRequired i,
      t_status = ti_status i, t_priority = ti_priority i, t_estimatedMinutes = ti_estimatedMinutes i,
      t_scheduledAt = ti_scheduledAt i, t_dueAt = ti_dueAt i, t_startedAt = None, t_completedAt = None,
      t_recurrence = ti_recurrence i, t_recurrenceInterval = ti_recurrenceInterval i,
      t_recurrenceAnchor = ti_recurrenceAnchor i, t_lastDoneAt = None, t_streak = 0,
      t_recurrenceParentId = nullish (ti_recurrenceParentId i), t_metadata = ti_metadata i, t_revision = 1,
      t_createdAt = now, t_updatedAt = now, t_deletedAt = None\<rparr>"

definition created_payload :: "task_insert \<Rightarrow> canonical_scope \<Rightarrow> (string \<times> json) list \<Rightarrow> (string \<times> json) list" where
  "created_payload i scope eventContext = (''after'', JObj
     ([(''title'', JStr (ti_title i)), (''status'', JStr (task_status_text (ti_status i))),
       (''completionMode'', JStr (completion_mode_text (ti_completionMode i))),
       (''validationRequired'', JBool (ti_validationRequired i)),
       (''areaId'', nullable JStr (sc_areaId scope)), (''goalId'', nullable JStr (sc_goalId scope)),
       (''projectId'', nullable JStr (sc_projectId scope))] @
      (if truthy_str (sc_parentTaskId scope) then [(''parentTaskId'', JStr (the (sc_parentTaskId scope)))] else [])))
     # eventContext"

definition depth_guard :: "string option \<Rightarrow> string \<Rightarrow> db \<Rightarrow> err + unit" where
  "depth_guard parent tenantId d =
     (if \<not> truthy_str parent then Inr ()
      else case getTaskDepth (the parent) tenantId d of Inl e \<Rightarrow> Inl e
        | Inr parentDepth \<Rightarrow> if parentDepth + 1 > MAX_TASK_DEPTH
            then Inl (Refused ''Task hierarchy exceeds max depth'' []) else Inr ())"

definition createTaskInTransaction ::
  "env \<Rightarrow> hierarchy_policy \<Rightarrow> task_insert \<Rightarrow> string \<Rightarrow> string \<Rightarrow> string option \<Rightarrow> int \<Rightarrow>
    (string \<times> json) list \<Rightarrow> bool \<Rightarrow> db \<Rightarrow> err + db \<times> task \<times> event" where
  "createTaskInTransaction env hp parsed tenantId actor principalId now eventContext inherited d =
     (case creation_guard parsed of Inl e \<Rightarrow> Inl e | Inr _ \<Rightarrow>
      (let (d, tid) = (case ti_id parsed of Some x \<Rightarrow> (d, x) | None \<Rightarrow> fresh_id env now d) in
       case resolveScope hp tenantId \<lparr>si_areaId = ti_areaId parsed, si_goalId = ti_goalId parsed,
              si_projectId = ti_projectId parsed, si_parentTaskId = ti_parentTaskId parsed,
              si_inherited = inherited\<rparr> d of Inl e \<Rightarrow> Inl e
       | Inr scope \<Rightarrow>
         (case depth_guard (sc_parentTaskId scope) tenantId d of Inl e \<Rightarrow> Inl e | Inr _ \<Rightarrow>
         (case insert_task (new_task parsed tid tenantId scope now) d of Inl e \<Rightarrow> Inl e | Inr d \<Rightarrow>
         (case recordEvent env (task_event tenantId actor principalId tid ''created''
                 (created_payload parsed scope eventContext)) now d of Inl e \<Rightarrow> Inl e
          | Inr (d, ev) \<Rightarrow>
            (case getTask tid tenantId d of Inl e \<Rightarrow> Inl e
             | Inr None \<Rightarrow> Inl (Refused ''Failed to read back task'' [tid])
             | Inr (Some result) \<Rightarrow> Inr (d, result, ev)))))))"

text \<open>The request of a creation, as its identity digests it: the parsed input with the resolved
  workspace, actor and principal.\<close>

definition oo_str :: "string option option \<Rightarrow> json" where
  "oo_str x = optional (nullable JStr) x"

definition task_insert_entries :: "task_insert \<Rightarrow> (string \<times> json) list" where
  "task_insert_entries i =
     [(''id'', optional JStr (ti_id i)), (''projectId'', oo_str (ti_projectId i)), (''goalId'', oo_str (ti_goalId i)),
      (''areaId'', oo_str (ti_areaId i)), (''parentTaskId'', oo_str (ti_parentTaskId i)), (''title'', JStr (ti_title i)),
      (''description'', nullable JStr (ti_description i)), (''nextAction'', nullable JStr (ti_nextAction i)),
      (''successCriteria'', nullable JStr (ti_successCriteria i)),
      (''completionMode'', JStr (completion_mode_text (ti_completionMode i))),
      (''validationRequired'', JBool (ti_validationRequired i)),
      (''status'', JStr (task_status_text (ti_status i))), (''priority'', nullable JInt (ti_priority i)),
      (''estimatedMinutes'', nullable JInt (ti_estimatedMinutes i)),
      (''scheduledAt'', nullable JInt (ti_scheduledAt i)), (''dueAt'', nullable JInt (ti_dueAt i)),
      (''recurrence'', nullable (\<lambda>r. JStr (recurrence_unit_text r)) (ti_recurrence i)),
      (''recurrenceInterval'', JInt (ti_recurrenceInterval i)),
      (''recurrenceAnchor'', JStr (recurrence_anchor_text (ti_recurrenceAnchor i))),
      (''recurrenceParentId'', oo_str (ti_recurrenceParentId i)), (''metadata'', JObj (ti_metadata i))]"

definition create_request :: "task_insert \<Rightarrow> string \<Rightarrow> string \<Rightarrow> string option \<Rightarrow> json" where
  "create_request i tenantId actor principalId = JObj (task_insert_entries i @
     [(''tenantId'', JStr tenantId), (''actor'', JStr actor), (''principalId'', nullable JStr principalId)])"

text \<open>Reading the task an earlier identical mutation produced.\<close>

definition prior_task :: "idempotency_record \<Rightarrow> string \<Rightarrow> db \<Rightarrow> err + task" where
  "prior_task prior tenantId d = (case getTask (ik_resultId prior) tenantId d of Inl e \<Rightarrow> Inl e
      | Inr None \<Rightarrow> Inl (Refused ''Idempotency record points at missing task'' [ik_resultId prior])
      | Inr (Some t) \<Rightarrow> Inr t)"

lemma prior_task_Inr [res]:
  "prior_task prior tn d = Inr t \<longleftrightarrow> getTask (ik_resultId prior) tn d = Inr (Some t)"
  by (auto simp: prior_task_def split: sum.splits option.splits)

definition task_outcome :: "task \<Rightarrow> int option \<Rightarrow> idempotency_outcome" where
  "task_outcome t eventSequence = \<lparr>o_resultType = ''commitment'', o_resultId = t_id t,
     o_resultStatus = Some (task_status_text (t_status t)), o_resultRevision = Some (t_revision t),
     o_eventSequence = eventSequence\<rparr>"

definition createTask ::
  "env \<Rightarrow> hierarchy_policy \<Rightarrow> task_insert \<Rightarrow> service_context \<Rightarrow> db \<Rightarrow> db \<times> (err + task)" where
  "createTask env hp parsed ctx =
     (let tenantId = or_else (ctx_tenantId ctx) (ti_tenantId parsed); actor = actor_of ctx;
          req = create_request parsed tenantId actor (ctx_principalId ctx)
      in prologue (if \<not> task_insert_ok parsed then Inl (InvalidInput ''task'') else
          case creation_guard parsed of Inl e \<Rightarrow> Inl e | Inr _ \<Rightarrow>
          (case serviceNow ctx of Inl e \<Rightarrow> Inl e | Inr now \<Rightarrow>
          (case prepareIdempotency env (ctx\<lparr>ctx_tenantId := Some tenantId, ctx_actor := Some actor\<rparr>) ''task.create''
             req now None None (Some req) of Inl e \<Rightarrow> Inl e | Inr retry \<Rightarrow> Inr (now, retry))))
      (\<lambda>(now, retry). runInTransaction (\<lambda>d.
        case findIdempotencyResult retry d of Inl e \<Rightarrow> Inl e
        | Inr (d, Some prior) \<Rightarrow> (case prior_task prior tenantId d of Inl e \<Rightarrow> Inl e | Inr t \<Rightarrow> Inr (d, t, []))
        | Inr (d, None) \<Rightarrow>
            (case createTaskInTransaction env hp parsed tenantId actor (ctx_principalId ctx) now [] False d of
               Inl e \<Rightarrow> Inl e
             | Inr (d, result, ev) \<Rightarrow>
                (case saveIdempotencyResult retry (task_outcome result (Some (ev_sequence ev))) d of Inl e \<Rightarrow> Inl e
                 | Inr d \<Rightarrow> Inr (d, result, [ev]))))))"

section \<open>Status transitions and activation\<close>

fun STATUS_TRANSITIONS :: "task_status \<Rightarrow> task_status list" where
  "STATUS_TRANSITIONS Open = [InProgress, Blocked, Done, Cancelled]"
| "STATUS_TRANSITIONS InProgress = [Open, Blocked, Done, Cancelled]"
| "STATUS_TRANSITIONS Blocked = [Open, InProgress, Done, Cancelled]"
| "STATUS_TRANSITIONS Done = [InProgress, Open]"
| "STATUS_TRANSITIONS Cancelled = [Open]"

definition assertTransition :: "task_status \<Rightarrow> task_status \<Rightarrow> err + unit" where
  "assertTransition frm to = (if frm = to then Inr ()
     else if to \<notin> set (STATUS_TRANSITIONS frm)
     then Inl (Refused ''Invalid task status transition'' [task_status_text frm, task_status_text to])
     else Inr ())"

definition update_tasks :: "(task \<Rightarrow> bool) \<Rightarrow> (task \<Rightarrow> task) \<Rightarrow> db \<Rightarrow> db" where
  "update_tasks P f d = d\<lparr>tasks := update_rows P f (tasks d)\<rparr>"

definition is_task :: "string \<Rightarrow> string \<Rightarrow> task \<Rightarrow> bool" where
  "is_task tid tenantId t \<longleftrightarrow> t_id t = tid \<and> t_tenantId t = tenantId"

definition activateTaskInTransaction ::
  "env \<Rightarrow> hierarchy_policy \<Rightarrow> string \<Rightarrow> string \<Rightarrow> string \<Rightarrow> int \<Rightarrow> string \<Rightarrow> string \<Rightarrow> db \<Rightarrow>
    err + db \<times> task \<times> event" where
  "activateTaskInTransaction env hp tid tenantId actor now waitConditionId sourceTaskId d =
     (case getTask tid tenantId d of Inl e \<Rightarrow> Inl e
      | Inr None \<Rightarrow> Inl (Refused ''Fallback task not found'' [tid])
      | Inr (Some before) \<Rightarrow>
        (if t_deletedAt before \<noteq> None then Inl (Refused ''Fallback task is deleted'' [tid])
         else if terminal (t_status before) then Inl (Refused ''Fallback task is terminal'' [tid])
         else case live_ancestors hp tenantId before d of Inl e \<Rightarrow> Inl e | Inr _ \<Rightarrow>
          (let nextStatus = (if t_status before = Blocked then Open else t_status before) in
           case assertTransition (t_status before) nextStatus of Inl e \<Rightarrow> Inl e | Inr _ \<Rightarrow>
           (let d = (if nextStatus \<noteq> t_status before \<or> t_scheduledAt before \<noteq> None
                then update_tasks (is_task tid tenantId) (\<lambda>t. t\<lparr>t_status := nextStatus, t_scheduledAt := None,
                       t_updatedAt := now, t_revision := t_revision t + 1\<rparr>) d
                else d) in
            case getTask tid tenantId d of Inl e \<Rightarrow> Inl e
            | Inr None \<Rightarrow> Inl (Refused ''Failed to read back fallback task'' [tid])
            | Inr (Some result) \<Rightarrow>
              (case recordEvent env (task_event tenantId actor None tid ''wait_fallback_activated''
                 [(''before'', JObj [(''status'', JStr (task_status_text (t_status before))),
                     (''scheduledAt'', nullable JInt (t_scheduledAt before))]),
                  (''after'', JObj [(''status'', JStr (task_status_text (t_status result))),
                     (''scheduledAt'', nullable JInt (t_scheduledAt result)),
                     (''waitConditionId'', JStr waitConditionId), (''sourceTaskId'', JStr sourceTaskId)]),
                  (''source'', JStr (''wait:'' @ waitConditionId))]) now d of
                 Inl e \<Rightarrow> Inl e | Inr (d, ev) \<Rightarrow> Inr (d, result, ev))))))"

section \<open>Update\<close>

record task_update =
  tu_title :: "string option"
  tu_description :: "string option option"
  tu_nextAction :: "string option option"
  tu_successCriteria :: "string option option"
  tu_completionMode :: "completion_mode option"
  tu_validationRequired :: "bool option"
  tu_priority :: "int option option"
  tu_estimatedMinutes :: "int option option"
  tu_scheduledAt :: "int option option"
  tu_dueAt :: "int option option"
  tu_projectId :: "string option option"
  tu_goalId :: "string option option"
  tu_areaId :: "string option option"
  tu_parentTaskId :: "string option option"
  tu_recurrence :: "recurrence_unit option option"
  tu_recurrenceInterval :: "int option"
  tu_recurrenceAnchor :: "recurrence_anchor option"
  tu_metadata :: "metadata option"

definition empty_update :: task_update where
  "empty_update = \<lparr>tu_title = None, tu_description = None, tu_nextAction = None, tu_successCriteria = None,
     tu_completionMode = None, tu_validationRequired = None, tu_priority = None, tu_estimatedMinutes = None,
     tu_scheduledAt = None, tu_dueAt = None, tu_projectId = None, tu_goalId = None, tu_areaId = None,
     tu_parentTaskId = None, tu_recurrence = None, tu_recurrenceInterval = None, tu_recurrenceAnchor = None,
     tu_metadata = None\<rparr>"

definition task_update_ok :: "task_update \<Rightarrow> bool" where
  "task_update_ok u \<longleftrightarrow> opt_all (between 1 500) (tu_title u) \<and>
     opt_all (opt_all (between 1 2000)) (tu_successCriteria u) \<and>
     opt_all (opt_all (\<lambda>p. 1 \<le> p \<and> p \<le> 5)) (tu_priority u) \<and>
     opt_all (opt_all (\<lambda>m. 0 < m)) (tu_estimatedMinutes u) \<and>
     opt_all (opt_all (\<lambda>x. 0 \<le> x)) (tu_scheduledAt u) \<and> opt_all (opt_all (\<lambda>x. 0 \<le> x)) (tu_dueAt u) \<and>
     opt_all (\<lambda>n. 0 < n) (tu_recurrenceInterval u)"

definition entry :: "string \<Rightarrow> ('a \<Rightarrow> json) \<Rightarrow> 'a option \<Rightarrow> (string \<times> json) list" where
  "entry k j x = (case x of None \<Rightarrow> [] | Some v \<Rightarrow> [(k, j v)])"

definition update_entries :: "task_update \<Rightarrow> (string \<times> json) list" where
  "update_entries u =
     entry ''title'' JStr (tu_title u) @ entry ''description'' (nullable JStr) (tu_description u) @
     entry ''nextAction'' (nullable JStr) (tu_nextAction u) @
     entry ''successCriteria'' (nullable JStr) (tu_successCriteria u) @
     entry ''completionMode'' (\<lambda>m. JStr (completion_mode_text m)) (tu_completionMode u) @
     entry ''validationRequired'' JBool (tu_validationRequired u) @
     entry ''priority'' (nullable JInt) (tu_priority u) @
     entry ''estimatedMinutes'' (nullable JInt) (tu_estimatedMinutes u) @
     entry ''scheduledAt'' (nullable JInt) (tu_scheduledAt u) @ entry ''dueAt'' (nullable JInt) (tu_dueAt u) @
     entry ''projectId'' (nullable JStr) (tu_projectId u) @ entry ''goalId'' (nullable JStr) (tu_goalId u) @
     entry ''areaId'' (nullable JStr) (tu_areaId u) @ entry ''parentTaskId'' (nullable JStr) (tu_parentTaskId u) @
     entry ''recurrence'' (nullable (\<lambda>r. JStr (recurrence_unit_text r))) (tu_recurrence u) @
     entry ''recurrenceInterval'' JInt (tu_recurrenceInterval u) @
     entry ''recurrenceAnchor'' (\<lambda>a. JStr (recurrence_anchor_text a)) (tu_recurrenceAnchor u) @
     entry ''metadata'' JObj (tu_metadata u)"

definition update_changes :: "task_update \<Rightarrow> task \<Rightarrow> bool" where
  "update_changes u before \<longleftrightarrow>
     list_ex (\<lambda>(k, v). json_stringify (obj_get (task_json before) k) \<noteq> json_stringify v) (update_entries u)"

definition update_guard :: "task_update \<Rightarrow> task \<Rightarrow> err + unit" where
  "update_guard u before =
     (let mode = or_else (tu_completionMode u) (t_completionMode before);
          criteria = or_else (tu_successCriteria u) (t_successCriteria before);
          validation = or_else (tu_validationRequired u) (t_validationRequired before)
      in if mode = EvidenceMode \<and> blank_opt criteria
         then Inl (Refused ''Evidence-backed tasks require explicit successCriteria'' [])
         else if validation \<and> mode \<noteq> EvidenceMode
         then Inl (Refused ''Independently validated tasks must use evidence completion mode'' [])
         else if terminal (t_status before) \<and>
           (tu_completionMode u \<noteq> None \<or> tu_successCriteria u \<noteq> None \<or> tu_validationRequired u \<noteq> None)
         then Inl (Refused ''Cannot change completion semantics on a terminal task; reopen it first'' [])
         else Inr ())"

text \<open>The walk up from a new parent: it must not meet the task itself.\<close>

lemma walk_decreases:
  "c \<notin> set seen \<Longrightarrow> task_row c tn d = Some r \<Longrightarrow>
    length (filter (\<lambda>x. t_id x \<notin> set (c # seen)) (tasks d)) < length (filter (\<lambda>x. t_id x \<notin> set seen) (tasks d))"
  by (intro filter_length_less [of r]) (auto dest!: task_row_Some)

function ancestor_walk :: "string \<Rightarrow> string \<Rightarrow> db \<Rightarrow> string option \<Rightarrow> string list \<Rightarrow> err + unit" where
  "ancestor_walk tid tenantId d cursor seen =
     (if \<not> truthy_str cursor then Inr ()
      else if the cursor = tid then Inl (Refused ''Reparent would create a cycle'' [tid])
      else if the cursor \<in> set seen then Inl (Refused ''Pre-existing cycle in task hierarchy at'' [the cursor])
      else case task_row (the cursor) tenantId d of
          None \<Rightarrow> Inr ()
        | Some r \<Rightarrow> ancestor_walk tid tenantId d (t_parentTaskId r) (the cursor # seen))"
  by pat_completeness auto
termination
  by (relation "measure (\<lambda>(tid, tn, d, c, seen). length (filter (\<lambda>x. t_id x \<notin> set seen) (tasks d)))")
    (use walk_decreases in auto)

declare ancestor_walk.simps [simp del]

definition reparent_guard :: "string \<Rightarrow> string \<Rightarrow> string option \<Rightarrow> string option \<Rightarrow> db \<Rightarrow> err + unit" where
  "reparent_guard tid tenantId desiredParent currentParent d =
     (if desiredParent = currentParent then Inr ()
      else if desiredParent = Some tid then Inl (Refused ''Task cannot be its own parent'' [])
      else case desiredParent of None \<Rightarrow> Inr ()
        | Some p \<Rightarrow>
          (case ancestor_walk tid tenantId d (Some p) [] of Inl e \<Rightarrow> Inl e | Inr _ \<Rightarrow>
          (case getTaskDepth p tenantId d of Inl e \<Rightarrow> Inl e | Inr newParentDepth \<Rightarrow>
            if newParentDepth + subtreeHeight tid tenantId d > MAX_TASK_DEPTH
            then Inl (Refused ''Reparent would exceed max task depth'' []) else Inr ())))"

definition update_scope :: "task_update \<Rightarrow> task \<Rightarrow> string option \<Rightarrow> scope_input" where
  "update_scope u before desiredParent =
     (let adoptsProjectScope = (nullish (tu_projectId u) \<noteq> None \<and> nullish (tu_projectId u) \<noteq> t_projectId before);
          inherit = (\<lambda>supplied previous.
            if (desiredParent \<noteq> None \<or> adoptsProjectScope) \<and> supplied = None then None
            else if supplied \<noteq> None then supplied else Some previous)
      in \<lparr>si_areaId = inherit (tu_areaId u) (t_areaId before), si_goalId = inherit (tu_goalId u) (t_goalId before),
          si_projectId = (if desiredParent \<noteq> None \<and> tu_projectId u = None then None
             else if tu_projectId u \<noteq> None then tu_projectId u else Some (t_projectId before)),
          si_parentTaskId = Some desiredParent, si_inherited = False\<rparr>)"

definition patched_task :: "task_update \<Rightarrow> canonical_scope \<Rightarrow> int \<Rightarrow> task \<Rightarrow> task" where
  "patched_task u scope now t = t\<lparr>t_updatedAt := now, t_parentTaskId := sc_parentTaskId scope,
     t_projectId := sc_projectId scope, t_goalId := sc_goalId scope, t_areaId := sc_areaId scope,
     t_title := or_else (tu_title u) (t_title t), t_description := or_else (tu_description u) (t_description t),
     t_nextAction := or_else (tu_nextAction u) (t_nextAction t),
     t_successCriteria := or_else (tu_successCriteria u) (t_successCriteria t),
     t_completionMode := or_else (tu_completionMode u) (t_completionMode t),
     t_validationRequired := or_else (tu_validationRequired u) (t_validationRequired t),
     t_priority := or_else (tu_priority u) (t_priority t),
     t_estimatedMinutes := or_else (tu_estimatedMinutes u) (t_estimatedMinutes t),
     t_scheduledAt := or_else (tu_scheduledAt u) (t_scheduledAt t), t_dueAt := or_else (tu_dueAt u) (t_dueAt t),
     t_recurrence := or_else (tu_recurrence u) (t_recurrence t),
     t_recurrenceInterval := or_else (tu_recurrenceInterval u) (t_recurrenceInterval t),
     t_recurrenceAnchor := or_else (tu_recurrenceAnchor u) (t_recurrenceAnchor t),
     t_metadata := or_else (tu_metadata u) (t_metadata t), t_revision := t_revision t + 1\<rparr>"

text \<open>The revision guard of a compare-and-swap; absent, it always passes.\<close>

definition revision_matches :: "int option \<Rightarrow> int \<Rightarrow> bool" where
  "revision_matches expected revision \<longleftrightarrow> (case expected of None \<Rightarrow> True | Some n \<Rightarrow> revision = n)"

definition updateTaskInTransaction ::
  "env \<Rightarrow> hierarchy_policy \<Rightarrow> string \<Rightarrow> task_update \<Rightarrow> string \<Rightarrow> string \<Rightarrow> string option \<Rightarrow> int \<Rightarrow> int option \<Rightarrow>
    db \<Rightarrow> err + db \<times> task \<times> event option" where
  "updateTaskInTransaction env hp tid parsed tenantId actor principalId now expectedRevision d =
     (case getTask tid tenantId d of Inl e \<Rightarrow> Inl e
      | Inr None \<Rightarrow> Inl (Refused ''Task not found'' [tid])
      | Inr (Some before) \<Rightarrow>
        (if truthy_num (t_deletedAt before) then Inl (Refused ''Task is deleted'' [tid])
         else case update_guard parsed before of Inl e \<Rightarrow> Inl e | Inr _ \<Rightarrow>
         (if \<not> update_changes parsed before then Inr (d, before, None)
          else let desiredParent = or_else (tu_parentTaskId parsed) (t_parentTaskId before) in
          case reparent_guard tid tenantId desiredParent (t_parentTaskId before) d of Inl e \<Rightarrow> Inl e | Inr _ \<Rightarrow>
          (case resolveScope hp tenantId (update_scope parsed before desiredParent) d of Inl e \<Rightarrow> Inl e
           | Inr scope \<Rightarrow>
             (let hit = (\<lambda>t. is_task tid tenantId t \<and> revision_matches expectedRevision (t_revision t)) in
              if expectedRevision \<noteq> None \<and> \<not> list_ex hit (tasks d)
              then Inl (Refused ''Stale task revision'' [])
              else let d = update_tasks hit (patched_task parsed scope now) d in
              case getTask tid tenantId d of Inl e \<Rightarrow> Inl e
              | Inr None \<Rightarrow> Inl (Refused ''Task not found'' [tid])
              | Inr (Some result) \<Rightarrow>
                (case recordEvent env (task_event tenantId actor principalId tid ''updated''
                    (let (b, a) = diffRecords (task_json before) (task_json result)
                     in [(''before'', JObj b), (''after'', JObj a)])) now d of
                   Inl e \<Rightarrow> Inl e | Inr (d, ev) \<Rightarrow> Inr (d, result, Some ev)))))))"

definition updateTask ::
  "env \<Rightarrow> hierarchy_policy \<Rightarrow> string \<Rightarrow> task_update \<Rightarrow> service_context \<Rightarrow> db \<Rightarrow> db \<times> (err + task)" where
  "updateTask env hp tid parsed ctx =
     (let tenantId = tenant_of ctx; actor = actor_of ctx in
      prologue (if \<not> task_update_ok parsed then Inl (InvalidInput ''task'') else
        case serviceNow ctx of Inl e \<Rightarrow> Inl e | Inr now \<Rightarrow>
        (case prepareIdempotency env (ctx\<lparr>ctx_tenantId := Some tenantId, ctx_actor := Some actor\<rparr>) ''task.update''
            (JObj [(''taskId'', JStr tid), (''patch'', JObj (update_entries parsed)),
               (''expectedRevision'', nullable JInt (ctx_expectedRevision ctx))]) now None None None of
           Inl e \<Rightarrow> Inl e | Inr identity \<Rightarrow> Inr (now, identity)))
      (\<lambda>(now, identity). runInTransaction (\<lambda>d.
        case findIdempotencyResult identity d of Inl e \<Rightarrow> Inl e
        | Inr (d, Some prior) \<Rightarrow> (case prior_task prior tenantId d of Inl e \<Rightarrow> Inl e | Inr t \<Rightarrow> Inr (d, t, []))
        | Inr (d, None) \<Rightarrow>
            (case updateTaskInTransaction env hp tid parsed tenantId actor (ctx_principalId ctx) now
                (ctx_expectedRevision ctx) d of Inl e \<Rightarrow> Inl e
             | Inr (d, result, ev) \<Rightarrow>
                (case saveIdempotencyResult identity (task_outcome result (map_option ev_sequence ev)) d of
                   Inl e \<Rightarrow> Inl e
                 | Inr d \<Rightarrow> Inr (d, result, case ev of None \<Rightarrow> [] | Some e \<Rightarrow> [e]))))))"

end
