(* ===== verification/Tx_Invariant.thy ===== *)
theory Tx_Invariant
  imports Contention
begin

text \<open>
  Two interfaces the components share. \<open>tx_invariant\<close> is what an invariant of the ledger has to
  ignore (the commit counter, the journal, the counters of refusals) for the transaction machinery
  to carry it from a transaction body to the operation around it. \<open>lease_table\<close> is an append-only
  table of fenced leases: at most one lease of a scope is open, it is the last one of its scope, and
  its fence exceeds every earlier one.
\<close>

section \<open>Invariants and transactions\<close>

locale tx_invariant =
  fixes I :: "db \<Rightarrow> bool"
  assumes commit: "I d \<Longrightarrow> I (d\<lparr>committedMutations := n, journal := j\<rparr>)"
    and counted: "I d \<Longrightarrow> I (d\<lparr>contentions := ks\<rparr>)"
begin

lemma transaction:
  assumes "I d" and "\<And>d' x evs. body d = Inr (d', x, evs) \<Longrightarrow> I d'"
  shows "I (fst (runInTransaction body d))"
  using assms commit by (auto simp: runInTransaction_def split: sum.splits)

lemma operational:
  assumes "I d" and "\<And>d' x. body d = Inr (d', x) \<Longrightarrow> I d'"
  shows "I (fst (runOperationalTransaction body d))"
  using assms by (auto simp: runOperationalTransaction_def split: sum.splits)

lemma prologue_keeps:
  assumes "I d" and "\<And>x. m = Inr x \<Longrightarrow> I (fst (k x d))"
  shows "I (fst (prologue m k d))"
  using assms by (auto simp: prologue_def split: sum.splits)

lemma contention_keeps:
  assumes "I (fst (work d))" shows "I (fst (withContentionRecorded now work d))"
proof -
  have "I (recordContention f now d')" if "I d'" for f d'
    using recordContention_frame [of f now d'] counted [OF that] by fastforce
  with assms show ?thesis
    by (auto simp: withContentionRecorded_def split: prod.splits sum.splits err.splits)
qed

text \<open>The shape of most operations: a prologue, then one transaction.\<close>

lemma operation:
  assumes "I d" and "\<And>x d' y evs. m = Inr x \<Longrightarrow> body x d = Inr (d', y, evs) \<Longrightarrow> I d'"
  shows "I (fst (prologue m (\<lambda>x. runInTransaction (body x)) d))"
  using assms by (intro prologue_keeps transaction)

lemma operation2:
  assumes "I d" and "\<And>x y d' z evs. m = Inr (x, y) \<Longrightarrow> body x y d = Inr (d', z, evs) \<Longrightarrow> I d'"
  shows "I (fst (prologue m (\<lambda>(x, y). runInTransaction (body x y)) d))"
  using assms by (intro prologue_keeps) (auto intro!: transaction)

lemma operation3:
  assumes "I d" and "\<And>x y w d' z evs. m = Inr (x, y, w) \<Longrightarrow> body x y w d = Inr (d', z, evs) \<Longrightarrow> I d'"
  shows "I (fst (prologue m (\<lambda>(x, y, w). runInTransaction (body x y w)) d))"
  using assms by (intro prologue_keeps) (auto intro!: transaction)

end

section \<open>Fenced leases\<close>

text \<open>\<open>order by fence desc limit 1\<close>, zero when there is no row.\<close>

definition top_fence :: "int list \<Rightarrow> int" where
  "top_fence fs = (if fs = [] then 0 else Max (set fs))"

locale lease_table =
  fixes scope :: "'l \<Rightarrow> 's" and fence :: "'l \<Rightarrow> int" and is_open :: "'l \<Rightarrow> bool"
    and close :: "'c \<Rightarrow> 'l \<Rightarrow> 'l" and renew :: "'r \<Rightarrow> 'l \<Rightarrow> 'l"
  assumes close_scope: "scope (close c l) = scope l" and close_fence: "fence (close c l) = fence l"
    and close_closed: "\<not> is_open (close c l)"
    and renew_scope: "scope (renew r l) = scope l" and renew_fence: "fence (renew r l) = fence l"
    and renew_open: "is_open (renew r l) \<Longrightarrow> is_open l"
begin

definition table_inv :: "'l list \<Rightarrow> bool" where
  "table_inv ls \<longleftrightarrow> sorted_wrt (\<lambda>x y. scope x = scope y \<longrightarrow> fence x < fence y \<and> \<not> is_open x) ls"

lemma table_inv_Nil: "table_inv []"
  by (simp add: table_inv_def)

lemma table_inv_append:
  assumes "table_inv ls" and "\<And>x. x \<in> set ls \<Longrightarrow> scope x = scope l \<Longrightarrow> fence x < fence l \<and> \<not> is_open x"
  shows "table_inv (ls @ [l])"
  using assms by (simp add: table_inv_def sorted_wrt_append)

lemma table_inv_map:
  assumes "table_inv ls" and "\<And>x. scope (f x) = scope x" and "\<And>x. fence (f x) = fence x"
    and "\<And>x. is_open (f x) \<Longrightarrow> is_open x"
  shows "table_inv (map f ls)"
  using assms(1) unfolding table_inv_def sorted_wrt_map by (rule sorted_wrt_mono_rel [rotated]) (use assms in auto)

lemma table_inv_close: "table_inv ls \<Longrightarrow> table_inv (update_rows P (close c) ls)"
  unfolding update_rows_def by (rule table_inv_map) (auto simp: close_scope close_fence close_closed split: if_splits)

lemma table_inv_renew: "table_inv ls \<Longrightarrow> table_inv (update_rows P (renew r) ls)"
  unfolding update_rows_def by (rule table_inv_map) (auto simp: renew_scope renew_fence dest: renew_open split: if_splits)

lemma table_inv_pair:
  "table_inv ls \<Longrightarrow> x \<in> set ls \<Longrightarrow> y \<in> set ls \<Longrightarrow> scope x = scope y \<Longrightarrow>
    x = y \<or> (fence x < fence y \<and> \<not> is_open x) \<or> (fence y < fence x \<and> \<not> is_open y)"
  unfolding table_inv_def by (induction ls) auto

text \<open>Exclusion, and the order of fences: the open lease of a scope is unique, and whoever holds
  another lease of the scope carries a lower fence.\<close>

lemma open_unique:
  "table_inv ls \<Longrightarrow> x \<in> set ls \<Longrightarrow> y \<in> set ls \<Longrightarrow> scope x = scope y \<Longrightarrow> is_open x \<Longrightarrow> is_open y \<Longrightarrow> x = y"
  using table_inv_pair by blast

lemma stale_fence:
  "table_inv ls \<Longrightarrow> x \<in> set ls \<Longrightarrow> y \<in> set ls \<Longrightarrow> scope x = scope y \<Longrightarrow> is_open y \<Longrightarrow> x \<noteq> y \<Longrightarrow> fence x < fence y"
  using table_inv_pair by blast

text \<open>The next fence of a scope, one above the greatest so far.\<close>

definition next_fence :: "'s \<Rightarrow> 'l list \<Rightarrow> int" where
  "next_fence s ls = top_fence (map fence (filter (\<lambda>l. scope l = s) ls)) + 1"

lemma next_fence_greater:
  assumes "x \<in> set ls" and "scope x = s" shows "fence x < next_fence s ls"
proof -
  have "fence x \<in> set (map fence (filter (\<lambda>l. scope l = s) ls))" using assms by auto
  then have "fence x \<le> Max (set (map fence (filter (\<lambda>l. scope l = s) ls)))" by (rule Max_ge [rotated]) simp
  moreover have "filter (\<lambda>l. scope l = s) ls \<noteq> []" using assms by (auto simp: filter_empty_conv)
  ultimately show ?thesis by (simp add: next_fence_def top_fence_def)
qed

text \<open>Acquiring: every open lease of the scope is closed, then a lease with the next fence is added.\<close>

lemma table_inv_acquire:
  assumes "table_inv ls" and "\<And>x. x \<in> set ls \<Longrightarrow> scope x = scope l \<Longrightarrow> is_open x \<Longrightarrow> P x"
    and "fence l = next_fence (scope l) (update_rows P (close c) ls)"
  shows "table_inv (update_rows P (close c) ls @ [l])"
proof (rule table_inv_append)
  fix x assume x: "x \<in> set (update_rows P (close c) ls)" "scope x = scope l"
  then obtain y where "y \<in> set ls" "x = (if P y then close c y else y)" unfolding in_update_rows by blast
  then have "\<not> is_open x" using assms(2) [of y] x(2) close_closed [of c y] by (cases "P y") auto
  then show "fence x < fence l \<and> \<not> is_open x" using x assms(3) by (simp add: next_fence_greater)
qed (rule table_inv_close [OF assms(1)])

end

end
