(* ===== verification/Claim_Table.thy ===== *)
theory Claim_Table
  imports Tx_Invariant
begin

text \<open>
  The table of claims, which several services write (\<open>agentic.ts\<close>, \<open>tasks.ts\<close>, \<open>costs.ts\<close> under
  \<open>packages/tasq-core/src/service\<close>): the predicates they select claims by, the updates they make, and
  the invariant all of them keep: a fenced lease table with one unreleased claim per commitment.
\<close>

definition unreleased_claim :: "string \<Rightarrow> string \<Rightarrow> task_claim \<Rightarrow> bool" where
  "unreleased_claim tid tenantId c \<longleftrightarrow> c_tenantId c = tenantId \<and> c_taskId c = tid \<and> c_releasedAt c = None"

text \<open>The live claim of a task: not released and not expired.\<close>

definition live_claim :: "string \<Rightarrow> string \<Rightarrow> int \<Rightarrow> task_claim \<Rightarrow> bool" where
  "live_claim tid tenantId now c \<longleftrightarrow> c_tenantId c = tenantId \<and> c_taskId c = tid \<and>
     c_releasedAt c = None \<and> c_expiresAt c > now"

text \<open>A claim belongs to its principal; one without a principal belongs to its actor.\<close>

definition held_by :: "string \<Rightarrow> string \<Rightarrow> task_claim \<Rightarrow> bool" where
  "held_by attributionId actor c \<longleftrightarrow>
     (if truthy_str (c_principalId c) then c_principalId c = Some attributionId else c_actor c = actor)"

definition close_claim :: "string \<Rightarrow> int \<Rightarrow> task_claim \<Rightarrow> task_claim" where
  "close_claim reason now c = c\<lparr>c_releasedAt := Some now, c_releaseReason := Some reason,
     c_updatedAt := now, c_revision := c_revision c + 1\<rparr>"

definition renew_claim :: "int \<Rightarrow> int \<Rightarrow> task_claim \<Rightarrow> task_claim" where
  "renew_claim now expiresAt c = c\<lparr>c_heartbeatAt := now, c_expiresAt := expiresAt, c_updatedAt := now,
     c_revision := c_revision c + 1\<rparr>"

interpretation claim_lease: lease_table
  "\<lambda>c. (c_tenantId c, c_taskId c)" c_fence "\<lambda>c. c_releasedAt c = None"
  "\<lambda>(reason, now). close_claim reason now" "\<lambda>(now, expiresAt). renew_claim now expiresAt"
  by unfold_locales (auto simp: close_claim_def renew_claim_def)

definition claims_inv :: "db \<Rightarrow> bool" where
  "claims_inv d \<longleftrightarrow> claim_lease.table_inv (claims d) \<and> uniq_by c_id (claims d)"

lemma claims_inv_cong: "claims d' = claims d \<Longrightarrow> claims_inv d' = claims_inv d"
  by (simp add: claims_inv_def)

interpretation claims_tx: tx_invariant claims_inv
  by unfold_locales (simp_all add: claims_inv_def)

lemma update_claims_Inr:
  "update_claims P f d = Inr d' \<Longrightarrow> d' = d\<lparr>claims := update_rows P f (claims d)\<rparr>"
  by (simp add: update_claims_def res)

lemma close_claim_id [simp]: "c_id (close_claim r now c) = c_id c"
  by (simp add: close_claim_def)

lemma renew_claim_id [simp]: "c_id (renew_claim now e c) = c_id c"
  by (simp add: renew_claim_def)

lemma close_claim_released [simp]: "c_releasedAt (close_claim r now c) = Some now"
  by (simp add: close_claim_def)

lemma claims_inv_close:
  "claims_inv d \<Longrightarrow> claims d' = update_rows P (close_claim r now) (claims d) \<Longrightarrow> claims_inv d'"
  using claim_lease.table_inv_close [of "claims d" P "(r, now)"] uniq_by_update_rows [of c_id "claims d"]
  by (simp add: claims_inv_def)

lemma claims_inv_renew:
  "claims_inv d \<Longrightarrow> claims d' = update_rows P (renew_claim now e) (claims d) \<Longrightarrow> claims_inv d'"
  using claim_lease.table_inv_renew [of "claims d" P "(now, e)"] uniq_by_update_rows [of c_id "claims d"]
  by (simp add: claims_inv_def)

text \<open>Exclusion: a commitment has one unreleased claim at most.\<close>

lemma claims_exclusive:
  "claims_inv d \<Longrightarrow> x \<in> set (claims d) \<Longrightarrow> y \<in> set (claims d) \<Longrightarrow>
    unreleased_claim tid tn x \<Longrightarrow> unreleased_claim tid tn y \<Longrightarrow> x = y"
  using claim_lease.open_unique [of "claims d" x y] by (simp add: claims_inv_def unreleased_claim_def)

lemma find_unreleased:
  "claims_inv d \<Longrightarrow> c \<in> set (claims d) \<Longrightarrow> unreleased_claim tid tn c \<Longrightarrow>
    find (unreleased_claim tid tn) (claims d) = Some c"
  by (metis claims_exclusive find_NoneD find_SomeD not_None_eq)

lemma live_unreleased: "live_claim tid tn now c \<Longrightarrow> unreleased_claim tid tn c"
  by (simp add: live_claim_def unreleased_claim_def)

end
