(* ===== verification/Sample_Ledger.thy ===== *)
theory Sample_Ledger
  imports Tasks Claim_Table
begin

text \<open>
  A small concrete ledger on which the hypotheses of the properties are shown to hold: two open root
  tasks, one principal, and the claim \<open>bob\<close> holds in its second form.
\<close>

definition sample_insert :: "string \<Rightarrow> string option \<Rightarrow> task_insert" where
  "sample_insert title parent = \<lparr>ti_id = None, ti_tenantId = ''w'', ti_projectId = None, ti_goalId = None,
     ti_areaId = None, ti_parentTaskId = Some parent, ti_title = title, ti_description = None,
     ti_nextAction = None, ti_successCriteria = None, ti_completionMode = Assertion,
     ti_validationRequired = False, ti_status = Open, ti_priority = None, ti_estimatedMinutes = None,
     ti_scheduledAt = None, ti_dueAt = None, ti_recurrence = None, ti_recurrenceInterval = 1,
     ti_recurrenceAnchor = AnchorDue, ti_recurrenceParentId = None, ti_metadata = []\<rparr>"

definition sample_task :: "string \<Rightarrow> string \<Rightarrow> string option \<Rightarrow> task" where
  "sample_task tid title parent = new_task (sample_insert title parent) tid ''w''
     \<lparr>sc_areaId = None, sc_goalId = None, sc_projectId = None, sc_parentTaskId = parent\<rparr> 1000"

definition sample_principal :: principal where
  "sample_principal = \<lparr>p_id = ''p1'', p_tenantId = ''w'', p_kind = Agent, p_displayName = ''alice'',
     p_localAlias = Some ''alice'', p_status = Enabled, p_metadata = [], p_revision = 1, p_createdAt = 0, p_updatedAt = 0\<rparr>"

text \<open>Two root tasks and one principal.\<close>

definition sample_db :: db where
  "sample_db = empty_db\<lparr>tasks := [sample_task ''t1'' ''paint'' None, sample_task ''t2'' ''sand'' None],
     principals := [sample_principal]\<rparr>"

definition returned :: "'e + 'a \<Rightarrow> bool" where
  "returned m \<longleftrightarrow> (case m of Inl _ \<Rightarrow> False | Inr _ \<Rightarrow> True)"

lemma returnedD: "returned m \<Longrightarrow> m = Inr (projr m)"
  by (cases m) (simp_all add: returned_def)

lemma returned3: "returned m \<Longrightarrow> m = Inr (fst (projr m), fst (snd (projr m)), snd (snd (projr m)))"
  by (simp add: returnedD)

lemma returned_op: "returned (snd r) \<Longrightarrow> r = (fst r, Inr (projr (snd r)))"
  by (cases r) (simp add: returnedD)

text \<open>The task \<open>t1\<close> claimed by \<open>bob\<close> from 1000 to 9000.\<close>

definition sample_claim :: task_claim where
  "sample_claim = \<lparr>c_id = ''c1'', c_tenantId = ''w'', c_taskId = ''t1'', c_actor = ''bob'', c_principalId = Some ''p2'',
     c_revision = 1, c_fence = 1, c_acquiredAt = 1000, c_heartbeatAt = 1000, c_expiresAt = 9000, c_releasedAt = None,
     c_releaseReason = None, c_metadata = [], c_createdAt = 1000, c_updatedAt = 1000\<rparr>"

definition sample_principal2 :: principal where
  "sample_principal2 = sample_principal\<lparr>p_id := ''p2'', p_displayName := ''bob'', p_localAlias := Some ''bob''\<rparr>"

definition sample_claimed_db :: db where
  "sample_claimed_db = sample_db\<lparr>principals := [sample_principal, sample_principal2], claims := [sample_claim]\<rparr>"

lemma sample_claims: "claims_inv sample_db" "claims_inv sample_claimed_db"
  by (simp_all add: claims_inv_def sample_db_def sample_claimed_db_def empty_db_def uniq_by_def
      claim_lease.table_inv_def)

end
