(* ===== verification/Hierarchy.thy ===== *)
theory Hierarchy
  imports Sample_Ledger
begin

text \<open>
  The decomposition tree: parent references name existing tasks and form no cycle, whatever is
  created or reparented; \<open>getTaskDepth\<close> computes the depth of a task and \<open>subtreeHeight\<close> bounds the
  live tasks below it; a creation never exceeds the depth limit. The hierarchy policy is a
  parameter of the code; what these facts need of it is the locale \<open>policy_contract\<close>,
  which the kernel's flat policy satisfies.
\<close>

section \<open>Parent functions\<close>

definition parent_of :: "string \<Rightarrow> db \<Rightarrow> string \<Rightarrow> string option" where
  "parent_of tenantId d i = (case task_row i tenantId d of None \<Rightarrow> None | Some r \<Rightarrow> t_parentTaskId r)"

text \<open>The depth of a node under a parent function: a root has depth one. A node on or above a cycle
  has no depth.\<close>

inductive depth :: "(string \<Rightarrow> string option) \<Rightarrow> string \<Rightarrow> nat \<Rightarrow> bool" for pf where
  root: "pf i = None \<Longrightarrow> depth pf i 1"
| step: "pf i = Some p \<Longrightarrow> depth pf p n \<Longrightarrow> depth pf i (Suc n)"

lemma depth_det: "depth pf i n \<Longrightarrow> depth pf i m \<Longrightarrow> n = m"
proof (induction arbitrary: m rule: depth.induct)
  case (root i)
  from root.prems show ?case using root.hyps by cases simp_all
next
  case (step i p n)
  from step.prems show ?case
  proof cases
    case (step q k) then show ?thesis using \<open>pf i = Some p\<close> \<open>\<And>m. depth pf p m \<Longrightarrow> n = m\<close> by simp
  qed (use step.hyps in simp)
qed

lemma depth_pos: "depth pf i n \<Longrightarrow> 1 \<le> n"
  by (induction rule: depth.induct) auto

definition well_founded_parents :: "(string \<Rightarrow> string option) \<Rightarrow> bool" where
  "well_founded_parents pf \<longleftrightarrow> (\<forall>i. \<exists>n. depth pf i n)"

text \<open>Changing the parent of \<open>x\<close> keeps the tree well founded when the new parent keeps its depth
  under every choice of a parent for \<open>x\<close>, that is when \<open>x\<close> is not among its ancestors.\<close>

lemma well_founded_update:
  assumes wf: "well_founded_parents pf" and other: "\<And>i. i \<noteq> x \<Longrightarrow> pf' i = pf i"
    and p: "\<And>p. pf' x = Some p \<Longrightarrow> \<exists>n. depth pf' p n"
  shows "well_founded_parents pf'"
  unfolding well_founded_parents_def
proof
  fix i
  have x: "\<exists>n. depth pf' x n"
  proof (cases "pf' x")
    case None then show ?thesis using depth.root by blast
  next
    case (Some q) with p [of q] show ?thesis using depth.step by blast
  qed
  obtain n where "depth pf i n" using wf unfolding well_founded_parents_def by blast
  then show "\<exists>n. depth pf' i n"
  proof (induction rule: depth.induct)
    case (root i)
    show ?case
    proof (cases "i = x")
      case False then have "pf' i = None" using other root by simp
      then show ?thesis using depth.root by blast
    qed (use x in simp)
  next
    case (step i p n)
    show ?case
    proof (cases "i = x")
      case False then have "pf' i = Some p" using other step.hyps by simp
      then show ?thesis using step.IH depth.step by blast
    qed (use x in simp)
  qed
qed

section \<open>The invariant\<close>

definition tree_inv :: "string \<Rightarrow> db \<Rightarrow> bool" where
  "tree_inv tenantId d \<longleftrightarrow> well_founded_parents (parent_of tenantId d) \<and>
     (\<forall>i p. parent_of tenantId d i = Some p \<longrightarrow> task_row p tenantId d \<noteq> None) \<and>
     task_row [] tenantId d = None"

lemma tree_inv_empty: "tree_inv tn empty_db"
proof -
  have "parent_of tn empty_db i = None" for i by (simp add: parent_of_def task_row_def empty_db_def)
  then show ?thesis
    by (auto simp: tree_inv_def well_founded_parents_def intro: depth.root)
      (simp add: task_row_def empty_db_def)
qed

lemma tree_inv_cong: "tasks d = tasks d' \<Longrightarrow> tree_inv tn d = tree_inv tn d'"
  by (simp add: tree_inv_def parent_of_def [abs_def] task_row_def)

text \<open>Row updates that keep identity, workspace and parent of every task keep the tree.\<close>

lemma task_row_update:
  assumes "\<And>t. t_id (f t) = t_id t" "\<And>t. t_tenantId (f t) = t_tenantId t"
  shows "task_row i tn (update_tasks P f d) = map_option (\<lambda>t. if P t then f t else t) (task_row i tn d)"
  using assms by (simp add: task_row_def update_tasks_def find_update_rows_key)

lemma tree_inv_update_tasks:
  assumes "\<And>t. t_id (f t) = t_id t" "\<And>t. t_tenantId (f t) = t_tenantId t"
    "\<And>t. t_parentTaskId (f t) = t_parentTaskId t" "tree_inv tn d"
  shows "tree_inv tn (update_tasks P f d)"
proof -
  have "parent_of tn (update_tasks P f d) = parent_of tn d"
    using assms(3) by (auto simp: fun_eq_iff parent_of_def task_row_update [OF assms(1,2)] split: option.splits)
  with assms(4) show ?thesis by (auto simp: tree_inv_def task_row_update [OF assms(1,2)])
qed

section \<open>The walk up from a new parent\<close>

text \<open>When the walk from \<open>c\<close> succeeds, \<open>tid\<close> is not an ancestor of \<open>c\<close>: the depth of \<open>c\<close> does not
  depend on the parent of \<open>tid\<close>.\<close>

lemma ancestor_walk_off:
  assumes "tree_inv tn d" and "tid \<noteq> []" and other: "\<And>i. i \<noteq> tid \<Longrightarrow> pf' i = parent_of tn d i"
  shows "depth (parent_of tn d) c n \<Longrightarrow> ancestor_walk tid tn d (Some c) seen = Inr () \<Longrightarrow> depth pf' c n"
proof (induction arbitrary: seen rule: depth.induct)
  case (root c)
  have "c \<noteq> tid" using root.prems assms(2) by (auto simp: ancestor_walk.simps [of _ _ _ "Some c"] truthy_str_def)
  then have "pf' c = None" using root.hyps other by simp
  then show ?case by (rule depth.root)
next
  case (step c p n)
  have "c \<noteq> tid" using step.prems assms(2) by (auto simp: ancestor_walk.simps [of _ _ _ "Some c"] truthy_str_def)
  then have "pf' c = Some p" using step.hyps(1) other by simp
  obtain r where r: "task_row c tn d = Some r" "t_parentTaskId r = Some p"
    using step.hyps(1) by (auto simp: parent_of_def split: option.splits)
  have "c \<noteq> []" using r assms(1) by (auto simp: tree_inv_def)
  then have "ancestor_walk tid tn d (Some p) (c # seen) = Inr ()"
    using step.prems r by (simp add: ancestor_walk.simps [of _ _ _ "Some c"] truthy_str_def split: if_splits)
  then have "depth pf' p n" by (rule step.IH)
  with \<open>pf' c = Some p\<close> show ?case by (rule depth.step)
qed

section \<open>Depth\<close>

text \<open>\<open>getTaskDepth\<close> returns the depth of the task, cut at \<open>MAX_TASK_DEPTH + 2\<close>.\<close>

lemma depth_loop_correct:
  assumes "tree_inv tn d"
  shows "depth (parent_of tn d) c n \<Longrightarrow> (\<forall>s \<in> set seen. \<exists>m > n. depth (parent_of tn d) s m) \<Longrightarrow>
    depth_loop k tn d dep (Some c) seen = Inr (dep + min k (n - 1))"
proof (induction arbitrary: k dep seen rule: depth.induct)
  case (root c)
  show ?case
  proof (cases k)
    case (Suc k')
    have "depth (parent_of tn d) c 1" using root.hyps by (rule depth.root)
    then have "c \<notin> set seen" using root.prems depth_det by fastforce
    moreover have "task_row c tn d = None \<or> (\<exists>r. task_row c tn d = Some r \<and> t_parentTaskId r = None)"
      using root.hyps by (auto simp: parent_of_def split: option.splits)
    ultimately show ?thesis using Suc by auto
  qed simp
next
  case (step c p n)
  show ?case
  proof (cases k)
    case (Suc k')
    have dc: "depth (parent_of tn d) c (Suc n)" using step.hyps by (rule depth.step)
    then have "c \<notin> set seen" using step.prems depth_det by fastforce
    moreover obtain r where "task_row c tn d = Some r" "t_parentTaskId r = Some p"
      using step.hyps(1) by (auto simp: parent_of_def split: option.splits)
    moreover have "c \<noteq> []" using assms calculation by (auto simp: tree_inv_def)
    moreover have "\<forall>s \<in> set (c # seen). \<exists>m > n. depth (parent_of tn d) s m"
      using dc step.prems by (auto intro: exI [of _ "Suc n"] dest: Suc_lessD)
    then have "depth_loop k' tn d (dep + 1) (Some p) (c # seen) = Inr (dep + 1 + min k' (n - 1))"
      by (rule step.IH)
    moreover have "1 \<le> n" using step.hyps(2) by (rule depth_pos)
    ultimately show ?thesis using Suc by (simp add: truthy_str_def)
  qed simp
qed

lemma getTaskDepth_eq:
  assumes "tree_inv tn d" and "depth (parent_of tn d) i n"
  shows "getTaskDepth i tn d = Inr (min n (MAX_TASK_DEPTH + 2))"
proof -
  have "getTaskDepth i tn d = Inr (1 + min (MAX_TASK_DEPTH + 1) (n - 1))"
    unfolding getTaskDepth_def by (rule depth_loop_correct [OF assms]) simp
  moreover have "1 + min (MAX_TASK_DEPTH + 1) (n - 1) = min n (MAX_TASK_DEPTH + 2)"
    using depth_pos [OF assms(2)] by simp
  ultimately show ?thesis by simp
qed

lemma tree_inv_depth: "tree_inv tn d \<Longrightarrow> \<exists>n. depth (parent_of tn d) i n"
  unfolding tree_inv_def well_founded_parents_def by blast

lemma getTaskDepth_le:
  assumes "tree_inv tn d" and "getTaskDepth i tn d = Inr k" and "k < MAX_TASK_DEPTH + 2"
  shows "depth (parent_of tn d) i k"
proof -
  obtain n where n: "depth (parent_of tn d) i n" using tree_inv_depth [OF assms(1)] by blast
  with getTaskDepth_eq [OF assms(1) n] assms(2,3) show ?thesis by (auto simp: min_def split: if_splits)
qed

section \<open>Creation and reparenting\<close>

lemma task_row_cong: "tasks d = tasks d' \<Longrightarrow> task_row i tn d = task_row i tn d'"
  by (simp add: task_row_def)

lemma parent_of_cong: "tasks d = tasks d' \<Longrightarrow> parent_of tn d = parent_of tn d'"
  by (simp add: parent_of_def [abs_def] task_row_def)

lemma depth_loop_cong: "tasks d = tasks d' \<Longrightarrow> depth_loop k tn d n c seen = depth_loop k tn d' n c seen"
proof (induction k arbitrary: n c seen)
  case (Suc k)
  then show ?case using task_row_cong [OF Suc.prems] by (auto split: option.splits)
qed simp

lemma getTaskDepth_cong: "tasks d = tasks d' \<Longrightarrow> getTaskDepth i tn d = getTaskDepth i tn d'"
  unfolding getTaskDepth_def by (rule depth_loop_cong)

lemma insert_task_Inr:
  "insert_task r d = Inr d' \<longleftrightarrow> (\<forall>x \<in> set (tasks d). t_id x \<noteq> t_id r) \<and> d' = d\<lparr>tasks := tasks d @ [r]\<rparr>"
  by (auto simp: insert_task_def res)

text \<open>What a creation did: the scope the policy resolved, the depth it checked, and the row it
  added.\<close>

lemma createTaskInTransaction_Inr:
  assumes "createTaskInTransaction env hp i tn actor pid now ec inh d = Inr (d', t, ev)"
  obtains d0 scope tid ps k where "tasks d0 = tasks d"
    "resolveScope hp tn \<lparr>si_areaId = ti_areaId i, si_goalId = ti_goalId i, si_projectId = ti_projectId i,
       si_parentTaskId = ti_parentTaskId i, si_inherited = inh\<rparr> d0 = Inr scope"
    "depth_guard (sc_parentTaskId scope) tn d0 = Inr ()"
    "\<forall>x \<in> set (tasks d). t_id x \<noteq> tid" "tid = or_else (ti_id i) (uuid env (draws d) now)"
    "creation_guard i = Inr ()"
    "t = new_task i tid tn scope now" "ev_entityId ev = tid" "ev_sequence ev = eventSeq d + 1"
    "d' = d\<lparr>tasks := tasks d @ [new_task i tid tn scope now], principals := principals d @ ps, draws := k,
        events := events d @ [ev], eventSeq := eventSeq d + 1\<rparr>"
proof -
  define d0 where "d0 = (case ti_id i of None \<Rightarrow> d\<lparr>draws := draws d + 1\<rparr> | Some _ \<Rightarrow> d)"
  define tid where "tid = or_else (ti_id i) (uuid env (draws d) now)"
  have split: "(case ti_id i of Some x \<Rightarrow> (d, x) | None \<Rightarrow> fresh_id env now d) = (d0, tid)"
    by (simp add: d0_def tid_def fresh_id_def split: option.splits)
  obtain k0 where k0: "d0 = d\<lparr>draws := k0\<rparr>"
    by (cases "ti_id i") (auto simp: d0_def intro: that [of "draws d"])
  then have d0: "tasks d0 = tasks d" "eventSeq d0 = eventSeq d" by simp_all
  from assms obtain scope d1 d2 where
    g: "creation_guard i = Inr ()" and
    sc: "resolveScope hp tn \<lparr>si_areaId = ti_areaId i, si_goalId = ti_goalId i, si_projectId = ti_projectId i,
       si_parentTaskId = ti_parentTaskId i, si_inherited = inh\<rparr> d0 = Inr scope" and
    dg: "depth_guard (sc_parentTaskId scope) tn d0 = Inr ()" and
    ins: "insert_task (new_task i tid tn scope now) d0 = Inr d1" and
    ev: "recordEvent env (task_event tn actor pid tid ''created'' (created_payload i scope ec)) now d1 = Inr (d2, ev)" and
    get: "getTask tid tn d2 = Inr (Some t)" and d2: "d' = d2"
    unfolding createTaskInTransaction_def split Let_def
    by (auto simp: res)
  have fresh: "\<forall>x \<in> set (tasks d). t_id x \<noteq> tid" and d1: "d1 = d0\<lparr>tasks := tasks d @ [new_task i tid tn scope now]\<rparr>"
    using ins d0(1) by (auto simp: insert_task_Inr new_task_def)
  obtain ps k where f: "d2 = d1\<lparr>principals := principals d1 @ ps, draws := k, events := events d1 @ [ev],
      eventSeq := eventSeq d1 + 1\<rparr>" using recordEvent_frame [OF ev] by blast
  have e: "ev_entityId ev = tid" "ev_sequence ev = eventSeq d1 + 1"
    using recordEvent_event(1,2) [OF ev] by (simp_all add: task_event_def)
  have "task_row tid tn d2 = Some (new_task i tid tn scope now)"
    using fresh d0(1) by (auto simp: f d1 task_row_def find_append new_task_def split: option.splits dest!: find_SomeD)
  then have t: "t = new_task i tid tn scope now" using get by (simp add: res)
  have d': "d' = d\<lparr>tasks := tasks d @ [new_task i tid tn scope now], principals := principals d @ ps, draws := k,
        events := events d @ [ev], eventSeq := eventSeq d + 1\<rparr>"
    unfolding d2 f d1 k0 by simp
  have "eventSeq d1 = eventSeq d" by (simp add: d1 d0)
  with e(2) have seq: "ev_sequence ev = eventSeq d + 1" by simp
  show thesis by (rule that [OF d0(1) sc dg fresh tid_def g t e(1) seq d'])
qed

lemma depth_existing:
  assumes "tree_inv tn d" and "\<And>i. i \<noteq> x \<Longrightarrow> pf' i = parent_of tn d i" and "task_row x tn d = None"
  shows "depth (parent_of tn d) c n \<Longrightarrow> task_row c tn d \<noteq> None \<Longrightarrow> depth pf' c n"
proof (induction rule: depth.induct)
  case (root c)
  then have "pf' c = None" using assms(2,3) by (cases "c = x") auto
  then show ?case by (rule depth.root)
next
  case (step c p n)
  then have "pf' c = Some p" using assms(2,3) by (cases "c = x") auto
  moreover have "task_row p tn d \<noteq> None" using step.hyps(1) assms(1) unfolding tree_inv_def by blast
  ultimately show ?case using step.IH depth.step by blast
qed

text \<open>Adding a task whose parent, if any, exists keeps the tree.\<close>

lemma tree_inv_append:
  assumes inv: "tree_inv tn d" and fresh: "\<forall>x \<in> set (tasks d). t_id x \<noteq> t_id t" and ne: "t_id t \<noteq> []"
    and tn: "t_tenantId t = tn" and par: "\<And>p. t_parentTaskId t = Some p \<Longrightarrow> task_row p tn d \<noteq> None"
    and d': "tasks d' = tasks d @ [t]"
  shows "tree_inv tn d'"
proof -
  let ?x = "t_id t"
  have none: "task_row ?x tn d = None" using fresh by (auto simp: task_row_def find_None_iff)
  have rows: "task_row j tn d' = (case task_row j tn d of Some r \<Rightarrow> Some r | None \<Rightarrow> if j = ?x then Some t else None)" for j
    using tn by (auto simp: d' task_row_def find_append split: option.splits)
  have other: "parent_of tn d' i = parent_of tn d i" if "i \<noteq> ?x" for i
    using that by (auto simp: parent_of_def rows split: option.splits)
  have px: "parent_of tn d' ?x = t_parentTaskId t" by (simp add: parent_of_def rows none)
  have "well_founded_parents (parent_of tn d')"
  proof (rule well_founded_update [of "parent_of tn d" ?x])
    show "well_founded_parents (parent_of tn d)" using inv by (simp add: tree_inv_def)
    fix p assume "parent_of tn d' ?x = Some p"
    then have "task_row p tn d \<noteq> None" using px par by simp
    then show "\<exists>n. depth (parent_of tn d') p n"
      using tree_inv_depth [OF inv, of p] depth_existing [OF inv other none] by blast
  qed (rule other)
  moreover have "task_row p tn d' \<noteq> None" if "parent_of tn d' i = Some p" for i p
  proof -
    have "task_row p tn d \<noteq> None"
      using that px par other [of i] inv unfolding tree_inv_def by (cases "i = ?x") auto
    then show ?thesis by (auto simp: rows)
  qed
  moreover have "task_row [] tn d' = None" using ne inv by (simp add: tree_inv_def rows)
  ultimately show ?thesis unfolding tree_inv_def by blast
qed

text \<open>What the code needs of a hierarchy policy: it answers with the parent it was asked for, and
  only when that parent is a live task of the workspace.\<close>

locale policy_contract =
  fixes hp :: hierarchy_policy
  assumes scope_parent: "resolveScope hp tn inp d = Inr sc \<Longrightarrow> sc_parentTaskId sc = nullish (si_parentTaskId inp)"
    and parent_live: "resolveScope hp tn inp d = Inr sc \<Longrightarrow> sc_parentTaskId sc = Some p \<Longrightarrow>
      \<exists>r. task_row p tn d = Some r \<and> t_deletedAt r = None"
begin

lemma create_parent_of:
  assumes "createTaskInTransaction env hp i tn actor pid now ec inh d = Inr (d', t, ev)"
  shows "\<exists>q. task_row (t_id t) tn d = None \<and> task_row (t_id t) tn d' = Some t \<and> t_parentTaskId t = q \<and>
     (\<forall>i. i \<noteq> t_id t \<longrightarrow> task_row i tn d' = task_row i tn d) \<and>
     (\<forall>p. q = Some p \<longrightarrow> task_row p tn d \<noteq> None \<and> depth_guard (Some p) tn d = Inr ())"
proof (rule createTaskInTransaction_Inr [OF assms])
  fix d0 scope tid ps k
  assume d0: "tasks d0 = tasks d" and
    sc: "resolveScope hp tn \<lparr>si_areaId = ti_areaId i, si_goalId = ti_goalId i, si_projectId = ti_projectId i,
       si_parentTaskId = ti_parentTaskId i, si_inherited = inh\<rparr> d0 = Inr scope" and
    dg: "depth_guard (sc_parentTaskId scope) tn d0 = Inr ()" and
    fresh: "\<forall>x \<in> set (tasks d). t_id x \<noteq> tid" and t: "t = new_task i tid tn scope now" and
    d': "d' = d\<lparr>tasks := tasks d @ [new_task i tid tn scope now], principals := principals d @ ps, draws := k,
        events := events d @ [ev], eventSeq := eventSeq d + 1\<rparr>"
  have tid: "t_id t = tid" "t_tenantId t = tn" "t_parentTaskId t = sc_parentTaskId scope" by (simp_all add: t new_task_def)
  have none: "task_row tid tn d = None" using fresh by (auto simp: task_row_def find_None_iff)
  have rows: "task_row j tn d' = (case task_row j tn d of Some r \<Rightarrow> Some r | None \<Rightarrow> if j = tid then Some t else None)" for j
    using tid t by (auto simp: d' task_row_def find_append split: option.splits)
  have "depth_guard (Some p) tn d = depth_guard (Some p) tn d0" for p
    using getTaskDepth_cong [OF d0] by (simp add: depth_guard_def)
  with parent_live [OF sc] dg d0 rows none tid show ?thesis
    by (auto simp: task_row_cong [OF d0] split: option.splits)
qed

lemma create_tree_inv:
  assumes c: "createTaskInTransaction env hp i tn actor pid now ec inh d = Inr (d', t, ev)"
    and inv: "tree_inv tn d" and ne: "t_id t \<noteq> []"
  shows "tree_inv tn d'"
proof (rule createTaskInTransaction_Inr [OF c])
  fix d0 scope tid ps k
  assume t: "\<forall>x \<in> set (tasks d). t_id x \<noteq> tid" "t = new_task i tid tn scope now"
    and d': "d' = d\<lparr>tasks := tasks d @ [new_task i tid tn scope now], principals := principals d @ ps, draws := k,
        events := events d @ [ev], eventSeq := eventSeq d + 1\<rparr>"
  show ?thesis
    by (rule tree_inv_append [OF inv _ ne, of d'])
      (use t d' create_parent_of [OF c] in \<open>auto simp: new_task_def\<close>)
qed

lemma create_depth:
  assumes c: "createTaskInTransaction env hp i tn actor pid now ec inh d = Inr (d', t, ev)"
    and inv: "tree_inv tn d"
  shows "\<exists>n \<le> MAX_TASK_DEPTH. depth (parent_of tn d') (t_id t) n"
proof -
  let ?x = "t_id t"
  obtain q where q: "task_row ?x tn d = None" "task_row ?x tn d' = Some t" "t_parentTaskId t = q"
      "\<And>i. i \<noteq> ?x \<Longrightarrow> task_row i tn d' = task_row i tn d"
      "\<And>p. q = Some p \<Longrightarrow> task_row p tn d \<noteq> None \<and> depth_guard (Some p) tn d = Inr ()"
    using create_parent_of [OF c] by blast
  have other: "parent_of tn d' i = parent_of tn d i" if "i \<noteq> ?x" for i
    using q(4) [OF that] by (simp add: parent_of_def)
  have px: "parent_of tn d' ?x = q" using q by (simp add: parent_of_def)
  show ?thesis
  proof (cases q)
    case None
    then have "depth (parent_of tn d') ?x 1" using px by (intro depth.root) simp
    then show ?thesis by (intro exI [of _ 1]) (simp add: MAX_TASK_DEPTH_def)
  next
    case (Some p)
    with q(5) have p: "task_row p tn d \<noteq> None" "depth_guard (Some p) tn d = Inr ()" by auto
    then have "p \<noteq> []" using inv by (auto simp: tree_inv_def)
    then obtain k where k: "getTaskDepth p tn d = Inr k" "k + 1 \<le> MAX_TASK_DEPTH"
      using p(2) by (auto simp: depth_guard_def truthy_str_def res split: sum.splits if_splits)
    then have "depth (parent_of tn d) p k" by (intro getTaskDepth_le [OF inv]) simp_all
    then have "depth (parent_of tn d') p k" using depth_existing [OF inv other q(1)] p(1) by blast
    then have "depth (parent_of tn d') ?x (Suc k)" using px Some depth.step by metis
    with k(2) show ?thesis by auto
  qed
qed

end

lemma flat_resolveScope_parent:
  assumes "flat_resolveScope tn inp d = Inr sc"
  shows "sc_parentTaskId sc = nullish (si_parentTaskId inp)"
    and "sc_parentTaskId sc = Some p \<Longrightarrow> \<exists>r. task_row p tn d = Some r \<and> t_deletedAt r = None"
  using assms by (auto simp: flat_resolveScope_def Let_def res split: if_splits option.splits sum.splits)

interpretation flat: policy_contract flatHierarchyPolicy
  by unfold_locales (auto simp: flatHierarchyPolicy_def dest: flat_resolveScope_parent)

section \<open>Reparenting\<close>

definition rows_inv :: "db \<Rightarrow> bool" where
  "rows_inv d \<longleftrightarrow> uniq_by t_id (tasks d)"

lemma task_row_unique:
  assumes "rows_inv d" and "task_row i tn d = Some t" and "u \<in> set (tasks d)" and "t_id u = i"
  shows "u = t"
proof -
  have "t \<in> set (tasks d)" "t_id t = i" using task_row_Some [OF assms(2)] by simp_all
  then show ?thesis using assms(1,3,4) by (simp add: rows_inv_def uniq_by_eqD)
qed

text \<open>What an update did: nothing, or the patch of the one row under the guards.\<close>

lemma updateTaskInTransaction_Inr:
  assumes "updateTaskInTransaction env hp tid u tn actor pid now rv0 d = Inr (d', t, evo)" and "rows_inv d"
  obtains
    (same) "d' = d" "evo = None" "task_row tid tn d = Some t" "\<not> update_changes u t"
  | (changed) before scope ps k ev where "task_row tid tn d = Some before" "\<not> truthy_num (t_deletedAt before)"
    "update_guard u before = Inr ()" "revision_matches rv0 (t_revision before)"
    "reparent_guard tid tn (or_else (tu_parentTaskId u) (t_parentTaskId before)) (t_parentTaskId before) d = Inr ()"
    "resolveScope hp tn (update_scope u before (or_else (tu_parentTaskId u) (t_parentTaskId before))) d = Inr scope"
    "t = patched_task u scope now before" "evo = Some ev"
    "d' = (update_tasks (is_task tid tn) (patched_task u scope now) d)\<lparr>principals := principals d @ ps, draws := k,
        events := events d @ [ev], eventSeq := eventSeq d + 1\<rparr>"
proof -
  from assms(1) obtain before where b: "task_row tid tn d = Some before" "\<not> truthy_num (t_deletedAt before)"
    "update_guard u before = Inr ()" and
    rest: "(\<not> update_changes u before \<and> d' = d \<and> t = before \<and> evo = None) \<or> (update_changes u before \<and>
       (\<exists>scope ev d2. reparent_guard tid tn (or_else (tu_parentTaskId u) (t_parentTaskId before)) (t_parentTaskId before) d = Inr () \<and>
        resolveScope hp tn (update_scope u before (or_else (tu_parentTaskId u) (t_parentTaskId before))) d = Inr scope \<and>
        (rv0 \<noteq> None \<longrightarrow> list_ex (\<lambda>t. is_task tid tn t \<and> revision_matches rv0 (t_revision t)) (tasks d)) \<and>
        d2 = update_tasks (\<lambda>t. is_task tid tn t \<and> revision_matches rv0 (t_revision t)) (patched_task u scope now) d \<and>
        getTask tid tn d2 = Inr (Some t) \<and> evo = Some ev \<and>
        recordEvent env (task_event tn actor pid tid ''updated'' (case diffRecords (task_json before) (task_json t)
          of (b, a) \<Rightarrow> [(''before'', JObj b), (''after'', JObj a)])) now d2 = Inr (d', ev)))"
    unfolding updateTaskInTransaction_def Let_def by (auto simp: res split: if_splits)
  show thesis
  proof (cases "update_changes u before")
    case False with rest b same show ?thesis by auto
  next
    case True
    with rest obtain scope ev d2 inp where
      rg: "reparent_guard tid tn (or_else (tu_parentTaskId u) (t_parentTaskId before)) (t_parentTaskId before) d = Inr ()" and
      sc: "resolveScope hp tn (update_scope u before (or_else (tu_parentTaskId u) (t_parentTaskId before))) d = Inr scope" and
      rv: "rv0 \<noteq> None \<longrightarrow> list_ex (\<lambda>t. is_task tid tn t \<and> revision_matches rv0 (t_revision t)) (tasks d)" and
      d2: "d2 = update_tasks (\<lambda>t. is_task tid tn t \<and> revision_matches rv0 (t_revision t)) (patched_task u scope now) d" and
      get: "getTask tid tn d2 = Inr (Some t)" and evo: "evo = Some ev" and
      rec: "recordEvent env inp now d2 = Inr (d', ev)" by blast
    have uniq: "x = before" if "x \<in> set (tasks d)" "is_task tid tn x" for x
      using that task_row_unique [OF assms(2) b(1)] by (simp add: is_task_def)
    have rm: "revision_matches rv0 (t_revision before)"
      using rv uniq by (cases rv0) (auto simp: revision_matches_def list_ex_iff)
    have "update_rows (\<lambda>t. is_task tid tn t \<and> revision_matches rv0 (t_revision t)) (patched_task u scope now) (tasks d)
        = update_rows (is_task tid tn) (patched_task u scope now) (tasks d)"
      unfolding update_rows_def by (rule map_cong) (use uniq rm in auto)
    then have d2': "d2 = update_tasks (is_task tid tn) (patched_task u scope now) d" by (simp add: d2 update_tasks_def)
    have "is_task tid tn before" using b(1) by (auto simp: is_task_def dest: task_row_Some)
    then have "task_row tid tn d2 = Some (patched_task u scope now before)"
      unfolding d2' by (subst task_row_update) (simp_all add: patched_task_def b)
    then have t: "t = patched_task u scope now before" using get by (simp add: res)
    obtain ps k where "d' = d2\<lparr>principals := principals d2 @ ps, draws := k, events := events d2 @ [ev],
      eventSeq := eventSeq d2 + 1\<rparr>" using recordEvent_frame [OF rec] by blast
    then have "d' = (update_tasks (is_task tid tn) (patched_task u scope now) d)\<lparr>principals := principals d @ ps,
        draws := k, events := events d @ [ev], eventSeq := eventSeq d + 1\<rparr>"
      unfolding d2' by (simp add: update_tasks_def)
    with changed b rm rg sc t evo show ?thesis by blast
  qed
qed

text \<open>The live tasks \<open>k\<close> steps below \<open>x\<close>, and what \<open>subtreeHeight\<close> says of them.\<close>

inductive live_below :: "string \<Rightarrow> db \<Rightarrow> string \<Rightarrow> string \<Rightarrow> nat \<Rightarrow> bool" for tn d x where
  here: "live_below tn d x x 0"
| child: "live_below tn d x y k \<Longrightarrow> c \<in> set (live_children [y] tn d) \<Longrightarrow> live_below tn d x (t_id c) (Suc k)"

inductive_cases live_below_zero: "live_below tn d x y 0"
inductive_cases live_below_Suc: "live_below tn d x y (Suc k)"

lemma live_children_mem:
  "c \<in> set (live_children fr tn d) \<longleftrightarrow> c \<in> set (tasks d) \<and> t_tenantId c = tn \<and> t_deletedAt c = None \<and>
     (\<exists>p \<in> set fr. t_parentTaskId c = Some p)"
  by (auto simp: live_children_def split: option.splits)

lemma live_below_front:
  "live_below tn d x y (Suc k) \<Longrightarrow> \<exists>c \<in> set (live_children [x] tn d). live_below tn d (t_id c) y k"
proof (induction k arbitrary: y)
  case 0 then show ?case by (auto elim!: live_below_Suc live_below_zero intro: live_below.here)
next
  case (Suc k)
  from Suc.prems obtain z c where "live_below tn d x z (Suc k)" "c \<in> set (live_children [z] tn d)" "y = t_id c"
    by (auto elim: live_below_Suc)
  with Suc.IH [of z] show ?case by (auto intro: live_below.child)
qed

lemma height_loop_ge: "h \<le> height_loop n tn d h fr"
  by (induction n arbitrary: h fr) (auto simp: Let_def intro: le_trans [OF le_SucI])

lemma height_loop_bound:
  "x \<in> set fr \<Longrightarrow> live_below tn d x y k \<Longrightarrow> h + min k n \<le> height_loop n tn d h fr"
proof (induction n arbitrary: h fr x k)
  case (Suc n)
  show ?case
  proof (cases k)
    case (Suc k')
    with Suc.prems obtain c where c: "c \<in> set (live_children [x] tn d)" "live_below tn d (t_id c) y k'"
      using live_below_front by blast
    then have "c \<in> set (live_children fr tn d)" using Suc.prems(1) by (auto simp: live_children_mem)
    then have ne: "live_children fr tn d \<noteq> []" and m: "t_id c \<in> set (map t_id (live_children fr tn d))" by auto
    from Suc.IH [OF m c(2), of "h + 1"] ne Suc show ?thesis by (simp add: Let_def)
  qed (simp add: height_loop_ge del: height_loop.simps)
qed simp

lemma subtreeHeight_bound: "live_below tn d x y k \<Longrightarrow> 1 + min k (MAX_TASK_DEPTH + 2) \<le> subtreeHeight x tn d"
  unfolding subtreeHeight_def by (rule height_loop_bound) simp_all

lemma live_below_parent:
  assumes "rows_inv d" "c \<in> set (live_children [y] tn d)"
  shows "parent_of tn d (t_id c) = Some y"
proof -
  from assms(2) have c: "c \<in> set (tasks d)" "t_tenantId c = tn" "t_parentTaskId c = Some y"
    by (auto simp: live_children_mem)
  then have "task_row (t_id c) tn d = Some c"
    unfolding task_row_def using assms(1) by (intro find_uniq [of t_id]) (auto simp: rows_inv_def)
  with c show ?thesis by (simp add: parent_of_def)
qed

lemma live_below_depth:
  assumes "rows_inv d" and "depth (parent_of tn d) x n"
  shows "live_below tn d x y k \<Longrightarrow> depth (parent_of tn d) y (n + k)"
proof (induction rule: live_below.induct)
  case (child y k c)
  then show ?case using live_below_parent [OF assms(1)] depth.step [of "parent_of tn d" "t_id c" y] by simp
qed (use assms in simp)

lemma live_below_moved:
  assumes rows: "rows_inv d" and dx: "depth (parent_of tn d) x n0" and other: "\<And>i. i \<noteq> x \<Longrightarrow> pf' i = parent_of tn d i"
    and x': "depth pf' x m"
  shows "live_below tn d x y k \<Longrightarrow> depth pf' y (m + k)"
proof (induction rule: live_below.induct)
  case (child y k c)
  have "live_below tn d x (t_id c) (Suc k)" using child.hyps by (rule live_below.child)
  then have "depth (parent_of tn d) (t_id c) (n0 + Suc k)" by (rule live_below_depth [OF rows dx])
  then have "t_id c \<noteq> x" using dx depth_det by fastforce
  then have "pf' (t_id c) = Some y" using other live_below_parent [OF rows child.hyps(2)] by simp
  then show ?case using child.IH depth.step by fastforce
qed (use x' in simp)

context policy_contract
begin

lemma update_parent_of:
  assumes u: "updateTaskInTransaction env hp tid u tn actor pid now rv0 d = Inr (d', t, evo)" and rows: "rows_inv d"
    and inv: "tree_inv tn d"
  shows "parent_of tn d' = parent_of tn d \<or> (\<exists>q. parent_of tn d' tid = q \<and> (\<forall>i. i \<noteq> tid \<longrightarrow> parent_of tn d' i = parent_of tn d i) \<and>
     (\<forall>p. q = Some p \<longrightarrow> task_row p tn d \<noteq> None) \<and> reparent_guard tid tn q (parent_of tn d tid) d = Inr ())"
    and "(task_row i tn d' = None) = (task_row i tn d = None)"
proof -
  have "(parent_of tn d' = parent_of tn d \<or> (\<exists>q. parent_of tn d' tid = q \<and> (\<forall>i. i \<noteq> tid \<longrightarrow> parent_of tn d' i = parent_of tn d i) \<and>
     (\<forall>p. q = Some p \<longrightarrow> task_row p tn d \<noteq> None) \<and> reparent_guard tid tn q (parent_of tn d tid) d = Inr ()))
     \<and> ((task_row i tn d' = None) = (task_row i tn d = None))"
  proof (rule updateTaskInTransaction_Inr [OF u rows])
    fix before scope ps k ev
    assume b: "task_row tid tn d = Some before" and
      g: "reparent_guard tid tn (or_else (tu_parentTaskId u) (t_parentTaskId before)) (t_parentTaskId before) d = Inr ()" and
      sc: "resolveScope hp tn (update_scope u before (or_else (tu_parentTaskId u) (t_parentTaskId before))) d = Inr scope" and
      d': "d' = (update_tasks (is_task tid tn) (patched_task u scope now) d)\<lparr>principals := principals d @ ps, draws := k,
        events := events d @ [ev], eventSeq := eventSeq d + 1\<rparr>"
    have q: "sc_parentTaskId scope = or_else (tu_parentTaskId u) (t_parentTaskId before)"
      using scope_parent [OF sc] by (simp add: update_scope_def Let_def)
    have row: "task_row j tn d' = map_option (\<lambda>t. if is_task tid tn t then patched_task u scope now t else t) (task_row j tn d)" for j
      unfolding d' by (subst task_row_update [symmetric]) (auto simp: patched_task_def intro: task_row_cong)
    have "parent_of tn d' tid = sc_parentTaskId scope"
      using b by (auto simp: parent_of_def row is_task_def patched_task_def dest: task_row_Some)
    moreover have "parent_of tn d' i = parent_of tn d i" if "i \<noteq> tid" for i
      using that by (auto simp: parent_of_def row is_task_def split: option.splits dest: task_row_Some)
    moreover have "parent_of tn d tid = t_parentTaskId before" using b by (simp add: parent_of_def)
    ultimately show ?thesis using g q parent_live [OF sc] row by auto
  qed auto
  then show "parent_of tn d' = parent_of tn d \<or> (\<exists>q. parent_of tn d' tid = q \<and> (\<forall>i. i \<noteq> tid \<longrightarrow> parent_of tn d' i = parent_of tn d i) \<and>
     (\<forall>p. q = Some p \<longrightarrow> task_row p tn d \<noteq> None) \<and> reparent_guard tid tn q (parent_of tn d tid) d = Inr ())"
    and "(task_row i tn d' = None) = (task_row i tn d = None)" by blast+
qed

lemma update_tree_inv:
  assumes u: "updateTaskInTransaction env hp tid u tn actor pid now rv0 d = Inr (d', t, evo)"
    and rows: "rows_inv d" and inv: "tree_inv tn d"
  shows "tree_inv tn d'"
proof -
  note exist = update_parent_of(2) [OF u rows inv]
  from update_parent_of(1) [OF u rows inv] show ?thesis
  proof
    assume "parent_of tn d' = parent_of tn d"
    with inv exist show ?thesis by (auto simp: tree_inv_def)
  next
    assume "\<exists>q. parent_of tn d' tid = q \<and> (\<forall>i. i \<noteq> tid \<longrightarrow> parent_of tn d' i = parent_of tn d i) \<and>
      (\<forall>p. q = Some p \<longrightarrow> task_row p tn d \<noteq> None) \<and> reparent_guard tid tn q (parent_of tn d tid) d = Inr ()"
    then have other: "\<And>i. i \<noteq> tid \<Longrightarrow> parent_of tn d' i = parent_of tn d i"
      and ex: "\<And>p. parent_of tn d' tid = Some p \<Longrightarrow> task_row p tn d \<noteq> None"
      and g: "reparent_guard tid tn (parent_of tn d' tid) (parent_of tn d tid) d = Inr ()" by auto
    have "tid \<noteq> []"
      using u inv by (auto simp: updateTaskInTransaction_def tree_inv_def getTask_def)
    have "well_founded_parents (parent_of tn d')"
    proof (rule well_founded_update [of "parent_of tn d" tid])
      show "well_founded_parents (parent_of tn d)" using inv by (simp add: tree_inv_def)
      fix p assume p: "parent_of tn d' tid = Some p"
      obtain n where n: "depth (parent_of tn d) p n" using tree_inv_depth [OF inv] by blast
      show "\<exists>n. depth (parent_of tn d') p n"
      proof (cases "parent_of tn d tid = Some p")
        case True
        then have "parent_of tn d' = parent_of tn d" using other p by (intro ext) (metis)
        with n show ?thesis by auto
      next
        case False
        then have "ancestor_walk tid tn d (Some p) [] = Inr ()"
          using g p by (auto simp: reparent_guard_def res split: if_splits)
        from ancestor_walk_off [OF inv \<open>tid \<noteq> []\<close> other n this] show ?thesis by blast
      qed
    qed (rule other)
    moreover have "task_row p tn d' \<noteq> None" if "parent_of tn d' i = Some p" for i p
      using that ex other [of i] exist inv unfolding tree_inv_def by (cases "i = tid") auto
    moreover have "task_row [] tn d' = None" using exist inv by (simp add: tree_inv_def)
    ultimately show ?thesis unfolding tree_inv_def by blast
  qed
qed

lemma update_depth:
  assumes u: "updateTaskInTransaction env hp tid u tn actor pid now rv0 d = Inr (d', t, evo)"
    and rows: "rows_inv d" and inv: "tree_inv tn d" and moved: "parent_of tn d' tid \<noteq> parent_of tn d tid"
    and y: "live_below tn d tid y k" and np: "parent_of tn d' tid \<noteq> None"
  shows "\<exists>n \<le> MAX_TASK_DEPTH. depth (parent_of tn d') y n"
proof -
  from update_parent_of(1) [OF u rows inv] moved
  have other: "\<And>i. i \<noteq> tid \<Longrightarrow> parent_of tn d' i = parent_of tn d i"
    and g: "reparent_guard tid tn (parent_of tn d' tid) (parent_of tn d tid) d = Inr ()" by auto
  have "tid \<noteq> []" using u inv by (auto simp: updateTaskInTransaction_def tree_inv_def getTask_def)
  obtain p where p: "parent_of tn d' tid = Some p" using np by auto
  then obtain m where w: "ancestor_walk tid tn d (Some p) [] = Inr ()" and m: "getTaskDepth p tn d = Inr m"
      and bound: "m + subtreeHeight tid tn d \<le> MAX_TASK_DEPTH"
    using g moved by (auto simp: reparent_guard_def res split: if_splits)
  have "1 + min k (MAX_TASK_DEPTH + 2) \<le> subtreeHeight tid tn d" by (rule subtreeHeight_bound [OF y])
  with bound have k: "m + 1 + k \<le> MAX_TASK_DEPTH" by (simp add: min_def split: if_splits)
  then have dp: "depth (parent_of tn d) p m" by (intro getTaskDepth_le [OF inv m]) simp
  have "depth (parent_of tn d') p m" by (rule ancestor_walk_off [OF inv \<open>tid \<noteq> []\<close> other dp w])
  with p have x: "depth (parent_of tn d') tid (Suc m)" by (rule depth.step)
  obtain n0 where n0: "depth (parent_of tn d) tid n0" using tree_inv_depth [OF inv] by blast
  have "depth (parent_of tn d') y (Suc m + k)" by (rule live_below_moved [OF rows n0 other x y])
  with k show ?thesis by (intro exI [of _ "Suc m + k"]) simp
qed

end

section \<open>On the sample ledger\<close>

lemma sample_rows: "rows_inv sample_db"
  by (simp add: rows_inv_def uniq_by_def sample_db_def sample_task_def new_task_def)

lemma sample_tree: "tree_inv ''w'' sample_db"
proof -
  have "tree_inv ''w'' (empty_db\<lparr>tasks := [sample_task ''t1'' ''paint'' None]\<rparr>)"
    by (rule tree_inv_append [OF tree_inv_empty, where t = "sample_task ''t1'' ''paint'' None"])
      (simp_all add: sample_task_def new_task_def empty_db_def)
  then show ?thesis
    by (rule tree_inv_append [where t = "sample_task ''t2'' ''sand'' None"])
      (simp_all add: sample_task_def new_task_def sample_db_def)
qed

abbreviation sample_create :: "err + db \<times> task \<times> event" where
  "sample_create \<equiv> createTaskInTransaction sample_env flatHierarchyPolicy (sample_insert ''wax'' (Some ''t1''))
     ''w'' ''alice'' None 2000 [] False sample_db"

abbreviation sample_move :: "err + db \<times> task \<times> event option" where
  "sample_move \<equiv> updateTaskInTransaction sample_env flatHierarchyPolicy ''t2''
     (empty_update\<lparr>tu_parentTaskId := Some (Some ''t1'')\<rparr>) ''w'' ''alice'' None 2000 (Some 1) sample_db"

lemma sample_create_ok: "returned sample_create" "t_id (fst (snd (projr sample_create))) \<noteq> []"
  by code_simp+

lemma sample_move_ok: "returned sample_move"
  "parent_of ''w'' (fst (projr sample_move)) ''t2'' = Some ''t1''" "parent_of ''w'' sample_db ''t2'' = None"
  by code_simp+

section \<open>Properties\<close>

text \<open>C30. Creation under the kernel's policy keeps the decomposition tree of the workspace free of
  cycles and of dangling parents, and the new task's depth is at most \<open>MAX_TASK_DEPTH\<close>.\<close>

theorem create_keeps_tree:
  assumes "createTaskInTransaction env flatHierarchyPolicy i tn actor pid now ec inh d = Inr (d', t, ev)"
    and "tree_inv tn d" and "t_id t \<noteq> []"
  shows "tree_inv tn d' \<and> (\<exists>n \<le> MAX_TASK_DEPTH. depth (parent_of tn d') (t_id t) n)"
  using flat.create_tree_inv [OF assms] flat.create_depth [OF assms(1,2)] by blast

theorem create_keeps_tree_witness:
  "tree_inv ''w'' (fst (projr sample_create)) \<and>
   (\<exists>n \<le> MAX_TASK_DEPTH. depth (parent_of ''w'' (fst (projr sample_create))) (t_id (fst (snd (projr sample_create)))) n)"
  by (rule create_keeps_tree [OF returned3 [OF sample_create_ok(1)]
      sample_tree sample_create_ok(2)])

text \<open>An update under the kernel's policy, reparenting included, keeps the decomposition tree
  free of cycles and of dangling parents.\<close>

theorem update_keeps_tree:
  assumes "updateTaskInTransaction env flatHierarchyPolicy tid u tn actor pid now rv0 d = Inr (d', t, evo)"
    and "rows_inv d" and "tree_inv tn d"
  shows "tree_inv tn d'"
  by (rule flat.update_tree_inv [OF assms])

theorem update_keeps_tree_witness: "tree_inv ''w'' (fst (projr sample_move))"
  by (rule update_keeps_tree [OF returned3 [OF sample_move_ok(1)] sample_rows sample_tree])

text \<open>C31. When a task moves under a new parent, the task and every live task below it end at a
  depth of at most \<open>MAX_TASK_DEPTH\<close>.\<close>

theorem reparent_depth_bounded:
  assumes "updateTaskInTransaction env flatHierarchyPolicy tid u tn actor pid now rv0 d = Inr (d', t, evo)"
    and "rows_inv d" and "tree_inv tn d"
    and "parent_of tn d' tid \<noteq> parent_of tn d tid" and "parent_of tn d' tid \<noteq> None"
    and "live_below tn d tid y k"
  shows "\<exists>n \<le> MAX_TASK_DEPTH. depth (parent_of tn d') y n"
  by (rule flat.update_depth [OF assms(1-4) assms(6,5)])

theorem reparent_depth_bounded_witness:
  "\<exists>n \<le> MAX_TASK_DEPTH. depth (parent_of ''w'' (fst (projr sample_move))) ''t2'' n"
  by (rule reparent_depth_bounded [OF returned3 [OF sample_move_ok(1)] sample_rows sample_tree _ _ live_below.here])
    (simp_all only: sample_move_ok(2,3) option.distinct not_False_eq_True)

text \<open>\<open>getTaskDepth\<close> returns the depth of the task in the tree, cut at \<open>MAX_TASK_DEPTH + 2\<close>,
  and never reports a cycle.\<close>

theorem getTaskDepth_correct:
  assumes "tree_inv tn d" and "depth (parent_of tn d) i n"
  shows "getTaskDepth i tn d = Inr (min n (MAX_TASK_DEPTH + 2))"
  by (rule getTaskDepth_eq [OF assms])

theorem getTaskDepth_correct_witness: "getTaskDepth ''t1'' ''w'' sample_db = Inr (min 1 (MAX_TASK_DEPTH + 2))"
  by (rule getTaskDepth_correct [OF sample_tree depth.root])
    (simp add: parent_of_def task_row_def sample_db_def sample_task_def new_task_def)

end
