(* ===== verification/Relations.thy ===== *)
theory Relations
  imports Sample_Ledger
begin

text \<open>
  Peer relations between commitments (\<open>packages/tasq-core/src/service/collaboration.ts\<close>): adding and
  ending a relation, the walk that refuses a cycle of \<open>depends_on\<close> edges, the blockers of a
  commitment, the commitments a completion opens, and the refusal to claim a blocked one. The live
  \<open>depends_on\<close> edges of a workspace stay acyclic, so an open commitment without unresolved blockers
  always exists where an open commitment does.
\<close>

section \<open>Callers\<close>

definition contextPrincipal :: "env \<Rightarrow> string \<Rightarrow> service_context \<Rightarrow> int \<Rightarrow> db \<Rightarrow> err + db \<times> principal" where
  "contextPrincipal env tenantId ctx now d = resolveAttribution env (ctx_principalId ctx) tenantId (actor_of ctx) now d"

definition actorLabel :: "service_context \<Rightarrow> principal \<Rightarrow> string" where
  "actorLabel ctx p = or_else (ctx_actor ctx) (or_else (p_localAlias p) (p_id p))"

definition requirePrincipal :: "string \<Rightarrow> string \<Rightarrow> db \<Rightarrow> err + principal" where
  "requirePrincipal pid tenantId d = (case getPrincipal pid tenantId d of Inl e \<Rightarrow> Inl e
      | Inr None \<Rightarrow> Inl (Refused ''Principal not found in workspace'' [pid])
      | Inr (Some p) \<Rightarrow> Inr p)"

definition requireTask :: "string \<Rightarrow> string \<Rightarrow> db \<Rightarrow> err + task" where
  "requireTask tid tenantId d = (case getTask tid tenantId d of Inl e \<Rightarrow> Inl e
      | Inr None \<Rightarrow> Inl (Refused ''Commitment not found'' [tid])
      | Inr (Some t) \<Rightarrow> if t_deletedAt t \<noteq> None then Inl (Refused ''Commitment not found'' [tid]) else Inr t)"

text \<open>The identity of a retried call and the result it already has; it is prepared inside the
  transaction.\<close>

definition retryResult ::
  "env \<Rightarrow> string \<Rightarrow> service_context \<Rightarrow> string \<Rightarrow> json \<Rightarrow> int \<Rightarrow> bool \<Rightarrow> db \<Rightarrow>
    err + db \<times> string option \<times> prepared_idempotency option" where
  "retryResult env tenantId ctx operation request now durable d =
     (case prepareIdempotency env (ctx\<lparr>ctx_tenantId := Some tenantId\<rparr>) operation request now
         (Some (if durable then Durable else Standard)) None
         (Some (JObj [(''operation'', JStr operation), (''request'', request)])) of Inl e \<Rightarrow> Inl e
      | Inr identity \<Rightarrow>
         (case findIdempotencyResult identity d of Inl e \<Rightarrow> Inl e
          | Inr (d, prior) \<Rightarrow> Inr (d, map_option ik_resultId prior, identity)))"

definition caller_label :: "service_context \<Rightarrow> string" where
  "caller_label ctx = or_else (ctx_principalId ctx) (actor_of ctx)"

section \<open>Insertion\<close>

definition relation_check :: "commitment_relation \<Rightarrow> bool" where
  "relation_check r \<longleftrightarrow> r_fromTaskId r \<noteq> r_toTaskId r \<and> r_revision r > 0 \<and>
     (case (r_endedAt r, r_endedByPrincipalId r) of
        (None, None) \<Rightarrow> True | (Some t, Some p) \<Rightarrow> t \<ge> r_createdAt r | _ \<Rightarrow> False)"

definition insert_relation :: "commitment_relation \<Rightarrow> db \<Rightarrow> err + db" where
  "insert_relation r d = insert_row ''commitment_relation''
     (\<forall>x \<in> set (relations d). r_id x \<noteq> r_id r \<and>
        \<not> (r_tenantId x = r_tenantId r \<and> r_fromTaskId x = r_fromTaskId r \<and> r_relationType x = r_relationType r \<and>
           r_toTaskId x = r_toTaskId r \<and> r_endedAt x = None \<and> r_endedAt r = None))
     (relation_check r) (d\<lparr>relations := relations d @ [r]\<rparr>)"

definition update_relations ::
  "(commitment_relation \<Rightarrow> bool) \<Rightarrow> (commitment_relation \<Rightarrow> commitment_relation) \<Rightarrow> db \<Rightarrow> err + db" where
  "update_relations P f d = insert_row ''commitment_relation'' True
     (\<forall>x \<in> set (relations d). P x \<longrightarrow> relation_check (f x)) (d\<lparr>relations := update_rows P f (relations d)\<rparr>)"

definition insert_dependency :: "task_dependency \<Rightarrow> db \<Rightarrow> err + db" where
  "insert_dependency r d = insert_row ''task_dependency''
     (\<forall>x \<in> set (dependencies d). d_id x \<noteq> d_id r \<and>
        \<not> (d_tenantId x = d_tenantId r \<and> d_fromTaskId x = d_fromTaskId r \<and> d_toTaskId x = d_toTaskId r \<and>
           d_type x = d_type r \<and> d_deletedAt x = None \<and> d_deletedAt r = None))
     True (d\<lparr>dependencies := dependencies d @ [r]\<rparr>)"

text \<open>\<open>CommitmentRelationInsert\<close>; a relation type is one of the four names or an absolute URI.\<close>

record relation_insert =
  ri_id :: "string option"
  ri_tenantId :: string
  ri_fromTaskId :: string
  ri_relationType :: string
  ri_toTaskId :: string

definition RELATION_TYPES :: "string list" where
  "RELATION_TYPES = [''depends_on'', ''discovered_from'', ''relates_to'', ''duplicates'']"

definition is_alpha :: "char \<Rightarrow> bool" where
  "is_alpha c \<longleftrightarrow> (let n = (of_char c :: nat) in (65 \<le> n \<and> n \<le> 90) \<or> (97 \<le> n \<and> n \<le> 122))"

definition absolute_uri :: "string \<Rightarrow> bool" where
  "absolute_uri s \<longleftrightarrow> 3 \<le> length s \<and> length s \<le> 2000 \<and>
     (case s of [] \<Rightarrow> False
      | c # cs \<Rightarrow> is_alpha c \<and>
          (let rest = dropWhile (\<lambda>x. is_alpha x \<or> is_digit x \<or> x \<in> set ''+.-'') cs in
           rest \<noteq> [] \<and> hd rest = CHR '':''))"

definition relation_insert_ok :: "relation_insert \<Rightarrow> bool" where
  "relation_insert_ok i \<longleftrightarrow> ri_tenantId i \<noteq> [] \<and>
     (ri_relationType i \<in> set RELATION_TYPES \<or> absolute_uri (ri_relationType i))"

definition relation_request :: "relation_insert \<Rightarrow> service_context \<Rightarrow> json" where
  "relation_request i ctx = JObj
     [(''input'', JObj [(''tenantId'', JStr (ri_tenantId i)), (''fromTaskId'', JStr (ri_fromTaskId i)),
        (''relationType'', JStr (ri_relationType i)), (''toTaskId'', JStr (ri_toTaskId i)),
        (''id'', optional JStr (ri_id i))]),
      (''caller'', JStr (caller_label ctx))]"

definition getCommitmentRelation :: "string \<Rightarrow> string \<Rightarrow> db \<Rightarrow> commitment_relation option" where
  "getCommitmentRelation rid tenantId d = find (\<lambda>r. r_id r = rid \<and> r_tenantId r = tenantId) (relations d)"

section \<open>The walk that refuses a cycle\<close>

definition live_edge :: "string \<Rightarrow> commitment_relation \<Rightarrow> bool" where
  "live_edge tenantId r \<longleftrightarrow> r_tenantId r = tenantId \<and> r_relationType r = ''depends_on'' \<and> r_endedAt r = None"

definition next_frontier :: "string \<Rightarrow> db \<Rightarrow> string list \<Rightarrow> string list \<Rightarrow> string list" where
  "next_frontier tenantId d seen frontier = filter (\<lambda>i. i \<notin> set seen)
     (map r_toTaskId (filter (\<lambda>r. live_edge tenantId r \<and> r_fromTaskId r \<in> set frontier) (relations d)))"

lemma next_frontier_new:
  "set (next_frontier tn d seen fr) \<subseteq> r_toTaskId ` set (relations d) - set seen"
  by (auto simp: next_frontier_def)

function cycle_loop :: "string \<Rightarrow> string \<Rightarrow> db \<Rightarrow> string list \<Rightarrow> string list \<Rightarrow> err + unit" where
  "cycle_loop tenantId fromId d seen frontier =
     (if frontier = [] then Inr ()
      else if fromId \<in> set frontier then Inl (Refused ''Relation would create a depends_on cycle'' [])
      else let nxt = next_frontier tenantId d seen frontier in
        cycle_loop tenantId fromId d (nxt @ seen) nxt)"
  by pat_completeness auto

termination
proof (relation "measures [\<lambda>(tn, x, d, seen, fr). card (r_toTaskId ` set (relations d) - set seen),
    \<lambda>(tn, x, d, seen, fr). length (take 1 fr)]")
  fix tn x d seen and fr nxt :: "string list"
  assume fr: "fr \<noteq> []" and nxt: "nxt = next_frontier tn d seen fr"
  let ?U = "r_toTaskId ` set (relations d)"
  have sub: "set nxt \<subseteq> ?U - set seen" unfolding nxt by (rule next_frontier_new)
  show "((tn, x, d, nxt @ seen, nxt), tn, x, d, seen, fr) \<in> measures
     [\<lambda>(tn, x, d, seen, fr). card (r_toTaskId ` set (relations d) - set seen),
      \<lambda>(tn, x, d, seen, fr). length (take 1 fr)]"
  proof (cases nxt)
    case Nil
    with fr show ?thesis by (cases fr) simp_all
  next
    case (Cons y ys)
    have "?U - set (nxt @ seen) \<subset> ?U - set seen" using sub Cons by auto
    then have "card (?U - set (nxt @ seen)) < card (?U - set seen)" by (intro psubset_card_mono) simp_all
    then show ?thesis by simp
  qed
qed simp

declare cycle_loop.simps [simp del]

definition assertNoDependencyCycle :: "string \<Rightarrow> string \<Rightarrow> string \<Rightarrow> db \<Rightarrow> err + unit" where
  "assertNoDependencyCycle tenantId fromId toId d =
     (if fromId = toId then Inl (Refused ''A commitment cannot depend on itself'' [])
      else cycle_loop tenantId fromId d [] [toId])"

section \<open>Adding and ending a relation\<close>

definition relation_outcome :: "commitment_relation \<Rightarrow> int \<Rightarrow> idempotency_outcome" where
  "relation_outcome r eventSequence = \<lparr>o_resultType = ''commitment_relation'', o_resultId = r_id r,
     o_resultStatus = Some ''active'', o_resultRevision = Some (r_revision r), o_eventSequence = Some eventSequence\<rparr>"

text \<open>The older table of dependencies mirrors three of the relation types.\<close>

definition mirror_dependency :: "commitment_relation \<Rightarrow> int \<Rightarrow> db \<Rightarrow> err + db" where
  "mirror_dependency r now d =
     (if r_relationType r = ''depends_on'' \<or> r_relationType r = ''relates_to'' \<or> r_relationType r = ''duplicates''
      then insert_dependency \<lparr>d_id = r_id r, d_tenantId = r_tenantId r, d_fromTaskId = r_fromTaskId r,
             d_toTaskId = r_toTaskId r,
             d_type = (if r_relationType r = ''depends_on'' then ''blocks'' else r_relationType r),
             d_createdAt = now, d_updatedAt = now, d_deletedAt = None\<rparr> d
      else Inr d)"

definition prior_relation :: "string \<Rightarrow> string \<Rightarrow> db \<Rightarrow> err + commitment_relation" where
  "prior_relation tenantId rid d = (case getCommitmentRelation rid tenantId d of
      None \<Rightarrow> Inl (Refused ''Idempotency record points at missing relation'' [rid]) | Some r \<Rightarrow> Inr r)"

definition new_relation :: "relation_insert \<Rightarrow> string \<Rightarrow> string \<Rightarrow> int \<Rightarrow> commitment_relation" where
  "new_relation i rid callerId now = \<lparr>r_id = rid, r_tenantId = ri_tenantId i, r_fromTaskId = ri_fromTaskId i,
     r_relationType = ri_relationType i, r_toTaskId = ri_toTaskId i, r_revision = 1,
     r_createdByPrincipalId = callerId, r_createdAt = now, r_endedByPrincipalId = None, r_endedAt = None\<rparr>"

definition draw_id :: "env \<Rightarrow> string option \<Rightarrow> int \<Rightarrow> db \<Rightarrow> db \<times> string" where
  "draw_id env given now d = (case given of Some i \<Rightarrow> (d, i) | None \<Rightarrow> fresh_id env now d)"

text \<open>The writes of an addition: the row, its mirror, the event and the saved outcome.\<close>

definition write_relation ::
  "env \<Rightarrow> relation_insert \<Rightarrow> service_context \<Rightarrow> prepared_idempotency option \<Rightarrow> principal \<Rightarrow> int \<Rightarrow> db \<Rightarrow>
    err + db \<times> commitment_relation \<times> event list" where
  "write_relation env parsed ctx identity caller now d0 =
     (let (d, rid) = draw_id env (ri_id parsed) now d0; r = new_relation parsed rid (p_id caller) now in
      case insert_relation r d of Inl e \<Rightarrow> Inl e | Inr d \<Rightarrow>
      (case mirror_dependency r now d of Inl e \<Rightarrow> Inl e | Inr d \<Rightarrow>
      (case recordEvent env (task_event (ri_tenantId parsed) (actorLabel ctx caller) (Some (p_id caller))
              (ri_fromTaskId parsed) ''relation_added'' [(''after'', JObj [(''relationId'', JStr rid),
                 (''relationType'', JStr (ri_relationType parsed)), (''toCommitmentId'', JStr (ri_toTaskId parsed))])])
              now d of Inl e \<Rightarrow> Inl e | Inr (d, ev) \<Rightarrow>
      (case saveIdempotencyResult identity (relation_outcome r (ev_sequence ev)) d of Inl e \<Rightarrow> Inl e
       | Inr d \<Rightarrow> Inr (d, r, [ev])))))"

definition cycle_guard :: "relation_insert \<Rightarrow> db \<Rightarrow> err + unit" where
  "cycle_guard i d = (if ri_relationType i = ''depends_on''
     then assertNoDependencyCycle (ri_tenantId i) (ri_fromTaskId i) (ri_toTaskId i) d else Inr ())"

definition fresh_relation ::
  "env \<Rightarrow> relation_insert \<Rightarrow> service_context \<Rightarrow> prepared_idempotency option \<Rightarrow> int \<Rightarrow> db \<Rightarrow>
    err + db \<times> commitment_relation \<times> event list" where
  "fresh_relation env parsed ctx identity now d =
     (case requireTask (ri_fromTaskId parsed) (ri_tenantId parsed) d of Inl e \<Rightarrow> Inl e | Inr _ \<Rightarrow>
      (case requireTask (ri_toTaskId parsed) (ri_tenantId parsed) d of Inl e \<Rightarrow> Inl e | Inr _ \<Rightarrow>
      (case contextPrincipal env (ri_tenantId parsed) ctx now d of Inl e \<Rightarrow> Inl e | Inr (d, caller) \<Rightarrow>
      (case cycle_guard parsed d of Inl e \<Rightarrow> Inl e | Inr _ \<Rightarrow>
       write_relation env parsed ctx identity caller now d))))"

definition addRelationTx ::
  "env \<Rightarrow> relation_insert \<Rightarrow> service_context \<Rightarrow> int \<Rightarrow> db \<Rightarrow> err + db \<times> commitment_relation \<times> event list" where
  "addRelationTx env parsed ctx now d =
     (case retryResult env (ri_tenantId parsed) ctx ''relation.add'' (relation_request parsed ctx) now True d of
        Inl e \<Rightarrow> Inl e
      | Inr (d, priorId, identity) \<Rightarrow>
          replayed (prior_relation (ri_tenantId parsed)) (fresh_relation env parsed ctx identity now) priorId d)"

definition addCommitmentRelation ::
  "env \<Rightarrow> relation_insert \<Rightarrow> service_context \<Rightarrow> db \<Rightarrow> db \<times> (err + commitment_relation)" where
  "addCommitmentRelation env parsed ctx =
     prologue (if \<not> relation_insert_ok parsed then Inl (InvalidInput ''commitment_relation'') else serviceNow ctx)
       (\<lambda>now. runInTransaction (addRelationTx env parsed ctx now))"

definition end_patch :: "string \<Rightarrow> int \<Rightarrow> commitment_relation \<Rightarrow> commitment_relation" where
  "end_patch pid now r = r\<lparr>r_endedByPrincipalId := Some pid, r_endedAt := Some now, r_revision := r_revision r + 1\<rparr>"

definition end_matches :: "string \<Rightarrow> string \<Rightarrow> int \<Rightarrow> commitment_relation \<Rightarrow> bool" where
  "end_matches rid tenantId rv r \<longleftrightarrow> r_id r = rid \<and> r_tenantId r = tenantId \<and> r_revision r = rv \<and> r_endedAt r = None"

definition endRelationTx ::
  "env \<Rightarrow> string \<Rightarrow> service_context \<Rightarrow> int \<Rightarrow> int \<Rightarrow> db \<Rightarrow> err + db \<times> commitment_relation \<times> event list" where
  "endRelationTx env rid ctx expectedRevision now d0 =
     (let tenantId = tenant_of ctx in
      case getCommitmentRelation rid tenantId d0 of None \<Rightarrow> Inl (Refused ''Relation not found'' [rid])
      | Some before \<Rightarrow>
        (if r_endedAt before \<noteq> None then Inr (d0, before, [])
         else case contextPrincipal env tenantId ctx now d0 of Inl e \<Rightarrow> Inl e | Inr (d, caller) \<Rightarrow>
         (case find (end_matches rid tenantId expectedRevision) (relations d) of
            None \<Rightarrow> Inl (Refused ''Stale relation revision'' [])
          | Some r \<Rightarrow>
            (case update_relations (end_matches rid tenantId expectedRevision) (end_patch (p_id caller) now) d of
               Inl e \<Rightarrow> Inl e | Inr d \<Rightarrow>
             (let d = d\<lparr>dependencies := update_rows
                      (\<lambda>x. d_id x = rid \<and> d_tenantId x = tenantId \<and> d_deletedAt x = None)
                      (\<lambda>x. x\<lparr>d_deletedAt := Some now, d_updatedAt := now\<rparr>) (dependencies d)\<rparr> in
              case recordEvent env (task_event tenantId (actorLabel ctx caller) (Some (p_id caller))
                     (r_fromTaskId before) ''relation_ended''
                     [(''before'', JObj [(''relationId'', JStr rid), (''relationType'', JStr (r_relationType before)),
                        (''toCommitmentId'', JStr (r_toTaskId before))])]) now d of Inl e \<Rightarrow> Inl e
              | Inr (d, ev) \<Rightarrow> Inr (d, end_patch (p_id caller) now r, [ev]))))))"

definition endCommitmentRelation ::
  "env \<Rightarrow> string \<Rightarrow> service_context \<Rightarrow> int \<Rightarrow> db \<Rightarrow> db \<times> (err + commitment_relation)" where
  "endCommitmentRelation env rid ctx expectedRevision =
     prologue (serviceNow ctx) (\<lambda>now. runInTransaction (endRelationTx env rid ctx expectedRevision now))"

record list_relations_options =
  lr_tenantId :: "string option"
  lr_commitmentId :: "string option"
  lr_activeOnly :: bool

definition listCommitmentRelations :: "list_relations_options \<Rightarrow> db \<Rightarrow> commitment_relation list" where
  "listCommitmentRelations opts d = filter (\<lambda>r. \<not> truthy_str (lr_commitmentId opts) \<or>
       r_fromTaskId r = the (lr_commitmentId opts) \<or> r_toTaskId r = the (lr_commitmentId opts))
     (sort_key r_createdAt (filter (\<lambda>r. r_tenantId r = or_else (lr_tenantId opts) LEGACY_DEFAULT_WORKSPACE_ID \<and>
       (lr_activeOnly opts \<longrightarrow> r_endedAt r = None)) (relations d)))"

section \<open>Blockers\<close>

definition open_work :: "task \<Rightarrow> bool" where
  "open_work t \<longleftrightarrow> t_deletedAt t = None \<and> \<not> terminal (t_status t)"

definition unresolvedBlockers :: "string \<Rightarrow> string \<Rightarrow> db \<Rightarrow> task list" where
  "unresolvedBlockers tid tenantId d =
     [t. r \<leftarrow> relations d, t \<leftarrow> tasks d,
       r_toTaskId r = t_id t \<and> live_edge tenantId r \<and> r_fromTaskId r = tid \<and> open_work t]"

definition dependents :: "string \<Rightarrow> string \<Rightarrow> db \<Rightarrow> task list" where
  "dependents tid tenantId d =
     [t. r \<leftarrow> relations d, t \<leftarrow> tasks d,
       r_fromTaskId r = t_id t \<and> live_edge tenantId r \<and> r_toTaskId r = tid \<and> open_work t]"

definition newlyActionableAfter :: "env \<Rightarrow> string \<Rightarrow> string \<Rightarrow> db \<Rightarrow> task list" where
  "newlyActionableAfter env tid tenantId d = sort_by (\<lambda>a b. localeLe env (t_id a) (t_id b))
     (filter (\<lambda>t. unresolvedBlockers (t_id t) tenantId d = []) (dependents tid tenantId d))"

definition assertBlockersResolved :: "string \<Rightarrow> string \<Rightarrow> string \<Rightarrow> string \<Rightarrow> db \<Rightarrow> err + unit" where
  "assertBlockersResolved tid tenantId requestedByPrincipalId requestedByLabel d =
     (let blockers = unresolvedBlockers tid tenantId d in
      if blockers = [] then Inr ()
      else if requestedByPrincipalId = []
      then Inl (Refused ''Task is blocked by unresolved commitments'' (tid # map t_id blockers))
      else Inl (Contended \<lparr>f_tenantId = tenantId, f_commitmentId = tid, f_kind = ''claim_blocked_by_unresolved'',
             f_requestedByPrincipalId = requestedByPrincipalId, f_requestedByLabel = requestedByLabel,
             f_holderPrincipalId = [], f_holderLabel = []\<rparr>))"

section \<open>The dependency graph\<close>

definition edges :: "string \<Rightarrow> db \<Rightarrow> (string \<times> string) set" where
  "edges tenantId d = {(r_fromTaskId r, r_toTaskId r) |r. r \<in> set (relations d) \<and> live_edge tenantId r}"

lemma edges_iff: "(x, y) \<in> edges tn d \<longleftrightarrow>
    (\<exists>r \<in> set (relations d). live_edge tn r \<and> r_fromTaskId r = x \<and> r_toTaskId r = y)"
  by (auto simp: edges_def)

lemma finite_edges [simp]: "finite (edges tn d)"
proof (rule finite_subset)
  show "edges tn d \<subseteq> (\<lambda>r. (r_fromTaskId r, r_toTaskId r)) ` set (relations d)" by (auto simp: edges_iff)
qed simp

lemma edges_cong: "relations d' = relations d \<Longrightarrow> edges tn d' = edges tn d"
  by (auto simp: edges_iff)

lemma set_next_frontier:
  "set (next_frontier tn d seen fr) = {y. \<exists>x \<in> set fr. (x, y) \<in> edges tn d} - set seen"
  by (auto simp: next_frontier_def edges_iff)

text \<open>The walk visits everything reachable from its start: \<open>V\<close> are the nodes already expanded.\<close>

lemma cycle_loop_closed:
  assumes "cycle_loop tn x d seen fr = Inr ()" and "set seen \<subseteq> V \<union> set fr"
    and "edges tn d `` V \<subseteq> set seen" and "x \<notin> V"
  shows "\<exists>W. V \<union> set fr \<subseteq> W \<and> edges tn d `` W \<subseteq> W \<and> x \<notin> W"
  using assms
proof (induction tn x d seen fr arbitrary: V rule: cycle_loop.induct)
  case (1 tn x d seen fr)
  show ?case
  proof (cases "fr = []")
    case True
    with "1.prems" show ?thesis by (intro exI [of _ V]) auto
  next
    case False
    let ?n = "next_frontier tn d seen fr"
    have ok: "x \<notin> set fr" "cycle_loop tn x d (?n @ seen) ?n = Inr ()"
      using "1.prems"(1) False by (auto simp: cycle_loop.simps [of tn x d seen fr] Let_def split: if_splits)
    have s: "set (?n @ seen) \<subseteq> (V \<union> set fr) \<union> set ?n" using "1.prems"(2) by auto
    have e: "edges tn d `` (V \<union> set fr) \<subseteq> set (?n @ seen)"
      using "1.prems"(3) by (auto simp: set_next_frontier)
    obtain W where "V \<union> set fr \<union> set ?n \<subseteq> W" "edges tn d `` W \<subseteq> W" "x \<notin> W"
      using "1.IH" [OF False ok(1) refl ok(2) s e] "1.prems"(4) ok(1) by auto
    then show ?thesis by (intro exI [of _ W]) auto
  qed
qed

lemma cycle_loop_reaches:
  "cycle_loop tn x d seen fr = Inl e \<Longrightarrow> \<forall>y \<in> set fr. (s, y) \<in> (edges tn d)\<^sup>* \<Longrightarrow> (s, x) \<in> (edges tn d)\<^sup>*"
proof (induction tn x d seen fr rule: cycle_loop.induct)
  case (1 tn x d seen fr)
  let ?n = "next_frontier tn d seen fr"
  show ?case
  proof (cases "x \<in> set fr")
    case True
    with "1.prems" show ?thesis by auto
  next
    case False
    have ne: "fr \<noteq> []" and rest: "cycle_loop tn x d (?n @ seen) ?n = Inl e"
      using "1.prems"(1) False by (auto simp: cycle_loop.simps [of tn x d seen fr] Let_def split: if_splits)
    have "\<forall>y \<in> set ?n. (s, y) \<in> (edges tn d)\<^sup>*"
      using "1.prems"(2) by (auto simp: set_next_frontier intro: rtrancl.rtrancl_into_rtrancl)
    then show ?thesis by (rule "1.IH" [OF ne False refl rest])
  qed
qed

lemma assertNoDependencyCycle_iff:
  "assertNoDependencyCycle tn x y d = Inr () \<longleftrightarrow> (y, x) \<notin> (edges tn d)\<^sup>*"
proof (cases "x = y")
  case False
  show ?thesis
  proof
    assume "assertNoDependencyCycle tn x y d = Inr ()"
    then have "cycle_loop tn x d [] [y] = Inr ()" using False by (simp add: assertNoDependencyCycle_def)
    then obtain W where W: "y \<in> W" "edges tn d `` W \<subseteq> W" "x \<notin> W"
      using cycle_loop_closed [of tn x d "[]" "[y]" "{}"] by auto
    have "z \<in> W" if "(y, z) \<in> (edges tn d)\<^sup>*" for z
      using that by (induction rule: rtrancl_induct) (use W in auto)
    with W show "(y, x) \<notin> (edges tn d)\<^sup>*" by auto
  next
    assume n: "(y, x) \<notin> (edges tn d)\<^sup>*"
    show "assertNoDependencyCycle tn x y d = Inr ()"
      using n False cycle_loop_reaches [of tn x d "[]" "[y]" _ y]
      by (cases "cycle_loop tn x d [] [y]") (auto simp: assertNoDependencyCycle_def)
  qed
qed (simp add: assertNoDependencyCycle_def)

section \<open>Acyclicity\<close>

definition dependency_inv :: "string \<Rightarrow> db \<Rightarrow> bool" where
  "dependency_inv tenantId d \<longleftrightarrow> acyclic (edges tenantId d)"

lemma dependency_inv_cong: "relations d' = relations d \<Longrightarrow> dependency_inv tn d' = dependency_inv tn d"
  using edges_cong [of d' d tn] by (simp add: dependency_inv_def)

lemma edges_insert:
  "relations d' = relations d @ [r] \<Longrightarrow>
    edges tn d' = (if live_edge tn r then insert (r_fromTaskId r, r_toTaskId r) (edges tn d) else edges tn d)"
  by (auto simp: edges_def)

text \<open>What a successful addition did: the relation was checked against the graph of the state it
  extends, and is the only new row.\<close>

lemma retryResult_frame:
  assumes "retryResult env tn ctx op req now dur d = Inr (d', p, i)" shows "\<exists>is. d' = d\<lparr>idems := is\<rparr>"
  using assms by (auto simp: retryResult_def res split: prod.splits dest!: findIdempotencyResult_frame)

lemma mirror_frame: "mirror_dependency r now d = Inr d' \<Longrightarrow> \<exists>ds. d' = d\<lparr>dependencies := ds\<rparr>"
  unfolding mirror_dependency_def
  by (rule exI [of _ "dependencies d'"]) (auto simp: insert_dependency_def insert_row_Inr split: if_splits)

lemma insert_relation_Inr:
  "insert_relation r d = Inr d' \<Longrightarrow> d' = d\<lparr>relations := relations d @ [r]\<rparr> \<and> relation_check r"
  by (simp add: insert_relation_def res)

lemma contextPrincipal_frame:
  "contextPrincipal env tn ctx now d = Inr (d', p) \<Longrightarrow> \<exists>ps. d' = d\<lparr>principals := ps\<rparr>"
  using resolveAttribution_frame by (fastforce simp: contextPrincipal_def)


lemma draw_id_frame: "draw_id env g now d = (d', i) \<Longrightarrow> \<exists>k. d' = d\<lparr>draws := k\<rparr>"
  unfolding draw_id_def by (rule exI [of _ "draws d'"]) (auto simp: fresh_id_def split: option.splits)

lemma new_relation_simps [simp]:
  "r_tenantId (new_relation i rid p now) = ri_tenantId i" "r_fromTaskId (new_relation i rid p now) = ri_fromTaskId i"
  "r_toTaskId (new_relation i rid p now) = ri_toTaskId i" "r_relationType (new_relation i rid p now) = ri_relationType i"
  "r_endedAt (new_relation i rid p now) = None"
  by (simp_all add: new_relation_def)

lemma write_relation_result:
  assumes "write_relation env i ctx ident caller now d = Inr (d', r, evs)"
  shows "relations d' = relations d @ [r] \<and> (\<exists>rid. r = new_relation i rid (p_id caller) now) \<and> tasks d' = tasks d"
  using assms unfolding write_relation_def
  by (auto simp: Let_def res split: prod.splits dest!: insert_relation_Inr mirror_frame recordEvent_frame
      saveIdempotencyResult_frame draw_id_frame)

lemma addRelationTx_cases:
  assumes "addRelationTx env i ctx now d = Inr (d', r, evs)"
  shows "tasks d' = tasks d \<and> (relations d' = relations d \<or>
    (relations d' = relations d @ [r] \<and> (\<exists>rid p. r = new_relation i rid p now) \<and>
     (ri_relationType i = ''depends_on'' \<longrightarrow>
        (ri_toTaskId i, ri_fromTaskId i) \<notin> (edges (ri_tenantId i) d)\<^sup>*)))"
proof -
  obtain d1 prior ident where 1: "retryResult env (ri_tenantId i) ctx ''relation.add'' (relation_request i ctx) now True d
        = Inr (d1, prior, ident)"
    and 2: "replayed (prior_relation (ri_tenantId i)) (fresh_relation env i ctx ident now) prior d1 = Inr (d', r, evs)"
    using assms by (auto simp: addRelationTx_def res)
  obtain xs where d1: "d1 = d\<lparr>idems := xs\<rparr>" using retryResult_frame [OF 1] by blast
  from replayed_cases [OF 2] show ?thesis
  proof
    assume "fresh_relation env i ctx ident now d1 = Inr (d', r, evs)"
    then obtain d2 p where p: "contextPrincipal env (ri_tenantId i) ctx now d1 = Inr (d2, p)"
      and g: "cycle_guard i d2 = Inr ()" and w: "write_relation env i ctx ident p now d2 = Inr (d', r, evs)"
      by (auto simp: fresh_relation_def res)
    obtain ps where d2: "d2 = d1\<lparr>principals := ps\<rparr>" using contextPrincipal_frame [OF p] by blast
    have "edges (ri_tenantId i) d2 = edges (ri_tenantId i) d" by (rule edges_cong) (simp add: d1 d2)
    then show ?thesis
      using g write_relation_result [OF w] by (auto simp: d1 d2 cycle_guard_def assertNoDependencyCycle_iff)
  qed (simp add: d1)
qed

lemma addRelationTx_dependency_inv:
  assumes run: "addRelationTx env i ctx now d = Inr (d', r, evs)" and inv: "dependency_inv tn d"
  shows "dependency_inv tn d'"
proof (cases "relations d' = relations d")
  case True
  with inv show ?thesis using dependency_inv_cong by blast
next
  case False
  then obtain rid p where r: "relations d' = relations d @ [r]" "r = new_relation i rid p now"
    and guard: "ri_relationType i = ''depends_on'' \<longrightarrow>
        (ri_toTaskId i, ri_fromTaskId i) \<notin> (edges (ri_tenantId i) d)\<^sup>*"
    using addRelationTx_cases [OF run] by blast
  then show ?thesis
    using inv edges_insert [OF r(1), of tn] by (auto simp: dependency_inv_def live_edge_def)
qed

lemma end_patch_ended [simp]: "r_endedAt (end_patch p now r) = Some now"
  by (simp add: end_patch_def)

lemma endRelationTx_relations:
  assumes "endRelationTx env rid ctx rv now d = Inr (d', r, evs)"
  shows "relations d' = relations d \<or> (\<exists>P p. relations d' = update_rows P (end_patch p now) (relations d))"
  using assms unfolding endRelationTx_def
  by (force simp: Let_def res update_relations_def dest!: contextPrincipal_frame recordEvent_frame split: if_splits)

lemma edges_update:
  assumes "relations d' = update_rows P (end_patch p now) (relations d)"
  shows "edges tn d' \<subseteq> edges tn d"
proof (rule subrelI)
  fix x y assume "(x, y) \<in> edges tn d'"
  then obtain r where r: "r \<in> set (relations d')" "live_edge tn r" "r_fromTaskId r = x" "r_toTaskId r = y"
    by (auto simp: edges_iff)
  then obtain q where q: "q \<in> set (relations d)" "r = (if P q then end_patch p now q else q)"
    unfolding assms in_update_rows by blast
  have "\<not> P q" using q(2) r(2) by (cases "P q") (simp_all add: live_edge_def)
  with q(2) have "r = q" by simp
  with q(1) have "r \<in> set (relations d)" by simp
  with r(2-4) show "(x, y) \<in> edges tn d" unfolding edges_iff by (intro bexI [of _ r]) simp_all
qed

lemma endRelationTx_dependency_inv:
  assumes "endRelationTx env rid ctx rv now d = Inr (d', r, evs)" "dependency_inv tn d"
  shows "dependency_inv tn d'"
proof -
  have "edges tn d' \<subseteq> edges tn d"
  proof (rule disjE [OF endRelationTx_relations [OF assms(1)]])
    assume same: "relations d' = relations d"
    show ?thesis by (rule equalityD1 [OF edges_cong [OF same]])
  next
    assume "\<exists>P p. relations d' = update_rows P (end_patch p now) (relations d)"
    then obtain P p where "relations d' = update_rows P (end_patch p now) (relations d)" by blast
    then show ?thesis by (rule edges_update)
  qed
  with assms(2) show ?thesis by (auto simp: dependency_inv_def intro: acyclic_subset)
qed

section \<open>Blocked and actionable commitments\<close>

lemma unresolvedBlockers_iff:
  "t \<in> set (unresolvedBlockers tid tn d) \<longleftrightarrow> t \<in> set (tasks d) \<and> (tid, t_id t) \<in> edges tn d \<and> open_work t"
  by (auto simp: unresolvedBlockers_def edges_iff)

lemma dependents_iff:
  "t \<in> set (dependents tid tn d) \<longleftrightarrow> t \<in> set (tasks d) \<and> (t_id t, tid) \<in> edges tn d \<and> open_work t"
  by (auto simp: dependents_def edges_iff)

lemma newlyActionable_iff:
  "t \<in> set (newlyActionableAfter env tid tn d) \<longleftrightarrow>
    t \<in> set (tasks d) \<and> (t_id t, tid) \<in> edges tn d \<and> open_work t \<and> unresolvedBlockers (t_id t) tn d = []"
  by (auto simp: newlyActionableAfter_def dependents_iff)

text \<open>In an acyclic graph the open commitments have one that waits for none of them.\<close>

lemma open_work_unblocked:
  assumes "dependency_inv tn d" and "t \<in> set (tasks d)" and "open_work t"
  shows "\<exists>u \<in> set (tasks d). open_work u \<and> unresolvedBlockers (t_id u) tn d = []"
proof -
  have "wf ((edges tn d)\<inverse>)"
    using assms(1) by (intro finite_acyclic_wf) (simp_all add: dependency_inv_def)
  moreover let ?O = "{t_id u |u. u \<in> set (tasks d) \<and> open_work u}"
  have "t_id t \<in> ?O" using assms(2,3) by auto
  ultimately obtain m where "m \<in> ?O" and min: "\<And>y. (y, m) \<in> (edges tn d)\<inverse> \<Longrightarrow> y \<notin> ?O"
    by (rule wfE_min) blast
  then obtain u where u: "u \<in> set (tasks d)" "open_work u" "t_id u = m" by auto
  have "b \<notin> set (unresolvedBlockers (t_id u) tn d)" for b
    using min [of "t_id b"] u by (auto simp: unresolvedBlockers_iff)
  then have "unresolvedBlockers (t_id u) tn d = []" by (cases "unresolvedBlockers (t_id u) tn d") auto
  with u show ?thesis by blast
qed

section \<open>Properties\<close>

interpretation acyclic_tx: tx_invariant "dependency_inv tn" for tn
  by unfold_locales (simp_all add: dependency_inv_def edges_def)

text \<open>C16. The dependency graph stays acyclic: adding a relation of any type and ending one keep the
  live \<open>depends_on\<close> edges of every workspace free of cycles.\<close>

theorem relations_keep_acyclic:
  assumes "dependency_inv tn d"
  shows "dependency_inv tn (fst (addCommitmentRelation env i ctx d)) \<and>
    dependency_inv tn (fst (endCommitmentRelation env rid ctx rv d))"
proof
  show "dependency_inv tn (fst (addCommitmentRelation env i ctx d))"
    unfolding addCommitmentRelation_def
    by (rule acyclic_tx.operation [OF assms]) (rule addRelationTx_dependency_inv [OF _ assms])
  show "dependency_inv tn (fst (endCommitmentRelation env rid ctx rv d))"
    unfolding endCommitmentRelation_def
    by (rule acyclic_tx.operation [OF assms]) (rule endRelationTx_dependency_inv [OF _ assms])
qed

definition sample_relation_insert :: "string \<Rightarrow> string \<Rightarrow> relation_insert" where
  "sample_relation_insert x y = \<lparr>ri_id = Some ''r1'', ri_tenantId = ''w'', ri_fromTaskId = x,
     ri_relationType = ''depends_on'', ri_toTaskId = y\<rparr>"

abbreviation sample_depends :: "db \<times> (err + commitment_relation)" where
  "sample_depends \<equiv> addCommitmentRelation sample_env (sample_relation_insert ''t1'' ''t2'') (sample_ctx ''alice'' 2000) sample_db"

lemma sample_depends_ok: "returned (snd sample_depends)" by code_simp

lemma sample_acyclic: "dependency_inv tn sample_db"
  by (simp add: dependency_inv_def edges_def sample_db_def empty_db_def acyclic_def)

theorem relations_keep_acyclic_witness: "dependency_inv ''w'' (fst sample_depends)"
  by (rule conjunct1 [OF relations_keep_acyclic [OF sample_acyclic]])

text \<open>C28. The cycle check is exact: it accepts a dependency exactly when the commitment depended on
  does not reach the depending one over live edges. It returns on every graph.\<close>

theorem cycle_check_exact:
  "assertNoDependencyCycle tn fromId toId d = (if (toId, fromId) \<in> (edges tn d)\<^sup>*
     then Inl (Refused (if fromId = toId then ''A commitment cannot depend on itself''
            else ''Relation would create a depends_on cycle'') [])
     else Inr ())"
proof (cases "assertNoDependencyCycle tn fromId toId d")
  case (Inl e)
  moreover have "cycle_loop tn fromId d seen fr = Inl e \<Longrightarrow> e = Refused ''Relation would create a depends_on cycle'' []" for seen fr
    by (induction tn fromId d seen fr rule: cycle_loop.induct)
      (simp add: cycle_loop.simps Let_def split: if_splits)
  ultimately show ?thesis using assertNoDependencyCycle_iff [of tn fromId toId d]
    by (auto simp: assertNoDependencyCycle_def split: if_splits)
qed (use assertNoDependencyCycle_iff [of tn fromId toId d] in simp)

text \<open>C29. No deadlock: where the dependencies are acyclic and open work exists, some open commitment
  passes the blocker gate of a claim.\<close>

theorem some_commitment_claimable:
  assumes "dependency_inv tn d" and "t \<in> set (tasks d)" and "open_work t"
  shows "\<exists>u \<in> set (tasks d). open_work u \<and> assertBlockersResolved (t_id u) tn p label d = Inr ()"
  using open_work_unblocked [OF assms] by (auto simp: assertBlockersResolved_def)

theorem some_commitment_claimable_witness:
  "list_ex (\<lambda>u. open_work u \<and> assertBlockersResolved (t_id u) ''w'' ''p1'' ''alice'' (fst sample_depends) = Inr ())
     (tasks (fst sample_depends))"
proof -
  have a: "dependency_inv ''w'' (fst sample_depends)"
    unfolding addCommitmentRelation_def
    by (rule acyclic_tx.operation [OF sample_acyclic]) (rule addRelationTx_dependency_inv [OF _ sample_acyclic])
  have "sample_task ''t1'' ''paint'' None \<in> set (tasks (fst sample_depends))" by code_simp
  moreover have "open_work (sample_task ''t1'' ''paint'' None)" by code_simp
  ultimately show ?thesis using some_commitment_claimable [OF a] by (auto simp: list_ex_iff)
qed

text \<open>What a completion opens: the commitments reported after one is resolved are the open ones
  that depend on it and have no unresolved blocker left.\<close>

theorem newly_actionable_exact:
  "set (newlyActionableAfter env tid tn d) = {t. t \<in> set (tasks d) \<and> open_work t \<and> (t_id t, tid) \<in> edges tn d \<and>
     \<not> (\<exists>b. b \<in> set (tasks d) \<and> (t_id t, t_id b) \<in> edges tn d \<and> open_work b)}"
proof -
  have "unresolvedBlockers i tn d = [] \<longleftrightarrow> \<not> (\<exists>b. b \<in> set (tasks d) \<and> (i, t_id b) \<in> edges tn d \<and> open_work b)" for i
    using unresolvedBlockers_iff [of _ i tn d] by (cases "unresolvedBlockers i tn d") auto
  then show ?thesis by (auto simp: newlyActionable_iff)
qed

end
