(* ===== verification/Assumptions.thy ===== *)
theory Assumptions
  imports Sample_Ledger
begin

text \<open>
  Shared assumptions (\<open>packages/tasq-core/src/service/assumptions.ts\<close>): a sentence several commitments
  rest on, found or created by its normalised text, withdrawn by anyone, and what a withdrawal does:
  the open commitments linked to it are paused, a state derived on reading, until they are resumed.
\<close>

section \<open>Text\<close>

definition ASSUMPTION_TEXT_MAX :: nat where
  "ASSUMPTION_TEXT_MAX = 200"

definition ASSUMPTION_REASON_MAX :: nat where
  "ASSUMPTION_REASON_MAX = 2000"

text \<open>Strings hold code units below 256, on which the NFC normalisation is the identity.\<close>

fun collapse_spaces :: "string \<Rightarrow> string" where
  "collapse_spaces [] = []"
| "collapse_spaces [c] = (if js_space c then '' '' else [c])"
| "collapse_spaces (c # d # s) =
     (if js_space c then if js_space d then collapse_spaces (d # s) else CHR '' '' # collapse_spaces (d # s)
      else c # collapse_spaces (d # s))"

definition lower_char :: "char \<Rightarrow> char" where
  "lower_char c = (let n = (of_char c :: nat) in
     if (65 \<le> n \<and> n \<le> 90) \<or> (192 \<le> n \<and> n \<le> 222 \<and> n \<noteq> 215) then char_of (n + 32) else c)"

definition normalizeAssumptionText :: "string \<Rightarrow> string" where
  "normalizeAssumptionText raw = map lower_char (collapse_spaces (js_trim raw))"

definition parse_text :: "nat \<Rightarrow> string \<Rightarrow> err + string" where
  "parse_text maxlen raw = (let s = js_trim raw in
     if s = [] \<or> length s > maxlen then Inl (InvalidInput ''text'') else Inr s)"

section \<open>Tables\<close>

definition insert_assumption :: "assumption \<Rightarrow> db \<Rightarrow> err + db" where
  "insert_assumption r d = insert_row ''assumption''
     (\<forall>x \<in> set (assumptions d). au_id x \<noteq> au_id r \<and>
        \<not> (au_tenantId x = au_tenantId r \<and> au_normalizedText x = au_normalizedText r \<and>
           \<not> au_withdrawn x \<and> \<not> au_withdrawn r))
     True (d\<lparr>assumptions := assumptions d @ [r]\<rparr>)"

definition insert_link :: "assumption_link \<Rightarrow> db \<Rightarrow> err + db" where
  "insert_link r d = insert_row ''assumption_link''
     (\<forall>x \<in> set (assumptionLinks d). al_id x \<noteq> al_id r \<and>
        \<not> (al_tenantId x = al_tenantId r \<and> al_assumptionId x = al_assumptionId r \<and> al_taskId x = al_taskId r \<and>
           al_active x \<and> al_active r))
     True (d\<lparr>assumptionLinks := assumptionLinks d @ [r]\<rparr>)"

definition findStanding :: "string \<Rightarrow> string \<Rightarrow> db \<Rightarrow> assumption option" where
  "findStanding tenantId normalized d =
     find (\<lambda>a. au_tenantId a = tenantId \<and> au_normalizedText a = normalized \<and> \<not> au_withdrawn a) (assumptions d)"

definition active_link :: "string \<Rightarrow> string \<Rightarrow> assumption_link \<Rightarrow> bool" where
  "active_link tenantId aid l \<longleftrightarrow> al_tenantId l = tenantId \<and> al_assumptionId l = aid \<and> al_active l"

text \<open>Active links of a commitment to withdrawn assumptions, an inner join.\<close>

definition withdrawnLinksForTask :: "string \<Rightarrow> string \<Rightarrow> db \<Rightarrow> (assumption \<times> assumption_link) list" where
  "withdrawnLinksForTask tid tenantId d =
     [(a, l). l \<leftarrow> assumptionLinks d, a \<leftarrow> assumptions d,
       al_assumptionId l = au_id a \<and> al_tenantId l = tenantId \<and> al_taskId l = tid \<and> al_active l \<and> au_withdrawn a]"

definition pausedTaskIds :: "string \<Rightarrow> db \<Rightarrow> string set" where
  "pausedTaskIds tenantId d =
     set [al_taskId l. l \<leftarrow> assumptionLinks d, a \<leftarrow> assumptions d,
       al_assumptionId l = au_id a \<and> al_tenantId l = tenantId \<and> al_active l \<and> au_withdrawn a]"

definition assertCommitmentNotPaused :: "string \<Rightarrow> string \<Rightarrow> db \<Rightarrow> err + unit" where
  "assertCommitmentNotPaused tid tenantId d = (case withdrawnLinksForTask tid tenantId d of
      [] \<Rightarrow> Inr ()
    | (a, l) # _ \<Rightarrow> Inl (Refused ''Task is paused: an assumption was withdrawn'' [tid, au_text a]))"

section \<open>Stating\<close>

text \<open>Find or create the standing record of a text.\<close>

definition state_assumption ::
  "env \<Rightarrow> string \<Rightarrow> string \<Rightarrow> string \<Rightarrow> string \<Rightarrow> principal \<Rightarrow> int \<Rightarrow> db \<Rightarrow> err + db \<times> assumption \<times> event list" where
  "state_assumption env tenantId actor tid text p now d =
     (let normalized = normalizeAssumptionText text in
      case findStanding tenantId normalized d of Some row \<Rightarrow> Inr (d, row, [])
      | None \<Rightarrow>
        (let (d, aid) = fresh_id env now d;
             row = \<lparr>au_id = aid, au_tenantId = tenantId, au_text = text, au_normalizedText = normalized,
               au_withdrawn = False, au_statedByPrincipalId = p_id p, au_statedAt = now,
               au_withdrawnByPrincipalId = None, au_withdrawnAt = None, au_withdrawalReason = None,
               au_withdrawalEvidenceIds = None\<rparr> in
         case insert_assumption row d of Inl e \<Rightarrow> Inl e | Inr d \<Rightarrow>
         (case recordEvent env (task_event tenantId actor (Some (p_id p)) tid ''assumption_stated''
                [(''after'', JObj [(''assumptionId'', JStr aid), (''text'', JStr text)])]) now d of Inl e \<Rightarrow> Inl e
          | Inr (d, ev) \<Rightarrow> Inr (d, row, [ev]))))"

definition link_assumption ::
  "env \<Rightarrow> string \<Rightarrow> string \<Rightarrow> string \<Rightarrow> assumption \<Rightarrow> principal \<Rightarrow> int \<Rightarrow> db \<Rightarrow>
    err + db \<times> assumption_link \<times> event list" where
  "link_assumption env tenantId actor tid row p now d =
     (case find (\<lambda>l. active_link tenantId (au_id row) l \<and> al_taskId l = tid) (assumptionLinks d) of
        Some l \<Rightarrow> Inr (d, l, [])
      | None \<Rightarrow>
        (let (d, lid) = fresh_id env now d;
             l = \<lparr>al_id = lid, al_tenantId = tenantId, al_assumptionId = au_id row, al_taskId = tid,
               al_active = True, al_linkedByPrincipalId = p_id p, al_linkedAt = now,
               al_unlinkedByPrincipalId = None, al_unlinkedAt = None, al_unlinkReason = None\<rparr> in
         case insert_link l d of Inl e \<Rightarrow> Inl e | Inr d \<Rightarrow>
         (case recordEvent env (task_event tenantId actor (Some (p_id p)) tid ''assumption_linked''
                [(''after'', JObj [(''assumptionId'', JStr (au_id row)), (''linkId'', JStr lid),
                   (''text'', JStr (au_text row))])]) now d of Inl e \<Rightarrow> Inl e
          | Inr (d, ev) \<Rightarrow> Inr (d, l, [ev]))))"

definition attachInTransaction ::
  "env \<Rightarrow> string \<Rightarrow> string \<Rightarrow> string \<Rightarrow> string \<Rightarrow> int \<Rightarrow> db \<Rightarrow>
    err + db \<times> (assumption \<times> assumption_link) \<times> event list" where
  "attachInTransaction env tenantId actor tid raw now d =
     (case parse_text ASSUMPTION_TEXT_MAX raw of Inl e \<Rightarrow> Inl e | Inr text \<Rightarrow>
      if normalizeAssumptionText text = [] then Inl (Refused ''An assumption cannot be empty'' [])
      else case getTask tid tenantId d of Inl e \<Rightarrow> Inl e
      | Inr None \<Rightarrow> Inl (Refused ''Task not found'' [tid])
      | Inr (Some t) \<Rightarrow>
        if t_deletedAt t \<noteq> None then Inl (Refused ''Task is deleted'' [tid])
        else (case ensureLocalPrincipal env tenantId actor now d of Inl e \<Rightarrow> Inl e | Inr (d, p) \<Rightarrow>
        (case state_assumption env tenantId actor tid text p now d of Inl e \<Rightarrow> Inl e | Inr (d, row, evs1) \<Rightarrow>
        (case link_assumption env tenantId actor tid row p now d of Inl e \<Rightarrow> Inl e | Inr (d, l, evs2) \<Rightarrow>
         Inr (d, (row, l), evs1 @ evs2)))))"

definition attachAssumption ::
  "env \<Rightarrow> string \<Rightarrow> string \<Rightarrow> service_context \<Rightarrow> db \<Rightarrow> db \<times> (err + assumption \<times> assumption_link)" where
  "attachAssumption env tid raw ctx =
     prologue (case parse_text ASSUMPTION_TEXT_MAX raw of Inl e \<Rightarrow> Inl e | Inr text \<Rightarrow>
         (case serviceNow ctx of Inl e \<Rightarrow> Inl e | Inr now \<Rightarrow> Inr (text, now)))
       (\<lambda>(text, now). runInTransaction (attachInTransaction env (tenant_of ctx) (actor_of ctx) tid text now))"

section \<open>Withdrawing\<close>

record withdraw_input =
  wi_text :: "string option"
  wi_assumptionId :: "string option"
  wi_reason :: string
  wi_evidenceIds :: "string list"

text \<open>The parsed input: trimmed texts, sorted evidence without repetition.\<close>

definition parse_withdraw :: "withdraw_input \<Rightarrow> err + withdraw_input" where
  "parse_withdraw i =
     (case (case wi_text i of None \<Rightarrow> Inr None
            | Some t \<Rightarrow> (case parse_text ASSUMPTION_TEXT_MAX t of Inl e \<Rightarrow> Inl e | Inr s \<Rightarrow> Inr (Some s))) of
        Inl e \<Rightarrow> Inl e | Inr text \<Rightarrow>
      (case parse_text ASSUMPTION_REASON_MAX (wi_reason i) of Inl e \<Rightarrow> Inl e | Inr reason \<Rightarrow>
       if length (wi_evidenceIds i) > 128 then Inl (InvalidInput ''evidenceIds'')
       else if \<not> truthy_str text \<and> \<not> truthy_str (wi_assumptionId i)
       then Inl (InvalidInput ''Withdrawing an assumption requires its text or its id'')
       else Inr \<lparr>wi_text = text, wi_assumptionId = wi_assumptionId i, wi_reason = reason,
              wi_evidenceIds = sort (remdups (wi_evidenceIds i))\<rparr>))"

definition withdrawal_target :: "withdraw_input \<Rightarrow> string \<Rightarrow> db \<Rightarrow> assumption option" where
  "withdrawal_target i tenantId d =
     (if truthy_str (wi_assumptionId i)
      then find (\<lambda>a. au_tenantId a = tenantId \<and> Some (au_id a) = wi_assumptionId i) (assumptions d)
      else let normalized = normalizeAssumptionText (the (wi_text i)) in
        case findStanding tenantId normalized d of Some a \<Rightarrow> Some a
        | None \<Rightarrow> (case sort_key (\<lambda>a. - or_else (au_withdrawnAt a) 0)
              (filter (\<lambda>a. au_tenantId a = tenantId \<and> au_normalizedText a = normalized \<and> au_withdrawn a) (assumptions d))
            of [] \<Rightarrow> None | a # _ \<Rightarrow> Some a))"

record withdrawal =
  wd_assumption :: assumption
  wd_pausedTaskIds :: "string list"
  wd_replayed :: bool

definition withdraw_patch :: "withdraw_input \<Rightarrow> string \<Rightarrow> int \<Rightarrow> assumption \<Rightarrow> assumption" where
  "withdraw_patch i pid now a = a\<lparr>au_withdrawn := True, au_withdrawnByPrincipalId := Some pid,
     au_withdrawnAt := Some now, au_withdrawalReason := Some (wi_reason i),
     au_withdrawalEvidenceIds := Some (wi_evidenceIds i)\<rparr>"

text \<open>The commitments a withdrawal pauses: those of the active links that are live and open.\<close>

fun paused_by :: "string \<Rightarrow> db \<Rightarrow> assumption_link list \<Rightarrow> err + string list" where
  "paused_by tenantId d [] = Inr []"
| "paused_by tenantId d (l # ls) =
     (case getTask (al_taskId l) tenantId d of Inl e \<Rightarrow> Inl e
      | Inr t \<Rightarrow> (case paused_by tenantId d ls of Inl e \<Rightarrow> Inl e
          | Inr ids \<Rightarrow> Inr (case t of None \<Rightarrow> ids
               | Some t \<Rightarrow> if t_deletedAt t \<noteq> None \<or> terminal (t_status t) then ids else al_taskId l # ids)))"

fun record_each ::
  "env \<Rightarrow> (string \<Rightarrow> event_insert) \<Rightarrow> int \<Rightarrow> string list \<Rightarrow> db \<Rightarrow> err + db \<times> event list" where
  "record_each env mk now [] d = Inr (d, [])"
| "record_each env mk now (i # rest) d =
     (case recordEvent env (mk i) now d of Inl e \<Rightarrow> Inl e | Inr (d, ev) \<Rightarrow>
      (case record_each env mk now rest d of Inl e \<Rightarrow> Inl e | Inr (d, evs) \<Rightarrow> Inr (d, ev # evs)))"

definition withdrawn_event ::
  "withdraw_input \<Rightarrow> string \<Rightarrow> string \<Rightarrow> string \<Rightarrow> assumption \<Rightarrow> string list \<Rightarrow> string \<Rightarrow> event_insert" where
  "withdrawn_event i tenantId actor pid row paused tid =
     task_event tenantId actor (Some pid) tid ''assumption_withdrawn''
       [(''after'', JObj [(''assumptionId'', JStr (au_id row)), (''text'', JStr (au_text row)),
          (''reason'', JStr (wi_reason i)), (''evidenceIds'', JArr (map JStr (wi_evidenceIds i))),
          (''pausedTaskIds'', JArr (map JStr paused))])]"

definition withdrawTx ::
  "env \<Rightarrow> withdraw_input \<Rightarrow> string \<Rightarrow> string \<Rightarrow> int \<Rightarrow> db \<Rightarrow> err + db \<times> withdrawal \<times> event list" where
  "withdrawTx env parsed tenantId actor now d =
     (case withdrawal_target parsed tenantId d of
        None \<Rightarrow> Inl (Refused ''No standing assumption matches'' [or_else (wi_assumptionId parsed) (or_else (wi_text parsed) [])])
      | Some row \<Rightarrow>
        if au_withdrawn row
        then Inr (d, \<lparr>wd_assumption = row,
               wd_pausedTaskIds = sort (map al_taskId (filter (active_link tenantId (au_id row)) (assumptionLinks d))),
               wd_replayed = True\<rparr>, [])
        else case ensureLocalPrincipal env tenantId actor now d of Inl e \<Rightarrow> Inl e | Inr (d, p) \<Rightarrow>
        (let hit = (\<lambda>a. au_tenantId a = tenantId \<and> au_id a = au_id row);
             d = d\<lparr>assumptions := update_rows hit (withdraw_patch parsed (p_id p) now) (assumptions d)\<rparr> in
        case paused_by tenantId d (filter (active_link tenantId (au_id row)) (assumptionLinks d)) of Inl e \<Rightarrow> Inl e
        | Inr ids \<Rightarrow>
          (let paused = sort ids in
           case record_each env (withdrawn_event parsed tenantId actor (p_id p) row paused) now paused d of Inl e \<Rightarrow> Inl e
           | Inr (d, evs) \<Rightarrow>
             (case find hit (assumptions d) of None \<Rightarrow> Inl (InvalidInput ''assumption'')
              | Some updated \<Rightarrow>
                Inr (d, \<lparr>wd_assumption = updated, wd_pausedTaskIds = paused, wd_replayed = False\<rparr>, evs)))))"

definition withdrawAssumption ::
  "env \<Rightarrow> withdraw_input \<Rightarrow> service_context \<Rightarrow> db \<Rightarrow> db \<times> (err + withdrawal)" where
  "withdrawAssumption env i ctx =
     prologue (case parse_withdraw i of Inl e \<Rightarrow> Inl e | Inr parsed \<Rightarrow>
         (case serviceNow ctx of Inl e \<Rightarrow> Inl e | Inr now \<Rightarrow> Inr (parsed, now)))
       (\<lambda>(parsed, now). runInTransaction (withdrawTx env parsed (tenant_of ctx) (actor_of ctx) now))"

section \<open>Resuming\<close>

definition unlink_patch :: "string \<Rightarrow> int \<Rightarrow> string \<Rightarrow> assumption_link \<Rightarrow> assumption_link" where
  "unlink_patch pid now reason l = l\<lparr>al_active := False, al_unlinkedByPrincipalId := Some pid,
     al_unlinkedAt := Some now, al_unlinkReason := Some reason\<rparr>"

fun unlink_each ::
  "env \<Rightarrow> string \<Rightarrow> string \<Rightarrow> string \<Rightarrow> string \<Rightarrow> principal \<Rightarrow> int \<Rightarrow> (assumption \<times> assumption_link) list \<Rightarrow> db \<Rightarrow>
    err + db \<times> assumption_link list \<times> event list" where
  "unlink_each env tenantId actor tid reason p now [] d = Inr (d, [], [])"
| "unlink_each env tenantId actor tid reason p now ((a, l) # rest) d =
     (let d = d\<lparr>assumptionLinks := update_rows (\<lambda>x. al_tenantId x = tenantId \<and> al_id x = al_id l)
            (unlink_patch (p_id p) now reason) (assumptionLinks d)\<rparr> in
      case recordEvent env (task_event tenantId actor (Some (p_id p)) tid ''assumption_unlinked''
             [(''after'', JObj [(''assumptionId'', JStr (au_id a)), (''linkId'', JStr (al_id l)),
                (''text'', JStr (au_text a)), (''reason'', JStr reason)])]) now d of Inl e \<Rightarrow> Inl e
      | Inr (d, ev) \<Rightarrow>
        (case unlink_each env tenantId actor tid reason p now rest d of Inl e \<Rightarrow> Inl e
         | Inr (d, ls, evs) \<Rightarrow> Inr (d, unlink_patch (p_id p) now reason l # ls, ev # evs)))"

definition resumeTx ::
  "env \<Rightarrow> string \<Rightarrow> string \<Rightarrow> string \<Rightarrow> string \<Rightarrow> int \<Rightarrow> db \<Rightarrow> err + db \<times> assumption_link list \<times> event list" where
  "resumeTx env tenantId actor tid reason now d =
     (case getTask tid tenantId d of Inl e \<Rightarrow> Inl e
      | Inr None \<Rightarrow> Inl (Refused ''Task not found'' [tid])
      | Inr (Some _) \<Rightarrow>
        (let withdrawn = withdrawnLinksForTask tid tenantId d in
         if withdrawn = [] then Inl (Refused ''Task is not paused by a withdrawn assumption'' [tid])
         else case ensureLocalPrincipal env tenantId actor now d of Inl e \<Rightarrow> Inl e
         | Inr (d, p) \<Rightarrow> unlink_each env tenantId actor tid reason p now withdrawn d))"

definition resumeCommitment ::
  "env \<Rightarrow> string \<Rightarrow> string \<Rightarrow> service_context \<Rightarrow> db \<Rightarrow> db \<times> (err + assumption_link list)" where
  "resumeCommitment env tid reason ctx =
     prologue (case parse_text ASSUMPTION_REASON_MAX reason of Inl e \<Rightarrow> Inl e | Inr r \<Rightarrow>
         (case serviceNow ctx of Inl e \<Rightarrow> Inl e | Inr now \<Rightarrow> Inr (r, now)))
       (\<lambda>(r, now). runInTransaction (resumeTx env (tenant_of ctx) (actor_of ctx) tid r now))"

section \<open>Reading\<close>

record assumption_state =
  st_taskId :: string
  st_paused :: bool
  st_assumptions :: "(assumption \<times> assumption_link) list"

definition getTaskAssumptions :: "string \<Rightarrow> string \<Rightarrow> db \<Rightarrow> assumption_state" where
  "getTaskAssumptions tid tenantId d =
     (let entries = sort_key (\<lambda>(a, l). al_linkedAt l) [(a, l). l \<leftarrow> assumptionLinks d, a \<leftarrow> assumptions d,
          al_assumptionId l = au_id a \<and> al_tenantId l = tenantId \<and> al_taskId l = tid]
      in \<lparr>st_taskId = tid, st_paused = list_ex (\<lambda>(a, l). al_active l \<and> au_withdrawn a) entries,
          st_assumptions = entries\<rparr>)"

definition listAssumptions :: "string \<Rightarrow> bool option \<Rightarrow> db \<Rightarrow> (assumption \<times> string list) list" where
  "listAssumptions tenantId withdrawn d =
     map (\<lambda>a. (a, sort (map al_taskId (filter (active_link tenantId (au_id a)) (assumptionLinks d)))))
       (sort_key au_statedAt (filter (\<lambda>a. au_tenantId a = tenantId \<and>
          (case withdrawn of None \<Rightarrow> True | Some w \<Rightarrow> au_withdrawn a = w)) (assumptions d)))"

section \<open>Normalisation is idempotent\<close>

lemma lower_char_space [simp]: "js_space (lower_char c) = js_space c"
proof -
  have "(of_char c :: nat) < 256" by (rule of_char_less)
  then show ?thesis by (auto simp: js_space_def lower_char_def Let_def of_char_of)
qed

lemma lower_char_idem [simp]: "lower_char (lower_char c) = lower_char c"
proof -
  have "(of_char c :: nat) < 256" by (rule of_char_less)
  then show ?thesis by (auto simp: lower_char_def Let_def of_char_of)
qed

lemma lower_blank [simp]: "lower_char CHR '' '' = CHR '' ''"
  by (simp add: lower_char_def)

lemma js_space_blank [simp]: "js_space CHR '' ''"
  by (simp add: js_space_def)

lemma collapse_lower: "collapse_spaces (map lower_char s) = map lower_char (collapse_spaces s)"
  by (induction s rule: collapse_spaces.induct) auto

lemma trim_lower: "js_trim (map lower_char s) = map lower_char (js_trim s)"
  by (simp add: js_trim_def dropWhile_map rev_map o_def)

lemma collapse_hd: "s \<noteq> [] \<Longrightarrow> collapse_spaces s \<noteq> [] \<and> js_space (hd (collapse_spaces s)) = js_space (hd s)"
  by (induction s rule: collapse_spaces.induct) auto

lemma collapse_last: "s \<noteq> [] \<Longrightarrow> js_space (last (collapse_spaces s)) = js_space (last s)"
proof (induction s rule: collapse_spaces.induct)
  case (3 c d s)
  have "collapse_spaces (d # s) \<noteq> []" using collapse_hd [of "d # s"] by simp
  with 3 show ?case by auto
qed auto

text \<open>Where two blanks never meet, and every white space is a blank, there is nothing to collapse.\<close>

fun collapsed :: "string \<Rightarrow> bool" where
  "collapsed [] = True"
| "collapsed [c] = (js_space c \<longrightarrow> c = CHR '' '')"
| "collapsed (c # d # s) = ((js_space c \<longrightarrow> c = CHR '' '' \<and> \<not> js_space d) \<and> collapsed (d # s))"

lemma collapsed_Cons:
  "collapsed s \<Longrightarrow> (js_space c \<Longrightarrow> c = CHR '' '' \<and> (s \<noteq> [] \<longrightarrow> \<not> js_space (hd s))) \<Longrightarrow> collapsed (c # s)"
  by (cases s) auto

lemma collapsed_collapse: "collapsed (collapse_spaces s)"
proof (induction s rule: collapse_spaces.induct)
  case (3 c d s)
  have "js_space (hd (collapse_spaces (d # s))) = js_space d" using collapse_hd [of "d # s"] by simp
  with 3 show ?case by (auto intro!: collapsed_Cons)
qed auto

lemma collapse_collapsed: "collapsed s \<Longrightarrow> collapse_spaces s = s"
  by (induction s rule: collapsed.induct) auto

lemma trim_id:
  assumes "s = [] \<or> \<not> js_space (hd s) \<and> \<not> js_space (last s)" shows "js_trim s = s"
proof (cases s rule: rev_cases)
  case (snoc t c)
  have "dropWhile js_space s = s" using assms by (cases s) auto
  then show ?thesis using assms snoc by (simp add: js_trim_def)
qed (simp add: js_trim_def)

lemma trim_ends: "js_trim s = [] \<or> \<not> js_space (hd (js_trim s)) \<and> \<not> js_space (last (js_trim s))"
proof (cases "js_trim s = []")
  case False
  let ?a = "dropWhile js_space s" and ?b = "dropWhile js_space (rev (dropWhile js_space s))"
  have ne: "?b \<noteq> []" "?a \<noteq> []" using False unfolding js_trim_def by (metis rev.simps(1), metis dropWhile.simps(1) rev.simps(1))
  have last: "\<not> js_space (last (js_trim s))" using hd_dropWhile [OF ne(1)] ne by (simp add: js_trim_def last_rev)
  have "rev ?a = takeWhile js_space (rev ?a) @ ?b" by simp
  then have "?a = rev ?b @ rev (takeWhile js_space (rev ?a))" by (metis rev_append rev_rev_ident)
  then have "hd ?a = hd (js_trim s)" using ne(1) by (metis js_trim_def hd_append2 rev_is_Nil_conv)
  with hd_dropWhile [OF ne(2)] last show ?thesis by simp
qed simp

lemma trim_trim [simp]: "js_trim (js_trim s) = js_trim s"
  by (rule trim_id) (rule trim_ends)

lemma normalize_trim [simp]: "normalizeAssumptionText (js_trim s) = normalizeAssumptionText s"
  by (simp add: normalizeAssumptionText_def)

lemma trim_collapse_trim: "js_trim (collapse_spaces (js_trim s)) = collapse_spaces (js_trim s)"
proof (rule trim_id)
  show "collapse_spaces (js_trim s) = [] \<or>
      \<not> js_space (hd (collapse_spaces (js_trim s))) \<and> \<not> js_space (last (collapse_spaces (js_trim s)))"
    using trim_ends [of s] collapse_hd [of "js_trim s"] collapse_last [of "js_trim s"]
    by (cases "js_trim s = []") auto
qed

lemma normalize_idem: "normalizeAssumptionText (normalizeAssumptionText s) = normalizeAssumptionText s"
  unfolding normalizeAssumptionText_def trim_lower trim_collapse_trim collapse_lower
    collapse_collapsed [OF collapsed_collapse] by simp

section \<open>Sharing\<close>

lemma insert_assumption_Inr: "insert_assumption r d = Inr d' \<Longrightarrow> d' = d\<lparr>assumptions := assumptions d @ [r]\<rparr>"
  by (simp add: insert_assumption_def res)

lemma insert_link_Inr: "insert_link r d = Inr d' \<Longrightarrow> d' = d\<lparr>assumptionLinks := assumptionLinks d @ [r]\<rparr>"
  by (simp add: insert_link_def res)

lemma ensureLocalPrincipal_only:
  "ensureLocalPrincipal env tn al now d = Inr (d', p) \<Longrightarrow> \<exists>ps. d' = d\<lparr>principals := ps\<rparr>"
  using ensureLocalPrincipal_frame by fastforce

text \<open>After stating a text, its standing record is found.\<close>

lemma state_assumption_standing:
  assumes "state_assumption env tn actor tid text p now d = Inr (d', row, evs)"
  shows "findStanding tn (normalizeAssumptionText text) d' = Some row"
proof (cases "findStanding tn (normalizeAssumptionText text) d")
  case None
  then obtain k ps dr ev es where "assumptions d' = assumptions d @ [row]" "au_tenantId row = tn"
      "au_normalizedText row = normalizeAssumptionText text" "\<not> au_withdrawn row"
    using assms unfolding state_assumption_def
    by (auto simp: Let_def res fresh_id_def dest!: insert_assumption_Inr recordEvent_frame)
  with None show ?thesis by (simp add: findStanding_def find_append)
next
  case (Some a)
  with assms show ?thesis by (simp add: state_assumption_def)
qed

lemma link_assumption_assumptions:
  "link_assumption env tn actor tid row p now d = Inr (d', l, evs) \<Longrightarrow> assumptions d' = assumptions d"
  unfolding link_assumption_def
  by (auto simp: Let_def res fresh_id_def split: option.splits dest!: insert_link_Inr recordEvent_frame)

lemma attach_steps:
  assumes "attachInTransaction env tn actor tid raw now d = Inr (d', (row, l), evs)"
  obtains d1 p d2 evs1 evs2 where "ensureLocalPrincipal env tn actor now d = Inr (d1, p)"
    "state_assumption env tn actor tid (js_trim raw) p now d1 = Inr (d2, row, evs1)"
    "link_assumption env tn actor tid row p now d2 = Inr (d', l, evs2)"
  using assms unfolding attachInTransaction_def parse_text_def by (auto simp: Let_def res)

lemma attach_standing:
  assumes "attachInTransaction env tn actor tid raw now d = Inr (d', (row, l), evs)"
  shows "findStanding tn (normalizeAssumptionText raw) d' = Some row"
proof -
  obtain d1 p d2 evs1 evs2 where 1: "state_assumption env tn actor tid (js_trim raw) p now d1 = Inr (d2, row, evs1)"
    and 2: "link_assumption env tn actor tid row p now d2 = Inr (d', l, evs2)"
    using attach_steps [OF assms] by metis
  from state_assumption_standing [OF 1] link_assumption_assumptions [OF 2] show ?thesis
    by (simp add: findStanding_def)
qed

lemma attach_found:
  assumes "attachInTransaction env tn actor tid raw now d = Inr (d', (row, l), evs)"
    and "findStanding tn (normalizeAssumptionText raw) d = Some a"
  shows "row = a"
proof -
  obtain d1 p d2 evs1 where 1: "ensureLocalPrincipal env tn actor now d = Inr (d1, p)"
    and 2: "state_assumption env tn actor tid (js_trim raw) p now d1 = Inr (d2, row, evs1)"
    using attach_steps [OF assms(1)] by metis
  have "findStanding tn (normalizeAssumptionText raw) d1 = Some a"
    using assms(2) ensureLocalPrincipal_only [OF 1] by (auto simp: findStanding_def)
  with 2 show ?thesis by (simp add: state_assumption_def)
qed

section \<open>Pausing and resuming\<close>

lemma record_each_frame:
  "record_each env mk now ids d = Inr (d', evs) \<Longrightarrow>
    \<exists>ps k es n. d' = d\<lparr>principals := ps, draws := k, events := es, eventSeq := n\<rparr>"
proof (induction ids arbitrary: d evs)
  case Nil
  then show ?case by (intro exI [of _ "principals d"] exI [of _ "draws d"] exI [of _ "events d"] exI [of _ "eventSeq d"]) simp
next
  case (Cons i ids)
  then obtain d1 ev evs' where 1: "recordEvent env (mk i) now d = Inr (d1, ev)"
    and 2: "record_each env mk now ids d1 = Inr (d', evs')" by (auto simp: res)
  from recordEvent_frame [OF 1] obtain ps k where d1: "d1 = d\<lparr>principals := principals d @ ps, draws := k,
      events := events d @ [ev], eventSeq := eventSeq d + 1\<rparr>" by blast
  from Cons.IH [OF 2] show ?case unfolding d1 by simp
qed

lemma withdrawn_links_iff:
  "(a, l) \<in> set (withdrawnLinksForTask tid tn d) \<longleftrightarrow> l \<in> set (assumptionLinks d) \<and> a \<in> set (assumptions d) \<and>
     al_assumptionId l = au_id a \<and> al_tenantId l = tn \<and> al_taskId l = tid \<and> al_active l \<and> au_withdrawn a"
  by (auto simp: withdrawnLinksForTask_def)

lemma not_paused_iff: "assertCommitmentNotPaused tid tn d = Inr () \<longleftrightarrow> withdrawnLinksForTask tid tn d = []"
  by (auto simp: assertCommitmentNotPaused_def split: list.splits)

lemma withdrawTx_fresh:
  assumes "withdrawTx env i tn actor now d = Inr (d', w, evs)" and "\<not> wd_replayed w"
  shows "assumptionLinks d' = assumptionLinks d \<and> wd_assumption w \<in> set (assumptions d') \<and> au_withdrawn (wd_assumption w)"
proof -
  obtain row d1 p paused d2 where row: "\<not> au_withdrawn row"
    and 1: "ensureLocalPrincipal env tn actor now d = Inr (d1, p)"
    and 2: "record_each env (withdrawn_event i tn actor (p_id p) row paused) now paused
       (d1\<lparr>assumptions := update_rows (\<lambda>a. au_tenantId a = tn \<and> au_id a = au_id row)
          (withdraw_patch i (p_id p) now) (assumptions d1)\<rparr>) = Inr (d', evs)"
    and w: "find (\<lambda>a. au_tenantId a = tn \<and> au_id a = au_id row) (assumptions d') = Some (wd_assumption w)"
    using assms unfolding withdrawTx_def by (auto simp: Let_def res split: if_splits)
  have as: "assumptions d' = update_rows (\<lambda>a. au_tenantId a = tn \<and> au_id a = au_id row)
          (withdraw_patch i (p_id p) now) (assumptions d1)" "assumptionLinks d' = assumptionLinks d"
    using record_each_frame [OF 2] ensureLocalPrincipal_only [OF 1] by auto
  have "wd_assumption w \<in> set (assumptions d')" "au_tenantId (wd_assumption w) = tn \<and> au_id (wd_assumption w) = au_id row"
    using find_SomeD [OF w] by auto
  then have "au_withdrawn (wd_assumption w)"
    unfolding as(1) by (elim update_rows_cases) (auto simp: withdraw_patch_def)
  with as \<open>wd_assumption w \<in> set (assumptions d')\<close> show ?thesis by simp
qed

lemma withdraw_pauses:
  assumes "withdrawTx env i tn actor now d = Inr (d', w, evs)" and "\<not> wd_replayed w"
    and "l \<in> set (assumptionLinks d)" and "active_link tn (au_id (wd_assumption w)) l"
  shows "assertCommitmentNotPaused (al_taskId l) tn d' \<noteq> Inr ()"
proof -
  have "(wd_assumption w, l) \<in> set (withdrawnLinksForTask (al_taskId l) tn d')"
    using withdrawTx_fresh [OF assms(1,2)] assms(3,4) by (simp add: withdrawn_links_iff active_link_def)
  then show ?thesis by (auto simp: not_paused_iff)
qed

lemma unlink_each_links:
  "unlink_each env tn actor tid reason p now rs d = Inr (d', ls, evs) \<Longrightarrow>
    assumptions d' = assumptions d \<and>
    (\<forall>l \<in> set (assumptionLinks d'). al_active l \<longrightarrow> l \<in> set (assumptionLinks d) \<and>
       (al_tenantId l = tn \<longrightarrow> al_id l \<notin> (al_id \<circ> snd) ` set rs))"
proof (induction rs arbitrary: d ls evs)
  case (Cons r rs)
  obtain a l where r: "r = (a, l)" by (cases r)
  let ?d1 = "d\<lparr>assumptionLinks := update_rows (\<lambda>x. al_tenantId x = tn \<and> al_id x = al_id l)
            (unlink_patch (p_id p) now reason) (assumptionLinks d)\<rparr>"
  from Cons.prems obtain inp d2 ev ls' evs' where 1: "recordEvent env inp now ?d1 = Inr (d2, ev)"
    and 2: "unlink_each env tn actor tid reason p now rs d2 = Inr (d', ls', evs')"
    by (auto simp: r Let_def res)
  have "assumptionLinks d2 = assumptionLinks ?d1" "assumptions d2 = assumptions d"
    using recordEvent_frame [OF 1] by auto
  have "x \<in> set (assumptionLinks d) \<and> (al_tenantId x = tn \<longrightarrow> al_id x \<noteq> al_id l)"
    if "x \<in> set (assumptionLinks ?d1)" "al_active x" for x
    using that by (auto simp: unlink_patch_def elim!: update_rows_cases)
  with Cons.IH [OF 2] \<open>assumptionLinks d2 = _\<close> \<open>assumptions d2 = _\<close> show ?case by (simp add: r)
qed simp

lemma resume_clears:
  assumes "resumeTx env tn actor tid reason now d = Inr (d', ls, evs)"
  shows "withdrawnLinksForTask tid tn d' = []"
proof -
  obtain d1 p where 1: "ensureLocalPrincipal env tn actor now d = Inr (d1, p)"
    and 2: "unlink_each env tn actor tid reason p now (withdrawnLinksForTask tid tn d) d1 = Inr (d', ls, evs)"
    using assms by (auto simp: resumeTx_def Let_def res)
  have d1: "assumptions d1 = assumptions d" "assumptionLinks d1 = assumptionLinks d"
    using ensureLocalPrincipal_only [OF 1] by auto
  have "(a, l) \<notin> set (withdrawnLinksForTask tid tn d')" for a l
  proof
    assume al: "(a, l) \<in> set (withdrawnLinksForTask tid tn d')"
    then have "(a, l) \<in> set (withdrawnLinksForTask tid tn d)"
      using unlink_each_links [OF 2] d1 by (auto simp: withdrawn_links_iff)
    then have "al_id l \<in> (al_id \<circ> snd) ` set (withdrawnLinksForTask tid tn d)" by force
    with al show False using unlink_each_links [OF 2] by (auto simp: withdrawn_links_iff)
  qed
  then show ?thesis by (cases "withdrawnLinksForTask tid tn d'") auto
qed

section \<open>Properties\<close>

text \<open>Normalising an assumption is idempotent, so the text stored with a record finds that record.\<close>

theorem normalizeAssumptionText_idempotent:
  "normalizeAssumptionText (normalizeAssumptionText s) = normalizeAssumptionText s"
  by (rule normalize_idem)

text \<open>One record per sentence: stating a text whose normal form is already standing links the same
  record, whatever the spelling, the commitment or the caller.\<close>

theorem assumption_shared:
  assumes "attachInTransaction env tn actor1 tid1 raw1 now1 d = Inr (d1, (a1, l1), evs1)"
    and "attachInTransaction env tn actor2 tid2 raw2 now2 d1 = Inr (d2, (a2, l2), evs2)"
    and "normalizeAssumptionText raw1 = normalizeAssumptionText raw2"
  shows "a2 = a1 \<and> findStanding tn (normalizeAssumptionText raw2) d2 = Some a1"
proof -
  have "findStanding tn (normalizeAssumptionText raw2) d1 = Some a1"
    using attach_standing [OF assms(1)] assms(3) by simp
  from attach_found [OF assms(2) this] attach_standing [OF assms(2)] show ?thesis by simp
qed

abbreviation sample_attach1 :: "err + db \<times> (assumption \<times> assumption_link) \<times> event list" where
  "sample_attach1 \<equiv> attachInTransaction sample_env ''w'' ''alice'' ''t1'' ''It stays DRY'' 1000 sample_db"

abbreviation sample_attach2 :: "err + db \<times> (assumption \<times> assumption_link) \<times> event list" where
  "sample_attach2 \<equiv> attachInTransaction sample_env ''w'' ''alice'' ''t2'' '' it  stays dry '' 1001 (fst (projr sample_attach1))"

lemma sample_attach_ok: "returned sample_attach1" "returned sample_attach2" by code_simp+

lemma returned4: "returned m \<Longrightarrow> m = Inr (fst (projr m), (fst (fst (snd (projr m))), snd (fst (snd (projr m)))), snd (snd (projr m)))"
  by (simp add: returnedD)

theorem assumption_shared_witness: "fst (fst (snd (projr sample_attach2))) = fst (fst (snd (projr sample_attach1)))"
proof -
  have "normalizeAssumptionText ''It stays DRY'' = normalizeAssumptionText '' it  stays dry ''" by code_simp
  with assumption_shared [OF returned4 [OF sample_attach_ok(1)] returned4 [OF sample_attach_ok(2)]] show ?thesis by simp
qed

text \<open>A resumption clears the pause: after it no withdrawn assumption is actively linked to the
  commitment, and the pause check passes.\<close>

theorem resume_clears_pause:
  assumes "resumeCommitment env tid reason ctx d = (d', Inr ls)"
  shows "assertCommitmentNotPaused tid (tenant_of ctx) d' = Inr () \<and> tid \<notin> pausedTaskIds (tenant_of ctx) d'"
proof -
  obtain r now d1 evs n j where "resumeTx env (tenant_of ctx) (actor_of ctx) tid r now d = Inr (d1, ls, evs)"
    and d': "d' = d1\<lparr>committedMutations := n, journal := j\<rparr>"
    using assms by (auto simp: resumeCommitment_def Let_def res)
  then have w: "withdrawnLinksForTask tid (tenant_of ctx) d' = []"
    using resume_clears by (simp add: withdrawnLinksForTask_def)
  then have "tid \<notin> pausedTaskIds (tenant_of ctx) d'"
    using withdrawn_links_iff [of _ _ tid "tenant_of ctx" d'] by (auto simp: pausedTaskIds_def)
  with w show ?thesis by (simp add: not_paused_iff)
qed

text \<open>The shared sentence is withdrawn, and the commitment is resumed.\<close>

abbreviation sample_withdrawn :: "db \<times> (err + withdrawal)" where
  "sample_withdrawn \<equiv> withdrawAssumption sample_env \<lparr>wi_text = Some ''IT stays dry'', wi_assumptionId = None,
     wi_reason = ''rain'', wi_evidenceIds = []\<rparr> (sample_ctx ''alice'' 2000) (fst (projr sample_attach1))"

abbreviation sample_resumed :: "db \<times> (err + assumption_link list)" where
  "sample_resumed \<equiv> resumeCommitment sample_env ''t1'' ''dried'' (sample_ctx ''alice'' 3000) (fst sample_withdrawn)"

lemma sample_resumed_ok: "returned (snd sample_withdrawn)" "returned (snd sample_resumed)" by code_simp+

theorem resume_clears_pause_witness:
  "assertCommitmentNotPaused ''t1'' ''w'' (fst sample_resumed) = Inr () \<and>
   assertCommitmentNotPaused ''t1'' ''w'' (fst sample_withdrawn) \<noteq> Inr ()"
proof
  show "assertCommitmentNotPaused ''t1'' ''w'' (fst sample_resumed) = Inr ()"
    using resume_clears_pause [OF returned_op [OF sample_resumed_ok(2)]] by (simp add: sample_ctx_def tenant_of_def)
  show "assertCommitmentNotPaused ''t1'' ''w'' (fst sample_withdrawn) \<noteq> Inr ()" by code_simp
qed

end
