(* ===== verification/Costs.thy ===== *)
theory Costs
  imports Relations Claim_Table "HOL-Library.Product_Lexorder"
begin

text \<open>
  Observed costs and the bound they put on claims (\<open>packages/tasq-core/src/service/costs.ts\<close>): the budget
  a task carries in its metadata, the receipts attached to its attempts, the summary that decides
  whether a claim may be renewed, and the recording of a receipt, which releases the live claim when
  the bound is reached. Amounts are decimal strings, added as unbounded integers.
\<close>

section \<open>Budgets and observations\<close>

definition ATTEMPT_COST_OBSERVATION_URI :: string where
  "ATTEMPT_COST_OBSERVATION_URI = ''https://tasq.run/contracts/attempt-cost-observation/v1''"

definition TASK_COST_BUDGET_METADATA_KEY :: string where
  "TASK_COST_BUDGET_METADATA_KEY = ''tasqCostBudget''"

text \<open>\<open>Micros\<close>: zero, or up to nineteen digits without a leading zero; \<open>Currency\<close>: three capitals.\<close>

definition micros_ok :: "string \<Rightarrow> bool" where
  "micros_ok s \<longleftrightarrow> s = ''0'' \<or>
     (s \<noteq> [] \<and> length s \<le> 19 \<and> hd s \<noteq> CHR ''0'' \<and> (\<forall>c \<in> set s. is_digit c))"

definition currency_ok :: "string \<Rightarrow> bool" where
  "currency_ok s \<longleftrightarrow> length s = 3 \<and> (\<forall>c \<in> set s. 65 \<le> (of_char c :: nat) \<and> (of_char c :: nat) \<le> 90)"

definition BigInt :: "string \<Rightarrow> int" where
  "BigInt s = foldl (\<lambda>n c. 10 * n + (of_char c - 48)) 0 s"

record cost_budget =
  cb_currency :: string
  cb_maxGrossMicros :: string
  cb_renewalReserveMicros :: string
  cb_meteringRequired :: bool

definition json_str :: "json \<Rightarrow> string option" where
  "json_str j = (case j of JStr s \<Rightarrow> Some s | _ \<Rightarrow> None)"

definition budget_ok :: "cost_budget \<Rightarrow> bool" where
  "budget_ok b \<longleftrightarrow> currency_ok (cb_currency b) \<and> micros_ok (cb_maxGrossMicros b) \<and> BigInt (cb_maxGrossMicros b) > 0 \<and>
     micros_ok (cb_renewalReserveMicros b) \<and> BigInt (cb_renewalReserveMicros b) \<le> BigInt (cb_maxGrossMicros b)"

definition parse_budget :: "json \<Rightarrow> err + cost_budget" where
  "parse_budget j = (case j of JObj o' \<Rightarrow>
      (let reserve = obj_get o' ''renewalReserveMicros''; metering = obj_get o' ''metering'' in
       case (json_str (obj_get o' ''currency''), json_str (obj_get o' ''maxGrossMicros''),
             (if reserve = JUndef then Some ''0'' else json_str reserve),
             (if metering = JUndef then Some ''required'' else json_str metering)) of
         (Some cur, Some mx, Some rs, Some mt) \<Rightarrow>
           (let b = \<lparr>cb_currency = cur, cb_maxGrossMicros = mx, cb_renewalReserveMicros = rs,
                 cb_meteringRequired = (mt = ''required'')\<rparr> in
            if obj_get o' ''contract'' = JStr ''tasq.task-cost-budget.v1'' \<and> budget_ok b \<and>
               (mt = ''required'' \<or> mt = ''best_effort'')
            then Inr b else Inl (InvalidInput ''TaskCostBudget''))
       | _ \<Rightarrow> Inl (InvalidInput ''TaskCostBudget''))
    | _ \<Rightarrow> Inl (InvalidInput ''TaskCostBudget''))"

definition budget_json :: "cost_budget \<Rightarrow> json" where
  "budget_json b = JObj [(''contract'', JStr ''tasq.task-cost-budget.v1''), (''currency'', JStr (cb_currency b)),
     (''maxGrossMicros'', JStr (cb_maxGrossMicros b)), (''renewalReserveMicros'', JStr (cb_renewalReserveMicros b)),
     (''metering'', JStr (if cb_meteringRequired b then ''required'' else ''best_effort''))]"

definition budgetFromTask :: "task \<Rightarrow> err + cost_budget option" where
  "budgetFromTask t = (let c = obj_get (t_metadata t) TASK_COST_BUDGET_METADATA_KEY in
     if c = JUndef then Inr None
     else case parse_budget c of Inl e \<Rightarrow> Inl e | Inr b \<Rightarrow> Inr (Some b))"

record cost_observation =
  co_attemptId :: string
  co_taskId :: string
  co_meterUri :: string
  co_observationId :: string
  co_currency :: string
  co_grossMicros :: string
  co_observedAt :: int
  co_basis :: string

definition COST_BASES :: "string list" where
  "COST_BASES = [''provider_receipt'', ''runtime_meter'', ''operator_attestation'']"

definition observation_ok :: "cost_observation \<Rightarrow> bool" where
  "observation_ok x \<longleftrightarrow> between 1 1000 (co_observationId x) \<and> js_trim (co_observationId x) = co_observationId x \<and>
     currency_ok (co_currency x) \<and> micros_ok (co_grossMicros x) \<and> 0 \<le> co_observedAt x \<and> co_basis x \<in> set COST_BASES"

definition observation_json :: "cost_observation \<Rightarrow> (string \<times> json) list" where
  "observation_json x = [(''contract'', JStr ''tasq.attempt-cost-observation.v1''),
     (''attemptId'', JStr (co_attemptId x)), (''taskId'', JStr (co_taskId x)), (''meterUri'', JStr (co_meterUri x)),
     (''observationId'', JStr (co_observationId x)), (''currency'', JStr (co_currency x)),
     (''grossMicros'', JStr (co_grossMicros x)), (''observedAt'', JInt (co_observedAt x)),
     (''basis'', JStr (co_basis x))]"

text \<open>\<open>AttemptCostObservation.parse\<close> of the metadata of a receipt.\<close>

definition parse_observation :: "metadata \<Rightarrow> err + cost_observation" where
  "parse_observation m =
     (case (map (\<lambda>k. json_str (obj_get m k)) [''attemptId'', ''taskId'', ''meterUri'', ''observationId'',
              ''currency'', ''grossMicros'', ''basis''], obj_get m ''observedAt'') of
        ([Some a, Some t, Some u, Some i, Some c, Some g, Some b], JInt at) \<Rightarrow>
          (let x = \<lparr>co_attemptId = a, co_taskId = t, co_meterUri = u, co_observationId = js_trim i, co_currency = c,
                co_grossMicros = g, co_observedAt = at, co_basis = b\<rparr> in
           if obj_get m ''contract'' = JStr ''tasq.attempt-cost-observation.v1'' \<and> observation_ok x
           then Inr x else Inl (InvalidInput ''AttemptCostObservation''))
      | _ \<Rightarrow> Inl (InvalidInput ''AttemptCostObservation''))"

definition observationFromRef :: "external_ref \<Rightarrow> err + cost_observation option" where
  "observationFromRef x = (if x_resourceType x \<noteq> ATTEMPT_COST_OBSERVATION_URI then Inr None
     else case parse_observation (x_metadata x) of Inl e \<Rightarrow> Inl e | Inr ob \<Rightarrow> Inr (Some ob))"

section \<open>The summary of a task\<close>

text \<open>The receipts of the attempts of a task with the claim each attempt ran under, oldest first.\<close>

definition costRefsForTask :: "string \<Rightarrow> string \<Rightarrow> db \<Rightarrow> (external_ref \<times> string option) list" where
  "costRefsForTask tid tenantId d = sort_key (\<lambda>(x, c). (x_createdAt x, x_id x))
     [(x, a_claimId a). x \<leftarrow> externalRefs d, a \<leftarrow> attempts d,
       x_tenantId x = a_tenantId a \<and> x_recordId x = a_id a \<and> x_tenantId x = tenantId \<and>
       x_recordType x = ''attempt'' \<and> x_resourceType x = ATTEMPT_COST_OBSERVATION_URI \<and> a_taskId a = tid]"

text \<open>The totals per currency, in the order of their first receipt, and whether the claim is metered.\<close>

definition add_total :: "string \<Rightarrow> int \<Rightarrow> (string \<times> int) list \<Rightarrow> (string \<times> int) list" where
  "add_total cur n m = (if cur \<in> fst ` set m then map (\<lambda>(k, v). if k = cur then (k, v + n) else (k, v)) m
     else m @ [(cur, n)])"

fun sum_refs ::
  "string option \<Rightarrow> (external_ref \<times> string option) list \<Rightarrow> (string \<times> int) list \<Rightarrow> bool \<Rightarrow>
    err + (string \<times> int) list \<times> bool" where
  "sum_refs claimId [] totals metered = Inr (totals, metered)"
| "sum_refs claimId ((x, c) # rest) totals metered =
     (case observationFromRef x of Inl e \<Rightarrow> Inl e
      | Inr None \<Rightarrow> sum_refs claimId rest totals metered
      | Inr (Some ob) \<Rightarrow> sum_refs claimId rest (add_total (co_currency ob) (BigInt (co_grossMicros ob)) totals)
            (metered \<or> (claimId \<noteq> None \<and> c = claimId)))"

datatype renewal_reason = Unbounded | WithinBound | MeteringRequired | BoundReached

record cost_summary =
  su_taskId :: string
  su_budget :: "cost_budget option"
  su_observedGrossByCurrency :: "(string \<times> string) list"
  su_observationCount :: nat
  su_currentClaimId :: "string option"
  su_currentClaimMetered :: bool
  su_allowed :: bool
  su_reason :: renewal_reason
  su_observedGrossMicros :: "string option"
  su_remainingMicros :: "string option"

definition total_in :: "string \<Rightarrow> (string \<times> int) list \<Rightarrow> int" where
  "total_in cur m = or_else (map_of m cur) 0"

definition meter_denied :: "cost_budget \<Rightarrow> bool \<Rightarrow> bool \<Rightarrow> bool" where
  "meter_denied b enforce metered \<longleftrightarrow> enforce \<and> cb_meteringRequired b \<and> \<not> metered"

definition bound_denied :: "cost_budget \<Rightarrow> int \<Rightarrow> bool" where
  "bound_denied b observed \<longleftrightarrow> observed \<ge> BigInt (cb_maxGrossMicros b) \<or>
     observed + BigInt (cb_renewalReserveMicros b) > BigInt (cb_maxGrossMicros b)"

definition build_summary ::
  "env \<Rightarrow> string \<Rightarrow> string option \<Rightarrow> bool \<Rightarrow> cost_budget option \<Rightarrow> (string \<times> int) list \<Rightarrow> bool \<Rightarrow> nat \<Rightarrow> cost_summary" where
  "build_summary env tid claimId enforce budget totals metered n =
     (let base = \<lparr>su_taskId = tid, su_budget = budget,
            su_observedGrossByCurrency = map (\<lambda>(k, v). (k, dec_int v)) (sort_by (\<lambda>a b. localeLe env (fst a) (fst b)) totals),
            su_observationCount = n, su_currentClaimId = claimId, su_currentClaimMetered = metered,
            su_allowed = True, su_reason = Unbounded, su_observedGrossMicros = None, su_remainingMicros = None\<rparr>
      in case budget of None \<Rightarrow> base
      | Some b \<Rightarrow>
         (let observed = total_in (cb_currency b) totals; maximum = BigInt (cb_maxGrossMicros b);
              remaining = (if maximum > observed then maximum - observed else 0) in
          base\<lparr>su_allowed := \<not> meter_denied b enforce metered \<and> \<not> bound_denied b observed,
            su_reason := (if meter_denied b enforce metered then MeteringRequired
                          else if bound_denied b observed then BoundReached else WithinBound),
            su_observedGrossMicros := Some (dec_int observed), su_remainingMicros := Some (dec_int remaining)\<rparr>))"

definition require_costed_task :: "string \<Rightarrow> string \<Rightarrow> db \<Rightarrow> err + task" where
  "require_costed_task tid tenantId d = (case getTask tid tenantId d of Inl e \<Rightarrow> Inl e
      | Inr None \<Rightarrow> Inl (Refused ''Task not found'' [tid])
      | Inr (Some t) \<Rightarrow> if t_deletedAt t \<noteq> None then Inl (Refused ''Task not found'' [tid]) else Inr t)"

definition summarizeTaskCost ::
  "env \<Rightarrow> string \<Rightarrow> string \<Rightarrow> string option \<Rightarrow> bool \<Rightarrow> db \<Rightarrow> err + cost_summary" where
  "summarizeTaskCost env tid tenantId claimId enforce d =
     (case require_costed_task tid tenantId d of Inl e \<Rightarrow> Inl e | Inr t \<Rightarrow>
      (case budgetFromTask t of Inl e \<Rightarrow> Inl e | Inr budget \<Rightarrow>
      (let refs = costRefsForTask tid tenantId d in
       case sum_refs claimId refs [] False of Inl e \<Rightarrow> Inl e
       | Inr (totals, metered) \<Rightarrow>
           Inr (build_summary env tid claimId enforce budget totals metered (length refs)))))"

text \<open>The gate of a claim.\<close>

definition cost_error :: "cost_summary \<Rightarrow> err" where
  "cost_error s = CostBound (if su_reason s = MeteringRequired then ''cost_metering_required'' else ''cost_bound_reached'')"

definition assertTaskCostAllowsClaim ::
  "env \<Rightarrow> string \<Rightarrow> string \<Rightarrow> string option \<Rightarrow> bool \<Rightarrow> db \<Rightarrow> err + cost_summary" where
  "assertTaskCostAllowsClaim env tid tenantId claimId renewal d =
     (case summarizeTaskCost env tid tenantId claimId renewal d of Inl e \<Rightarrow> Inl e
      | Inr s \<Rightarrow> if \<not> su_allowed s then Inl (cost_error s) else Inr s)"

section \<open>Operations\<close>

text \<open>The unreleased claim of a task, when it has not expired.\<close>

definition unexpired_claim :: "string \<Rightarrow> string \<Rightarrow> int \<Rightarrow> db \<Rightarrow> task_claim option" where
  "unexpired_claim tid tenantId now d = (case find (unreleased_claim tid tenantId) (claims d) of
      None \<Rightarrow> None | Some c \<Rightarrow> if c_expiresAt c > now then Some c else None)"

definition getTaskCostSummary :: "env \<Rightarrow> string \<Rightarrow> service_context \<Rightarrow> db \<Rightarrow> err + cost_summary" where
  "getTaskCostSummary env tid ctx d = (case serviceNow ctx of Inl e \<Rightarrow> Inl e | Inr now \<Rightarrow>
     (let current = unexpired_claim tid (tenant_of ctx) now d in
      summarizeTaskCost env tid (tenant_of ctx) (map_option c_id current) (current \<noteq> None) d))"

definition set_entry :: "string \<Rightarrow> json \<Rightarrow> metadata \<Rightarrow> metadata" where
  "set_entry k v m = (if k \<in> fst ` set m then map (\<lambda>(x, w). if x = k then (x, v) else (x, w)) m else m @ [(k, v)])"

definition configureTaskCostBudget ::
  "env \<Rightarrow> hierarchy_policy \<Rightarrow> string \<Rightarrow> json \<Rightarrow> service_context \<Rightarrow> db \<Rightarrow> db \<times> (err + task)" where
  "configureTaskCostBudget env hp tid input ctx d =
     (case parse_budget input of Inl e \<Rightarrow> (d, Inl e) | Inr budget \<Rightarrow>
      (case require_costed_task tid (tenant_of ctx) d of Inl e \<Rightarrow> (d, Inl e) | Inr t \<Rightarrow>
       updateTask env hp tid (empty_update\<lparr>tu_metadata := Some (set_entry TASK_COST_BUDGET_METADATA_KEY (budget_json budget)
            (t_metadata t))\<rparr>)
         (ctx\<lparr>ctx_expectedRevision := Some (or_else (ctx_expectedRevision ctx) (t_revision t))\<rparr>) d))"

definition insert_external_ref :: "external_ref \<Rightarrow> db \<Rightarrow> err + db" where
  "insert_external_ref r d = insert_row ''external_ref''
     (\<forall>x \<in> set (externalRefs d). x_id x \<noteq> x_id r \<and>
        \<not> (x_tenantId x = x_tenantId r \<and> x_system x = x_system r \<and> x_resourceType x = x_resourceType r \<and>
           x_externalId x = x_externalId r))
     True (d\<lparr>externalRefs := externalRefs d @ [r]\<rparr>)"

text \<open>The input of a receipt, without the identifiers the call adds.\<close>

record cost_input =
  ci_meterUri :: string
  ci_observationId :: string
  ci_currency :: string
  ci_grossMicros :: string
  ci_observedAt :: int
  ci_basis :: string

record cost_result =
  cx_observation :: cost_observation
  cx_externalRef :: external_ref
  cx_summary :: cost_summary
  cx_replayed :: bool
  cx_claimReleased :: bool

definition observation_of :: "cost_input \<Rightarrow> task_attempt \<Rightarrow> cost_observation" where
  "observation_of i a = \<lparr>co_attemptId = a_id a, co_taskId = a_taskId a, co_meterUri = ci_meterUri i,
     co_observationId = js_trim (ci_observationId i), co_currency = ci_currency i, co_grossMicros = ci_grossMicros i,
     co_observedAt = ci_observedAt i, co_basis = ci_basis i\<rparr>"

definition cost_input_ok :: "cost_input \<Rightarrow> bool" where
  "cost_input_ok i \<longleftrightarrow> between 1 1000 (js_trim (ci_observationId i)) \<and> currency_ok (ci_currency i) \<and>
     micros_ok (ci_grossMicros i) \<and> 0 \<le> ci_observedAt i \<and> ci_basis i \<in> set COST_BASES"

definition replay_cost :: "env \<Rightarrow> string \<Rightarrow> cost_observation \<Rightarrow> external_ref \<Rightarrow> db \<Rightarrow> err + db \<times> cost_result \<times> event list" where
  "replay_cost env tenantId ob r d =
     (case summarizeTaskCost env (co_taskId ob) tenantId None False d of Inl e \<Rightarrow> Inl e
      | Inr s \<Rightarrow> Inr (d, \<lparr>cx_observation = ob, cx_externalRef = r, cx_summary = s, cx_replayed = True,
             cx_claimReleased = False\<rparr>, []))"

text \<open>The claim a reached bound takes back.\<close>

definition release_at_bound ::
  "env \<Rightarrow> string \<Rightarrow> string \<Rightarrow> principal \<Rightarrow> string \<Rightarrow> cost_summary \<Rightarrow> task_claim option \<Rightarrow> int \<Rightarrow> db \<Rightarrow>
    err + db \<times> bool \<times> event list" where
  "release_at_bound env tenantId actor p tid s active now d = (case active of
      None \<Rightarrow> Inr (d, False, [])
    | Some c \<Rightarrow>
        if su_allowed s then Inr (d, False, [])
        else case update_claims (\<lambda>x. c_id x = c_id c) (close_claim ''cost_bound_reached'' now) d of Inl e \<Rightarrow> Inl e
        | Inr d \<Rightarrow>
          (case recordEvent env (task_event tenantId actor (Some (p_id p)) tid ''claim_released_cost_bound''
                 [(''before'', JObj [(''claimId'', JStr (c_id c))]),
                  (''after'', JObj [(''observedGrossMicros'', nullable JStr (su_observedGrossMicros s))])]) now d of
             Inl e \<Rightarrow> Inl e | Inr (d, ev) \<Rightarrow> Inr (d, True, [ev])))"

definition cost_ref :: "env \<Rightarrow> string \<Rightarrow> string \<Rightarrow> cost_observation \<Rightarrow> string \<Rightarrow> int \<Rightarrow> external_ref" where
  "cost_ref env xid tenantId ob pid now = \<lparr>x_id = xid, x_tenantId = tenantId, x_recordType = ''attempt'',
     x_recordId = co_attemptId ob, x_system = co_meterUri ob, x_resourceType = ATTEMPT_COST_OBSERVATION_URI,
     x_externalId = co_observationId ob, x_url = None, x_version = Some ''1'',
     x_digest = Some (sha256Digest env (canonicalJson (JObj (observation_json ob)))),
     x_metadata = observation_json ob, x_createdByPrincipalId = pid, x_createdAt = now\<rparr>"

definition write_cost ::
  "env \<Rightarrow> string \<Rightarrow> string \<Rightarrow> cost_observation \<Rightarrow> prepared_idempotency option \<Rightarrow> principal \<Rightarrow> int \<Rightarrow> db \<Rightarrow>
    err + db \<times> cost_result \<times> event list" where
  "write_cost env tenantId actor ob identity p now d0 =
     (let (d, xid) = fresh_id env now d0; r = cost_ref env xid tenantId ob (p_id p) now in
      case insert_external_ref r d of Inl e \<Rightarrow> Inl e | Inr d \<Rightarrow>
      (case recordEvent env (task_event tenantId actor (Some (p_id p)) (co_taskId ob) ''attempt_cost_observed''
             [(''after'', JObj [(''externalRefId'', JStr xid), (''attemptId'', JStr (co_attemptId ob)),
                (''currency'', JStr (co_currency ob)), (''grossMicros'', JStr (co_grossMicros ob))])]) now d of
         Inl e \<Rightarrow> Inl e | Inr (d, ev) \<Rightarrow>
      (let active = unexpired_claim (co_taskId ob) tenantId now d in
       case summarizeTaskCost env (co_taskId ob) tenantId (map_option c_id active) False d of Inl e \<Rightarrow> Inl e | Inr s \<Rightarrow>
       (case release_at_bound env tenantId actor p (co_taskId ob) s active now d of Inl e \<Rightarrow> Inl e
        | Inr (d, released, evs) \<Rightarrow>
        (case saveIdempotencyResult identity \<lparr>o_resultType = ''attempt_cost_observation'', o_resultId = xid,
                o_resultStatus = Some ''recorded'', o_resultRevision = None, o_eventSequence = Some (ev_sequence ev)\<rparr> d of
           Inl e \<Rightarrow> Inl e
         | Inr d \<Rightarrow> Inr (d, \<lparr>cx_observation = ob, cx_externalRef = r, cx_summary = s, cx_replayed = False,
              cx_claimReleased = released\<rparr>, ev # evs))))))"

definition fresh_cost ::
  "env \<Rightarrow> string \<Rightarrow> service_context \<Rightarrow> cost_observation \<Rightarrow> prepared_idempotency option \<Rightarrow> int \<Rightarrow> db \<Rightarrow>
    err + db \<times> cost_result \<times> event list" where
  "fresh_cost env tenantId ctx ob identity now d =
     (case find (\<lambda>x. x_tenantId x = tenantId \<and> x_system x = co_meterUri ob \<and>
              x_resourceType x = ATTEMPT_COST_OBSERVATION_URI \<and> x_externalId x = co_observationId ob) (externalRefs d) of
        Some r \<Rightarrow>
          if x_digest r \<noteq> Some (sha256Digest env (canonicalJson (JObj (observation_json ob)))) \<or>
             x_recordId r \<noteq> co_attemptId ob
          then Inl (Refused ''Cost observation identity already exists with different bytes'' [co_observationId ob])
          else replay_cost env tenantId ob r d
      | None \<Rightarrow>
        (case require_costed_task (co_taskId ob) tenantId d of Inl e \<Rightarrow> Inl e | Inr t \<Rightarrow>
        (case budgetFromTask t of Inl e \<Rightarrow> Inl e | Inr budget \<Rightarrow>
         if (case budget of None \<Rightarrow> False | Some b \<Rightarrow> cb_currency b \<noteq> co_currency ob)
         then Inl (Refused ''Cost observation currency does not match budget'' [co_currency ob])
         else case resolveAttribution env (ctx_principalId ctx) tenantId (actor_of ctx) now d of Inl e \<Rightarrow> Inl e
         | Inr (d, p) \<Rightarrow> write_cost env tenantId (actor_of ctx) ob identity p now d)))"

definition recordCostTx ::
  "env \<Rightarrow> string \<Rightarrow> service_context \<Rightarrow> cost_observation \<Rightarrow> prepared_idempotency option \<Rightarrow> int \<Rightarrow> db \<Rightarrow>
    err + db \<times> cost_result \<times> event list" where
  "recordCostTx env tenantId ctx ob identity now d0 =
     (case findIdempotencyResult identity d0 of Inl e \<Rightarrow> Inl e
      | Inr (d, Some prior) \<Rightarrow>
          (case find (\<lambda>x. x_tenantId x = tenantId \<and> x_id x = ik_resultId prior) (externalRefs d) of
             None \<Rightarrow> Inl (Refused ''Idempotency record points at missing cost receipt'' [ik_resultId prior])
           | Some r \<Rightarrow> replay_cost env tenantId ob r d)
      | Inr (d, None) \<Rightarrow> fresh_cost env tenantId ctx ob identity now d)"

definition recordAttemptCost ::
  "env \<Rightarrow> string \<Rightarrow> cost_input \<Rightarrow> service_context \<Rightarrow> db \<Rightarrow> db \<times> (err + cost_result)" where
  "recordAttemptCost env attemptId i ctx d =
     (let tenantId = tenant_of ctx in
      prologue (if \<not> cost_input_ok i then Inl (InvalidInput ''AttemptCostObservation'')
        else case serviceNow ctx of Inl e \<Rightarrow> Inl e | Inr now \<Rightarrow>
        (case find (\<lambda>a. a_tenantId a = tenantId \<and> a_id a = attemptId) (attempts d) of
           None \<Rightarrow> Inl (Refused ''Attempt not found'' [attemptId])
         | Some a \<Rightarrow>
           (let ob = observation_of i a in
            case prepareIdempotency env (ctx\<lparr>ctx_tenantId := Some tenantId, ctx_actor := Some (actor_of ctx)\<rparr>)
                   ''attempt-cost.record'' (JObj (observation_json ob)) now (Some Durable) None None of
              Inl e \<Rightarrow> Inl e | Inr identity \<Rightarrow> Inr (ob, identity, now))))
      (\<lambda>(ob, identity, now). runInTransaction (recordCostTx env tenantId ctx ob identity now)) d)"

section \<open>What the totals are\<close>

text \<open>The observed cost of a task in a currency: the plain sum over its receipts.\<close>

fun observed_in :: "string \<Rightarrow> (external_ref \<times> string option) list \<Rightarrow> int" where
  "observed_in cur [] = 0"
| "observed_in cur ((x, c) # rest) = (case observationFromRef x of
      Inr (Some ob) \<Rightarrow> (if co_currency ob = cur then BigInt (co_grossMicros ob) else 0) + observed_in cur rest
    | _ \<Rightarrow> observed_in cur rest)"

definition observed_cost :: "string \<Rightarrow> string \<Rightarrow> string \<Rightarrow> db \<Rightarrow> int" where
  "observed_cost cur tid tenantId d = observed_in cur (costRefsForTask tid tenantId d)"

lemma map_of_bump:
  "map_of (map (\<lambda>(k, v). if k = cur then (k, v + n) else (k, v)) m) k =
    (if k = cur then map_option (\<lambda>v. v + n) (map_of m k) else map_of m k)"
  by (induction m) auto

lemma total_add: "total_in k (add_total cur n m) = total_in k m + (if k = cur then n else 0)"
proof (cases "cur \<in> fst ` set m")
  case True
  then have "map_of m cur \<noteq> None" by (simp add: map_of_eq_None_iff)
  with True show ?thesis by (auto simp: total_in_def add_total_def map_of_bump)
next
  case False
  then have "map_of m cur = None" by (simp add: map_of_eq_None_iff)
  with False show ?thesis by (auto simp: total_in_def add_total_def map_add_def split: option.splits)
qed

lemma sum_refs_total:
  "sum_refs cid refs m b = Inr (m', b') \<Longrightarrow> total_in cur m' = total_in cur m + observed_in cur refs"
proof (induction cid refs m b arbitrary: m' b' rule: sum_refs.induct)
  case (2 cid x c rest totals metered)
  then show ?case by (auto simp: total_add res split: sum.splits option.splits)
qed simp

text \<open>The gate as a condition on the observed cost.\<close>

definition within_budget :: "cost_budget \<Rightarrow> int \<Rightarrow> bool" where
  "within_budget b spent \<longleftrightarrow> spent < BigInt (cb_maxGrossMicros b) \<and>
     spent + BigInt (cb_renewalReserveMicros b) \<le> BigInt (cb_maxGrossMicros b)"

lemma summarize_allowed:
  assumes "summarizeTaskCost env tid tn cid enforce d = Inr s"
  obtains t where "task_row tid tn d = Some t" "t_deletedAt t = None"
    "budgetFromTask t = Inr (su_budget s)"
    "su_allowed s \<longleftrightarrow> (case su_budget s of None \<Rightarrow> True | Some b \<Rightarrow>
        \<not> meter_denied b enforce (su_currentClaimMetered s) \<and>
        within_budget b (observed_cost (cb_currency b) tid tn d))"
proof -
  obtain t budget totals metered where t: "require_costed_task tid tn d = Inr t" "budgetFromTask t = Inr budget"
    and sum: "sum_refs cid (costRefsForTask tid tn d) [] False = Inr (totals, metered)"
    and s: "s = build_summary env tid cid enforce budget totals metered (length (costRefsForTask tid tn d))"
    using assms by (auto simp: summarizeTaskCost_def Let_def res)
  have total: "total_in cur totals = observed_cost cur tid tn d" for cur
    using sum_refs_total [OF sum, of cur] by (simp add: total_in_def observed_cost_def)
  have row: "task_row tid tn d = Some t" "t_deletedAt t = None"
    using t(1) by (auto simp: require_costed_task_def res)
  have bud: "budgetFromTask t = Inr (su_budget s)"
    using t(2) s by (auto simp: build_summary_def Let_def split: option.splits)
  have ok: "su_allowed s \<longleftrightarrow> (case su_budget s of None \<Rightarrow> True | Some b \<Rightarrow>
        \<not> meter_denied b enforce (su_currentClaimMetered s) \<and>
        within_budget b (observed_cost (cb_currency b) tid tn d))"
    using s by (auto simp: build_summary_def Let_def total bound_denied_def within_budget_def split: option.splits)
  from that [OF row bud ok] show ?thesis .
qed

lemma gate_allowed:
  "assertTaskCostAllowsClaim env tid tn cid renewal d = Inr s \<Longrightarrow>
    summarizeTaskCost env tid tn cid renewal d = Inr s \<and> su_allowed s"
  by (auto simp: assertTaskCostAllowsClaim_def res)

section \<open>Frames\<close>

lemma insert_external_ref_Inr: "insert_external_ref r d = Inr d' \<Longrightarrow> d' = d\<lparr>externalRefs := externalRefs d @ [r]\<rparr>"
  by (simp add: insert_external_ref_def res)

text \<open>What a release at the bound did: the active claim was closed, or nothing happened to claims.\<close>

lemma release_at_bound_claims:
  assumes "release_at_bound env tn actor p tid s active now d = Inr (d', rel, evs)"
  shows "tasks d' = tasks d \<and> attempts d' = attempts d \<and> externalRefs d' = externalRefs d \<and>
    claims d' = (case active of None \<Rightarrow> claims d | Some c \<Rightarrow>
      if su_allowed s then claims d else update_rows (\<lambda>x. c_id x = c_id c) (close_claim ''cost_bound_reached'' now) (claims d))"
  using assms unfolding release_at_bound_def
  by (auto simp: res split: option.splits if_splits dest!: update_claims_Inr recordEvent_frame)

end
