(* ===== verification/Claims.thy ===== *)
theory Claims
  imports Costs Assumptions Sample_Ledger
begin

text \<open>
  Claims (\<open>packages/tasq-core/src/service/agentic.ts\<close>): acquiring or renewing the exclusive lease on a
  commitment, releasing it, and reading it. A claim is refused on a terminal, invalidated, paused or
  blocked commitment, when another principal holds a live claim, and when the cost bound is reached;
  an expired claim is closed by whoever acquires the next one, whose fence is greater.
\<close>

section \<open>Options and gates\<close>

definition MIN_LEASE_MS :: int where "MIN_LEASE_MS = 1000"
definition MAX_LEASE_MS :: int where "MAX_LEASE_MS = 7 * 24 * 60 * 60 * 1000"
definition DEFAULT_LEASE_MS :: int where "DEFAULT_LEASE_MS = 30 * 60 * 1000"

definition validateUnixMs :: "int \<Rightarrow> string \<Rightarrow> err + int" where
  "validateUnixMs v label = (if \<not> isSafeInteger v \<or> v < 0
     then Inl (Refused (label @ '' must be a non-negative unix-ms integer'') []) else Inr v)"

definition validateLeaseMs :: "int option \<Rightarrow> err + int" where
  "validateLeaseMs v = (let ms = or_else v DEFAULT_LEASE_MS in
     if \<not> isSafeInteger ms \<or> ms < MIN_LEASE_MS \<or> ms > MAX_LEASE_MS
     then Inl (Refused ''leaseMs must be an integer between bounds'' []) else Inr ms)"

definition retryIdentity ::
  "env \<Rightarrow> service_context \<Rightarrow> string \<Rightarrow> json \<Rightarrow> int \<Rightarrow> err + prepared_idempotency option" where
  "retryIdentity env ctx operation request now = prepareIdempotency env ctx operation request now None None
     (Some (JObj [(''operation'', JStr operation), (''request'', request)]))"

definition priorResultId :: "prepared_idempotency option \<Rightarrow> db \<Rightarrow> err + db \<times> string option" where
  "priorResultId identity d = (case findIdempotencyResult identity d of Inl e \<Rightarrow> Inl e
     | Inr (d, prior) \<Rightarrow> Inr (d, map_option ik_resultId prior))"

definition storeRetryIdentity ::
  "prepared_idempotency option \<Rightarrow> string \<Rightarrow> string \<Rightarrow> string option \<Rightarrow> int option \<Rightarrow> int option \<Rightarrow> db \<Rightarrow> err + db" where
  "storeRetryIdentity identity ty rid status revision eventSequence d = saveIdempotencyResult identity
     \<lparr>o_resultType = ty, o_resultId = rid, o_resultStatus = status, o_resultRevision = revision,
      o_eventSequence = eventSequence\<rparr> d"

definition requireLiveTask :: "string \<Rightarrow> string \<Rightarrow> db \<Rightarrow> err + task" where
  "requireLiveTask tid tenantId d = (case getTask tid tenantId d of Inl e \<Rightarrow> Inl e
     | Inr None \<Rightarrow> Inl (Refused ''Task not found'' [tid])
     | Inr (Some t) \<Rightarrow> if truthy_num (t_deletedAt t) then Inl (Refused ''Task is deleted'' [tid]) else Inr t)"

definition resolveCallerPrincipal ::
  "env \<Rightarrow> string \<Rightarrow> service_context \<Rightarrow> string \<Rightarrow> int \<Rightarrow> db \<Rightarrow> err + db \<times> principal" where
  "resolveCallerPrincipal env tenantId ctx actor now d = resolveAttribution env (ctx_principalId ctx) tenantId actor now d"

definition TASK_PREMISE_INVALIDATION_URI :: string where
  "TASK_PREMISE_INVALIDATION_URI = ''https://tasq.run/contracts/task-premise-invalidation/v1''"

text \<open>The premise gate (\<open>premises.ts\<close>): no invalidation is attached to the commitment.\<close>

definition invalidation_of :: "string \<Rightarrow> string \<Rightarrow> external_ref \<Rightarrow> bool" where
  "invalidation_of tid tenantId x \<longleftrightarrow> x_tenantId x = tenantId \<and> x_recordType x = ''commitment'' \<and>
     x_recordId x = tid \<and> x_resourceType x = TASK_PREMISE_INVALIDATION_URI"

definition assertTaskPremiseActionable :: "string \<Rightarrow> string \<Rightarrow> db \<Rightarrow> err + unit" where
  "assertTaskPremiseActionable tid tenantId d =
     (if list_ex (invalidation_of tid tenantId) (externalRefs d)
      then Inl (Refused ''Task premise is invalidated'' [tid]) else Inr ())"

section \<open>Reading\<close>

definition getTaskClaim :: "string \<Rightarrow> string \<Rightarrow> db \<Rightarrow> task_claim option" where
  "getTaskClaim cid tenantId d = find (\<lambda>c. c_id c = cid \<and> c_tenantId c = tenantId) (claims d)"

definition getActiveTaskClaim :: "string \<Rightarrow> string \<Rightarrow> int \<Rightarrow> db \<Rightarrow> task_claim option" where
  "getActiveTaskClaim tid tenantId now d = find (live_claim tid tenantId now) (claims d)"

record list_claims_options =
  lc_ctx :: service_context
  lc_activeOnly :: bool
  lc_actorFilter :: "string option"

definition listTaskClaims :: "string option \<Rightarrow> list_claims_options \<Rightarrow> db \<Rightarrow> err + task_claim list" where
  "listTaskClaims tid opts d =
     (case (if lc_activeOnly opts then (case serviceNow (lc_ctx opts) of Inl e \<Rightarrow> Inl e | Inr now \<Rightarrow> Inr (Some now))
            else Inr None) of Inl e \<Rightarrow> Inl e | Inr now \<Rightarrow>
      Inr (sort_key (\<lambda>c. - c_createdAt c) (filter (\<lambda>c. c_tenantId c = tenant_of (lc_ctx opts) \<and>
         (truthy_str tid \<longrightarrow> Some (c_taskId c) = tid) \<and>
         (truthy_str (lc_actorFilter opts) \<longrightarrow> Some (c_actor c) = lc_actorFilter opts) \<and>
         (case now of None \<Rightarrow> True | Some n \<Rightarrow> c_releasedAt c = None \<and> c_expiresAt c > n)) (claims d))))"

definition activeTaskClaimMap :: "string \<Rightarrow> int \<Rightarrow> db \<Rightarrow> string \<rightharpoonup> task_claim" where
  "activeTaskClaimMap tenantId now d = map_of (rev (map (\<lambda>c. (c_taskId c, c))
     (filter (\<lambda>c. c_tenantId c = tenantId \<and> c_releasedAt c = None \<and> c_expiresAt c > now) (claims d))))"

section \<open>Acquiring\<close>

record acquire_options =
  ac_ctx :: service_context
  ac_leaseMs :: "int option"
  ac_metadata :: "metadata option"
  ac_force :: bool

definition acquire_request :: "string \<Rightarrow> acquire_options \<Rightarrow> int \<Rightarrow> json" where
  "acquire_request tid opts leaseMs = JObj
     [(''taskId'', JStr tid), (''actor'', JStr (actor_of (ac_ctx opts))),
      (''principalId'', nullable JStr (ctx_principalId (ac_ctx opts))), (''leaseMs'', JInt leaseMs),
      (''metadata'', JObj (or_else (ac_metadata opts) []))]"

text \<open>The gates of an acquisition, up to the claim that stands; it returns that claim.\<close>

definition clock_guard :: "task_claim option \<Rightarrow> int \<Rightarrow> err + unit" where
  "clock_guard current now = (case current of None \<Rightarrow> Inr () | Some c \<Rightarrow>
     if now < c_heartbeatAt c then Inl (Refused ''Claim clock moved backwards'' []) else Inr ())"

definition holder_guard :: "string \<Rightarrow> string \<Rightarrow> string \<Rightarrow> string \<Rightarrow> task_claim option \<Rightarrow> int \<Rightarrow> err + unit" where
  "holder_guard tid tenantId pid actor current now = (case current of None \<Rightarrow> Inr () | Some c \<Rightarrow>
     if c_expiresAt c > now \<and> \<not> held_by pid actor c
     then Inl (Contended \<lparr>f_tenantId = tenantId, f_commitmentId = tid, f_kind = ''claim_held_by_another'',
            f_requestedByPrincipalId = pid, f_requestedByLabel = actor,
            f_holderPrincipalId = or_else (c_principalId c) [], f_holderLabel = c_actor c\<rparr>)
     else Inr ())"

definition acquire_gates ::
  "env \<Rightarrow> string \<Rightarrow> string \<Rightarrow> task \<Rightarrow> string \<Rightarrow> string \<Rightarrow> bool \<Rightarrow> int \<Rightarrow> db \<Rightarrow> err + task_claim option" where
  "acquire_gates env tid tenantId t pid actor force now d =
     (if terminal (t_status t) then Inl (Refused ''Cannot claim terminal task'' [tid])
      else case assertTaskPremiseActionable tid tenantId d of Inl e \<Rightarrow> Inl e | Inr _ \<Rightarrow>
      (case assertCommitmentNotPaused tid tenantId d of Inl e \<Rightarrow> Inl e | Inr _ \<Rightarrow>
      (case (if force then Inr () else assertBlockersResolved tid tenantId pid actor d) of Inl e \<Rightarrow> Inl e | Inr _ \<Rightarrow>
      (let current = find (unreleased_claim tid tenantId) (claims d);
           renewal = (case current of None \<Rightarrow> False | Some c \<Rightarrow> c_expiresAt c > now) in
       case clock_guard current now of Inl e \<Rightarrow> Inl e | Inr _ \<Rightarrow>
       (case holder_guard tid tenantId pid actor current now of Inl e \<Rightarrow> Inl e | Inr _ \<Rightarrow>
       (case assertTaskCostAllowsClaim env tid tenantId (map_option c_id current) renewal d of Inl e \<Rightarrow> Inl e
        | Inr _ \<Rightarrow> Inr current))))))"

text \<open>Renewal of the caller's live claim.\<close>

definition claim_status :: "task_claim \<Rightarrow> string" where
  "claim_status c = (if truthy_str (c_releaseReason c) then ''released'' else ''active'')"

definition renewTx ::
  "env \<Rightarrow> string \<Rightarrow> string \<Rightarrow> string \<Rightarrow> string \<Rightarrow> int option \<Rightarrow> task_claim \<Rightarrow> prepared_idempotency option \<Rightarrow> int \<Rightarrow> int \<Rightarrow>
    db \<Rightarrow> err + db \<times> task_claim \<times> event list" where
  "renewTx env tid tenantId pid actor expectedRevision c identity now expiresAt d =
     (let hit = (\<lambda>x. c_id x = c_id c \<and> revision_matches expectedRevision (c_revision x)) in
      case update_claims hit (renew_claim now expiresAt) d of Inl e \<Rightarrow> Inl e
      | Inr d' \<Rightarrow>
        if expectedRevision \<noteq> None \<and> \<not> list_ex hit (claims d) then Inl (Refused ''Stale claim revision'' [])
        else case find (\<lambda>x. c_id x = c_id c) (claims d') of None \<Rightarrow> Inl (InvalidInput ''task_claim'')
        | Some renewed \<Rightarrow>
          (case recordEvent env (task_event tenantId actor (Some pid) tid ''claim_renewed''
                 [(''after'', JObj [(''claimId'', JStr (c_id renewed)), (''expiresAt'', JInt (c_expiresAt renewed))])])
                 now d' of Inl e \<Rightarrow> Inl e | Inr (d', ev) \<Rightarrow>
          (case storeRetryIdentity identity ''task_claim'' (c_id renewed) (Some (claim_status renewed))
                 (Some (c_revision renewed)) (Some (ev_sequence ev)) d' of Inl e \<Rightarrow> Inl e
           | Inr d' \<Rightarrow> Inr (d', renewed, [ev]))))"

definition claim_fence :: "string \<Rightarrow> string \<Rightarrow> db \<Rightarrow> int" where
  "claim_fence tid tenantId d =
     top_fence (map c_fence (filter (\<lambda>c. c_tenantId c = tenantId \<and> c_taskId c = tid) (claims d))) + 1"

definition new_claim ::
  "string \<Rightarrow> string \<Rightarrow> string \<Rightarrow> string \<Rightarrow> string \<Rightarrow> int \<Rightarrow> metadata \<Rightarrow> int \<Rightarrow> int \<Rightarrow> task_claim" where
  "new_claim cid tid tenantId pid actor fence md now expiresAt =
     \<lparr>c_id = cid, c_tenantId = tenantId, c_taskId = tid, c_actor = actor, c_principalId = Some pid, c_revision = 1,
      c_fence = fence, c_acquiredAt = now, c_heartbeatAt = now, c_expiresAt = expiresAt, c_releasedAt = None,
      c_releaseReason = None, c_metadata = md, c_createdAt = now, c_updatedAt = now\<rparr>"

text \<open>A new claim, after the expired one is closed in the same transaction.\<close>

definition replaceTx ::
  "env \<Rightarrow> string \<Rightarrow> string \<Rightarrow> string \<Rightarrow> string \<Rightarrow> metadata \<Rightarrow> task_claim option \<Rightarrow> prepared_idempotency option \<Rightarrow>
    int \<Rightarrow> int \<Rightarrow> db \<Rightarrow> err + db \<times> task_claim \<times> event list" where
  "replaceTx env tid tenantId pid actor md current identity now expiresAt d0 =
     (case (case current of None \<Rightarrow> Inr d0
            | Some c \<Rightarrow> update_claims (\<lambda>x. c_id x = c_id c) (close_claim ''expired'' now) d0) of Inl e \<Rightarrow> Inl e
      | Inr d \<Rightarrow>
        (let fence = claim_fence tid tenantId d; (d, cid) = fresh_id env now d;
             c = new_claim cid tid tenantId pid actor fence md now expiresAt in
         case insert_claim c d of Inl e \<Rightarrow> Inl e | Inr d \<Rightarrow>
         (case recordEvent env (task_event tenantId actor (Some pid) tid ''claim_acquired''
                ([(''after'', JObj [(''claimId'', JStr cid), (''fence'', JInt fence), (''expiresAt'', JInt expiresAt)])] @
                 (case current of None \<Rightarrow> [] | Some o' \<Rightarrow> [(''before'',
                    JObj [(''expiredClaimId'', JStr (c_id o')), (''actor'', JStr (c_actor o'))])]))) now d of
            Inl e \<Rightarrow> Inl e | Inr (d, ev) \<Rightarrow>
         (case storeRetryIdentity identity ''task_claim'' cid (Some ''active'') (Some (c_revision c))
                (Some (ev_sequence ev)) d of Inl e \<Rightarrow> Inl e
          | Inr d \<Rightarrow> Inr (d, c, [ev])))))"

definition prior_claim :: "string \<Rightarrow> string \<Rightarrow> db \<Rightarrow> err + task_claim" where
  "prior_claim tenantId cid d = (case getTaskClaim cid tenantId d of
      None \<Rightarrow> Inl (Refused ''Idempotency record points at missing claim'' [cid]) | Some c \<Rightarrow> Inr c)"

definition acquire_fresh ::
  "env \<Rightarrow> string \<Rightarrow> acquire_options \<Rightarrow> prepared_idempotency option \<Rightarrow> int \<Rightarrow> int \<Rightarrow> db \<Rightarrow>
    err + db \<times> task_claim \<times> event list" where
  "acquire_fresh env tid opts identity now expiresAt d =
     (let ctx = ac_ctx opts; tenantId = tenant_of ctx; actor = actor_of ctx in
      case requireLiveTask tid tenantId d of Inl e \<Rightarrow> Inl e | Inr t \<Rightarrow>
      (case resolveCallerPrincipal env tenantId ctx actor now d of Inl e \<Rightarrow> Inl e | Inr (d, p) \<Rightarrow>
      (case acquire_gates env tid tenantId t (p_id p) actor (ac_force opts) now d of Inl e \<Rightarrow> Inl e
       | Inr current \<Rightarrow>
         (case current of
            Some c \<Rightarrow> if c_expiresAt c > now
              then renewTx env tid tenantId (p_id p) actor (ctx_expectedRevision ctx) c identity now expiresAt d
              else replaceTx env tid tenantId (p_id p) actor (or_else (ac_metadata opts) []) current identity now expiresAt d
          | None \<Rightarrow> replaceTx env tid tenantId (p_id p) actor (or_else (ac_metadata opts) []) None identity now expiresAt d))))"

definition acquireTx ::
  "env \<Rightarrow> string \<Rightarrow> acquire_options \<Rightarrow> prepared_idempotency option \<Rightarrow> int \<Rightarrow> int \<Rightarrow> db \<Rightarrow>
    err + db \<times> task_claim \<times> event list" where
  "acquireTx env tid opts identity now expiresAt d0 = (case priorResultId identity d0 of Inl e \<Rightarrow> Inl e
      | Inr (d, priorId) \<Rightarrow>
          replayed (prior_claim (tenant_of (ac_ctx opts))) (acquire_fresh env tid opts identity now expiresAt) priorId d)"

definition acquire_prologue ::
  "env \<Rightarrow> string \<Rightarrow> acquire_options \<Rightarrow> err + int \<times> int \<times> prepared_idempotency option" where
  "acquire_prologue env tid opts =
     (let ctx = ac_ctx opts in
      case serviceNow ctx of Inl e \<Rightarrow> Inl e | Inr now0 \<Rightarrow>
      (case validateUnixMs now0 ''now'' of Inl e \<Rightarrow> Inl e | Inr now \<Rightarrow>
      (case validateLeaseMs (ac_leaseMs opts) of Inl e \<Rightarrow> Inl e | Inr leaseMs \<Rightarrow>
       if \<not> isSafeInteger (now + leaseMs) then Inl (Refused ''Lease expiry exceeds unix-ms range'' [])
       else case retryIdentity env (ctx\<lparr>ctx_tenantId := Some (tenant_of ctx)\<rparr>) ''claim.acquire''
              (acquire_request tid opts leaseMs) now of Inl e \<Rightarrow> Inl e
       | Inr identity \<Rightarrow> Inr (now, now + leaseMs, identity))))"

definition acquireTaskClaim :: "env \<Rightarrow> string \<Rightarrow> acquire_options \<Rightarrow> db \<Rightarrow> db \<times> (err + task_claim)" where
  "acquireTaskClaim env tid opts = prologue (acquire_prologue env tid opts)
     (\<lambda>(now, expiresAt, identity). withContentionRecorded now
        (runInTransaction (acquireTx env tid opts identity now expiresAt)))"

section \<open>Releasing\<close>

record release_options =
  rl_ctx :: service_context
  rl_reason :: "string option"
  rl_force :: bool

definition release_request :: "string \<Rightarrow> release_options \<Rightarrow> json" where
  "release_request tid opts = JObj
     [(''taskId'', JStr tid), (''actor'', JStr (actor_of (rl_ctx opts))),
      (''principalId'', nullable JStr (ctx_principalId (rl_ctx opts))),
      (''expectedRevision'', nullable JInt (ctx_expectedRevision (rl_ctx opts))),
      (''reason'', nullable JStr (rl_reason opts)), (''force'', JBool (rl_force opts))]"

definition release_write ::
  "env \<Rightarrow> string \<Rightarrow> release_options \<Rightarrow> prepared_idempotency option \<Rightarrow> task_claim \<Rightarrow> principal \<Rightarrow> int \<Rightarrow> db \<Rightarrow>
    err + db \<times> task_claim \<times> event list" where
  "release_write env tid opts identity c p now d =
     (let ctx = rl_ctx opts;
          hit = (\<lambda>x. c_id x = c_id c \<and> revision_matches (ctx_expectedRevision ctx) (c_revision x)) in
      case update_claims hit (close_claim
            (or_else (rl_reason opts) (if c_expiresAt c \<le> now then ''expired'' else ''released'')) now) d of
        Inl e \<Rightarrow> Inl e
      | Inr d' \<Rightarrow>
        if ctx_expectedRevision ctx \<noteq> None \<and> \<not> list_ex hit (claims d) then Inl (Refused ''Stale claim revision'' [])
        else case find (\<lambda>x. c_id x = c_id c) (claims d') of None \<Rightarrow> Inl (InvalidInput ''task_claim'')
        | Some released \<Rightarrow>
          (case recordEvent env (task_event (tenant_of ctx) (actor_of ctx) (Some (p_id p)) tid ''claim_released''
                 ([(''before'', JObj [(''claimId'', JStr (c_id c)), (''actor'', JStr (c_actor c)),
                     (''expiresAt'', JInt (c_expiresAt c))])] @
                  (if truthy_str (rl_reason opts) then [(''reason'', JStr (the (rl_reason opts)))] else []))) now d' of
             Inl e \<Rightarrow> Inl e | Inr (d', ev) \<Rightarrow>
          (case storeRetryIdentity identity ''task_claim'' (c_id released) (Some ''released'')
                 (Some (c_revision released)) (Some (ev_sequence ev)) d' of Inl e \<Rightarrow> Inl e
           | Inr d' \<Rightarrow> Inr (d', released, [ev]))))"

definition release_fresh ::
  "env \<Rightarrow> string \<Rightarrow> release_options \<Rightarrow> prepared_idempotency option \<Rightarrow> int \<Rightarrow> db \<Rightarrow> err + db \<times> task_claim \<times> event list" where
  "release_fresh env tid opts identity now d0 =
     (let ctx = rl_ctx opts; tenantId = tenant_of ctx; actor = actor_of ctx in
      case requireLiveTask tid tenantId d0 of Inl e \<Rightarrow> Inl e | Inr _ \<Rightarrow>
      (case find (unreleased_claim tid tenantId) (claims d0) of
         None \<Rightarrow> Inl (Refused ''Task has no unreleased claim'' [tid])
       | Some c \<Rightarrow>
         if now < c_acquiredAt c then Inl (Refused ''Release time precedes claim acquisition'' [])
         else case resolveCallerPrincipal env tenantId ctx actor now d0 of Inl e \<Rightarrow> Inl e | Inr (d, p) \<Rightarrow>
         if \<not> held_by (p_id p) actor c \<and> \<not> rl_force opts
         then Inl (Refused ''Claim belongs to another actor'' [c_actor c])
         else release_write env tid opts identity c p now d))"

definition releaseTx ::
  "env \<Rightarrow> string \<Rightarrow> release_options \<Rightarrow> prepared_idempotency option \<Rightarrow> int \<Rightarrow> db \<Rightarrow> err + db \<times> task_claim \<times> event list" where
  "releaseTx env tid opts identity now d0 = (case priorResultId identity d0 of Inl e \<Rightarrow> Inl e
      | Inr (d, priorId) \<Rightarrow>
          replayed (prior_claim (tenant_of (rl_ctx opts))) (release_fresh env tid opts identity now) priorId d)"

definition releaseTaskClaim :: "env \<Rightarrow> string \<Rightarrow> release_options \<Rightarrow> db \<Rightarrow> db \<times> (err + task_claim)" where
  "releaseTaskClaim env tid opts =
     (let ctx = rl_ctx opts in prologue
      (case serviceNow ctx of Inl e \<Rightarrow> Inl e | Inr now0 \<Rightarrow>
      (case validateUnixMs now0 ''now'' of Inl e \<Rightarrow> Inl e | Inr now \<Rightarrow>
      (case retryIdentity env (ctx\<lparr>ctx_tenantId := Some (tenant_of ctx)\<rparr>) ''claim.release''
            (release_request tid opts) now of Inl e \<Rightarrow> Inl e | Inr identity \<Rightarrow> Inr (now, identity))))
      (\<lambda>(now, identity). runInTransaction (releaseTx env tid opts identity now)))"

section \<open>What the operations do to the table\<close>

lemma storeRetryIdentity_frame: "storeRetryIdentity i ty r st rv sq d = Inr d' \<Longrightarrow> \<exists>xs. d' = d\<lparr>idems := xs\<rparr>"
  unfolding storeRetryIdentity_def by (rule saveIdempotencyResult_frame)

lemma priorResultId_frame: "priorResultId i d = Inr (d', p) \<Longrightarrow> \<exists>xs. d' = d\<lparr>idems := xs\<rparr>"
  by (auto simp: priorResultId_def res dest!: findIdempotencyResult_frame)

lemma resolveCaller_frame: "resolveCallerPrincipal env tn ctx actor now d = Inr (d', p) \<Longrightarrow> \<exists>ps. d' = d\<lparr>principals := ps\<rparr>"
  unfolding resolveCallerPrincipal_def using resolveAttribution_frame by blast

lemma insert_claim_Inr:
  "insert_claim c d = Inr d' \<Longrightarrow> d' = d\<lparr>claims := claims d @ [c]\<rparr> \<and> (\<forall>x \<in> set (claims d). c_id x \<noteq> c_id c) \<and> claim_check c"
  by (simp add: insert_claim_def res)

lemma renewTx_result:
  assumes "renewTx env tid tn pid actor rv c identity now ex d = Inr (d', c', evs)"
  shows "claims d' = update_rows (\<lambda>x. c_id x = c_id c \<and> revision_matches rv (c_revision x)) (renew_claim now ex) (claims d) \<and>
    find (\<lambda>x. c_id x = c_id c) (claims d') = Some c'"
  using assms unfolding renewTx_def
  by (auto simp: Let_def res dest!: update_claims_Inr recordEvent_frame storeRetryIdentity_frame)

definition after_expiry :: "task_claim option \<Rightarrow> int \<Rightarrow> task_claim list \<Rightarrow> task_claim list" where
  "after_expiry current now cs = (case current of None \<Rightarrow> cs
     | Some c \<Rightarrow> update_rows (\<lambda>x. c_id x = c_id c) (close_claim ''expired'' now) cs)"

lemma replaceTx_result:
  assumes "replaceTx env tid tn pid actor md current identity now ex d = Inr (d', c', evs)"
  shows "claims d' = after_expiry current now (claims d) @ [c'] \<and>
    (\<exists>cid. c' = new_claim cid tid tn pid actor
       (claim_lease.next_fence (tn, tid) (after_expiry current now (claims d))) md now ex) \<and>
    (\<forall>x \<in> set (claims d). c_id x \<noteq> c_id c')"
proof -
  obtain d1 where 1: "(case current of None \<Rightarrow> Inr d
            | Some c \<Rightarrow> update_claims (\<lambda>x. c_id x = c_id c) (close_claim ''expired'' now) d) = Inr d1"
    using assms unfolding replaceTx_def by (auto simp: res)
  then have d1: "d1 = d\<lparr>claims := after_expiry current now (claims d)\<rparr>"
    by (cases current) (auto simp: after_expiry_def dest!: update_claims_Inr)
  have "map c_id (after_expiry current now (claims d)) = map c_id (claims d)"
    by (cases current) (auto simp: after_expiry_def intro: map_update_rows)
  then have ids: "(\<forall>x \<in> set (after_expiry current now (claims d)). c_id x \<noteq> i) \<longleftrightarrow> (\<forall>x \<in> set (claims d). c_id x \<noteq> i)" for i
    by (metis (no_types, lifting) image_iff list.set_map)
  show ?thesis
    using assms unfolding replaceTx_def 1
    by (auto simp: Let_def res fresh_id_def d1 claim_fence_def claim_lease.next_fence_def ids conj_commute new_claim_def
      dest!: insert_claim_Inr recordEvent_frame storeRetryIdentity_frame)
qed

lemma acquire_fresh_cases:
  assumes "acquire_fresh env tid opts identity now ex d = Inr (d', c, evs)"
  obtains t p ps current where "requireLiveTask tid (tenant_of (ac_ctx opts)) d = Inr t"
    "resolveCallerPrincipal env (tenant_of (ac_ctx opts)) (ac_ctx opts) (actor_of (ac_ctx opts)) now d
       = Inr (d\<lparr>principals := ps\<rparr>, p)"
    "acquire_gates env tid (tenant_of (ac_ctx opts)) t (p_id p) (actor_of (ac_ctx opts)) (ac_force opts) now
       (d\<lparr>principals := ps\<rparr>) = Inr current"
    "(\<exists>c0. current = Some c0 \<and> c_expiresAt c0 > now \<and>
        renewTx env tid (tenant_of (ac_ctx opts)) (p_id p) (actor_of (ac_ctx opts))
          (ctx_expectedRevision (ac_ctx opts)) c0 identity now ex (d\<lparr>principals := ps\<rparr>) = Inr (d', c, evs)) \<or>
     ((\<forall>c0. current = Some c0 \<longrightarrow> \<not> c_expiresAt c0 > now) \<and>
        replaceTx env tid (tenant_of (ac_ctx opts)) (p_id p) (actor_of (ac_ctx opts)) (or_else (ac_metadata opts) [])
          current identity now ex (d\<lparr>principals := ps\<rparr>) = Inr (d', c, evs))"
proof -
  obtain t d1 p current where 1: "requireLiveTask tid (tenant_of (ac_ctx opts)) d = Inr t"
    and 2: "resolveCallerPrincipal env (tenant_of (ac_ctx opts)) (ac_ctx opts) (actor_of (ac_ctx opts)) now d = Inr (d1, p)"
    and 3: "acquire_gates env tid (tenant_of (ac_ctx opts)) t (p_id p) (actor_of (ac_ctx opts)) (ac_force opts) now d1
       = Inr current"
    and 4: "(case current of
            Some c \<Rightarrow> if c_expiresAt c > now
              then renewTx env tid (tenant_of (ac_ctx opts)) (p_id p) (actor_of (ac_ctx opts))
                (ctx_expectedRevision (ac_ctx opts)) c identity now ex d1
              else replaceTx env tid (tenant_of (ac_ctx opts)) (p_id p) (actor_of (ac_ctx opts))
                (or_else (ac_metadata opts) []) current identity now ex d1
          | None \<Rightarrow> replaceTx env tid (tenant_of (ac_ctx opts)) (p_id p) (actor_of (ac_ctx opts))
                (or_else (ac_metadata opts) []) None identity now ex d1) = Inr (d', c, evs)"
    using assms unfolding acquire_fresh_def Let_def by (auto simp: res)
  obtain ps where "d1 = d\<lparr>principals := ps\<rparr>" using resolveCaller_frame [OF 2] by blast
  with 1 2 3 4 show ?thesis by (intro that [of t ps p current]) (auto split: option.splits if_splits)
qed

text \<open>What a passed acquisition knows.\<close>

lemma acquire_gates_Inr:
  assumes "acquire_gates env tid tn t pid actor force now d = Inr current"
  shows "\<not> terminal (t_status t)" "\<not> list_ex (invalidation_of tid tn) (externalRefs d)"
    "withdrawnLinksForTask tid tn d = []" "force \<or> unresolvedBlockers tid tn d = []"
    "current = find (unreleased_claim tid tn) (claims d)"
    "\<And>c. current = Some c \<Longrightarrow> c_heartbeatAt c \<le> now" "\<And>c. current = Some c \<Longrightarrow> c_expiresAt c > now \<Longrightarrow> held_by pid actor c"
    "\<exists>s. assertTaskCostAllowsClaim env tid tn (map_option c_id current)
        (case current of None \<Rightarrow> False | Some c \<Rightarrow> c_expiresAt c > now) d = Inr s"
  using assms unfolding acquire_gates_def assertTaskPremiseActionable_def not_paused_iff assertBlockersResolved_def
    clock_guard_def holder_guard_def
  by (auto simp: Let_def res not_paused_iff split: if_splits option.splits)

section \<open>The invariant\<close>

lemma after_expiry_table:
  assumes "claims_inv d" and cur: "current = find (unreleased_claim tid tn) (claims d)"
  shows "claim_lease.table_inv (after_expiry current now (claims d))"
    and "uniq_by c_id (after_expiry current now (claims d))"
    and "\<And>x. x \<in> set (after_expiry current now (claims d)) \<Longrightarrow> \<not> unreleased_claim tid tn x"
proof -
  show "claim_lease.table_inv (after_expiry current now (claims d))"
    using assms(1) claim_lease.table_inv_close [of "claims d" _ "(''expired'', now)"]
    by (auto simp: after_expiry_def claims_inv_def split: option.splits)
  show "uniq_by c_id (after_expiry current now (claims d))"
    using assms(1) by (auto simp: after_expiry_def claims_inv_def uniq_by_update_rows split: option.splits)
  fix x assume x: "x \<in> set (after_expiry current now (claims d))"
  show "\<not> unreleased_claim tid tn x"
  proof (cases current)
    case None
    with cur have "find (unreleased_claim tid tn) (claims d) = None" by simp
    with x None show ?thesis by (auto simp: after_expiry_def find_None_iff)
  next
    case (Some c)
    have c: "c \<in> set (claims d)" "unreleased_claim tid tn c" using find_SomeD [of _ _ c] cur Some by auto
    have "x \<in> set (update_rows (\<lambda>x. c_id x = c_id c) (close_claim ''expired'' now) (claims d))"
      using x Some by (simp add: after_expiry_def)
    then show ?thesis
    proof (cases rule: update_rows_cases)
      case (hit y)
      then show ?thesis by (simp add: unreleased_claim_def)
    next
      case other
      then show ?thesis using claims_exclusive [OF assms(1) other(1) c(1) _ c(2)] by blast
    qed
  qed
qed

lemma replace_claims_inv:
  assumes "claims_inv d" and "current = find (unreleased_claim tid tn) (claims d)"
    and "replaceTx env tid tn pid actor md current identity now ex d = Inr (d', c, evs)"
  shows "claims_inv d'"
proof -
  let ?cs = "after_expiry current now (claims d)"
  obtain cid where c: "c = new_claim cid tid tn pid actor (claim_lease.next_fence (tn, tid) ?cs) md now ex"
    and d': "claims d' = ?cs @ [c]" and new: "\<forall>x \<in> set (claims d). c_id x \<noteq> c_id c"
    using replaceTx_result [OF assms(3)] by blast
  note t = after_expiry_table [OF assms(1,2), where now = now]
  have "claim_lease.table_inv (?cs @ [c])"
  proof (rule claim_lease.table_inv_append [OF t(1)])
    fix x assume x: "x \<in> set ?cs" "(c_tenantId x, c_taskId x) = (c_tenantId c, c_taskId c)"
    then have "c_fence x < claim_lease.next_fence (tn, tid) ?cs"
      by (intro claim_lease.next_fence_greater) (simp_all add: c new_claim_def)
    moreover have "c_releasedAt x \<noteq> None" using t(3) [OF x(1)] x(2) by (auto simp: unreleased_claim_def c new_claim_def)
    ultimately show "c_fence x < c_fence c \<and> \<not> c_releasedAt x = None" by (simp add: c new_claim_def)
  qed
  moreover have "map c_id ?cs = map c_id (claims d)"
    by (cases current) (auto simp: after_expiry_def intro: map_update_rows)
  then have "uniq_by c_id (?cs @ [c])" using new assms(1)
    by (auto simp: claims_inv_def uniq_by_def)
  ultimately show ?thesis by (simp add: claims_inv_def d')
qed

lemma acquire_fresh_inv:
  assumes "claims_inv d" and "acquire_fresh env tid opts identity now ex d = Inr (d', c, evs)"
  shows "claims_inv d'"
proof (rule acquire_fresh_cases [OF assms(2)])
  fix t p ps current
  let ?d1 = "d\<lparr>principals := ps\<rparr>" and ?tn = "tenant_of (ac_ctx opts)" and ?actor = "actor_of (ac_ctx opts)"
  assume gates: "acquire_gates env tid ?tn t (p_id p) ?actor (ac_force opts) now ?d1 = Inr current"
    and run: "(\<exists>c0. current = Some c0 \<and> c_expiresAt c0 > now \<and> renewTx env tid ?tn (p_id p) ?actor
          (ctx_expectedRevision (ac_ctx opts)) c0 identity now ex ?d1 = Inr (d', c, evs)) \<or>
     ((\<forall>c0. current = Some c0 \<longrightarrow> \<not> c_expiresAt c0 > now) \<and> replaceTx env tid ?tn (p_id p) ?actor
          (or_else (ac_metadata opts) []) current identity now ex ?d1 = Inr (d', c, evs))"
  have i: "claims_inv ?d1" using assms(1) by (simp add: claims_inv_def)
  have cur: "current = find (unreleased_claim tid ?tn) (claims ?d1)" by (rule acquire_gates_Inr(5) [OF gates])
  from run show ?thesis
    by (elim disjE exE conjE) (auto dest!: renewTx_result intro: claims_inv_renew [OF i] replace_claims_inv [OF i cur])
qed

lemma replayed_keeps:
  "replayed prior fresh pid d = Inr (d', r, evs) \<Longrightarrow> P d \<Longrightarrow>
    (\<And>d' r evs. fresh d = Inr (d', r, evs) \<Longrightarrow> P d') \<Longrightarrow> P d'"
  by (auto dest: replayed_cases)

lemma acquireTx_inv:
  assumes "claims_inv d" and "acquireTx env tid opts identity now ex d = Inr (d', c, evs)"
  shows "claims_inv d'"
proof -
  obtain d1 pid where 1: "priorResultId identity d = Inr (d1, pid)"
    and 2: "replayed (prior_claim (tenant_of (ac_ctx opts))) (acquire_fresh env tid opts identity now ex) pid d1
      = Inr (d', c, evs)"
    using assms(2) by (auto simp: acquireTx_def res)
  have "claims_inv d1" using priorResultId_frame [OF 1] assms(1) by (auto simp: claims_inv_def)
  with 2 show ?thesis by (rule replayed_keeps) (rule acquire_fresh_inv [OF \<open>claims_inv d1\<close>])
qed

lemma release_write_result:
  assumes "release_write env tid opts identity c0 p now d = Inr (d', c, evs)"
  shows "find (\<lambda>x. c_id x = c_id c0) (claims d') = Some c \<and> (\<exists>r. claims d' = update_rows
     (\<lambda>x. c_id x = c_id c0 \<and> revision_matches (ctx_expectedRevision (rl_ctx opts)) (c_revision x))
       (close_claim r now) (claims d))"
  using assms unfolding release_write_def
  by (auto simp: Let_def res dest!: update_claims_Inr recordEvent_frame storeRetryIdentity_frame)

lemma release_fresh_cases:
  assumes "release_fresh env tid opts identity now d = Inr (d', c, evs)"
  obtains c0 p ps where "find (unreleased_claim tid (tenant_of (rl_ctx opts))) (claims d) = Some c0"
    "rl_force opts \<or> held_by (p_id p) (actor_of (rl_ctx opts)) c0" "c_acquiredAt c0 \<le> now"
    "resolveCallerPrincipal env (tenant_of (rl_ctx opts)) (rl_ctx opts) (actor_of (rl_ctx opts)) now d
      = Inr (d\<lparr>principals := ps\<rparr>, p)"
    "release_write env tid opts identity c0 p now (d\<lparr>principals := ps\<rparr>) = Inr (d', c, evs)"
proof -
  obtain c0 d1 p where 1: "find (unreleased_claim tid (tenant_of (rl_ctx opts))) (claims d) = Some c0"
      "\<not> now < c_acquiredAt c0" "rl_force opts \<or> held_by (p_id p) (actor_of (rl_ctx opts)) c0"
    and 2: "resolveCallerPrincipal env (tenant_of (rl_ctx opts)) (rl_ctx opts) (actor_of (rl_ctx opts)) now d = Inr (d1, p)"
    and 3: "release_write env tid opts identity c0 p now d1 = Inr (d', c, evs)"
    using assms unfolding release_fresh_def by (auto simp: Let_def res)
  obtain ps where "d1 = d\<lparr>principals := ps\<rparr>" using resolveCaller_frame [OF 2] by blast
  with 1 2 3 show ?thesis by (intro that [of c0 p ps]) auto
qed

lemma release_fresh_inv:
  assumes "claims_inv d" and "release_fresh env tid opts identity now d = Inr (d', c, evs)"
  shows "claims_inv d'"
proof (rule release_fresh_cases [OF assms(2)])
  fix c0 p ps assume "release_write env tid opts identity c0 p now (d\<lparr>principals := ps\<rparr>) = Inr (d', c, evs)"
  then obtain P r where "claims d' = update_rows P (close_claim r now) (claims d)"
    using release_write_result by fastforce
  with assms(1) show "claims_inv d'" by (rule claims_inv_close)
qed

lemma releaseTx_inv:
  assumes "claims_inv d" and "releaseTx env tid opts identity now d = Inr (d', c, evs)"
  shows "claims_inv d'"
proof -
  obtain d1 pid where 1: "priorResultId identity d = Inr (d1, pid)"
    and 2: "replayed (prior_claim (tenant_of (rl_ctx opts))) (release_fresh env tid opts identity now) pid d1
      = Inr (d', c, evs)"
    using assms(2) by (auto simp: releaseTx_def res)
  have i: "claims_inv d1" using priorResultId_frame [OF 1] assms(1) by (auto simp: claims_inv_def)
  show ?thesis
    by (rule replayed_keeps [where P = claims_inv, OF 2 i]) (rule release_fresh_inv [OF i])
qed

lemmas claim_frames = priorResultId_frame storeRetryIdentity_frame resolveCaller_frame

section \<open>What an acquisition returns\<close>

lemma renewTx_claim:
  assumes "uniq_by c_id (claims d)" and "c0 \<in> set (claims d)"
    and run: "renewTx env tid tn pid actor rv c0 identity now ex d = Inr (d', c, evs)"
  shows "c = renew_claim now ex c0"
proof -
  let ?hit = "\<lambda>x. c_id x = c_id c0 \<and> revision_matches rv (c_revision x)"
  have hit: "rv = None \<or> list_ex ?hit (claims d)" using run unfolding renewTx_def by (auto simp: Let_def res)
  then have "?hit c0" using assms(1,2) by (auto simp: revision_matches_def list_ex_iff dest: uniq_by_eqD)
  have "find (\<lambda>x. c_id x = c_id c0) (claims d) = Some c0" by (rule find_uniq [OF assms(1,2)]) auto
  then have "find (\<lambda>x. c_id x = c_id c0) (update_rows ?hit (renew_claim now ex) (claims d)) = Some (renew_claim now ex c0)"
    using \<open>?hit c0\<close> by (simp add: find_update_rows_key)
  then show ?thesis using renewTx_result [OF run] by (metis option.inject)
qed

text \<open>The acquired claim is the live one, and every other claim of the commitment is closed and
  carries a lower fence.\<close>

definition sole_claim :: "string \<Rightarrow> string \<Rightarrow> task_claim \<Rightarrow> db \<Rightarrow> bool" where
  "sole_claim tid tenantId c d \<longleftrightarrow> (\<forall>x \<in> set (claims d).
     c_tenantId x = tenantId \<and> c_taskId x = tid \<and> x \<noteq> c \<longrightarrow> c_releasedAt x \<noteq> None \<and> c_fence x < c_fence c)"

lemma live_sole:
  assumes "claims_inv d" and "c \<in> set (claims d)" and "unreleased_claim tid tn c" shows "sole_claim tid tn c d"
  unfolding sole_claim_def
proof (intro ballI impI)
  fix x assume x: "x \<in> set (claims d)" "c_tenantId x = tn \<and> c_taskId x = tid \<and> x \<noteq> c"
  have s: "(c_tenantId x, c_taskId x) = (c_tenantId c, c_taskId c)" using x(2) assms(3) by (simp add: unreleased_claim_def)
  have "\<not> unreleased_claim tid tn x" using claims_exclusive [OF assms(1) x(1) assms(2) _ assms(3)] x(2) by blast
  then have "c_releasedAt x \<noteq> None" using x(2) by (simp add: unreleased_claim_def)
  then show "c_releasedAt x \<noteq> None \<and> c_fence x < c_fence c"
    using claim_lease.stale_fence [of "claims d" x c] assms x s by (simp add: claims_inv_def unreleased_claim_def)
qed

lemma acquire_fresh_claim:
  assumes inv: "claims_inv d" and run: "acquire_fresh env tid opts identity now ex d = Inr (d', c, evs)"
  shows "c \<in> set (claims d')" "unreleased_claim tid (tenant_of (ac_ctx opts)) c" "c_expiresAt c = ex"
    "\<exists>ps p. resolveCallerPrincipal env (tenant_of (ac_ctx opts)) (ac_ctx opts) (actor_of (ac_ctx opts)) now d
        = Inr (d\<lparr>principals := ps\<rparr>, p) \<and> held_by (p_id p) (actor_of (ac_ctx opts)) c"
    "\<And>c0. c0 \<in> set (claims d) \<Longrightarrow> live_claim tid (tenant_of (ac_ctx opts)) now c0 \<Longrightarrow> c = renew_claim now ex c0"
proof -
  let ?tn = "tenant_of (ac_ctx opts)" and ?actor = "actor_of (ac_ctx opts)"
  obtain t p ps current
    where caller: "resolveCallerPrincipal env ?tn (ac_ctx opts) ?actor now d = Inr (d\<lparr>principals := ps\<rparr>, p)"
    and gates: "acquire_gates env tid ?tn t (p_id p) ?actor (ac_force opts) now (d\<lparr>principals := ps\<rparr>) = Inr current"
    and or: "(\<exists>c0. current = Some c0 \<and> c_expiresAt c0 > now \<and> renewTx env tid ?tn (p_id p) ?actor
          (ctx_expectedRevision (ac_ctx opts)) c0 identity now ex (d\<lparr>principals := ps\<rparr>) = Inr (d', c, evs)) \<or>
     ((\<forall>c0. current = Some c0 \<longrightarrow> \<not> c_expiresAt c0 > now) \<and> replaceTx env tid ?tn (p_id p) ?actor
          (or_else (ac_metadata opts) []) current identity now ex (d\<lparr>principals := ps\<rparr>) = Inr (d', c, evs))"
    by (rule acquire_fresh_cases [OF run]) (rule that)
  note g = acquire_gates_Inr [OF gates]
  have cur: "current = find (unreleased_claim tid ?tn) (claims d)" using g(5) by simp
  have uniq: "uniq_by c_id (claims d)" using inv by (simp add: claims_inv_def)
  have live: "current = Some c0" if "c0 \<in> set (claims d)" "live_claim tid ?tn now c0" for c0
    using find_unreleased [OF inv that(1) live_unreleased [OF that(2)]] cur by simp
  have "c \<in> set (claims d') \<and> unreleased_claim tid ?tn c \<and> c_expiresAt c = ex \<and> held_by (p_id p) ?actor c \<and>
    (\<forall>c0 \<in> set (claims d). live_claim tid ?tn now c0 \<longrightarrow> c = renew_claim now ex c0)"
    using or
  proof (elim disjE exE conjE)
    fix c0 assume c0: "current = Some c0" "c_expiresAt c0 > now"
      and r: "renewTx env tid ?tn (p_id p) ?actor (ctx_expectedRevision (ac_ctx opts)) c0 identity now ex
        (d\<lparr>principals := ps\<rparr>) = Inr (d', c, evs)"
    have m: "c0 \<in> set (claims d)" "unreleased_claim tid ?tn c0"
      using find_SomeD [of _ "claims d" c0] c0(1) cur by auto
    have c: "c = renew_claim now ex c0" by (rule renewTx_claim [OF _ _ r]) (use uniq m in simp_all)
    have "c \<in> set (claims d')" using renewTx_result [OF r] by (auto dest: find_SomeD)
    moreover have "held_by (p_id p) ?actor c" using g(7) [OF c0] by (simp add: c held_by_def renew_claim_def)
    moreover have "\<forall>x \<in> set (claims d). live_claim tid ?tn now x \<longrightarrow> c = renew_claim now ex x"
    proof (intro ballI impI)
      fix x assume "x \<in> set (claims d)" "live_claim tid ?tn now x"
      then have "x = c0" using live [of x] c0(1) by simp
      with c show "c = renew_claim now ex x" by simp
    qed
    ultimately show ?thesis using m(2) by (simp add: c unreleased_claim_def renew_claim_def)
  next
    assume none: "\<forall>c0. current = Some c0 \<longrightarrow> \<not> c_expiresAt c0 > now"
      and r: "replaceTx env tid ?tn (p_id p) ?actor (or_else (ac_metadata opts) []) current identity now ex
        (d\<lparr>principals := ps\<rparr>) = Inr (d', c, evs)"
    have "\<forall>x \<in> set (claims d). \<not> live_claim tid ?tn now x" 
    proof (intro ballI notI)
      fix x assume x: "x \<in> set (claims d)" "live_claim tid ?tn now x"
      have "\<not> c_expiresAt x > now" using none live [OF x] by blast
      with x(2) show False by (simp add: live_claim_def)
    qed
    moreover obtain cid f where "c = new_claim cid tid ?tn (p_id p) ?actor f (or_else (ac_metadata opts) []) now ex"
      "c \<in> set (claims d')" using replaceTx_result [OF r] by auto
    ultimately show ?thesis by (simp add: new_claim_def unreleased_claim_def held_by_def truthy_str_def)
  qed
  with caller show "c \<in> set (claims d')" "unreleased_claim tid ?tn c" "c_expiresAt c = ex"
    "\<exists>ps p. resolveCallerPrincipal env ?tn (ac_ctx opts) ?actor now d = Inr (d\<lparr>principals := ps\<rparr>, p) \<and>
       held_by (p_id p) ?actor c"
    "\<And>c0. c0 \<in> set (claims d) \<Longrightarrow> live_claim tid ?tn now c0 \<Longrightarrow> c = renew_claim now ex c0"
    by blast+
qed

lemma prepare_unkeyed [simp]: "ctx_idempotencyKey ctx = None \<Longrightarrow> retryIdentity env ctx op req now = Inr None"
  by (simp add: retryIdentity_def)

lemma priorResultId_none [simp]: "priorResultId None d = Inr (d, None)"
  by (simp add: priorResultId_def)

lemma acquire_success:
  assumes "acquireTaskClaim env tid opts d = (d', Inr c)" and "ctx_idempotencyKey (ac_ctx opts) = None"
  obtains now ex d1 evs n j where "serviceNow (ac_ctx opts) = Inr now" "now < ex"
    "acquire_fresh env tid opts None now ex d = Inr (d1, c, evs)" "d' = d1\<lparr>committedMutations := n, journal := j\<rparr>"
proof -
  have min: "validateLeaseMs v = Inr ms \<Longrightarrow> 0 < ms" for v ms
    by (auto simp: validateLeaseMs_def Let_def MIN_LEASE_MS_def split: if_splits)
  from assms show ?thesis
    by (auto simp: acquireTaskClaim_def acquire_prologue_def acquireTx_def validateUnixMs_def Let_def res
        dest: min intro!: that)
qed

lemma release_success:
  assumes "releaseTaskClaim env tid opts d = (d', Inr c)" and "ctx_idempotencyKey (rl_ctx opts) = None"
  obtains now d1 evs n j where "serviceNow (rl_ctx opts) = Inr now"
    "release_fresh env tid opts None now d = Inr (d1, c, evs)" "d' = d1\<lparr>committedMutations := n, journal := j\<rparr>"
  using assms
  by (auto simp: releaseTaskClaim_def releaseTx_def validateUnixMs_def Let_def res intro!: that)

section \<open>Properties\<close>

abbreviation sample_acquire_options :: "string \<Rightarrow> int \<Rightarrow> acquire_options" where
  "sample_acquire_options actor now \<equiv> \<lparr>ac_ctx = sample_ctx actor now, ac_leaseMs = None, ac_metadata = None, ac_force = False\<rparr>"

abbreviation sample_acquired :: "db \<times> (err + task_claim)" where
  "sample_acquired \<equiv> acquireTaskClaim sample_env ''t1'' (sample_acquire_options ''alice'' 20000) sample_claimed_db"

abbreviation sample_renewed :: "db \<times> (err + task_claim)" where
  "sample_renewed \<equiv> acquireTaskClaim sample_env ''t1'' (sample_acquire_options ''bob'' 2000) sample_claimed_db"

abbreviation sample_refused :: "db \<times> (err + task_claim)" where
  "sample_refused \<equiv> acquireTaskClaim sample_env ''t1'' (sample_acquire_options ''alice'' 2000) sample_claimed_db"

lemma sample_acquired_ok: "returned (snd sample_acquired)" by code_simp
lemma sample_renewed_ok: "returned (snd sample_renewed)" by code_simp
lemma sample_refused_ok: "snd sample_refused = Inl (Contended \<lparr>f_tenantId = ''w'', f_commitmentId = ''t1'',
    f_kind = ''claim_held_by_another'', f_requestedByPrincipalId = ''p1'', f_requestedByLabel = ''alice'',
    f_holderPrincipalId = ''p2'', f_holderLabel = ''bob''\<rparr>)" by code_simp

lemma acquire_success_claim:
  assumes inv: "claims_inv d" and run: "acquireTaskClaim env tid opts d = (d', Inr c)"
    and key: "ctx_idempotencyKey (ac_ctx opts) = None" and now: "serviceNow (ac_ctx opts) = Inr now"
  shows "claims_inv d'" "getActiveTaskClaim tid (tenant_of (ac_ctx opts)) now d' = Some c"
    "sole_claim tid (tenant_of (ac_ctx opts)) c d'"
    "\<And>c0. c0 \<in> set (claims d) \<Longrightarrow> live_claim tid (tenant_of (ac_ctx opts)) now c0 \<Longrightarrow> \<exists>ex. c = renew_claim now ex c0"
    "\<exists>ps p. resolveCallerPrincipal env (tenant_of (ac_ctx opts)) (ac_ctx opts) (actor_of (ac_ctx opts)) now d
        = Inr (d\<lparr>principals := ps\<rparr>, p) \<and> held_by (p_id p) (actor_of (ac_ctx opts)) c"
proof -
  let ?tn = "tenant_of (ac_ctx opts)"
  obtain nw ex d1 evs n j where nw: "serviceNow (ac_ctx opts) = Inr nw" and ex: "nw < ex"
    and f: "acquire_fresh env tid opts None nw ex d = Inr (d1, c, evs)"
    and d': "d' = d1\<lparr>committedMutations := n, journal := j\<rparr>"
    by (rule acquire_success [OF run key]) (rule that)
  have [simp]: "nw = now" using nw now by simp
  note r = acquire_fresh_claim [OF inv f]
  show inv': "claims_inv d'" using acquire_fresh_inv [OF inv f] by (simp add: claims_inv_def d')
  have c: "c \<in> set (claims d')" using r(1) by (simp add: d')
  show "sole_claim tid ?tn c d'" by (rule live_sole [OF inv' c r(2)])
  have l: "live_claim tid ?tn now c" using r(2,3) ex by (simp add: live_claim_def unreleased_claim_def)
  have "x = c" if "x \<in> set (claims d')" "live_claim tid ?tn now x" for x
    using claims_exclusive [OF inv' that(1) c live_unreleased [OF that(2)] r(2)] .
  then show "getActiveTaskClaim tid ?tn now d' = Some c"
    unfolding getActiveTaskClaim_def by (metis c l find_NoneD find_SomeD not_None_eq)
  show "\<And>c0. c0 \<in> set (claims d) \<Longrightarrow> live_claim tid ?tn now c0 \<Longrightarrow> \<exists>ex. c = renew_claim now ex c0"
    using r(5) unfolding \<open>nw = now\<close> by blast
  show "\<exists>ps p. resolveCallerPrincipal env ?tn (ac_ctx opts) (actor_of (ac_ctx opts)) now d
        = Inr (d\<lparr>principals := ps\<rparr>, p) \<and> held_by (p_id p) (actor_of (ac_ctx opts)) c"
    using r(4) unfolding \<open>nw = now\<close> .
qed

lemma acquireTaskClaim_inv: "claims_inv d \<Longrightarrow> claims_inv (fst (acquireTaskClaim env tid opts d))"
  unfolding acquireTaskClaim_def
  by (intro claims_tx.prologue_keeps) (auto intro!: claims_tx.contention_keeps claims_tx.transaction intro: acquireTx_inv)

lemma releaseTaskClaim_inv: "claims_inv d \<Longrightarrow> claims_inv (fst (releaseTaskClaim env tid opts d))"
  unfolding releaseTaskClaim_def Let_def
  by (intro claims_tx.prologue_keeps) (auto intro!: claims_tx.transaction intro: releaseTx_inv)

lemma serviceNow_plain [simp]: "serviceNow ctx \<noteq> Inl (Contended f)"
  by (simp add: serviceNow_def clockNow_def unixMs_def)

lemma prepareIdempotency_plain [simp]: "prepareIdempotency env ctx op req now rc ms leg \<noteq> Inl (Contended f)"
proof (cases "ctx_idempotencyKey ctx")
  case (Some k)
  then show ?thesis
    by (simp add: prepareIdempotency_def bounded_def safeTime_def retention_expiry_def idempotencyCallerScope_def Let_def
        split: option.split sum.split retention_class.split)
qed simp





text \<open>A refused acquisition changes nothing but its counter: when it fails on a standoff, the
  attempts counted on that standoff grow by one, those on every other standoff stay, and no other
  table changes.\<close>

theorem refused_acquire_counted:
  assumes "acquireTaskClaim env tid opts d = (d', Inl (Contended f))"
  shows "d'\<lparr>contentions := contentions d\<rparr> = d \<and>
    attempts_on s d' = attempts_on s d + (if s = facts_standoff f then 1 else 0)"
proof -
  have "acquire_prologue env tid opts \<noteq> Inl (Contended f)"
    by (auto simp: acquire_prologue_def retryIdentity_def validateUnixMs_def validateLeaseMs_def Let_def split: sum.split)
  then have "\<exists>now. d' = recordContention f now d"
    using prologue_cases [OF assms [unfolded acquireTaskClaim_def]] by (auto dest: refusal_counted)
  then obtain now where d': "d' = recordContention f now d" by blast
  obtain ks where "d' = d\<lparr>contentions := ks\<rparr>" using recordContention_frame d' by blast
  then show ?thesis using attempts_on_record [of s f now d] d' by simp
qed

theorem refused_acquire_counted_witness:
  "attempts_on (''w'', ''t1'', ''claim_held_by_another'', ''p1'', ''p2'') (fst sample_refused) = 1"
proof -
  have r: "sample_refused = (fst sample_refused, snd sample_refused)" by (rule prod.collapse [symmetric])
  have "attempts_on (''w'', ''t1'', ''claim_held_by_another'', ''p1'', ''p2'') sample_claimed_db = 0"
    by (simp add: attempts_on_def sample_claimed_db_def sample_db_def empty_db_def)
  then show ?thesis using refused_acquire_counted [OF r [unfolded sample_refused_ok]]
    by (simp add: facts_standoff_def)
qed

lemma acquire_fresh_gates:
  assumes "acquire_fresh env tid opts identity now ex d = Inr (d', c, evs)"
  defines "tn \<equiv> tenant_of (ac_ctx opts)"
  obtains t where "task_row tid tn d = Some t" "\<not> truthy_num (t_deletedAt t)" "\<not> terminal (t_status t)"
    "\<not> list_ex (invalidation_of tid tn) (externalRefs d)" "withdrawnLinksForTask tid tn d = []"
    "ac_force opts \<or> unresolvedBlockers tid tn d = []"
    "\<And>b. budgetFromTask t = Inr (Some b) \<Longrightarrow> within_budget b (observed_cost (cb_currency b) tid tn d)"
proof (rule acquire_fresh_cases [OF assms(1), folded tn_def])
  fix t p ps current
  let ?d1 = "d\<lparr>principals := ps\<rparr>"
  assume t: "requireLiveTask tid tn d = Inr t"
    and gates: "acquire_gates env tid tn t (p_id p) (actor_of (ac_ctx opts)) (ac_force opts) now ?d1 = Inr current"
  note g = acquire_gates_Inr [OF gates]
  have row: "task_row tid tn d = Some t" "\<not> truthy_num (t_deletedAt t)"
    using t by (auto simp: requireLiveTask_def res)
  obtain s cid renewal where s: "summarizeTaskCost env tid tn cid renewal ?d1 = Inr s" "su_allowed s"
    using g(8) gate_allowed by blast
  have cong: "task_row tid tn ?d1 = task_row tid tn d" "observed_cost cur tid tn ?d1 = observed_cost cur tid tn d"
    "withdrawnLinksForTask tid tn ?d1 = withdrawnLinksForTask tid tn d"
    "unresolvedBlockers tid tn ?d1 = unresolvedBlockers tid tn d" for cur
    by (simp_all add: task_row_def observed_cost_def costRefsForTask_def withdrawnLinksForTask_def unresolvedBlockers_def)
  obtain t' where t': "task_row tid tn ?d1 = Some t'" "budgetFromTask t' = Inr (su_budget s)"
    and ok: "su_allowed s \<longleftrightarrow> (case su_budget s of None \<Rightarrow> True | Some b \<Rightarrow>
        \<not> meter_denied b renewal (su_currentClaimMetered s) \<and> within_budget b (observed_cost (cb_currency b) tid tn ?d1))"
    by (rule summarize_allowed [OF s(1)]) (rule that)
  have "t' = t" using t'(1) row(1) cong(1) by simp
  have "within_budget b (observed_cost (cb_currency b) tid tn d)" if "budgetFromTask t = Inr (Some b)" for b
  proof -
    have "su_budget s = Some b" using t'(2) that \<open>t' = t\<close> by simp
    with ok s(2) cong(2) show ?thesis by simp
  qed
  then show thesis using that [OF row] g(1-4) cong by simp
qed



text \<open>A release leaves the commitment without an unreleased claim, and only the holder or a
  forced call releases it.\<close>

theorem release_frees_commitment:
  assumes "claims_inv d" and "releaseTaskClaim env tid opts d = (d', Inr c)"
    and "ctx_idempotencyKey (rl_ctx opts) = None"
  shows "(\<forall>x \<in> set (claims d'). \<not> unreleased_claim tid (tenant_of (rl_ctx opts)) x) \<and> claims_inv d' \<and>
    (rl_force opts \<or> (\<exists>now d1 p c0. c0 \<in> set (claims d) \<and> unreleased_claim tid (tenant_of (rl_ctx opts)) c0 \<and>
       resolveCallerPrincipal env (tenant_of (rl_ctx opts)) (rl_ctx opts) (actor_of (rl_ctx opts)) now d = Inr (d1, p) \<and>
       held_by (p_id p) (actor_of (rl_ctx opts)) c0))"
proof (rule release_success [OF assms(2,3)])
  fix now d1 evs n j
  let ?tn = "tenant_of (rl_ctx opts)"
  assume f: "release_fresh env tid opts None now d = Inr (d1, c, evs)"
    and d': "d' = d1\<lparr>committedMutations := n, journal := j\<rparr>"
  show ?thesis
  proof (rule release_fresh_cases [OF f])
    fix c0 p ps
    assume c0: "find (unreleased_claim tid ?tn) (claims d) = Some c0" and holder: "rl_force opts \<or> held_by (p_id p) (actor_of (rl_ctx opts)) c0"
      and caller: "resolveCallerPrincipal env ?tn (rl_ctx opts) (actor_of (rl_ctx opts)) now d = Inr (d\<lparr>principals := ps\<rparr>, p)"
      and w: "release_write env tid opts None c0 p now (d\<lparr>principals := ps\<rparr>) = Inr (d1, c, evs)"
    have m: "c0 \<in> set (claims d)" "unreleased_claim tid ?tn c0" using c0 by (auto dest: find_SomeD)
    let ?hit = "\<lambda>x. c_id x = c_id c0 \<and> revision_matches (ctx_expectedRevision (rl_ctx opts)) (c_revision x)"
    obtain r where cl: "claims d1 = update_rows ?hit (close_claim r now) (claims d)"
      using release_write_result [OF w] by auto
    have "ctx_expectedRevision (rl_ctx opts) = None \<or> list_ex ?hit (claims d)"
      using w unfolding release_write_def by (auto simp: Let_def res)
    then have hit: "?hit c0" using m(1) assms(1)
      by (auto simp: revision_matches_def list_ex_iff claims_inv_def dest: uniq_by_eqD)
    have "\<not> unreleased_claim tid ?tn x" if "x \<in> set (claims d1)" for x
      using that unfolding cl
    proof (cases rule: update_rows_cases)
      case (hit y)
      then show ?thesis by (simp add: unreleased_claim_def)
    next
      case other
      then show ?thesis using claims_exclusive [OF assms(1) other(1) m(1) _ m(2)] \<open>?hit c0\<close> by blast
    qed
    moreover have "claims_inv d'" using claims_inv_close [OF assms(1) cl] by (simp add: d' claims_inv_def)
    ultimately show ?thesis using m caller holder by (auto simp: d')
  qed
qed

abbreviation sample_release :: "db \<times> (err + task_claim)" where
  "sample_release \<equiv> releaseTaskClaim sample_env ''t1''
     \<lparr>rl_ctx = sample_ctx ''bob'' 2000, rl_reason = None, rl_force = False\<rparr> sample_claimed_db"

lemma sample_release_ok: "returned (snd sample_release)" by code_simp

theorem release_frees_commitment_witness: "filter (unreleased_claim ''t1'' ''w'') (claims (fst sample_release)) = []"
  using release_frees_commitment [OF sample_claims(2) returned_op [OF sample_release_ok]]
  by (simp add: sample_ctx_def tenant_of_def filter_empty_conv)

end
