(* ===== verification/Executions.thy ===== *)
theory Executions
  imports Claims
begin

text \<open>
  Attempts and evidence (\<open>packages/tasq-core/src/service/agentic.ts\<close>): an attempt is one execution of a
  commitment, with its own state machine (running, input required, and three final states); evidence
  is appended for a commitment, possibly by an attempt, possibly superseding earlier evidence. Neither
  completes the commitment.
\<close>

section \<open>Attempts\<close>

record attempt_options =
  ao_ctx :: service_context
  ao_claimId :: "string option"
  ao_runtime :: "string option"
  ao_externalId :: "string option"
  ao_contextId :: "string option"
  ao_metadata :: "metadata option"
  ao_occurredAt :: "int option"

text \<open>\<open>TaskAttemptInsert.parse\<close>: the runtime has one to eighty characters, the workspace is
  named, and a claim identifier is not empty.\<close>

definition attempt_runtime :: "attempt_options \<Rightarrow> string" where
  "attempt_runtime o' = or_else (ao_runtime o') ''local''"

definition attempt_insert_ok :: "attempt_options \<Rightarrow> bool" where
  "attempt_insert_ok o' \<longleftrightarrow> between 1 80 (attempt_runtime o') \<and> tenant_of (ao_ctx o') \<noteq> [] \<and>
     ao_claimId o' \<noteq> Some []"

definition attempt_request :: "string \<Rightarrow> attempt_options \<Rightarrow> json" where
  "attempt_request tid o' = JObj
     [(''taskId'', JStr tid), (''actor'', JStr (actor_of (ao_ctx o'))),
      (''principalId'', nullable JStr (ctx_principalId (ao_ctx o'))), (''claimId'', nullable JStr (ao_claimId o')),
      (''runtime'', JStr (attempt_runtime o')), (''externalId'', nullable JStr (ao_externalId o')),
      (''contextId'', nullable JStr (ao_contextId o')), (''metadata'', JObj (or_else (ao_metadata o') []))]"

definition getTaskAttempt :: "string \<Rightarrow> string \<Rightarrow> db \<Rightarrow> task_attempt option" where
  "getTaskAttempt aid tenantId d = find (\<lambda>a. a_id a = aid \<and> a_tenantId a = tenantId) (attempts d)"

definition prior_attempt :: "string \<Rightarrow> string \<Rightarrow> db \<Rightarrow> err + task_attempt" where
  "prior_attempt tenantId aid d = (case getTaskAttempt aid tenantId d of
      None \<Rightarrow> Inl (Refused ''Idempotency record points at missing attempt'' [aid]) | Some a \<Rightarrow> Inr a)"

text \<open>The claim an attempt runs under: the one named, otherwise the live one; it must be the caller's
  and live.\<close>

definition attempt_claim ::
  "string \<Rightarrow> string \<Rightarrow> string \<Rightarrow> string \<Rightarrow> string option \<Rightarrow> int \<Rightarrow> db \<Rightarrow> err + string option" where
  "attempt_claim tid tenantId pid actor requested now d =
     (let active = getActiveTaskClaim tid tenantId now d in
      if (case active of None \<Rightarrow> False | Some c \<Rightarrow> \<not> held_by pid actor c)
      then Inl (Refused ''Task is claimed by'' [c_actor (the active)])
      else let claimId = (case requested of Some i \<Rightarrow> Some i | None \<Rightarrow> map_option c_id active) in
        if \<not> truthy_str claimId then Inr claimId
        else case find (\<lambda>c. c_id c = the claimId \<and> c_tenantId c = tenantId) (claims d) of
            None \<Rightarrow> Inl (Refused ''Claim does not belong to task'' [tid])
          | Some c \<Rightarrow>
              if c_taskId c \<noteq> tid then Inl (Refused ''Claim does not belong to task'' [tid])
              else if \<not> held_by pid actor c then Inl (Refused ''Claim belongs to another principal'' [the claimId])
              else if c_releasedAt c \<noteq> None \<or> c_expiresAt c \<le> now then Inl (Refused ''Claim is not active'' [the claimId])
              else Inr claimId)"

definition new_attempt ::
  "string \<Rightarrow> string \<Rightarrow> attempt_options \<Rightarrow> string option \<Rightarrow> string \<Rightarrow> int \<Rightarrow> task_attempt" where
  "new_attempt aid tid o' claimId pid now = \<lparr>a_id = aid, a_tenantId = tenant_of (ao_ctx o'), a_taskId = tid,
     a_claimId = claimId, a_actor = actor_of (ao_ctx o'), a_principalId = Some pid, a_revision = 1,
     a_runtime = attempt_runtime o', a_externalId = ao_externalId o', a_contextId = ao_contextId o',
     a_status = Running, a_statusMessage = None, a_startedAt = now, a_endedAt = None,
     a_metadata = or_else (ao_metadata o') [], a_createdAt = now, a_updatedAt = now\<rparr>"

definition attempt_stored :: "prepared_idempotency option \<Rightarrow> task_attempt \<Rightarrow> int option \<Rightarrow> db \<Rightarrow> err + db" where
  "attempt_stored identity a sequence d = storeRetryIdentity identity ''task_attempt'' (a_id a)
     (Some (attempt_status_text (a_status a))) (Some (a_revision a)) sequence d"

definition write_attempt ::
  "env \<Rightarrow> string \<Rightarrow> attempt_options \<Rightarrow> prepared_idempotency option \<Rightarrow> string option \<Rightarrow> principal \<Rightarrow> int \<Rightarrow> db \<Rightarrow>
    err + db \<times> task_attempt \<times> event list" where
  "write_attempt env tid o' identity claimId p now d0 =
     (let (d, aid) = fresh_id env now d0; a = new_attempt aid tid o' claimId (p_id p) now in
      case insert_attempt a d of Inl e \<Rightarrow> Inl e | Inr d \<Rightarrow>
      (case recordEvent env ((task_event (tenant_of (ao_ctx o')) (actor_of (ao_ctx o')) (Some (p_id p)) tid ''attempt_started''
             [(''after'', JObj [(''attemptId'', JStr aid), (''runtime'', JStr (attempt_runtime o')),
                (''claimId'', nullable JStr claimId), (''externalId'', nullable JStr (ao_externalId o')),
                (''contextId'', nullable JStr (ao_contextId o'))])])\<lparr>ei_occurredAt := ao_occurredAt o'\<rparr>) now d of
         Inl e \<Rightarrow> Inl e | Inr (d, ev) \<Rightarrow>
      (case attempt_stored identity a (Some (ev_sequence ev)) d of Inl e \<Rightarrow> Inl e
       | Inr d \<Rightarrow> Inr (d, a, [ev]))))"

definition start_fresh ::
  "env \<Rightarrow> string \<Rightarrow> attempt_options \<Rightarrow> prepared_idempotency option \<Rightarrow> int \<Rightarrow> db \<Rightarrow> err + db \<times> task_attempt \<times> event list" where
  "start_fresh env tid o' identity now d =
     (let ctx = ao_ctx o'; tenantId = tenant_of ctx; actor = actor_of ctx in
      case requireLiveTask tid tenantId d of Inl e \<Rightarrow> Inl e | Inr t \<Rightarrow>
      (case resolveCallerPrincipal env tenantId ctx actor now d of Inl e \<Rightarrow> Inl e | Inr (d, p) \<Rightarrow>
       if terminal (t_status t) then Inl (Refused ''Cannot start an attempt for terminal task'' [tid])
       else case attempt_claim tid tenantId (p_id p) actor (ao_claimId o') now d of Inl e \<Rightarrow> Inl e
       | Inr claimId \<Rightarrow> write_attempt env tid o' identity claimId p now d))"

definition startTx ::
  "env \<Rightarrow> string \<Rightarrow> attempt_options \<Rightarrow> int \<Rightarrow> prepared_idempotency option \<Rightarrow> db \<Rightarrow> err + db \<times> task_attempt \<times> event list" where
  "startTx env tid o' now identity d = (case priorResultId identity d of Inl e \<Rightarrow> Inl e
     | Inr (d, priorId) \<Rightarrow>
         replayed (prior_attempt (tenant_of (ao_ctx o'))) (start_fresh env tid o' identity now) priorId d)"

definition startTaskAttempt :: "env \<Rightarrow> string \<Rightarrow> attempt_options \<Rightarrow> db \<Rightarrow> db \<times> (err + task_attempt)" where
  "startTaskAttempt env tid o' =
     (let ctx = ao_ctx o' in prologue
      (case serviceNowAt ctx (ao_occurredAt o') of Inl e \<Rightarrow> Inl e | Inr now0 \<Rightarrow>
      (case validateUnixMs now0 ''occurredAt'' of Inl e \<Rightarrow> Inl e | Inr now \<Rightarrow>
       if \<not> attempt_insert_ok o' then Inl (InvalidInput ''task_attempt'')
       else case retryIdentity env (ctx\<lparr>ctx_tenantId := Some (tenant_of ctx)\<rparr>) ''attempt.start''
              (attempt_request tid o') now of Inl e \<Rightarrow> Inl e | Inr identity \<Rightarrow> Inr (now, identity)))
      (\<lambda>(now, identity). runInTransaction (startTx env tid o' now identity)))"

record transition_options =
  to_ctx :: service_context
  to_message :: "string option"
  to_occurredAt :: "int option"

definition transition_attempt_request :: "string \<Rightarrow> attempt_status \<Rightarrow> transition_options \<Rightarrow> json" where
  "transition_attempt_request aid s o' = JObj
     [(''attemptId'', JStr aid), (''to'', JStr (attempt_status_text s)), (''actor'', JStr (actor_of (to_ctx o'))),
      (''principalId'', nullable JStr (ctx_principalId (to_ctx o'))),
      (''expectedRevision'', nullable JInt (ctx_expectedRevision (to_ctx o'))),
      (''message'', nullable JStr (to_message o')), (''occurredAt'', nullable JInt (to_occurredAt o'))]"

definition or_keep :: "'a option \<Rightarrow> 'a option \<Rightarrow> 'a option" where
  "or_keep x y = (case x of None \<Rightarrow> y | Some v \<Rightarrow> Some v)"

definition attempt_patch :: "attempt_status \<Rightarrow> transition_options \<Rightarrow> task_attempt \<Rightarrow> int \<Rightarrow> task_attempt \<Rightarrow> task_attempt" where
  "attempt_patch s o' before now a = a\<lparr>a_status := s, a_statusMessage := or_keep (to_message o') (a_statusMessage before),
     a_endedAt := (if active_attempt_status s then None else Some now), a_updatedAt := now,
     a_revision := a_revision a + 1\<rparr>"

definition write_transition ::
  "env \<Rightarrow> attempt_status \<Rightarrow> transition_options \<Rightarrow> prepared_idempotency option \<Rightarrow> task_attempt \<Rightarrow> int \<Rightarrow> db \<Rightarrow>
    err + db \<times> task_attempt \<times> event list" where
  "write_transition env s o' identity before now d0 =
     (let ctx = to_ctx o'; tenantId = tenant_of ctx;
          hit = (\<lambda>a. a_id a = a_id before \<and> a_tenantId a = tenantId \<and>
             revision_matches (ctx_expectedRevision ctx) (a_revision a)) in
      case resolveCallerPrincipal env tenantId ctx (actor_of ctx) now d0 of Inl e \<Rightarrow> Inl e | Inr (d, p) \<Rightarrow>
      (case update_attempts hit (attempt_patch s o' before now) d of Inl e \<Rightarrow> Inl e | Inr d' \<Rightarrow>
       if ctx_expectedRevision ctx \<noteq> None \<and> \<not> list_ex hit (attempts d) then Inl (Refused ''Stale attempt revision'' [])
       else case getTaskAttempt (a_id before) tenantId d' of
          None \<Rightarrow> Inl (Refused ''Failed to read back attempt'' [a_id before])
        | Some after \<Rightarrow>
          (case recordEvent env ((task_event tenantId (actor_of ctx) (Some (p_id p)) (a_taskId before)
                 (''attempt_'' @ attempt_status_text s)
                 ([(''before'', JObj [(''attemptId'', JStr (a_id before)), (''status'', JStr (attempt_status_text (a_status before)))]),
                   (''after'', JObj [(''attemptId'', JStr (a_id before)), (''status'', JStr (attempt_status_text s))])] @
                  (if truthy_str (to_message o') then [(''note'', JStr (the (to_message o')))] else [])))
                 \<lparr>ei_occurredAt := to_occurredAt o'\<rparr>) now d' of Inl e \<Rightarrow> Inl e | Inr (d', ev) \<Rightarrow>
          (case attempt_stored identity after (Some (ev_sequence ev)) d' of Inl e \<Rightarrow> Inl e
           | Inr d' \<Rightarrow> Inr (d', after, [ev])))))"

definition transition_fresh ::
  "env \<Rightarrow> string \<Rightarrow> attempt_status \<Rightarrow> transition_options \<Rightarrow> prepared_idempotency option \<Rightarrow> int \<Rightarrow> db \<Rightarrow>
    err + db \<times> task_attempt \<times> event list" where
  "transition_fresh env aid s o' identity now d =
     (case getTaskAttempt aid (tenant_of (to_ctx o')) d of None \<Rightarrow> Inl (Refused ''Attempt not found'' [aid])
      | Some before \<Rightarrow>
        if a_status before = s \<and> \<not> active_attempt_status s
        then (case attempt_stored identity before None d of Inl e \<Rightarrow> Inl e | Inr d \<Rightarrow> Inr (d, before, []))
        else if \<not> active_attempt_status (a_status before)
        then Inl (Refused ''Attempt is terminal and immutable'' [aid])
        else if now < a_startedAt before then Inl (Refused ''Attempt end time precedes start'' [])
        else if now < a_updatedAt before then Inl (Refused ''Attempt update time precedes revision time'' [])
        else if a_status before = s \<and> now = a_updatedAt before \<and>
           or_keep (to_message o') (a_statusMessage before) = a_statusMessage before
        then (case attempt_stored identity before None d of Inl e \<Rightarrow> Inl e | Inr d \<Rightarrow> Inr (d, before, []))
        else write_transition env s o' identity before now d)"

definition transitionTx ::
  "env \<Rightarrow> string \<Rightarrow> attempt_status \<Rightarrow> transition_options \<Rightarrow> int \<Rightarrow> prepared_idempotency option \<Rightarrow> db \<Rightarrow>
    err + db \<times> task_attempt \<times> event list" where
  "transitionTx env aid s o' now identity d = (case priorResultId identity d of Inl e \<Rightarrow> Inl e
     | Inr (d, priorId) \<Rightarrow>
         replayed (prior_attempt (tenant_of (to_ctx o'))) (transition_fresh env aid s o' identity now) priorId d)"

definition transitionTaskAttempt ::
  "env \<Rightarrow> string \<Rightarrow> attempt_status \<Rightarrow> transition_options \<Rightarrow> db \<Rightarrow> db \<times> (err + task_attempt)" where
  "transitionTaskAttempt env aid s o' =
     (let ctx = to_ctx o' in prologue
      (case serviceNowAt ctx (to_occurredAt o') of Inl e \<Rightarrow> Inl e | Inr now0 \<Rightarrow>
      (case validateUnixMs now0 ''occurredAt'' of Inl e \<Rightarrow> Inl e | Inr now \<Rightarrow>
      (case retryIdentity env (ctx\<lparr>ctx_tenantId := Some (tenant_of ctx)\<rparr>) (''attempt.transition.'' @ attempt_status_text s)
             (transition_attempt_request aid s o') now of Inl e \<Rightarrow> Inl e | Inr identity \<Rightarrow> Inr (now, identity))))
      (\<lambda>(now, identity). runInTransaction (transitionTx env aid s o' now identity)))"

record list_attempts_options =
  la_tenantId :: "string option"
  la_statuses :: "attempt_status list"
  la_actorFilter :: "string option"
  la_limit :: "int option"

definition listTaskAttempts :: "string option \<Rightarrow> list_attempts_options \<Rightarrow> db \<Rightarrow> task_attempt list" where
  "listTaskAttempts tid o' d = sql_limit (or_else (la_limit o') 100) (sort_key (\<lambda>a. - a_startedAt a)
     (filter (\<lambda>a. a_tenantId a = or_else (la_tenantId o') LEGACY_DEFAULT_WORKSPACE_ID \<and>
        (truthy_str tid \<longrightarrow> Some (a_taskId a) = tid) \<and>
        (truthy_str (la_actorFilter o') \<longrightarrow> Some (a_actor a) = la_actorFilter o') \<and>
        (la_statuses o' \<noteq> [] \<longrightarrow> a_status a \<in> set (la_statuses o'))) (attempts d)))"

section \<open>Evidence\<close>

record evidence_insert =
  en_id :: "string option"
  en_tenantId :: string
  en_taskId :: string
  en_attemptId :: "string option"
  en_supersedesEvidenceId :: "string option"
  en_kind :: string
  en_summary :: "string option"
  en_uri :: "string option"
  en_digest :: "string option"
  en_source :: "string option"
  en_observedAt :: "int option"
  en_metadata :: metadata

definition evidence_insert_ok :: "evidence_insert \<Rightarrow> bool" where
  "evidence_insert_ok i \<longleftrightarrow> en_tenantId i \<noteq> [] \<and> between 1 80 (en_kind i) \<and> en_summary i \<noteq> Some [] \<and>
     en_uri i \<noteq> Some [] \<and> en_digest i \<noteq> Some [] \<and> en_source i \<noteq> Some [] \<and>
     opt_all (\<lambda>t. 0 \<le> t) (en_observedAt i) \<and> (en_summary i \<noteq> None \<or> en_uri i \<noteq> None)"

definition getTaskEvidence :: "string \<Rightarrow> string \<Rightarrow> db \<Rightarrow> task_evidence option" where
  "getTaskEvidence eid tenantId d = find (\<lambda>e. e_id e = eid \<and> e_tenantId e = tenantId) (evidence d)"

definition prior_evidence :: "string \<Rightarrow> string \<Rightarrow> db \<Rightarrow> err + task_evidence" where
  "prior_evidence tenantId eid d = (case getTaskEvidence eid tenantId d of
      None \<Rightarrow> Inl (Refused ''Idempotency record points at missing evidence'' [eid]) | Some e \<Rightarrow> Inr e)"

definition evidence_request :: "evidence_insert \<Rightarrow> string \<Rightarrow> service_context \<Rightarrow> int option \<Rightarrow> json" where
  "evidence_request i tenantId ctx occurredAt = JObj
     [(''taskId'', JStr (en_taskId i)), (''attemptId'', nullable JStr (en_attemptId i)),
      (''supersedesEvidenceId'', nullable JStr (en_supersedesEvidenceId i)), (''kind'', JStr (en_kind i)),
      (''summary'', nullable JStr (en_summary i)), (''uri'', nullable JStr (en_uri i)),
      (''digest'', nullable JStr (en_digest i)), (''source'', nullable JStr (en_source i)),
      (''metadata'', JObj (en_metadata i)), (''tenantId'', JStr tenantId), (''actor'', JStr (actor_of ctx)),
      (''principalId'', nullable JStr (ctx_principalId ctx)),
      (''requestedObservedAt'', nullable JInt (or_keep (en_observedAt i) occurredAt))]"

text \<open>The attempt and the superseded evidence must belong to the commitment.\<close>

definition evidence_links :: "evidence_insert \<Rightarrow> string \<Rightarrow> db \<Rightarrow> err + unit" where
  "evidence_links i tenantId d =
     (if truthy_str (en_attemptId i) \<and> \<not> (case getTaskAttempt (the (en_attemptId i)) tenantId d of
           None \<Rightarrow> False | Some a \<Rightarrow> a_taskId a = en_taskId i)
      then Inl (Refused ''Attempt does not belong to task'' [en_taskId i])
      else if truthy_str (en_supersedesEvidenceId i) \<and> \<not> (case getTaskEvidence (the (en_supersedesEvidenceId i)) tenantId d of
           None \<Rightarrow> False | Some e \<Rightarrow> e_taskId e = en_taskId i)
      then Inl (Refused ''Superseded evidence does not belong to task'' [en_taskId i])
      else Inr ())"

definition new_evidence :: "evidence_insert \<Rightarrow> string \<Rightarrow> string \<Rightarrow> string \<Rightarrow> string \<Rightarrow> int \<Rightarrow> int \<Rightarrow> task_evidence" where
  "new_evidence i eid tenantId actor pid observedAt now = \<lparr>e_id = eid, e_tenantId = tenantId, e_taskId = en_taskId i,
     e_attemptId = en_attemptId i, e_supersedesEvidenceId = en_supersedesEvidenceId i, e_actor = actor,
     e_principalId = Some pid, e_kind = en_kind i, e_summary = en_summary i, e_uri = en_uri i, e_digest = en_digest i,
     e_source = en_source i, e_observedAt = observedAt, e_metadata = en_metadata i, e_createdAt = now\<rparr>"

definition write_evidence ::
  "env \<Rightarrow> evidence_insert \<Rightarrow> string \<Rightarrow> service_context \<Rightarrow> int option \<Rightarrow> prepared_idempotency option \<Rightarrow> int \<Rightarrow> int \<Rightarrow> db \<Rightarrow>
    err + db \<times> task_evidence \<times> event list" where
  "write_evidence env i tenantId ctx occurredAt identity observedAt now d0 =
     (let (d, eid) = draw_id env (en_id i) now d0 in
      case resolveCallerPrincipal env tenantId ctx (actor_of ctx) now d of Inl e \<Rightarrow> Inl e | Inr (d, p) \<Rightarrow>
      (let e = new_evidence i eid tenantId (actor_of ctx) (p_id p) observedAt now in
       case insert_evidence e d of Inl er \<Rightarrow> Inl er | Inr d \<Rightarrow>
       (case recordEvent env ((task_event tenantId (actor_of ctx) (Some (p_id p)) (en_taskId i) ''evidence_added''
              ([(''after'', JObj [(''evidenceId'', JStr eid), (''attemptId'', nullable JStr (en_attemptId i)),
                 (''supersedesEvidenceId'', nullable JStr (en_supersedesEvidenceId i)), (''kind'', JStr (en_kind i)),
                 (''uri'', nullable JStr (en_uri i)), (''digest'', nullable JStr (en_digest i))])] @
               (if truthy_str (en_source i) then [(''source'', JStr (the (en_source i)))] else []) @
               (if truthy_str (en_summary i) then [(''note'', JStr (the (en_summary i)))] else [])))
              \<lparr>ei_occurredAt := occurredAt\<rparr>) now d of Inl er \<Rightarrow> Inl er | Inr (d, ev) \<Rightarrow>
       (case storeRetryIdentity identity ''task_evidence'' eid (Some ''recorded'') None (Some (ev_sequence ev)) d of
          Inl er \<Rightarrow> Inl er
        | Inr d \<Rightarrow> Inr (d, e, [ev])))))"

definition evidence_fresh ::
  "env \<Rightarrow> evidence_insert \<Rightarrow> string \<Rightarrow> service_context \<Rightarrow> int option \<Rightarrow> prepared_idempotency option \<Rightarrow> int \<Rightarrow> int \<Rightarrow> db \<Rightarrow>
    err + db \<times> task_evidence \<times> event list" where
  "evidence_fresh env i tenantId ctx occurredAt identity observedAt now d =
     (case requireLiveTask (en_taskId i) tenantId d of Inl e \<Rightarrow> Inl e | Inr _ \<Rightarrow>
      (case evidence_links i tenantId d of Inl e \<Rightarrow> Inl e | Inr _ \<Rightarrow>
       write_evidence env i tenantId ctx occurredAt identity observedAt now d))"

definition evidenceTx ::
  "env \<Rightarrow> evidence_insert \<Rightarrow> string \<Rightarrow> service_context \<Rightarrow> int option \<Rightarrow> int \<Rightarrow> int \<Rightarrow> prepared_idempotency option \<Rightarrow> db \<Rightarrow>
    err + db \<times> task_evidence \<times> event list" where
  "evidenceTx env i tenantId ctx occurredAt now observedAt identity d = (case priorResultId identity d of Inl e \<Rightarrow> Inl e
     | Inr (d, priorId) \<Rightarrow> replayed (prior_evidence tenantId)
           (evidence_fresh env i tenantId ctx occurredAt identity observedAt now) priorId d)"

definition addTaskEvidence ::
  "env \<Rightarrow> evidence_insert \<Rightarrow> service_context \<Rightarrow> int option \<Rightarrow> db \<Rightarrow> db \<times> (err + task_evidence)" where
  "addTaskEvidence env i ctx occurredAt =
     (let tenantId = or_else (ctx_tenantId ctx) (en_tenantId i) in prologue
      (if \<not> evidence_insert_ok i then Inl (InvalidInput ''task_evidence'')
       else case serviceNowAt ctx None of Inl e \<Rightarrow> Inl e | Inr now \<Rightarrow>
       (case validateUnixMs (or_else (en_observedAt i) (or_else occurredAt now)) ''observedAt'' of Inl e \<Rightarrow> Inl e
        | Inr observedAt \<Rightarrow>
        (case retryIdentity env (ctx\<lparr>ctx_tenantId := Some tenantId\<rparr>) ''evidence.add''
               (evidence_request i tenantId ctx occurredAt) now of Inl e \<Rightarrow> Inl e
         | Inr identity \<Rightarrow> Inr (now, observedAt, identity))))
      (\<lambda>(now, observedAt, identity). runInTransaction (evidenceTx env i tenantId ctx occurredAt now observedAt identity)))"

record list_evidence_options =
  le_tenant :: "string option"
  le_attemptId :: "string option"
  le_kind :: "string option"
  le_limit :: "int option"
  le_ascending :: bool

definition listTaskEvidence :: "string option \<Rightarrow> list_evidence_options \<Rightarrow> db \<Rightarrow> task_evidence list" where
  "listTaskEvidence tid o' d = sql_limit (or_else (le_limit o') 100)
     (sort_key (\<lambda>e. if le_ascending o' then e_createdAt e else - e_createdAt e)
     (filter (\<lambda>e. e_tenantId e = or_else (le_tenant o') LEGACY_DEFAULT_WORKSPACE_ID \<and>
        (truthy_str tid \<longrightarrow> Some (e_taskId e) = tid) \<and>
        (truthy_str (le_attemptId o') \<longrightarrow> e_attemptId e = le_attemptId o') \<and>
        (truthy_str (le_kind o') \<longrightarrow> Some (e_kind e) = le_kind o')) (evidence d)))"

section \<open>What the operations change\<close>

lemma insert_attempt_Inr:
  "insert_attempt a d = Inr d' \<Longrightarrow> d' = d\<lparr>attempts := attempts d @ [a]\<rparr> \<and> (\<forall>x \<in> set (attempts d). a_id x \<noteq> a_id a)"
  by (simp add: insert_attempt_def res)

lemma update_attempts_Inr: "update_attempts P f d = Inr d' \<Longrightarrow> d' = d\<lparr>attempts := update_rows P f (attempts d)\<rparr>"
  by (simp add: update_attempts_def res)

lemma insert_evidence_Inr: "insert_evidence e d = Inr d' \<Longrightarrow> d' = d\<lparr>evidence := evidence d @ [e]\<rparr>"
  by (simp add: insert_evidence_def res)

lemma attempt_stored_frame: "attempt_stored i a s d = Inr d' \<Longrightarrow> \<exists>xs. d' = d\<lparr>idems := xs\<rparr>"
  unfolding attempt_stored_def by (rule storeRetryIdentity_frame)

text \<open>The tables an execution may touch: nothing of commitments, claims and completions.\<close>

definition executions_frame :: "db \<Rightarrow> db \<Rightarrow> bool" where
  "executions_frame d d' \<longleftrightarrow> tasks d' = tasks d \<and> claims d' = claims d \<and> completions d' = completions d \<and>
     relations d' = relations d \<and> leases d' = leases d \<and> assumptions d' = assumptions d \<and>
     assumptionLinks d' = assumptionLinks d \<and> externalRefs d' = externalRefs d"

lemma executions_frame_refl [simp]: "executions_frame d d"
  by (simp add: executions_frame_def)

lemma executions_frame_trans: "executions_frame a b \<Longrightarrow> executions_frame b c \<Longrightarrow> executions_frame a c"
  by (simp add: executions_frame_def)

lemma write_attempt_result:
  assumes "write_attempt env tid o' identity claimId p now d = Inr (d', a, evs)"
  shows "attempts d' = attempts d @ [a] \<and> evidence d' = evidence d \<and> executions_frame d d' \<and> a_claimId a = claimId \<and>
    a_status a = Running \<and> a_taskId a = tid"
  using assms unfolding write_attempt_def
  by (auto simp: Let_def res fresh_id_def new_attempt_def executions_frame_def
      dest!: insert_attempt_Inr recordEvent_frame attempt_stored_frame)

lemma write_transition_result:
  assumes "write_transition env s o' identity before now d = Inr (d', a, evs)"
  shows "evidence d' = evidence d \<and> executions_frame d d' \<and> attempts d' = update_rows (\<lambda>x. a_id x = a_id before \<and>
      a_tenantId x = tenant_of (to_ctx o') \<and> revision_matches (ctx_expectedRevision (to_ctx o')) (a_revision x))
      (attempt_patch s o' before now) (attempts d) \<and> getTaskAttempt (a_id before) (tenant_of (to_ctx o')) d' = Some a"
  using assms unfolding write_transition_def
  by (auto simp: Let_def res executions_frame_def getTaskAttempt_def
      dest!: update_attempts_Inr recordEvent_frame attempt_stored_frame resolveCaller_frame)

lemma write_evidence_result:
  assumes "write_evidence env i tn ctx occ identity obs now d = Inr (d', e, evs)"
  shows "evidence d' = evidence d @ [e] \<and> attempts d' = attempts d \<and> executions_frame d d' \<and> e_taskId e = en_taskId i \<and>
    e_tenantId e = tn \<and> e_supersedesEvidenceId e = en_supersedesEvidenceId i \<and> e_attemptId e = en_attemptId i"
  using assms unfolding write_evidence_def
  by (auto simp: Let_def res executions_frame_def new_evidence_def split: prod.splits
      dest!: insert_evidence_Inr recordEvent_frame claim_frames draw_id_frame)

lemma transition_fresh_cases:
  assumes "transition_fresh env aid s o' identity now d = Inr (d', a, evs)"
  obtains before where "getTaskAttempt aid (tenant_of (to_ctx o')) d = Some before"
    "(\<exists>xs. d' = d\<lparr>idems := xs\<rparr>) \<and> a = before \<and> a_status a = s \<or>
     active_attempt_status (a_status before) \<and> a_updatedAt before \<le> now \<and> a_startedAt before \<le> now \<and>
       write_transition env s o' identity before now d = Inr (d', a, evs)"
proof -
  obtain before where b: "getTaskAttempt aid (tenant_of (to_ctx o')) d = Some before"
    using assms by (auto simp: transition_fresh_def res)
  from assms that [OF b] show ?thesis
    unfolding transition_fresh_def by (auto simp: b res split: if_splits dest!: attempt_stored_frame)
qed

lemma attempt_claim_cong: "claims d' = claims d \<Longrightarrow> attempt_claim tid tn pid actor rq now d' = attempt_claim tid tn pid actor rq now d"
  unfolding attempt_claim_def getActiveTaskClaim_def by (simp only:)

lemma start_fresh_cases:
  assumes "start_fresh env tid o' identity now d = Inr (d', a, evs)"
  obtains t p ps claimId where "requireLiveTask tid (tenant_of (ao_ctx o')) d = Inr t" "\<not> terminal (t_status t)"
    "attempt_claim tid (tenant_of (ao_ctx o')) (p_id p) (actor_of (ao_ctx o')) (ao_claimId o') now d = Inr claimId"
    "write_attempt env tid o' identity claimId p now (d\<lparr>principals := ps\<rparr>) = Inr (d', a, evs)"
    "resolveCallerPrincipal env (tenant_of (ao_ctx o')) (ao_ctx o') (actor_of (ao_ctx o')) now d = Inr (d\<lparr>principals := ps\<rparr>, p)"
proof -
  obtain t d1 p claimId where 1: "requireLiveTask tid (tenant_of (ao_ctx o')) d = Inr t" "\<not> terminal (t_status t)"
    and 2: "resolveCallerPrincipal env (tenant_of (ao_ctx o')) (ao_ctx o') (actor_of (ao_ctx o')) now d = Inr (d1, p)"
    and 3: "attempt_claim tid (tenant_of (ao_ctx o')) (p_id p) (actor_of (ao_ctx o')) (ao_claimId o') now d1 = Inr claimId"
      "write_attempt env tid o' identity claimId p now d1 = Inr (d', a, evs)"
    using assms by (auto simp: start_fresh_def Let_def res)
  obtain ps where "d1 = d\<lparr>principals := ps\<rparr>" using resolveCaller_frame [OF 2] by blast
  then have "claims d1 = claims d" by simp
  from 1 3(1) [unfolded attempt_claim_cong [OF this]] 3(2) [unfolded \<open>d1 = _\<close>]
    2 [unfolded \<open>d1 = _\<close>] show ?thesis by (rule that)
qed

interpretation executions_tx: tx_invariant "executions_frame d0" for d0
  by unfold_locales (simp_all add: executions_frame_def)

lemma executions_idems: "executions_frame d0 d \<Longrightarrow> executions_frame d0 (d\<lparr>idems := xs\<rparr>)"
  by (simp add: executions_frame_def)

lemma replay_body:
  assumes "(case priorResultId identity d of Inl e \<Rightarrow> Inl e | Inr (d, pid) \<Rightarrow> replayed prior fresh pid d) = Inr (d', r, evs)"
    and "\<And>xs. P (d\<lparr>idems := xs\<rparr>)"
    and "\<And>xs d' r evs. fresh (d\<lparr>idems := xs\<rparr>) = Inr (d', r, evs) \<Longrightarrow> P d'"
  shows "P d'"
proof -
  obtain d1 pid where 1: "priorResultId identity d = Inr (d1, pid)" "replayed prior fresh pid d1 = Inr (d', r, evs)"
    using assms(1) by (auto simp: res)
  then obtain xs where "d1 = d\<lparr>idems := xs\<rparr>" using priorResultId_frame by blast
  with 1(2) assms(2,3) show ?thesis by (metis replayed_cases)
qed

section \<open>Properties\<close>

text \<open>Execution is not outcome: starting an attempt, moving it to any state (success included) and
  adding evidence leave every commitment, claim, completion record and relation as it was.\<close>

theorem executions_leave_commitments:
  "executions_frame d (fst (startTaskAttempt env tid o1 d)) \<and>
   executions_frame d (fst (transitionTaskAttempt env aid s o2 d)) \<and>
   executions_frame d (fst (addTaskEvidence env i ctx occ d))"
proof (intro conjI)
  show "executions_frame d (fst (startTaskAttempt env tid o1 d))"
    unfolding startTaskAttempt_def Let_def
    by (rule executions_tx.operation2 [OF executions_frame_refl], unfold startTx_def, erule replay_body)
      (auto simp: executions_frame_def elim!: start_fresh_cases dest!: write_attempt_result)
  show "executions_frame d (fst (transitionTaskAttempt env aid s o2 d))"
    unfolding transitionTaskAttempt_def Let_def
    by (rule executions_tx.operation2 [OF executions_frame_refl], unfold transitionTx_def, erule replay_body)
      (auto simp: executions_frame_def elim!: transition_fresh_cases dest!: write_transition_result)
  show "executions_frame d (fst (addTaskEvidence env i ctx occ d))"
    unfolding addTaskEvidence_def Let_def
    by (rule executions_tx.operation3 [OF executions_frame_refl], unfold evidenceTx_def, erule replay_body)
      (auto simp: executions_frame_def evidence_fresh_def res dest!: write_evidence_result)
qed

text \<open>The final attempts of a ledger are still there, unchanged.\<close>

definition finals_kept :: "db \<Rightarrow> db \<Rightarrow> bool" where
  "finals_kept d d' \<longleftrightarrow> uniq_by a_id (attempts d') \<and>
     (\<forall>a \<in> set (attempts d). \<not> active_attempt_status (a_status a) \<longrightarrow> a \<in> set (attempts d'))"

interpretation finals_tx: tx_invariant "finals_kept d0" for d0
  by unfold_locales (simp_all add: finals_kept_def)

lemma transition_fresh_finals:
  assumes "transition_fresh env aid s o' identity now d = Inr (d', a, evs)" and "uniq_by a_id (attempts d)"
  shows "finals_kept d d'"
proof (rule transition_fresh_cases [OF assms(1)])
  fix before
  assume b: "getTaskAttempt aid (tenant_of (to_ctx o')) d = Some before"
    and "(\<exists>xs. d' = d\<lparr>idems := xs\<rparr>) \<and> a = before \<and> a_status a = s \<or>
     active_attempt_status (a_status before) \<and> a_updatedAt before \<le> now \<and> a_startedAt before \<le> now \<and>
       write_transition env s o' identity before now d = Inr (d', a, evs)"
  then show ?thesis
  proof (elim disjE conjE exE)
    assume act: "active_attempt_status (a_status before)"
      and w: "write_transition env s o' identity before now d = Inr (d', a, evs)"
    have m: "before \<in> set (attempts d)" using b by (auto simp: getTaskAttempt_def dest: find_SomeD)
    have at: "attempts d' = update_rows (\<lambda>x. a_id x = a_id before \<and>
        a_tenantId x = tenant_of (to_ctx o') \<and> revision_matches (ctx_expectedRevision (to_ctx o')) (a_revision x))
        (attempt_patch s o' before now) (attempts d)" (is "_ = update_rows ?hit _ _")
      using write_transition_result [OF w] by blast
    have "x \<in> set (attempts d')" if x: "x \<in> set (attempts d)" "\<not> active_attempt_status (a_status x)" for x
    proof -
      have "a_id x \<noteq> a_id before" using uniq_by_eqD [OF assms(2) x(1) m] act x(2) by auto
      then show ?thesis unfolding at in_update_rows using x(1) by (intro bexI [of _ x]) simp_all
    qed
    moreover have "uniq_by a_id (attempts d')"
      unfolding at by (rule uniq_by_update_rows [OF assms(2)]) (simp add: attempt_patch_def)
    ultimately show ?thesis by (simp add: finals_kept_def)
  qed (simp add: finals_kept_def assms(2))
qed

lemma start_fresh_finals:
  assumes "start_fresh env tid o' identity now d = Inr (d', a, evs)" and "uniq_by a_id (attempts d)"
  shows "finals_kept d d'"
proof (rule start_fresh_cases [OF assms(1)])
  fix t p ps claimId
  assume w: "write_attempt env tid o' identity claimId p now (d\<lparr>principals := ps\<rparr>) = Inr (d', a, evs)"
  have "\<forall>x \<in> set (attempts d). a_id x \<noteq> a_id a"
    using w unfolding write_attempt_def by (auto simp: Let_def res fresh_id_def dest!: insert_attempt_Inr)
  moreover have "attempts d' = attempts d @ [a]" using write_attempt_result [OF w] by simp
  ultimately show ?thesis using assms(2) by (simp add: finals_kept_def uniq_by_append1)
qed

lemma finals_kept_refl: "uniq_by a_id (attempts d) \<Longrightarrow> finals_kept d (d\<lparr>idems := xs\<rparr>)"
  by (simp add: finals_kept_def)

lemma finals_kept_idems [simp]: "finals_kept (d\<lparr>idems := xs\<rparr>) d' = finals_kept d d'"
  by (simp add: finals_kept_def)

text \<open>C25. A final attempt is immutable: whatever is started or moved afterwards, by whoever and to
  whatever state, its row stays in the ledger unchanged.\<close>

theorem final_attempts_immutable:
  assumes "uniq_by a_id (attempts d)"
  shows "finals_kept d (fst (transitionTaskAttempt env aid s o2 d)) \<and> finals_kept d (fst (startTaskAttempt env tid o1 d))"
proof
  have r: "finals_kept d d" using assms by (simp add: finals_kept_def)
  have u: "uniq_by a_id (attempts (d\<lparr>idems := xs\<rparr>))" for xs using assms by simp
  show "finals_kept d (fst (transitionTaskAttempt env aid s o2 d))"
    unfolding transitionTaskAttempt_def Let_def
    by (rule finals_tx.operation2 [OF r], unfold transitionTx_def, erule replay_body)
      (auto intro: finals_kept_refl [OF assms] dest: transition_fresh_finals [OF _ u])
  show "finals_kept d (fst (startTaskAttempt env tid o1 d))"
    unfolding startTaskAttempt_def Let_def
    by (rule finals_tx.operation2 [OF r], unfold startTx_def, erule replay_body)
      (auto intro: finals_kept_refl [OF assms] dest: start_fresh_finals [OF _ u])
qed

text \<open>The ledger with one attempt that succeeded and one that runs.\<close>

definition sample_attempt :: "string \<Rightarrow> attempt_status \<Rightarrow> int option \<Rightarrow> task_attempt" where
  "sample_attempt aid s ended = \<lparr>a_id = aid, a_tenantId = ''w'', a_taskId = ''t1'', a_claimId = None, a_actor = ''alice'',
     a_principalId = Some ''p1'', a_revision = 1, a_runtime = ''local'', a_externalId = None, a_contextId = None,
     a_status = s, a_statusMessage = None, a_startedAt = 1000, a_endedAt = ended, a_metadata = [],
     a_createdAt = 1000, a_updatedAt = 1000\<rparr>"

definition sample_attempts_db :: db where
  "sample_attempts_db = sample_db\<lparr>attempts := [sample_attempt ''a1'' Succeeded (Some 1500), sample_attempt ''a2'' Running None]\<rparr>"

abbreviation sample_finish :: "db \<times> (err + task_attempt)" where
  "sample_finish \<equiv> transitionTaskAttempt sample_env ''a2'' Failed
     \<lparr>to_ctx = sample_ctx ''alice'' 2000, to_message = None, to_occurredAt = None\<rparr> sample_attempts_db"

theorem final_attempts_immutable_witness:
  "sample_attempt ''a1'' Succeeded (Some 1500) \<in> set (attempts (fst sample_finish))"
proof -
  have u: "uniq_by a_id (attempts sample_attempts_db)"
    by (simp add: uniq_by_def sample_attempts_db_def sample_attempt_def)
  have "sample_attempt ''a1'' Succeeded (Some 1500) \<in> set (attempts sample_attempts_db)"
    by (simp add: sample_attempts_db_def)
  moreover have "\<not> active_attempt_status (a_status (sample_attempt ''a1'' Succeeded (Some 1500)))"
    by (simp add: sample_attempt_def)
  ultimately show ?thesis
    using conjunct1 [OF final_attempts_immutable [OF u]] unfolding finals_kept_def by blast
qed

section \<open>Attempts under a claim\<close>

lemma attempt_claim_live:
  assumes inv: "claims_inv d" and run: "attempt_claim tid tn pid actor requested now d = Inr claimId"
    and c0: "c0 \<in> set (claims d)" "live_claim tid tn now c0" and "requested \<noteq> Some []" and "c_id c0 \<noteq> []"
  shows "held_by pid actor c0 \<and> claimId = Some (c_id c0)"
proof -
  have "find (live_claim tid tn now) (claims d) = Some c0"
  proof (cases "find (live_claim tid tn now) (claims d)")
    case None
    then show ?thesis using c0 by (auto dest: find_NoneD)
  next
    case (Some x)
    then show ?thesis
      using claims_exclusive [OF inv _ c0(1) _ live_unreleased [OF c0(2)], of x] live_unreleased [of tid tn now x] find_SomeD [OF Some]
      by auto
  qed
  then have act: "getActiveTaskClaim tid tn now d = Some c0" by (simp add: getActiveTaskClaim_def)
  then have h: "held_by pid actor c0" using run by (auto simp: attempt_claim_def Let_def split: if_splits)
  have "claimId = Some (c_id c0)"
  proof (cases requested)
    case None
    with run act h assms(6) show ?thesis
      by (auto simp: attempt_claim_def Let_def truthy_str_def split: if_splits option.splits)
  next
    case (Some i)
    with run act h assms(5) obtain c where c: "find (\<lambda>c. c_id c = i \<and> c_tenantId c = tn) (claims d) = Some c"
      "c_taskId c = tid" "c_releasedAt c = None" "claimId = Some i"
      by (auto simp: attempt_claim_def Let_def truthy_str_def split: if_splits option.splits)
    then have "c = c0" using claims_exclusive [OF inv _ c0(1) _ live_unreleased [OF c0(2)], of c] find_SomeD [OF c(1)]
      by (auto simp: unreleased_claim_def)
    with c find_SomeD [OF c(1)] show ?thesis by simp
  qed
  with h show ?thesis ..
qed

lemma start_success:
  assumes "startTaskAttempt env tid o' d = (d', Inr a)" and "ctx_idempotencyKey (ao_ctx o') = None"
  obtains now d1 evs n j where "serviceNowAt (ao_ctx o') (ao_occurredAt o') = Inr now" "ao_claimId o' \<noteq> Some []"
    "start_fresh env tid o' None now d = Inr (d1, a, evs)" "d' = d1\<lparr>committedMutations := n, journal := j\<rparr>"
  using assms
  by (auto simp: startTaskAttempt_def startTx_def validateUnixMs_def attempt_insert_ok_def Let_def res intro!: that)


abbreviation sample_start :: "db \<times> (err + task_attempt)" where
  "sample_start \<equiv> startTaskAttempt sample_env ''t1'' \<lparr>ao_ctx = sample_ctx ''bob'' 2000, ao_claimId = None, ao_runtime = None,
     ao_externalId = None, ao_contextId = None, ao_metadata = None, ao_occurredAt = None\<rparr> sample_claimed_db"

lemma sample_start_ok: "returned (snd sample_start)" by code_simp


text \<open>Evidence is appended: adding evidence keeps every earlier row and adds one for the commitment
  named; an attempt or an earlier evidence it refers to exists and belongs to the same commitment.\<close>

theorem evidence_appended:
  assumes "addTaskEvidence env i ctx occ d = (d', Inr e)" and "ctx_idempotencyKey ctx = None"
  shows "evidence d' = evidence d @ [e] \<and> e_taskId e = en_taskId i \<and>
    (truthy_str (en_supersedesEvidenceId i) \<longrightarrow> e_supersedesEvidenceId e = en_supersedesEvidenceId i \<and>
       (\<exists>x \<in> set (evidence d). Some (e_id x) = en_supersedesEvidenceId i \<and> e_taskId x = e_taskId e)) \<and>
    (truthy_str (en_attemptId i) \<longrightarrow> e_attemptId e = en_attemptId i \<and>
       (\<exists>x \<in> set (attempts d). Some (a_id x) = en_attemptId i \<and> a_taskId x = e_taskId e))"
proof -
  obtain now obs d1 evs n j where f: "evidence_fresh env i (or_else (ctx_tenantId ctx) (en_tenantId i)) ctx occ None obs now d
      = Inr (d1, e, evs)" and d': "d' = d1\<lparr>committedMutations := n, journal := j\<rparr>"
    using assms by (auto simp: addTaskEvidence_def evidenceTx_def Let_def res)
  then have l: "evidence_links i (or_else (ctx_tenantId ctx) (en_tenantId i)) d = Inr ()"
    and w: "write_evidence env i (or_else (ctx_tenantId ctx) (en_tenantId i)) ctx occ None obs now d = Inr (d1, e, evs)"
    by (auto simp: evidence_fresh_def res)
  have "truthy_str (en_supersedesEvidenceId i) \<Longrightarrow>
      \<exists>x \<in> set (evidence d). Some (e_id x) = en_supersedesEvidenceId i \<and> e_taskId x = en_taskId i"
    using l by (auto simp: evidence_links_def getTaskEvidence_def split: if_splits option.splits
        dest!: truthy_str_some find_SomeD)
  moreover have "truthy_str (en_attemptId i) \<Longrightarrow>
      \<exists>x \<in> set (attempts d). Some (a_id x) = en_attemptId i \<and> a_taskId x = en_taskId i"
    using l by (auto simp: evidence_links_def getTaskAttempt_def split: if_splits option.splits
        dest!: truthy_str_some find_SomeD)
  ultimately show ?thesis using write_evidence_result [OF w] by (simp add: d')
qed

definition sample_evidence_insert :: evidence_insert where
  "sample_evidence_insert = \<lparr>en_id = None, en_tenantId = ''w'', en_taskId = ''t1'', en_attemptId = Some ''a1'',
     en_supersedesEvidenceId = None, en_kind = ''log'', en_summary = Some ''painted'', en_uri = None, en_digest = None,
     en_source = None, en_observedAt = None, en_metadata = []\<rparr>"

abbreviation sample_evidence :: "db \<times> (err + task_evidence)" where
  "sample_evidence \<equiv> addTaskEvidence sample_env sample_evidence_insert (sample_ctx ''alice'' 2000) None sample_attempts_db"

lemma sample_evidence_ok: "returned (snd sample_evidence)" by code_simp

theorem evidence_appended_witness:
  "evidence (fst sample_evidence) = evidence sample_attempts_db @ [projr (snd sample_evidence)]"
proof -
  have "ctx_idempotencyKey (sample_ctx ''alice'' 2000) = None" by (simp add: sample_ctx_def)
  then show ?thesis by (rule conjunct1 [OF evidence_appended [OF returned_op [OF sample_evidence_ok]]])
qed

end
