(* ===== verification/Task_Transition.thy ===== *)
theory Task_Transition
  imports Hierarchy Claim_Table Sample_Ledger
begin

text \<open>
  Status transitions (\<open>transitionTaskStatus\<close> and its helpers in
  \<open>packages/tasq-core/src/service/tasks.ts\<close>): the status table, the claim guard of a terminal
  transition, the evidence and the accepted decision a completion rests on, the attempts that must
  be over, the waits and claims that end with the task, the completion record and the event. The
  recurrence materializer is a seam of the code and an optional argument.
\<close>

section \<open>Waiting conditions\<close>

definition WAIT_CONDITION_KINDS :: "string list" where
  "WAIT_CONDITION_KINDS = [''gmail.thread_reply'', ''github.pull_request_state'', ''mercury.transaction_state'',
     ''http.response'', ''filesystem.artifact'']"

fun wait_lifecycle :: "wait_status \<Rightarrow> wait_condition \<Rightarrow> bool" where
  "wait_lifecycle Waiting w \<longleftrightarrow> w_satisfiedAt w = None \<and> w_satisfiedByObservationId w = None \<and> w_expiredAt w = None \<and>
     w_cancelledAt w = None \<and> w_cancelReason w = None \<and> w_fallbackResultTaskId w = None"
| "wait_lifecycle Satisfied w \<longleftrightarrow> w_satisfiedAt w \<noteq> None \<and> w_satisfiedByObservationId w \<noteq> None \<and> w_expiredAt w = None \<and>
     w_cancelledAt w = None \<and> w_cancelReason w = None \<and> w_fallbackResultTaskId w = None"
| "wait_lifecycle Expired w \<longleftrightarrow> w_satisfiedAt w = None \<and> w_satisfiedByObservationId w = None \<and>
     (case (w_expiredAt w, w_deadlineAt w) of (Some e, Some t) \<Rightarrow> e \<ge> t | _ \<Rightarrow> False) \<and>
     w_cancelledAt w = None \<and> w_cancelReason w = None \<and>
     (if w_fallbackKind w = ''none'' then w_fallbackResultTaskId w = None else w_fallbackResultTaskId w \<noteq> None)"
| "wait_lifecycle WaitCancelled w \<longleftrightarrow> w_satisfiedAt w = None \<and> w_satisfiedByObservationId w = None \<and> w_expiredAt w = None \<and>
     (case (w_cancelledAt w, w_cancelReason w) of (Some t, Some r) \<Rightarrow> t \<ge> w_createdAt w \<and> \<not> sql_blank r | _ \<Rightarrow> False) \<and>
     w_fallbackResultTaskId w = None"

definition wait_check :: "wait_condition \<Rightarrow> bool" where
  "wait_check w \<longleftrightarrow> w_kind w \<in> set WAIT_CONDITION_KINDS \<and> w_schemaVersion w > 0 \<and>
     opt_all (\<lambda>t. t > w_notBefore w) (w_deadlineAt w) \<and>
     (w_fallbackKind w = ''none'' \<and> w_fallbackSpec w = None \<and> w_fallbackTargetTaskId w = None \<or>
      w_fallbackKind w = ''create_task'' \<and> w_fallbackSpec w \<noteq> None \<and> w_fallbackTargetTaskId w = None \<or>
      w_fallbackKind w = ''activate_task'' \<and> w_fallbackSpec w = None \<and> w_fallbackTargetTaskId w \<noteq> None) \<and>
     w_supersedesConditionId w \<noteq> Some (w_id w) \<and> wait_lifecycle (w_status w) w \<and>
     w_updatedAt w \<ge> w_createdAt w \<and> opt_all (\<lambda>t. t \<ge> w_createdAt w) (w_satisfiedAt w) \<and>
     opt_all (\<lambda>t. t \<ge> w_createdAt w) (w_expiredAt w)"

definition update_waits :: "(wait_condition \<Rightarrow> bool) \<Rightarrow> (wait_condition \<Rightarrow> wait_condition) \<Rightarrow> db \<Rightarrow> err + db" where
  "update_waits P f d = insert_row ''wait_condition'' True (\<forall>x \<in> set (waits d). P x \<longrightarrow> wait_check (f x))
     (d\<lparr>waits := update_rows P f (waits d)\<rparr>)"

definition waiting_on :: "string \<Rightarrow> string \<Rightarrow> wait_condition \<Rightarrow> bool" where
  "waiting_on tid tenantId w \<longleftrightarrow> w_tenantId w = tenantId \<and> w_taskId w = tid \<and> w_status w = Waiting"

fun cancel_waits ::
  "env \<Rightarrow> string \<Rightarrow> string \<Rightarrow> string \<Rightarrow> int \<Rightarrow> string list \<Rightarrow> db \<Rightarrow> err + db \<times> event list" where
  "cancel_waits env tid tenantId actor now [] d = Inr (d, [])"
| "cancel_waits env tid tenantId actor now (wid # ids) d =
     (case update_waits (\<lambda>w. w_id w = wid \<and> w_status w = Waiting)
             (\<lambda>w. w\<lparr>w_status := WaitCancelled, w_cancelledAt := Some now, w_cancelReason := Some ''task_terminal'',
                w_updatedAt := now\<rparr>) d of Inl e \<Rightarrow> Inl e | Inr d \<Rightarrow>
      (case recordEvent env (task_event tenantId actor None tid ''wait_cancelled''
             [(''before'', JObj [(''waitConditionId'', JStr wid), (''status'', JStr ''waiting'')]),
              (''after'', JObj [(''waitConditionId'', JStr wid), (''status'', JStr ''cancelled'')]),
              (''reason'', JStr ''task_terminal'')]) now d of Inl e \<Rightarrow> Inl e
       | Inr (d, ev) \<Rightarrow>
          (case cancel_waits env tid tenantId actor now ids d of Inl e \<Rightarrow> Inl e
           | Inr (d, evs) \<Rightarrow> Inr (d, ev # evs))))"

definition cancelWaitingConditionsForTaskTx ::
  "env \<Rightarrow> string \<Rightarrow> string \<Rightarrow> string \<Rightarrow> int \<Rightarrow> db \<Rightarrow> err + db \<times> string list \<times> event list" where
  "cancelWaitingConditionsForTaskTx env tid tenantId actor now d =
     (let ids = map w_id (filter (waiting_on tid tenantId) (waits d)) in
      case cancel_waits env tid tenantId actor now ids d of Inl e \<Rightarrow> Inl e
      | Inr (d, evs) \<Rightarrow> Inr (d, ids, evs))"

section \<open>Options\<close>

record status_change_options =
  so_ctx :: service_context
  so_reason :: "string option"
  so_note :: "string option"
  so_source :: "string option"
  so_occurredAt :: "int option"
  so_evidenceIds :: "string list option"
  so_validationDecisionId :: "string option"
  so_force :: bool

type_synonym materializer = "task \<Rightarrow> int \<Rightarrow> string \<Rightarrow> string \<Rightarrow> db \<Rightarrow> err + db \<times> event"

definition sort_uniq :: "string list \<Rightarrow> string list" where
  "sort_uniq ids = sort (remdups ids)"

definition transition_request :: "string \<Rightarrow> task_status \<Rightarrow> status_change_options \<Rightarrow> json" where
  "transition_request tid to opts = JObj
     [(''taskId'', JStr tid), (''to'', JStr (task_status_text to)),
      (''expectedRevision'', nullable JInt (ctx_expectedRevision (so_ctx opts))),
      (''reason'', nullable JStr (so_reason opts)), (''note'', nullable JStr (so_note opts)),
      (''source'', nullable JStr (so_source opts)), (''occurredAt'', nullable JInt (so_occurredAt opts)),
      (''evidenceIds'', JArr (map JStr (sort_uniq (or_else (so_evidenceIds opts) [])))),
      (''validationDecisionId'', nullable JStr (so_validationDecisionId opts))]"

section \<open>Guards\<close>

definition claim_guard ::
  "string \<Rightarrow> task_status \<Rightarrow> string \<Rightarrow> string \<Rightarrow> string \<Rightarrow> int \<Rightarrow> bool \<Rightarrow> db \<Rightarrow> err + unit" where
  "claim_guard tid to tenantId attributionId actor now force d =
     (if \<not> terminal to then Inr ()
      else case find (live_claim tid tenantId now) (claims d) of
          None \<Rightarrow> Inr ()
        | Some c \<Rightarrow>
            if \<not> held_by attributionId actor c \<and> \<not> force
            then Inl (Contended \<lparr>f_tenantId = tenantId, f_commitmentId = tid, f_kind = ''complete_not_holder'',
                   f_requestedByPrincipalId = attributionId, f_requestedByLabel = actor,
                   f_holderPrincipalId = or_else (c_principalId c) [], f_holderLabel = c_actor c\<rparr>)
            else Inr ())"

text \<open>The accepted decision a validated completion rests on.\<close>

record validated_basis =
  vb_resolutionContractId :: string
  vb_validationDecisionId :: string
  vb_policyUri :: string
  vb_policyVersion :: int
  vb_policyInputDigest :: string
  vb_decidedByPrincipalId :: string

definition validated_completion ::
  "string \<Rightarrow> string \<Rightarrow> task \<Rightarrow> string option \<Rightarrow> string list \<Rightarrow> db \<Rightarrow> err + string list \<times> validated_basis" where
  "validated_completion tid tenantId before decisionId requested d =
     (if \<not> truthy_str decisionId then Inl (Refused ''Task requires an accepted validation decision'' [tid])
      else case find (\<lambda>v. vd_id v = the decisionId \<and> vd_tenantId v = tenantId \<and> vd_taskId v = tid) (decisions d) of
        None \<Rightarrow> Inl (Refused ''Validated completion requires an accepted decision for this task'' [])
      | Some decision \<Rightarrow>
        if vd_outcome decision \<noteq> OutAccepted
        then Inl (Refused ''Validated completion requires an accepted decision for this task'' [])
        else if list_ex (\<lambda>v. vd_tenantId v = tenantId \<and> vd_supersedesDecisionId v = Some (vd_id decision)) (decisions d)
        then Inl (Refused ''Validation decision has been superseded'' [])
        else case find (\<lambda>c. rc_id c = vd_resolutionContractId decision \<and> rc_tenantId c = tenantId \<and> rc_taskId c = tid) (contracts d) of
          None \<Rightarrow> Inl (Refused ''Validation decision uses stale success criteria'' [])
        | Some contract \<Rightarrow>
          if Some (rc_successCriteriaSnapshot contract) \<noteq> t_successCriteria before
          then Inl (Refused ''Validation decision uses stale success criteria'' [])
          else if \<not> list_ex (\<lambda>p. cp_id p = vd_proposalId decision \<and> cp_tenantId p = tenantId \<and> cp_taskId p = tid \<and>
                 cp_resolutionContractId p = rc_id contract) (proposals d)
          then Inl (Refused ''Validation decision proposal basis is missing'' [])
          else if requested \<noteq> [] \<and> requested \<noteq> vd_evidenceIds decision
          then Inl (Refused ''Explicit completion evidence differs from the accepted validation decision'' [])
          else Inr (vd_evidenceIds decision, \<lparr>vb_resolutionContractId = rc_id contract,
                 vb_validationDecisionId = vd_id decision, vb_policyUri = vd_policyUri decision,
                 vb_policyVersion = vd_policyVersion decision, vb_policyInputDigest = vd_policyInputDigest decision,
                 vb_decidedByPrincipalId = vd_decidedByPrincipalId decision\<rparr>))"

definition evidence_owned :: "string \<Rightarrow> string \<Rightarrow> string \<Rightarrow> db \<Rightarrow> bool" where
  "evidence_owned tid tenantId eid d \<longleftrightarrow>
     list_ex (\<lambda>e. e_tenantId e = tenantId \<and> e_taskId e = tid \<and> e_id e = eid) (evidence d)"

definition evidence_superseded :: "string \<Rightarrow> string list \<Rightarrow> db \<Rightarrow> bool" where
  "evidence_superseded tenantId ids d \<longleftrightarrow>
     list_ex (\<lambda>e. e_tenantId e = tenantId \<and>
       (case e_supersedesEvidenceId e of None \<Rightarrow> False | Some s \<Rightarrow> s \<in> set ids)) (evidence d)"

text \<open>The evidence of a completion, and the decision it rests on.\<close>

definition completion_evidence ::
  "string \<Rightarrow> task_status \<Rightarrow> string \<Rightarrow> string \<Rightarrow> string \<Rightarrow> task \<Rightarrow> string option \<Rightarrow> string list \<Rightarrow> db \<Rightarrow>
    err + string list \<times> validated_basis option" where
  "completion_evidence tid to tenantId attributionId actor before decisionId requested d =
     (if to \<noteq> Done then Inr ([], None)
      else case (if t_validationRequired before
            then (case validated_completion tid tenantId before decisionId requested d of Inl e \<Rightarrow> Inl e
                  | Inr (ids, basis) \<Rightarrow> Inr (ids, Some basis))
            else if truthy_str decisionId
            then Inl (Refused ''Task does not require an independent validation decision'' [])
            else Inr (requested, None)) of Inl e \<Rightarrow> Inl e
      | Inr (ids, basis) \<Rightarrow>
          if t_completionMode before = EvidenceMode \<and> ids = []
          then Inl (Contended \<lparr>f_tenantId = tenantId, f_commitmentId = tid, f_kind = ''complete_without_evidence'',
                 f_requestedByPrincipalId = attributionId, f_requestedByLabel = actor,
                 f_holderPrincipalId = [], f_holderLabel = []\<rparr>)
          else if ids \<noteq> [] \<and> filter (\<lambda>i. \<not> evidence_owned tid tenantId i d) ids \<noteq> []
          then Inl (Refused ''Evidence does not belong to task'' (tid # filter (\<lambda>i. \<not> evidence_owned tid tenantId i d) ids))
          else if ids \<noteq> [] \<and> evidence_superseded tenantId ids d
          then Inl (Refused ''Completion evidence has been superseded'' [])
          else Inr (ids, basis))"

definition active_attempt_of :: "string \<Rightarrow> string \<Rightarrow> task_attempt \<Rightarrow> bool" where
  "active_attempt_of tid tenantId a \<longleftrightarrow> a_tenantId a = tenantId \<and> a_taskId a = tid \<and> active_attempt_status (a_status a)"

definition attempts_guard :: "string \<Rightarrow> task_status \<Rightarrow> string \<Rightarrow> db \<Rightarrow> err + unit" where
  "attempts_guard tid to tenantId d =
     (if terminal to \<and> list_ex (active_attempt_of tid tenantId) (attempts d)
      then Inl (Refused ''Task has active attempts; finish or cancel them before making the commitment terminal'' [tid])
      else Inr ())"

section \<open>Effects\<close>

fun statusEventType :: "task_status \<Rightarrow> task_status \<Rightarrow> string" where
  "statusEventType frm InProgress = ''started''"
| "statusEventType frm Done = ''completed''"
| "statusEventType frm Blocked = ''blocked''"
| "statusEventType frm Cancelled = ''cancelled''"
| "statusEventType Blocked Open = ''unblocked''"
| "statusEventType Cancelled Open = ''uncancelled''"
| "statusEventType frm Open = ''status_changed''"

definition status_patch :: "task_status \<Rightarrow> task \<Rightarrow> int \<Rightarrow> int \<Rightarrow> task \<Rightarrow> task" where
  "status_patch to before occurredAt now t = t\<lparr>t_status := to, t_updatedAt := now,
     t_startedAt := (if to = InProgress \<and> t_startedAt before = None then Some occurredAt else t_startedAt t),
     t_completedAt := (if to = Done then Some occurredAt
        else if to = Open \<and> t_status before = Done then None else t_completedAt t),
     t_lastDoneAt := (if to = Done then Some occurredAt else t_lastDoneAt t),
     t_revision := t_revision t + 1\<rparr>"

definition policy_uri :: "completion_mode \<Rightarrow> validated_basis option \<Rightarrow> string" where
  "policy_uri mode basis = (case basis of Some b \<Rightarrow> vb_policyUri b
     | None \<Rightarrow> if mode = EvidenceMode then ''urn:tasq:completion-policy:evidence-required''
               else ''urn:tasq:completion-policy:assertion'')"

definition policy_version :: "validated_basis option \<Rightarrow> int" where
  "policy_version basis = (case basis of Some b \<Rightarrow> vb_policyVersion b | None \<Rightarrow> 1)"

definition policy_digest :: "env \<Rightarrow> string \<Rightarrow> int \<Rightarrow> completion_mode \<Rightarrow> validated_basis option \<Rightarrow> string list \<Rightarrow> string" where
  "policy_digest env tid revision mode basis ids = (case basis of Some b \<Rightarrow> vb_policyInputDigest b
     | None \<Rightarrow> sha256_hex env (stableSerialize (localeLe env) (JObj
         [(''taskId'', JStr tid), (''resultingRevision'', JInt revision),
          (''completionPolicyUri'', JStr (policy_uri mode basis)),
          (''completionPolicyVersion'', JInt (policy_version basis)),
          (''evidenceIds'', JArr (map JStr ids))])))"

text \<open>The completion record of a task that becomes done.\<close>

definition record_completion ::
  "env \<Rightarrow> string \<Rightarrow> task_status \<Rightarrow> string \<Rightarrow> string \<Rightarrow> task \<Rightarrow> task \<Rightarrow> validated_basis option \<Rightarrow> string list \<Rightarrow>
    int \<Rightarrow> int \<Rightarrow> db \<Rightarrow> err + db \<times> string option" where
  "record_completion env tid to tenantId attributionId before after basis ids occurredAt now d =
     (if to \<noteq> Done then Inr (d, None)
      else let (d, crid) = fresh_id env now d in
        case insert_completion \<lparr>cr_id = crid, cr_tenantId = tenantId, cr_taskId = tid,
            cr_resultingRevision = t_revision after,
            cr_completionPolicyUri = policy_uri (t_completionMode before) basis,
            cr_completionPolicyVersion = policy_version basis,
            cr_policyInputDigest = policy_digest env tid (t_revision after) (t_completionMode before) basis ids,
            cr_evidenceIds = ids,
            cr_resolutionContractId = map_option vb_resolutionContractId basis,
            cr_validationDecisionId = map_option vb_validationDecisionId basis,
            cr_decidedByPrincipalId = (case basis of Some b \<Rightarrow> vb_decidedByPrincipalId b | None \<Rightarrow> attributionId),
            cr_decidedAt = occurredAt\<rparr> d of Inl e \<Rightarrow> Inl e | Inr d \<Rightarrow> Inr (d, Some crid))"

text \<open>Terminal commitments release their claims; the identifiers released are returned.\<close>

definition release_terminal_claims ::
  "string \<Rightarrow> task_status \<Rightarrow> string \<Rightarrow> int \<Rightarrow> db \<Rightarrow> err + db \<times> string list" where
  "release_terminal_claims tid to tenantId now d =
     (if \<not> terminal to then Inr (d, [])
      else case update_claims (unreleased_claim tid tenantId)
             (close_claim (if to = Done then ''task_done'' else ''task_cancelled'') now) d of
          Inl e \<Rightarrow> Inl e
        | Inr d' \<Rightarrow> Inr (d', map c_id (filter (unreleased_claim tid tenantId) (claims d))))"

definition truthy_entry :: "string \<Rightarrow> string option \<Rightarrow> (string \<times> json) list" where
  "truthy_entry k s = (if truthy_str s then [(k, JStr (the s))] else [])"

definition list_entry :: "string \<Rightarrow> string list \<Rightarrow> (string \<times> json) list" where
  "list_entry k ids = (if ids \<noteq> [] then [(k, JArr (map JStr ids))] else [])"

definition transition_payload ::
  "task_status \<Rightarrow> task_status \<Rightarrow> string list \<Rightarrow> string option \<Rightarrow> string list \<Rightarrow> string list \<Rightarrow>
    status_change_options \<Rightarrow> (string \<times> json) list" where
  "transition_payload frm to ids crid released cancelled opts =
     [(''before'', JObj [(''status'', JStr (task_status_text frm))]),
      (''after'', JObj ((''status'', JStr (task_status_text to)) # list_entry ''evidenceIds'' ids @
         truthy_entry ''completionRecordId'' crid @ list_entry ''releasedClaimIds'' released @
         list_entry ''cancelledWaitConditionIds'' cancelled))] @
     truthy_entry ''reason'' (so_reason opts) @ truthy_entry ''note'' (so_note opts) @
     truthy_entry ''source'' (so_source opts)"

text \<open>The row the guarded update addresses.\<close>

definition transition_target :: "string \<Rightarrow> string \<Rightarrow> status_change_options \<Rightarrow> task \<Rightarrow> bool" where
  "transition_target tid tenantId opts t \<longleftrightarrow>
     is_task tid tenantId t \<and> revision_matches (ctx_expectedRevision (so_ctx opts)) (t_revision t)"

text \<open>The part of the transaction that follows the guards: the row of the task and everything that
  ends with it. It returns the task after the change and the events.\<close>

definition apply_transition ::
  "env \<Rightarrow> string \<Rightarrow> task_status \<Rightarrow> status_change_options \<Rightarrow> materializer option \<Rightarrow> string \<Rightarrow> string \<Rightarrow> string \<Rightarrow>
    task \<Rightarrow> string list \<Rightarrow> validated_basis option \<Rightarrow> int \<Rightarrow> int \<Rightarrow> db \<Rightarrow> err + db \<times> task \<times> event \<times> event list" where
  "apply_transition env tid to opts mat tenantId actor attributionId before ids basis occurredAt now d =
     (case (if terminal to then cancelWaitingConditionsForTaskTx env tid tenantId actor now d
            else Inr (d, [], [])) of Inl e \<Rightarrow> Inl e
      | Inr (d, cancelledIds, cancelEvents) \<Rightarrow>
        (if ctx_expectedRevision (so_ctx opts) \<noteq> None \<and> \<not> list_ex (transition_target tid tenantId opts) (tasks d)
         then Inl (Refused ''Stale task revision'' [])
         else let d = update_tasks (transition_target tid tenantId opts) (status_patch to before occurredAt now) d in
         case getTask tid tenantId d of Inl e \<Rightarrow> Inl e
         | Inr None \<Rightarrow> Inl (Refused ''Task not found'' [tid])
         | Inr (Some after) \<Rightarrow>
           (case record_completion env tid to tenantId attributionId before after basis ids occurredAt now d of
              Inl e \<Rightarrow> Inl e
            | Inr (d, crid) \<Rightarrow>
              (case release_terminal_claims tid to tenantId now d of Inl e \<Rightarrow> Inl e
               | Inr (d, released) \<Rightarrow>
                 (case recordEvent env ((task_event tenantId actor (Some attributionId) tid
                      (statusEventType (t_status before) to)
                      (transition_payload (t_status before) to ids crid released cancelledIds opts))
                      \<lparr>ei_occurredAt := so_occurredAt opts\<rparr>) now d of Inl e \<Rightarrow> Inl e
                  | Inr (d, ev) \<Rightarrow>
                    (if to = Done \<and> t_recurrence before \<noteq> None \<and> mat \<noteq> None
                     then (case (the mat) after occurredAt tenantId actor d of Inl e \<Rightarrow> Inl e
                           | Inr (d, spawned) \<Rightarrow> Inr (d, after, ev, cancelEvents @ [ev, spawned]))
                     else Inr (d, after, ev, cancelEvents @ [ev])))))))"

definition transition_tx ::
  "env \<Rightarrow> hierarchy_policy \<Rightarrow> string \<Rightarrow> task_status \<Rightarrow> status_change_options \<Rightarrow> materializer option \<Rightarrow>
    prepared_idempotency option \<Rightarrow> string \<Rightarrow> string \<Rightarrow> int \<Rightarrow> int \<Rightarrow> db \<Rightarrow> err + db \<times> task \<times> event list" where
  "transition_tx env hp tid to opts mat identity tenantId actor occurredAt now d0 =
     (case findIdempotencyResult identity d0 of Inl e \<Rightarrow> Inl e
      | Inr (d, Some prior) \<Rightarrow> (case prior_task prior tenantId d of Inl e \<Rightarrow> Inl e | Inr t \<Rightarrow> Inr (d, t, []))
      | Inr (d, None) \<Rightarrow>
        (case getTask tid tenantId d of Inl e \<Rightarrow> Inl e
         | Inr None \<Rightarrow> Inl (Refused ''Task not found'' [tid])
         | Inr (Some before) \<Rightarrow>
           (if truthy_num (t_deletedAt before) then Inl (Refused ''Task is deleted'' [tid])
            else if t_status before = to
            then (case saveIdempotencyResult identity (task_outcome before None) d of Inl e \<Rightarrow> Inl e
                  | Inr d \<Rightarrow> Inr (d, before, []))
            else case assertTransition (t_status before) to of Inl e \<Rightarrow> Inl e | Inr _ \<Rightarrow>
              (case live_ancestors hp tenantId before d of Inl e \<Rightarrow> Inl e | Inr _ \<Rightarrow>
              (case resolveAttribution env (ctx_principalId (so_ctx opts)) tenantId actor now d of Inl e \<Rightarrow> Inl e
               | Inr (d, attribution) \<Rightarrow>
              (case claim_guard tid to tenantId (p_id attribution) actor now (so_force opts) d of Inl e \<Rightarrow> Inl e | Inr _ \<Rightarrow>
              (case completion_evidence tid to tenantId (p_id attribution) actor before (so_validationDecisionId opts)
                      (sort_uniq (or_else (so_evidenceIds opts) [])) d of Inl e \<Rightarrow> Inl e
               | Inr (ids, basis) \<Rightarrow>
              (case attempts_guard tid to tenantId d of Inl e \<Rightarrow> Inl e | Inr _ \<Rightarrow>
              (case apply_transition env tid to opts mat tenantId actor (p_id attribution) before ids basis
                      occurredAt now d of Inl e \<Rightarrow> Inl e
               | Inr (d, after, ev, evs) \<Rightarrow>
              (case saveIdempotencyResult identity (task_outcome after (Some (ev_sequence ev))) d of Inl e \<Rightarrow> Inl e
               | Inr d \<Rightarrow> Inr (d, after, evs)))))))))))"

definition transitionTaskStatus ::
  "env \<Rightarrow> hierarchy_policy \<Rightarrow> string \<Rightarrow> task_status \<Rightarrow> status_change_options \<Rightarrow> materializer option \<Rightarrow>
    db \<Rightarrow> db \<times> (err + task)" where
  "transitionTaskStatus env hp tid to opts mat =
     (let ctx = so_ctx opts; tenantId = tenant_of ctx; actor = actor_of ctx in
      prologue (case serviceNow ctx of Inl e \<Rightarrow> Inl e | Inr now \<Rightarrow>
        (let occurredAt = or_else (so_occurredAt opts) now in
         if \<not> isSafeInteger occurredAt \<or> occurredAt < 0
         then Inl (Refused ''occurredAt must be a non-negative unix-ms integer'' [])
         else case prepareIdempotency env (ctx\<lparr>ctx_tenantId := Some tenantId, ctx_actor := Some actor\<rparr>)
                 (''task.transition.'' @ task_status_text to) (transition_request tid to opts) now None None None of
             Inl e \<Rightarrow> Inl e | Inr identity \<Rightarrow> Inr (now, occurredAt, identity)))
      (\<lambda>(now, occurredAt, identity). withContentionRecorded now (runInTransaction
         (transition_tx env hp tid to opts mat identity tenantId actor occurredAt now))))"

definition startTask where "startTask env hp tid opts = transitionTaskStatus env hp tid InProgress opts None"
definition completeTask where "completeTask env hp tid opts = transitionTaskStatus env hp tid Done opts None"
definition blockTask where "blockTask env hp tid opts = transitionTaskStatus env hp tid Blocked opts None"
definition unblockTask where "unblockTask env hp tid opts = transitionTaskStatus env hp tid Open opts None"
definition cancelTask where "cancelTask env hp tid opts = transitionTaskStatus env hp tid Cancelled opts None"
definition reopenTask where "reopenTask env hp tid opts = transitionTaskStatus env hp tid Open opts None"

section \<open>What a transition does\<close>

lemma update_waits_Inr: "update_waits P f d = Inr d' \<Longrightarrow> d' = d\<lparr>waits := update_rows P f (waits d)\<rparr>"
  by (simp add: update_waits_def res)

lemma cancel_waits_frame:
  "cancel_waits env tid tn actor now ids d = Inr (d', evs) \<Longrightarrow>
    \<exists>ws ps k es n. d' = d\<lparr>waits := ws, principals := principals d @ ps, draws := k, events := es, eventSeq := n\<rparr>"
proof (induction ids arbitrary: d evs)
  case Nil
  then show ?case
    by (intro exI [of _ "waits d"] exI [of _ "[]"] exI [of _ "draws d"] exI [of _ "events d"] exI [of _ "eventSeq d"]) simp
next
  case (Cons i ids)
  then obtain ws0 ev d2 evs' inp where 1: "recordEvent env inp now (d\<lparr>waits := ws0\<rparr>) = Inr (d2, ev)"
    and 2: "cancel_waits env tid tn actor now ids d2 = Inr (d', evs')"
    by (auto simp: res dest!: update_waits_Inr)
  from recordEvent_frame [OF 1] obtain ps k
    where "d2 = d\<lparr>waits := ws0, principals := principals d @ ps, draws := k, events := events d @ [ev], eventSeq := eventSeq d + 1\<rparr>"
    by auto
  moreover obtain ws' ps' k' es' n' where "d' = d2\<lparr>waits := ws', principals := principals d2 @ ps', draws := k',
      events := es', eventSeq := n'\<rparr>" using Cons.IH [OF 2] by blast
  ultimately show ?case
    by (intro exI [of _ ws'] exI [of _ "ps @ ps'"] exI [of _ k'] exI [of _ es'] exI [of _ n']) simp
qed

lemma cancel_waits_ends:
  "cancel_waits env tid tn actor now ids d = Inr (d', evs) \<Longrightarrow>
    \<forall>w \<in> set (waits d'). w_status w = Waiting \<longrightarrow> w \<in> set (waits d) \<and> w_id w \<notin> set ids"
proof (induction ids arbitrary: d evs)
  case (Cons i ids)
  let ?hit = "\<lambda>w. w_id w = i \<and> w_status w = Waiting"
  let ?f = "\<lambda>w. w\<lparr>w_status := WaitCancelled, w_cancelledAt := Some now, w_cancelReason := Some ''task_terminal'',
                w_updatedAt := now\<rparr>"
  obtain d2 ev evs' inp where 1: "recordEvent env inp now (d\<lparr>waits := update_rows ?hit ?f (waits d)\<rparr>) = Inr (d2, ev)"
    and 2: "cancel_waits env tid tn actor now ids d2 = Inr (d', evs')"
    using Cons.prems by (auto simp: res dest!: update_waits_Inr)
  have w2: "waits d2 = update_rows ?hit ?f (waits d)" using recordEvent_frame [OF 1] by auto
  have "w \<in> set (waits d) \<and> w_id w \<noteq> i" if "w \<in> set (waits d2)" "w_status w = Waiting" for w
    using that unfolding w2 by (elim update_rows_cases) auto
  with Cons.IH [OF 2] show ?case by auto
qed simp

lemma cancelWaiting_result:
  assumes "cancelWaitingConditionsForTaskTx env tid tn actor now d = Inr (d', ids, evs)"
  shows "(\<exists>ws ps k es n. d' = d\<lparr>waits := ws, principals := principals d @ ps, draws := k, events := es, eventSeq := n\<rparr>) \<and>
    \<not> list_ex (waiting_on tid tn) (waits d')"
proof -
  have c: "cancel_waits env tid tn actor now (map w_id (filter (waiting_on tid tn) (waits d))) d = Inr (d', evs)"
    using assms by (auto simp: cancelWaitingConditionsForTaskTx_def Let_def res)
  have "\<not> list_ex (waiting_on tid tn) (waits d')"
    using cancel_waits_ends [OF c] by (auto simp: list_ex_iff waiting_on_def)
  with cancel_waits_frame [OF c] show ?thesis by blast
qed

lemma insert_completion_Inr:
  "insert_completion r d = Inr d' \<Longrightarrow> d' = d\<lparr>completions := completions d @ [r]\<rparr>"
  by (simp add: insert_completion_def res)

lemma record_completion_result:
  assumes "record_completion env tid to tn aid before after basis ids occ now d = Inr (d', crid)"
  shows "(\<exists>k cs. d' = d\<lparr>draws := k, completions := completions d @ cs\<rparr> \<and>
     (if to = Done then \<exists>r. cs = [r] \<and> cr_tenantId r = tn \<and> cr_taskId r = tid \<and> cr_resultingRevision r = t_revision after \<and>
          cr_evidenceIds r = ids \<and> cr_validationDecisionId r = map_option vb_validationDecisionId basis \<and> crid = Some (cr_id r)
      else cs = [] \<and> crid = None))"
proof (cases "to = Done")
  case True
  with assms show ?thesis
    by (auto simp: record_completion_def fresh_id_def Let_def res dest!: insert_completion_Inr
        intro!: exI [of _ "draws d + 1"] exI [of _ "[_]"])
next
  case False
  with assms show ?thesis
    by (intro exI [of _ "draws d"] exI [of _ "[]"]) (simp add: record_completion_def)
qed

lemma release_terminal_result:
  assumes "release_terminal_claims tid to tn now d = Inr (d', rel)"
  shows "d' = (if terminal to then d\<lparr>claims := update_rows (unreleased_claim tid tn)
      (close_claim (if to = Done then ''task_done'' else ''task_cancelled'') now) (claims d)\<rparr> else d)"
  using assms by (auto simp: release_terminal_claims_def res dest!: update_claims_Inr split: if_splits)

text \<open>The writes of a transition, table by table.\<close>

lemma apply_transition_result:
  assumes "apply_transition env tid to opts None tn actor aid before ids basis occ now d = Inr (d', after, ev, evs)"
  shows "tasks d' = update_rows (transition_target tid tn opts) (status_patch to before occ now) (tasks d)" (is ?A)
    and "ctx_expectedRevision (so_ctx opts) \<noteq> None \<longrightarrow> list_ex (transition_target tid tn opts) (tasks d)" (is ?B)
    and "task_row tid tn d' = Some after" (is ?C)
    and "claims d' = (if terminal to then update_rows (unreleased_claim tid tn)
      (close_claim (if to = Done then ''task_done'' else ''task_cancelled'') now) (claims d) else claims d)" (is ?D)
    and "terminal to \<longrightarrow> \<not> list_ex (waiting_on tid tn) (waits d')" (is ?E)
    and "\<exists>cs. completions d' = completions d @ cs \<and>
      (if to = Done then \<exists>r. cs = [r] \<and> cr_tenantId r = tn \<and> cr_taskId r = tid \<and> cr_resultingRevision r = t_revision after \<and>
          cr_evidenceIds r = ids \<and> cr_validationDecisionId r = map_option vb_validationDecisionId basis
       else cs = [])" (is ?F)
    and "attempts d' = attempts d \<and> evidence d' = evidence d \<and> relations d' = relations d \<and> decisions d' = decisions d \<and>
      assumptionLinks d' = assumptionLinks d \<and> assumptions d' = assumptions d" (is ?G)
proof -
  obtain d1 cids cevs d3 crid d4 rel where 1: "(if terminal to then cancelWaitingConditionsForTaskTx env tid tn actor now d
            else Inr (d, [], [])) = Inr (d1, cids, cevs)"
    and rv: "\<not> (ctx_expectedRevision (so_ctx opts) \<noteq> None \<and> \<not> list_ex (transition_target tid tn opts) (tasks d1))"
    and 2: "getTask tid tn (update_tasks (transition_target tid tn opts) (status_patch to before occ now) d1) = Inr (Some after)"
    and 3: "record_completion env tid to tn aid before after basis ids occ now
       (update_tasks (transition_target tid tn opts) (status_patch to before occ now) d1) = Inr (d3, crid)"
    and 4: "release_terminal_claims tid to tn now d3 = Inr (d4, rel)"
    and 5: "recordEvent env ((task_event tn actor (Some aid) tid
                      (statusEventType (t_status before) to)
                      (transition_payload (t_status before) to ids crid rel cids opts))
                      \<lparr>ei_occurredAt := so_occurredAt opts\<rparr>) now d4 = Inr (d', ev)"
    using assms(1) unfolding apply_transition_def
    by (auto simp: Let_def res split: if_splits)
  have d1: "(\<exists>ws ps k es n. d1 = d\<lparr>waits := ws, principals := principals d @ ps, draws := k, events := es, eventSeq := n\<rparr>)
      \<and> (terminal to \<longrightarrow> \<not> list_ex (waiting_on tid tn) (waits d1))"
  proof (cases "terminal to")
    case True
    then show ?thesis using 1 cancelWaiting_result [of env tid tn actor now d] by simp
  next
    case False
    then have "d1 = d" using 1 by simp
    with False show ?thesis
      by (intro conjI exI [of _ "waits d"] exI [of _ "[]"] exI [of _ "draws d"] exI [of _ "events d"] exI [of _ "eventSeq d"]) simp_all
  qed
  let ?d2 = "update_tasks (transition_target tid tn opts) (status_patch to before occ now) d1"
  obtain ws ps k es n where d1: "d1 = d\<lparr>waits := ws, principals := principals d @ ps, draws := k, events := es, eventSeq := n\<rparr>"
    and w: "terminal to \<longrightarrow> \<not> list_ex (waiting_on tid tn) (waits d1)" using d1 by blast
  obtain k3 cs where d3: "d3 = ?d2\<lparr>draws := k3, completions := completions ?d2 @ cs\<rparr>"
    and cs: "if to = Done then \<exists>r. cs = [r] \<and> cr_tenantId r = tn \<and> cr_taskId r = tid \<and> cr_resultingRevision r = t_revision after \<and>
          cr_evidenceIds r = ids \<and> cr_validationDecisionId r = map_option vb_validationDecisionId basis \<and> crid = Some (cr_id r)
      else cs = [] \<and> crid = None" using record_completion_result [OF 3] by blast
  obtain ps' k' where d': "d' = d4\<lparr>principals := principals d4 @ ps', draws := k', events := events d4 @ [ev],
      eventSeq := eventSeq d4 + 1\<rparr>" using recordEvent_frame [OF 5] by blast
  have d4: "tasks d4 = tasks d3" "waits d4 = waits d3" "completions d4 = completions d3" "attempts d4 = attempts d3"
    "evidence d4 = evidence d3" "relations d4 = relations d3" "decisions d4 = decisions d3"
    "assumptionLinks d4 = assumptionLinks d3" "assumptions d4 = assumptions d3"
    "claims d4 = (if terminal to then update_rows (unreleased_claim tid tn)
      (close_claim (if to = Done then ''task_done'' else ''task_cancelled'') now) (claims d3) else claims d3)"
    by (simp_all add: release_terminal_result [OF 4])
  have t: "tasks d' = update_rows (transition_target tid tn opts) (status_patch to before occ now) (tasks d)"
    by (simp add: d' d4 d3 d1 update_tasks_def)
  then show ?A .
  have "tasks d1 = tasks d" by (simp add: d1)
  with rv show ?B by auto
  have "tasks ?d2 = tasks d'" by (simp add: t d1 update_tasks_def)
  with 2 show ?C by (auto simp: task_row_def res)
  show ?D by (simp add: d' d4 d3 d1 update_tasks_def)
  have "waits d' = waits d1" by (simp add: d' d4 d3 update_tasks_def)
  with w show ?E by simp
  have "completions d' = completions d @ cs" by (simp add: d' d4 d3 d1 update_tasks_def)
  with cs show ?F by (intro exI [of _ cs]) (auto split: if_splits)
  show ?G by (simp add: d' d4 d3 d1 update_tasks_def)
qed

text \<open>A transition either found its outcome saved, or the task already in the status, or passed every
  guard and wrote.\<close>

lemma guards_principals [simp]:
  "claim_guard tid to tn aid actor now force (d\<lparr>principals := ps\<rparr>) = claim_guard tid to tn aid actor now force d"
  "completion_evidence tid to tn aid actor before vd ids (d\<lparr>principals := ps\<rparr>) =
     completion_evidence tid to tn aid actor before vd ids d"
  "attempts_guard tid to tn (d\<lparr>principals := ps\<rparr>) = attempts_guard tid to tn d"
  by (simp_all add: claim_guard_def completion_evidence_def validated_completion_def evidence_owned_def
      evidence_superseded_def attempts_guard_def cong: option.case_cong sum.case_cong if_cong)

lemma transition_tx_cases:
  assumes "transition_tx env hp tid to opts None identity tn actor occ now d = Inr (d', t, evs)"
  obtains (kept) xs where "d' = d\<lparr>idems := xs\<rparr>"
      "identity = None \<Longrightarrow> task_row tid tn d = Some t \<and> t_status t = to \<and> d' = d"
  | (changed) xs ps before p ids basis d1 ev out where
      "identity = None \<Longrightarrow> d\<lparr>idems := xs\<rparr> = d" "task_row tid tn d = Some before" "\<not> truthy_num (t_deletedAt before)"
      "t_status before \<noteq> to" "assertTransition (t_status before) to = Inr ()"
      "resolveAttribution env (ctx_principalId (so_ctx opts)) tn actor now (d\<lparr>idems := xs\<rparr>) = Inr (d\<lparr>idems := xs, principals := ps\<rparr>, p)"
      "claim_guard tid to tn (p_id p) actor now (so_force opts) (d\<lparr>idems := xs\<rparr>) = Inr ()"
      "completion_evidence tid to tn (p_id p) actor before (so_validationDecisionId opts)
         (sort_uniq (or_else (so_evidenceIds opts) [])) (d\<lparr>idems := xs\<rparr>) = Inr (ids, basis)"
      "attempts_guard tid to tn (d\<lparr>idems := xs\<rparr>) = Inr ()"
      "apply_transition env tid to opts None tn actor (p_id p) before ids basis occ now (d\<lparr>idems := xs, principals := ps\<rparr>)
         = Inr (d1, t, ev, evs)"
      "saveIdempotencyResult identity out d1 = Inr d'"
proof -
  obtain d0 prior where f: "findIdempotencyResult identity d = Inr (d0, prior)"
    using assms by (auto simp: transition_tx_def split: sum.splits)
  obtain xs where d0: "d0 = d\<lparr>idems := xs\<rparr>" using findIdempotencyResult_frame [OF f] by blast
  have none: "identity = None \<Longrightarrow> d0 = d \<and> prior = None" using f by simp
  show thesis
  proof (cases prior)
    case (Some r)
    have "d' = d0" using assms f Some by (auto simp: transition_tx_def res)
    moreover have "identity \<noteq> None" using none Some by blast
    ultimately show thesis using kept [of xs] d0 by blast
  next
    case None
    obtain before where b: "task_row tid tn d0 = Some before" "\<not> truthy_num (t_deletedAt before)"
      using assms f None by (auto simp: transition_tx_def res)
    show thesis
    proof (cases "t_status before = to")
      case True
      then obtain out where s: "saveIdempotencyResult identity out d0 = Inr d'" "t = before"
        using assms f None b by (auto simp: transition_tx_def res)
      then obtain ys where "d' = d0\<lparr>idems := ys\<rparr>" using saveIdempotencyResult_frame [OF s(1)] by blast
      then have "d' = d\<lparr>idems := ys\<rparr>" by (simp add: d0)
      moreover have "task_row tid tn d = Some t \<and> t_status t = to \<and> d' = d" if "identity = None"
        using none [OF that] b(1) True s that by simp
      ultimately show thesis using kept by blast
    next
      case False
      then obtain d2 p ids basis d1 ev where
        a: "assertTransition (t_status before) to = Inr ()"
        and r: "resolveAttribution env (ctx_principalId (so_ctx opts)) tn actor now d0 = Inr (d2, p)"
        and g: "claim_guard tid to tn (p_id p) actor now (so_force opts) d2 = Inr ()"
          "completion_evidence tid to tn (p_id p) actor before (so_validationDecisionId opts)
             (sort_uniq (or_else (so_evidenceIds opts) [])) d2 = Inr (ids, basis)"
          "attempts_guard tid to tn d2 = Inr ()"
        and w: "apply_transition env tid to opts None tn actor (p_id p) before ids basis occ now d2 = Inr (d1, t, ev, evs)"
        and s: "saveIdempotencyResult identity (task_outcome t (Some (ev_sequence ev))) d1 = Inr d'"
        using assms f None b by (auto simp: transition_tx_def res)
      obtain ps where d2: "d2 = d0\<lparr>principals := ps\<rparr>" using resolveAttribution_frame [OF r] by blast
      have same: "d\<lparr>idems := xs\<rparr> = d" if "identity = None" using none [OF that] d0 by simp
      have row: "task_row tid tn d = Some before" using b(1) by (simp add: d0 task_row_def)
      show thesis
        by (rule changed [OF same row b(2) False a r [unfolded d2 d0] g [unfolded d2 guards_principals, unfolded d0]
              w [unfolded d2 d0] s])
    qed
  qed
qed

lemma transition_success:
  assumes "transitionTaskStatus env hp tid to opts None d = (d', Inr t)" and "ctx_idempotencyKey (so_ctx opts) = None"
  obtains (kept) n j where "task_row tid (tenant_of (so_ctx opts)) d = Some t" "t_status t = to"
      "d' = d\<lparr>committedMutations := n, journal := j\<rparr>"
  | (changed) now occ ps before p ids basis d1 ev es n j where
      "serviceNow (so_ctx opts) = Inr now"
      "task_row tid (tenant_of (so_ctx opts)) d = Some before" "\<not> truthy_num (t_deletedAt before)"
      "t_status before \<noteq> to" "assertTransition (t_status before) to = Inr ()"
      "resolveAttribution env (ctx_principalId (so_ctx opts)) (tenant_of (so_ctx opts)) (actor_of (so_ctx opts)) now d
         = Inr (d\<lparr>principals := ps\<rparr>, p)"
      "claim_guard tid to (tenant_of (so_ctx opts)) (p_id p) (actor_of (so_ctx opts)) now (so_force opts) d = Inr ()"
      "completion_evidence tid to (tenant_of (so_ctx opts)) (p_id p) (actor_of (so_ctx opts)) before
         (so_validationDecisionId opts) (sort_uniq (or_else (so_evidenceIds opts) [])) d = Inr (ids, basis)"
      "attempts_guard tid to (tenant_of (so_ctx opts)) d = Inr ()"
      "apply_transition env tid to opts None (tenant_of (so_ctx opts)) (actor_of (so_ctx opts)) (p_id p) before ids basis
         occ now (d\<lparr>principals := ps\<rparr>) = Inr (d1, t, ev, es)"
      "d' = d1\<lparr>committedMutations := n, journal := j\<rparr>"
proof -
  obtain now occ d1 evs n j where now: "serviceNow (so_ctx opts) = Inr now"
    and tx: "transition_tx env hp tid to opts None None (tenant_of (so_ctx opts)) (actor_of (so_ctx opts)) occ now d
       = Inr (d1, t, evs)" and d': "d' = d1\<lparr>committedMutations := n, journal := j\<rparr>"
    using assms by (auto simp: transitionTaskStatus_def Let_def res)
  from tx show thesis
  proof (cases rule: transition_tx_cases)
    case (kept xs)
    then show thesis using d' by (intro that(1)) auto
  next
    case (changed xs ps before p ids basis d2 ev out)
    have d: "d\<lparr>idems := xs\<rparr> = d" by (rule changed(1) [OF refl])
    have "d2 = d1" using changed(11) by simp
    show thesis
      by (rule that(2) [OF now changed(2-5) changed(6) [unfolded d] changed(7-9) [unfolded d]
            changed(10) [unfolded d \<open>d2 = d1\<close>] d'])
  qed
qed

section \<open>Properties\<close>

lemma transition_after:
  assumes "rows_inv d" and "task_row tid tn d = Some before"
    and "apply_transition env tid to opts None tn actor aid before ids basis occ now (d\<lparr>principals := ps\<rparr>) = Inr (d', after, ev, evs)"
  shows "after = status_patch to before occ now before \<and> revision_matches (ctx_expectedRevision (so_ctx opts)) (t_revision before)"
proof -
  note r = apply_transition_result(1-3) [OF assms(3)]
  have one: "x = before" if "x \<in> set (tasks d)" "is_task tid tn x" for x
    using task_row_unique [OF assms(1,2) that(1)] that(2) by (simp add: is_task_def)
  have b: "before \<in> set (tasks d)" "t_id before = tid" "t_tenantId before = tn" using task_row_Some [OF assms(2)] by auto
  have rv: "revision_matches (ctx_expectedRevision (so_ctx opts)) (t_revision before)"
    using r(2) one by (auto simp: list_ex_iff transition_target_def revision_matches_def)
  have "task_row tid tn d' = map_option (\<lambda>t. if transition_target tid tn opts t then status_patch to before occ now t else t)
      (task_row tid tn d)"
    using r(1) task_row_update [of "status_patch to before occ now" tid tn "transition_target tid tn opts" d]
    by (simp add: task_row_def update_tasks_def status_patch_def)
  with r(3) assms(2) rv b show ?thesis by (auto simp: transition_target_def is_task_def)
qed


lemma validated_completion_decision:
  assumes "validated_completion tid tn before decisionId requested d = Inr (ids, basis)"
  shows "\<exists>v \<in> set (decisions d). vb_validationDecisionId basis = vd_id v \<and> vd_taskId v = tid \<and> vd_outcome v = OutAccepted"
proof -
  obtain v where v: "find (\<lambda>v. vd_id v = the decisionId \<and> vd_tenantId v = tn \<and> vd_taskId v = tid) (decisions d) = Some v"
    and "vd_outcome v = OutAccepted" "vb_validationDecisionId basis = vd_id v"
    using assms unfolding validated_completion_def by (auto simp: res split: if_splits option.splits)
  then show ?thesis by (intro bexI [of _ v]) (auto dest: find_SomeD)
qed



text \<open>Bob completes the commitment he holds.\<close>

abbreviation sample_options :: "string \<Rightarrow> int \<Rightarrow> status_change_options" where
  "sample_options actor now \<equiv> \<lparr>so_ctx = sample_ctx actor now, so_reason = None, so_note = None, so_source = None,
     so_occurredAt = None, so_evidenceIds = None, so_validationDecisionId = None, so_force = False\<rparr>"

abbreviation sample_done :: "db \<times> (err + task)" where
  "sample_done \<equiv> completeTask sample_env flatHierarchyPolicy ''t1'' (sample_options ''bob'' 2000) sample_claimed_db"

lemma sample_done_ok: "returned (snd sample_done)" by code_simp

lemma sample_claimed_rows: "rows_inv sample_claimed_db" "task_row ''t1'' ''w'' sample_claimed_db = Some (sample_task ''t1'' ''paint'' None)"
  "t_status (sample_task ''t1'' ''paint'' None) = Open" by code_simp+




section \<open>Invariants\<close>

lemma status_patch_simps [simp]:
  "t_id (status_patch to b o' now t) = t_id t" "t_tenantId (status_patch to b o' now t) = t_tenantId t"
  "t_parentTaskId (status_patch to b o' now t) = t_parentTaskId t"
  by (simp_all add: status_patch_def)

text \<open>What a transition body did to the tables the invariants speak of.\<close>

lemma transition_tx_tables:
  assumes "transition_tx env hp tid to opts None identity tn actor occ now d = Inr (d', t, evs)"
  obtains (kept) "tasks d' = tasks d" "claims d' = claims d" "relations d' = relations d" "attempts d' = attempts d"
  | (changed) P before occ' r Q where "tasks d' = update_rows P (status_patch to before occ' now) (tasks d)"
      "claims d' = update_rows Q (close_claim r now) (claims d)" "relations d' = relations d" "attempts d' = attempts d"
  using assms
proof (cases rule: transition_tx_cases)
  case (kept xs)
  then show thesis by (intro that(1)) simp_all
next
  case (changed xs ps before p ids basis d1 ev out)
  note w = apply_transition_result [OF changed(10)]
  obtain ys where "d' = d1\<lparr>idems := ys\<rparr>" using saveIdempotencyResult_frame [OF changed(11)] by blast
  moreover have "update_rows (\<lambda>_. False) f xs = xs" for f and xs :: "task_claim list" by (simp add: update_rows_def)
  ultimately show thesis using w(1,4,7)
    by (cases "terminal to") (auto intro: that(2) that(2) [where Q = "\<lambda>_. False" and r = "[]"])
qed

interpretation rows_tx: tx_invariant rows_inv
  by unfold_locales (simp_all add: rows_inv_def)

interpretation tree_tx: tx_invariant "tree_inv tn" for tn
  by unfold_locales (simp_all add: tree_inv_def parent_of_def [abs_def] task_row_def)

lemma transition_keeps:
  assumes "tx_invariant I" and "I d"
    and "\<And>now occ identity d' t evs. transition_tx env hp tid to opts mat identity (tenant_of (so_ctx opts)) (actor_of (so_ctx opts)) occ now d
        = Inr (d', t, evs) \<Longrightarrow> I d'"
  shows "I (fst (transitionTaskStatus env hp tid to opts mat d))"
  unfolding transitionTaskStatus_def Let_def
proof (rule tx_invariant.prologue_keeps [OF assms(1,2)], clarify)
  fix now occ identity
  show "I (fst (withContentionRecorded now (runInTransaction (transition_tx env hp tid to opts mat identity
     (tenant_of (so_ctx opts)) (actor_of (so_ctx opts)) occ now)) d))"
    by (rule tx_invariant.contention_keeps [OF assms(1)], rule tx_invariant.transaction [OF assms(1,2)]) (rule assms(3))
qed

lemma transition_claims_inv:
  assumes "claims_inv d" shows "claims_inv (fst (transitionTaskStatus env hp tid to opts None d))"
proof (rule transition_keeps [OF claims_tx.tx_invariant_axioms assms])
  fix now occ identity d' t evs
  assume "transition_tx env hp tid to opts None identity (tenant_of (so_ctx opts)) (actor_of (so_ctx opts)) occ now d = Inr (d', t, evs)"
  then show "claims_inv d'"
    by (cases rule: transition_tx_tables) (use assms in \<open>simp add: claims_inv_def\<close>, rule claims_inv_close [OF assms])
qed

lemma transition_rows_inv:
  assumes "rows_inv d" shows "rows_inv (fst (transitionTaskStatus env hp tid to opts None d))"
proof (rule transition_keeps [OF rows_tx.tx_invariant_axioms assms])
  fix now occ identity d' t evs
  assume "transition_tx env hp tid to opts None identity (tenant_of (so_ctx opts)) (actor_of (so_ctx opts)) occ now d = Inr (d', t, evs)"
  then show "rows_inv d'"
    by (cases rule: transition_tx_tables) (use assms in \<open>auto simp: rows_inv_def intro!: uniq_by_update_rows\<close>)
qed

lemma transition_tree_inv:
  assumes "tree_inv tn d" shows "tree_inv tn (fst (transitionTaskStatus env hp tid to opts None d))"
proof (rule transition_keeps [OF tree_tx.tx_invariant_axioms assms])
  fix now occ identity d' t evs
  assume "transition_tx env hp tid to opts None identity (tenant_of (so_ctx opts)) (actor_of (so_ctx opts)) occ now d = Inr (d', t, evs)"
  then show "tree_inv tn d'"
  proof (cases rule: transition_tx_tables)
    case kept
    with assms show ?thesis using tree_inv_cong by blast
  next
    case (changed P before occ' r Q)
    have "tree_inv tn (update_tasks P (status_patch to before occ' now) d)"
      by (rule tree_inv_update_tasks) (simp_all add: assms)
    moreover have "tasks d' = tasks (update_tasks P (status_patch to before occ' now) d)"
      using changed(1) by (simp add: update_tasks_def)
    ultimately show ?thesis using tree_inv_cong by blast
  qed
qed

end
