(* ===== verification/Budget_Enforcement.thy ===== *)
theory Budget_Enforcement
  imports Claims
begin

text \<open>
  What the cost budget of a commitment enforces (\<open>packages/tasq-core/src/service/costs.ts\<close>): the summary is
  exact with respect to the receipts, and a receipt that reaches the bound takes the live claim back.
\<close>

lemma observed_cost_cong:
  "externalRefs d' = externalRefs d \<Longrightarrow> attempts d' = attempts d \<Longrightarrow> observed_cost cur tid tn d' = observed_cost cur tid tn d"
  by (simp add: observed_cost_def costRefsForTask_def)

text \<open>What a fresh receipt did: the summary is taken after the receipt, and decides over the claim.\<close>

lemma write_cost_result:
  assumes "write_cost env tn actor ob identity p now d = Inr (d', r, evs)"
  obtains d1 active where "claims d1 = claims d" "tasks d1 = tasks d" "attempts d1 = attempts d" "externalRefs d1 = externalRefs d'"
    "summarizeTaskCost env (co_taskId ob) tn (map_option c_id active) False d1 = Inr (cx_summary r)"
    "active = unexpired_claim (co_taskId ob) tn now d1" "attempts d' = attempts d" "tasks d' = tasks d"
    "claims d' = (case active of None \<Rightarrow> claims d | Some c \<Rightarrow> if su_allowed (cx_summary r) then claims d
      else update_rows (\<lambda>x. c_id x = c_id c) (close_claim ''cost_bound_reached'' now) (claims d))"
proof -
  obtain d0 xid d1 d2 ev d3 rel es out where 0: "fresh_id env now d = (d0, xid)"
    and 1: "insert_external_ref (cost_ref env xid tn ob (p_id p) now) d0 = Inr d1"
    and 2: "recordEvent env (task_event tn actor (Some (p_id p)) (co_taskId ob) ''attempt_cost_observed''
             [(''after'', JObj [(''externalRefId'', JStr xid), (''attemptId'', JStr (co_attemptId ob)),
                (''currency'', JStr (co_currency ob)), (''grossMicros'', JStr (co_grossMicros ob))])]) now d1 = Inr (d2, ev)"
    and 3: "summarizeTaskCost env (co_taskId ob) tn (map_option c_id (unexpired_claim (co_taskId ob) tn now d2)) False d2
       = Inr (cx_summary r)"
    and 4: "release_at_bound env tn actor p (co_taskId ob) (cx_summary r) (unexpired_claim (co_taskId ob) tn now d2) now d2
       = Inr (d3, rel, es)"
    and save: "saveIdempotencyResult identity out d3 = Inr d'"
    using assms unfolding write_cost_def by (auto simp: Let_def res split: prod.splits)
  obtain xs where 5: "d' = d3\<lparr>idems := xs\<rparr>" using saveIdempotencyResult_frame [OF save] by blast
  note f = recordEvent_frame [OF 2] insert_external_ref_Inr [OF 1] release_at_bound_claims [OF 4]
  have d0: "d0 = d\<lparr>draws := draws d + 1\<rparr>" using 0 by (simp add: fresh_id_def)
  show thesis
    by (rule that [OF _ _ _ _ 3 refl]) (use f 5 d0 in \<open>auto split: option.splits\<close>)
qed

lemma replay_cost_replayed: "replay_cost env tn ob x d = Inr (d', r, evs) \<Longrightarrow> cx_replayed r"
  by (auto simp: replay_cost_def res)

lemma fresh_cost_cases:
  assumes "fresh_cost env tn ctx ob identity now d = Inr (d', r, evs)" and "\<not> cx_replayed r"
  obtains ps p where "write_cost env tn (actor_of ctx) ob identity p now (d\<lparr>principals := ps\<rparr>) = Inr (d', r, evs)"
  using assms unfolding fresh_cost_def
  by (auto simp: res split: option.splits if_splits dest: replay_cost_replayed dest!: resolveAttribution_frame)

lemma recordCostTx_fresh:
  assumes "recordCostTx env tn ctx ob identity now d = Inr (d', r, evs)" and "\<not> cx_replayed r"
  shows "\<exists>d2 p. claims d2 = claims d \<and> attempts d2 = attempts d \<and> tasks d2 = tasks d \<and>
    write_cost env tn (actor_of ctx) ob identity p now d2 = Inr (d', r, evs)"
proof -
  obtain d1 prior where f: "findIdempotencyResult identity d = Inr (d1, prior)"
    using assms(1) by (auto simp: recordCostTx_def split: sum.splits)
  obtain xs where d1: "d1 = d\<lparr>idems := xs\<rparr>" using findIdempotencyResult_frame [OF f] by blast
  have "fresh_cost env tn ctx ob identity now d1 = Inr (d', r, evs)"
    using assms f by (cases prior) (auto simp: recordCostTx_def split: option.splits dest: replay_cost_replayed)
  then obtain ps p where "write_cost env tn (actor_of ctx) ob identity p now (d1\<lparr>principals := ps\<rparr>) = Inr (d', r, evs)"
    by (rule fresh_cost_cases) (rule assms(2))
  then show ?thesis by (intro exI [of _ "d1\<lparr>principals := ps\<rparr>"] exI [of _ p]) (simp add: d1)
qed

text \<open>C35. The summary of a budgeted commitment is exact: the observed amount is the sum of its receipts
  in the currency of the budget, the remainder is what is left of the maximum (never negative), and the
  claim may go on exactly when the metering rule holds and the amount plus the reserve is within it.\<close>

theorem cost_summary_exact:
  assumes "summarizeTaskCost env tid tn cid enforce d = Inr s" and "su_budget s = Some b"
  shows "su_observedGrossMicros s = Some (dec_int (observed_cost (cb_currency b) tid tn d)) \<and>
    su_remainingMicros s = Some (dec_int (max 0 (BigInt (cb_maxGrossMicros b) - observed_cost (cb_currency b) tid tn d))) \<and>
    su_observationCount s = length (costRefsForTask tid tn d) \<and>
    (su_allowed s = (\<not> meter_denied b enforce (su_currentClaimMetered s) \<and>
       within_budget b (observed_cost (cb_currency b) tid tn d)))"
proof -
  obtain t budget totals metered where t: "require_costed_task tid tn d = Inr t" "budgetFromTask t = Inr budget"
    and sum: "sum_refs cid (costRefsForTask tid tn d) [] False = Inr (totals, metered)"
    and s: "s = build_summary env tid cid enforce budget totals metered (length (costRefsForTask tid tn d))"
    using assms(1) by (auto simp: summarizeTaskCost_def Let_def res)
  have total: "total_in cur totals = observed_cost cur tid tn d" for cur
    using sum_refs_total [OF sum, of cur] by (simp add: total_in_def observed_cost_def)
  have "budget = Some b" using assms(2) s by (auto simp: build_summary_def Let_def split: option.splits)
  then show ?thesis using s
    by (simp add: build_summary_def Let_def total bound_denied_def within_budget_def max_def not_le not_less)
qed

text \<open>A commitment with a budget of ten micros and one attempt under bob's claim.\<close>

definition sample_budget :: cost_budget where
  "sample_budget = \<lparr>cb_currency = ''EUR'', cb_maxGrossMicros = ''10'', cb_renewalReserveMicros = ''3'', cb_meteringRequired = False\<rparr>"

definition sample_cost_db :: db where
  "sample_cost_db = sample_claimed_db\<lparr>
     tasks := [(sample_task ''t1'' ''paint'' None)\<lparr>t_metadata := [(TASK_COST_BUDGET_METADATA_KEY, budget_json sample_budget)]\<rparr>],
     attempts := [\<lparr>a_id = ''a1'', a_tenantId = ''w'', a_taskId = ''t1'', a_claimId = Some ''c1'', a_actor = ''bob'',
       a_principalId = Some ''p2'', a_revision = 1, a_runtime = ''local'', a_externalId = None, a_contextId = None,
       a_status = Running, a_statusMessage = None, a_startedAt = 1000, a_endedAt = None, a_metadata = [],
       a_createdAt = 1000, a_updatedAt = 1000\<rparr>]\<rparr>"

abbreviation sample_receipt :: "db \<times> (err + cost_result)" where
  "sample_receipt \<equiv> recordAttemptCost sample_env ''a1'' \<lparr>ci_meterUri = ''https://m'', ci_observationId = ''o1'',
     ci_currency = ''EUR'', ci_grossMicros = ''8'', ci_observedAt = 1500, ci_basis = ''runtime_meter''\<rparr>
     (sample_ctx ''bob'' 2000) sample_cost_db"

lemma sample_receipt_ok: "returned (snd sample_receipt)" by code_simp

abbreviation sample_summary :: "err + cost_summary" where
  "sample_summary \<equiv> summarizeTaskCost sample_env ''t1'' ''w'' None False (fst sample_receipt)"

lemma sample_summary_ok: "returned sample_summary" "su_budget (projr sample_summary) = Some sample_budget" by code_simp+

theorem cost_summary_exact_witness:
  "su_observedGrossMicros (projr sample_summary) = Some (dec_int (observed_cost ''EUR'' ''t1'' ''w'' (fst sample_receipt)))"
  using cost_summary_exact [OF returnedD [OF sample_summary_ok(1)] sample_summary_ok(2)] by (simp add: sample_budget_def)

text \<open>C20. A receipt that reaches the bound takes the claim back: when the observed cost after a fresh
  receipt is no longer within the budget, the commitment has no live claim.\<close>

theorem receipt_at_bound_releases_claim:
  assumes "claims_inv d" and "recordAttemptCost env aid i ctx d = (d', Inr r)" and "\<not> cx_replayed r"
    and "serviceNow ctx = Inr now" and "su_budget (cx_summary r) = Some b"
    and "\<not> within_budget b (observed_cost (cb_currency b) (co_taskId (cx_observation r)) (tenant_of ctx) d')"
  shows "getActiveTaskClaim (co_taskId (cx_observation r)) (tenant_of ctx) now d' = None"
proof -
  let ?tn = "tenant_of ctx" and ?tid = "co_taskId (cx_observation r)"
  obtain ob identity d1 evs n j where tx: "recordCostTx env ?tn ctx ob identity now d = Inr (d1, r, evs)"
    and d': "d' = d1\<lparr>committedMutations := n, journal := j\<rparr>"
    using assms(2,4) unfolding recordAttemptCost_def by (auto simp: Let_def res)
  obtain d2 p where d2: "claims d2 = claims d" "attempts d2 = attempts d" "tasks d2 = tasks d"
    and w: "write_cost env ?tn (actor_of ctx) ob identity p now d2 = Inr (d1, r, evs)"
    using recordCostTx_fresh [OF tx assms(3)] by blast
  have ob: "cx_observation r = ob" using w unfolding write_cost_def by (auto simp: Let_def res split: prod.splits)
  show ?thesis
  proof (rule write_cost_result [OF w])
    fix d3 active
    assume c3: "claims d3 = claims d2" and a3: "attempts d3 = attempts d2" and x3: "externalRefs d3 = externalRefs d1"
      and s: "summarizeTaskCost env (co_taskId ob) ?tn (map_option c_id active) False d3 = Inr (cx_summary r)"
      and act: "active = unexpired_claim (co_taskId ob) ?tn now d3" and a1: "attempts d1 = attempts d2"
      and cl: "claims d1 = (case active of None \<Rightarrow> claims d2 | Some c \<Rightarrow> if su_allowed (cx_summary r) then claims d2
        else update_rows (\<lambda>x. c_id x = c_id c) (close_claim ''cost_bound_reached'' now) (claims d2))"
    have cost: "observed_cost (cb_currency b) (co_taskId ob) ?tn d' = observed_cost (cb_currency b) (co_taskId ob) ?tn d3"
      by (rule observed_cost_cong) (simp_all add: d' x3 a1 a3)
    have no: "\<not> su_allowed (cx_summary r)"
      by (rule summarize_allowed [OF s]) (use assms(5,6) cost ob in simp)
    have inv: "claims_inv d2" using assms(1) d2(1) by (simp add: claims_inv_def)
    have "\<not> live_claim (co_taskId ob) ?tn now x" if x: "x \<in> set (claims d1)" for x
    proof
      assume live: "live_claim (co_taskId ob) ?tn now x"
      have orig: "active = Some x" if "x \<in> set (claims d2)"
        using find_unreleased [OF inv that live_unreleased [OF live]] act c3 live
        by (simp add: unexpired_claim_def live_claim_def)
      show False
      proof (cases active)
        case None
        then show False using orig x cl by simp
      next
        case (Some c)
        then have "x \<in> set (update_rows (\<lambda>x. c_id x = c_id c) (close_claim ''cost_bound_reached'' now) (claims d2))"
          using x cl no by simp
        then show False
          by (rule update_rows_cases) (use orig Some live in \<open>auto simp: live_claim_def\<close>)
      qed
    qed
    then show ?thesis by (auto simp: getActiveTaskClaim_def d' ob find_None_iff)
  qed
qed

lemma sample_receipt_bound: "\<not> cx_replayed (projr (snd sample_receipt))"
  "su_budget (cx_summary (projr (snd sample_receipt))) = Some sample_budget"
  "co_taskId (cx_observation (projr (snd sample_receipt))) = ''t1''"
  "\<not> within_budget sample_budget (observed_cost ''EUR'' ''t1'' ''w'' (fst sample_receipt))" by code_simp+

theorem receipt_at_bound_releases_claim_witness: "getActiveTaskClaim ''t1'' ''w'' 2000 (fst sample_receipt) = None"
proof -
  have inv: "claims_inv sample_cost_db" using sample_claims(2) by (simp add: sample_cost_db_def claims_inv_def)
  have "serviceNow (sample_ctx ''bob'' 2000) = Inr 2000" by code_simp
  from receipt_at_bound_releases_claim [OF inv returned_op [OF sample_receipt_ok] sample_receipt_bound(1) this
      sample_receipt_bound(2)] sample_receipt_bound(3,4)
  show ?thesis by (simp add: sample_ctx_def tenant_of_def sample_budget_def)
qed

end
