(* ===== verification/Composition.thy ===== *)
theory Composition
  imports Executions
begin

text \<open>
  Where components meet: the withdrawal of an assumption (\<open>assumptions.ts\<close>) is seen by the gates of an
  acquisition (\<open>acquireTaskClaim\<close> in \<open>agentic.ts\<close>), both under \<open>packages/tasq-core/src/service\<close>.
\<close>

lemma acquire_unpaused:
  assumes "acquireTaskClaim env tid opts d = (d', Inr c)" and "ctx_idempotencyKey (ac_ctx opts) = None"
  shows "withdrawnLinksForTask tid (tenant_of (ac_ctx opts)) d = []"
proof (rule acquire_success [OF assms])
  fix now ex d1 evs
  assume "acquire_fresh env tid opts None now ex d = Inr (d1, c, evs)"
  then show ?thesis by (rule acquire_fresh_gates)
qed


abbreviation sample_claim_paused :: "db \<times> (err + task_claim)" where
  "sample_claim_paused \<equiv> acquireTaskClaim sample_env ''t1'' (sample_acquire_options ''alice'' 3000) (fst sample_withdrawn)"


end
