(* ===== verification/Task_Deletion.thy ===== *)
theory Task_Deletion
  imports Task_Transition
begin

text \<open>
  Tombstones (\<open>softDeleteTask\<close>, \<open>softDeleteTaskTx\<close>, \<open>restoreTask\<close> and \<open>listTasks\<close> in
  \<open>packages/tasq-core/src/service/tasks.ts\<close>): a deletion closes the claims, the attempts and the waits of
  the task, cascades over its live subtasks when asked to, and is undone row by row. The recursion of
  the cascade carries fuel; an acyclic tree needs no more of it than it has tasks.
\<close>

section \<open>Closing what runs\<close>

definition liveSubtaskIds :: "string \<Rightarrow> string \<Rightarrow> db \<Rightarrow> string list" where
  "liveSubtaskIds parentTaskId tenantId d = map t_id (filter (\<lambda>t. t_tenantId t = tenantId \<and>
     t_parentTaskId t = Some parentTaskId \<and> t_deletedAt t = None) (tasks d))"

text \<open>The claims and the attempts selected are closed one by one, each with its event.\<close>

fun close_claims ::
  "env \<Rightarrow> string \<Rightarrow> string \<Rightarrow> string \<Rightarrow> int \<Rightarrow> task_claim list \<Rightarrow> db \<Rightarrow> err + db \<times> event list" where
  "close_claims env tid tenantId actor now [] d = Inr (d, [])"
| "close_claims env tid tenantId actor now (c # cs) d =
     (case update_claims (\<lambda>x. c_id x = c_id c) (close_claim ''task_deleted'' now) d of Inl e \<Rightarrow> Inl e | Inr d \<Rightarrow>
      (case recordEvent env (task_event tenantId actor None tid ''claim_released''
             [(''before'', JObj [(''claimId'', JStr (c_id c)), (''actor'', JStr (c_actor c))]),
              (''reason'', JStr ''task_deleted'')]) now d of Inl e \<Rightarrow> Inl e
       | Inr (d, ev) \<Rightarrow>
         (case close_claims env tid tenantId actor now cs d of Inl e \<Rightarrow> Inl e
          | Inr (d, evs) \<Rightarrow> Inr (d, ev # evs))))"

definition cancel_attempt :: "int \<Rightarrow> task_attempt \<Rightarrow> task_attempt" where
  "cancel_attempt now a = a\<lparr>a_status := AttemptCancelled, a_statusMessage := Some ''task deleted'',
     a_endedAt := Some now, a_updatedAt := now, a_revision := a_revision a + 1\<rparr>"

fun close_attempts ::
  "env \<Rightarrow> string \<Rightarrow> string \<Rightarrow> string \<Rightarrow> int \<Rightarrow> task_attempt list \<Rightarrow> db \<Rightarrow> err + db \<times> event list" where
  "close_attempts env tid tenantId actor now [] d = Inr (d, [])"
| "close_attempts env tid tenantId actor now (a # rest) d =
     (case update_attempts (\<lambda>x. a_id x = a_id a) (cancel_attempt now) d of Inl e \<Rightarrow> Inl e | Inr d \<Rightarrow>
      (case recordEvent env (task_event tenantId actor None tid ''attempt_cancelled''
             [(''before'', JObj [(''attemptId'', JStr (a_id a)), (''status'', JStr (attempt_status_text (a_status a)))]),
              (''after'', JObj [(''attemptId'', JStr (a_id a)), (''status'', JStr ''cancelled'')]),
              (''reason'', JStr ''task_deleted'')]) now d of Inl e \<Rightarrow> Inl e
       | Inr (d, ev) \<Rightarrow>
         (case close_attempts env tid tenantId actor now rest d of Inl e \<Rightarrow> Inl e
          | Inr (d, evs) \<Rightarrow> Inr (d, ev # evs))))"

definition closeAgentExecutionForDeletion ::
  "env \<Rightarrow> string \<Rightarrow> string \<Rightarrow> string \<Rightarrow> int \<Rightarrow> db \<Rightarrow> err + db \<times> event list" where
  "closeAgentExecutionForDeletion env tid tenantId actor now d =
     (case close_claims env tid tenantId actor now (filter (unreleased_claim tid tenantId) (claims d)) d of Inl e \<Rightarrow> Inl e
      | Inr (d, ev1) \<Rightarrow>
        (case close_attempts env tid tenantId actor now (filter (active_attempt_of tid tenantId) (attempts d)) d of Inl e \<Rightarrow> Inl e
         | Inr (d, ev2) \<Rightarrow>
           (case cancelWaitingConditionsForTaskTx env tid tenantId actor now d of Inl e \<Rightarrow> Inl e
            | Inr (d, ids, ev3) \<Rightarrow> Inr (d, ev1 @ ev2 @ ev3))))"

section \<open>Deleting\<close>

definition tombstone :: "int \<Rightarrow> task \<Rightarrow> task" where
  "tombstone now t = t\<lparr>t_deletedAt := Some now, t_updatedAt := now, t_revision := t_revision t + 1\<rparr>"

text \<open>What both deletions end with: execution is closed, the row is marked, the event is recorded.\<close>

definition tombstone_row ::
  "env \<Rightarrow> string \<Rightarrow> string \<Rightarrow> string \<Rightarrow> int \<Rightarrow> db \<Rightarrow> err + db \<times> event list" where
  "tombstone_row env tid tenantId actor now d =
     (case closeAgentExecutionForDeletion env tid tenantId actor now d of Inl e \<Rightarrow> Inl e
      | Inr (d, evs) \<Rightarrow>
        (case recordEvent env (task_event tenantId actor None tid ''deleted'' []) now
                (update_tasks (is_task tid tenantId) (tombstone now) d) of Inl e \<Rightarrow> Inl e
         | Inr (d, ev) \<Rightarrow> Inr (d, evs @ [ev])))"

text \<open>\<open>None\<close> is fuel that ran out.\<close>

fun softDeleteTaskTx ::
  "nat \<Rightarrow> env \<Rightarrow> string \<Rightarrow> string \<Rightarrow> string \<Rightarrow> int \<Rightarrow> db \<Rightarrow> (err + db \<times> event list) option" and
  delete_children ::
  "nat \<Rightarrow> env \<Rightarrow> string list \<Rightarrow> string \<Rightarrow> string \<Rightarrow> int \<Rightarrow> db \<Rightarrow> (err + db \<times> event list) option" where
  "softDeleteTaskTx 0 env tid tenantId actor now d = None"
| "softDeleteTaskTx (Suc n) env tid tenantId actor now d =
     (case task_row tid tenantId d of
        None \<Rightarrow> Some (Inr (d, []))
      | Some t \<Rightarrow>
          if t_deletedAt t \<noteq> None then Some (Inr (d, []))
          else (case delete_children n env (liveSubtaskIds tid tenantId d) tenantId actor now d of
              None \<Rightarrow> None
            | Some (Inl e) \<Rightarrow> Some (Inl e)
            | Some (Inr (d, evs)) \<Rightarrow>
                Some (case tombstone_row env tid tenantId actor now d of Inl e \<Rightarrow> Inl e
                  | Inr (d, evs') \<Rightarrow> Inr (d, evs @ evs'))))"
| "delete_children n env [] tenantId actor now d = Some (Inr (d, []))"
| "delete_children n env (c # cs) tenantId actor now d =
     (case softDeleteTaskTx n env c tenantId actor now d of
        None \<Rightarrow> None
      | Some (Inl e) \<Rightarrow> Some (Inl e)
      | Some (Inr (d, evs)) \<Rightarrow>
          (case delete_children n env cs tenantId actor now d of
             None \<Rightarrow> None
           | Some (Inl e) \<Rightarrow> Some (Inl e)
           | Some (Inr (d, evs')) \<Rightarrow> Some (Inr (d, evs @ evs'))))"

text \<open>The transaction of a deletion.\<close>

definition delete_tx ::
  "nat \<Rightarrow> env \<Rightarrow> string \<Rightarrow> bool \<Rightarrow> string \<Rightarrow> string \<Rightarrow> int \<Rightarrow> db \<Rightarrow> (err + db \<times> unit \<times> event list) option" where
  "delete_tx n env tid cascade tenantId actor now d =
     (case getTask tid tenantId d of
        Inl e \<Rightarrow> Some (Inl e)
      | Inr None \<Rightarrow> Some (Inl (Refused ''Task not found'' [tid]))
      | Inr (Some existing) \<Rightarrow>
         if truthy_num (t_deletedAt existing) then Some (Inr (d, (), []))
         else let childIds = liveSubtaskIds tid tenantId d in
           if childIds \<noteq> [] \<and> \<not> cascade
           then Some (Inl (Refused ''Cannot delete task: live subtasks still reference it'' [tid]))
           else (case delete_children n env childIds tenantId actor now d of
               None \<Rightarrow> None
             | Some (Inl e) \<Rightarrow> Some (Inl e)
             | Some (Inr (d, evs)) \<Rightarrow>
                 Some (case tombstone_row env tid tenantId actor now d of Inl e \<Rightarrow> Inl e
                   | Inr (d, evs') \<Rightarrow> Inr (d, (), evs @ evs'))))"

definition softDeleteTask ::
  "nat \<Rightarrow> env \<Rightarrow> string \<Rightarrow> bool \<Rightarrow> service_context \<Rightarrow> db \<Rightarrow> (db \<times> (err + unit)) option" where
  "softDeleteTask n env tid cascade ctx d =
     (case serviceNow ctx of Inl e \<Rightarrow> Some (d, Inl e)
      | Inr now \<Rightarrow> map_option (\<lambda>r. runInTransaction (\<lambda>_. r) d)
          (delete_tx n env tid cascade (tenant_of ctx) (actor_of ctx) now d))"

section \<open>Restoring\<close>

definition revive :: "int \<Rightarrow> task \<Rightarrow> task" where
  "revive now t = t\<lparr>t_deletedAt := None, t_updatedAt := now, t_revision := t_revision t + 1\<rparr>"

definition parent_live :: "task \<Rightarrow> string \<Rightarrow> db \<Rightarrow> err + unit" where
  "parent_live t tenantId d =
     (if \<not> truthy_str (t_parentTaskId t) then Inr ()
      else case getTask (the (t_parentTaskId t)) tenantId d of Inl e \<Rightarrow> Inl e
      | Inr None \<Rightarrow> Inl (Refused ''Parent task not found'' [the (t_parentTaskId t)])
      | Inr (Some p) \<Rightarrow> if truthy_num (t_deletedAt p)
          then Inl (Refused ''Cannot restore task: parent task is deleted'' [t_id t, t_id p]) else Inr ())"

definition restoreTaskInTransaction ::
  "env \<Rightarrow> hierarchy_policy \<Rightarrow> string \<Rightarrow> string \<Rightarrow> string \<Rightarrow> string option \<Rightarrow> int \<Rightarrow> db \<Rightarrow> err + db \<times> task \<times> event option" where
  "restoreTaskInTransaction env hp tid tenantId actor principalId now d =
     (case getTask tid tenantId d of
        Inl e \<Rightarrow> Inl e
      | Inr None \<Rightarrow> Inl (Refused ''Task not found'' [tid])
      | Inr (Some existing) \<Rightarrow>
        if \<not> truthy_num (t_deletedAt existing) then Inr (d, existing, None)
        else case parent_live existing tenantId d of Inl e \<Rightarrow> Inl e | Inr _ \<Rightarrow>
        (case live_ancestors hp tenantId existing d of Inl e \<Rightarrow> Inl e | Inr _ \<Rightarrow>
        (case recordEvent env (task_event tenantId actor principalId tid ''restored'' []) now
                (update_tasks (is_task tid tenantId) (revive now) d) of Inl e \<Rightarrow> Inl e
         | Inr (d, ev) \<Rightarrow>
           (case getTask tid tenantId d of Inl e \<Rightarrow> Inl e
            | Inr None \<Rightarrow> Inl (Refused ''Task not found'' [tid])
            | Inr (Some t) \<Rightarrow> Inr (d, t, Some ev)))))"

definition restoreTask ::
  "env \<Rightarrow> hierarchy_policy \<Rightarrow> string \<Rightarrow> service_context \<Rightarrow> db \<Rightarrow> db \<times> (err + task)" where
  "restoreTask env hp tid ctx =
     prologue (serviceNow ctx) (\<lambda>now. runInTransaction (\<lambda>d.
       case restoreTaskInTransaction env hp tid (tenant_of ctx) (actor_of ctx) (ctx_principalId ctx) now d of
         Inl e \<Rightarrow> Inl e | Inr (d, t, ev) \<Rightarrow> Inr (d, t, case ev of None \<Rightarrow> [] | Some e \<Rightarrow> [e])))"

section \<open>Listing\<close>

text \<open>An absent parent filter is \<open>None\<close>, \<open>null\<close> is \<open>Some None\<close>; an empty list of statuses is the empty
  disjunction, which the query leaves out.\<close>

record list_tasks_options =
  lt_ctx :: service_context
  lt_status :: "task_status list option"
  lt_areaId :: "string option"
  lt_goalId :: "string option"
  lt_projectId :: "string option"
  lt_parentTaskId :: "string option option"
  lt_orphanOnly :: bool
  lt_priority :: "int option"
  lt_includeDeleted :: bool
  lt_includeScheduled :: bool
  lt_limit :: "int option"
  lt_beforeUpdatedAt :: "int option"
  lt_beforeId :: "string option"

definition text_filter :: "string option \<Rightarrow> string option \<Rightarrow> bool" where
  "text_filter wanted actual \<longleftrightarrow> (truthy_str wanted \<longrightarrow> actual = wanted)"

definition list_cursor :: "list_tasks_options \<Rightarrow> err + (task \<Rightarrow> bool)" where
  "list_cursor opts = (case (lt_beforeUpdatedAt opts, lt_beforeId opts) of
      (None, None) \<Rightarrow> Inr (\<lambda>_. True)
    | (Some at, Some i) \<Rightarrow>
        if \<not> isSafeInteger at \<or> at < 0 \<or> i = [] then Inl (InvalidInput ''invalid task list cursor'')
        else Inr (\<lambda>t. t_updatedAt t < at \<or> t_updatedAt t = at \<and> t_id t < i)
    | _ \<Rightarrow> Inl (InvalidInput ''beforeUpdatedAt and beforeId must be provided together''))"

definition schedule_filter :: "list_tasks_options \<Rightarrow> err + (task \<Rightarrow> bool)" where
  "schedule_filter opts = (if lt_includeScheduled opts then Inr (\<lambda>_. True)
     else case serviceNow (lt_ctx opts) of Inl e \<Rightarrow> Inl e
       | Inr now \<Rightarrow> Inr (\<lambda>t. opt_all (\<lambda>s. s \<le> now) (t_scheduledAt t)))"

definition list_matches :: "list_tasks_options \<Rightarrow> task \<Rightarrow> bool" where
  "list_matches opts t \<longleftrightarrow> t_tenantId t = tenant_of (lt_ctx opts) \<and>
     (lt_includeDeleted opts \<or> t_deletedAt t = None) \<and>
     text_filter (lt_areaId opts) (t_areaId t) \<and> text_filter (lt_goalId opts) (t_goalId t) \<and>
     text_filter (lt_projectId opts) (t_projectId t) \<and> (lt_orphanOnly opts \<longrightarrow> t_projectId t = None) \<and>
     (case lt_priority opts of None \<Rightarrow> True | Some p \<Rightarrow> t_priority t = Some p) \<and>
     (case lt_parentTaskId opts of None \<Rightarrow> True | Some p \<Rightarrow> t_parentTaskId t = p) \<and>
     (case lt_status opts of None \<Rightarrow> True | Some [] \<Rightarrow> True | Some ss \<Rightarrow> t_status t \<in> set ss)"

text \<open>\<open>ORDER BY updatedAt DESC, id DESC LIMIT\<close>.\<close>

definition listTasks :: "list_tasks_options \<Rightarrow> db \<Rightarrow> err + task list" where
  "listTasks opts d =
     (case list_cursor opts of Inl e \<Rightarrow> Inl e | Inr before \<Rightarrow>
      (case schedule_filter opts of Inl e \<Rightarrow> Inl e | Inr visible \<Rightarrow>
      (let rows = sql_limit (or_else (lt_limit opts) 100)
             (rev (sort_key (\<lambda>t. (t_updatedAt t, t_id t)) (filter (\<lambda>t. list_matches opts t \<and> before t \<and> visible t) (tasks d)))) in
       if list_all task_ok rows then Inr rows else Inl (InvalidInput ''task''))))"

section \<open>What a deletion changes\<close>

text \<open>Rows only get marked: identity, workspace and parent stay, and a mark stays.\<close>

definition marked :: "int \<Rightarrow> task list \<Rightarrow> task list \<Rightarrow> bool" where
  "marked now ts ts' \<longleftrightarrow> (\<exists>f. ts' = map f ts \<and> (\<forall>t. t_id (f t) = t_id t \<and> t_tenantId (f t) = t_tenantId t \<and>
     t_parentTaskId (f t) = t_parentTaskId t \<and> (f t = t \<or> t_deletedAt (f t) = Some now)))"

lemma marked_refl [simp]: "marked now ts ts"
  unfolding marked_def by (intro exI [of _ "\<lambda>t. t"]) simp

lemma marked_trans: "marked now a b \<Longrightarrow> marked now b c \<Longrightarrow> marked now a c"
  unfolding marked_def
proof (elim exE conjE)
  fix f g
  assume *: "b = map f a" "c = map g b"
    and f: "\<forall>t. t_id (f t) = t_id t \<and> t_tenantId (f t) = t_tenantId t \<and>
     t_parentTaskId (f t) = t_parentTaskId t \<and> (f t = t \<or> t_deletedAt (f t) = Some now)"
    and g: "\<forall>t. t_id (g t) = t_id t \<and> t_tenantId (g t) = t_tenantId t \<and>
     t_parentTaskId (g t) = t_parentTaskId t \<and> (g t = t \<or> t_deletedAt (g t) = Some now)"
  have "t_deletedAt (g (f t)) = Some now" if "g (f t) \<noteq> t" for t
  proof (cases "g (f t) = f t")
    case True
    with that f show ?thesis by metis
  next
    case False
    with g show ?thesis by metis
  qed
  then show "\<exists>h. c = map h a \<and> (\<forall>t. t_id (h t) = t_id t \<and> t_tenantId (h t) = t_tenantId t \<and>
     t_parentTaskId (h t) = t_parentTaskId t \<and> (h t = t \<or> t_deletedAt (h t) = Some now))"
    using * f g by (intro exI [of _ "g \<circ> f"]) auto
qed

lemma marked_tombstone: "marked now ts (update_rows P (tombstone now) ts)"
  unfolding marked_def update_rows_def
  by (intro exI [of _ "\<lambda>t. if P t then tombstone now t else t"]) (simp add: tombstone_def)

lemma marked_length: "marked now ts ts' \<Longrightarrow> length ts' = length ts"
  by (auto simp: marked_def)

lemma marked_live:
  assumes "marked now ts ts'" and "t \<in> set ts'" and "t_deletedAt t = None" shows "t \<in> set ts"
proof -
  obtain f where f: "ts' = map f ts" "\<And>t. f t = t \<or> t_deletedAt (f t) = Some now" using assms(1) unfolding marked_def by blast
  then obtain u where u: "u \<in> set ts" "t = f u" using assms(2) by auto
  with f(2) [of u] assms(3) have "f u = u" by auto
  with u show ?thesis by simp
qed

text \<open>A marked row stays marked, found by its identifier.\<close>

lemma marked_row:
  assumes "marked now (tasks d) (tasks d')"
  shows "(task_row i tn d' = None) = (task_row i tn d = None)" "parent_of tn d' i = parent_of tn d i"
    "task_row i tn d = Some t \<Longrightarrow> t_deletedAt t \<noteq> None \<Longrightarrow> \<exists>t'. task_row i tn d' = Some t' \<and> t_deletedAt t' \<noteq> None"
proof -
  obtain f where f: "tasks d' = map f (tasks d)" and
    k: "\<And>t. t_id (f t) = t_id t \<and> t_tenantId (f t) = t_tenantId t \<and>
     t_parentTaskId (f t) = t_parentTaskId t \<and> (f t = t \<or> t_deletedAt (f t) = Some now)"
    using assms unfolding marked_def by blast
  have "find P (map f ts) = map_option f (find P ts)" if "\<And>t. P (f t) = P t" for P ts
    using that by (induction ts) auto
  then have r: "task_row i tn d' = map_option f (task_row i tn d)"
    unfolding task_row_def f using k by presburger
  show "(task_row i tn d' = None) = (task_row i tn d = None)" using r by simp
  show "parent_of tn d' i = parent_of tn d i" using k by (simp add: parent_of_def r split: option.split)
  show "\<exists>t'. task_row i tn d' = Some t' \<and> t_deletedAt t' \<noteq> None" if "task_row i tn d = Some t" "t_deletedAt t \<noteq> None"
    using that r k [of t] by auto
qed

text \<open>What every step of a deletion leaves in order: the relations, the invariants of the claims and of
  the attempts, and the attempts that were over.\<close>

definition deletion_frame :: "int \<Rightarrow> db \<Rightarrow> db \<Rightarrow> bool" where
  "deletion_frame now d d' \<longleftrightarrow> marked now (tasks d) (tasks d') \<and> relations d' = relations d \<and>
     (claims_inv d \<longrightarrow> claims_inv d') \<and>
     (uniq_by a_id (attempts d) \<longrightarrow> uniq_by a_id (attempts d') \<and>
        (\<forall>a \<in> set (attempts d). \<not> active_attempt_status (a_status a) \<longrightarrow> a \<in> set (attempts d')))"

lemma deletion_frame_refl [simp]: "deletion_frame now d d"
  by (simp add: deletion_frame_def)

lemma deletion_frame_trans: "deletion_frame now a b \<Longrightarrow> deletion_frame now b c \<Longrightarrow> deletion_frame now a c"
  unfolding deletion_frame_def by (elim conjE, intro conjI) (rule marked_trans, assumption+, simp_all)

text \<open>Steps that leave the four tables alone.\<close>

lemma deletion_frame_tables:
  "tasks d' = tasks d \<Longrightarrow> relations d' = relations d \<Longrightarrow> claims d' = claims d \<Longrightarrow> attempts d' = attempts d \<Longrightarrow>
    deletion_frame now d d'"
  by (simp add: deletion_frame_def claims_inv_def)

lemma deletion_frame_event: "recordEvent env inp now d = Inr (d', ev) \<Longrightarrow> deletion_frame n d d'"
  by (rule deletion_frame_tables) (auto dest: recordEvent_frame)

lemma close_claims_result:
  "close_claims env tid tn actor now cs d = Inr (d', evs) \<Longrightarrow> deletion_frame now d d' \<and> tasks d' = tasks d \<and>
    attempts d' = attempts d \<and> waits d' = waits d \<and>
    (\<forall>c \<in> set (claims d'). c_releasedAt c = None \<longrightarrow> c \<in> set (claims d) \<and> c_id c \<notin> c_id ` set cs)"
proof (induction cs arbitrary: d evs)
  case (Cons x cs)
  let ?d1 = "d\<lparr>claims := update_rows (\<lambda>y. c_id y = c_id x) (close_claim ''task_deleted'' now) (claims d)\<rparr>"
  obtain inp d2 ev evs' where 1: "recordEvent env inp now ?d1 = Inr (d2, ev)"
    and 2: "close_claims env tid tn actor now cs d2 = Inr (d', evs')"
    using Cons.prems by (auto simp: res dest!: update_claims_Inr)
  have f1: "deletion_frame now d ?d1" unfolding deletion_frame_def using claims_inv_close [of d ?d1] by simp
  have t2: "tasks d2 = tasks d" "attempts d2 = attempts d" "waits d2 = waits d" "claims d2 = claims ?d1"
    using recordEvent_frame [OF 1] by auto
  have "c \<in> set (claims d) \<and> c_id c \<noteq> c_id x" if "c \<in> set (claims d2)" "c_releasedAt c = None" for c
    using that unfolding t2(4) by (auto elim!: update_rows_cases)
  with Cons.IH [OF 2] t2 deletion_frame_trans [OF deletion_frame_trans [OF f1 deletion_frame_event [OF 1]]]
  show ?case by auto
qed simp

lemma cancel_attempt_simps [simp]:
  "a_id (cancel_attempt now a) = a_id a" "\<not> active_attempt_status (a_status (cancel_attempt now a))"
  by (simp_all add: cancel_attempt_def)

lemma close_attempts_result:
  "close_attempts env tid tn actor now as d = Inr (d', evs) \<Longrightarrow>
    tasks d' = tasks d \<and> relations d' = relations d \<and> claims d' = claims d \<and> waits d' = waits d \<and>
    (uniq_by a_id (attempts d) \<longrightarrow> uniq_by a_id (attempts d')) \<and>
    (\<forall>a \<in> set (attempts d). a_id a \<notin> a_id ` set as \<longrightarrow> a \<in> set (attempts d')) \<and>
    (\<forall>a \<in> set (attempts d'). active_attempt_status (a_status a) \<longrightarrow> a \<in> set (attempts d) \<and> a_id a \<notin> a_id ` set as)"
proof (induction as arbitrary: d evs)
  case (Cons x as)
  let ?d1 = "d\<lparr>attempts := update_rows (\<lambda>y. a_id y = a_id x) (cancel_attempt now) (attempts d)\<rparr>"
  obtain inp d2 ev evs' where 1: "recordEvent env inp now ?d1 = Inr (d2, ev)"
    and 2: "close_attempts env tid tn actor now as d2 = Inr (d', evs')"
    using Cons.prems by (auto simp: res update_attempts_def)
  have t2: "tasks d2 = tasks d" "relations d2 = relations d" "claims d2 = claims d" "waits d2 = waits d"
    "attempts d2 = update_rows (\<lambda>y. a_id y = a_id x) (cancel_attempt now) (attempts d)"
    using recordEvent_frame [OF 1] by auto
  have A: "uniq_by a_id (attempts d) \<longrightarrow> uniq_by a_id (attempts d2)" unfolding t2(5) by (auto intro: uniq_by_update_rows)
  have B: "a \<in> set (attempts d2)" if "a \<in> set (attempts d)" "a_id a \<noteq> a_id x" for a
    unfolding t2(5) in_update_rows using that by (intro bexI [of _ a]) auto
  have C: "a \<in> set (attempts d) \<and> a_id a \<noteq> a_id x"
    if "a \<in> set (attempts d2)" "active_attempt_status (a_status a)" for a
    using that unfolding t2(5) by (auto elim!: update_rows_cases)
  note ih = Cons.IH [OF 2]
  show ?case
  proof (intro conjI)
    show "uniq_by a_id (attempts d) \<longrightarrow> uniq_by a_id (attempts d')" using ih A by blast
    show "\<forall>a \<in> set (attempts d). a_id a \<notin> a_id ` set (x # as) \<longrightarrow> a \<in> set (attempts d')" using ih B by simp
    show "\<forall>a \<in> set (attempts d'). active_attempt_status (a_status a) \<longrightarrow> a \<in> set (attempts d) \<and> a_id a \<notin> a_id ` set (x # as)"
      using ih C by simp
  qed (use ih t2(1-4) in simp_all)
qed simp

lemma closeAgentExecution_result:
  assumes "closeAgentExecutionForDeletion env tid tn actor now d = Inr (d', evs)"
  shows "deletion_frame now d d'" "tasks d' = tasks d" "\<not> list_ex (unreleased_claim tid tn) (claims d')"
    "\<not> list_ex (active_attempt_of tid tn) (attempts d')" "\<not> list_ex (waiting_on tid tn) (waits d')"
proof -
  let ?cs = "filter (unreleased_claim tid tn) (claims d)"
  obtain d1 ev1 d2 ev2 ids ev3 where 1: "close_claims env tid tn actor now ?cs d = Inr (d1, ev1)"
    and 2: "close_attempts env tid tn actor now (filter (active_attempt_of tid tn) (attempts d1)) d1 = Inr (d2, ev2)"
    and 3: "cancelWaitingConditionsForTaskTx env tid tn actor now d2 = Inr (d', ids, ev3)"
    using assms by (auto simp: closeAgentExecutionForDeletion_def res)
  note c = close_claims_result [OF 1] and a = close_attempts_result [OF 2] and w = cancelWaiting_result [OF 3]
  have same: "tasks d' = tasks d2" "relations d' = relations d2" "claims d' = claims d2" "attempts d' = attempts d2" using w by auto
  have at: "tasks d2 = tasks d1" "relations d2 = relations d1" "claims d2 = claims d1"
    "uniq_by a_id (attempts d1) \<Longrightarrow> uniq_by a_id (attempts d2)" using a by blast+
  have over: "b \<in> set (attempts d2)"
    if "uniq_by a_id (attempts d1)" "b \<in> set (attempts d1)" "\<not> active_attempt_status (a_status b)" for b
  proof -
    have "a_id b \<notin> a_id ` set (filter (active_attempt_of tid tn) (attempts d1))"
      using that uniq_by_eqD [OF that(1,2)] by (auto simp: active_attempt_of_def)
    with a that(2) show ?thesis by blast
  qed
  have f2: "deletion_frame now d1 d2"
    unfolding deletion_frame_def claims_inv_def using at over by simp
  show "deletion_frame now d d'"
    by (rule deletion_frame_trans [OF deletion_frame_trans [OF conjunct1 [OF c] f2]], rule deletion_frame_tables) (simp_all add: same)
  show "tasks d' = tasks d" using same(1) at(1) c by simp
  show "\<not> list_ex (waiting_on tid tn) (waits d')" using w by blast
  have cl: "claims d' = claims d1" using at(3) same(3) by simp
  have "\<not> unreleased_claim tid tn x" if x: "x \<in> set (claims d1)" for x
  proof
    assume u: "unreleased_claim tid tn x"
    then have "c_releasedAt x = None" by (simp add: unreleased_claim_def)
    with c x have "x \<in> set (claims d) \<and> c_id x \<notin> c_id ` set ?cs" by blast
    with u show False by auto
  qed
  then show "\<not> list_ex (unreleased_claim tid tn) (claims d')" by (simp add: cl list_ex_iff)
  have "\<not> active_attempt_of tid tn x" if x: "x \<in> set (attempts d2)" for x
  proof
    assume u: "active_attempt_of tid tn x"
    then have "x \<in> set (attempts d1) \<and> a_id x \<notin> a_id ` set (filter (active_attempt_of tid tn) (attempts d1))"
      using a x by (metis active_attempt_of_def)
    with u show False by auto
  qed
  then show "\<not> list_ex (active_attempt_of tid tn) (attempts d')" by (simp add: same(4) list_ex_iff)
qed

lemma tombstone_row_result:
  assumes "tombstone_row env tid tn actor now d = Inr (d', evs)"
  shows "deletion_frame now d d'" "tasks d' = update_rows (is_task tid tn) (tombstone now) (tasks d)"
    "\<not> list_ex (unreleased_claim tid tn) (claims d')"
    "\<not> list_ex (active_attempt_of tid tn) (attempts d')" "\<not> list_ex (waiting_on tid tn) (waits d')"
proof -
  obtain d1 ev1 inp ev where 1: "closeAgentExecutionForDeletion env tid tn actor now d = Inr (d1, ev1)"
    and 2: "recordEvent env inp now (update_tasks (is_task tid tn) (tombstone now) d1) = Inr (d', ev)"
    using assms by (auto simp: tombstone_row_def res)
  note c = closeAgentExecution_result [OF 1]
  have same: "tasks d' = update_rows (is_task tid tn) (tombstone now) (tasks d1)" "claims d' = claims d1"
    "attempts d' = attempts d1" "waits d' = waits d1" "relations d' = relations d1"
    using recordEvent_frame [OF 2] by (auto simp: update_tasks_def)
  have "deletion_frame now d1 d'" using marked_tombstone by (simp add: deletion_frame_def same claims_inv_def)
  from deletion_frame_trans [OF c(1) this] show "deletion_frame now d d'" .
  show "tasks d' = update_rows (is_task tid tn) (tombstone now) (tasks d)" by (simp add: same c(2))
  show "\<not> list_ex (unreleased_claim tid tn) (claims d')" "\<not> list_ex (active_attempt_of tid tn) (attempts d')"
    "\<not> list_ex (waiting_on tid tn) (waits d')" using c(3-5) by (simp_all add: same)
qed

lemma delete_frame:
  "softDeleteTaskTx n env tid tn actor now d = Some (Inr (d', evs)) \<Longrightarrow> deletion_frame now d d'"
  "delete_children n env cs tn actor now d = Some (Inr (d', evs)) \<Longrightarrow> deletion_frame now d d'"
proof (induction n env tid tn actor now d and n env cs tn actor now d arbitrary: d' evs and d' evs
    rule: softDeleteTaskTx_delete_children.induct)
  case (2 n env tid tn actor now d)
  show ?case
  proof (cases "task_row tid tn d = None \<or> (\<exists>t. task_row tid tn d = Some t \<and> t_deletedAt t \<noteq> None)")
    case True
    with 2 show ?thesis by auto
  next
    case False
    then obtain t where t: "task_row tid tn d = Some t" "t_deletedAt t = None" by auto
    with 2(2) obtain d1 ev1 ev2 where 1: "delete_children n env (liveSubtaskIds tid tn d) tn actor now d = Some (Inr (d1, ev1))"
      and w: "tombstone_row env tid tn actor now d1 = Inr (d', ev2)"
      by (auto simp: res split: option.splits sum.splits)
    have "deletion_frame now d d1" by (rule 2(1) [OF t(1) _ 1]) (simp add: t(2))
    from deletion_frame_trans [OF this tombstone_row_result(1) [OF w]] show ?thesis .
  qed
next
  case (4 n env c cs tn actor now d)
  from 4(3) obtain d1 ev1 ev2 where 1: "softDeleteTaskTx n env c tn actor now d = Some (Inr (d1, ev1))"
    and 2: "delete_children n env cs tn actor now d1 = Some (Inr (d', ev2))"
    by (auto split: option.splits sum.splits)
  from deletion_frame_trans [OF 4(1) [OF 1] 4(2) [OF 1 refl refl 2]] show ?case .
qed simp_all

section \<open>Enough fuel\<close>

text \<open>A chain of parents passes every node once, and every node but its root is a task.\<close>

lemma depth_nodes:
  "depth pf i n \<Longrightarrow> \<exists>S. finite S \<and> card S = n - 1 \<and> (\<forall>j \<in> S. pf j \<noteq> None \<and> (\<exists>k \<le> n. depth pf j k))"
proof (induction rule: depth.induct)
  case (root i)
  show ?case by (intro exI [of _ "{}"]) simp
next
  case (step i p n)
  then obtain S where S: "finite S" "card S = n - 1" "\<forall>j \<in> S. pf j \<noteq> None \<and> (\<exists>k \<le> n. depth pf j k)" by blast
  have i: "depth pf i (Suc n)" using step.hyps by (rule depth.step)
  have "i \<notin> S" using S(3) depth_det [OF i] by fastforce
  moreover have "1 \<le> n" using step.hyps(2) by (rule depth_pos)
  ultimately show ?case using S i step.hyps(1)
    by (intro exI [of _ "insert i S"]) (auto intro: le_SucI)
qed

lemma depth_le_tasks:
  assumes "depth (parent_of tn d) i n" shows "n \<le> Suc (length (tasks d))"
proof -
  obtain S where S: "finite S" "card S = n - 1" "\<forall>j \<in> S. parent_of tn d j \<noteq> None" using depth_nodes [OF assms] by blast
  have "S \<subseteq> t_id ` set (tasks d)"
  proof
    fix j assume "j \<in> S"
    then obtain t where "task_row j tn d = Some t" using S(3) by (auto simp: parent_of_def split: option.splits)
    then show "j \<in> t_id ` set (tasks d)" using task_row_Some by fastforce
  qed
  then have "card S \<le> card (t_id ` set (tasks d))" by (intro card_mono) simp_all
  also have "\<dots> \<le> length (tasks d)" using card_image_le [of "set (tasks d)" t_id] card_length [of "tasks d"] by simp
  finally show ?thesis using S(2) by simp
qed

lemma child_parent:
  assumes "rows_inv d" and "c \<in> set (liveSubtaskIds x tn d)"
  shows "parent_of tn d c = Some x" and "\<exists>t. task_row c tn d = Some t \<and> t_deletedAt t = None"
proof -
  obtain t where t: "t \<in> set (tasks d)" "t_id t = c" "t_tenantId t = tn" "t_parentTaskId t = Some x" "t_deletedAt t = None"
    using assms(2) by (auto simp: liveSubtaskIds_def)
  have "task_row c tn d \<noteq> None" using t(1-3) by (auto simp: task_row_def find_None_iff)
  then obtain u where u: "task_row c tn d = Some u" by blast
  have "t = u" by (rule task_row_unique [OF assms(1) u t(1,2)])
  with u t show "parent_of tn d c = Some x" "\<exists>t. task_row c tn d = Some t \<and> t_deletedAt t = None" by (auto simp: parent_of_def)
qed

lemma frame_rows: "deletion_frame now d d' \<Longrightarrow> rows_inv d \<Longrightarrow> rows_inv d'"
  unfolding deletion_frame_def marked_def rows_inv_def uniq_by_def by (elim conjE exE) (simp add: comp_def)

lemma frame_tree: "deletion_frame now d d' \<Longrightarrow> parent_of tn d' = parent_of tn d \<and> length (tasks d') = length (tasks d)"
  by (auto simp: deletion_frame_def fun_eq_iff marked_row marked_length)

lemma delete_returns:
  "rows_inv d \<Longrightarrow> depth (parent_of tn d) x k \<Longrightarrow> length (tasks d) + 2 \<le> n + k \<Longrightarrow>
     softDeleteTaskTx n env x tn actor now d \<noteq> None"
  "rows_inv d \<Longrightarrow> (\<forall>c \<in> set cs. \<exists>k. depth (parent_of tn d) c k \<and> length (tasks d) + 2 \<le> n + k) \<Longrightarrow>
     delete_children n env cs tn actor now d \<noteq> None"
proof (induction n env x tn actor now d and n env cs tn actor now d arbitrary: k and
    rule: softDeleteTaskTx_delete_children.induct)
  case (1 env tid tn actor now d)
  then show ?case using depth_le_tasks [OF 1(2)] by simp
next
  case (2 n env tid tn actor now d)
  show ?case
  proof (cases "\<exists>t. task_row tid tn d = Some t \<and> t_deletedAt t = None")
    case False
    then show ?thesis by (auto split: option.splits)
  next
    case True
    then obtain t where t: "task_row tid tn d = Some t" "t_deletedAt t = None" by blast
    have "delete_children n env (liveSubtaskIds tid tn d) tn actor now d \<noteq> None"
    proof (rule 2(1) [OF t(1) _ 2(2)])
      show "\<forall>c \<in> set (liveSubtaskIds tid tn d). \<exists>k. depth (parent_of tn d) c k \<and> length (tasks d) + 2 \<le> n + k"
      proof
        fix c assume "c \<in> set (liveSubtaskIds tid tn d)"
        then have "depth (parent_of tn d) c (Suc k)" using child_parent(1) [OF 2(2)] 2(3) by (intro depth.step)
        with 2(4) show "\<exists>k. depth (parent_of tn d) c k \<and> length (tasks d) + 2 \<le> n + k" by (intro exI [of _ "Suc k"]) simp
      qed
    qed (simp add: t(2))
    then show ?thesis using t by (auto split: option.splits sum.splits)
  qed
next
  case (4 n env c cs tn actor now d)
  obtain k where k: "depth (parent_of tn d) c k" "length (tasks d) + 2 \<le> n + k" using 4(4) by auto
  have "softDeleteTaskTx n env c tn actor now d \<noteq> None" by (rule 4(1) [OF 4(3) k])
  moreover have "delete_children n env cs tn actor now d1 \<noteq> None"
    if 1: "softDeleteTaskTx n env c tn actor now d = Some (Inr (d1, ev1))" for d1 ev1
  proof -
    have f: "deletion_frame now d d1" using delete_frame(1) [OF 1] .
    show ?thesis by (rule 4(2) [OF 1 refl refl frame_rows [OF f 4(3)]]) (use frame_tree [OF f] 4(4) in auto)
  qed
  ultimately show ?case by (auto split: option.splits sum.splits)
qed simp

text \<open>C32. The cascade returns: on a ledger whose decomposition has no cycle, one unit of fuel per task
  and one more are enough for a deletion, whatever its outcome.\<close>

theorem softDeleteTask_returns:
  assumes "rows_inv d" and "tree_inv (tenant_of ctx) d" and "length (tasks d) + 1 \<le> n"
  shows "softDeleteTask n env tid cascade ctx d \<noteq> None"
proof -
  have c: "delete_children n env (liveSubtaskIds tid (tenant_of ctx) d) (tenant_of ctx) (actor_of ctx) now d \<noteq> None" for now
  proof (rule delete_returns(2) [OF assms(1)], rule ballI)
    fix c assume "c \<in> set (liveSubtaskIds tid (tenant_of ctx) d)"
    obtain k where k: "depth (parent_of (tenant_of ctx) d) c k" using tree_inv_depth [OF assms(2)] by blast
    then have "1 \<le> k" by (rule depth_pos)
    with k assms(3) show "\<exists>k. depth (parent_of (tenant_of ctx) d) c k \<and> length (tasks d) + 2 \<le> n + k"
      by (intro exI [of _ k]) simp
  qed
  have "delete_tx n env tid cascade (tenant_of ctx) (actor_of ctx) now d \<noteq> None" for now
    using c [of now] by (auto simp: delete_tx_def Let_def split: option.splits sum.splits)
  then show ?thesis by (cases "serviceNow ctx") (simp_all add: softDeleteTask_def)
qed

text \<open>A parent with a live subtask below it.\<close>

definition sample_family :: db where
  "sample_family = sample_claimed_db\<lparr>tasks := [sample_task ''t2'' ''sand'' None, sample_task ''t1'' ''paint'' (Some ''t2'')]\<rparr>"

lemma sample_family_rows: "rows_inv sample_family" by code_simp

lemma sample_family_parent: "parent_of ''w'' sample_family = (\<lambda>i. if i = ''t1'' then Some ''t2'' else None)"
  by (auto simp: fun_eq_iff parent_of_def task_row_def sample_family_def sample_claimed_db_def sample_db_def sample_task_def
      new_task_def sample_insert_def)

lemma sample_family_tree: "tree_inv ''w'' sample_family"
proof -
  have t2: "depth (parent_of ''w'' sample_family) i 1" if "i \<noteq> ''t1''" for i
    by (rule depth.root) (simp add: sample_family_parent that)
  have "depth (parent_of ''w'' sample_family) ''t1'' (Suc 1)"
    by (rule depth.step [OF _ t2 [of "''t2''"]]) (simp_all add: sample_family_parent)
  with t2 have "well_founded_parents (parent_of ''w'' sample_family)"
    unfolding well_founded_parents_def by (metis)
  moreover have "task_row ''t2'' ''w'' sample_family \<noteq> None" "task_row [] ''w'' sample_family = None" by code_simp+
  ultimately show ?thesis by (auto simp: tree_inv_def sample_family_parent split: if_splits)
qed

abbreviation sample_delete :: "bool \<Rightarrow> (db \<times> (err + unit)) option" where
  "sample_delete cascade \<equiv> softDeleteTask 3 sample_env ''t2'' cascade (sample_ctx ''alice'' 2000) sample_family"

theorem softDeleteTask_returns_witness: "sample_delete True \<noteq> None"
  by (rule softDeleteTask_returns [OF sample_family_rows])
    (use sample_family_tree in \<open>simp_all add: sample_ctx_def tenant_of_def sample_family_def\<close>)

section \<open>No live task under a deleted one\<close>

text \<open>Every live task with a parent has a live parent, and no row is deleted at time zero, a mark the
  code reads as absent.\<close>

definition live_parents :: "string \<Rightarrow> db \<Rightarrow> bool" where
  "live_parents tn d \<longleftrightarrow> (\<forall>t \<in> set (tasks d). t_tenantId t = tn \<longrightarrow> t_deletedAt t \<noteq> Some 0 \<and>
     (t_deletedAt t = None \<longrightarrow> (\<forall>p. t_parentTaskId t = Some p \<longrightarrow>
        (\<exists>u. task_row p tn d = Some u \<and> t_deletedAt u = None))))"

lemma live_parentsD:
  "live_parents tn d \<Longrightarrow> t \<in> set (tasks d) \<Longrightarrow> t_tenantId t = tn \<Longrightarrow> t_deletedAt t = None \<Longrightarrow> t_parentTaskId t = Some p \<Longrightarrow>
    \<exists>u. task_row p tn d = Some u \<and> t_deletedAt u = None"
  unfolding live_parents_def by blast

lemma live_parents_cong: "tasks d' = tasks d \<Longrightarrow> live_parents tn d' = live_parents tn d"
  by (simp add: live_parents_def task_row_def)

lemma task_row_tombstone:
  assumes "tasks d' = update_rows (is_task x tn) (tombstone now) (tasks d)"
  shows "task_row i tn d' = (if i = x then map_option (tombstone now) (task_row i tn d) else task_row i tn d)"
proof -
  have "task_row i tn d' = map_option (\<lambda>t. if is_task x tn t then tombstone now t else t) (task_row i tn d)"
    using assms task_row_update [of "tombstone now" i tn "is_task x tn" d]
    by (simp add: task_row_def update_tasks_def tombstone_def)
  then show ?thesis using task_row_Some [of i tn d] by (cases "task_row i tn d") (auto simp: is_task_def)
qed

text \<open>Marking the rows of a task that has no live subtask.\<close>

lemma live_parents_tombstone:
  assumes "live_parents tn d" and "0 < now" and "liveSubtaskIds x tn d = []"
    and "tasks d' = update_rows (is_task x tn) (tombstone now) (tasks d)"
  shows "live_parents tn d'"
proof -
  note row = task_row_tombstone [OF assms(4)]
  have "t_deletedAt t \<noteq> Some 0 \<and> (t_deletedAt t = None \<longrightarrow> (\<forall>p. t_parentTaskId t = Some p \<longrightarrow>
        (\<exists>u. task_row p tn d' = Some u \<and> t_deletedAt u = None)))" if t: "t \<in> set (tasks d')" "t_tenantId t = tn" for t
    using t(1) unfolding assms(4)
  proof (cases rule: update_rows_cases)
    case (hit y)
    then show ?thesis using assms(2) by (simp add: tombstone_def)
  next
    case other
    have "\<exists>u. task_row p tn d' = Some u \<and> t_deletedAt u = None" if l: "t_deletedAt t = None" "t_parentTaskId t = Some p" for p
    proof -
      obtain u where u: "task_row p tn d = Some u" "t_deletedAt u = None"
        using live_parentsD [OF assms(1) other(1) t(2) l] by blast
      have "p \<noteq> x" using assms(3) other(1) t(2) l by (auto simp: liveSubtaskIds_def filter_empty_conv)
      with u row [of p] show ?thesis by simp
    qed
    then show ?thesis using assms(1) other(1) t(2) by (auto simp: live_parents_def)
  qed
  then show ?thesis by (auto simp: live_parents_def)
qed

lemma no_live_subtasks:
  assumes "deletion_frame now d d1" and "rows_inv d"
    and "\<And>c t. c \<in> set (liveSubtaskIds x tn d) \<Longrightarrow> task_row c tn d1 = Some t \<Longrightarrow> t_deletedAt t \<noteq> None"
  shows "liveSubtaskIds x tn d1 = []"
proof -
  have False if c: "c \<in> set (liveSubtaskIds x tn d1)" for c
  proof -
    obtain u where u: "u \<in> set (tasks d1)" "t_id u = c" "t_tenantId u = tn" "t_parentTaskId u = Some x" "t_deletedAt u = None"
      using c by (auto simp: liveSubtaskIds_def)
    then have "c \<in> set (liveSubtaskIds x tn d)"
      using marked_live [of now "tasks d" "tasks d1" u] assms(1) by (auto simp: liveSubtaskIds_def deletion_frame_def)
    moreover obtain v where v: "task_row c tn d1 = Some v" "t_deletedAt v = None"
      using child_parent(2) [OF frame_rows [OF assms(1,2)] c] by blast
    ultimately show False using assms(3) by blast
  qed
  then show ?thesis by (cases "liveSubtaskIds x tn d1") auto
qed

lemma delete_live_parents:
  "softDeleteTaskTx n env x tn actor now d = Some (Inr (d', evs)) \<Longrightarrow> rows_inv d \<Longrightarrow> live_parents tn d \<Longrightarrow> 0 < now \<Longrightarrow>
     live_parents tn d' \<and> (\<forall>t. task_row x tn d' = Some t \<longrightarrow> t_deletedAt t \<noteq> None)"
  "delete_children n env cs tn actor now d = Some (Inr (d', evs)) \<Longrightarrow> rows_inv d \<Longrightarrow> live_parents tn d \<Longrightarrow> 0 < now \<Longrightarrow>
     live_parents tn d' \<and> (\<forall>c \<in> set cs. \<forall>t. task_row c tn d' = Some t \<longrightarrow> t_deletedAt t \<noteq> None)"
proof (induction n env x tn actor now d and n env cs tn actor now d arbitrary: d' evs and d' evs
    rule: softDeleteTaskTx_delete_children.induct)
  case (2 n env tid tn actor now d)
  show ?case
  proof (cases "\<exists>t. task_row tid tn d = Some t \<and> t_deletedAt t = None")
    case False
    then have "d' = d" using 2(2) by (auto split: option.splits)
    with 2(4) False show ?thesis by auto
  next
    case True
    then obtain t where t: "task_row tid tn d = Some t" "t_deletedAt t = None" by blast
    with 2(2) obtain d1 ev1 ev2 where 1: "delete_children n env (liveSubtaskIds tid tn d) tn actor now d = Some (Inr (d1, ev1))"
      and w: "tombstone_row env tid tn actor now d1 = Inr (d', ev2)"
      by (auto simp: res split: option.splits sum.splits)
    have ih: "live_parents tn d1" "\<And>c t. c \<in> set (liveSubtaskIds tid tn d) \<Longrightarrow> task_row c tn d1 = Some t \<Longrightarrow> t_deletedAt t \<noteq> None"
      using 2(1) [OF t(1) _ 1 2(3-5)] t(2) by auto
    have fr: "deletion_frame now d d1" using delete_frame(2) [OF 1] .
    have none: "liveSubtaskIds tid tn d1 = []" by (rule no_live_subtasks [OF fr 2(3)]) (rule ih(2))
    note r = tombstone_row_result(2) [OF w]
    have "\<forall>t. task_row tid tn d' = Some t \<longrightarrow> t_deletedAt t \<noteq> None"
      using task_row_tombstone [OF r, of tid] by (auto simp: tombstone_def)
    with live_parents_tombstone [OF ih(1) 2(5) none r] show ?thesis by blast
  qed
next
  case (4 n env c cs tn actor now d)
  from 4(3) obtain d1 ev1 ev2 where 1: "softDeleteTaskTx n env c tn actor now d = Some (Inr (d1, ev1))"
    and 2: "delete_children n env cs tn actor now d1 = Some (Inr (d', ev2))"
    by (auto split: option.splits sum.splits)
  have f: "deletion_frame now d d1" using delete_frame(1) [OF 1] .
  have c: "live_parents tn d1" "\<And>t. task_row c tn d1 = Some t \<Longrightarrow> t_deletedAt t \<noteq> None"
    using 4(1) [OF 1 4(4-6)] by auto
  have cs: "live_parents tn d'" "\<forall>c \<in> set cs. \<forall>t. task_row c tn d' = Some t \<longrightarrow> t_deletedAt t \<noteq> None"
    using 4(2) [OF 1 refl refl 2 frame_rows [OF f 4(4)] c(1) 4(6)] by auto
  have m: "marked now (tasks d1) (tasks d')" using delete_frame(2) [OF 2] by (simp add: deletion_frame_def)
  have "t_deletedAt t \<noteq> None" if t: "task_row c tn d' = Some t" for t
  proof -
    obtain u where u: "task_row c tn d1 = Some u" using marked_row(1) [OF m, of c tn] t by fastforce
    with marked_row(3) [OF m u c(2) [OF u]] t show ?thesis by auto
  qed
  with cs show ?case by simp
qed simp_all

lemma softDelete_success:
  assumes "softDeleteTask n env tid cascade ctx d = Some (d', r)"
  obtains (unchanged) m j where "d' = d\<lparr>committedMutations := m, journal := j\<rparr>"
      "r = Inr () \<Longrightarrow> \<exists>t. task_row tid (tenant_of ctx) d = Some t \<and> truthy_num (t_deletedAt t)"
  | (deleted) now t d1 evs d2 evs' m j where "serviceNow ctx = Inr now" "task_row tid (tenant_of ctx) d = Some t"
      "\<not> truthy_num (t_deletedAt t)" "cascade \<or> liveSubtaskIds tid (tenant_of ctx) d = []"
      "delete_children n env (liveSubtaskIds tid (tenant_of ctx) d) (tenant_of ctx) (actor_of ctx) now d = Some (Inr (d1, evs))"
      "tombstone_row env tid (tenant_of ctx) (actor_of ctx) now d1 = Inr (d2, evs')"
      "d' = d2\<lparr>committedMutations := m, journal := j\<rparr>"
proof -
  have same: "d = d\<lparr>committedMutations := committedMutations d, journal := journal d\<rparr>" by simp
  show thesis
  proof (cases "serviceNow ctx")
    case (Inl e)
    with assms have "d' = d" "r = Inl e" by (auto simp: softDeleteTask_def)
    with same show thesis by (intro unchanged [where m = "committedMutations d" and j = "journal d"]) auto
  next
    case (Inr now)
    obtain x where x: "delete_tx n env tid cascade (tenant_of ctx) (actor_of ctx) now d = Some x" and
      run: "runInTransaction (\<lambda>_. x) d = (d', r)"
      using assms Inr by (auto simp: softDeleteTask_def)
    show thesis
    proof (cases x)
      case (Inl e)
      with run have "d' = d" "r = Inl e" by (auto simp: runInTransaction_def)
      with same show thesis by (intro unchanged [where m = "committedMutations d" and j = "journal d"]) auto
    next
      case R: (Inr y)
      obtain d2 evs where y: "y = (d2, (), evs)" by (cases y) auto
      have d': "d' = d2\<lparr>committedMutations := committedMutations d2 + 1, journal := journal d2 @ evs\<rparr>" and r: "r = Inr ()"
        using run R y by (auto simp: runInTransaction_def)
      obtain t where g: "getTask tid (tenant_of ctx) d = Inr (Some t)"
        using x R y by (auto simp: delete_tx_def split: sum.splits option.splits)
      then have t: "task_row tid (tenant_of ctx) d = Some t" by (simp add: res)
      show thesis
      proof (cases "truthy_num (t_deletedAt t)")
        case True
        then have "d2 = d" using x R y g by (simp add: delete_tx_def)
        with d' True t show thesis by (intro unchanged) auto
      next
        case False
        then have "\<exists>d1 evs1 evs2. delete_children n env (liveSubtaskIds tid (tenant_of ctx) d) (tenant_of ctx) (actor_of ctx) now d
              = Some (Inr (d1, evs1)) \<and> tombstone_row env tid (tenant_of ctx) (actor_of ctx) now d1 = Inr (d2, evs2) \<and>
            (cascade \<or> liveSubtaskIds tid (tenant_of ctx) d = [])"
          using x R y g by (auto simp: delete_tx_def Let_def split: sum.splits option.splits if_splits)
        with Inr t False d' show thesis by (auto intro: deleted)
      qed
    qed
  qed
qed

text \<open>C17. A deletion settles the commitment: once it returns, the commitment is marked as deleted, has no
  unreleased claim, no active attempt and no open wait, and no live commitment of the workspace is left
  under it or under any other deleted one. Without the cascade it goes through only where no live subtask exists.\<close>

theorem deletion_settles:
  assumes "softDeleteTask n env tid cascade ctx d = Some (d', Inr ())"
    and "task_row tid (tenant_of ctx) d = Some t" and "t_deletedAt t = None"
    and "rows_inv d" and "live_parents (tenant_of ctx) d" and "serviceNow ctx = Inr now" and "0 < now"
  shows "(\<exists>t'. task_row tid (tenant_of ctx) d' = Some t' \<and> t_deletedAt t' = Some now) \<and>
    live_parents (tenant_of ctx) d' \<and> liveSubtaskIds tid (tenant_of ctx) d' = [] \<and>
    \<not> list_ex (unreleased_claim tid (tenant_of ctx)) (claims d') \<and>
    \<not> list_ex (active_attempt_of tid (tenant_of ctx)) (attempts d') \<and>
    \<not> list_ex (waiting_on tid (tenant_of ctx)) (waits d') \<and>
    (cascade \<or> liveSubtaskIds tid (tenant_of ctx) d = [])"
  using assms(1)
proof (cases rule: softDelete_success)
  case (deleted nw t0 d1 evs d2 evs' m j)
  let ?tn = "tenant_of ctx"
  have nw: "nw = now" using deleted(1) assms(6) by simp
  note ch = deleted(5) [unfolded nw] and w = tombstone_row_result [OF deleted(6) [unfolded nw]]
  note lp = delete_live_parents(2) [OF ch assms(4,5,7)] and fr = delete_frame(2) [OF ch]
  have none: "liveSubtaskIds tid ?tn d1 = []" by (rule no_live_subtasks [OF fr assms(4)]) (use lp in blast)
  have gone: "liveSubtaskIds tid ?tn d2 = []"
    using none by (auto simp: liveSubtaskIds_def w(2) filter_empty_conv tombstone_def elim!: update_rows_cases)
  obtain t1 where t1: "task_row tid ?tn d1 = Some t1"
    using marked_row(1) [of now d d1 tid ?tn] fr assms(2) by (auto simp: deletion_frame_def)
  have "task_row tid ?tn d2 = Some (tombstone now t1)" using task_row_tombstone [OF w(2), of tid] t1 by simp
  moreover have "live_parents ?tn d2" by (rule live_parents_tombstone [OF conjunct1 [OF lp] assms(7) none w(2)])
  moreover have "live_parents ?tn d' = live_parents ?tn d2" by (rule live_parents_cong) (simp add: deleted(7))
  ultimately show ?thesis using gone w(3-5) deleted(4)
    by (simp add: deleted(7) task_row_def liveSubtaskIds_def tombstone_def)
qed (use assms(2,3) in simp)

lemma sample_delete_ok: "\<exists>d'. sample_delete True = Some (d', Inr ())"
proof -
  have "map_option (\<lambda>r. returned (snd r)) (sample_delete True) = Some True" by code_simp
  then obtain d' r where "sample_delete True = Some (d', r)" "returned r" by auto
  then show ?thesis using returnedD by fastforce
qed

lemma sample_family_live: "live_parents ''w'' sample_family"
  by (auto simp: live_parents_def sample_family_def sample_claimed_db_def sample_db_def sample_task_def new_task_def
      sample_insert_def task_row_def)

theorem deletion_settles_witness:
  "\<exists>d'. sample_delete True = Some (d', Inr ()) \<and> \<not> list_ex (unreleased_claim ''t2'' ''w'') (claims d') \<and> live_parents ''w'' d'"
proof -
  obtain d' where d': "sample_delete True = Some (d', Inr ())" using sample_delete_ok by blast
  have k: "tenant_of (sample_ctx ''alice'' 2000) = ''w''" "serviceNow (sample_ctx ''alice'' 2000) = Inr 2000" by code_simp+
  obtain t where t: "task_row ''t2'' ''w'' sample_family = Some t" "t_deletedAt t = None"
    by (simp add: sample_family_def sample_claimed_db_def sample_db_def task_row_def sample_task_def new_task_def)
  show ?thesis
    using deletion_settles [OF d', unfolded k(1), OF t sample_family_rows sample_family_live k(2)] d' by auto
qed

lemma restore_cases:
  assumes "restoreTaskInTransaction env hp tid tn actor pid now d = Inr (d', t, evo)"
  obtains (kept) "d' = d" "task_row tid tn d = Some t" "\<not> truthy_num (t_deletedAt t)"
  | (revived) t0 where "task_row tid tn d = Some t0" "parent_live t0 tn d = Inr ()" "live_ancestors hp tn t0 d = Inr ()"
      "task_row tid tn d' = Some t" "relations d' = relations d" "claims d' = claims d" "attempts d' = attempts d"
      "tasks d' = update_rows (is_task tid tn) (revive now) (tasks d)"
proof -
  obtain t0 where t0: "task_row tid tn d = Some t0" using assms by (auto simp: restoreTaskInTransaction_def res)
  show thesis
  proof (cases "truthy_num (t_deletedAt t0)")
    case False
    with assms t0 show thesis by (intro kept) (auto simp: restoreTaskInTransaction_def res)
  next
    case True
    then obtain inp ev where "parent_live t0 tn d = Inr ()" "live_ancestors hp tn t0 d = Inr ()"
      and 1: "recordEvent env inp now (update_tasks (is_task tid tn) (revive now) d) = Inr (d', ev)"
      and "task_row tid tn d' = Some t"
      using assms t0 by (auto simp: restoreTaskInTransaction_def res split: if_splits)
    then show thesis using t0 recordEvent_frame [OF 1] by (intro revived) (auto simp: update_tasks_def)
  qed
qed

lemma task_row_revive:
  assumes "tasks d' = update_rows (is_task x tn) (revive now) (tasks d)"
  shows "task_row i tn d' = (if i = x then map_option (revive now) (task_row i tn d) else task_row i tn d)"
proof -
  have "task_row i tn d' = map_option (\<lambda>t. if is_task x tn t then revive now t else t) (task_row i tn d)"
    using assms task_row_update [of "revive now" i tn "is_task x tn" d]
    by (simp add: task_row_def update_tasks_def revive_def)
  then show ?thesis using task_row_Some [of i tn d] by (cases "task_row i tn d") (auto simp: is_task_def)
qed

lemma live_parents_revive:
  assumes "live_parents tn d" and "rows_inv d" and "tree_inv tn d" and t0: "task_row x tn d = Some t0"
    and "parent_live t0 tn d = Inr ()" and ts: "tasks d' = update_rows (is_task x tn) (revive now) (tasks d)"
  shows "live_parents tn d'"
proof -
  note row = task_row_revive [OF ts]
  have live: "\<exists>u. task_row p tn d' = Some u \<and> t_deletedAt u = None" if "task_row p tn d = Some u" "t_deletedAt u = None" for p u
    using that row [of p] by (cases "p = x") (simp_all add: revive_def)
  have up: "\<exists>u. task_row p tn d = Some u \<and> t_deletedAt u = None" if p: "t_parentTaskId t0 = Some p" for p
  proof -
    have "parent_of tn d x = Some p" using t0 p by (simp add: parent_of_def)
    then have r: "task_row p tn d \<noteq> None" using assms(3) unfolding tree_inv_def by blast
    then have "p \<noteq> []" using assms(3) by (auto simp: tree_inv_def)
    with r obtain u where u: "task_row p tn d = Some u" "\<not> truthy_num (t_deletedAt u)"
      using assms(5) p by (auto simp: parent_live_def truthy_str_def res split: if_splits)
    have "t_deletedAt u \<noteq> Some 0" using assms(1) task_row_Some [OF u(1)] by (auto simp: live_parents_def)
    with u show ?thesis by (auto simp: truthy_num_def split: option.splits)
  qed
  have "t_deletedAt t \<noteq> Some 0 \<and> (t_deletedAt t = None \<longrightarrow> (\<forall>p. t_parentTaskId t = Some p \<longrightarrow>
        (\<exists>u. task_row p tn d' = Some u \<and> t_deletedAt u = None)))" if t: "t \<in> set (tasks d')" "t_tenantId t = tn" for t
    using t(1) unfolding ts
  proof (cases rule: update_rows_cases)
    case (hit y)
    have "y = t0" by (rule task_row_unique [OF assms(2) t0 hit(1)]) (use hit(2) in \<open>simp add: is_task_def\<close>)
    with hit up live show ?thesis by (auto simp: revive_def)
  next
    case other
    with assms(1) t(2) live show ?thesis unfolding live_parents_def by blast
  qed
  then show ?thesis by (auto simp: live_parents_def)
qed

text \<open>A restoration keeps the rule that a live commitment has no deleted ancestor: it goes through
  only under a live parent, and revives that one row.\<close>

theorem restore_under_live_parent:
  assumes "restoreTask env hp tid ctx d = (d', Inr t)" and "rows_inv d" and "tree_inv (tenant_of ctx) d"
    and "live_parents (tenant_of ctx) d"
  shows "live_parents (tenant_of ctx) d' \<and> t_deletedAt t = None \<and> task_row tid (tenant_of ctx) d' = Some t \<and>
    (\<forall>i. i \<noteq> tid \<longrightarrow> task_row i (tenant_of ctx) d' = task_row i (tenant_of ctx) d)"
proof -
  let ?tn = "tenant_of ctx"
  obtain now d1 evo n j where run: "restoreTaskInTransaction env hp tid ?tn (actor_of ctx) (ctx_principalId ctx) now d = Inr (d1, t, evo)"
    and d': "d' = d1\<lparr>committedMutations := n, journal := j\<rparr>"
    using assms(1) by (auto simp: restoreTask_def res)
  have same: "live_parents ?tn d' = live_parents ?tn d1" "task_row i ?tn d' = task_row i ?tn d1" for i
    by (simp_all add: d' live_parents_def task_row_def)
  from run show ?thesis unfolding same
  proof (cases rule: restore_cases)
    case kept
    have "t_deletedAt t \<noteq> Some 0" using assms(4) task_row_Some [OF kept(2)] by (auto simp: live_parents_def)
    with kept assms(4) show "live_parents ?tn d1 \<and> t_deletedAt t = None \<and> task_row tid ?tn d1 = Some t \<and>
      (\<forall>i. i \<noteq> tid \<longrightarrow> task_row i ?tn d1 = task_row i ?tn d)" by (auto simp: truthy_num_def split: option.splits)
  next
    case (revived t0)
    note row = task_row_revive [OF revived(8)]
    have "t = revive now t0" using row [of tid] revived(1,4) by simp
    with live_parents_revive [OF assms(4,2,3) revived(1,2,8)] row revived(4)
    show "live_parents ?tn d1 \<and> t_deletedAt t = None \<and> task_row tid ?tn d1 = Some t \<and>
      (\<forall>i. i \<noteq> tid \<longrightarrow> task_row i ?tn d1 = task_row i ?tn d)" by (simp add: revive_def)
  qed
qed

definition sample_deleted :: db where
  "sample_deleted = sample_family\<lparr>tasks := map (tombstone 1500) (tasks sample_family)\<rparr>"

abbreviation sample_restore :: "db \<times> (err + task)" where
  "sample_restore \<equiv> restoreTask sample_env flatHierarchyPolicy ''t2'' (sample_ctx ''alice'' 2000) sample_deleted"

lemma sample_restore_ok: "returned (snd sample_restore)" by code_simp

theorem restore_under_live_parent_witness: "t_deletedAt (projr (snd sample_restore)) = None \<and> live_parents ''w'' (fst sample_restore)"
proof -
  have k: "tenant_of (sample_ctx ''alice'' 2000) = ''w''" by code_simp
  have r: "rows_inv sample_deleted" by code_simp
  have m: "marked 1500 (tasks sample_family) (tasks sample_deleted)"
    using marked_tombstone [of 1500 "tasks sample_family" "\<lambda>_. True"] by (simp add: sample_deleted_def update_rows_def)
  have "parent_of ''w'' sample_deleted = parent_of ''w'' sample_family" by (rule ext) (rule marked_row(2) [OF m])
  then have t: "tree_inv ''w'' sample_deleted"
    using sample_family_tree marked_row(1) [OF m] by (simp add: tree_inv_def)
  have l: "live_parents ''w'' sample_deleted" by (auto simp: live_parents_def sample_deleted_def tombstone_def)
  show ?thesis using restore_under_live_parent [OF returned_op [OF sample_restore_ok] r, unfolded k, OF t l] by simp
qed

end
