(* ===== verification/Collaboration.thy ===== *)
theory Collaboration
  imports Claims
begin

text \<open>
  Records of collaboration (\<open>packages/tasq-core/src/service/collaboration.ts\<close>): assignments with their
  state machine, artifacts, references to records of other systems, and the reading of completion
  records. Relations and dependencies are in \<open>Relations\<close>.
\<close>

section \<open>Assignments\<close>

record assignment_insert =
  ni_id :: "string option"
  ni_tenantId :: string
  ni_taskId :: string
  ni_assignerPrincipalId :: string
  ni_assigneePrincipalId :: string
  ni_role :: string
  ni_instructionsRef :: "string option"

definition ASSIGNMENT_ROLES :: "string list" where
  "ASSIGNMENT_ROLES = [''owner'', ''contributor'', ''reviewer'', ''approver'']"

definition assignment_insert_ok :: "assignment_insert \<Rightarrow> bool" where
  "assignment_insert_ok i \<longleftrightarrow> opt_all (\<lambda>x. x \<noteq> []) (ni_id i) \<and> ni_tenantId i \<noteq> [] \<and>
     ni_assignerPrincipalId i \<noteq> [] \<and> ni_assigneePrincipalId i \<noteq> [] \<and>
     (ni_role i \<in> set ASSIGNMENT_ROLES \<or> absolute_uri (ni_role i)) \<and>
     opt_all (between 1 2000) (ni_instructionsRef i)"

fun assignment_status_text :: "assignment_status \<Rightarrow> string" where
  "assignment_status_text Proposed = ''proposed''"
| "assignment_status_text Accepted = ''accepted''"
| "assignment_status_text Rejected = ''rejected''"
| "assignment_status_text Revoked = ''revoked''"
| "assignment_status_text AssignmentReleased = ''released''"

text \<open>\<open>assignment_lifecycle_check\<close>.\<close>

definition assignment_check :: "assignment \<Rightarrow> bool" where
  "assignment_check a \<longleftrightarrow> as_revision a > 0 \<and>
     (case as_status a of
        Proposed \<Rightarrow> as_acceptedAt a = None \<and> as_endedAt a = None
      | Accepted \<Rightarrow> as_acceptedAt a \<noteq> None \<and> as_endedAt a = None
      | Rejected \<Rightarrow> as_acceptedAt a = None \<and> as_endedAt a \<noteq> None
      | Revoked \<Rightarrow> as_acceptedAt a = None \<and> as_endedAt a \<noteq> None
      | AssignmentReleased \<Rightarrow> as_acceptedAt a \<noteq> None \<and> as_endedAt a \<noteq> None)"

definition insert_assignment :: "assignment \<Rightarrow> db \<Rightarrow> err + db" where
  "insert_assignment r d = insert_row ''assignment'' (\<forall>x \<in> set (assignments d). as_id x \<noteq> as_id r)
     (assignment_check r) (d\<lparr>assignments := assignments d @ [r]\<rparr>)"

definition update_assignments :: "(assignment \<Rightarrow> bool) \<Rightarrow> (assignment \<Rightarrow> assignment) \<Rightarrow> db \<Rightarrow> err + db" where
  "update_assignments P f d = insert_row ''assignment'' True (\<forall>x \<in> set (assignments d). P x \<longrightarrow> assignment_check (f x))
     (d\<lparr>assignments := update_rows P f (assignments d)\<rparr>)"

definition getAssignment :: "string \<Rightarrow> string \<Rightarrow> db \<Rightarrow> assignment option" where
  "getAssignment aid tenantId d = find (\<lambda>a. as_id a = aid \<and> as_tenantId a = tenantId) (assignments d)"

definition assignment_request :: "assignment_insert \<Rightarrow> service_context \<Rightarrow> json" where
  "assignment_request i ctx = JObj
     [(''input'', JObj [(''tenantId'', JStr (ni_tenantId i)), (''taskId'', JStr (ni_taskId i)),
        (''assignerPrincipalId'', JStr (ni_assignerPrincipalId i)),
        (''assigneePrincipalId'', JStr (ni_assigneePrincipalId i)), (''role'', JStr (ni_role i)),
        (''instructionsRef'', nullable JStr (ni_instructionsRef i)), (''id'', optional JStr (ni_id i))]),
      (''caller'', JStr (caller_label ctx))]"

definition prior_assignment :: "string \<Rightarrow> string \<Rightarrow> db \<Rightarrow> err + assignment" where
  "prior_assignment tenantId aid d = (case getAssignment aid tenantId d of
      None \<Rightarrow> Inl (Refused ''Idempotency record points at missing assignment'' [aid]) | Some a \<Rightarrow> Inr a)"

definition new_assignment :: "assignment_insert \<Rightarrow> string \<Rightarrow> principal \<Rightarrow> principal \<Rightarrow> int \<Rightarrow> assignment" where
  "new_assignment i aid assigner assignee now = \<lparr>as_id = aid, as_tenantId = ni_tenantId i, as_taskId = ni_taskId i,
     as_assignerPrincipalId = p_id assigner, as_assigneePrincipalId = p_id assignee, as_role = ni_role i,
     as_status = Proposed, as_instructionsRef = ni_instructionsRef i, as_acceptedAt = None, as_endedAt = None,
     as_revision = 1, as_createdAt = now, as_updatedAt = now\<rparr>"

definition write_assignment ::
  "env \<Rightarrow> assignment_insert \<Rightarrow> service_context \<Rightarrow> prepared_idempotency option \<Rightarrow> principal \<Rightarrow> principal \<Rightarrow> int \<Rightarrow> db \<Rightarrow>
    err + db \<times> assignment \<times> event list" where
  "write_assignment env i ctx identity assigner assignee now d0 =
     (let (d, aid) = draw_id env (ni_id i) now d0; a = new_assignment i aid assigner assignee now in
      case insert_assignment a d of Inl e \<Rightarrow> Inl e | Inr d \<Rightarrow>
      (case recordEvent env (task_event (ni_tenantId i) (actorLabel ctx assigner) (Some (p_id assigner)) (ni_taskId i)
              ''assignment_proposed'' [(''after'', JObj [(''assignmentId'', JStr aid),
                 (''assigneePrincipalId'', JStr (p_id assignee)), (''role'', JStr (ni_role i))])]) now d of Inl e \<Rightarrow> Inl e
       | Inr (d, ev) \<Rightarrow>
      (case saveIdempotencyResult identity \<lparr>o_resultType = ''assignment'', o_resultId = aid,
              o_resultStatus = Some (assignment_status_text (as_status a)), o_resultRevision = Some (as_revision a),
              o_eventSequence = Some (ev_sequence ev)\<rparr> d of Inl e \<Rightarrow> Inl e
       | Inr d \<Rightarrow> Inr (d, a, [ev]))))"

definition fresh_assignment ::
  "env \<Rightarrow> assignment_insert \<Rightarrow> service_context \<Rightarrow> prepared_idempotency option \<Rightarrow> int \<Rightarrow> db \<Rightarrow>
    err + db \<times> assignment \<times> event list" where
  "fresh_assignment env i ctx identity now d =
     (case requireTask (ni_taskId i) (ni_tenantId i) d of Inl e \<Rightarrow> Inl e | Inr _ \<Rightarrow>
      (case contextPrincipal env (ni_tenantId i) ctx now d of Inl e \<Rightarrow> Inl e | Inr (d, assigner) \<Rightarrow>
       if ni_assignerPrincipalId i \<noteq> p_id assigner
       then Inl (Refused ''assignerPrincipalId must match the calling principal'' [])
       else case requirePrincipal (ni_assigneePrincipalId i) (ni_tenantId i) d of Inl e \<Rightarrow> Inl e | Inr assignee \<Rightarrow>
         if p_status assignee \<noteq> Enabled then Inl (Refused ''Assignee is disabled'' [p_id assignee])
         else write_assignment env i ctx identity assigner assignee now d))"

definition proposeAssignmentTx ::
  "env \<Rightarrow> assignment_insert \<Rightarrow> service_context \<Rightarrow> int \<Rightarrow> db \<Rightarrow> err + db \<times> assignment \<times> event list" where
  "proposeAssignmentTx env i ctx now d =
     (case retryResult env (ni_tenantId i) ctx ''assignment.propose'' (assignment_request i ctx) now False d of Inl e \<Rightarrow> Inl e
      | Inr (d, priorId, identity) \<Rightarrow>
          replayed (prior_assignment (ni_tenantId i)) (fresh_assignment env i ctx identity now) priorId d)"

definition proposeAssignment ::
  "env \<Rightarrow> assignment_insert \<Rightarrow> service_context \<Rightarrow> db \<Rightarrow> db \<times> (err + assignment)" where
  "proposeAssignment env i ctx =
     prologue (if \<not> assignment_insert_ok i then Inl (InvalidInput ''assignment'') else serviceNow ctx)
       (\<lambda>now. runInTransaction (proposeAssignmentTx env i ctx now))"

record list_assignments_options =
  la_tenantId :: "string option"
  la_taskId :: "string option"
  la_assigneePrincipalId :: "string option"
  la_status :: "assignment_status option"

definition listAssignments :: "list_assignments_options \<Rightarrow> db \<Rightarrow> assignment list" where
  "listAssignments opts d = sort_key as_createdAt (filter (\<lambda>a.
     as_tenantId a = or_else (la_tenantId opts) LEGACY_DEFAULT_WORKSPACE_ID \<and>
     str_filter (la_taskId opts) (as_taskId a) \<and> str_filter (la_assigneePrincipalId opts) (as_assigneePrincipalId a) \<and>
     (case la_status opts of None \<Rightarrow> True | Some s \<Rightarrow> as_status a = s)) (assignments d))"

text \<open>Who may make a transition, and which transitions exist.\<close>

definition assignment_actor_guard :: "assignment \<Rightarrow> assignment_status \<Rightarrow> string \<Rightarrow> err + unit" where
  "assignment_actor_guard before to callerId =
     (if (to = Accepted \<or> to = Rejected \<or> to = AssignmentReleased) \<and> callerId \<noteq> as_assigneePrincipalId before
      then Inl (Refused ''Only the assignee may make this transition'' [as_id before])
      else if to = Revoked \<and> callerId \<noteq> as_assignerPrincipalId before
      then Inl (Refused ''Only the assigner may revoke'' [as_id before])
      else Inr ())"

definition assignment_allowed :: "assignment_status \<Rightarrow> assignment_status \<Rightarrow> bool" where
  "assignment_allowed frm to \<longleftrightarrow>
     frm = Proposed \<and> to \<in> {Accepted, Rejected, Revoked} \<or> frm = Accepted \<and> to \<in> {AssignmentReleased, Revoked}"

definition assignment_patch :: "assignment_status \<Rightarrow> assignment \<Rightarrow> int \<Rightarrow> assignment \<Rightarrow> assignment" where
  "assignment_patch to before now a = a\<lparr>as_status := to,
     as_acceptedAt := (if to = Accepted then Some now else as_acceptedAt before),
     as_endedAt := (if to = Rejected \<or> to = Revoked \<or> to = AssignmentReleased then Some now else None),
     as_updatedAt := now, as_revision := as_revision a + 1\<rparr>"

definition assignment_target :: "string \<Rightarrow> string \<Rightarrow> int \<Rightarrow> assignment \<Rightarrow> bool" where
  "assignment_target aid tenantId expectedRevision a \<longleftrightarrow>
     as_id a = aid \<and> as_tenantId a = tenantId \<and> as_revision a = expectedRevision"

definition write_assignment_status ::
  "env \<Rightarrow> string \<Rightarrow> assignment_status \<Rightarrow> service_context \<Rightarrow> int \<Rightarrow> assignment \<Rightarrow> principal \<Rightarrow> int \<Rightarrow> db \<Rightarrow>
    err + db \<times> assignment \<times> event list" where
  "write_assignment_status env aid to ctx expectedRevision before caller now d =
     (let tenantId = tenant_of ctx; hit = assignment_target aid tenantId expectedRevision in
      case update_assignments hit (assignment_patch to before now) d of Inl e \<Rightarrow> Inl e | Inr d' \<Rightarrow>
      (case find hit (assignments d) of
         None \<Rightarrow> Inl (Refused ''Stale assignment revision'' [])
       | Some row \<Rightarrow>
         (case recordEvent env (task_event tenantId (actorLabel ctx caller) (Some (p_id caller)) (as_taskId before)
                (''assignment_'' @ assignment_status_text to)
                [(''before'', JObj [(''assignmentId'', JStr aid), (''status'', JStr (assignment_status_text (as_status before)))]),
                 (''after'', JObj [(''assignmentId'', JStr aid), (''status'', JStr (assignment_status_text to))])]) now d' of
            Inl e \<Rightarrow> Inl e
          | Inr (d', ev) \<Rightarrow> Inr (d', assignment_patch to before now row, [ev]))))"

definition transitionAssignmentTx ::
  "env \<Rightarrow> string \<Rightarrow> assignment_status \<Rightarrow> service_context \<Rightarrow> int \<Rightarrow> int \<Rightarrow> db \<Rightarrow> err + db \<times> assignment \<times> event list" where
  "transitionAssignmentTx env aid to ctx expectedRevision now d =
     (case getAssignment aid (tenant_of ctx) d of None \<Rightarrow> Inl (Refused ''Assignment not found'' [aid])
      | Some before \<Rightarrow>
        (case contextPrincipal env (tenant_of ctx) ctx now d of Inl e \<Rightarrow> Inl e | Inr (d, caller) \<Rightarrow>
        (case assignment_actor_guard before to (p_id caller) of Inl e \<Rightarrow> Inl e | Inr _ \<Rightarrow>
         if as_status before = to then Inr (d, before, [])
         else if \<not> assignment_allowed (as_status before) to then Inl (Refused ''Invalid assignment transition'' [])
         else write_assignment_status env aid to ctx expectedRevision before caller now d)))"

definition transitionAssignment ::
  "env \<Rightarrow> string \<Rightarrow> assignment_status \<Rightarrow> service_context \<Rightarrow> int \<Rightarrow> db \<Rightarrow> db \<times> (err + assignment)" where
  "transitionAssignment env aid to ctx expectedRevision =
     prologue (serviceNow ctx) (\<lambda>now. runInTransaction (transitionAssignmentTx env aid to ctx expectedRevision now))"

definition acceptAssignment :: "env \<Rightarrow> string \<Rightarrow> service_context \<Rightarrow> int \<Rightarrow> db \<Rightarrow> db \<times> (err + assignment)" where
  "acceptAssignment env aid = transitionAssignment env aid Accepted"
definition rejectAssignment :: "env \<Rightarrow> string \<Rightarrow> service_context \<Rightarrow> int \<Rightarrow> db \<Rightarrow> db \<times> (err + assignment)" where
  "rejectAssignment env aid = transitionAssignment env aid Rejected"
definition revokeAssignment :: "env \<Rightarrow> string \<Rightarrow> service_context \<Rightarrow> int \<Rightarrow> db \<Rightarrow> db \<times> (err + assignment)" where
  "revokeAssignment env aid = transitionAssignment env aid Revoked"
definition releaseAssignment :: "env \<Rightarrow> string \<Rightarrow> service_context \<Rightarrow> int \<Rightarrow> db \<Rightarrow> db \<times> (err + assignment)" where
  "releaseAssignment env aid = transitionAssignment env aid AssignmentReleased"

section \<open>Artifacts\<close>

record artifact_insert =
  ri_a_id :: "string option"
  ri_a_tenantId :: string
  ri_a_taskId :: string
  ri_a_attemptId :: "string option"
  ri_a_typeUri :: string
  ri_a_schemaVersion :: int
  ri_a_name :: string
  ri_a_mediaType :: "string option"
  ri_a_uri :: "string option"
  ri_a_digest :: "string option"
  ri_a_inlineDataRef :: "string option"
  ri_a_metadata :: metadata

definition artifact_insert_ok :: "artifact_insert \<Rightarrow> bool" where
  "artifact_insert_ok i \<longleftrightarrow> opt_all (\<lambda>x. x \<noteq> []) (ri_a_id i) \<and> ri_a_tenantId i \<noteq> [] \<and> absolute_uri (ri_a_typeUri i) \<and>
     0 < ri_a_schemaVersion i \<and> between 1 500 (ri_a_name i) \<and> opt_all (between 1 200) (ri_a_mediaType i) \<and>
     opt_all absolute_uri (ri_a_uri i) \<and> opt_all (between 1 500) (ri_a_digest i) \<and>
     opt_all (between 1 2000) (ri_a_inlineDataRef i) \<and>
     (ri_a_uri i \<noteq> None \<or> ri_a_inlineDataRef i \<noteq> None) \<and> ri_a_digest i \<noteq> None"

definition insert_artifact :: "artifact \<Rightarrow> db \<Rightarrow> err + db" where
  "insert_artifact r d = insert_row ''artifact'' (\<forall>x \<in> set (artifacts d). ar_id x \<noteq> ar_id r)
     (ar_schemaVersion r > 0 \<and> (ar_uri r \<noteq> None \<or> ar_inlineDataRef r \<noteq> None)) (d\<lparr>artifacts := artifacts d @ [r]\<rparr>)"

definition getArtifact :: "string \<Rightarrow> string \<Rightarrow> db \<Rightarrow> artifact option" where
  "getArtifact aid tenantId d = find (\<lambda>a. ar_id a = aid \<and> ar_tenantId a = tenantId) (artifacts d)"

definition artifact_request :: "artifact_insert \<Rightarrow> service_context \<Rightarrow> json" where
  "artifact_request i ctx = JObj
     [(''input'', JObj [(''tenantId'', JStr (ri_a_tenantId i)), (''taskId'', JStr (ri_a_taskId i)),
        (''attemptId'', nullable JStr (ri_a_attemptId i)), (''typeUri'', JStr (ri_a_typeUri i)),
        (''schemaVersion'', JInt (ri_a_schemaVersion i)), (''name'', JStr (ri_a_name i)),
        (''mediaType'', nullable JStr (ri_a_mediaType i)), (''uri'', nullable JStr (ri_a_uri i)),
        (''digest'', nullable JStr (ri_a_digest i)), (''inlineDataRef'', nullable JStr (ri_a_inlineDataRef i)),
        (''metadata'', JObj (ri_a_metadata i)), (''id'', optional JStr (ri_a_id i))]),
      (''caller'', JStr (caller_label ctx))]"

definition prior_artifact :: "string \<Rightarrow> string \<Rightarrow> db \<Rightarrow> err + artifact" where
  "prior_artifact tenantId aid d = (case getArtifact aid tenantId d of
      None \<Rightarrow> Inl (Refused ''Idempotency record points at missing artifact'' [aid]) | Some a \<Rightarrow> Inr a)"

definition attempt_belongs :: "string option \<Rightarrow> string \<Rightarrow> string \<Rightarrow> db \<Rightarrow> err + unit" where
  "attempt_belongs attemptId tid tenantId d =
     (if truthy_str attemptId \<and>
         \<not> list_ex (\<lambda>a. a_id a = the attemptId \<and> a_tenantId a = tenantId \<and> a_taskId a = tid) (attempts d)
      then Inl (Refused ''Attempt does not belong to commitment'' [tid]) else Inr ())"

definition new_artifact :: "artifact_insert \<Rightarrow> string \<Rightarrow> string \<Rightarrow> int \<Rightarrow> artifact" where
  "new_artifact i aid callerId now = \<lparr>ar_id = aid, ar_tenantId = ri_a_tenantId i, ar_taskId = ri_a_taskId i,
     ar_attemptId = ri_a_attemptId i, ar_typeUri = ri_a_typeUri i, ar_schemaVersion = ri_a_schemaVersion i,
     ar_name = ri_a_name i, ar_mediaType = ri_a_mediaType i, ar_uri = ri_a_uri i, ar_digest = the (ri_a_digest i),
     ar_inlineDataRef = ri_a_inlineDataRef i, ar_createdByPrincipalId = callerId, ar_metadata = ri_a_metadata i,
     ar_createdAt = now\<rparr>"

definition write_artifact ::
  "env \<Rightarrow> artifact_insert \<Rightarrow> service_context \<Rightarrow> prepared_idempotency option \<Rightarrow> principal \<Rightarrow> int \<Rightarrow> db \<Rightarrow>
    err + db \<times> artifact \<times> event list" where
  "write_artifact env i ctx identity caller now d0 =
     (let (d, aid) = draw_id env (ri_a_id i) now d0; a = new_artifact i aid (p_id caller) now in
      case insert_artifact a d of Inl e \<Rightarrow> Inl e | Inr d \<Rightarrow>
      (case recordEvent env (task_event (ri_a_tenantId i) (actorLabel ctx caller) (Some (p_id caller)) (ri_a_taskId i)
              ''artifact_appended'' [(''after'', JObj [(''artifactId'', JStr aid),
                 (''attemptId'', nullable JStr (ri_a_attemptId i)), (''typeUri'', JStr (ri_a_typeUri i)),
                 (''digest'', nullable JStr (ri_a_digest i))])]) now d of Inl e \<Rightarrow> Inl e
       | Inr (d, ev) \<Rightarrow>
      (case saveIdempotencyResult identity \<lparr>o_resultType = ''artifact'', o_resultId = aid,
              o_resultStatus = Some ''recorded'', o_resultRevision = None, o_eventSequence = Some (ev_sequence ev)\<rparr> d of
         Inl e \<Rightarrow> Inl e | Inr d \<Rightarrow> Inr (d, a, [ev]))))"

definition fresh_artifact ::
  "env \<Rightarrow> artifact_insert \<Rightarrow> service_context \<Rightarrow> prepared_idempotency option \<Rightarrow> int \<Rightarrow> db \<Rightarrow>
    err + db \<times> artifact \<times> event list" where
  "fresh_artifact env i ctx identity now d =
     (case requireTask (ri_a_taskId i) (ri_a_tenantId i) d of Inl e \<Rightarrow> Inl e | Inr _ \<Rightarrow>
      (case attempt_belongs (ri_a_attemptId i) (ri_a_taskId i) (ri_a_tenantId i) d of Inl e \<Rightarrow> Inl e | Inr _ \<Rightarrow>
      (case contextPrincipal env (ri_a_tenantId i) ctx now d of Inl e \<Rightarrow> Inl e | Inr (d, caller) \<Rightarrow>
       write_artifact env i ctx identity caller now d)))"

definition appendArtifactTx ::
  "env \<Rightarrow> artifact_insert \<Rightarrow> service_context \<Rightarrow> int \<Rightarrow> db \<Rightarrow> err + db \<times> artifact \<times> event list" where
  "appendArtifactTx env i ctx now d =
     (case retryResult env (ri_a_tenantId i) ctx ''artifact.append'' (artifact_request i ctx) now True d of Inl e \<Rightarrow> Inl e
      | Inr (d, priorId, identity) \<Rightarrow>
          replayed (prior_artifact (ri_a_tenantId i)) (fresh_artifact env i ctx identity now) priorId d)"

definition appendArtifact ::
  "env \<Rightarrow> artifact_insert \<Rightarrow> service_context \<Rightarrow> db \<Rightarrow> db \<times> (err + artifact)" where
  "appendArtifact env i ctx =
     prologue (if \<not> artifact_insert_ok i then Inl (InvalidInput ''artifact'') else serviceNow ctx)
       (\<lambda>now. runInTransaction (appendArtifactTx env i ctx now))"

definition listArtifacts :: "string option \<Rightarrow> string option \<Rightarrow> string option \<Rightarrow> db \<Rightarrow> artifact list" where
  "listArtifacts tenantId taskId attemptId d = sort_key ar_createdAt (filter (\<lambda>a.
     ar_tenantId a = or_else tenantId LEGACY_DEFAULT_WORKSPACE_ID \<and> str_filter taskId (ar_taskId a) \<and>
     (truthy_str attemptId \<longrightarrow> ar_attemptId a = attemptId)) (artifacts d))"

section \<open>References to other systems\<close>

record external_ref_insert =
  xi_id :: "string option"
  xi_tenantId :: string
  xi_recordType :: string
  xi_recordId :: string
  xi_system :: string
  xi_resourceType :: string
  xi_externalId :: string
  xi_url :: "string option"
  xi_version :: "string option"
  xi_digest :: "string option"
  xi_metadata :: metadata

definition external_ref_insert_ok :: "external_ref_insert \<Rightarrow> bool" where
  "external_ref_insert_ok i \<longleftrightarrow> opt_all (\<lambda>x. x \<noteq> []) (xi_id i) \<and> xi_tenantId i \<noteq> [] \<and> between 1 80 (xi_recordType i) \<and>
     between 1 500 (xi_recordId i) \<and> absolute_uri (xi_system i) \<and> between 1 120 (xi_resourceType i) \<and>
     between 1 1000 (xi_externalId i) \<and> opt_all absolute_uri (xi_url i) \<and> opt_all (between 1 500) (xi_version i) \<and>
     opt_all (between 1 500) (xi_digest i)"

definition RESERVED_TASK_PREMISE_RESOURCE_TYPES :: "string list" where
  "RESERVED_TASK_PREMISE_RESOURCE_TYPES =
     [''https://tasq.run/contracts/task-premise/v1'', ''https://tasq.run/contracts/task-premise-proposal/v1'',
      ''https://tasq.run/contracts/task-premise-challenge/v1'', ''https://tasq.run/contracts/task-premise-decision/v1'',
      TASK_PREMISE_INVALIDATION_URI]"

definition getExternalRef :: "string \<Rightarrow> string \<Rightarrow> db \<Rightarrow> external_ref option" where
  "getExternalRef xid tenantId d = find (\<lambda>x. x_id x = xid \<and> x_tenantId x = tenantId) (externalRefs d)"

text \<open>The record a reference is attached to; the result is the commitment it belongs to, none for a
  principal.\<close>

definition found_in :: "('r \<Rightarrow> bool) \<Rightarrow> ('r \<Rightarrow> string option) \<Rightarrow> string \<Rightarrow> 'r list \<Rightarrow> err + string option" where
  "found_in P owner rid rows = (case find P rows of
      None \<Rightarrow> Inl (Refused ''record not found in workspace'' [rid]) | Some r \<Rightarrow> Inr (owner r))"

definition assertRecordExists :: "string \<Rightarrow> string \<Rightarrow> string \<Rightarrow> db \<Rightarrow> err + string option" where
  "assertRecordExists tn recordType rid d =
     (if recordType = ''principal''
      then found_in (\<lambda>r. p_id r = rid \<and> p_tenantId r = tn) (\<lambda>_. None) rid (principals d)
      else if recordType = ''commitment''
      then found_in (\<lambda>r. t_id r = rid \<and> t_tenantId r = tn) (\<lambda>r. Some (t_id r)) rid (tasks d)
      else if recordType = ''assignment''
      then found_in (\<lambda>r. as_id r = rid \<and> as_tenantId r = tn) (\<lambda>r. Some (as_taskId r)) rid (assignments d)
      else if recordType = ''relation''
      then found_in (\<lambda>r. r_id r = rid \<and> r_tenantId r = tn) (\<lambda>r. Some (r_fromTaskId r)) rid (relations d)
      else if recordType = ''claim''
      then found_in (\<lambda>r. c_id r = rid \<and> c_tenantId r = tn) (\<lambda>r. Some (c_taskId r)) rid (claims d)
      else if recordType = ''attempt''
      then found_in (\<lambda>r. a_id r = rid \<and> a_tenantId r = tn) (\<lambda>r. Some (a_taskId r)) rid (attempts d)
      else if recordType = ''artifact''
      then found_in (\<lambda>r. ar_id r = rid \<and> ar_tenantId r = tn) (\<lambda>r. Some (ar_taskId r)) rid (artifacts d)
      else if recordType = ''evidence''
      then found_in (\<lambda>r. e_id r = rid \<and> e_tenantId r = tn) (\<lambda>r. Some (e_taskId r)) rid (evidence d)
      else if recordType = ''completion''
      then found_in (\<lambda>r. cr_id r = rid \<and> cr_tenantId r = tn) (\<lambda>r. Some (cr_taskId r)) rid (completions d)
      else Inl (Refused ''Unsupported external-ref recordType'' [recordType]))"

definition external_ref_request :: "external_ref_insert \<Rightarrow> service_context \<Rightarrow> json" where
  "external_ref_request i ctx = JObj
     [(''input'', JObj [(''tenantId'', JStr (xi_tenantId i)), (''recordType'', JStr (xi_recordType i)),
        (''recordId'', JStr (xi_recordId i)), (''system'', JStr (xi_system i)),
        (''resourceType'', JStr (xi_resourceType i)), (''externalId'', JStr (xi_externalId i)),
        (''url'', nullable JStr (xi_url i)), (''version'', nullable JStr (xi_version i)),
        (''digest'', nullable JStr (xi_digest i)), (''metadata'', JObj (xi_metadata i)),
        (''id'', optional JStr (xi_id i))]),
      (''caller'', JStr (caller_label ctx))]"

definition prior_external_ref :: "string \<Rightarrow> string \<Rightarrow> db \<Rightarrow> err + external_ref" where
  "prior_external_ref tenantId xid d = (case getExternalRef xid tenantId d of
      None \<Rightarrow> Inl (Refused ''Idempotency record points at missing external ref'' [xid]) | Some x \<Rightarrow> Inr x)"

definition new_external_ref :: "external_ref_insert \<Rightarrow> string \<Rightarrow> string \<Rightarrow> int \<Rightarrow> external_ref" where
  "new_external_ref i xid callerId now = \<lparr>x_id = xid, x_tenantId = xi_tenantId i, x_recordType = xi_recordType i,
     x_recordId = xi_recordId i, x_system = xi_system i, x_resourceType = xi_resourceType i,
     x_externalId = xi_externalId i, x_url = xi_url i, x_version = xi_version i, x_digest = xi_digest i,
     x_metadata = xi_metadata i, x_createdByPrincipalId = callerId, x_createdAt = now\<rparr>"

text \<open>The event of a reference, which one to a principal does not have.\<close>

definition external_ref_event ::
  "env \<Rightarrow> external_ref_insert \<Rightarrow> service_context \<Rightarrow> principal \<Rightarrow> string \<Rightarrow> string option \<Rightarrow> int \<Rightarrow> db \<Rightarrow> err + db \<times> event list" where
  "external_ref_event env i ctx caller xid taskId now d =
     (if \<not> truthy_str taskId then Inr (d, [])
      else case recordEvent env (task_event (xi_tenantId i) (actorLabel ctx caller) (Some (p_id caller)) (the taskId)
             ''external_ref_appended'' [(''after'', JObj [(''externalRefId'', JStr xid),
               (''recordType'', JStr (xi_recordType i)), (''recordId'', JStr (xi_recordId i)),
               (''system'', JStr (xi_system i))])]) now d of Inl e \<Rightarrow> Inl e
        | Inr (d, ev) \<Rightarrow> Inr (d, [ev]))"

definition write_external_ref ::
  "env \<Rightarrow> external_ref_insert \<Rightarrow> service_context \<Rightarrow> prepared_idempotency option \<Rightarrow> string option \<Rightarrow> principal \<Rightarrow> int \<Rightarrow> db \<Rightarrow>
    err + db \<times> external_ref \<times> event list" where
  "write_external_ref env i ctx identity taskId caller now d0 =
     (let (d, xid) = draw_id env (xi_id i) now d0; x = new_external_ref i xid (p_id caller) now in
      case insert_external_ref x d of Inl e \<Rightarrow> Inl e | Inr d \<Rightarrow>
      (case external_ref_event env i ctx caller xid taskId now d of Inl e \<Rightarrow> Inl e | Inr (d, evs) \<Rightarrow>
       (case saveIdempotencyResult identity \<lparr>o_resultType = ''external_ref'', o_resultId = xid,
               o_resultStatus = Some ''recorded'', o_resultRevision = None,
               o_eventSequence = (case evs of [] \<Rightarrow> None | ev # _ \<Rightarrow> Some (ev_sequence ev))\<rparr> d of
          Inl e \<Rightarrow> Inl e | Inr d \<Rightarrow> Inr (d, x, evs))))"

definition fresh_external_ref ::
  "env \<Rightarrow> external_ref_insert \<Rightarrow> service_context \<Rightarrow> prepared_idempotency option \<Rightarrow> int \<Rightarrow> db \<Rightarrow>
    err + db \<times> external_ref \<times> event list" where
  "fresh_external_ref env i ctx identity now d =
     (case assertRecordExists (xi_tenantId i) (xi_recordType i) (xi_recordId i) d of Inl e \<Rightarrow> Inl e | Inr taskId \<Rightarrow>
      (case contextPrincipal env (xi_tenantId i) ctx now d of Inl e \<Rightarrow> Inl e | Inr (d, caller) \<Rightarrow>
       write_external_ref env i ctx identity taskId caller now d))"

definition appendExternalRefTx ::
  "env \<Rightarrow> external_ref_insert \<Rightarrow> service_context \<Rightarrow> int \<Rightarrow> db \<Rightarrow> err + db \<times> external_ref \<times> event list" where
  "appendExternalRefTx env i ctx now d =
     (case retryResult env (xi_tenantId i) ctx ''external-ref.append'' (external_ref_request i ctx) now True d of Inl e \<Rightarrow> Inl e
      | Inr (d, priorId, identity) \<Rightarrow>
          replayed (prior_external_ref (xi_tenantId i)) (fresh_external_ref env i ctx identity now) priorId d)"

definition appendExternalRef ::
  "env \<Rightarrow> external_ref_insert \<Rightarrow> service_context \<Rightarrow> db \<Rightarrow> db \<times> (err + external_ref)" where
  "appendExternalRef env i ctx =
     prologue (if \<not> external_ref_insert_ok i then Inl (InvalidInput ''external_ref'')
        else if xi_resourceType i = ATTEMPT_COST_OBSERVATION_URI
        then Inl (Refused ''Attempt-cost observations must use recordAttemptCost'' [])
        else if xi_resourceType i \<in> set RESERVED_TASK_PREMISE_RESOURCE_TYPES
        then Inl (Refused ''Task-premise records must use the premise service'' [])
        else serviceNow ctx)
      (\<lambda>now. runInTransaction (appendExternalRefTx env i ctx now))"

definition listExternalRefs :: "string option \<Rightarrow> string option \<Rightarrow> string option \<Rightarrow> db \<Rightarrow> external_ref list" where
  "listExternalRefs tenantId recordType recordId d = sort_key x_createdAt (filter (\<lambda>x.
     x_tenantId x = or_else tenantId LEGACY_DEFAULT_WORKSPACE_ID \<and> str_filter recordType (x_recordType x) \<and>
     str_filter recordId (x_recordId x)) (externalRefs d))"

section \<open>Completion records\<close>

definition getCompletionRecord :: "string \<Rightarrow> string \<Rightarrow> db \<Rightarrow> completion_record option" where
  "getCompletionRecord crid tenantId d = find (\<lambda>r. cr_id r = crid \<and> cr_tenantId r = tenantId) (completions d)"

definition listCompletionRecords :: "string \<Rightarrow> string \<Rightarrow> db \<Rightarrow> completion_record list" where
  "listCompletionRecords tid tenantId d =
     sort_key cr_resultingRevision (filter (\<lambda>r. cr_tenantId r = tenantId \<and> cr_taskId r = tid) (completions d))"

section \<open>What the operations do\<close>

definition assignments_ok :: "db \<Rightarrow> bool" where
  "assignments_ok d \<longleftrightarrow> list_all assignment_check (assignments d) \<and> uniq_by as_id (assignments d)"

interpretation assignments_tx: tx_invariant assignments_ok
  by unfold_locales (simp_all add: assignments_ok_def)

lemma write_assignment_result:
  assumes "write_assignment env i ctx identity assigner assignee now d = Inr (d', a, evs)"
  shows "assignments d' = assignments d @ [a] \<and> assignment_check a \<and> (\<forall>x \<in> set (assignments d). as_id x \<noteq> as_id a) \<and>
    as_status a = Proposed \<and> as_assignerPrincipalId a = p_id assigner \<and> as_assigneePrincipalId a = p_id assignee"
  using assms unfolding write_assignment_def
  by (auto simp: Let_def res insert_assignment_def new_assignment_def split: prod.splits
      dest!: recordEvent_frame saveIdempotencyResult_frame draw_id_frame)

lemma write_assignment_status_result:
  assumes "write_assignment_status env aid to ctx rv before caller now d = Inr (d', a, evs)"
  shows "assignments d' = update_rows (assignment_target aid (tenant_of ctx) rv) (assignment_patch to before now) (assignments d) \<and>
    (\<forall>x \<in> set (assignments d). assignment_target aid (tenant_of ctx) rv x \<longrightarrow> assignment_check (assignment_patch to before now x)) \<and>
    (\<exists>row. find (assignment_target aid (tenant_of ctx) rv) (assignments d) = Some row \<and> a = assignment_patch to before now row)"
  using assms unfolding write_assignment_status_def
  by (auto simp: Let_def res update_assignments_def dest!: recordEvent_frame)

lemma transition_assignment_cases:
  assumes "transitionAssignmentTx env aid to ctx rv now d = Inr (d', a, evs)"
  obtains (kept) ps where "d' = d\<lparr>principals := ps\<rparr>" "getAssignment aid (tenant_of ctx) d = Some a" "as_status a = to"
  | (changed) before ps caller where "getAssignment aid (tenant_of ctx) d = Some before"
      "contextPrincipal env (tenant_of ctx) ctx now d = Inr (d\<lparr>principals := ps\<rparr>, caller)"
      "assignment_actor_guard before to (p_id caller) = Inr ()" "assignment_allowed (as_status before) to"
      "write_assignment_status env aid to ctx rv before caller now (d\<lparr>principals := ps\<rparr>) = Inr (d', a, evs)"
proof -
  obtain before d1 caller where b: "getAssignment aid (tenant_of ctx) d = Some before"
    and c: "contextPrincipal env (tenant_of ctx) ctx now d = Inr (d1, caller)"
    and g: "assignment_actor_guard before to (p_id caller) = Inr ()"
    and r: "(if as_status before = to then Inr (d1, before, [])
         else if \<not> assignment_allowed (as_status before) to then Inl (Refused ''Invalid assignment transition'' [])
         else write_assignment_status env aid to ctx rv before caller now d1) = Inr (d', a, evs)"
    using assms unfolding transitionAssignmentTx_def by (auto simp: res)
  obtain ps where d1: "d1 = d\<lparr>principals := ps\<rparr>" using contextPrincipal_frame [OF c] by blast
  from r show thesis unfolding d1 using kept [of ps] changed [OF b c [unfolded d1] g] b by (auto split: if_splits)
qed

lemma transition_assignment_ok:
  assumes "transitionAssignmentTx env aid to ctx rv now d = Inr (d', a, evs)" and "assignments_ok d"
  shows "assignments_ok d'"
  using assms(1)
proof (cases rule: transition_assignment_cases)
  case (kept ps)
  with assms(2) show ?thesis by (simp add: assignments_ok_def)
next
  case (changed before ps caller)
  note w = write_assignment_status_result [OF changed(5)]
  have "assignment_check x" if "x \<in> set (assignments d')" for x
    using that w assms(2) by (auto simp: assignments_ok_def list_all_iff elim!: update_rows_cases)
  moreover have "uniq_by as_id (assignments d')"
    using w assms(2) by (auto simp: assignments_ok_def assignment_patch_def intro!: uniq_by_update_rows)
  ultimately show ?thesis by (simp add: assignments_ok_def list_all_iff)
qed

lemma propose_ok:
  assumes "proposeAssignmentTx env i ctx now d = Inr (d', a, evs)" and "assignments_ok d"
  shows "assignments_ok d'"
proof -
  obtain d1 pid identity where 1: "retryResult env (ni_tenantId i) ctx ''assignment.propose'' (assignment_request i ctx) now False d
      = Inr (d1, pid, identity)"
    and 2: "replayed (prior_assignment (ni_tenantId i)) (fresh_assignment env i ctx identity now) pid d1 = Inr (d', a, evs)"
    using assms(1) by (auto simp: proposeAssignmentTx_def res)
  obtain xs where d1: "d1 = d\<lparr>idems := xs\<rparr>" using retryResult_frame [OF 1] by blast
  from replayed_cases [OF 2] show ?thesis
  proof
    assume "fresh_assignment env i ctx identity now d1 = Inr (d', a, evs)"
    then obtain d2 p q where c: "contextPrincipal env (ni_tenantId i) ctx now d1 = Inr (d2, p)"
      and w: "write_assignment env i ctx identity p q now d2 = Inr (d', a, evs)"
      by (auto simp: fresh_assignment_def res split: if_splits)
    have "assignments d2 = assignments d" using contextPrincipal_frame [OF c] d1 by auto
    with write_assignment_result [OF w] assms(2) show ?thesis by (simp add: assignments_ok_def uniq_by_append1)
  qed (use assms(2) in \<open>simp add: d1 assignments_ok_def\<close>)
qed

lemma concat_map_Nil [simp]: "concat (map (\<lambda>_. []) xs) = []"
  by (induction xs) simp_all

lemma external_ref_event_frame:
  "external_ref_event env i ctx caller xid taskId now d = Inr (d', evs) \<Longrightarrow>
    attempts d' = attempts d \<and> externalRefs d' = externalRefs d"
  by (auto simp: external_ref_event_def res split: if_splits dest!: recordEvent_frame)

lemma write_external_ref_result:
  assumes "write_external_ref env i ctx identity taskId caller now d = Inr (d', x, evs)"
  shows "attempts d' = attempts d \<and> externalRefs d' = externalRefs d @ [x] \<and> x_resourceType x = xi_resourceType i"
  using assms unfolding write_external_ref_def
  by (auto simp: Let_def res new_external_ref_def split: prod.splits
      dest!: draw_id_frame insert_external_ref_Inr external_ref_event_frame saveIdempotencyResult_frame)

section \<open>Properties\<close>

text \<open>C37. Assignments keep their lifecycle: proposing one and moving one, by whoever and to whatever
  status, leave every assignment with the timestamps its status requires.\<close>

theorem assignments_keep_lifecycle:
  assumes "assignments_ok d"
  shows "assignments_ok (fst (proposeAssignment env i ctx d)) \<and> assignments_ok (fst (transitionAssignment env aid to ctx rv d))"
  unfolding proposeAssignment_def transitionAssignment_def
  by (intro conjI assignments_tx.operation [OF assms]) (auto intro: propose_ok transition_assignment_ok assms)

text \<open>C36. Only the assignee accepts, rejects or releases an assignment and only the assigner revokes it,
  along the transitions the code lists, at the revision expected, and nothing else changes.\<close>

theorem assignment_transition_authorised:
  assumes "transitionAssignment env aid to ctx rv d = (d', Inr a)" and "assignments_ok d"
    and "getAssignment aid (tenant_of ctx) d = Some before" and "as_status before \<noteq> to"
  shows "assignment_allowed (as_status before) to \<and> as_revision before = rv \<and> as_status a = to \<and> as_revision a = rv + 1 \<and>
    (\<exists>now d1 caller. contextPrincipal env (tenant_of ctx) ctx now d = Inr (d1, caller) \<and>
       p_id caller = (if to = Revoked then as_assignerPrincipalId before else as_assigneePrincipalId before)) \<and>
    assignments d' = map (\<lambda>x. if as_id x = aid \<and> as_tenantId x = tenant_of ctx then a else x) (assignments d)"
proof -
  obtain now d1 evs n j where tx: "transitionAssignmentTx env aid to ctx rv now d = Inr (d1, a, evs)"
    and d': "d' = d1\<lparr>committedMutations := n, journal := j\<rparr>"
    using assms(1) by (auto simp: transitionAssignment_def res)
  have b: "before \<in> set (assignments d)" "as_id before = aid" "as_tenantId before = tenant_of ctx"
    using assms(3) by (auto simp: getAssignment_def dest: find_SomeD)
  from tx show ?thesis
  proof (cases rule: transition_assignment_cases)
    case (kept ps)
    with assms(3,4) show ?thesis by simp
  next
    case (changed b' ps caller)
    have bb: "b' = before" using changed(1) assms(3) by simp
    note w = write_assignment_status_result [OF changed(5)]
    have one: "x = before" if "x \<in> set (assignments d)" "as_id x = aid" for x
      using assms(2) b that by (auto simp: assignments_ok_def dest: uniq_by_eqD)
    obtain row where row: "find (assignment_target aid (tenant_of ctx) rv) (assignments d) = Some row"
      "a = assignment_patch to before now row" using w bb by auto
    have "row = before" "as_revision before = rv" using find_SomeD [OF row(1)] one by (auto simp: assignment_target_def)
    moreover have "(if assignment_target aid (tenant_of ctx) rv x then assignment_patch to before now x else x)
        = (if as_id x = aid \<and> as_tenantId x = tenant_of ctx then a else x)" if "x \<in> set (assignments d)" for x
      using one [OF that] row(2) calculation by (auto simp: assignment_target_def)
    ultimately have "assignments d1 = map (\<lambda>x. if as_id x = aid \<and> as_tenantId x = tenant_of ctx then a else x) (assignments d)"
      using w bb by (simp add: update_rows_def)
    moreover have "p_id caller = (if to = Revoked then as_assignerPrincipalId before else as_assigneePrincipalId before)"
      using changed(3,4) bb by (auto simp: assignment_actor_guard_def assignment_allowed_def split: if_splits)
    then have "\<exists>now d1 caller. contextPrincipal env (tenant_of ctx) ctx now d = Inr (d1, caller) \<and>
       p_id caller = (if to = Revoked then as_assignerPrincipalId before else as_assigneePrincipalId before)"
      using changed(2) by blast
    moreover have "as_status a = to" "as_revision a = rv + 1"
      using row(2) \<open>row = before\<close> \<open>as_revision before = rv\<close> by (simp_all add: assignment_patch_def)
    ultimately show ?thesis using changed(4) \<open>as_revision before = rv\<close> bb by (simp add: d')
  qed
qed

text \<open>C38. An accepted assignment cannot be revoked: the transition is listed as allowed, but the row it
  writes keeps the time of acceptance, which the lifecycle constraint of the table forbids for a revoked
  assignment, so the assigner's call fails and changes nothing.\<close>

theorem accepted_assignment_never_revoked:
  assumes "assignments_ok d" and "getAssignment aid (tenant_of ctx) d = Some before" and "as_status before = Accepted"
  shows "assignment_allowed Accepted Revoked \<and> \<not> returned (snd (revokeAssignment env aid ctx rv d)) \<and>
    fst (revokeAssignment env aid ctx rv d) = d"
proof -
  have "transitionAssignmentTx env aid Revoked ctx rv now d \<noteq> Inr (d1, a, evs)" for now d1 a evs
  proof
    assume "transitionAssignmentTx env aid Revoked ctx rv now d = Inr (d1, a, evs)"
    then show False
    proof (cases rule: transition_assignment_cases)
      case (kept ps)
      with assms(2,3) show False by simp
    next
      case (changed b ps caller)
      have "before \<in> set (assignments d)" using assms(2) by (auto simp: getAssignment_def dest: find_SomeD)
      then have "as_acceptedAt before \<noteq> None" using assms(1,3) by (auto simp: assignments_ok_def list_all_iff assignment_check_def)
      moreover obtain row where "row \<in> set (assignments d)" "assignment_check (assignment_patch Revoked before now row)"
        using write_assignment_status_result [OF changed(5)] changed(1) assms(2) by (auto dest: find_SomeD)
      ultimately show False by (simp add: assignment_check_def assignment_patch_def)
    qed
  qed
  then have "\<exists>e. transitionAssignmentTx env aid Revoked ctx rv now d = Inl e" for now
    by (cases "transitionAssignmentTx env aid Revoked ctx rv now d") auto
  then have "\<exists>e. revokeAssignment env aid ctx rv d = (d, Inl e)"
    unfolding revokeAssignment_def transitionAssignment_def prologue_def runInTransaction_def
    by (cases "serviceNow ctx") (auto, metis old.sum.simps(5))
  then show ?thesis by (auto simp: assignment_allowed_def returned_def)
qed

definition sample_assignment :: "assignment_status \<Rightarrow> int option \<Rightarrow> assignment" where
  "sample_assignment s accepted = \<lparr>as_id = ''n1'', as_tenantId = ''w'', as_taskId = ''t1'', as_assignerPrincipalId = ''p1'',
     as_assigneePrincipalId = ''p2'', as_role = ''owner'', as_status = s, as_instructionsRef = None, as_acceptedAt = accepted,
     as_endedAt = None, as_revision = 1, as_createdAt = 1000, as_updatedAt = 1000\<rparr>"

definition sample_assigned_db :: "assignment_status \<Rightarrow> int option \<Rightarrow> db" where
  "sample_assigned_db s accepted = sample_claimed_db\<lparr>assignments := [sample_assignment s accepted]\<rparr>"

lemma sample_assigned_ok: "assignments_ok (sample_assigned_db Proposed None)" "assignments_ok (sample_assigned_db Accepted (Some 1500))"
  by code_simp+

abbreviation sample_accept :: "db \<times> (err + assignment)" where
  "sample_accept \<equiv> transitionAssignment sample_env ''n1'' Accepted (sample_ctx ''bob'' 2000) 1 (sample_assigned_db Proposed None)"

lemma sample_accept_ok: "returned (snd sample_accept)" by code_simp

theorem assignments_keep_lifecycle_witness: "assignments_ok (fst sample_accept)"
  by (rule conjunct2 [OF assignments_keep_lifecycle [OF sample_assigned_ok(1)]])

theorem assignment_transition_authorised_witness: "as_status (projr (snd sample_accept)) = Accepted \<and> as_revision (projr (snd sample_accept)) = 2"
proof -
  have g: "getAssignment ''n1'' (tenant_of (sample_ctx ''bob'' 2000)) (sample_assigned_db Proposed None) = Some (sample_assignment Proposed None)"
    "as_status (sample_assignment Proposed None) \<noteq> Accepted" by code_simp+
  show ?thesis using assignment_transition_authorised [OF returned_op [OF sample_accept_ok] sample_assigned_ok(1) g] by simp
qed

theorem accepted_assignment_never_revoked_witness:
  "\<not> returned (snd (revokeAssignment sample_env ''n1'' (sample_ctx ''alice'' 2000) 1 (sample_assigned_db Accepted (Some 1500))))"
proof -
  have g: "getAssignment ''n1'' (tenant_of (sample_ctx ''alice'' 2000)) (sample_assigned_db Accepted (Some 1500))
      = Some (sample_assignment Accepted (Some 1500))" "as_status (sample_assignment Accepted (Some 1500)) = Accepted" by code_simp+
  show ?thesis using accepted_assignment_never_revoked [OF sample_assigned_ok(2) g] by simp
qed

text \<open>A generic reference is not a receipt: appending an external reference through the open operation
  never changes the observed cost of a commitment and never invalidates its premise.\<close>

theorem generic_reference_changes_no_gate:
  assumes "appendExternalRef env i ctx d = (d', Inr x)"
  shows "observed_cost cur tid tn d' = observed_cost cur tid tn d \<and>
    list_ex (invalidation_of tid tn) (externalRefs d') = list_ex (invalidation_of tid tn) (externalRefs d)"
proof -
  have kind: "xi_resourceType i \<noteq> ATTEMPT_COST_OBSERVATION_URI" "xi_resourceType i \<noteq> TASK_PREMISE_INVALIDATION_URI"
    using assms by (auto simp: appendExternalRef_def res RESERVED_TASK_PREMISE_RESOURCE_TYPES_def split: if_splits)
  obtain now d1 evs n j where tx: "appendExternalRefTx env i ctx now d = Inr (d1, x, evs)"
    and d': "d' = d1\<lparr>committedMutations := n, journal := j\<rparr>"
    using assms by (auto simp: appendExternalRef_def res split: if_splits)
  obtain d2 pid identity where 1: "retryResult env (xi_tenantId i) ctx ''external-ref.append'' (external_ref_request i ctx) now True d
      = Inr (d2, pid, identity)"
    and 2: "replayed (prior_external_ref (xi_tenantId i)) (fresh_external_ref env i ctx identity now) pid d2 = Inr (d1, x, evs)"
    using tx by (auto simp: appendExternalRefTx_def res)
  obtain xs where d2: "d2 = d\<lparr>idems := xs\<rparr>" using retryResult_frame [OF 1] by blast
  from replayed_cases [OF 2] have "attempts d1 = attempts d \<and> (externalRefs d1 = externalRefs d \<or>
      externalRefs d1 = externalRefs d @ [x] \<and> x_resourceType x = xi_resourceType i)"
  proof
    assume "fresh_external_ref env i ctx identity now d2 = Inr (d1, x, evs)"
    then show ?thesis unfolding fresh_external_ref_def
      by (auto simp: res d2 dest!: contextPrincipal_frame write_external_ref_result)
  qed (simp add: d2)
  then show ?thesis
  proof (elim conjE disjE exE)
    assume a: "attempts d1 = attempts d" and r: "externalRefs d1 = externalRefs d @ [x]" and x: "x_resourceType x = xi_resourceType i"
    have "observed_cost cur tid tn d1 = observed_cost cur tid tn d"
      using kind(1) by (simp add: observed_cost_def costRefsForTask_def a r x)
    then show ?thesis using kind(2) r x
      by (simp add: d' observed_cost_def costRefsForTask_def invalidation_of_def)
  qed (simp add: d' observed_cost_def costRefsForTask_def)
qed

definition sample_ref_insert :: external_ref_insert where
  "sample_ref_insert = \<lparr>xi_id = None, xi_tenantId = ''w'', xi_recordType = ''attempt'', xi_recordId = ''a1'',
     xi_system = ''https://m'', xi_resourceType = ''log'', xi_externalId = ''o1'', xi_url = None, xi_version = None,
     xi_digest = None, xi_metadata = []\<rparr>"

definition sample_ref_db :: db where
  "sample_ref_db = sample_claimed_db\<lparr>attempts := [\<lparr>a_id = ''a1'', a_tenantId = ''w'', a_taskId = ''t1'', a_claimId = Some ''c1'',
     a_actor = ''bob'', a_principalId = Some ''p2'', a_revision = 1, a_runtime = ''local'', a_externalId = None, a_contextId = None,
     a_status = Running, a_statusMessage = None, a_startedAt = 1000, a_endedAt = None, a_metadata = [],
     a_createdAt = 1000, a_updatedAt = 1000\<rparr>]\<rparr>"

abbreviation sample_ref :: "db \<times> (err + external_ref)" where
  "sample_ref \<equiv> appendExternalRef sample_env sample_ref_insert (sample_ctx ''bob'' 2000) sample_ref_db"

lemma sample_ref_ok: "returned (snd sample_ref)" by code_simp

theorem generic_reference_changes_no_gate_witness:
  "observed_cost ''EUR'' ''t1'' ''w'' (fst sample_ref) = observed_cost ''EUR'' ''t1'' ''w'' sample_ref_db"
  by (rule conjunct1 [OF generic_reference_changes_no_gate [OF returned_op [OF sample_ref_ok]]])

end
