(* ===== verification/Resources.thy ===== *)
theory Resources
  imports Sample_Ledger "HOL-Library.Product_Lexorder"
begin

text \<open>
  Exclusive leases on opaque resources (\<open>packages/tasq-core/src/service/resources.ts\<close>) and the
  coordination spaces they live in (\<open>spaces.ts\<close>). A lease is fenced: whoever takes a resource over
  carries a greater fence, and a fence is verified against the live lease. The code of a
  \<open>ResourceLeaseError\<close> is the text of the refusal; the view of the current lease it carries for
  display is left out. The clock is read inside the transaction.
\<close>

section \<open>Inputs\<close>

definition MIN_RESOURCE_LEASE_MS :: int where "MIN_RESOURCE_LEASE_MS = 1000"

definition MAX_RESOURCE_LEASE_MS :: int where "MAX_RESOURCE_LEASE_MS = 604800000"

definition DEFAULT_RESOURCE_LEASE_MS :: int where "DEFAULT_RESOURCE_LEASE_MS = 1800000"

definition MAX_RESOURCE_METADATA_BYTES :: nat where "MAX_RESOURCE_METADATA_BYTES = 16384"

definition RESOURCE_KEY_MAX_BYTES :: nat where "RESOURCE_KEY_MAX_BYTES = 512"

text \<open>\<open>ResourceContext\<close> and \<open>ResourceMutationContext\<close>; the clock is the value it reads.\<close>

record resource_context =
  rc_workspaceId :: string
  rc_actor :: string
  rc_principalId :: "string option"
  rc_clock :: int
  rc_idempotencyKey :: "string option"

definition lease_error :: "string \<Rightarrow> string list \<Rightarrow> err" where
  "lease_error code args = Refused code args"

definition control_char :: "char \<Rightarrow> bool" where
  "control_char c \<longleftrightarrow> (let n = (of_char c :: nat) in n \<le> 31 \<or> n = 127)"

definition utf8_length :: "string \<Rightarrow> nat" where
  "utf8_length s = sum_list (map (\<lambda>c. length (utf8_bytes c)) s)"

text \<open>Every text of the model is in the normal form NFC.\<close>

definition resource_key_ok :: "string \<Rightarrow> bool" where
  "resource_key_ok s \<longleftrightarrow> s \<noteq> [] \<and> js_trim s = s \<and> \<not> list_ex control_char s \<and> utf8_length s \<le> RESOURCE_KEY_MAX_BYTES"

definition actor_alias_ok :: "string \<Rightarrow> bool" where
  "actor_alias_ok s \<longleftrightarrow> between 1 200 s \<and> js_trim s = s \<and> \<not> list_ex control_char s"

definition alphanumeric :: "char \<Rightarrow> bool" where
  "alphanumeric c \<longleftrightarrow> (let n = (of_char c :: nat) in
     (48 \<le> n \<and> n \<le> 57) \<or> (65 \<le> n \<and> n \<le> 90) \<or> (97 \<le> n \<and> n \<le> 122))"

definition space_id_ok :: "string \<Rightarrow> bool" where
  "space_id_ok s \<longleftrightarrow> between 1 200 s \<and> alphanumeric (hd s) \<and>
     list_all (\<lambda>c. alphanumeric c \<or> c \<in> set ''._:/-'') (tl s)"

definition nowFrom :: "int \<Rightarrow> err + int" where
  "nowFrom now = (if \<not> isSafeInteger now \<or> now < 0 then Inl (lease_error ''invalid_input'' []) else Inr now)"

definition leaseDuration :: "int option \<Rightarrow> err + int" where
  "leaseDuration value = (let duration = or_else value DEFAULT_RESOURCE_LEASE_MS in
     if \<not> isSafeInteger duration \<or> duration < MIN_RESOURCE_LEASE_MS \<or> duration > MAX_RESOURCE_LEASE_MS
     then Inl (lease_error ''invalid_input'' []) else Inr duration)"

definition safePositive :: "int \<Rightarrow> err + int" where
  "safePositive value = (if \<not> isSafeInteger value \<or> value \<le> 0 then Inl (lease_error ''invalid_input'' []) else Inr value)"

definition boundedLimit :: "int option \<Rightarrow> err + int" where
  "boundedLimit value = (let limit = or_else value 1000 in
     if \<not> isSafeInteger limit \<or> limit < 1 \<or> limit > 10000 then Inl (lease_error ''invalid_input'' []) else Inr limit)"

definition validateScope :: "resource_context \<Rightarrow> err + unit" where
  "validateScope ctx = (if \<not> space_id_ok (rc_workspaceId ctx) then Inl (InvalidInput ''workspaceId'')
     else if \<not> actor_alias_ok (rc_actor ctx) then Inl (InvalidInput ''actor'') else Inr ())"

definition validateResourceKey :: "string \<Rightarrow> err + unit" where
  "validateResourceKey key = (if \<not> resource_key_ok key then Inl (InvalidInput ''resourceKey'') else Inr ())"

definition validateMetadata :: "metadata option \<Rightarrow> err + metadata" where
  "validateMetadata value = (let md = or_else value [] in
     if utf8_length (canonicalJson (JObj md)) > MAX_RESOURCE_METADATA_BYTES
     then Inl (lease_error ''invalid_input'' []) else Inr md)"

definition requireIdempotencyKey :: "string option \<Rightarrow> err + string" where
  "requireIdempotencyKey value = (case value of None \<Rightarrow> Inl (lease_error ''invalid_input'' [])
     | Some k \<Rightarrow> if js_blank k then Inl (lease_error ''invalid_input'' []) else Inr k)"

section \<open>Coordination spaces\<close>

definition insert_space :: "coordination_space \<Rightarrow> db \<Rightarrow> err + db" where
  "insert_space s d = insert_row ''coordination_space''
     (\<forall>x \<in> set (spaces d). cs_workspaceId x \<noteq> cs_workspaceId s) True (d\<lparr>spaces := spaces d @ [s]\<rparr>)"

definition getCoordinationSpace :: "string \<Rightarrow> db \<Rightarrow> err + coordination_space option" where
  "getCoordinationSpace workspaceId d = (if \<not> space_id_ok workspaceId then Inl (InvalidInput ''workspaceId'')
     else Inr (find (\<lambda>s. cs_workspaceId s = workspaceId) (spaces d)))"

definition listCoordinationSpaces :: "db \<Rightarrow> coordination_space list" where
  "listCoordinationSpaces d = rev (sort_key cs_createdAt (rev (spaces d)))"

record space_bootstrap =
  bs_created :: bool
  bs_space :: coordination_space
  bs_principal :: principal

text \<open>The two inserts are separate statements: a failure of the second leaves the principal.\<close>

definition bootstrapCoordinationSpace ::
  "env \<Rightarrow> string \<Rightarrow> string \<Rightarrow> int \<Rightarrow> db \<Rightarrow> db \<times> (err + space_bootstrap)" where
  "bootstrapCoordinationSpace env workspaceId actor clock d =
     (if \<not> space_id_ok workspaceId then (d, Inl (InvalidInput ''workspaceId''))
      else if \<not> actor_alias_ok actor then (d, Inl (InvalidInput ''actor''))
      else case clockNow clock None of Inl e \<Rightarrow> (d, Inl e) | Inr now \<Rightarrow>
      (case ensureLocalPrincipal env workspaceId actor now d of Inl e \<Rightarrow> (d, Inl e)
       | Inr (d1, p) \<Rightarrow>
         (let (d2, created) = (case insert_space \<lparr>cs_workspaceId = workspaceId, cs_createdByPrincipalId = p_id p,
                  cs_createdAt = now\<rparr> d1 of Inl _ \<Rightarrow> (d1, False) | Inr d2 \<Rightarrow> (d2, True)) in
          case find (\<lambda>s. cs_workspaceId s = workspaceId) (spaces d2) of
            None \<Rightarrow> (d2, Inl (Refused ''Failed to read coordination space'' [workspaceId]))
          | Some s \<Rightarrow> (d2, Inr \<lparr>bs_created = created, bs_space = s, bs_principal = p\<rparr>))))"

definition requireSpace :: "string \<Rightarrow> db \<Rightarrow> err + unit" where
  "requireSpace workspaceId d = (case getCoordinationSpace workspaceId d of Inl e \<Rightarrow> Inl e
     | Inr None \<Rightarrow> Inl (lease_error ''space_not_found'' [workspaceId]) | Inr (Some _) \<Rightarrow> Inr ())"

definition resolvePrincipal ::
  "env \<Rightarrow> string \<Rightarrow> string \<Rightarrow> string option \<Rightarrow> int \<Rightarrow> db \<Rightarrow> err + db \<times> principal" where
  "resolvePrincipal env workspaceId actor principalId now d =
     (if \<not> truthy_str principalId then ensureLocalPrincipal env workspaceId actor now d
      else case getPrincipal (the principalId) workspaceId d of Inl e \<Rightarrow> Inl e
      | Inr None \<Rightarrow> Inl (lease_error ''not_holder'' [the principalId])
      | Inr (Some p) \<Rightarrow> if p_status p \<noteq> Enabled then Inl (lease_error ''not_holder'' [the principalId]) else Inr (d, p))"

definition resolveExistingPrincipal :: "env \<Rightarrow> string \<Rightarrow> string \<Rightarrow> string option \<Rightarrow> db \<Rightarrow> err + principal" where
  "resolveExistingPrincipal env workspaceId actor principalId d =
     (let pid = or_else principalId (localPrincipalId env workspaceId actor) in
      case getPrincipal pid workspaceId d of Inl e \<Rightarrow> Inl e
      | Inr None \<Rightarrow> Inl (lease_error ''not_holder'' [pid])
      | Inr (Some p) \<Rightarrow> if p_status p \<noteq> Enabled then Inl (lease_error ''not_holder'' [pid]) else Inr p)"

section \<open>The tables\<close>

definition sql_trimmed :: "string \<Rightarrow> bool" where
  "sql_trimmed s \<longleftrightarrow> sql_trim s = s"

definition lease_check :: "resource_lease \<Rightarrow> bool" where
  "lease_check l \<longleftrightarrow> l_heartbeatAt l \<ge> l_acquiredAt l \<and> l_expiresAt l > l_heartbeatAt l \<and>
     1 \<le> utf8_length (l_resourceKey l) \<and> utf8_length (l_resourceKey l) \<le> 512 \<and> sql_trimmed (l_resourceKey l) \<and>
     list_all (\<lambda>c. (of_char c :: nat) \<notin> {0, 9, 10, 13}) (l_resourceKey l) \<and>
     between 1 200 (l_holderActor l) \<and> sql_trimmed (l_holderActor l) \<and>
     (case (l_releasedAt l, l_releaseReason l) of
        (None, None) \<Rightarrow> True
      | (Some t, Some r) \<Rightarrow> t \<ge> l_acquiredAt l \<and> \<not> sql_blank r
      | _ \<Rightarrow> False) \<and>
     l_fence l > 0 \<and> l_revision l > 0 \<and> utf8_length (canonicalJson (JObj (l_metadata l))) \<le> 16384"

definition insert_lease :: "resource_lease \<Rightarrow> db \<Rightarrow> err + db" where
  "insert_lease l d = insert_row ''resource_lease''
     (\<forall>x \<in> set (leases d). l_id x \<noteq> l_id l \<and>
        \<not> (l_workspaceId x = l_workspaceId l \<and> l_resourceKey x = l_resourceKey l \<and>
           (l_fence x = l_fence l \<or> l_releasedAt x = None \<and> l_releasedAt l = None)))
     (lease_check l) (d\<lparr>leases := leases d @ [l]\<rparr>)"

definition update_leases :: "(resource_lease \<Rightarrow> bool) \<Rightarrow> (resource_lease \<Rightarrow> resource_lease) \<Rightarrow> db \<Rightarrow> err + db" where
  "update_leases P f d = insert_row ''resource_lease'' True (\<forall>x \<in> set (leases d). P x \<longrightarrow> lease_check (f x))
     (d\<lparr>leases := update_rows P f (leases d)\<rparr>)"

definition RESOURCE_EVENT_TYPES :: "string list" where
  "RESOURCE_EVENT_TYPES = [''resource_lease_acquired'', ''resource_lease_renewed'', ''resource_lease_released'',
     ''resource_lease_expired'']"

definition lease_of :: "string \<Rightarrow> string \<Rightarrow> resource_lease \<Rightarrow> bool" where
  "lease_of workspaceId key l \<longleftrightarrow> l_workspaceId l = workspaceId \<and> l_resourceKey l = key"

definition latestLease :: "string \<Rightarrow> string \<Rightarrow> db \<Rightarrow> resource_lease option" where
  "latestLease workspaceId key d = find (\<lambda>l. lease_of workspaceId key l \<and>
     l_fence l = top_fence (map l_fence (filter (lease_of workspaceId key) (leases d)))) (leases d)"

definition open_lease :: "string \<Rightarrow> string \<Rightarrow> resource_lease \<Rightarrow> bool" where
  "open_lease workspaceId key l \<longleftrightarrow> lease_of workspaceId key l \<and> l_releasedAt l = None"

definition liveLease :: "string \<Rightarrow> string \<Rightarrow> db \<Rightarrow> resource_lease option" where
  "liveLease workspaceId key d = find (open_lease workspaceId key) (leases d)"

record lease_view =
  lv_status :: string
  lv_observedAt :: int
  lv_lease :: resource_lease

definition view :: "resource_lease \<Rightarrow> int \<Rightarrow> lease_view" where
  "view l observedAt = \<lparr>lv_status =
       (if l_releasedAt l \<noteq> None then if l_releaseReason l = Some ''expired'' then ''expired'' else ''released''
        else if l_expiresAt l \<le> observedAt then ''expired'' else ''active''),
     lv_observedAt = observedAt, lv_lease = l\<rparr>"

definition assertClockNotBefore :: "resource_lease \<Rightarrow> int \<Rightarrow> err + unit" where
  "assertClockNotBefore l now = (if now < l_heartbeatAt l \<or> now < l_updatedAt l
     then Inl (lease_error ''clock_regression'' [l_resourceKey l]) else Inr ())"

definition appendResourceEvent ::
  "env \<Rightarrow> resource_lease \<Rightarrow> string \<Rightarrow> string \<Rightarrow> string \<Rightarrow> (string \<times> json) list \<Rightarrow> int \<Rightarrow> db \<Rightarrow>
    err + db \<times> resource_event" where
  "appendResourceEvent env l actor pid eventType payload now d =
     (let (d, eid) = fresh_id env now d;
          e = \<lparr>le_sequence = leaseEventSeq d + 1, le_id = eid, le_workspaceId = l_workspaceId l,
               le_resourceKey = l_resourceKey l, le_leaseId = l_id l, le_actor = actor, le_principalId = pid,
               le_eventType = eventType, le_payload = JObj payload, le_createdAt = now\<rparr>
      in case insert_row ''resource_event'' (\<forall>x \<in> set (leaseEvents d). le_id x \<noteq> eid)
               (eventType \<in> set RESOURCE_EVENT_TYPES)
               (d\<lparr>leaseEvents := leaseEvents d @ [e], leaseEventSeq := leaseEventSeq d + 1\<rparr>) of
           Inl er \<Rightarrow> Inl er | Inr d \<Rightarrow> Inr (d, e))"

text \<open>\<open>coalesce(max(sequence), 0)\<close>.\<close>

definition leaseEventCursor :: "string \<Rightarrow> db \<Rightarrow> int" where
  "leaseEventCursor leaseId d = top_fence (map le_sequence (filter (\<lambda>e. le_leaseId e = leaseId) (leaseEvents d)))"

definition workspace_cursor :: "string \<Rightarrow> db \<Rightarrow> int" where
  "workspace_cursor workspaceId d =
     top_fence (map le_sequence (filter (\<lambda>e. le_workspaceId e = workspaceId) (leaseEvents d)))"

section \<open>Operations\<close>

record lease_operation =
  op_disposition :: string
  op_observedAt :: int
  op_lease :: resource_lease
  op_afterSequence :: int

text \<open>\<open>retryIdentity\<close>: the key is mandatory and the identity is one of the workspace.\<close>

definition lease_identity ::
  "env \<Rightarrow> resource_context \<Rightarrow> string \<Rightarrow> json \<Rightarrow> int \<Rightarrow> err + prepared_idempotency option" where
  "lease_identity env ctx operation request now =
     (case requireIdempotencyKey (rc_idempotencyKey ctx) of Inl e \<Rightarrow> Inl e | Inr key \<Rightarrow>
      prepareIdempotency env \<lparr>ctx_actor = Some (rc_actor ctx), ctx_principalId = rc_principalId ctx,
        ctx_tenantId = Some (rc_workspaceId ctx), ctx_idempotencyKey = Some key, ctx_expectedRevision = None,
        ctx_clock = now, ctx_now = None\<rparr> operation request now None None None)"

definition replayOperation ::
  "prepared_idempotency option \<Rightarrow> int \<Rightarrow> db \<Rightarrow> err + db \<times> lease_operation option" where
  "replayOperation identity observedAt d = (case findIdempotencyResult identity d of Inl e \<Rightarrow> Inl e
     | Inr (d, None) \<Rightarrow> Inr (d, None)
     | Inr (d, Some prior) \<Rightarrow>
        (case find (\<lambda>l. l_id l = ik_resultId prior) (leases d) of
           None \<Rightarrow> Inl (lease_error ''storage_error'' [ik_resultId prior])
         | Some l \<Rightarrow> (case assertClockNotBefore l observedAt of Inl e \<Rightarrow> Inl e | Inr _ \<Rightarrow>
             Inr (d, Some \<lparr>op_disposition = or_else (ik_resultStatus prior) ''acquired'', op_observedAt = ik_createdAt prior,
                op_lease = l, op_afterSequence = or_else (ik_eventSequence prior) 0\<rparr>))))"

definition saveOperation ::
  "prepared_idempotency option \<Rightarrow> string \<Rightarrow> resource_lease \<Rightarrow> int \<Rightarrow> db \<Rightarrow> err + db" where
  "saveOperation identity disposition l eventSequence d = saveIdempotencyResult identity
     \<lparr>o_resultType = ''resource_lease'', o_resultId = l_id l, o_resultStatus = Some disposition,
      o_resultRevision = Some (l_revision l),
      o_eventSequence = (if eventSequence > 0 then Some eventSequence else None)\<rparr> d"

text \<open>What the three mutations begin with: the identity, a replay, the space and the caller.\<close>

definition lease_mutation ::
  "env \<Rightarrow> resource_context \<Rightarrow> string \<Rightarrow> json \<Rightarrow> int \<Rightarrow>
    (prepared_idempotency option \<Rightarrow> principal \<Rightarrow> db \<Rightarrow> err + db \<times> lease_operation) \<Rightarrow> db \<Rightarrow>
    err + db \<times> lease_operation \<times> event list" where
  "lease_mutation env ctx operation request now fresh d =
     (case lease_identity env ctx operation request now of Inl e \<Rightarrow> Inl e | Inr identity \<Rightarrow>
      (case replayOperation identity now d of Inl e \<Rightarrow> Inl e
       | Inr (d, Some replay) \<Rightarrow> Inr (d, replay, [])
       | Inr (d, None) \<Rightarrow>
         (case requireSpace (rc_workspaceId ctx) d of Inl e \<Rightarrow> Inl e | Inr _ \<Rightarrow>
         (case resolvePrincipal env (rc_workspaceId ctx) (rc_actor ctx) (rc_principalId ctx) now d of Inl e \<Rightarrow> Inl e
          | Inr (d, p) \<Rightarrow>
            (case fresh identity p d of Inl e \<Rightarrow> Inl e | Inr (d, op) \<Rightarrow> Inr (d, op, []))))))"

text \<open>An event about the lease, the saved outcome and the result.\<close>

definition finish_operation ::
  "env \<Rightarrow> resource_context \<Rightarrow> prepared_idempotency option \<Rightarrow> principal \<Rightarrow> string \<Rightarrow> string \<Rightarrow> (string \<times> json) list \<Rightarrow>
    resource_lease \<Rightarrow> int \<Rightarrow> db \<Rightarrow> err + db \<times> lease_operation" where
  "finish_operation env ctx identity p disposition eventType payload l now d =
     (case appendResourceEvent env l (rc_actor ctx) (p_id p) eventType payload now d of Inl e \<Rightarrow> Inl e
      | Inr (d, ev) \<Rightarrow>
        (case saveOperation identity disposition l (le_sequence ev) d of Inl e \<Rightarrow> Inl e
         | Inr d \<Rightarrow> Inr (d, \<lparr>op_disposition = disposition, op_observedAt = now, op_lease = l,
                op_afterSequence = le_sequence ev\<rparr>)))"

definition close_lease :: "string \<Rightarrow> int \<Rightarrow> resource_lease \<Rightarrow> resource_lease" where
  "close_lease reason now l = l\<lparr>l_releasedAt := Some now, l_releaseReason := Some reason,
     l_revision := l_revision l + 1, l_updatedAt := now\<rparr>"

definition renew_lease :: "int \<Rightarrow> int \<Rightarrow> resource_lease \<Rightarrow> resource_lease" where
  "renew_lease now expiresAt l = l\<lparr>l_heartbeatAt := now, l_expiresAt := expiresAt,
     l_revision := l_revision l + 1, l_updatedAt := now\<rparr>"

text \<open>The row a guarded update selects: the lease, unreleased, at the revision expected.\<close>

definition lease_target :: "resource_lease \<Rightarrow> int option \<Rightarrow> resource_lease \<Rightarrow> bool" where
  "lease_target l expectedRevision x \<longleftrightarrow>
     l_id x = l_id l \<and> l_releasedAt x = None \<and> revision_matches expectedRevision (l_revision x)"

text \<open>\<open>update \<dots> where \<dots> returning\<close>, refused as a stale fence when no row is selected.\<close>

definition update_lease ::
  "resource_lease \<Rightarrow> int option \<Rightarrow> (resource_lease \<Rightarrow> resource_lease) \<Rightarrow> db \<Rightarrow> err + db \<times> resource_lease" where
  "update_lease l expectedRevision f d =
     (case find (lease_target l expectedRevision) (leases d) of
        None \<Rightarrow> Inl (lease_error ''stale_fence'' [l_resourceKey l])
      | Some x \<Rightarrow> (case update_leases (lease_target l expectedRevision) f d of Inl e \<Rightarrow> Inl e | Inr d \<Rightarrow> Inr (d, f x)))"

definition expireLease ::
  "env \<Rightarrow> resource_lease \<Rightarrow> string \<Rightarrow> string \<Rightarrow> int \<Rightarrow> int option \<Rightarrow> db \<Rightarrow> err + db \<times> resource_lease \<times> resource_event" where
  "expireLease env l actor pid now expectedRevision d =
     (case assertClockNotBefore l now of Inl e \<Rightarrow> Inl e | Inr _ \<Rightarrow>
      (case update_lease l expectedRevision (close_lease ''expired'' now) d of Inl e \<Rightarrow> Inl e
       | Inr (d, expired) \<Rightarrow>
         (case appendResourceEvent env expired actor pid ''resource_lease_expired''
                [(''fence'', JInt (l_fence expired)), (''expiredAt'', JInt now)] now d of Inl e \<Rightarrow> Inl e
          | Inr (d, ev) \<Rightarrow> Inr (d, expired, ev))))"

record acquire_lease_options =
  al_ctx :: resource_context
  al_leaseMs :: "int option"
  al_metadata :: "metadata option"

definition new_lease ::
  "resource_context \<Rightarrow> string \<Rightarrow> string \<Rightarrow> string \<Rightarrow> int \<Rightarrow> metadata \<Rightarrow> int \<Rightarrow> int \<Rightarrow> resource_lease" where
  "new_lease ctx key lid pid fence md now expiresAt = \<lparr>l_id = lid, l_workspaceId = rc_workspaceId ctx,
     l_resourceKey = key, l_holderActor = rc_actor ctx, l_holderPrincipalId = pid, l_revision = 1, l_fence = fence,
     l_acquiredAt = now, l_heartbeatAt = now, l_expiresAt = expiresAt, l_releasedAt = None, l_releaseReason = None,
     l_metadata = md, l_createdAt = now, l_updatedAt = now\<rparr>"

text \<open>A lease with the fence after \<open>priorFence\<close> is inserted.\<close>

definition insert_new_lease ::
  "env \<Rightarrow> resource_context \<Rightarrow> string \<Rightarrow> metadata \<Rightarrow> int \<Rightarrow> int \<Rightarrow> string \<Rightarrow> int \<Rightarrow> prepared_idempotency option \<Rightarrow>
    principal \<Rightarrow> db \<Rightarrow> err + db \<times> lease_operation" where
  "insert_new_lease env ctx key md now expiresAt disposition priorFence identity p d =
     (if priorFence \<ge> MAX_SAFE_INTEGER then Inl (lease_error ''unavailable'' [key])
      else let (d, lid) = fresh_id env now d;
               l = new_lease ctx key lid (p_id p) (priorFence + 1) md now expiresAt in
      case insert_lease l d of Inl e \<Rightarrow> Inl e | Inr d \<Rightarrow>
        finish_operation env ctx identity p disposition ''resource_lease_acquired''
          [(''fence'', JInt (l_fence l)), (''expiresAt'', JInt expiresAt), (''disposition'', JStr disposition)] l now d)"

definition already_held ::
  "prepared_idempotency option \<Rightarrow> resource_lease \<Rightarrow> int \<Rightarrow> db \<Rightarrow> err + db \<times> lease_operation" where
  "already_held identity l now d =
     (case saveOperation identity ''already_held'' l (leaseEventCursor (l_id l) d) d of Inl e \<Rightarrow> Inl e
      | Inr d' \<Rightarrow> Inr (d', \<lparr>op_disposition = ''already_held'', op_observedAt = now, op_lease = l,
             op_afterSequence = leaseEventCursor (l_id l) d\<rparr>))"

definition acquire_lease_fresh ::
  "env \<Rightarrow> resource_context \<Rightarrow> string \<Rightarrow> metadata \<Rightarrow> int \<Rightarrow> int \<Rightarrow> prepared_idempotency option \<Rightarrow> principal \<Rightarrow> db \<Rightarrow>
    err + db \<times> lease_operation" where
  "acquire_lease_fresh env ctx key md now expiresAt identity p d =
     (case liveLease (rc_workspaceId ctx) key d of
        Some current \<Rightarrow>
          (case assertClockNotBefore current now of Inl e \<Rightarrow> Inl e | Inr _ \<Rightarrow>
           if l_expiresAt current > now
           then if l_holderPrincipalId current \<noteq> p_id p then Inl (lease_error ''contended'' [key, l_holderActor current])
                else already_held identity current now d
           else (case expireLease env current (rc_actor ctx) (p_id p) now None d of Inl e \<Rightarrow> Inl e
                 | Inr (d, _) \<Rightarrow>
                     insert_new_lease env ctx key md now expiresAt ''reclaimed'' (l_fence current) identity p d))
      | None \<Rightarrow> insert_new_lease env ctx key md now expiresAt ''acquired''
             (case latestLease (rc_workspaceId ctx) key d of None \<Rightarrow> 0 | Some l \<Rightarrow> l_fence l) identity p d)"

definition acquire_lease_request :: "string \<Rightarrow> resource_context \<Rightarrow> int \<Rightarrow> metadata \<Rightarrow> json" where
  "acquire_lease_request key ctx duration md = JObj [(''resourceKey'', JStr key),
     (''principalId'', nullable JStr (rc_principalId ctx)), (''leaseMs'', JInt duration), (''metadata'', JObj md)]"

definition acquire_lease_checks :: "string \<Rightarrow> acquire_lease_options \<Rightarrow> err + int \<times> metadata" where
  "acquire_lease_checks key opts =
     (case validateScope (al_ctx opts) of Inl e \<Rightarrow> Inl e | Inr _ \<Rightarrow>
      (case validateResourceKey key of Inl e \<Rightarrow> Inl e | Inr _ \<Rightarrow>
      (case leaseDuration (al_leaseMs opts) of Inl e \<Rightarrow> Inl e | Inr duration \<Rightarrow>
      (case validateMetadata (al_metadata opts) of Inl e \<Rightarrow> Inl e | Inr md \<Rightarrow>
      (case requireIdempotencyKey (rc_idempotencyKey (al_ctx opts)) of Inl e \<Rightarrow> Inl e | Inr _ \<Rightarrow>
       Inr (duration, md))))))"

definition acquireLeaseTx ::
  "env \<Rightarrow> string \<Rightarrow> acquire_lease_options \<Rightarrow> int \<Rightarrow> metadata \<Rightarrow> db \<Rightarrow> err + db \<times> lease_operation \<times> event list" where
  "acquireLeaseTx env key opts duration md d =
     (case nowFrom (rc_clock (al_ctx opts)) of Inl e \<Rightarrow> Inl e | Inr now \<Rightarrow>
      if \<not> isSafeInteger (now + duration) then Inl (lease_error ''invalid_input'' [])
      else lease_mutation env (al_ctx opts) ''resource.acquire'' (acquire_lease_request key (al_ctx opts) duration md) now
             (acquire_lease_fresh env (al_ctx opts) key md now (now + duration)) d)"

definition acquireResourceLease ::
  "env \<Rightarrow> string \<Rightarrow> acquire_lease_options \<Rightarrow> db \<Rightarrow> db \<times> (err + lease_operation)" where
  "acquireResourceLease env key opts = prologue (acquire_lease_checks key opts)
     (\<lambda>(duration, md). runInTransaction (acquireLeaseTx env key opts duration md))"

definition assertOwned :: "resource_lease \<Rightarrow> string \<Rightarrow> string \<Rightarrow> int \<Rightarrow> int \<Rightarrow> err + unit" where
  "assertOwned l pid leaseId fence now =
     (case assertClockNotBefore l now of Inl e \<Rightarrow> Inl e | Inr _ \<Rightarrow>
      if l_releasedAt l \<noteq> None then Inl (lease_error ''released'' [l_id l])
      else if l_expiresAt l \<le> now then Inl (lease_error ''expired'' [l_id l])
      else if l_id l \<noteq> leaseId \<or> l_fence l \<noteq> fence then Inl (lease_error ''stale_fence'' [l_resourceKey l])
      else if l_holderPrincipalId l \<noteq> pid then Inl (lease_error ''not_holder'' [l_resourceKey l, l_holderActor l])
      else Inr ())"

definition required_live_lease :: "string \<Rightarrow> string \<Rightarrow> db \<Rightarrow> err + resource_lease" where
  "required_live_lease workspaceId key d = (case liveLease workspaceId key d of Some l \<Rightarrow> Inr l
     | None \<Rightarrow> Inl (lease_error (case latestLease workspaceId key d of None \<Rightarrow> ''not_found'' | Some _ \<Rightarrow> ''released'') [key]))"

record hold_options =
  ho_ctx :: resource_context
  ho_leaseId :: string
  ho_fence :: int
  ho_expectedRevision :: int
  ho_leaseMs :: "int option"
  ho_reason :: "string option"

text \<open>\<open>RenewResourceLeaseOptions\<close> and \<open>ReleaseResourceLeaseOptions\<close> share this record.\<close>

definition hold_checks :: "hold_options \<Rightarrow> err + unit" where
  "hold_checks opts =
     (case safePositive (ho_fence opts) of Inl e \<Rightarrow> Inl e | Inr _ \<Rightarrow>
      (case safePositive (ho_expectedRevision opts) of Inl e \<Rightarrow> Inl e | Inr _ \<Rightarrow> Inr ()))"

definition renew_lease_checks :: "string \<Rightarrow> hold_options \<Rightarrow> err + int" where
  "renew_lease_checks key opts =
     (case validateScope (ho_ctx opts) of Inl e \<Rightarrow> Inl e | Inr _ \<Rightarrow>
      (case validateResourceKey key of Inl e \<Rightarrow> Inl e | Inr _ \<Rightarrow>
      (case leaseDuration (ho_leaseMs opts) of Inl e \<Rightarrow> Inl e | Inr duration \<Rightarrow>
      (case hold_checks opts of Inl e \<Rightarrow> Inl e | Inr _ \<Rightarrow>
      (case requireIdempotencyKey (rc_idempotencyKey (ho_ctx opts)) of Inl e \<Rightarrow> Inl e | Inr _ \<Rightarrow> Inr duration)))))"

definition renew_lease_fresh ::
  "env \<Rightarrow> hold_options \<Rightarrow> string \<Rightarrow> int \<Rightarrow> int \<Rightarrow> prepared_idempotency option \<Rightarrow> principal \<Rightarrow> db \<Rightarrow>
    err + db \<times> lease_operation" where
  "renew_lease_fresh env opts key now expiresAt identity p d =
     (case required_live_lease (rc_workspaceId (ho_ctx opts)) key d of Inl e \<Rightarrow> Inl e | Inr current \<Rightarrow>
      (case assertOwned current (p_id p) (ho_leaseId opts) (ho_fence opts) now of Inl e \<Rightarrow> Inl e | Inr _ \<Rightarrow>
      (case update_lease current (Some (ho_expectedRevision opts)) (renew_lease now expiresAt) d of Inl e \<Rightarrow> Inl e
       | Inr (d, l) \<Rightarrow> finish_operation env (ho_ctx opts) identity p ''renewed'' ''resource_lease_renewed''
           [(''fence'', JInt (l_fence l)), (''previousRevision'', JInt (ho_expectedRevision opts)),
            (''expiresAt'', JInt expiresAt)] l now d)))"

definition renew_lease_request :: "string \<Rightarrow> hold_options \<Rightarrow> int \<Rightarrow> json" where
  "renew_lease_request key opts duration = JObj [(''resourceKey'', JStr key),
     (''principalId'', nullable JStr (rc_principalId (ho_ctx opts))), (''leaseId'', JStr (ho_leaseId opts)),
     (''fence'', JInt (ho_fence opts)), (''expectedRevision'', JInt (ho_expectedRevision opts)),
     (''leaseMs'', JInt duration)]"

definition renewLeaseTx :: "env \<Rightarrow> string \<Rightarrow> hold_options \<Rightarrow> int \<Rightarrow> db \<Rightarrow> err + db \<times> lease_operation \<times> event list" where
  "renewLeaseTx env key opts duration d =
     (case nowFrom (rc_clock (ho_ctx opts)) of Inl e \<Rightarrow> Inl e | Inr now \<Rightarrow>
      if \<not> isSafeInteger (now + duration) then Inl (lease_error ''invalid_input'' [])
      else lease_mutation env (ho_ctx opts) ''resource.renew'' (renew_lease_request key opts duration) now
             (renew_lease_fresh env opts key now (now + duration)) d)"

definition renewResourceLease :: "env \<Rightarrow> string \<Rightarrow> hold_options \<Rightarrow> db \<Rightarrow> db \<times> (err + lease_operation)" where
  "renewResourceLease env key opts = prologue (renew_lease_checks key opts)
     (\<lambda>duration. runInTransaction (renewLeaseTx env key opts duration))"

definition release_lease_checks :: "string \<Rightarrow> hold_options \<Rightarrow> err + string" where
  "release_lease_checks key opts =
     (case validateScope (ho_ctx opts) of Inl e \<Rightarrow> Inl e | Inr _ \<Rightarrow>
      (case validateResourceKey key of Inl e \<Rightarrow> Inl e | Inr _ \<Rightarrow>
      (case hold_checks opts of Inl e \<Rightarrow> Inl e | Inr _ \<Rightarrow>
      (let reason = or_else (ho_reason opts) ''released'' in
       if js_blank reason \<or> length reason > 1000 then Inl (lease_error ''invalid_input'' [])
       else case requireIdempotencyKey (rc_idempotencyKey (ho_ctx opts)) of Inl e \<Rightarrow> Inl e | Inr _ \<Rightarrow> Inr reason))))"

text \<open>The release of a lease that has expired closes it as expired.\<close>

definition release_expired ::
  "env \<Rightarrow> hold_options \<Rightarrow> string \<Rightarrow> int \<Rightarrow> prepared_idempotency option \<Rightarrow> principal \<Rightarrow> resource_lease \<Rightarrow> db \<Rightarrow>
    err + db \<times> lease_operation" where
  "release_expired env opts key now identity p current d =
     (if l_id current \<noteq> ho_leaseId opts \<or> l_fence current \<noteq> ho_fence opts then Inl (lease_error ''stale_fence'' [key])
      else if l_holderPrincipalId current \<noteq> p_id p then Inl (lease_error ''not_holder'' [key, l_holderActor current])
      else case expireLease env current (rc_actor (ho_ctx opts)) (p_id p) now (Some (ho_expectedRevision opts)) d of
        Inl e \<Rightarrow> Inl e
      | Inr (d, l, ev) \<Rightarrow>
          (case saveOperation identity ''expired'' l (le_sequence ev) d of Inl e \<Rightarrow> Inl e
           | Inr d \<Rightarrow> Inr (d, \<lparr>op_disposition = ''expired'', op_observedAt = now, op_lease = l,
                  op_afterSequence = le_sequence ev\<rparr>)))"

definition release_lease_fresh ::
  "env \<Rightarrow> hold_options \<Rightarrow> string \<Rightarrow> string \<Rightarrow> int \<Rightarrow> prepared_idempotency option \<Rightarrow> principal \<Rightarrow> db \<Rightarrow>
    err + db \<times> lease_operation" where
  "release_lease_fresh env opts key reason now identity p d =
     (case required_live_lease (rc_workspaceId (ho_ctx opts)) key d of Inl e \<Rightarrow> Inl e | Inr current \<Rightarrow>
      (case assertClockNotBefore current now of Inl e \<Rightarrow> Inl e | Inr _ \<Rightarrow>
       if l_expiresAt current \<le> now then release_expired env opts key now identity p current d
       else case assertOwned current (p_id p) (ho_leaseId opts) (ho_fence opts) now of Inl e \<Rightarrow> Inl e | Inr _ \<Rightarrow>
       (case update_lease current (Some (ho_expectedRevision opts)) (close_lease reason now) d of Inl e \<Rightarrow> Inl e
        | Inr (d, l) \<Rightarrow> finish_operation env (ho_ctx opts) identity p ''released'' ''resource_lease_released''
            [(''fence'', JInt (l_fence l)), (''reason'', JStr reason)] l now d)))"

definition release_lease_request :: "string \<Rightarrow> hold_options \<Rightarrow> string \<Rightarrow> json" where
  "release_lease_request key opts reason = JObj [(''resourceKey'', JStr key),
     (''principalId'', nullable JStr (rc_principalId (ho_ctx opts))), (''leaseId'', JStr (ho_leaseId opts)),
     (''fence'', JInt (ho_fence opts)), (''expectedRevision'', JInt (ho_expectedRevision opts)), (''reason'', JStr reason)]"

definition releaseLeaseTx :: "env \<Rightarrow> string \<Rightarrow> hold_options \<Rightarrow> string \<Rightarrow> db \<Rightarrow> err + db \<times> lease_operation \<times> event list" where
  "releaseLeaseTx env key opts reason d =
     (case nowFrom (rc_clock (ho_ctx opts)) of Inl e \<Rightarrow> Inl e | Inr now \<Rightarrow>
      lease_mutation env (ho_ctx opts) ''resource.release'' (release_lease_request key opts reason) now
        (release_lease_fresh env opts key reason now) d)"

definition releaseResourceLease :: "env \<Rightarrow> string \<Rightarrow> hold_options \<Rightarrow> db \<Rightarrow> db \<times> (err + lease_operation)" where
  "releaseResourceLease env key opts = prologue (release_lease_checks key opts)
     (\<lambda>reason. runInTransaction (releaseLeaseTx env key opts reason))"

record fence_verification =
  fv_workspaceId :: string
  fv_resourceKey :: string
  fv_leaseId :: string
  fv_fence :: int
  fv_holderPrincipalId :: string
  fv_verifiedAt :: int
  fv_expiresAt :: int

definition verifyResourceFence ::
  "env \<Rightarrow> string \<Rightarrow> resource_context \<Rightarrow> string \<Rightarrow> int \<Rightarrow> db \<Rightarrow> err + fence_verification" where
  "verifyResourceFence env key ctx leaseId fence d =
     (case validateScope ctx of Inl e \<Rightarrow> Inl e | Inr _ \<Rightarrow>
      (case validateResourceKey key of Inl e \<Rightarrow> Inl e | Inr _ \<Rightarrow>
      (case safePositive fence of Inl e \<Rightarrow> Inl e | Inr _ \<Rightarrow>
      (case requireSpace (rc_workspaceId ctx) d of Inl e \<Rightarrow> Inl e | Inr _ \<Rightarrow>
      (case resolveExistingPrincipal env (rc_workspaceId ctx) (rc_actor ctx) (rc_principalId ctx) d of Inl e \<Rightarrow> Inl e
       | Inr p \<Rightarrow>
      (case nowFrom (rc_clock ctx) of Inl e \<Rightarrow> Inl e | Inr now \<Rightarrow>
      (case required_live_lease (rc_workspaceId ctx) key d of Inl e \<Rightarrow> Inl e | Inr current \<Rightarrow>
      (case assertOwned current (p_id p) leaseId fence now of Inl e \<Rightarrow> Inl e | Inr _ \<Rightarrow>
       Inr \<lparr>fv_workspaceId = rc_workspaceId ctx, fv_resourceKey = key, fv_leaseId = l_id current,
         fv_fence = l_fence current, fv_holderPrincipalId = l_holderPrincipalId current, fv_verifiedAt = now,
         fv_expiresAt = l_expiresAt current\<rparr>))))))))"

definition getResourceLeaseView :: "string \<Rightarrow> resource_context \<Rightarrow> db \<Rightarrow> err + lease_view option" where
  "getResourceLeaseView key ctx d =
     (case validateScope ctx of Inl e \<Rightarrow> Inl e | Inr _ \<Rightarrow>
      (case validateResourceKey key of Inl e \<Rightarrow> Inl e | Inr _ \<Rightarrow>
      (case requireSpace (rc_workspaceId ctx) d of Inl e \<Rightarrow> Inl e | Inr _ \<Rightarrow>
      (case latestLease (rc_workspaceId ctx) key d of None \<Rightarrow> Inr None
       | Some l \<Rightarrow>
         (case nowFrom (rc_clock ctx) of Inl e \<Rightarrow> Inl e | Inr now \<Rightarrow>
         (case assertClockNotBefore l now of Inl e \<Rightarrow> Inl e | Inr _ \<Rightarrow> Inr (Some (view l now))))))))"

section \<open>Lists and the sweep\<close>

text \<open>The loop over the rows, one per resource, up to the limit.\<close>

fun world_views :: "bool \<Rightarrow> int \<Rightarrow> int \<Rightarrow> string list \<Rightarrow> lease_view list \<Rightarrow> resource_lease list \<Rightarrow> err + lease_view list" where
  "world_views activeOnly limit now seen acc [] = Inr acc"
| "world_views activeOnly limit now seen acc (l # ls) =
     (if l_resourceKey l \<in> set seen then world_views activeOnly limit now seen acc ls
      else case assertClockNotBefore l now of Inl e \<Rightarrow> Inl e
      | Inr _ \<Rightarrow>
          if activeOnly \<and> lv_status (view l now) \<noteq> ''active''
          then world_views activeOnly limit now (l_resourceKey l # seen) acc ls
          else if int (length acc) + 1 \<ge> limit then Inr (acc @ [view l now])
          else world_views activeOnly limit now (l_resourceKey l # seen) (acc @ [view l now]) ls)"

definition listResourceWorld ::
  "resource_context \<Rightarrow> bool \<Rightarrow> string option \<Rightarrow> int option \<Rightarrow> db \<Rightarrow> err + int \<times> lease_view list \<times> int" where
  "listResourceWorld ctx activeOnly holder limit0 d =
     (case validateScope ctx of Inl e \<Rightarrow> Inl e | Inr _ \<Rightarrow>
      (case boundedLimit limit0 of Inl e \<Rightarrow> Inl e | Inr limit \<Rightarrow>
      (case requireSpace (rc_workspaceId ctx) d of Inl e \<Rightarrow> Inl e | Inr _ \<Rightarrow>
      (case nowFrom (rc_clock ctx) of Inl e \<Rightarrow> Inl e | Inr now \<Rightarrow>
      (let rows = sort_key (\<lambda>l. (l_resourceKey l, - l_fence l))
             (filter (\<lambda>l. l_workspaceId l = rc_workspaceId ctx \<and> str_filter holder (l_holderPrincipalId l)) (leases d)) in
       case world_views activeOnly limit now [] [] rows of Inl e \<Rightarrow> Inl e
       | Inr views \<Rightarrow> Inr (now, views, workspace_cursor (rc_workspaceId ctx) d))))))"

definition listResourceEvents ::
  "resource_context \<Rightarrow> string option \<Rightarrow> int option \<Rightarrow> int option \<Rightarrow> db \<Rightarrow> err + resource_event list \<times> int" where
  "listResourceEvents ctx key afterSequence0 limit0 d =
     (case validateScope ctx of Inl e \<Rightarrow> Inl e | Inr _ \<Rightarrow>
      (let afterSequence = or_else afterSequence0 0 in
       if \<not> isSafeInteger afterSequence \<or> afterSequence < 0 then Inl (lease_error ''invalid_input'' [])
       else case boundedLimit limit0 of Inl e \<Rightarrow> Inl e | Inr limit \<Rightarrow>
       (case requireSpace (rc_workspaceId ctx) d of Inl e \<Rightarrow> Inl e | Inr _ \<Rightarrow>
       (case (case key of None \<Rightarrow> Inr () | Some k \<Rightarrow> validateResourceKey k) of Inl e \<Rightarrow> Inl e | Inr _ \<Rightarrow>
        (let rows = take (nat limit) (sort_key le_sequence (filter (\<lambda>e. le_workspaceId e = rc_workspaceId ctx \<and>
               le_sequence e > afterSequence \<and> (case key of None \<Rightarrow> True | Some k \<Rightarrow> le_resourceKey e = k)) (leaseEvents d)))
         in Inr (rows, if rows = [] then afterSequence else le_sequence (last rows)))))))"

record resource_sweep =
  sw_observedAt :: int
  sw_expired :: "resource_lease list"
  sw_afterSequence :: int

definition expired_lease :: "string \<Rightarrow> int \<Rightarrow> resource_lease \<Rightarrow> bool" where
  "expired_lease workspaceId now l \<longleftrightarrow> l_workspaceId l = workspaceId \<and> l_releasedAt l = None \<and> l_expiresAt l \<le> now"

fun expire_all ::
  "env \<Rightarrow> string \<Rightarrow> string \<Rightarrow> int \<Rightarrow> resource_lease list \<Rightarrow> int \<Rightarrow> db \<Rightarrow> err + db \<times> resource_lease list \<times> int" where
  "expire_all env actor pid now [] cursor d = Inr (d, [], cursor)"
| "expire_all env actor pid now (l # ls) cursor d =
     (case expireLease env l actor pid now None d of Inl e \<Rightarrow> Inl e | Inr (d, x, ev) \<Rightarrow>
      (case expire_all env actor pid now ls (le_sequence ev) d of Inl e \<Rightarrow> Inl e
       | Inr (d, xs, c) \<Rightarrow> Inr (d, x # xs, c)))"

definition sweepTx :: "env \<Rightarrow> resource_context \<Rightarrow> int \<Rightarrow> db \<Rightarrow> err + db \<times> resource_sweep \<times> event list" where
  "sweepTx env ctx limit d =
     (case nowFrom (rc_clock ctx) of Inl e \<Rightarrow> Inl e | Inr now \<Rightarrow>
      (case requireSpace (rc_workspaceId ctx) d of Inl e \<Rightarrow> Inl e | Inr _ \<Rightarrow>
      (case resolvePrincipal env (rc_workspaceId ctx) (rc_actor ctx) (rc_principalId ctx) now d of Inl e \<Rightarrow> Inl e
       | Inr (d, p) \<Rightarrow>
      (case expire_all env (rc_actor ctx) (p_id p) now (take (nat limit) (sort_key (\<lambda>l. (l_expiresAt l, l_resourceKey l))
               (filter (expired_lease (rc_workspaceId ctx) now) (leases d)))) 0 d of Inl e \<Rightarrow> Inl e
       | Inr (d, xs, cursor) \<Rightarrow> Inr (d, \<lparr>sw_observedAt = now, sw_expired = xs,
           sw_afterSequence = (if cursor = 0 then workspace_cursor (rc_workspaceId ctx) d else cursor)\<rparr>, [])))))"

definition sweepExpiredResources ::
  "env \<Rightarrow> resource_context \<Rightarrow> int option \<Rightarrow> db \<Rightarrow> db \<times> (err + resource_sweep)" where
  "sweepExpiredResources env ctx limit0 = prologue
     (case validateScope ctx of Inl e \<Rightarrow> Inl e | Inr _ \<Rightarrow> boundedLimit limit0)
     (\<lambda>limit. runInTransaction (sweepTx env ctx limit))"

section \<open>The invariant of the lease table\<close>

interpretation resource_leases: lease_table
  "\<lambda>l. (l_workspaceId l, l_resourceKey l)" l_fence "\<lambda>l. l_releasedAt l = None"
  "\<lambda>(reason, now). close_lease reason now" "\<lambda>(now, expiresAt). renew_lease now expiresAt"
  by unfold_locales (auto simp: close_lease_def renew_lease_def)

interpretation lease_log: numbered_log le_sequence "\<lambda>n e. e\<lparr>le_sequence := n\<rparr>"
  by unfold_locales simp

definition leases_inv :: "db \<Rightarrow> bool" where
  "leases_inv d \<longleftrightarrow> resource_leases.table_inv (leases d) \<and> uniq_by l_id (leases d)"

lemma leases_inv_cong: "leases d' = leases d \<Longrightarrow> leases_inv d' = leases_inv d"
  by (simp add: leases_inv_def)

interpretation leases_tx: tx_invariant leases_inv
  by unfold_locales (simp_all add: leases_inv_def)

lemma close_lease_simps [simp]:
  "l_id (close_lease r now l) = l_id l" "l_fence (close_lease r now l) = l_fence l"
  "lease_of ws key (close_lease r now l) = lease_of ws key l" "l_releasedAt (close_lease r now l) = Some now"
  by (simp_all add: close_lease_def lease_of_def)

lemma renew_lease_simps [simp]:
  "l_id (renew_lease now e l) = l_id l" "l_fence (renew_lease now e l) = l_fence l"
  "lease_of ws key (renew_lease now e l) = lease_of ws key l" "l_releasedAt (renew_lease now e l) = l_releasedAt l"
  by (simp_all add: renew_lease_def lease_of_def)

lemma leases_inv_update:
  assumes "leases_inv d" and "leases d' = update_rows P f (leases d)" and "f = close_lease r now \<or> f = renew_lease now e"
  shows "leases_inv d'"
proof -
  have "resource_leases.table_inv (update_rows P f (leases d))"
    using assms(1,3) resource_leases.table_inv_close [of "leases d" P "(r, now)"]
      resource_leases.table_inv_renew [of "leases d" P "(now, e)"]
    by (auto simp: leases_inv_def)
  moreover have "uniq_by l_id (update_rows P f (leases d))"
    using assms(1,3) by (auto simp: leases_inv_def intro!: uniq_by_update_rows)
  ultimately show ?thesis using assms(2) by (simp add: leases_inv_def)
qed

text \<open>The open lease of a resource is unique and carries the greatest fence.\<close>

lemma open_lease_unique:
  "leases_inv d \<Longrightarrow> x \<in> set (leases d) \<Longrightarrow> y \<in> set (leases d) \<Longrightarrow>
    open_lease ws key x \<Longrightarrow> open_lease ws key y \<Longrightarrow> x = y"
  using resource_leases.open_unique [of "leases d" x y] by (simp add: leases_inv_def open_lease_def lease_of_def)

lemma open_lease_fence:
  "leases_inv d \<Longrightarrow> x \<in> set (leases d) \<Longrightarrow> y \<in> set (leases d) \<Longrightarrow>
    lease_of ws key x \<Longrightarrow> open_lease ws key y \<Longrightarrow> x \<noteq> y \<Longrightarrow> l_fence x < l_fence y"
  using resource_leases.stale_fence [of "leases d" x y] by (simp add: leases_inv_def open_lease_def lease_of_def)

lemma liveLease_Some:
  "liveLease ws key d = Some l \<Longrightarrow> l \<in> set (leases d) \<and> open_lease ws key l"
  unfolding liveLease_def by (blast dest: find_SomeD)

lemma liveLease_iff:
  assumes "leases_inv d"
  shows "liveLease ws key d = Some l \<longleftrightarrow> l \<in> set (leases d) \<and> open_lease ws key l"
proof
  assume l: "l \<in> set (leases d) \<and> open_lease ws key l"
  then obtain x where x: "liveLease ws key d = Some x"
    unfolding liveLease_def by (cases "find (open_lease ws key) (leases d)") (auto dest: find_NoneD)
  then show "liveLease ws key d = Some l" using l open_lease_unique [OF assms] liveLease_Some [OF x] by blast
qed (rule liveLease_Some)

lemma liveLease_None:
  "liveLease ws key d = None \<Longrightarrow> x \<in> set (leases d) \<Longrightarrow> \<not> open_lease ws key x"
  unfolding liveLease_def by (rule find_NoneD)

definition prior_fence :: "string \<Rightarrow> string \<Rightarrow> db \<Rightarrow> int" where
  "prior_fence ws key d = (case latestLease ws key d of None \<Rightarrow> 0 | Some l \<Rightarrow> l_fence l)"

lemma prior_fence_greatest:
  assumes x: "x \<in> set (leases d)" "lease_of ws key x" shows "l_fence x \<le> prior_fence ws key d"
proof -
  let ?fs = "map l_fence (filter (lease_of ws key) (leases d))"
  have mem: "l_fence x \<in> set ?fs" using x by auto
  then have "?fs \<noteq> []" by (metis empty_iff empty_set)
  then have top: "top_fence ?fs = Max (set ?fs)" unfolding top_fence_def by simp
  have "Max (set ?fs) \<in> set ?fs" using mem by (intro Max_in) auto
  then obtain y where "y \<in> set (leases d)" "lease_of ws key y" "l_fence y = top_fence ?fs" unfolding top by auto
  note y = this
  obtain l where l: "latestLease ws key d = Some l"
  proof (cases "latestLease ws key d")
    case None
    from find_NoneD [OF None [unfolded latestLease_def] y(1)] y(2,3) have False by simp
    then show thesis ..
  qed
  then have "l_fence l = top_fence ?fs" unfolding latestLease_def by (blast dest: find_SomeD)
  moreover have "l_fence x \<le> Max (set ?fs)" using mem by (intro Max_ge) auto
  ultimately show ?thesis using l top by (simp add: prior_fence_def)
qed

section \<open>Frames\<close>

lemma appendResourceEvent_frame:
  "appendResourceEvent env l a p ty pl now d = Inr (d', ev) \<Longrightarrow>
    d' = d\<lparr>draws := draws d + 1, leaseEvents := leaseEvents d @ [ev], leaseEventSeq := leaseEventSeq d + 1\<rparr> \<and>
    le_sequence ev = leaseEventSeq d + 1"
  by (auto simp: appendResourceEvent_def fresh_id_def Let_def res split: sum.splits)

lemma appendResourceEvent_leases [dest]:
  "appendResourceEvent env l a p ty pl now d = Inr (d', ev) \<Longrightarrow> leases d' = leases d"
  by (drule appendResourceEvent_frame) auto

lemma saveOperation_leases: "saveOperation i s l n d = Inr d' \<Longrightarrow> leases d' = leases d"
  unfolding saveOperation_def by (auto dest: saveIdempotencyResult_frame)

lemma resolvePrincipal_leases: "resolvePrincipal env ws a pid now d = Inr (d', p) \<Longrightarrow> leases d' = leases d"
  unfolding resolvePrincipal_def by (auto simp: res split: if_splits option.splits dest: ensureLocalPrincipal_frame)

lemma replayOperation_leases: "replayOperation i now d = Inr (d', r) \<Longrightarrow> leases d' = leases d"
  unfolding replayOperation_def
  by (auto simp: res split: sum.splits option.splits prod.splits dest!: findIdempotencyResult_frame)

lemma finish_operation_result:
  "finish_operation env ctx i p disp ty pl l now d = Inr (d', op) \<Longrightarrow>
    leases d' = leases d \<and> op_lease op = l \<and> op_disposition op = disp \<and> op_observedAt op = now"
  unfolding finish_operation_def
  by (auto simp: res split: prod.splits dest!: appendResourceEvent_leases saveOperation_leases)

lemma update_lease_result:
  assumes "update_lease l rv f d = Inr (d', x)"
  shows "d' = d\<lparr>leases := update_rows (lease_target l rv) f (leases d)\<rparr> \<and>
    (\<exists>y \<in> set (leases d). lease_target l rv y \<and> x = f y)"
  using assms unfolding update_lease_def update_leases_def by (auto simp: res dest!: find_SomeD)

lemma expireLease_result:
  assumes "expireLease env l a p now rv d = Inr (d', x, ev)"
  shows "leases d' = update_rows (lease_target l rv) (close_lease ''expired'' now) (leases d) \<and>
    (\<exists>y \<in> set (leases d). lease_target l rv y \<and> x = close_lease ''expired'' now y)"
  using assms unfolding expireLease_def
  by (auto simp: res split: prod.splits dest!: update_lease_result appendResourceEvent_leases)

section \<open>Exclusion\<close>

lemma lease_target_open:
  "leases_inv d \<Longrightarrow> l \<in> set (leases d) \<Longrightarrow> x \<in> set (leases d) \<Longrightarrow> lease_target l rv x \<Longrightarrow> x = l"
  unfolding leases_inv_def lease_target_def by (blast dest: uniq_by_eqD)

lemma insert_new_lease_result:
  assumes "insert_new_lease env ctx key md now e disp pf i p d = Inr (d', op)"
  shows "leases d' = leases d @ [op_lease op] \<and> (\<exists>lid. op_lease op = new_lease ctx key lid (p_id p) (pf + 1) md now e) \<and>
    (\<forall>x \<in> set (leases d). l_id x \<noteq> l_id (op_lease op) \<and> \<not> open_lease (rc_workspaceId ctx) key x) \<and> op_disposition op = disp"
  using assms unfolding insert_new_lease_def insert_lease_def
  by (auto simp: res Let_def fresh_id_def new_lease_def open_lease_def lease_of_def dest!: finish_operation_result)

text \<open>What a fresh acquisition returns: the lease already held, or a new one above every other lease.\<close>

lemma acquire_lease_result:
  assumes inv: "leases_inv d" and "acquire_lease_fresh env ctx key md now e i p d = Inr (d', op)" and "now < e"
  shows "leases_inv d' \<and> op_lease op \<in> set (leases d') \<and> open_lease (rc_workspaceId ctx) key (op_lease op) \<and>
    l_expiresAt (op_lease op) > now \<and> l_holderPrincipalId (op_lease op) = p_id p \<and>
    (\<forall>c. liveLease (rc_workspaceId ctx) key d = Some c \<and> l_expiresAt c > now \<longrightarrow> op_lease op = c)"
proof (cases "\<exists>c. liveLease (rc_workspaceId ctx) key d = Some c \<and> l_expiresAt c > now")
  case True
  then obtain c where c: "liveLease (rc_workspaceId ctx) key d = Some c" "l_expiresAt c > now" by blast
  with assms(2) have "leases d' = leases d" "op_lease op = c" "l_holderPrincipalId c = p_id p"
    unfolding acquire_lease_fresh_def already_held_def
    by (auto simp: res dest!: saveOperation_leases split: if_splits)
  with c liveLease_Some [OF c(1)] inv leases_inv_cong [of d' d] show ?thesis by auto
next
  case False
  let ?ws = "rc_workspaceId ctx"
  obtain d1 pf disp where d1: "insert_new_lease env ctx key md now e disp pf i p d1 = Inr (d', op)"
    and inv1: "leases_inv d1" and pf: "\<And>x. x \<in> set (leases d1) \<Longrightarrow> lease_of ?ws key x \<Longrightarrow> l_fence x \<le> pf"
  proof (cases "liveLease ?ws key d")
    case None
    with assms(2) have "insert_new_lease env ctx key md now e ''acquired'' (prior_fence ?ws key d) i p d = Inr (d', op)"
      unfolding acquire_lease_fresh_def prior_fence_def by simp
    then show thesis using inv prior_fence_greatest by (rule that)
  next
    case (Some c)
    with assms(2) False obtain d1 x ev where x: "expireLease env c (rc_actor ctx) (p_id p) now None d = Inr (d1, x, ev)"
      and ins: "insert_new_lease env ctx key md now e ''reclaimed'' (l_fence c) i p d1 = Inr (d', op)"
      unfolding acquire_lease_fresh_def by (auto simp: res split: prod.splits if_splits)
    note c = liveLease_Some [OF Some] and ls = expireLease_result [OF x, THEN conjunct1]
    have "l_fence y \<le> l_fence c" if "y \<in> set (leases d1)" "lease_of ?ws key y" for y
    proof -
      from that(1) obtain z where "z \<in> set (leases d)" "y = (if lease_target c None z then close_lease ''expired'' now z else z)"
        unfolding ls in_update_rows by blast
      with that(2) have "z \<in> set (leases d)" "lease_of ?ws key z" "l_fence y = l_fence z" by (auto split: if_splits)
      with open_lease_fence [OF inv _ conjunct1 [OF c] _ conjunct2 [OF c], of z] show ?thesis by (cases "z = c") auto
    qed
    then show thesis using that [OF ins leases_inv_update [OF inv ls]] by blast
  qed
  from insert_new_lease_result [OF d1] obtain lid where ls: "leases d' = leases d1 @ [op_lease op]"
    and l: "op_lease op = new_lease ctx key lid (p_id p) (pf + 1) md now e"
    and new: "\<And>x. x \<in> set (leases d1) \<Longrightarrow> l_id x \<noteq> l_id (op_lease op) \<and> \<not> open_lease ?ws key x" by blast
  have "resource_leases.table_inv (leases d')" unfolding ls
  proof (rule resource_leases.table_inv_append)
    show "resource_leases.table_inv (leases d1)" using inv1 by (simp add: leases_inv_def)
    fix x assume x: "x \<in> set (leases d1)" "(l_workspaceId x, l_resourceKey x) = (l_workspaceId (op_lease op), l_resourceKey (op_lease op))"
    then have "lease_of ?ws key x" by (simp add: l new_lease_def lease_of_def)
    with pf [OF x(1)] new [OF x(1)] show "l_fence x < l_fence (op_lease op) \<and> l_releasedAt x \<noteq> None"
      by (auto simp: l new_lease_def open_lease_def)
  qed
  moreover have "uniq_by l_id (leases d')"
    using inv1 new unfolding ls leases_inv_def by (simp add: uniq_by_append1)
  ultimately show ?thesis
    using False \<open>now < e\<close> by (auto simp: leases_inv_def ls l new_lease_def open_lease_def lease_of_def)
qed

section \<open>The operations keep the leases exclusive\<close>

lemma lease_mutation_cases:
  assumes "lease_mutation env ctx operation req now fresh d = Inr (d', op, evs)"
  shows "leases d' = leases d \<or> (\<exists>i p d1. fresh i p d1 = Inr (d', op) \<and> leases d1 = leases d)"
proof -
  from assms obtain i where i: "lease_identity env ctx operation req now = Inr i"
    unfolding lease_mutation_def by (cases "lease_identity env ctx operation req now") simp_all
  show ?thesis
  proof (cases "replayOperation i now d")
    case (Inl e) with assms i show ?thesis by (simp add: lease_mutation_def)
  next
    case (Inr x)
    then obtain d1 r where r: "replayOperation i now d = Inr (d1, r)" by (cases x) simp
    note ls = replayOperation_leases [OF r]
    show ?thesis
    proof (cases r)
      case (Some y) with assms i r ls show ?thesis by (simp add: lease_mutation_def)
    next
      case None
      with assms i r obtain p d2 where
        "resolvePrincipal env (rc_workspaceId ctx) (rc_actor ctx) (rc_principalId ctx) now d1 = Inr (d2, p)"
        and f: "fresh i p d2 = Inr (d', op)"
        by (auto simp: lease_mutation_def res split: prod.splits)
      from resolvePrincipal_leases [OF this(1)] ls f show ?thesis by auto
    qed
  qed
qed

lemma lease_mutation_keeps:
  assumes "leases_inv d" and "lease_mutation env ctx operation req now fresh d = Inr (d', op, evs)"
    and "\<And>i p d1. leases_inv d1 \<Longrightarrow> fresh i p d1 = Inr (d', op) \<Longrightarrow> leases_inv d'"
  shows "leases_inv d'"
  using lease_mutation_cases [OF assms(2)] assms(1,3) leases_inv_cong by blast

lemma acquire_lease_keeps:
  assumes inv: "leases_inv d" and "acquireLeaseTx env key opts duration md d = Inr (d', op, evs)" and "0 < duration"
  shows "leases_inv d'"
proof -
  from assms(2) obtain now where "lease_mutation env (al_ctx opts) ''resource.acquire''
      (acquire_lease_request key (al_ctx opts) duration md) now
      (acquire_lease_fresh env (al_ctx opts) key md now (now + duration)) d = Inr (d', op, evs)"
    unfolding acquireLeaseTx_def by (auto simp: res)
  from lease_mutation_keeps [OF inv this] acquire_lease_result assms(3) show ?thesis by fastforce
qed

lemma leases_inv_update_lease:
  assumes "leases_inv d" and "update_lease l rv f d = Inr (d1, x)" and "leases d' = leases d1"
    and "f = close_lease r now \<or> f = renew_lease now e"
  shows "leases_inv d'"
  using leases_inv_update [OF assms(1) _ assms(4)] update_lease_result [OF assms(2)] assms(3) by auto

lemma leases_inv_expire:
  assumes "leases_inv d" and "expireLease env l a p now rv d = Inr (d1, x, ev)" and "leases d' = leases d1"
  shows "leases_inv d'"
  using leases_inv_update [OF assms(1)] expireLease_result [OF assms(2)] assms(3) by metis

lemma renew_lease_fresh_keeps:
  assumes "leases_inv d" and "renew_lease_fresh env opts key now e i p d = Inr (d', op)"
  shows "leases_inv d'"
proof -
  from assms(2) obtain l d1 x where "update_lease l (Some (ho_expectedRevision opts)) (renew_lease now e) d = Inr (d1, x)"
    "leases d' = leases d1"
    unfolding renew_lease_fresh_def by (auto simp: res split: prod.splits dest!: finish_operation_result)
  then show ?thesis using leases_inv_update_lease [OF assms(1)] by blast
qed

lemma release_lease_fresh_keeps:
  assumes "leases_inv d" and "release_lease_fresh env opts key reason now i p d = Inr (d', op)"
  shows "leases_inv d'"
proof -
  from assms(2) obtain l d1 x ev where "update_lease l (Some (ho_expectedRevision opts)) (close_lease reason now) d = Inr (d1, x) \<and>
      leases d' = leases d1 \<or>
      expireLease env l (rc_actor (ho_ctx opts)) (p_id p) now (Some (ho_expectedRevision opts)) d = Inr (d1, x, ev) \<and>
      leases d' = leases d1"
    unfolding release_lease_fresh_def release_expired_def
    by (auto simp: res split: prod.splits if_splits dest!: finish_operation_result saveOperation_leases)
  then show ?thesis using leases_inv_update_lease [OF assms(1)] leases_inv_expire [OF assms(1)] by blast
qed

lemma renew_lease_keeps:
  assumes inv: "leases_inv d" and "renewLeaseTx env key opts duration d = Inr (d', op, evs)"
  shows "leases_inv d'"
proof -
  from assms(2) obtain now where "lease_mutation env (ho_ctx opts) ''resource.renew'' (renew_lease_request key opts duration)
      now (renew_lease_fresh env opts key now (now + duration)) d = Inr (d', op, evs)"
    unfolding renewLeaseTx_def by (auto simp: res)
  then show ?thesis by (rule lease_mutation_keeps [OF inv]) (rule renew_lease_fresh_keeps)
qed

lemma release_lease_keeps:
  assumes inv: "leases_inv d" and "releaseLeaseTx env key opts reason d = Inr (d', op, evs)"
  shows "leases_inv d'"
proof -
  from assms(2) obtain now where "lease_mutation env (ho_ctx opts) ''resource.release'' (release_lease_request key opts reason)
      now (release_lease_fresh env opts key reason now) d = Inr (d', op, evs)"
    unfolding releaseLeaseTx_def by (auto simp: res)
  then show ?thesis by (rule lease_mutation_keeps [OF inv]) (rule release_lease_fresh_keeps)
qed

text \<open>The sweep closes the rows it selected, each once.\<close>

lemma expire_all_result:
  assumes "expire_all env a p now ls c d = Inr (d', xs, c')" and "leases_inv d" and "distinct ls"
    and "\<And>l. l \<in> set ls \<Longrightarrow> l \<in> set (leases d) \<and> l_releasedAt l = None"
  shows "leases d' = update_rows (\<lambda>x. x \<in> set ls) (close_lease ''expired'' now) (leases d) \<and>
    xs = map (close_lease ''expired'' now) ls"
  using assms
proof (induction ls arbitrary: c d xs)
  case Nil
  then show ?case by (simp add: update_rows_none)
next
  case (Cons l ls)
  let ?close = "close_lease ''expired'' now"
  from Cons.prems(1) obtain d1 x ev ys where e: "expireLease env l a p now None d = Inr (d1, x, ev)"
    and rest: "expire_all env a p now ls (le_sequence ev) d1 = Inr (d', ys, c')" and xs: "xs = x # ys"
    by (auto simp: res split: prod.splits)
  have l: "l \<in> set (leases d)" "l_releasedAt l = None" using Cons.prems(4) by auto
  have only: "lease_target l None y \<longleftrightarrow> y = l" if "y \<in> set (leases d)" for y
    using lease_target_open [OF Cons.prems(2) l(1) that, of None] l(2) by (auto simp: lease_target_def revision_matches_def)
  from expireLease_result [OF e] have ls1: "leases d1 = update_rows (\<lambda>y. y = l) ?close (leases d)" and x: "x = ?close l"
    using only by (auto simp: update_rows_def)
  have inv1: "leases_inv d1" using leases_inv_expire [OF Cons.prems(2) e] by simp
  have "z \<in> set (leases d1) \<and> l_releasedAt z = None" if "z \<in> set ls" for z
    using Cons.prems(3) Cons.prems(4) [of z] that unfolding ls1 in_update_rows by (auto intro!: bexI [of _ z])
  from Cons.IH [OF rest inv1 _ this] Cons.prems(3)
  have IH: "leases d' = update_rows (\<lambda>x. x \<in> set ls) ?close (leases d1)" "ys = map ?close ls" by auto
  have "?close l \<notin> set ls" using Cons.prems(4) by (metis close_lease_simps(4) list.set_intros(2) option.distinct(1))
  then show ?case using Cons.prems(3) IH x xs unfolding ls1 by (auto simp: update_rows_def)
qed

lemma expire_all_keeps:
  "expire_all env a p now ls c d = Inr (d', xs, c') \<Longrightarrow> leases_inv d \<Longrightarrow> leases_inv d'"
proof (induction ls arbitrary: c d xs)
  case (Cons l ls)
  then obtain d1 x ev ys where e: "expireLease env l a p now None d = Inr (d1, x, ev)"
    and rest: "expire_all env a p now ls (le_sequence ev) d1 = Inr (d', ys, c')"
    by (auto simp: res split: prod.splits)
  from Cons.IH [OF rest] leases_inv_expire [OF Cons.prems(2) e] show ?case by simp
qed simp

lemma sweep_keeps:
  assumes "leases_inv d" and "sweepTx env ctx limit d = Inr (d', s, evs)" shows "leases_inv d'"
  using assms unfolding sweepTx_def
  by (auto simp: res split: prod.splits dest!: resolvePrincipal_leases leases_inv_cong dest: expire_all_keeps)

lemma leaseDuration_positive: "leaseDuration v = Inr n \<Longrightarrow> 0 < n"
  by (simp add: leaseDuration_def Let_def res MIN_RESOURCE_LEASE_MS_def)

lemma acquire_lease_checks_positive: "acquire_lease_checks key opts = Inr (n, md) \<Longrightarrow> 0 < n"
  unfolding acquire_lease_checks_def by (auto simp: res dest: leaseDuration_positive)

text \<open>A space with one resource leased to \<open>bob\<close> until 9000.\<close>

definition sample_lease :: resource_lease where
  "sample_lease = \<lparr>l_id = ''r1'', l_workspaceId = ''w'', l_resourceKey = ''printer'', l_holderActor = ''bob'',
     l_holderPrincipalId = ''p2'', l_revision = 1, l_fence = 1, l_acquiredAt = 1000, l_heartbeatAt = 1000,
     l_expiresAt = 9000, l_releasedAt = None, l_releaseReason = None, l_metadata = [], l_createdAt = 1000,
     l_updatedAt = 1000\<rparr>"

definition sample_space_db :: db where
  "sample_space_db = sample_claimed_db\<lparr>spaces := [\<lparr>cs_workspaceId = ''w'', cs_createdByPrincipalId = ''p1'',
     cs_createdAt = 0\<rparr>], leases := [sample_lease]\<rparr>"

lemma sample_leases_inv: "leases_inv sample_space_db"
  by (simp add: leases_inv_def sample_space_db_def resource_leases.table_inv_def uniq_by_def)

definition sample_resource_ctx :: "string \<Rightarrow> int \<Rightarrow> resource_context" where
  "sample_resource_ctx actor clock = \<lparr>rc_workspaceId = ''w'', rc_actor = actor, rc_principalId = None,
     rc_clock = clock, rc_idempotencyKey = Some ''k1''\<rparr>"

lemma sample_resource_ctx_simps [simp]:
  "rc_workspaceId (sample_resource_ctx a t) = ''w''" "rc_clock (sample_resource_ctx a t) = t"
  by (simp_all add: sample_resource_ctx_def)

abbreviation sample_lease_options :: acquire_lease_options where
  "sample_lease_options \<equiv> \<lparr>al_ctx = sample_resource_ctx ''alice'' 9500, al_leaseMs = Some 5000, al_metadata = None\<rparr>"

abbreviation sample_reclaimed :: "db \<times> (err + lease_operation)" where
  "sample_reclaimed \<equiv> acquireResourceLease sample_env ''printer'' sample_lease_options sample_space_db"

text \<open>C23. Leases stay exclusive: acquiring, renewing and releasing a resource and sweeping a space keep
  at most one unreleased lease per resource, with the greatest fence of the resource.\<close>

theorem resources_keep_leases_exclusive:
  assumes "leases_inv d"
  shows "leases_inv (fst (acquireResourceLease env key aopts d)) \<and> leases_inv (fst (renewResourceLease env key opts d)) \<and>
    leases_inv (fst (releaseResourceLease env key opts d)) \<and> leases_inv (fst (sweepExpiredResources env ctx limit d))"
proof (intro conjI)
  show "leases_inv (fst (acquireResourceLease env key aopts d))"
    unfolding acquireResourceLease_def
    by (rule leases_tx.operation2 [OF assms]) (blast intro: acquire_lease_keeps [OF assms] acquire_lease_checks_positive)
  show "leases_inv (fst (renewResourceLease env key opts d))"
    unfolding renewResourceLease_def by (rule leases_tx.operation [OF assms]) (rule renew_lease_keeps [OF assms])
  show "leases_inv (fst (releaseResourceLease env key opts d))"
    unfolding releaseResourceLease_def by (rule leases_tx.operation [OF assms]) (rule release_lease_keeps [OF assms])
  show "leases_inv (fst (sweepExpiredResources env ctx limit d))"
    unfolding sweepExpiredResources_def by (rule leases_tx.operation [OF assms]) (rule sweep_keeps [OF assms])
qed

theorem resources_keep_leases_exclusive_witness:
  "leases_inv (fst sample_reclaimed)"
  using resources_keep_leases_exclusive [OF sample_leases_inv] by blast

section \<open>What the holder of a lease may rely on\<close>

text \<open>A request made under a key not used before for the operation.\<close>

definition new_key :: "resource_context \<Rightarrow> string \<Rightarrow> db \<Rightarrow> bool" where
  "new_key ctx operation d \<longleftrightarrow> \<not> list_ex (\<lambda>r. ik_tenantId r = rc_workspaceId ctx \<and> ik_operation r = operation \<and>
     Some (ik_key r) = rc_idempotencyKey ctx) (idems d)"

lemma lease_identity_Inr:
  assumes "lease_identity env ctx operation req now = Inr i"
  shows "\<exists>p. i = Some p \<and> pi_tenantId p = rc_workspaceId ctx \<and> pi_operation p = operation \<and> Some (pi_key p) = rc_idempotencyKey ctx"
  using assms unfolding lease_identity_def requireIdempotencyKey_def prepareIdempotency_def
  by (auto simp: res Let_def tenant_of_def)

lemma replay_new_key:
  assumes "new_key ctx operation d" and "lease_identity env ctx operation req now = Inr i"
  shows "replayOperation i now d = Inr (d, None)"
proof -
  from lease_identity_Inr [OF assms(2)] obtain p where p: "i = Some p" "pi_tenantId p = rc_workspaceId ctx"
    "pi_operation p = operation" "Some (pi_key p) = rc_idempotencyKey ctx" by blast
  have "find (\<lambda>r. ik_identity r = pi_identity p) (idems d) = None" "find (\<lambda>r. ik_identity r = pi_legacy_identity p) (idems d) = None"
    using assms(1) p unfolding new_key_def list_ex_iff find_None_iff
    by (fastforce simp: ik_identity_def pi_identity_def pi_legacy_identity_def)+
  then show ?thesis by (simp add: p(1) replayOperation_def findIdempotencyResult_def Let_def)
qed

lemma lease_mutation_new:
  assumes "new_key ctx operation d" and "lease_mutation env ctx operation req now fresh d = Inr (d', op, evs)"
  shows "\<exists>i p d1. fresh i p d1 = Inr (d', op) \<and> leases d1 = leases d"
proof -
  from assms(2) obtain i where i: "lease_identity env ctx operation req now = Inr i"
    unfolding lease_mutation_def by (cases "lease_identity env ctx operation req now") simp_all
  from assms(2) obtain p d1 where "resolvePrincipal env (rc_workspaceId ctx) (rc_actor ctx) (rc_principalId ctx) now d = Inr (d1, p)"
    "fresh i p d1 = Inr (d', op)"
    unfolding lease_mutation_def by (auto simp: i replay_new_key [OF assms(1) i] res split: prod.splits)
  then show ?thesis using resolvePrincipal_leases by blast
qed




abbreviation sample_verified :: "err + fence_verification" where
  "sample_verified \<equiv> verifyResourceFence sample_env ''printer'' ((sample_resource_ctx ''bob'' 2000)\<lparr>rc_principalId := Some ''p2''\<rparr>) ''r1'' 1 sample_space_db"


text \<open>A sweep whose limit is not smaller than the number of expired leases closes all of them and leaves
  every other lease as it was.\<close>

theorem sweep_closes_expired:
  assumes "leases_inv d" and "sweepExpiredResources env ctx limit d = (d', Inr s)"
    and "int (length (filter (expired_lease (rc_workspaceId ctx) (rc_clock ctx)) (leases d))) \<le> or_else limit 1000"
  shows "leases d' = update_rows (expired_lease (rc_workspaceId ctx) (rc_clock ctx)) (close_lease ''expired'' (rc_clock ctx)) (leases d) \<and>
    set (sw_expired s) = close_lease ''expired'' (rc_clock ctx) ` set (filter (expired_lease (rc_workspaceId ctx) (rc_clock ctx)) (leases d)) \<and>
    \<not> list_ex (expired_lease (rc_workspaceId ctx) (rc_clock ctx)) (leases d')"
proof -
  let ?now = "rc_clock ctx" and ?E = "expired_lease (rc_workspaceId ctx) (rc_clock ctx)"
  let ?rows = "sort_key (\<lambda>l. (l_expiresAt l, l_resourceKey l)) (filter ?E (leases d))"
  from assms(2) obtain n db1 evs where n: "boundedLimit limit = Inr n" and tx: "sweepTx env ctx n d = Inr (db1, s, evs)"
    and ls: "leases d' = leases db1"
    unfolding sweepExpiredResources_def by (auto simp: res split: prod.splits)
  from n have n': "n = or_else limit 1000" by (simp add: boundedLimit_def Let_def res)
  from tx obtain d1 p c where d1: "resolvePrincipal env (rc_workspaceId ctx) (rc_actor ctx) (rc_principalId ctx) ?now d = Inr (d1, p)"
    and e: "expire_all env (rc_actor ctx) (p_id p) ?now (take (nat n) (sort_key (\<lambda>l. (l_expiresAt l, l_resourceKey l))
      (filter ?E (leases d1)))) 0 d1 = Inr (db1, sw_expired s, c)"
    unfolding sweepTx_def by (auto simp: res nowFrom_def split: prod.splits)
  note ls1 = resolvePrincipal_leases [OF d1]
  have take: "take (nat n) ?rows = ?rows" using assms(3) n' by simp
  have inv1: "leases_inv d1" using assms(1) leases_inv_cong [OF ls1] by simp
  have "uniq_by l_id (leases d)" using assms(1) by (simp add: leases_inv_def)
  then have "distinct ?rows" by (simp add: uniq_by_def distinct_filter distinct_map)
  from expire_all_result [OF e [unfolded ls1 take] inv1 this]
  have "leases db1 = update_rows (\<lambda>x. x \<in> set (leases d) \<and> ?E x) (close_lease ''expired'' ?now) (leases d)"
    "sw_expired s = map (close_lease ''expired'' ?now) ?rows"
    by (auto simp: ls1 expired_lease_def conj_commute)
  then have r: "leases d' = update_rows ?E (close_lease ''expired'' ?now) (leases d)"
    "sw_expired s = map (close_lease ''expired'' ?now) ?rows"
    unfolding ls by (auto simp: update_rows_def)
  moreover have "\<not> list_ex ?E (leases d')"
  proof -
    have "\<not> ?E (if ?E x then close_lease ''expired'' ?now x else x)" for x
      by (cases "?E x") (simp_all add: expired_lease_def)
    then show ?thesis unfolding r(1) list_ex_iff update_rows_def set_map by blast
  qed
  ultimately show ?thesis by auto
qed

abbreviation sample_swept :: "db \<times> (err + resource_sweep)" where
  "sample_swept \<equiv> sweepExpiredResources sample_env (sample_resource_ctx ''alice'' 9500) None sample_space_db"

theorem sweep_closes_expired_witness:
  "\<not> list_ex (expired_lease ''w'' 9500) (leases (fst sample_swept)) \<and> sw_expired (projr (snd sample_swept)) \<noteq> []"
proof -
  have "returned (snd sample_swept)" by code_simp
  moreover have "sw_expired (projr (snd sample_swept)) \<noteq> []" by code_simp
  moreover have "int (length (filter (expired_lease (rc_workspaceId (sample_resource_ctx ''alice'' 9500))
      (rc_clock (sample_resource_ctx ''alice'' 9500))) (leases sample_space_db))) \<le> or_else None 1000" by code_simp
  ultimately show ?thesis
    using sweep_closes_expired [OF sample_leases_inv returned_op] by (metis sample_resource_ctx_simps)
qed

end
