(* ===== verification/Authority_Contract.thy ===== *)
theory Authority_Contract
  imports Json_Value
begin

text \<open>
  The contracts of hosted authority (\<open>packages/tasq-authority/src/index.ts\<close>): verified identities,
  bindings, grants, delegations, eligibilities and requests, the schemas they are parsed with, the
  registry of actions and the digests that identify them. A schema that refuses its input is the
  error \<open>InvalidContract\<close>, whichever exception the parser raises. The digest function, the URL parser
  and \<open>localeCompare\<close> belong to the host.
\<close>

section \<open>The host\<close>

record parsed_url =
  pu_href :: string
  pu_username :: string
  pu_password :: string
  pu_protocol :: string
  pu_search :: string
  pu_hash :: string

record authority_host =
  ah_sha256 :: "string \<Rightarrow> string"
  ah_url :: "string \<Rightarrow> parsed_url option"
  ah_localeCompare :: "string \<Rightarrow> string \<Rightarrow> int"

datatype authority_error =
    InvalidContract
  | NotPortable string
  | ClockRequired string

section \<open>Scalars\<close>

definition lower_hex :: "char \<Rightarrow> bool" where
  "lower_hex c \<longleftrightarrow> (CHR ''0'' \<le> c \<and> c \<le> CHR ''9'') \<or> (CHR ''a'' \<le> c \<and> c \<le> CHR ''f'')"

definition Digest :: "string \<Rightarrow> bool" where
  "Digest s \<longleftrightarrow> take 7 s = ''sha256:'' \<and> length s = 71 \<and> list_all lower_hex (drop 7 s)"

definition UnixMs :: "int \<Rightarrow> bool" where
  "UnixMs n \<longleftrightarrow> 0 \<le> n \<and> n \<le> MAX_SAFE_INTEGER"

definition Revision :: "int \<Rightarrow> bool" where
  "Revision n \<longleftrightarrow> 0 < n \<and> n \<le> MAX_SAFE_INTEGER"

definition control_char :: "char \<Rightarrow> bool" where
  "control_char c \<longleftrightarrow> (of_char c :: nat) < 32 \<or> (of_char c :: nat) = 127"

definition OpaqueId :: "string \<Rightarrow> bool" where
  "OpaqueId s \<longleftrightarrow> 1 \<le> length s \<and> length s \<le> 500 \<and> s = js_trim s \<and> list_all (\<lambda>c. \<not> control_char c) s"

definition authority_alphanumeric :: "char \<Rightarrow> bool" where
  "authority_alphanumeric c \<longleftrightarrow> (CHR ''a'' \<le> c \<and> c \<le> CHR ''z'') \<or> (CHR ''A'' \<le> c \<and> c \<le> CHR ''Z'') \<or>
     (CHR ''0'' \<le> c \<and> c \<le> CHR ''9'')"

definition WorkspaceId :: "string \<Rightarrow> bool" where
  "WorkspaceId s \<longleftrightarrow> 1 \<le> length s \<and> length s \<le> 200 \<and> authority_alphanumeric (hd s) \<and>
     list_all (\<lambda>c. authority_alphanumeric c \<or> c \<in> set ''._/-'') (tl s)"

definition absoluteUri :: "authority_host \<Rightarrow> string \<Rightarrow> bool" where
  "absoluteUri h value = (if CHR ''*'' \<in> set value then False else
     case ah_url h value of None \<Rightarrow> False
     | Some parsed \<Rightarrow> pu_href parsed = value \<and> pu_username parsed = [] \<and> pu_password parsed = [])"

definition AbsoluteUri :: "authority_host \<Rightarrow> string \<Rightarrow> bool" where
  "AbsoluteUri h s \<longleftrightarrow> 1 \<le> length s \<and> length s \<le> 500 \<and> absoluteUri h s"

definition HttpsIssuer :: "authority_host \<Rightarrow> string \<Rightarrow> bool" where
  "HttpsIssuer h s \<longleftrightarrow> AbsoluteUri h s \<and> (case ah_url h s of None \<Rightarrow> False
     | Some parsed \<Rightarrow> pu_protocol parsed = ''https:'' \<and> pu_search parsed = [] \<and> pu_hash parsed = [])"

fun sortedUnique :: "string list \<Rightarrow> bool" where
  "sortedUnique (a # b # rest) \<longleftrightarrow> a < b \<and> sortedUnique (b # rest)"
| "sortedUnique _ \<longleftrightarrow> True"

lemma sortedUnique_iff: "sortedUnique xs \<longleftrightarrow> sorted_wrt (<) xs"
  by (induction xs rule: sortedUnique.induct) (auto intro: less_trans)

definition opt_ok :: "('a \<Rightarrow> bool) \<Rightarrow> 'a option \<Rightarrow> bool" where
  "opt_ok P x \<longleftrightarrow> (case x of None \<Rightarrow> True | Some v \<Rightarrow> P v)"

lemma opt_ok_simps [simp]: "opt_ok P None" "opt_ok P (Some v) \<longleftrightarrow> P v"
  by (simp_all add: opt_ok_def)

section \<open>Canonical text and digests\<close>

definition NOT_SAFE_INTEGER :: string where
  "NOT_SAFE_INTEGER = ''authority canonical JSON accepts safe integers only''"

definition NOT_PORTABLE :: string where
  "NOT_PORTABLE = ''authority canonical JSON accepts portable JSON only''"

text \<open>The first element without a result ends a \<open>map\<close> whose function throws.\<close>

fun collect :: "('e + 'a) list \<Rightarrow> 'e + 'a list" where
  "collect [] = Inr []"
| "collect (m # ms) = (case m of Inl e \<Rightarrow> Inl e | Inr x \<Rightarrow>
     case collect ms of Inl e \<Rightarrow> Inl e | Inr xs \<Rightarrow> Inr (x # xs))"

lemma collect_Inr [simp]: "collect (map (\<lambda>x. Inr (f x)) xs) = Inr (map f xs)"
  by (induction xs) simp_all

lemma collect_all_Inr: "(\<And>x. x \<in> set xs \<Longrightarrow> g x = Inr (f x)) \<Longrightarrow> collect (map g xs) = Inr (map f xs)"
  by (induction xs) simp_all

lemma collect_cong_error: "x \<in> set xs \<Longrightarrow> (\<And>y. g x \<noteq> Inr y) \<Longrightarrow> collect (map g xs) \<noteq> Inr ys"
  by (induction xs arbitrary: ys) (auto split: sum.splits)

lemma size_sort_entries [termination_simp]:
  "(k, v) \<in> set (sort_key fst kvs) \<Longrightarrow> size v < Suc (size_list (\<lambda>x. Suc (size (snd x))) kvs)"
  using size_entries [of k v kvs] by simp

fun canonical :: "json \<Rightarrow> authority_error + string" where
  "canonical JNull = Inr ''null''"
| "canonical (JStr s) = Inr (json_quote s)"
| "canonical (JBool b) = Inr (if b then ''true'' else ''false'')"
| "canonical (JInt n) = (if \<not> isSafeInteger n then Inl (NotPortable NOT_SAFE_INTEGER) else Inr (dec_int n))"
| "canonical (JArr xs) = (case collect (map canonical xs) of Inl e \<Rightarrow> Inl e
     | Inr ts \<Rightarrow> Inr (''['' @ join_with '','' ts @ '']''))"
| "canonical (JObj kvs) = (case collect (map (\<lambda>(k, v). case canonical v of Inl e \<Rightarrow> Inl e
       | Inr t \<Rightarrow> Inr (json_quote k @ '':'' @ t)) (sort_key fst kvs)) of Inl e \<Rightarrow> Inl e
     | Inr ts \<Rightarrow> Inr (''{'' @ join_with '','' ts @ ''}''))"
| "canonical JUndef = Inl (NotPortable NOT_PORTABLE)"

definition digest :: "authority_host \<Rightarrow> json \<Rightarrow> authority_error + string" where
  "digest h v = (case canonical v of Inl e \<Rightarrow> Inl e | Inr t \<Rightarrow> Inr (''sha256:'' @ ah_sha256 h t))"

text \<open>A value is portable when its numbers are safe integers and nothing in it is \<open>undefined\<close>. On
  portable values \<open>canonical\<close> never throws, and prints what the kernel's \<open>canonicalJson\<close> prints.\<close>

fun portable :: "json \<Rightarrow> bool" where
  "portable JUndef \<longleftrightarrow> False"
| "portable (JInt n) \<longleftrightarrow> isSafeInteger n"
| "portable (JArr xs) \<longleftrightarrow> list_all portable xs"
| "portable (JObj kvs) \<longleftrightarrow> list_all (\<lambda>(k, v). portable v) kvs"
| "portable JNull \<longleftrightarrow> True"
| "portable (JStr s) \<longleftrightarrow> True"
| "portable (JBool b) \<longleftrightarrow> True"

lemma canonical_portable: "portable v \<Longrightarrow> canonical v = Inr (canonicalJson v)"
proof (induction v rule: canonical.induct)
  case (5 xs)
  then have "collect (map canonical xs) = Inr (map canonicalJson xs)"
    by (intro collect_all_Inr) (auto simp: list_all_iff)
  then show ?case by simp
next
  case (6 kvs)
  let ?p = "\<lambda>(k, v). json_quote k @ '':'' @ canonicalJson v"
  have "collect (map (\<lambda>(k, v). case canonical v of Inl e \<Rightarrow> Inl e
       | Inr t \<Rightarrow> Inr (json_quote k @ '':'' @ t)) (sort_key fst kvs)) = Inr (map ?p (sort_key fst kvs))"
  proof (rule collect_all_Inr)
    fix x assume x: "x \<in> set (sort_key fst kvs)"
    obtain k v where kv: "x = (k, v)" by (cases x)
    have "canonical v = Inr (canonicalJson v)"
      using "6.IH" [OF x kv [symmetric]] x kv "6.prems" by (auto simp: list_all_iff)
    then show "(case x of (k, v) \<Rightarrow> case canonical v of Inl e \<Rightarrow> Inl e
       | Inr t \<Rightarrow> Inr (json_quote k @ '':'' @ t)) = Inr (?p x)" by (simp add: kv)
  qed
  moreover have "sorted_entries kvs = sort_key fst kvs"
  proof -
    have "filter (\<lambda>(k, v). v \<noteq> JUndef) kvs = kvs"
      using "6.prems" by (auto simp: list_all_iff filter_id_conv)
    then show ?thesis by (simp add: sorted_entries_def)
  qed
  ultimately show ?case by simp
qed simp_all

lemma digest_portable: "portable v \<Longrightarrow> digest h v = Inr (''sha256:'' @ ah_sha256 h (canonicalJson v))"
  by (simp add: digest_def canonical_portable)

lemma canonical_refuses: "\<not> portable v \<Longrightarrow> canonical v \<noteq> Inr t"
proof (induction v arbitrary: t rule: canonical.induct)
  case (5 xs)
  then obtain x where "x \<in> set xs" "\<not> portable x" by (auto simp: list_all_iff)
  with "5.IH" have "collect (map canonical xs) \<noteq> Inr ts" for ts by (intro collect_cong_error) auto
  then show ?case by (auto split: sum.splits)
next
  case (6 kvs)
  then obtain x where x: "x \<in> set kvs" "\<not> portable (snd x)" by (auto simp: list_all_iff)
  let ?g = "\<lambda>(k, v). case canonical v of Inl e \<Rightarrow> Inl e | Inr t \<Rightarrow> Inr (json_quote k @ '':'' @ t)"
  have "canonical (snd x) \<noteq> Inr u" for u using "6.IH" [of x "fst x" "snd x"] x by simp
  then have "?g x \<noteq> Inr y" for y by (cases "canonical (snd x)") (auto simp: case_prod_beta)
  with x have "collect (map ?g (sort_key fst kvs)) \<noteq> Inr ts" for ts by (intro collect_cong_error) auto
  then show ?case by (auto split: sum.splits)
qed simp_all

section \<open>Actions\<close>

datatype resource_kind = RkWorkspace | RkCommitment | RkResource | RkEffect | RkReplica

datatype sender_constraint = SenderNone | SenderRequired

datatype eligibility_kind = EffectApprover | EffectConnector

text \<open>A reference to a resource; the eligibility \<open>"none"\<close> of an action is \<open>None\<close>.\<close>

record resource_ref =
  rr_kind :: resource_kind
  rr_id :: string

record action_definition =
  ad_uri :: string
  ad_version :: int
  ad_implementationDigest :: string
  ad_resourceKinds :: "resource_kind list"
  ad_senderConstraint :: sender_constraint
  ad_eligibility :: "eligibility_kind option"

record action_identity =
  ai_uri :: string
  ai_version :: int
  ai_implementationDigest :: string

fun resource_kind_text :: "resource_kind \<Rightarrow> string" where
  "resource_kind_text RkWorkspace = ''workspace''"
| "resource_kind_text RkCommitment = ''commitment''"
| "resource_kind_text RkResource = ''resource''"
| "resource_kind_text RkEffect = ''effect''"
| "resource_kind_text RkReplica = ''replica''"

fun sender_text :: "sender_constraint \<Rightarrow> string" where
  "sender_text SenderNone = ''none''"
| "sender_text SenderRequired = ''required''"

fun eligibility_text :: "eligibility_kind \<Rightarrow> string" where
  "eligibility_text EffectApprover = ''effect_approver''"
| "eligibility_text EffectConnector = ''effect_connector''"

definition rawActions :: "(string \<times> resource_kind list \<times> sender_constraint \<times> eligibility_kind option) list" where
  "rawActions = [
    (''workspace.read'', [RkWorkspace], SenderNone, None),
    (''workspace.admin'', [RkWorkspace], SenderRequired, None),
    (''commitment.read'', [RkCommitment], SenderNone, None),
    (''commitment.propose'', [RkWorkspace], SenderNone, None),
    (''commitment.mutate'', [RkCommitment], SenderNone, None),
    (''claim.coordinate'', [RkCommitment], SenderNone, None),
    (''attempt.execute'', [RkCommitment], SenderNone, None),
    (''evidence.append'', [RkCommitment], SenderNone, None),
    (''resolution.trust'', [RkCommitment], SenderNone, None),
    (''resolution.propose'', [RkCommitment], SenderNone, None),
    (''resolution.decide'', [RkCommitment], SenderNone, None),
    (''credential.manage'', [RkWorkspace], SenderRequired, None),
    (''statement.accept'', [RkWorkspace], SenderNone, None),
    (''resource.coordinate'', [RkResource], SenderNone, None),
    (''collaboration.assign'', [RkCommitment], SenderNone, None),
    (''effect.propose'', [RkEffect], SenderNone, None),
    (''effect.approval.record'', [RkEffect], SenderRequired, Some EffectApprover),
    (''effect.dispatch'', [RkEffect], SenderRequired, Some EffectConnector),
    (''replication.enroll'', [RkWorkspace, RkReplica], SenderRequired, None),
    (''replication.push'', [RkReplica], SenderRequired, None),
    (''replication.pull'', [RkReplica], SenderNone, None)]"

definition action_json :: "string \<Rightarrow> resource_kind list \<Rightarrow> sender_constraint \<Rightarrow> eligibility_kind option \<Rightarrow> (string \<times> json) list" where
  "action_json uri kinds sender elig = [(''uri'', JStr uri), (''version'', JInt 1),
     (''resourceKinds'', JArr (map (\<lambda>k. JStr (resource_kind_text k)) kinds)),
     (''senderConstraint'', JStr (sender_text sender)),
     (''eligibility'', JStr (case elig of None \<Rightarrow> ''none'' | Some e \<Rightarrow> eligibility_text e))]"

text \<open>The constants of the module are portable, so their digests exist; a digest that would throw
  while the module loads is the empty string here.\<close>

definition constant_digest :: "authority_host \<Rightarrow> json \<Rightarrow> string" where
  "constant_digest h v = (case digest h v of Inl e \<Rightarrow> [] | Inr x \<Rightarrow> x)"

fun actionDefinition ::
  "authority_host \<Rightarrow> string \<times> resource_kind list \<times> sender_constraint \<times> eligibility_kind option \<Rightarrow> action_definition" where
  "actionDefinition h (name, resourceKinds, senderConstraint, eligibility) =
     (let uri = ''urn:tasq:action:'' @ name in
      \<lparr>ad_uri = uri, ad_version = 1,
       ad_implementationDigest = constant_digest h (JObj (action_json uri resourceKinds senderConstraint eligibility)),
       ad_resourceKinds = resourceKinds, ad_senderConstraint = senderConstraint, ad_eligibility = eligibility\<rparr>)"

definition ACTION_REGISTRY :: "authority_host \<Rightarrow> action_definition list" where
  "ACTION_REGISTRY h = map (actionDefinition h) rawActions"

text \<open>\<open>registryByUri\<close> keeps the last entry of a URI.\<close>

definition getRegisteredAction :: "authority_host \<Rightarrow> string \<Rightarrow> action_definition option" where
  "getRegisteredAction h uri = map_of (rev (map (\<lambda>a. (ad_uri a, a)) (ACTION_REGISTRY h))) uri"

definition exactAction :: "action_identity \<Rightarrow> action_definition \<Rightarrow> bool" where
  "exactAction identity def \<longleftrightarrow> ai_uri identity = ad_uri def \<and> ai_version identity = ad_version def \<and>
     ai_implementationDigest identity = ad_implementationDigest def"

definition registered_exact :: "authority_host \<Rightarrow> action_identity \<Rightarrow> bool" where
  "registered_exact h identity \<longleftrightarrow> (case getRegisteredAction h (ai_uri identity) of None \<Rightarrow> False
     | Some registered \<Rightarrow> exactAction identity registered)"

definition policy_json :: "authority_host \<Rightarrow> json" where
  "policy_json h = JObj [
     (''policy'', JStr ''urn:tasq:policy:reference-authorizer:v1''),
     (''contractVersions'', JArr [JStr ''tasq.verified-identity.v1'', JStr ''tasq.authorization-request.v1'',
        JStr ''tasq.authorization-decision.v1'']),
     (''actions'', JArr (map (\<lambda>a. JObj ((''implementationDigest'', JStr (ad_implementationDigest a)) #
        action_json (ad_uri a) (ad_resourceKinds a) (ad_senderConstraint a) (ad_eligibility a))) (ACTION_REGISTRY h))),
     (''decision'', JStr ''deny_by_default_complete_canonical_snapshot_digest''),
     (''clock'', JStr ''required_injection_one_capture_per_decision''),
     (''validity'', JStr ''authenticated_and_not_before_inclusive_expires_at_exclusive''),
     (''binding'', JStr ''exact_workspace_issuer_subject_enabled_principal_after_creation''),
     (''token'', JStr ''exact_audience_sender_binding_and_registered_action_upper_bound''),
     (''grants'', JStr ''allow_only_live_scoped_immutable_permission_set''),
     (''delegation'', JStr ''subject_grant_actor_grant_and_exact_live_delegation_intersection''),
     (''effects'', JStr ''grant_plus_separate_approver_or_service_connector_eligibility'')]"

definition AUTHORIZATION_POLICY_IMPLEMENTATION_DIGEST :: "authority_host \<Rightarrow> string" where
  "AUTHORIZATION_POLICY_IMPLEMENTATION_DIGEST h = constant_digest h (policy_json h)"

lemma constant_digest_portable:
  "portable v \<Longrightarrow> constant_digest h v = ''sha256:'' @ ah_sha256 h (canonicalJson v)"
  by (simp add: constant_digest_def digest_portable)

lemma portable_action_json [simp]: "portable (JObj (action_json u ks c e))"
  by (simp add: action_json_def list_all_iff isSafeInteger_def MAX_SAFE_INTEGER_def)

lemma portable_policy_json [simp]: "portable (policy_json h)"
  by (simp add: policy_json_def action_json_def list_all_iff isSafeInteger_def MAX_SAFE_INTEGER_def)

lemma registry_distinct: "distinct (map ad_uri (ACTION_REGISTRY h))"
proof -
  have "ad_uri (actionDefinition h r) = ''urn:tasq:action:'' @ fst r" for r by (cases r) (simp add: Let_def)
  then have "map ad_uri (ACTION_REGISTRY h) = map (\<lambda>r. ''urn:tasq:action:'' @ fst r) rawActions"
    by (simp add: ACTION_REGISTRY_def)
  moreover have "distinct (map (\<lambda>r. ''urn:tasq:action:'' @ fst r) rawActions)" by code_simp
  ultimately show ?thesis by simp
qed

lemma map_of_rev_distinct: "distinct (map fst xs) \<Longrightarrow> map_of (rev xs) = map_of xs"
  by (subst map_of_inject_set) (simp_all add: rev_map [symmetric])

lemma getRegisteredAction_iff:
  "getRegisteredAction h uri = Some a \<longleftrightarrow> a \<in> set (ACTION_REGISTRY h) \<and> ad_uri a = uri"
proof -
  let ?r = "map (\<lambda>a. (ad_uri a, a)) (ACTION_REGISTRY h)"
  have d: "distinct (map fst ?r)" using registry_distinct [of h] by (simp add: o_def)
  then have "map_of (rev ?r) = map_of ?r" by (rule map_of_rev_distinct)
  then show ?thesis using d by (auto simp: getRegisteredAction_def)
qed

lemma registered_exact_iff:
  "registered_exact h i \<longleftrightarrow> (\<exists>a \<in> set (ACTION_REGISTRY h). exactAction i a)"
proof
  assume "registered_exact h i"
  then show "\<exists>a \<in> set (ACTION_REGISTRY h). exactAction i a"
    by (auto simp: registered_exact_def getRegisteredAction_iff split: option.splits)
next
  assume "\<exists>a \<in> set (ACTION_REGISTRY h). exactAction i a"
  then obtain a where a: "a \<in> set (ACTION_REGISTRY h)" "exactAction i a" by blast
  then have "getRegisteredAction h (ai_uri i) = Some a" by (simp add: getRegisteredAction_iff exactAction_def)
  with a show "registered_exact h i" by (simp add: registered_exact_def)
qed

lemma registry_exact_unique:
  "a \<in> set (ACTION_REGISTRY h) \<Longrightarrow> exactAction i a \<Longrightarrow> getRegisteredAction h (ai_uri i) = Some a"
  by (simp add: getRegisteredAction_iff exactAction_def)

section \<open>Identities, bindings and grants\<close>

datatype credential_binding =
    NoBinding
  | Dpop (keyThumbprintDigest: string)
  | MtlsSpiffe (identityUri: string) (certificateThumbprintDigest: string)

datatype authentication_method = OauthJwtAccessToken | OauthIntrospection | SpiffeSvid

record actor_subject =
  as_issuer :: string
  as_subject :: string

record verified_identity =
  vi_issuer :: string
  vi_subject :: string
  vi_audience :: "string list"
  vi_authenticationMethod :: authentication_method
  vi_authenticatedAt :: int
  vi_notBefore :: "int option"
  vi_expiresAt :: int
  vi_clientId :: "string option"
  vi_actor :: "actor_subject option"
  vi_credentialBinding :: credential_binding
  vi_tokenIdDigest :: "string option"
  vi_issuerConfigurationDigest :: string
  vi_credentialKeyDigest :: string
  vi_actionUpperBound :: "action_identity list"

datatype binding_method = Oidc | BindingIntrospection | Spiffe | MethodUri string

datatype enablement = Enabled | Disabled

datatype standing = StActive | StRevoked

datatype authority_principal_kind = Human | AgentKind | ServiceKind | RuntimeKind

record subject_binding =
  sb_id :: string
  sb_workspaceId :: string
  sb_principalId :: string
  sb_issuer :: string
  sb_subject :: string
  sb_method :: binding_method
  sb_status :: enablement
  sb_revision :: int
  sb_createdAt :: int
  sb_disabledAt :: "int option"
  sb_replacedByBindingId :: "string option"

record authority_principal =
  ap_id :: string
  ap_workspaceId :: string
  ap_kind :: authority_principal_kind
  ap_status :: enablement
  ap_revision :: int

record permission_set_definition =
  ps_uri :: string
  ps_version :: int
  ps_implementationDigest :: string
  ps_actions :: "action_identity list"

datatype grant_scope = ScopeWorkspace | ScopeExact resource_ref

record permission_set_ref =
  pr_uri :: string
  pr_version :: int
  pr_implementationDigest :: string

record authorization_grant =
  ag_id :: string
  ag_workspaceId :: string
  ag_grantorPrincipalId :: string
  ag_granteePrincipalId :: string
  ag_permissionSet :: permission_set_ref
  ag_scope :: grant_scope
  ag_notBefore :: "int option"
  ag_expiresAt :: "int option"
  ag_status :: standing
  ag_revision :: int

record delegation =
  dg_id :: string
  dg_workspaceId :: string
  dg_subjectPrincipalId :: string
  dg_actorPrincipalId :: string
  dg_actions :: "action_identity list"
  dg_scope :: grant_scope
  dg_notBefore :: "int option"
  dg_expiresAt :: "int option"
  dg_status :: standing
  dg_revision :: int

record authority_eligibility =
  el_id :: string
  el_workspaceId :: string
  el_principalId :: string
  el_kind :: eligibility_kind
  el_status :: standing
  el_notBefore :: "int option"
  el_expiresAt :: "int option"
  el_revision :: int

record bound_principal =
  bp_binding :: subject_binding
  bp_principal :: authority_principal

record authorization_request =
  rq_requestId :: string
  rq_workspaceId :: string
  rq_serviceAudience :: string
  rq_action :: action_identity
  rq_resource :: resource_ref
  rq_identity :: verified_identity
  rq_subject :: "bound_principal option"
  rq_actor :: "bound_principal option"
  rq_permissionSets :: "permission_set_definition list"
  rq_subjectGrants :: "authorization_grant list"
  rq_actorGrants :: "authorization_grant list"
  rq_delegation :: "delegation option"
  rq_eligibilities :: "authority_eligibility list"

section \<open>The schemas\<close>

text \<open>\<open>z.number().int().positive()\<close> has no upper bound.\<close>

definition action_identity_ok :: "authority_host \<Rightarrow> action_identity \<Rightarrow> bool" where
  "action_identity_ok h i \<longleftrightarrow> AbsoluteUri h (ai_uri i) \<and> 0 < ai_version i \<and> Digest (ai_implementationDigest i)"

definition resource_ref_ok :: "resource_ref \<Rightarrow> bool" where
  "resource_ref_ok r \<longleftrightarrow> OpaqueId (rr_id r)"

fun credential_binding_ok :: "authority_host \<Rightarrow> credential_binding \<Rightarrow> bool" where
  "credential_binding_ok h NoBinding \<longleftrightarrow> True"
| "credential_binding_ok h (Dpop k) \<longleftrightarrow> Digest k"
| "credential_binding_ok h (MtlsSpiffe u c) \<longleftrightarrow> AbsoluteUri h u \<and> Digest c"

definition actor_subject_ok :: "authority_host \<Rightarrow> actor_subject \<Rightarrow> bool" where
  "actor_subject_ok h a \<longleftrightarrow> HttpsIssuer h (as_issuer a) \<and> OpaqueId (as_subject a)"

definition verified_identity_ok :: "authority_host \<Rightarrow> verified_identity \<Rightarrow> bool" where
  "verified_identity_ok h v \<longleftrightarrow>
     HttpsIssuer h (vi_issuer v) \<and> OpaqueId (vi_subject v) \<and>
     1 \<le> length (vi_audience v) \<and> length (vi_audience v) \<le> 16 \<and> list_all (AbsoluteUri h) (vi_audience v) \<and>
     UnixMs (vi_authenticatedAt v) \<and> opt_ok UnixMs (vi_notBefore v) \<and> UnixMs (vi_expiresAt v) \<and>
     opt_ok OpaqueId (vi_clientId v) \<and> opt_ok (actor_subject_ok h) (vi_actor v) \<and>
     credential_binding_ok h (vi_credentialBinding v) \<and> opt_ok Digest (vi_tokenIdDigest v) \<and>
     Digest (vi_issuerConfigurationDigest v) \<and> Digest (vi_credentialKeyDigest v) \<and>
     length (vi_actionUpperBound v) \<le> length (ACTION_REGISTRY h) \<and>
     list_all (action_identity_ok h) (vi_actionUpperBound v) \<and>
     sortedUnique (vi_audience v) \<and> sortedUnique (map ai_uri (vi_actionUpperBound v)) \<and>
     list_all (registered_exact h) (vi_actionUpperBound v) \<and>
     opt_ok (\<lambda>n. \<not> n > vi_authenticatedAt v) (vi_notBefore v) \<and>
     \<not> vi_authenticatedAt v \<ge> vi_expiresAt v \<and>
     \<not> (vi_authenticationMethod v = SpiffeSvid \<and>
        (case vi_credentialBinding v of MtlsSpiffe _ _ \<Rightarrow> False | _ \<Rightarrow> True))"

fun binding_method_ok :: "authority_host \<Rightarrow> binding_method \<Rightarrow> bool" where
  "binding_method_ok h (MethodUri u) \<longleftrightarrow> AbsoluteUri h u"
| "binding_method_ok h _ \<longleftrightarrow> True"

definition subject_binding_ok :: "authority_host \<Rightarrow> subject_binding \<Rightarrow> bool" where
  "subject_binding_ok h b \<longleftrightarrow>
     OpaqueId (sb_id b) \<and> WorkspaceId (sb_workspaceId b) \<and> OpaqueId (sb_principalId b) \<and>
     HttpsIssuer h (sb_issuer b) \<and> OpaqueId (sb_subject b) \<and> binding_method_ok h (sb_method b) \<and>
     Revision (sb_revision b) \<and> UnixMs (sb_createdAt b) \<and> opt_ok UnixMs (sb_disabledAt b) \<and>
     opt_ok OpaqueId (sb_replacedByBindingId b) \<and>
     (sb_status b = Enabled) = (sb_disabledAt b = None) \<and>
     opt_ok (\<lambda>t. \<not> t < sb_createdAt b) (sb_disabledAt b) \<and>
     sb_replacedByBindingId b \<noteq> Some (sb_id b)"

definition authority_principal_ok :: "authority_principal \<Rightarrow> bool" where
  "authority_principal_ok p \<longleftrightarrow> OpaqueId (ap_id p) \<and> WorkspaceId (ap_workspaceId p) \<and> Revision (ap_revision p)"

definition permission_set_ok :: "authority_host \<Rightarrow> permission_set_definition \<Rightarrow> bool" where
  "permission_set_ok h p \<longleftrightarrow>
     AbsoluteUri h (ps_uri p) \<and> 0 < ps_version p \<and> Digest (ps_implementationDigest p) \<and>
     1 \<le> length (ps_actions p) \<and> length (ps_actions p) \<le> length (ACTION_REGISTRY h) \<and>
     list_all (action_identity_ok h) (ps_actions p) \<and> sortedUnique (map ai_uri (ps_actions p))"

fun grant_scope_ok :: "grant_scope \<Rightarrow> bool" where
  "grant_scope_ok ScopeWorkspace \<longleftrightarrow> True"
| "grant_scope_ok (ScopeExact r) \<longleftrightarrow> resource_ref_ok r"

definition window_ok :: "int option \<Rightarrow> int option \<Rightarrow> bool" where
  "window_ok notBefore expiresAt \<longleftrightarrow> opt_ok UnixMs notBefore \<and> opt_ok UnixMs expiresAt \<and>
     opt_ok (\<lambda>n. opt_ok (\<lambda>e. \<not> n \<ge> e) expiresAt) notBefore"

definition authorization_grant_ok :: "authority_host \<Rightarrow> authorization_grant \<Rightarrow> bool" where
  "authorization_grant_ok h g \<longleftrightarrow>
     OpaqueId (ag_id g) \<and> WorkspaceId (ag_workspaceId g) \<and> OpaqueId (ag_grantorPrincipalId g) \<and>
     OpaqueId (ag_granteePrincipalId g) \<and> AbsoluteUri h (pr_uri (ag_permissionSet g)) \<and>
     0 < pr_version (ag_permissionSet g) \<and> Digest (pr_implementationDigest (ag_permissionSet g)) \<and>
     grant_scope_ok (ag_scope g) \<and> window_ok (ag_notBefore g) (ag_expiresAt g) \<and> Revision (ag_revision g)"

definition delegation_ok :: "authority_host \<Rightarrow> delegation \<Rightarrow> bool" where
  "delegation_ok h g \<longleftrightarrow>
     OpaqueId (dg_id g) \<and> WorkspaceId (dg_workspaceId g) \<and> OpaqueId (dg_subjectPrincipalId g) \<and>
     OpaqueId (dg_actorPrincipalId g) \<and> 1 \<le> length (dg_actions g) \<and>
     length (dg_actions g) \<le> length (ACTION_REGISTRY h) \<and> list_all (action_identity_ok h) (dg_actions g) \<and>
     grant_scope_ok (dg_scope g) \<and> window_ok (dg_notBefore g) (dg_expiresAt g) \<and> Revision (dg_revision g) \<and>
     sortedUnique (map ai_uri (dg_actions g)) \<and> list_all (registered_exact h) (dg_actions g) \<and>
     dg_subjectPrincipalId g \<noteq> dg_actorPrincipalId g"

definition eligibility_ok :: "authority_eligibility \<Rightarrow> bool" where
  "eligibility_ok e \<longleftrightarrow>
     OpaqueId (el_id e) \<and> WorkspaceId (el_workspaceId e) \<and> OpaqueId (el_principalId e) \<and>
     window_ok (el_notBefore e) (el_expiresAt e) \<and> Revision (el_revision e)"

definition bound_principal_ok :: "authority_host \<Rightarrow> bound_principal \<Rightarrow> bool" where
  "bound_principal_ok h b \<longleftrightarrow> subject_binding_ok h (bp_binding b) \<and> authority_principal_ok (bp_principal b)"

definition request_ok :: "authority_host \<Rightarrow> authorization_request \<Rightarrow> bool" where
  "request_ok h r \<longleftrightarrow>
     OpaqueId (rq_requestId r) \<and> WorkspaceId (rq_workspaceId r) \<and> AbsoluteUri h (rq_serviceAudience r) \<and>
     action_identity_ok h (rq_action r) \<and> resource_ref_ok (rq_resource r) \<and>
     verified_identity_ok h (rq_identity r) \<and> opt_ok (bound_principal_ok h) (rq_subject r) \<and>
     opt_ok (bound_principal_ok h) (rq_actor r) \<and>
     length (rq_permissionSets r) \<le> 100 \<and> list_all (permission_set_ok h) (rq_permissionSets r) \<and>
     length (rq_subjectGrants r) \<le> 100 \<and> list_all (authorization_grant_ok h) (rq_subjectGrants r) \<and>
     length (rq_actorGrants r) \<le> 100 \<and> list_all (authorization_grant_ok h) (rq_actorGrants r) \<and>
     opt_ok (delegation_ok h) (rq_delegation r) \<and>
     length (rq_eligibilities r) \<le> 100 \<and> list_all eligibility_ok (rq_eligibilities r) \<and>
     \<not> (rr_kind (rq_resource r) = RkWorkspace \<and> rr_id (rq_resource r) \<noteq> rq_workspaceId r)"

end
