(* ===== verification/Authority.thy ===== *)
theory Authority
  imports Authority_Contract
begin

text \<open>
  The decision on an authorization request (\<open>packages/tasq-authority/src/index.ts\<close>): the snapshot of
  permission sets, the grant that supports an action, the order in which a request is refused, and the
  decision with its digests. \<open>authorised\<close> says declaratively what an allowed request is.
\<close>

section \<open>The values digests are taken of\<close>

definition identity_json :: "action_identity \<Rightarrow> json" where
  "identity_json i = JObj [(''uri'', JStr (ai_uri i)), (''version'', JInt (ai_version i)),
     (''implementationDigest'', JStr (ai_implementationDigest i))]"

definition resource_json :: "resource_ref \<Rightarrow> json" where
  "resource_json r = JObj [(''kind'', JStr (resource_kind_text (rr_kind r))), (''id'', JStr (rr_id r))]"

fun credential_json :: "credential_binding \<Rightarrow> json" where
  "credential_json NoBinding = JObj [(''kind'', JStr ''none'')]"
| "credential_json (Dpop k) = JObj [(''kind'', JStr ''dpop''), (''keyThumbprintDigest'', JStr k)]"
| "credential_json (MtlsSpiffe u c) = JObj [(''kind'', JStr ''mtls_spiffe''), (''identityUri'', JStr u),
     (''certificateThumbprintDigest'', JStr c)]"

fun method_text :: "authentication_method \<Rightarrow> string" where
  "method_text OauthJwtAccessToken = ''oauth_jwt_access_token''"
| "method_text OauthIntrospection = ''oauth_introspection''"
| "method_text SpiffeSvid = ''spiffe_svid''"

definition verified_json :: "verified_identity \<Rightarrow> json" where
  "verified_json v = JObj [(''contractVersion'', JStr ''tasq.verified-identity.v1''),
     (''issuer'', JStr (vi_issuer v)), (''subject'', JStr (vi_subject v)),
     (''audience'', JArr (map JStr (vi_audience v))),
     (''authenticationMethod'', JStr (method_text (vi_authenticationMethod v))),
     (''authenticatedAt'', JInt (vi_authenticatedAt v)), (''notBefore'', nullable JInt (vi_notBefore v)),
     (''expiresAt'', JInt (vi_expiresAt v)), (''clientId'', nullable JStr (vi_clientId v)),
     (''actor'', nullable (\<lambda>a. JObj [(''issuer'', JStr (as_issuer a)), (''subject'', JStr (as_subject a))]) (vi_actor v)),
     (''credentialBinding'', credential_json (vi_credentialBinding v)),
     (''tokenIdDigest'', nullable JStr (vi_tokenIdDigest v)),
     (''issuerConfigurationDigest'', JStr (vi_issuerConfigurationDigest v)),
     (''credentialKeyDigest'', JStr (vi_credentialKeyDigest v)),
     (''actionUpperBound'', JArr (map identity_json (vi_actionUpperBound v)))]"

fun binding_method_text :: "binding_method \<Rightarrow> string" where
  "binding_method_text Oidc = ''oidc''"
| "binding_method_text BindingIntrospection = ''oauth_introspection''"
| "binding_method_text Spiffe = ''spiffe''"
| "binding_method_text (MethodUri u) = u"

definition enablement_text :: "enablement \<Rightarrow> string" where
  "enablement_text s = (case s of Enabled \<Rightarrow> ''enabled'' | Disabled \<Rightarrow> ''disabled'')"

definition standing_text :: "standing \<Rightarrow> string" where
  "standing_text s = (case s of StActive \<Rightarrow> ''active'' | StRevoked \<Rightarrow> ''revoked'')"

fun principal_kind_text :: "authority_principal_kind \<Rightarrow> string" where
  "principal_kind_text Human = ''human''"
| "principal_kind_text AgentKind = ''agent''"
| "principal_kind_text ServiceKind = ''service''"
| "principal_kind_text RuntimeKind = ''runtime''"

definition bound_json :: "bound_principal \<Rightarrow> json" where
  "bound_json b = (let s = bp_binding b; p = bp_principal b in JObj [
     (''binding'', JObj [(''contractVersion'', JStr ''tasq.subject-binding.v1''), (''id'', JStr (sb_id s)),
        (''workspaceId'', JStr (sb_workspaceId s)), (''principalId'', JStr (sb_principalId s)),
        (''issuer'', JStr (sb_issuer s)), (''subject'', JStr (sb_subject s)),
        (''method'', JStr (binding_method_text (sb_method s))), (''status'', JStr (enablement_text (sb_status s))),
        (''revision'', JInt (sb_revision s)), (''createdAt'', JInt (sb_createdAt s)),
        (''disabledAt'', nullable JInt (sb_disabledAt s)),
        (''replacedByBindingId'', nullable JStr (sb_replacedByBindingId s))]),
     (''principal'', JObj [(''id'', JStr (ap_id p)), (''workspaceId'', JStr (ap_workspaceId p)),
        (''kind'', JStr (principal_kind_text (ap_kind p))), (''status'', JStr (enablement_text (ap_status p))),
        (''revision'', JInt (ap_revision p))])])"

definition semantic_json :: "string \<Rightarrow> int \<Rightarrow> action_identity list \<Rightarrow> (string \<times> json) list" where
  "semantic_json uri version actions =
     [(''uri'', JStr uri), (''version'', JInt version), (''actions'', JArr (map identity_json actions))]"

definition permission_set_json :: "permission_set_definition \<Rightarrow> json" where
  "permission_set_json p = JObj ((''implementationDigest'', JStr (ps_implementationDigest p)) #
     semantic_json (ps_uri p) (ps_version p) (ps_actions p))"

fun scope_json :: "grant_scope \<Rightarrow> json" where
  "scope_json ScopeWorkspace = JObj [(''kind'', JStr ''workspace'')]"
| "scope_json (ScopeExact r) = JObj [(''kind'', JStr ''exact''), (''resource'', resource_json r)]"

definition grant_json :: "authorization_grant \<Rightarrow> json" where
  "grant_json g = JObj [(''contractVersion'', JStr ''tasq.authorization-grant.v1''), (''id'', JStr (ag_id g)),
     (''workspaceId'', JStr (ag_workspaceId g)), (''grantorPrincipalId'', JStr (ag_grantorPrincipalId g)),
     (''granteePrincipalId'', JStr (ag_granteePrincipalId g)),
     (''permissionSet'', JObj [(''uri'', JStr (pr_uri (ag_permissionSet g))),
        (''version'', JInt (pr_version (ag_permissionSet g))),
        (''implementationDigest'', JStr (pr_implementationDigest (ag_permissionSet g)))]),
     (''scope'', scope_json (ag_scope g)), (''notBefore'', nullable JInt (ag_notBefore g)),
     (''expiresAt'', nullable JInt (ag_expiresAt g)), (''status'', JStr (standing_text (ag_status g))),
     (''revision'', JInt (ag_revision g))]"

definition delegation_json :: "delegation \<Rightarrow> json" where
  "delegation_json g = JObj [(''contractVersion'', JStr ''tasq.delegation.v1''), (''id'', JStr (dg_id g)),
     (''workspaceId'', JStr (dg_workspaceId g)), (''subjectPrincipalId'', JStr (dg_subjectPrincipalId g)),
     (''actorPrincipalId'', JStr (dg_actorPrincipalId g)), (''actions'', JArr (map identity_json (dg_actions g))),
     (''scope'', scope_json (dg_scope g)), (''notBefore'', nullable JInt (dg_notBefore g)),
     (''expiresAt'', nullable JInt (dg_expiresAt g)), (''status'', JStr (standing_text (dg_status g))),
     (''revision'', JInt (dg_revision g))]"

definition eligibility_json :: "authority_eligibility \<Rightarrow> json" where
  "eligibility_json e = JObj [(''contractVersion'', JStr ''tasq.authority-eligibility.v1''), (''id'', JStr (el_id e)),
     (''workspaceId'', JStr (el_workspaceId e)), (''principalId'', JStr (el_principalId e)),
     (''kind'', JStr (eligibility_text (el_kind e))), (''status'', JStr (standing_text (el_status e))),
     (''notBefore'', nullable JInt (el_notBefore e)), (''expiresAt'', nullable JInt (el_expiresAt e)),
     (''revision'', JInt (el_revision e))]"

definition request_json :: "authorization_request \<Rightarrow> json" where
  "request_json r = JObj [(''contractVersion'', JStr ''tasq.authorization-request.v1''),
     (''requestId'', JStr (rq_requestId r)), (''workspaceId'', JStr (rq_workspaceId r)),
     (''serviceAudience'', JStr (rq_serviceAudience r)), (''action'', identity_json (rq_action r)),
     (''resource'', resource_json (rq_resource r)), (''identity'', verified_json (rq_identity r)),
     (''subject'', nullable bound_json (rq_subject r)), (''actor'', nullable bound_json (rq_actor r)),
     (''permissionSets'', JArr (map permission_set_json (rq_permissionSets r))),
     (''subjectGrants'', JArr (map grant_json (rq_subjectGrants r))),
     (''actorGrants'', JArr (map grant_json (rq_actorGrants r))),
     (''delegation'', nullable delegation_json (rq_delegation r)),
     (''eligibilities'', JArr (map eligibility_json (rq_eligibilities r)))]"

text \<open>\<open>sort\<close> with a comparator is stable.\<close>

definition compare_le :: "('a \<Rightarrow> 'a \<Rightarrow> int) \<Rightarrow> 'a \<Rightarrow> 'a \<Rightarrow> bool" where
  "compare_le cmp a b \<longleftrightarrow> cmp a b \<le> 0"

definition permission_set_compare :: "authority_host \<Rightarrow> permission_set_definition \<Rightarrow> permission_set_definition \<Rightarrow> int" where
  "permission_set_compare h a b =
     (let byUri = ah_localeCompare h (ps_uri a) (ps_uri b); byVersion = ps_version a - ps_version b
      in if byUri \<noteq> 0 then byUri else if byVersion \<noteq> 0 then byVersion
         else ah_localeCompare h (ps_implementationDigest a) (ps_implementationDigest b))"

definition sort_by_id :: "authority_host \<Rightarrow> ('a \<Rightarrow> string) \<Rightarrow> 'a list \<Rightarrow> 'a list" where
  "sort_by_id h k xs = sort_by (compare_le (\<lambda>a b. ah_localeCompare h (k a) (k b))) xs"

definition canonicalRequestSnapshot :: "authority_host \<Rightarrow> authorization_request \<Rightarrow> authorization_request" where
  "canonicalRequestSnapshot h r = r\<lparr>
     rq_permissionSets := sort_by (compare_le (permission_set_compare h)) (rq_permissionSets r),
     rq_subjectGrants := sort_by_id h ag_id (rq_subjectGrants r),
     rq_actorGrants := sort_by_id h ag_id (rq_actorGrants r),
     rq_eligibilities := sort_by_id h el_id (rq_eligibilities r)\<rparr>"

section \<open>Grants and their support\<close>

definition live :: "standing \<Rightarrow> int option \<Rightarrow> int option \<Rightarrow> int \<Rightarrow> bool" where
  "live status notBefore expiresAt now \<longleftrightarrow> status = StActive \<and>
     (case notBefore of None \<Rightarrow> True | Some n \<Rightarrow> n \<le> now) \<and>
     (case expiresAt of None \<Rightarrow> True | Some e \<Rightarrow> now < e)"

fun covers :: "grant_scope \<Rightarrow> resource_ref \<Rightarrow> bool" where
  "covers ScopeWorkspace resource \<longleftrightarrow> True"
| "covers (ScopeExact r) resource \<longleftrightarrow> rr_kind r = rr_kind resource \<and> rr_id r = rr_id resource"

definition permission_key :: "string \<Rightarrow> int \<Rightarrow> string" where
  "permission_key uri version = uri @ CHR 0x00 # dec_int version"

fun snapshot_definitions ::
  "authority_host \<Rightarrow> permission_set_definition list \<Rightarrow> (string \<rightharpoonup> permission_set_definition) \<Rightarrow> bool \<Rightarrow>
   authority_error + (string \<rightharpoonup> permission_set_definition) \<times> bool" where
  "snapshot_definitions h [] definitions valid = Inr (definitions, valid)"
| "snapshot_definitions h (d # ds) definitions valid =
     (let key = permission_key (ps_uri d) (ps_version d) in
      case digest h (JObj (semantic_json (ps_uri d) (ps_version d) (ps_actions d))) of Inl e \<Rightarrow> Inl e
      | Inr semantic \<Rightarrow> snapshot_definitions h ds (definitions(key \<mapsto> d))
          (valid \<and> definitions key = None \<and> semantic = ps_implementationDigest d \<and>
           list_all (registered_exact h) (ps_actions d)))"

definition grant_key :: "authorization_grant \<Rightarrow> string" where
  "grant_key g = permission_key (pr_uri (ag_permissionSet g)) (pr_version (ag_permissionSet g))"

definition grant_defined :: "(string \<rightharpoonup> permission_set_definition) \<Rightarrow> authorization_grant \<Rightarrow> bool" where
  "grant_defined definitions g \<longleftrightarrow> (case definitions (grant_key g) of None \<Rightarrow> False
     | Some d \<Rightarrow> ps_implementationDigest d = pr_implementationDigest (ag_permissionSet g))"

definition authoritySnapshot ::
  "authority_host \<Rightarrow> authorization_request \<Rightarrow> authority_error + (string \<rightharpoonup> permission_set_definition) \<times> bool" where
  "authoritySnapshot h r =
     (case snapshot_definitions h (rq_permissionSets r) Map.empty True of Inl e \<Rightarrow> Inl e
      | Inr (definitions, valid) \<Rightarrow>
          let allGrants = rq_subjectGrants r @ rq_actorGrants r in
          Inr (definitions, valid \<and> distinct (map ag_id allGrants) \<and> list_all (grant_defined definitions) allGrants \<and>
               distinct (map el_id (rq_eligibilities r))))"

record support =
  su_grantId :: string
  su_permissionDigest :: string

definition grant_matches ::
  "(string \<rightharpoonup> permission_set_definition) \<Rightarrow> string \<Rightarrow> authorization_request \<Rightarrow> action_definition \<Rightarrow> int \<Rightarrow>
   authorization_grant \<Rightarrow> bool" where
  "grant_matches definitions principalId r action now g \<longleftrightarrow>
     (if ag_workspaceId g \<noteq> rq_workspaceId r \<or> ag_granteePrincipalId g \<noteq> principalId \<or>
         \<not> live (ag_status g) (ag_notBefore g) (ag_expiresAt g) now \<or> \<not> covers (ag_scope g) (rq_resource r) then False
      else case definitions (grant_key g) of None \<Rightarrow> False
        | Some d \<Rightarrow> ps_implementationDigest d = pr_implementationDigest (ag_permissionSet g) \<and>
            list_ex (\<lambda>i. exactAction i action) (ps_actions d))"

definition supportingGrant ::
  "authority_host \<Rightarrow> authorization_grant list \<Rightarrow> string \<Rightarrow> authorization_request \<Rightarrow> action_definition \<Rightarrow>
   (string \<rightharpoonup> permission_set_definition) \<Rightarrow> int \<Rightarrow> support option" where
  "supportingGrant h grants principalId r action definitions now =
     (case sort_by_id h ag_id (filter (grant_matches definitions principalId r action now) grants) of
        [] \<Rightarrow> None
      | match # _ \<Rightarrow> Some \<lparr>su_grantId = ag_id match,
          su_permissionDigest = pr_implementationDigest (ag_permissionSet match)\<rparr>)"

definition bindingMatches :: "bound_principal \<Rightarrow> string \<Rightarrow> string \<Rightarrow> string \<Rightarrow> bool" where
  "bindingMatches bound workspaceId issuer subject \<longleftrightarrow>
     sb_workspaceId (bp_binding bound) = workspaceId \<and> ap_workspaceId (bp_principal bound) = workspaceId \<and>
     sb_principalId (bp_binding bound) = ap_id (bp_principal bound) \<and>
     sb_issuer (bp_binding bound) = issuer \<and> sb_subject (bp_binding bound) = subject"

section \<open>The decision\<close>

datatype authorization_reason =
    Allowed
  | UnknownAction
  | ActionIdentityMismatch
  | ActionResourceMismatch
  | ServiceAudienceMismatch
  | IdentityNotYetValid
  | IdentityExpired
  | MembershipRequired
  | SubjectBindingMismatch
  | SubjectBindingNotYetValid
  | SubjectBindingDisabled
  | SubjectPrincipalDisabled
  | ActorBindingRequired
  | ActorBindingMismatch
  | ActorBindingNotYetValid
  | ActorBindingDisabled
  | ActorPrincipalDisabled
  | SenderConstraintRequired
  | TokenUpperBoundDenied
  | AuthoritySnapshotInvalid
  | SubjectGrantDenied
  | ActorGrantDenied
  | DelegationDenied
  | EffectEligibilityRequired

fun reason_text :: "authorization_reason \<Rightarrow> string" where
  "reason_text Allowed = ''allowed''"
| "reason_text UnknownAction = ''unknown_action''"
| "reason_text ActionIdentityMismatch = ''action_identity_mismatch''"
| "reason_text ActionResourceMismatch = ''action_resource_mismatch''"
| "reason_text ServiceAudienceMismatch = ''service_audience_mismatch''"
| "reason_text IdentityNotYetValid = ''identity_not_yet_valid''"
| "reason_text IdentityExpired = ''identity_expired''"
| "reason_text MembershipRequired = ''membership_required''"
| "reason_text SubjectBindingMismatch = ''subject_binding_mismatch''"
| "reason_text SubjectBindingNotYetValid = ''subject_binding_not_yet_valid''"
| "reason_text SubjectBindingDisabled = ''subject_binding_disabled''"
| "reason_text SubjectPrincipalDisabled = ''subject_principal_disabled''"
| "reason_text ActorBindingRequired = ''actor_binding_required''"
| "reason_text ActorBindingMismatch = ''actor_binding_mismatch''"
| "reason_text ActorBindingNotYetValid = ''actor_binding_not_yet_valid''"
| "reason_text ActorBindingDisabled = ''actor_binding_disabled''"
| "reason_text ActorPrincipalDisabled = ''actor_principal_disabled''"
| "reason_text SenderConstraintRequired = ''sender_constraint_required''"
| "reason_text TokenUpperBoundDenied = ''token_upper_bound_denied''"
| "reason_text AuthoritySnapshotInvalid = ''authority_snapshot_invalid''"
| "reason_text SubjectGrantDenied = ''subject_grant_denied''"
| "reason_text ActorGrantDenied = ''actor_grant_denied''"
| "reason_text DelegationDenied = ''delegation_denied''"
| "reason_text EffectEligibilityRequired = ''effect_eligibility_required''"

datatype authorization_outcome = AllowDecision | DenyDecision

fun outcome_text :: "authorization_outcome \<Rightarrow> string" where
  "outcome_text AllowDecision = ''allow''"
| "outcome_text DenyDecision = ''deny''"

record authorization_decision =
  dc_decisionId :: string
  dc_requestId :: string
  dc_workspaceId :: string
  dc_evaluatedAt :: int
  dc_subjectPrincipalId :: "string option"
  dc_actorPrincipalId :: "string option"
  dc_actionUri :: string
  dc_resourceKind :: resource_kind
  dc_resourceId :: string
  dc_decision :: authorization_outcome
  dc_reasonCode :: authorization_reason
  dc_grantIds :: "string list"
  dc_permissionSetDigests :: "string list"
  dc_policyImplementationDigest :: string
  dc_requestDigest :: string

definition decision_ok :: "authority_host \<Rightarrow> authorization_decision \<Rightarrow> bool" where
  "decision_ok h d \<longleftrightarrow>
     Digest (dc_decisionId d) \<and> OpaqueId (dc_requestId d) \<and> WorkspaceId (dc_workspaceId d) \<and>
     UnixMs (dc_evaluatedAt d) \<and> opt_ok OpaqueId (dc_subjectPrincipalId d) \<and>
     opt_ok OpaqueId (dc_actorPrincipalId d) \<and> AbsoluteUri h (dc_actionUri d) \<and> OpaqueId (dc_resourceId d) \<and>
     length (dc_grantIds d) \<le> 2 \<and> list_all OpaqueId (dc_grantIds d) \<and>
     length (dc_permissionSetDigests d) \<le> 2 \<and> list_all Digest (dc_permissionSetDigests d) \<and>
     Digest (dc_policyImplementationDigest d) \<and> Digest (dc_requestDigest d) \<and>
     (dc_decision d = AllowDecision) = (dc_reasonCode d = Allowed) \<and>
     \<not> (dc_decision d = DenyDecision \<and> (dc_grantIds d \<noteq> [] \<or> dc_permissionSetDigests d \<noteq> []))"

text \<open>The checks of the action, the audience and the identity; on success the registered action.\<close>

definition request_checks ::
  "authority_host \<Rightarrow> authorization_request \<Rightarrow> int \<Rightarrow> authorization_reason + action_definition" where
  "request_checks h r evaluatedAt = (case getRegisteredAction h (ai_uri (rq_action r)) of None \<Rightarrow> Inl UnknownAction
     | Some action \<Rightarrow>
         if \<not> exactAction (rq_action r) action then Inl ActionIdentityMismatch
         else if rr_kind (rq_resource r) \<notin> set (ad_resourceKinds action) then Inl ActionResourceMismatch
         else if rq_serviceAudience r \<notin> set (vi_audience (rq_identity r)) then Inl ServiceAudienceMismatch
         else if (case vi_notBefore (rq_identity r) of None \<Rightarrow> False | Some n \<Rightarrow> evaluatedAt < n)
           then Inl IdentityNotYetValid
         else if evaluatedAt < vi_authenticatedAt (rq_identity r) then Inl IdentityNotYetValid
         else if evaluatedAt \<ge> vi_expiresAt (rq_identity r) then Inl IdentityExpired
         else Inr action)"

definition subject_checks ::
  "authorization_request \<Rightarrow> int \<Rightarrow> authorization_reason + bound_principal" where
  "subject_checks r evaluatedAt = (case rq_subject r of None \<Rightarrow> Inl MembershipRequired
     | Some subject \<Rightarrow>
         if \<not> bindingMatches subject (rq_workspaceId r) (vi_issuer (rq_identity r)) (vi_subject (rq_identity r))
           then Inl SubjectBindingMismatch
         else if evaluatedAt < sb_createdAt (bp_binding subject) then Inl SubjectBindingNotYetValid
         else if sb_status (bp_binding subject) \<noteq> Enabled then Inl SubjectBindingDisabled
         else if ap_status (bp_principal subject) \<noteq> Enabled then Inl SubjectPrincipalDisabled
         else Inr subject)"

definition actor_checks ::
  "authorization_request \<Rightarrow> int \<Rightarrow> authorization_reason + bound_principal option" where
  "actor_checks r evaluatedAt = (case vi_actor (rq_identity r) of
       None \<Rightarrow> if rq_actor r \<noteq> None then Inl ActorBindingMismatch else Inr None
     | Some a \<Rightarrow> (case rq_actor r of None \<Rightarrow> Inl ActorBindingRequired
         | Some actor \<Rightarrow>
             if \<not> bindingMatches actor (rq_workspaceId r) (as_issuer a) (as_subject a) then Inl ActorBindingMismatch
             else if evaluatedAt < sb_createdAt (bp_binding actor) then Inl ActorBindingNotYetValid
             else if sb_status (bp_binding actor) \<noteq> Enabled then Inl ActorBindingDisabled
             else if ap_status (bp_principal actor) \<noteq> Enabled then Inl ActorPrincipalDisabled
             else Inr (Some actor)))"

definition token_checks :: "authorization_request \<Rightarrow> action_definition \<Rightarrow> authorization_reason + unit" where
  "token_checks r action =
     (if ad_senderConstraint action = SenderRequired \<and> vi_credentialBinding (rq_identity r) = NoBinding
        then Inl SenderConstraintRequired
      else if \<not> list_ex (\<lambda>i. exactAction i action) (vi_actionUpperBound (rq_identity r))
        then Inl TokenUpperBoundDenied
      else Inr ())"

definition delegation_holds ::
  "authorization_request \<Rightarrow> string \<Rightarrow> string \<Rightarrow> action_definition \<Rightarrow> int \<Rightarrow> bool" where
  "delegation_holds r subjectId actorId action evaluatedAt \<longleftrightarrow> (case rq_delegation r of None \<Rightarrow> False
     | Some g \<Rightarrow> dg_workspaceId g = rq_workspaceId r \<and> dg_subjectPrincipalId g = subjectId \<and>
         dg_actorPrincipalId g = actorId \<and> live (dg_status g) (dg_notBefore g) (dg_expiresAt g) evaluatedAt \<and>
         covers (dg_scope g) (rq_resource r) \<and> list_ex (\<lambda>i. exactAction i action) (dg_actions g))"

definition grant_checks ::
  "authority_host \<Rightarrow> authorization_request \<Rightarrow> int \<Rightarrow> action_definition \<Rightarrow> bound_principal \<Rightarrow> bound_principal option \<Rightarrow>
   (string \<rightharpoonup> permission_set_definition) \<times> bool \<Rightarrow> authorization_reason + support list" where
  "grant_checks h r evaluatedAt action subject actor snapshot = (case snapshot of (definitions, valid) \<Rightarrow>
     if \<not> valid then Inl AuthoritySnapshotInvalid
     else case supportingGrant h (rq_subjectGrants r) (ap_id (bp_principal subject)) r action definitions evaluatedAt of
       None \<Rightarrow> Inl SubjectGrantDenied
     | Some subjectSupport \<Rightarrow> (case actor of
         Some a \<Rightarrow>
           (case supportingGrant h (rq_actorGrants r) (ap_id (bp_principal a)) r action definitions evaluatedAt of
              None \<Rightarrow> Inl ActorGrantDenied
            | Some actorSupport \<Rightarrow>
                if \<not> delegation_holds r (ap_id (bp_principal subject)) (ap_id (bp_principal a)) action evaluatedAt
                  then Inl DelegationDenied
                else Inr [subjectSupport, actorSupport])
       | None \<Rightarrow> if rq_delegation r \<noteq> None \<or> rq_actorGrants r \<noteq> [] then Inl AuthoritySnapshotInvalid
           else Inr [subjectSupport]))"

definition eligibility_checks ::
  "authorization_request \<Rightarrow> int \<Rightarrow> action_definition \<Rightarrow> authority_principal \<Rightarrow> authorization_reason + unit" where
  "eligibility_checks r evaluatedAt action effectiveActor = (case ad_eligibility action of None \<Rightarrow> Inr ()
     | Some kind \<Rightarrow>
         if kind = EffectConnector \<and> ap_kind effectiveActor \<noteq> ServiceKind then Inl EffectEligibilityRequired
         else if \<not> list_ex (\<lambda>e. el_workspaceId e = rq_workspaceId r \<and> el_principalId e = ap_id effectiveActor \<and>
              el_kind e = kind \<and> live (el_status e) (el_notBefore e) (el_expiresAt e) evaluatedAt) (rq_eligibilities r)
           then Inl EffectEligibilityRequired
         else Inr ())"

text \<open>The refusals in their order: a reason, or the grants that support the request.\<close>

definition authorization_verdict ::
  "authority_host \<Rightarrow> authorization_request \<Rightarrow> int \<Rightarrow> authority_error + (authorization_reason + support list)" where
  "authorization_verdict h r evaluatedAt = (case request_checks h r evaluatedAt of Inl reason \<Rightarrow> Inr (Inl reason)
   | Inr action \<Rightarrow> (case subject_checks r evaluatedAt of Inl reason \<Rightarrow> Inr (Inl reason)
   | Inr subject \<Rightarrow> (case actor_checks r evaluatedAt of Inl reason \<Rightarrow> Inr (Inl reason)
   | Inr actor \<Rightarrow> (case token_checks r action of Inl reason \<Rightarrow> Inr (Inl reason)
   | Inr _ \<Rightarrow> (case authoritySnapshot h r of Inl e \<Rightarrow> Inl e
   | Inr snapshot \<Rightarrow> (case grant_checks h r evaluatedAt action subject actor snapshot of Inl reason \<Rightarrow> Inr (Inl reason)
   | Inr supports \<Rightarrow>
       (case eligibility_checks r evaluatedAt action (bp_principal (case actor of None \<Rightarrow> subject | Some a \<Rightarrow> a)) of
          Inl reason \<Rightarrow> Inr (Inl reason)
        | Inr _ \<Rightarrow> Inr (Inr supports))))))))"

definition finish ::
  "authority_host \<Rightarrow> authorization_request \<Rightarrow> int \<Rightarrow> string \<Rightarrow> authorization_outcome \<Rightarrow> authorization_reason \<Rightarrow>
   support list \<Rightarrow> authority_error + authorization_decision" where
  "finish h r evaluatedAt requestDigest decision reasonCode supports =
     (let subjectPrincipalId = map_option (\<lambda>b. ap_id (bp_principal b)) (rq_subject r);
          actorPrincipalId = (case vi_actor (rq_identity r) of None \<Rightarrow> subjectPrincipalId
            | Some _ \<Rightarrow> map_option (\<lambda>b. ap_id (bp_principal b)) (rq_actor r));
          grantIds = sort (map su_grantId supports);
          permissionSetDigests = sort (remdups (map su_permissionDigest supports));
          identity = JObj [
            (''policyImplementationDigest'', JStr (AUTHORIZATION_POLICY_IMPLEMENTATION_DIGEST h)),
            (''requestDigest'', JStr requestDigest), (''evaluatedAt'', JInt evaluatedAt),
            (''decision'', JStr (outcome_text decision)), (''reasonCode'', JStr (reason_text reasonCode)),
            (''grantIds'', JArr (map JStr grantIds)),
            (''permissionSetDigests'', JArr (map JStr permissionSetDigests))]
      in case digest h identity of Inl e \<Rightarrow> Inl e
       | Inr decisionId \<Rightarrow>
           let d = \<lparr>dc_decisionId = decisionId, dc_requestId = rq_requestId r, dc_workspaceId = rq_workspaceId r,
             dc_evaluatedAt = evaluatedAt, dc_subjectPrincipalId = subjectPrincipalId,
             dc_actorPrincipalId = actorPrincipalId, dc_actionUri = ai_uri (rq_action r),
             dc_resourceKind = rr_kind (rq_resource r), dc_resourceId = rr_id (rq_resource r),
             dc_decision = decision, dc_reasonCode = reasonCode,
             dc_grantIds = (if decision = AllowDecision then grantIds else []),
             dc_permissionSetDigests = (if decision = AllowDecision then permissionSetDigests else []),
             dc_policyImplementationDigest = AUTHORIZATION_POLICY_IMPLEMENTATION_DIGEST h,
             dc_requestDigest = requestDigest\<rparr>
           in if decision_ok h d then Inr d else Inl InvalidContract)"

text \<open>The clock is the number it reads, or \<open>None\<close> when no clock was injected.\<close>

definition authorityNow :: "int option \<Rightarrow> authority_error + int" where
  "authorityNow clock = (case clock of
     None \<Rightarrow> Inl (ClockRequired ''authorization requires an injected Clock'')
   | Some n \<Rightarrow> if UnixMs n then Inr n else Inl InvalidContract)"

definition evaluateAuthorization ::
  "authority_host \<Rightarrow> authorization_request \<Rightarrow> int option \<Rightarrow> authority_error + authorization_decision" where
  "evaluateAuthorization h request clock =
     (if \<not> request_ok h request then Inl InvalidContract
      else case authorityNow clock of Inl e \<Rightarrow> Inl e
      | Inr evaluatedAt \<Rightarrow>
          (case digest h (request_json (canonicalRequestSnapshot h request)) of Inl e \<Rightarrow> Inl e
           | Inr requestDigest \<Rightarrow>
               (case authorization_verdict h request evaluatedAt of Inl e \<Rightarrow> Inl e
                | Inr (Inl reason) \<Rightarrow> finish h request evaluatedAt requestDigest DenyDecision reason []
                | Inr (Inr supports) \<Rightarrow> finish h request evaluatedAt requestDigest AllowDecision Allowed supports)))"

definition definePermissionSet ::
  "authority_host \<Rightarrow> string \<Rightarrow> int \<Rightarrow> action_definition list \<Rightarrow> authority_error + permission_set_definition" where
  "definePermissionSet h uri version input =
     (let actions = sort_by_id h ai_uri (map (\<lambda>a. \<lparr>ai_uri = ad_uri a, ai_version = ad_version a,
            ai_implementationDigest = ad_implementationDigest a\<rparr>) input)
      in case digest h (JObj (semantic_json uri version actions)) of Inl e \<Rightarrow> Inl e
       | Inr dg \<Rightarrow>
           let p = \<lparr>ps_uri = uri, ps_version = version, ps_implementationDigest = dg, ps_actions = actions\<rparr>
           in if permission_set_ok h p then Inr p else Inl InvalidContract)"

section \<open>Requests whose digests exist\<close>

text \<open>The versions of actions and permission sets are the only numbers the schemas leave unbounded.\<close>

definition safe_identity :: "action_identity \<Rightarrow> bool" where
  "safe_identity i \<longleftrightarrow> isSafeInteger (ai_version i)"

definition versions_safe :: "authorization_request \<Rightarrow> bool" where
  "versions_safe r \<longleftrightarrow> safe_identity (rq_action r) \<and> list_all safe_identity (vi_actionUpperBound (rq_identity r)) \<and>
     list_all (\<lambda>p. isSafeInteger (ps_version p) \<and> list_all safe_identity (ps_actions p)) (rq_permissionSets r) \<and>
     list_all (\<lambda>g. isSafeInteger (pr_version (ag_permissionSet g))) (rq_subjectGrants r @ rq_actorGrants r) \<and>
     opt_ok (\<lambda>g. list_all safe_identity (dg_actions g)) (rq_delegation r)"

lemma UnixMs_safe [simp]: "UnixMs n \<Longrightarrow> isSafeInteger n"
  by (simp add: UnixMs_def isSafeInteger_def MAX_SAFE_INTEGER_def)

lemma Revision_safe [simp]: "Revision n \<Longrightarrow> isSafeInteger n"
  by (simp add: Revision_def isSafeInteger_def MAX_SAFE_INTEGER_def)

lemma portable_nullable [simp]: "portable (nullable j x) \<longleftrightarrow> opt_ok (\<lambda>v. portable (j v)) x"
  by (cases x) (simp_all add: nullable_def)

lemma opt_ok_mono: "opt_ok P x \<Longrightarrow> (\<And>v. P v \<Longrightarrow> Q v) \<Longrightarrow> opt_ok Q x"
  by (cases x) simp_all

lemma opt_ok_True [simp]: "opt_ok (\<lambda>v. True) x"
  by (cases x) simp_all

lemma portable_identity [simp]: "portable (identity_json i) \<longleftrightarrow> safe_identity i"
  by (simp add: identity_json_def safe_identity_def)

lemma portable_identities: "list_all portable (map identity_json is) \<longleftrightarrow> list_all safe_identity is"
  by (induction "is") simp_all

lemma portable_credential [simp]: "portable (credential_json c)"
  by (cases c) simp_all

lemma portable_resource [simp]: "portable (resource_json r)"
  by (simp add: resource_json_def)

lemma portable_scope [simp]: "portable (scope_json sc)"
  by (cases sc) simp_all

lemma portable_strings [simp]: "list_all portable (map JStr xs)"
  by (induction xs) simp_all

lemma portable_verified:
  "verified_identity_ok h v \<Longrightarrow> list_all safe_identity (vi_actionUpperBound v) \<Longrightarrow> portable (verified_json v)"
  by (auto simp: verified_json_def verified_identity_ok_def portable_identities intro: opt_ok_mono)

lemma portable_bound: "bound_principal_ok h b \<Longrightarrow> portable (bound_json b)"
  by (auto simp: bound_json_def Let_def bound_principal_ok_def subject_binding_ok_def authority_principal_ok_def
      intro: opt_ok_mono)

lemma portable_semantic:
  "portable (JObj (semantic_json u n as)) \<longleftrightarrow> isSafeInteger n \<and> list_all safe_identity as"
  by (simp add: semantic_json_def portable_identities)

lemma portable_permission_set:
  "isSafeInteger (ps_version p) \<Longrightarrow> list_all safe_identity (ps_actions p) \<Longrightarrow> portable (permission_set_json p)"
  using portable_semantic [of "ps_uri p" "ps_version p" "ps_actions p"] by (simp add: permission_set_json_def)

lemma window_portable: "window_ok a b \<Longrightarrow> opt_ok isSafeInteger a \<and> opt_ok isSafeInteger b"
  by (auto simp: window_ok_def intro: opt_ok_mono)

lemma portable_grant:
  "authorization_grant_ok h g \<Longrightarrow> isSafeInteger (pr_version (ag_permissionSet g)) \<Longrightarrow> portable (grant_json g)"
  by (auto simp: grant_json_def authorization_grant_ok_def dest: window_portable)

lemma portable_delegation:
  "delegation_ok h g \<Longrightarrow> list_all safe_identity (dg_actions g) \<Longrightarrow> portable (delegation_json g)"
  by (auto simp: delegation_json_def delegation_ok_def portable_identities dest: window_portable)

lemma portable_eligibility: "eligibility_ok e \<Longrightarrow> portable (eligibility_json e)"
  by (auto simp: eligibility_json_def eligibility_ok_def dest: window_portable)

lemma portable_request:
  assumes ok: "request_ok h r" and safe: "versions_safe r"
  shows "portable (request_json (canonicalRequestSnapshot h r))"
proof -
  have "portable (verified_json (rq_identity r))"
    using assms by (auto simp: request_ok_def versions_safe_def intro: portable_verified)
  moreover have "opt_ok (\<lambda>b. portable (bound_json b)) (rq_subject r)" "opt_ok (\<lambda>b. portable (bound_json b)) (rq_actor r)"
    using ok by (auto simp: request_ok_def intro: opt_ok_mono portable_bound)
  moreover have "\<forall>p \<in> set (rq_permissionSets r). portable (permission_set_json p)"
    using safe by (auto simp: versions_safe_def list_all_iff intro!: portable_permission_set)
  moreover have "\<forall>g \<in> set (rq_subjectGrants r) \<union> set (rq_actorGrants r). portable (grant_json g)"
    using assms by (auto simp: request_ok_def versions_safe_def list_all_iff intro!: portable_grant)
  moreover have "opt_ok (\<lambda>g. portable (delegation_json g)) (rq_delegation r)"
    using assms by (cases "rq_delegation r") (auto simp: request_ok_def versions_safe_def intro: portable_delegation)
  moreover have "\<forall>e \<in> set (rq_eligibilities r). portable (eligibility_json e)"
    using ok by (auto simp: request_ok_def list_all_iff intro: portable_eligibility)
  moreover have "safe_identity (rq_action r)" using safe by (simp add: versions_safe_def)
  ultimately show ?thesis
    by (simp add: request_json_def canonicalRequestSnapshot_def sort_by_id_def list_all_iff)
qed

section \<open>What the snapshot of permission sets means\<close>

definition set_key :: "permission_set_definition \<Rightarrow> string" where
  "set_key p = permission_key (ps_uri p) (ps_version p)"

definition definition_sound :: "authority_host \<Rightarrow> permission_set_definition \<Rightarrow> bool" where
  "definition_sound h p \<longleftrightarrow>
     digest h (JObj (semantic_json (ps_uri p) (ps_version p) (ps_actions p))) = Inr (ps_implementationDigest p) \<and>
     (\<forall>i \<in> set (ps_actions p). \<exists>a \<in> set (ACTION_REGISTRY h). exactAction i a)"

definition grant_set :: "permission_set_definition list \<Rightarrow> authorization_grant \<Rightarrow> permission_set_definition \<Rightarrow> bool" where
  "grant_set ps g p \<longleftrightarrow> p \<in> set ps \<and> set_key p = grant_key g \<and>
     ps_implementationDigest p = pr_implementationDigest (ag_permissionSet g)"

definition snapshot_sound :: "authority_host \<Rightarrow> authorization_request \<Rightarrow> bool" where
  "snapshot_sound h r \<longleftrightarrow> distinct (map set_key (rq_permissionSets r)) \<and>
     (\<forall>p \<in> set (rq_permissionSets r). definition_sound h p) \<and>
     distinct (map ag_id (rq_subjectGrants r @ rq_actorGrants r)) \<and>
     (\<forall>g \<in> set (rq_subjectGrants r) \<union> set (rq_actorGrants r). \<exists>p. grant_set (rq_permissionSets r) g p) \<and>
     distinct (map el_id (rq_eligibilities r))"

definition definitions_of :: "permission_set_definition list \<Rightarrow> string \<rightharpoonup> permission_set_definition" where
  "definitions_of ps = map_of (rev (map (\<lambda>p. (set_key p, p)) ps))"

lemma definitions_of_Some:
  "distinct (map set_key ps) \<Longrightarrow> definitions_of ps k = Some p \<longleftrightarrow> p \<in> set ps \<and> set_key p = k"
  by (auto simp: definitions_of_def map_of_rev_distinct o_def)

lemma snapshot_definitions_eq:
  assumes "\<forall>p \<in> set ps. portable (JObj (semantic_json (ps_uri p) (ps_version p) (ps_actions p)))"
  shows "snapshot_definitions h ps m v = Inr (m ++ definitions_of ps,
    v \<and> distinct (map set_key ps) \<and> (\<forall>p \<in> set ps. m (set_key p) = None) \<and> (\<forall>p \<in> set ps. definition_sound h p))"
  using assms
proof (induction ps arbitrary: m v)
  case (Cons p ps)
  let ?m = "m(set_key p \<mapsto> p)" and ?v = "v \<and> m (set_key p) = None \<and> definition_sound h p"
  obtain dg where "digest h (JObj (semantic_json (ps_uri p) (ps_version p) (ps_actions p))) = Inr dg"
    using Cons.prems digest_portable by (meson list.set_intros(1))
  then have step: "snapshot_definitions h (p # ps) m v = snapshot_definitions h ps ?m ?v"
    by (simp add: definition_sound_def set_key_def Let_def list_all_iff registered_exact_iff)
  have prems: "\<forall>q \<in> set ps. portable (JObj (semantic_json (ps_uri q) (ps_version q) (ps_actions q)))"
    using Cons.prems by simp
  have map: "?m ++ definitions_of ps = m ++ definitions_of (p # ps)"
    by (simp add: definitions_of_def)
  have valid: "(?v \<and> distinct (map set_key ps) \<and> (\<forall>q \<in> set ps. ?m (set_key q) = None) \<and> (\<forall>q \<in> set ps. definition_sound h q)) \<longleftrightarrow>
      (v \<and> distinct (map set_key (p # ps)) \<and> (\<forall>q \<in> set (p # ps). m (set_key q) = None) \<and> (\<forall>q \<in> set (p # ps). definition_sound h q))"
    by (auto intro: rev_image_eqI)
  show ?case unfolding step Cons.IH [OF prems] map valid ..
qed (simp add: definitions_of_def)

lemma grant_defined_iff:
  "distinct (map set_key ps) \<Longrightarrow> grant_defined (definitions_of ps) g \<longleftrightarrow> (\<exists>p. grant_set ps g p)"
  by (auto simp: grant_defined_def grant_set_def definitions_of_Some split: option.splits)
    (metis definitions_of_Some option.distinct(1) option.inject)+

lemma authoritySnapshot_eq:
  assumes "versions_safe r"
  shows "authoritySnapshot h r = Inr (definitions_of (rq_permissionSets r), snapshot_sound h r)"
proof -
  have "\<forall>p \<in> set (rq_permissionSets r). portable (JObj (semantic_json (ps_uri p) (ps_version p) (ps_actions p)))"
    using assms by (simp only: versions_safe_def list_all_iff portable_semantic) blast
  note eq = snapshot_definitions_eq [OF this, of h Map.empty True]
  show ?thesis
  proof (cases "distinct (map set_key (rq_permissionSets r))")
    case True
    then show ?thesis
      by (auto simp: authoritySnapshot_def eq snapshot_sound_def list_all_iff grant_defined_iff Let_def)
  next
    case False
    then show ?thesis by (simp add: authoritySnapshot_def eq snapshot_sound_def Let_def)
  qed
qed

section \<open>What an allowed request is\<close>

definition in_force :: "standing \<Rightarrow> int option \<Rightarrow> int option \<Rightarrow> int \<Rightarrow> bool" where
  "in_force status notBefore expiresAt now \<longleftrightarrow>
     status = StActive \<and> opt_ok (\<lambda>n. n \<le> now) notBefore \<and> opt_ok (\<lambda>e. now < e) expiresAt"

definition in_scope :: "grant_scope \<Rightarrow> resource_ref \<Rightarrow> bool" where
  "in_scope sc r \<longleftrightarrow> sc = ScopeWorkspace \<or> sc = ScopeExact r"

lemma live_iff [simp]: "live status n e now \<longleftrightarrow> in_force status n e now"
  by (cases n; cases e) (simp_all add: live_def in_force_def)

lemma covers_iff [simp]: "covers sc r \<longleftrightarrow> in_scope sc r"
  by (cases sc) (auto simp: in_scope_def)

definition grant_authorises ::
  "authorization_request \<Rightarrow> action_definition \<Rightarrow> string \<Rightarrow> int \<Rightarrow> authorization_grant \<Rightarrow> bool" where
  "grant_authorises r action principalId now g \<longleftrightarrow>
     ag_workspaceId g = rq_workspaceId r \<and> ag_granteePrincipalId g = principalId \<and>
     in_force (ag_status g) (ag_notBefore g) (ag_expiresAt g) now \<and> in_scope (ag_scope g) (rq_resource r) \<and>
     (\<exists>p. grant_set (rq_permissionSets r) g p \<and> (\<exists>i \<in> set (ps_actions p). exactAction i action))"

definition delegates ::
  "authorization_request \<Rightarrow> action_definition \<Rightarrow> string \<Rightarrow> string \<Rightarrow> int \<Rightarrow> delegation \<Rightarrow> bool" where
  "delegates r action subjectId actorId now g \<longleftrightarrow>
     dg_workspaceId g = rq_workspaceId r \<and> dg_subjectPrincipalId g = subjectId \<and> dg_actorPrincipalId g = actorId \<and>
     in_force (dg_status g) (dg_notBefore g) (dg_expiresAt g) now \<and> in_scope (dg_scope g) (rq_resource r) \<and>
     (\<exists>i \<in> set (dg_actions g). exactAction i action)"

lemma delegation_holds_iff [simp]:
  "delegation_holds r i j action now \<longleftrightarrow> (\<exists>g. rq_delegation r = Some g \<and> delegates r action i j now g)"
  by (cases "rq_delegation r") (auto simp: delegation_holds_def delegates_def list_ex_iff)

definition identity_current :: "verified_identity \<Rightarrow> int \<Rightarrow> bool" where
  "identity_current v now \<longleftrightarrow> opt_ok (\<lambda>n. n \<le> now) (vi_notBefore v) \<and> vi_authenticatedAt v \<le> now \<and> now < vi_expiresAt v"

definition member :: "bound_principal \<Rightarrow> string \<Rightarrow> string \<Rightarrow> string \<Rightarrow> int \<Rightarrow> bool" where
  "member b workspaceId issuer subject now \<longleftrightarrow> bindingMatches b workspaceId issuer subject \<and>
     sb_createdAt (bp_binding b) \<le> now \<and> sb_status (bp_binding b) = Enabled \<and> ap_status (bp_principal b) = Enabled"

definition eligible :: "authorization_request \<Rightarrow> action_definition \<Rightarrow> authority_principal \<Rightarrow> int \<Rightarrow> bool" where
  "eligible r action p now \<longleftrightarrow> (\<forall>kind. ad_eligibility action = Some kind \<longrightarrow>
     (kind = EffectConnector \<longrightarrow> ap_kind p = ServiceKind) \<and>
     (\<exists>e \<in> set (rq_eligibilities r). el_workspaceId e = rq_workspaceId r \<and> el_principalId e = ap_id p \<and>
        el_kind e = kind \<and> in_force (el_status e) (el_notBefore e) (el_expiresAt e) now))"

definition acting_principal ::
  "authorization_request \<Rightarrow> action_definition \<Rightarrow> bound_principal \<Rightarrow> int \<Rightarrow> authority_principal \<Rightarrow> bool" where
  "acting_principal r action subject now p \<longleftrightarrow> (case vi_actor (rq_identity r) of
       None \<Rightarrow> rq_actor r = None \<and> rq_delegation r = None \<and> rq_actorGrants r = [] \<and> p = bp_principal subject
     | Some a \<Rightarrow> (\<exists>actor. rq_actor r = Some actor \<and> p = bp_principal actor \<and>
         member actor (rq_workspaceId r) (as_issuer a) (as_subject a) now \<and>
         (\<exists>g \<in> set (rq_actorGrants r). grant_authorises r action (ap_id p) now g) \<and>
         (\<exists>g. rq_delegation r = Some g \<and> delegates r action (ap_id (bp_principal subject)) (ap_id p) now g)))"

definition authorised_as ::
  "authority_host \<Rightarrow> authorization_request \<Rightarrow> int \<Rightarrow> action_definition \<Rightarrow> bound_principal \<Rightarrow> authority_principal \<Rightarrow> bool" where
  "authorised_as h r now action subject p \<longleftrightarrow>
     action \<in> set (ACTION_REGISTRY h) \<and> exactAction (rq_action r) action \<and>
     rr_kind (rq_resource r) \<in> set (ad_resourceKinds action) \<and>
     rq_serviceAudience r \<in> set (vi_audience (rq_identity r)) \<and> identity_current (rq_identity r) now \<and>
     rq_subject r = Some subject \<and>
     member subject (rq_workspaceId r) (vi_issuer (rq_identity r)) (vi_subject (rq_identity r)) now \<and>
     (ad_senderConstraint action = SenderRequired \<longrightarrow> vi_credentialBinding (rq_identity r) \<noteq> NoBinding) \<and>
     (\<exists>i \<in> set (vi_actionUpperBound (rq_identity r)). exactAction i action) \<and>
     snapshot_sound h r \<and>
     (\<exists>g \<in> set (rq_subjectGrants r). grant_authorises r action (ap_id (bp_principal subject)) now g) \<and>
     acting_principal r action subject now p \<and> eligible r action p now"

definition authorised :: "authority_host \<Rightarrow> authorization_request \<Rightarrow> int \<Rightarrow> bool" where
  "authorised h r now \<longleftrightarrow> (\<exists>action subject p. authorised_as h r now action subject p)"

lemma sort_by_Nil_iff [simp]: "sort_by le xs = [] \<longleftrightarrow> xs = []"
  using set_sort_by [of le xs] by (metis set_empty)

lemma grant_matches_iff:
  assumes "distinct (map set_key (rq_permissionSets r))"
  shows "grant_matches (definitions_of (rq_permissionSets r)) i r action now g \<longleftrightarrow> grant_authorises r action i now g"
proof (cases "definitions_of (rq_permissionSets r) (grant_key g)")
  case None
  then have "\<not> grant_set (rq_permissionSets r) g p" for p
    using definitions_of_Some [OF assms, of "grant_key g" p] by (auto simp: grant_set_def)
  then show ?thesis by (auto simp: grant_matches_def grant_authorises_def None)
next
  case (Some p)
  then have "q \<in> set (rq_permissionSets r) \<and> set_key q = grant_key g \<longleftrightarrow> q = p" for q
    using definitions_of_Some [OF assms, of "grant_key g" q] by auto
  then have "grant_set (rq_permissionSets r) g q \<longleftrightarrow>
      q = p \<and> ps_implementationDigest p = pr_implementationDigest (ag_permissionSet g)" for q
    unfolding grant_set_def by metis
  then show ?thesis by (auto simp: grant_matches_def grant_authorises_def Some list_ex_iff)
qed

lemma supportingGrant_None:
  assumes "distinct (map set_key (rq_permissionSets r))"
  shows "supportingGrant h gs i r action (definitions_of (rq_permissionSets r)) now = None \<longleftrightarrow>
    \<not> (\<exists>g \<in> set gs. grant_authorises r action i now g)"
  by (auto simp: supportingGrant_def sort_by_id_def grant_matches_iff [OF assms] filter_empty_conv split: list.splits)
    (metis list.distinct(1) sort_by_Nil_iff filter_empty_conv grant_matches_iff [OF assms])+

lemma supportingGrant_Some:
  assumes "distinct (map set_key (rq_permissionSets r))"
    and "supportingGrant h gs i r action (definitions_of (rq_permissionSets r)) now = Some s"
  obtains g where "g \<in> set gs" "grant_authorises r action i now g" "su_grantId s = ag_id g"
    "su_permissionDigest s = pr_implementationDigest (ag_permissionSet g)"
proof -
  let ?m = "filter (grant_matches (definitions_of (rq_permissionSets r)) i r action now) gs"
  from assms(2) obtain g gs' where g: "sort_by_id h ag_id ?m = g # gs'" "su_grantId s = ag_id g"
    "su_permissionDigest s = pr_implementationDigest (ag_permissionSet g)"
    by (auto simp: supportingGrant_def split: list.splits)
  have "g \<in> set (sort_by_id h ag_id ?m)" by (simp add: g(1))
  then have "g \<in> set ?m" by (simp add: sort_by_id_def)
  then have "g \<in> set gs" "grant_authorises r action i now g" by (simp_all add: grant_matches_iff [OF assms(1)])
  then show thesis using that g(2,3) by blast
qed

lemma request_checks_Inr:
  "request_checks h r now = Inr action \<longleftrightarrow>
     action \<in> set (ACTION_REGISTRY h) \<and> exactAction (rq_action r) action \<and>
     rr_kind (rq_resource r) \<in> set (ad_resourceKinds action) \<and>
     rq_serviceAudience r \<in> set (vi_audience (rq_identity r)) \<and> identity_current (rq_identity r) now"
proof (cases "getRegisteredAction h (ai_uri (rq_action r))")
  case None
  then show ?thesis using registry_exact_unique by (fastforce simp: request_checks_def)
next
  case (Some a)
  then have "a = action" if "action \<in> set (ACTION_REGISTRY h)" "exactAction (rq_action r) action"
    using registry_exact_unique [OF that] by simp
  moreover have "a \<in> set (ACTION_REGISTRY h)" using Some by (simp add: getRegisteredAction_iff)
  ultimately show ?thesis
    by (cases "vi_notBefore (rq_identity r)") (auto simp: request_checks_def Some identity_current_def)
qed

lemma subject_checks_Inr:
  "subject_checks r now = Inr s \<longleftrightarrow> rq_subject r = Some s \<and>
     member s (rq_workspaceId r) (vi_issuer (rq_identity r)) (vi_subject (rq_identity r)) now"
  by (cases "rq_subject r") (auto simp: subject_checks_def member_def)

lemma actor_checks_Inr:
  "actor_checks r now = Inr m \<longleftrightarrow> (case vi_actor (rq_identity r) of None \<Rightarrow> rq_actor r = None \<and> m = None
     | Some a \<Rightarrow> \<exists>actor. rq_actor r = Some actor \<and> m = Some actor \<and>
         member actor (rq_workspaceId r) (as_issuer a) (as_subject a) now)"
  by (cases "rq_actor r"; cases "vi_actor (rq_identity r)") (auto simp: actor_checks_def member_def)

lemma token_checks_Inr:
  "token_checks r action = Inr u \<longleftrightarrow>
     (ad_senderConstraint action = SenderRequired \<longrightarrow> vi_credentialBinding (rq_identity r) \<noteq> NoBinding) \<and>
     (\<exists>i \<in> set (vi_actionUpperBound (rq_identity r)). exactAction i action)"
  by (auto simp: token_checks_def list_ex_iff)

lemma eligibility_checks_Inr: "eligibility_checks r now action p = Inr u \<longleftrightarrow> eligible r action p now"
  by (cases "ad_eligibility action") (auto simp: eligibility_checks_def eligible_def list_ex_iff)

text \<open>The support of an allowed request: the grants it names.\<close>

definition supported_by ::
  "authorization_request \<Rightarrow> action_definition \<Rightarrow> string \<Rightarrow> int \<Rightarrow> authorization_grant list \<Rightarrow> support \<Rightarrow> bool" where
  "supported_by r action i now gs s \<longleftrightarrow> (\<exists>g \<in> set gs. grant_authorises r action i now g \<and> su_grantId s = ag_id g \<and>
     su_permissionDigest s = pr_implementationDigest (ag_permissionSet g))"

definition supports_request ::
  "authorization_request \<Rightarrow> action_definition \<Rightarrow> bound_principal \<Rightarrow> authority_principal \<Rightarrow> int \<Rightarrow> support list \<Rightarrow> bool" where
  "supports_request r action subject p now supports \<longleftrightarrow>
     (\<exists>s. supported_by r action (ap_id (bp_principal subject)) now (rq_subjectGrants r) s \<and>
        (case vi_actor (rq_identity r) of None \<Rightarrow> supports = [s]
         | Some _ \<Rightarrow> \<exists>t. supported_by r action (ap_id p) now (rq_actorGrants r) t \<and> supports = [s, t]))"

lemma supported_by_Some:
  assumes "distinct (map set_key (rq_permissionSets r))"
    and "supportingGrant h gs i r action (definitions_of (rq_permissionSets r)) now = Some s"
  shows "supported_by r action i now gs s"
  using supportingGrant_Some [OF assms] unfolding supported_by_def by blast

lemma snapshot_distinct: "snapshot_sound h r \<Longrightarrow> distinct (map set_key (rq_permissionSets r))"
  by (simp add: snapshot_sound_def)

lemma grant_checks_Inr:
  assumes "grant_checks h r now action subject actor (definitions_of (rq_permissionSets r), snapshot_sound h r) = Inr supports"
    and "actor_checks r now = Inr actor"
  shows "snapshot_sound h r \<and>
    (\<exists>g \<in> set (rq_subjectGrants r). grant_authorises r action (ap_id (bp_principal subject)) now g) \<and>
    acting_principal r action subject now (bp_principal (case actor of None \<Rightarrow> subject | Some a \<Rightarrow> a)) \<and>
    supports_request r action subject (bp_principal (case actor of None \<Rightarrow> subject | Some a \<Rightarrow> a)) now supports"
proof -
  from assms(1) obtain s where sound: "snapshot_sound h r" and
    s: "supportingGrant h (rq_subjectGrants r) (ap_id (bp_principal subject)) r action
          (definitions_of (rq_permissionSets r)) now = Some s"
    by (auto simp: grant_checks_def split: if_splits option.splits)
  note d = snapshot_distinct [OF sound]
  note sup = supported_by_Some [OF d s]
  show ?thesis
  proof (cases actor)
    case None
    with assms s sound have "supports = [s]" "rq_delegation r = None" "rq_actorGrants r = []" "rq_actor r = None"
      "vi_actor (rq_identity r) = None"
      by (auto simp: grant_checks_def actor_checks_Inr split: if_splits option.splits)
    with sound sup None show ?thesis
      by (auto simp: acting_principal_def supports_request_def supported_by_def)
  next
    case (Some a)
    with assms s sound obtain t where
      t: "supportingGrant h (rq_actorGrants r) (ap_id (bp_principal a)) r action (definitions_of (rq_permissionSets r)) now = Some t"
      "\<exists>g. rq_delegation r = Some g \<and> delegates r action (ap_id (bp_principal subject)) (ap_id (bp_principal a)) now g" "supports = [s, t]"
      by (auto simp: grant_checks_def split: if_splits option.splits)
    from assms(2) Some obtain v where v: "vi_actor (rq_identity r) = Some v" "rq_actor r = Some a"
      "member a (rq_workspaceId r) (as_issuer v) (as_subject v) now"
      by (auto simp: actor_checks_Inr split: option.splits)
    note supt = supported_by_Some [OF d t(1)]
    then have "\<exists>g \<in> set (rq_actorGrants r). grant_authorises r action (ap_id (bp_principal a)) now g"
      by (auto simp: supported_by_def)
    then have "acting_principal r action subject now (bp_principal a)"
      using v t(2) by (simp add: acting_principal_def)
    moreover have "supports_request r action subject (bp_principal a) now supports"
      using sup supt v(1) t(3) by (auto simp: supports_request_def)
    ultimately show ?thesis using sound sup Some by (auto simp: supported_by_def)
  qed
qed

lemma grant_checks_succeed:
  assumes "snapshot_sound h r"
    and "\<exists>g \<in> set (rq_subjectGrants r). grant_authorises r action (ap_id (bp_principal subject)) now g"
    and "acting_principal r action subject now p"
  shows "\<exists>actor supports. actor_checks r now = Inr actor \<and> p = bp_principal (case actor of None \<Rightarrow> subject | Some a \<Rightarrow> a) \<and>
    grant_checks h r now action subject actor (definitions_of (rq_permissionSets r), snapshot_sound h r) = Inr supports"
proof -
  note d = snapshot_distinct [OF assms(1)]
  obtain s where s: "supportingGrant h (rq_subjectGrants r) (ap_id (bp_principal subject)) r action
      (definitions_of (rq_permissionSets r)) now = Some s"
    using supportingGrant_None [OF d] assms(2) by (metis option.exhaust)
  show ?thesis
  proof (cases "vi_actor (rq_identity r)")
    case None
    with assms(1,3) s show ?thesis by (auto simp: acting_principal_def actor_checks_Inr grant_checks_def)
  next
    case (Some v)
    with assms(3) obtain a where a: "rq_actor r = Some a" "p = bp_principal a"
      "member a (rq_workspaceId r) (as_issuer v) (as_subject v) now"
      "\<exists>g \<in> set (rq_actorGrants r). grant_authorises r action (ap_id p) now g"
      "\<exists>g. rq_delegation r = Some g \<and> delegates r action (ap_id (bp_principal subject)) (ap_id p) now g"
      by (auto simp: acting_principal_def)
    obtain t where t: "supportingGrant h (rq_actorGrants r) (ap_id p) r action
        (definitions_of (rq_permissionSets r)) now = Some t"
      using supportingGrant_None [OF d] a(4) by (metis option.exhaust)
    have "actor_checks r now = Inr (Some a)" using a Some by (simp add: actor_checks_Inr)
    then show ?thesis using assms(1) s t a by (auto simp: grant_checks_def)
  qed
qed

lemma verdict_allows:
  assumes "versions_safe r" and "authorization_verdict h r now = Inr (Inr supports)"
  shows "\<exists>action subject p. authorised_as h r now action subject p \<and> supports_request r action subject p now supports"
proof -
  from assms(2) obtain action subject actor u w where c: "request_checks h r now = Inr action"
    "subject_checks r now = Inr subject" "actor_checks r now = Inr actor" "token_checks r action = Inr u"
    "grant_checks h r now action subject actor (definitions_of (rq_permissionSets r), snapshot_sound h r) = Inr supports"
    "eligibility_checks r now action (bp_principal (case actor of None \<Rightarrow> subject | Some a \<Rightarrow> a)) = Inr w"
    by (auto simp: authorization_verdict_def authoritySnapshot_eq [OF assms(1)] split: sum.splits)
  from grant_checks_Inr [OF c(5) c(3)] c show ?thesis
    by (auto simp: authorised_as_def request_checks_Inr subject_checks_Inr token_checks_Inr eligibility_checks_Inr)
qed

lemma authorised_verdict:
  assumes "versions_safe r" and "authorised_as h r now action subject p"
  shows "\<exists>supports. authorization_verdict h r now = Inr (Inr supports)"
proof -
  from grant_checks_succeed [of h r action subject now p] assms(2) obtain actor supports where
    g: "actor_checks r now = Inr actor" "p = bp_principal (case actor of None \<Rightarrow> subject | Some a \<Rightarrow> a)"
    "grant_checks h r now action subject actor (definitions_of (rq_permissionSets r), snapshot_sound h r) = Inr supports"
    by (auto simp: authorised_as_def)
  have "request_checks h r now = Inr action" "subject_checks r now = Inr subject" "token_checks r action = Inr ()"
    "eligibility_checks r now action p = Inr ()"
    using assms(2) by (simp_all add: authorised_as_def request_checks_Inr subject_checks_Inr token_checks_Inr
        eligibility_checks_Inr)
  with g show ?thesis by (simp add: authorization_verdict_def authoritySnapshot_eq [OF assms(1)])
qed

lemma verdict_returns: "versions_safe r \<Longrightarrow> \<exists>v. authorization_verdict h r now = Inr v"
  by (simp add: authorization_verdict_def authoritySnapshot_eq split: sum.splits)

section \<open>Every request is decided\<close>

text \<open>What is used of SHA-256: its hexadecimal text has 64 lower-case digits.\<close>

definition hex_digests :: "authority_host \<Rightarrow> bool" where
  "hex_digests h \<longleftrightarrow> (\<forall>t. length (ah_sha256 h t) = 64 \<and> list_all lower_hex (ah_sha256 h t))"

lemma Digest_sha256: "hex_digests h \<Longrightarrow> Digest (''sha256:'' @ ah_sha256 h t)"
  by (simp add: hex_digests_def Digest_def)

lemma digest_Digest: "hex_digests h \<Longrightarrow> digest h v = Inr x \<Longrightarrow> Digest x"
  by (auto simp: digest_def Digest_sha256 simp del: append.simps split: sum.splits)

lemma Digest_policy: "hex_digests h \<Longrightarrow> Digest (AUTHORIZATION_POLICY_IMPLEMENTATION_DIGEST h)"
  by (simp add: AUTHORIZATION_POLICY_IMPLEMENTATION_DIGEST_def constant_digest_portable Digest_sha256 del: append.simps)

definition supports_ok :: "support list \<Rightarrow> bool" where
  "supports_ok ss \<longleftrightarrow> length ss \<le> 2 \<and> (\<forall>s \<in> set ss. OpaqueId (su_grantId s) \<and> Digest (su_permissionDigest s))"

lemma finish_returns:
  assumes "hex_digests h" and "request_ok h r" and "UnixMs now" and "Digest rd" and "supports_ok ss"
    and "(decision = AllowDecision) = (reason = Allowed)"
  shows "\<exists>d. finish h r now rd decision reason ss = Inr d \<and> decision_ok h d \<and> dc_decision d = decision \<and>
    dc_reasonCode d = reason \<and> dc_grantIds d = (if decision = AllowDecision then sort (map su_grantId ss) else []) \<and>
    dc_requestDigest d = rd"
proof -
  have ids: "opt_ok OpaqueId (map_option (\<lambda>b. ap_id (bp_principal b)) x)" if "opt_ok (bound_principal_ok h) x" for x
    using that by (cases x) (auto simp: bound_principal_ok_def authority_principal_ok_def)
  have len: "length (remdups (map su_permissionDigest ss)) \<le> 2"
    using assms(5) length_remdups_leq [of "map su_permissionDigest ss"] by (simp add: supports_ok_def)
  have "length (map su_grantId ss) \<le> 2" "list_all OpaqueId (map su_grantId ss)" "list_all Digest (map su_permissionDigest ss)"
    using assms(5) by (auto simp: supports_ok_def list_all_iff)
  moreover have "AbsoluteUri h (ai_uri (rq_action r))" "OpaqueId (rr_id (rq_resource r))" "OpaqueId (rq_requestId r)"
    "WorkspaceId (rq_workspaceId r)" "opt_ok (bound_principal_ok h) (rq_subject r)" "opt_ok (bound_principal_ok h) (rq_actor r)"
    using assms(2) by (simp_all add: request_ok_def action_identity_ok_def resource_ref_ok_def)
  moreover have "isSafeInteger now" using assms(3) by simp
  ultimately show ?thesis
    using assms(1,3,4,6) len ids
    by (auto simp: finish_def Let_def digest_portable decision_ok_def Digest_sha256 Digest_policy list_all_iff
        simp del: append.simps canonicalJson.simps split: option.split)
qed

lemma supports_request_ok:
  assumes "request_ok h r" and "supports_request r action subject p now ss"
  shows "supports_ok ss"
proof -
  have "OpaqueId (su_grantId s) \<and> Digest (su_permissionDigest s)"
    if "supported_by r action i now gs s" "set gs \<subseteq> set (rq_subjectGrants r) \<union> set (rq_actorGrants r)" for s i gs
    using that assms(1) by (auto simp: supported_by_def request_ok_def list_all_iff authorization_grant_ok_def)
  then show ?thesis using assms(2)
    by (fastforce simp: supports_request_def supports_ok_def split: option.splits)
qed

lemma evaluate_cases:
  assumes "hex_digests h" and "request_ok h r" and "UnixMs now" and "versions_safe r"
  obtains (deny) reason d where "evaluateAuthorization h r (Some now) = Inr d" "decision_ok h d"
      "dc_decision d = DenyDecision" "dc_reasonCode d = reason" "authorization_verdict h r now = Inr (Inl reason)"
  | (allow) ss d where "evaluateAuthorization h r (Some now) = Inr d" "decision_ok h d"
      "dc_decision d = AllowDecision" "dc_reasonCode d = Allowed" "dc_grantIds d = sort (map su_grantId ss)"
      "authorization_verdict h r now = Inr (Inr ss)"
proof -
  obtain rd where rd: "digest h (request_json (canonicalRequestSnapshot h r)) = Inr rd"
    using digest_portable [OF portable_request [OF assms(2,4)]] by blast
  note Drd = digest_Digest [OF assms(1) rd]
  have now: "authorityNow (Some now) = Inr now" using assms(3) by (simp add: authorityNow_def)
  obtain v where v: "authorization_verdict h r now = Inr v" using verdict_returns [OF assms(4)] by blast
  show thesis
  proof (cases v)
    case (Inl reason)
    have "reason \<noteq> Allowed"
      using v Inl by (auto simp: authorization_verdict_def request_checks_def subject_checks_def actor_checks_def
          token_checks_def grant_checks_def eligibility_checks_def split: sum.splits option.splits if_splits)
    then obtain d where "finish h r now rd DenyDecision reason [] = Inr d" "decision_ok h d"
      "dc_decision d = DenyDecision" "dc_reasonCode d = reason"
      using finish_returns [OF assms(1-3) Drd, of "[]" DenyDecision reason] by (auto simp: supports_ok_def)
    moreover from this have "evaluateAuthorization h r (Some now) = Inr d"
      using assms(2) now rd v Inl by (simp add: evaluateAuthorization_def)
    ultimately show thesis using deny v Inl by blast
  next
    case (Inr ss)
    with verdict_allows [OF assms(4)] v supports_request_ok [OF assms(2)] have "supports_ok ss" by blast
    with finish_returns [OF assms(1-3) Drd, of ss AllowDecision Allowed] obtain d where
      "finish h r now rd AllowDecision Allowed ss = Inr d" "decision_ok h d"
      "dc_decision d = AllowDecision" "dc_reasonCode d = Allowed" "dc_grantIds d = sort (map su_grantId ss)"
      by auto
    moreover from this have "evaluateAuthorization h r (Some now) = Inr d"
      using assms(2) now rd v Inr by (simp add: evaluateAuthorization_def)
    ultimately show thesis using allow v Inr by blast
  qed
qed

text \<open>A version beyond the safe integers passes the schema but has no digest, so the evaluator throws
  instead of deciding.\<close>

lemma unsafe_version_not_decided:
  assumes "\<not> isSafeInteger (ai_version (rq_action r))"
  shows "evaluateAuthorization h r clock \<noteq> Inr d"
proof -
  have "\<not> portable (request_json (canonicalRequestSnapshot h r))"
    using assms by (simp add: request_json_def canonicalRequestSnapshot_def safe_identity_def)
  then have "digest h (request_json (canonicalRequestSnapshot h r)) \<noteq> Inr x" for x
    using canonical_refuses by (auto simp: digest_def split: sum.splits)
  then show ?thesis by (auto simp: evaluateAuthorization_def split: sum.splits)
qed

section \<open>A sample request\<close>

text \<open>A delegated mutation of one commitment: the subject \<open>ann\<close> acts through the agent \<open>bot\<close>.\<close>

definition sample_host :: authority_host where
  "sample_host = \<lparr>ah_sha256 = (\<lambda>t. replicate 64 (CHR ''a'')),
     ah_url = (\<lambda>s. Some \<lparr>pu_href = s, pu_username = [], pu_password = [], pu_protocol = ''https:'', pu_search = [], pu_hash = []\<rparr>),
     ah_localeCompare = (\<lambda>a b. if a < b then -1 else if a = b then 0 else 1)\<rparr>"

definition sample_digest :: string where
  "sample_digest = ''sha256:'' @ replicate 64 (CHR ''a'')"

definition sample_action :: action_identity where
  "sample_action = \<lparr>ai_uri = ''urn:tasq:action:commitment.mutate'', ai_version = 1, ai_implementationDigest = sample_digest\<rparr>"

definition sample_identity :: verified_identity where
  "sample_identity = \<lparr>vi_issuer = ''https://issuer.example/'', vi_subject = ''ann-subject'', vi_audience = [''https://tasq.example/''],
     vi_authenticationMethod = OauthJwtAccessToken, vi_authenticatedAt = 1000, vi_notBefore = Some 1000, vi_expiresAt = 5000,
     vi_clientId = None, vi_actor = Some \<lparr>as_issuer = ''https://issuer.example/'', as_subject = ''bot-subject''\<rparr>,
     vi_credentialBinding = NoBinding, vi_tokenIdDigest = None, vi_issuerConfigurationDigest = sample_digest,
     vi_credentialKeyDigest = sample_digest, vi_actionUpperBound = [sample_action]\<rparr>"

definition sample_bound :: "string \<Rightarrow> authority_principal_kind \<Rightarrow> bound_principal" where
  "sample_bound i k = \<lparr>bp_binding = \<lparr>sb_id = ''binding-'' @ i, sb_workspaceId = ''w'', sb_principalId = i,
       sb_issuer = ''https://issuer.example/'', sb_subject = i @ ''-subject'', sb_method = Oidc, sb_status = Enabled,
       sb_revision = 1, sb_createdAt = 500, sb_disabledAt = None, sb_replacedByBindingId = None\<rparr>,
     bp_principal = \<lparr>ap_id = i, ap_workspaceId = ''w'', ap_kind = k, ap_status = Enabled, ap_revision = 1\<rparr>\<rparr>"

definition sample_grant :: "string \<Rightarrow> string \<Rightarrow> authorization_grant" where
  "sample_grant i p = \<lparr>ag_id = i, ag_workspaceId = ''w'', ag_grantorPrincipalId = ''admin'', ag_granteePrincipalId = p,
     ag_permissionSet = \<lparr>pr_uri = ''urn:tasq:permission:test'', pr_version = 1, pr_implementationDigest = sample_digest\<rparr>,
     ag_scope = ScopeWorkspace, ag_notBefore = None, ag_expiresAt = Some 4000, ag_status = StActive, ag_revision = 1\<rparr>"

definition sample_request :: authorization_request where
  "sample_request = \<lparr>rq_requestId = ''request-1'', rq_workspaceId = ''w'', rq_serviceAudience = ''https://tasq.example/'',
     rq_action = sample_action, rq_resource = \<lparr>rr_kind = RkCommitment, rr_id = ''t1''\<rparr>, rq_identity = sample_identity,
     rq_subject = Some (sample_bound ''ann'' Human), rq_actor = Some (sample_bound ''bot'' AgentKind),
     rq_permissionSets = [\<lparr>ps_uri = ''urn:tasq:permission:test'', ps_version = 1, ps_implementationDigest = sample_digest,
       ps_actions = [sample_action]\<rparr>],
     rq_subjectGrants = [sample_grant ''g1'' ''ann''], rq_actorGrants = [sample_grant ''g2'' ''bot''],
     rq_delegation = Some \<lparr>dg_id = ''d1'', dg_workspaceId = ''w'', dg_subjectPrincipalId = ''ann'', dg_actorPrincipalId = ''bot'',
       dg_actions = [sample_action], dg_scope = ScopeExact \<lparr>rr_kind = RkCommitment, rr_id = ''t1''\<rparr>, dg_notBefore = None,
       dg_expiresAt = None, dg_status = StActive, dg_revision = 1\<rparr>,
     rq_eligibilities = []\<rparr>"

lemma sample_hex: "hex_digests sample_host"
proof -
  have "list_all lower_hex (replicate 64 (CHR ''a''))" by code_simp
  then show ?thesis by (simp only: hex_digests_def sample_host_def authority_host.select_convs length_replicate simp_thms)
qed

lemma sample_digests: "portable v \<Longrightarrow> digest sample_host v = Inr sample_digest"
  by (simp add: digest_portable sample_host_def sample_digest_def)

definition sample_definition :: action_definition where
  "sample_definition = \<lparr>ad_uri = ''urn:tasq:action:commitment.mutate'', ad_version = 1, ad_implementationDigest = sample_digest,
     ad_resourceKinds = [RkCommitment], ad_senderConstraint = SenderNone, ad_eligibility = None\<rparr>"

lemma sample_registered: "sample_definition \<in> set (ACTION_REGISTRY sample_host)"
proof -
  have d: "constant_digest sample_host (JObj (action_json u ks c e)) = sample_digest" for u ks c e
    unfolding constant_digest_def by (subst sample_digests [OF portable_action_json]) simp
  have "(''commitment.mutate'', [RkCommitment], SenderNone, None) \<in> set rawActions" by (simp add: rawActions_def)
  moreover have "sample_definition = actionDefinition sample_host (''commitment.mutate'', [RkCommitment], SenderNone, None)"
    by (simp add: sample_definition_def d)
  ultimately show ?thesis unfolding ACTION_REGISTRY_def set_map by (rule rev_image_eqI)
qed

lemma sample_exact: "exactAction sample_action sample_definition"
  by (simp add: exactAction_def sample_action_def sample_definition_def)

lemma sample_registered_exact: "registered_exact sample_host sample_action"
  using sample_registered sample_exact by (auto simp: registered_exact_iff)

lemma sample_scalars: "Digest sample_digest" "WorkspaceId ''w''" "OpaqueId ''request-1''" "OpaqueId ''t1''" "OpaqueId ''admin''"
  "OpaqueId ''ann''" "OpaqueId ''ann-subject''" "OpaqueId ''binding-ann''" "OpaqueId ''g1''" "OpaqueId ''d1''"
  "OpaqueId ''bot''" "OpaqueId ''bot-subject''" "OpaqueId ''binding-bot''" "OpaqueId ''g2''"
  "HttpsIssuer sample_host ''https://issuer.example/''" "AbsoluteUri sample_host ''https://tasq.example/''"
  "AbsoluteUri sample_host ''urn:tasq:action:commitment.mutate''" "AbsoluteUri sample_host ''urn:tasq:permission:test''"
  by code_simp+

lemma registry_length: "length (ACTION_REGISTRY h) = 21"
  by (simp add: ACTION_REGISTRY_def rawActions_def)

lemmas sample_request_defs = sample_request_def sample_identity_def sample_action_def sample_bound_def sample_grant_def

lemma sample_identity_accepted: "verified_identity_ok sample_host sample_identity"
proof -
  have "action_identity_ok sample_host sample_action"
    by (simp add: action_identity_ok_def sample_action_def sample_scalars del: append.simps)
  then show ?thesis using sample_registered_exact
    by (simp add: verified_identity_ok_def sample_identity_def actor_subject_ok_def sample_scalars UnixMs_def
        MAX_SAFE_INTEGER_def registry_length)
qed

lemma sample_request_accepted: "request_ok sample_host sample_request" "versions_safe sample_request" "UnixMs 2000"
proof -
  have a: "action_identity_ok sample_host sample_action"
    by (simp add: action_identity_ok_def sample_action_def sample_scalars)
  have n: "UnixMs 500" "UnixMs 4000" "Revision 1" by code_simp+
  have b: "bound_principal_ok sample_host (sample_bound i k)" if "i = ''ann'' \<or> i = ''bot''" for i k
    using that n sample_scalars
    by (auto simp: bound_principal_ok_def subject_binding_ok_def authority_principal_ok_def sample_bound_def)
  have g: "authorization_grant_ok sample_host (sample_grant ''g1'' ''ann'')" "authorization_grant_ok sample_host (sample_grant ''g2'' ''bot'')"
    using n by (simp_all add: authorization_grant_ok_def sample_grant_def sample_scalars window_ok_def)
  show "request_ok sample_host sample_request"
    using a b g n sample_identity_accepted sample_registered_exact
    by (simp add: request_ok_def sample_request_def resource_ref_ok_def permission_set_ok_def delegation_ok_def
        window_ok_def sample_scalars registry_length)
  show "versions_safe sample_request" by code_simp
  show "UnixMs 2000" by code_simp
qed

lemma sample_authorised: "authorised_as sample_host sample_request 2000 sample_definition (sample_bound ''ann'' Human)
  (bp_principal (sample_bound ''bot'' AgentKind))"
proof -
  let ?ps = "rq_permissionSets sample_request"
  have one: "?ps = [\<lparr>ps_uri = ''urn:tasq:permission:test'', ps_version = 1, ps_implementationDigest = sample_digest,
       ps_actions = [sample_action]\<rparr>]" by (simp add: sample_request_def)
  have "portable (JObj (semantic_json ''urn:tasq:permission:test'' 1 [sample_action]))"
    by (simp add: semantic_json_def safe_identity_def sample_action_def isSafeInteger_def MAX_SAFE_INTEGER_def)
  then have "definition_sound sample_host p" if "p \<in> set ?ps" for p
    using that sample_registered sample_exact by (auto simp: one definition_sound_def sample_digests)
  moreover have set: "grant_set ?ps (sample_grant i q) (hd ?ps)" for i q
    by (simp add: one grant_set_def set_key_def grant_key_def sample_grant_def)
  ultimately have "snapshot_sound sample_host sample_request"
    unfolding snapshot_sound_def by (auto simp: sample_request_def sample_grant_def)
  moreover have grants: "grant_authorises sample_request sample_definition q 2000 (sample_grant i q)" for i q
    using set [of i q] sample_exact
    by (auto simp: grant_authorises_def one sample_grant_def in_force_def in_scope_def sample_request_def intro!: exI)
  moreover have "\<exists>g. rq_delegation sample_request = Some g \<and> delegates sample_request sample_definition ''ann'' ''bot'' 2000 g"
    using sample_exact by (simp add: delegates_def sample_request_def in_force_def in_scope_def)
  ultimately show ?thesis using sample_registered sample_exact
    by (auto simp: authorised_as_def acting_principal_def eligible_def member_def bindingMatches_def identity_current_def
        sample_request_def sample_identity_def sample_bound_def sample_definition_def)
qed

lemma sample_allowed: "\<exists>d. evaluateAuthorization sample_host sample_request (Some 2000) = Inr d \<and> dc_decision d = AllowDecision"
  using sample_hex sample_request_accepted(1,3,2)
proof (cases rule: evaluate_cases)
  case (deny reason d)
  with authorised_verdict [OF sample_request_accepted(2) sample_authorised] show ?thesis by simp
qed blast

section \<open>Properties\<close>

text \<open>C24. The evaluator allows exactly the authorised requests: a registered action on a resource of its
  kind, a current identity with that audience and token bound, an enabled member, a sound snapshot with a
  live covering grant of the subject and, for a delegated call, the actor's own grant and the exact live
  delegation between the two, the sender binding and the eligibility the action asks for.\<close>

theorem authorization_exact:
  assumes "hex_digests h" and "request_ok h r" and "UnixMs now" and "versions_safe r"
  shows "(\<exists>d. evaluateAuthorization h r (Some now) = Inr d \<and> dc_decision d = AllowDecision) \<longleftrightarrow> authorised h r now"
  using assms
proof (cases rule: evaluate_cases)
  case (deny reason d)
  then have "\<not> authorised h r now" by (auto simp: authorised_def dest!: authorised_verdict [OF assms(4)])
  with deny show ?thesis by simp
next
  case (allow ss d)
  then have "authorised h r now" using verdict_allows [OF assms(4) allow(6)] by (auto simp: authorised_def)
  with allow show ?thesis by simp
qed

theorem authorization_exact_witness: "authorised sample_host sample_request 2000"
  using authorization_exact [OF sample_hex sample_request_accepted(1,3,2)] sample_allowed by blast

text \<open>Every well-formed request whose versions are safe integers is decided, never thrown on: the
  decision is well formed, it allows exactly with the reason \<open>allowed\<close>, and a denial names no grant.\<close>

theorem authorization_decides:
  assumes "hex_digests h" and "request_ok h r" and "UnixMs now" and "versions_safe r"
  shows "\<exists>d. evaluateAuthorization h r (Some now) = Inr d \<and> decision_ok h d \<and>
    ((dc_decision d = AllowDecision) = (dc_reasonCode d = Allowed)) \<and> (dc_decision d = AllowDecision \<or> dc_grantIds d = [])"
  using assms
proof (cases rule: evaluate_cases)
  case (deny reason d)
  then show ?thesis by (auto simp: decision_ok_def)
next
  case (allow ss d)
  then show ?thesis by (auto simp: decision_ok_def)
qed

theorem authorization_decides_witness:
  "\<exists>d. evaluateAuthorization sample_host sample_request (Some 2000) = Inr d \<and> decision_ok sample_host d"
  using authorization_decides [OF sample_hex sample_request_accepted(1,3,2)] by blast

text \<open>An allowed decision names its support: every grant it cites is a grant of the request that is live,
  covers the resource, lists the action in its permission set and belongs to the subject or to the acting
  principal; the first is always there.\<close>

theorem allowed_decision_cites_live_grants:
  assumes "hex_digests h" and "versions_safe r" and "evaluateAuthorization h r (Some now) = Inr d"
    and "dc_decision d = AllowDecision"
  shows "dc_grantIds d \<noteq> [] \<and> (\<forall>i \<in> set (dc_grantIds d). \<exists>g action p.
    g \<in> set (rq_subjectGrants r @ rq_actorGrants r) \<and> ag_id g = i \<and> action \<in> set (ACTION_REGISTRY h) \<and>
    exactAction (rq_action r) action \<and> grant_authorises r action p now g \<and>
    (dc_subjectPrincipalId d = Some p \<or> dc_actorPrincipalId d = Some p))"
proof -
  from assms(3) have ok: "request_ok h r" "UnixMs now"
    by (auto simp: evaluateAuthorization_def authorityNow_def split: if_splits)
  from assms(1) ok assms(2) show ?thesis
  proof (cases rule: evaluate_cases)
    case (allow ss e)
    then have [simp]: "e = d" using assms(3) by simp
    obtain action subject p where a: "authorised_as h r now action subject p"
      and s: "supports_request r action subject p now ss"
      using verdict_allows [OF assms(2) allow(6)] by blast
    have ids: "dc_subjectPrincipalId d = Some (ap_id (bp_principal subject))"
      "dc_actorPrincipalId d = Some (ap_id p)"
      using assms(3) a by (auto simp: evaluateAuthorization_def finish_def Let_def authorised_as_def acting_principal_def
          split: sum.splits if_splits option.splits)
    have known: "action \<in> set (ACTION_REGISTRY h)" "exactAction (rq_action r) action"
      using a by (simp_all add: authorised_as_def)
    have cited: "\<exists>g q. g \<in> set (rq_subjectGrants r @ rq_actorGrants r) \<and> ag_id g = su_grantId x \<and>
        grant_authorises r action q now g \<and> (dc_subjectPrincipalId d = Some q \<or> dc_actorPrincipalId d = Some q)"
      if "x \<in> set ss" for x
      using s that ids by (auto simp: supports_request_def supported_by_def split: option.splits) blast+
    have "ss \<noteq> []" using s by (auto simp: supports_request_def split: option.splits)
    then have ne: "sort (map su_grantId ss) \<noteq> []" by (metis map_is_Nil_conv set_empty set_sort)
    have gi: "dc_grantIds d = sort (map su_grantId ss)" using allow(5) by simp
    have "\<exists>g action q. g \<in> set (rq_subjectGrants r @ rq_actorGrants r) \<and> ag_id g = i \<and> action \<in> set (ACTION_REGISTRY h) \<and>
        exactAction (rq_action r) action \<and> grant_authorises r action q now g \<and>
        (dc_subjectPrincipalId d = Some q \<or> dc_actorPrincipalId d = Some q)" if "i \<in> set (dc_grantIds d)" for i
    proof -
      from that obtain x where "x \<in> set ss" "i = su_grantId x" by (auto simp: gi)
      with cited [of x] known show ?thesis by metis
    qed
    then show ?thesis using ne gi by simp
  qed (use assms(3,4) in simp)
qed

theorem allowed_decision_cites_live_grants_witness:
  "\<exists>d. evaluateAuthorization sample_host sample_request (Some 2000) = Inr d \<and> dc_grantIds d \<noteq> []"
  using sample_allowed allowed_decision_cites_live_grants [OF sample_hex sample_request_accepted(2)] by blast

end
