(* ===== verification/Resolution_Records.thy ===== *)
theory Resolution_Records
  imports Task_Transition Relations
begin

text \<open>
  The records of a validated completion (\<open>packages/tasq-core/src/service/resolution.ts\<close>, with the
  schemas of \<open>packages/tasq-schema/src/resolution.ts\<close> and the tables of \<open>tables.ts\<close> and migration
  0026): resolution contracts frozen from a commitment, trust in evidence and its revocation,
  proposals of completion and challenges. All of them are append-only. Decisions are in
  \<open>Resolution\<close>. Inputs are those after the schema has filled in its defaults; an
  identifier is only required not to be empty, JSON columns hold the value they encode. A trigger that refuses a row
  is reported as a violated constraint of its table.
\<close>

section \<open>Schemas\<close>

definition sha256_ref :: "string \<Rightarrow> bool" where
  "sha256_ref s \<longleftrightarrow> take 7 s = ''sha256:'' \<and> length s = 71 \<and> list_all (\<lambda>c. c \<in> set ''0123456789abcdef'') (drop 7 s)"

definition criterion_id_ok :: "string \<Rightarrow> bool" where
  "criterion_id_ok s \<longleftrightarrow> between 1 120 s \<and> (is_alpha (hd s) \<or> is_digit (hd s)) \<and>
     list_all (\<lambda>c. is_alpha c \<or> is_digit c \<or> c \<in> set ''._:-'') s"

definition criterion_ok :: "criterion \<Rightarrow> bool" where
  "criterion_ok c \<longleftrightarrow> criterion_id_ok (cn_id c) \<and> between 1 2000 (cn_statement c) \<and>
     0 < cn_minimumEvidenceCount c \<and> cn_minimumEvidenceCount c \<le> 100 \<and>
     length (cn_acceptedEvidenceKinds c) \<le> 100 \<and> list_all (between 1 80) (cn_acceptedEvidenceKinds c) \<and>
     length (cn_acceptedSources c) \<le> 100 \<and> list_all (between 1 500) (cn_acceptedSources c) \<and>
     opt_all (\<lambda>n. 0 \<le> n) (cn_maxAgeMs c) \<and> 0 \<le> cn_minimumRetentionMs c"

definition principal_ids_ok :: "string list \<Rightarrow> bool" where
  "principal_ids_ok ids \<longleftrightarrow> length ids \<le> 100 \<and> list_all (between 1 500) ids"

definition contract_ok :: "resolution_contract \<Rightarrow> bool" where
  "contract_ok c \<longleftrightarrow> rc_tenantId c \<noteq> [] \<and> 0 < rc_taskRevision c \<and> between 1 2000 (rc_successCriteriaSnapshot c) \<and>
     rc_criteria c \<noteq> [] \<and> length (rc_criteria c) \<le> 100 \<and> list_all criterion_ok (rc_criteria c) \<and>
     sha256_ref (rc_criteriaDigest c) \<and> absolute_uri (rc_policyUri c) \<and> 0 < rc_policyVersion c \<and>
     sha256_ref (rc_implementationDigest c) \<and> opt_all (\<lambda>t. 0 \<le> t) (rc_notBefore c) \<and>
     0 \<le> rc_challengeWindowMs c \<and> principal_ids_ok (rc_eligibleValidatorPrincipalIds c) \<and>
     principal_ids_ok (rc_adjudicatorPrincipalIds c) \<and> sha256_ref (rc_contractDigest c) \<and>
     between 1 500 (rc_createdByPrincipalId c) \<and> 0 \<le> rc_createdAt c"

record contract_insert =
  kc_id :: "string option"
  kc_taskId :: string
  kc_criteria :: "criterion list"
  kc_policyKind :: policy_kind
  kc_policyUri :: string
  kc_policyVersion :: int
  kc_implementationDigest :: string
  kc_notBefore :: "int option"
  kc_challengeWindowMs :: int
  kc_allowSelfValidation :: bool
  kc_eligibleValidatorPrincipalIds :: "string list"
  kc_adjudicatorPrincipalIds :: "string list"
  kc_metadata :: metadata

definition contract_insert_ok :: "contract_insert \<Rightarrow> bool" where
  "contract_insert_ok i \<longleftrightarrow> opt_all (\<lambda>x. x \<noteq> []) (kc_id i) \<and> kc_criteria i \<noteq> [] \<and> length (kc_criteria i) \<le> 100 \<and> list_all criterion_ok (kc_criteria i) \<and>
     absolute_uri (kc_policyUri i) \<and> 0 < kc_policyVersion i \<and> sha256_ref (kc_implementationDigest i) \<and>
     opt_all (\<lambda>t. 0 \<le> t) (kc_notBefore i) \<and> 0 \<le> kc_challengeWindowMs i \<and>
     principal_ids_ok (kc_eligibleValidatorPrincipalIds i) \<and> principal_ids_ok (kc_adjudicatorPrincipalIds i) \<and>
     distinct (map cn_id (kc_criteria i)) \<and>
     (kc_policyKind i = Optimistic \<longrightarrow> kc_challengeWindowMs i > 0) \<and>
     (kc_policyKind i = Attestation \<longrightarrow> kc_eligibleValidatorPrincipalIds i \<noteq> []) \<and>
     (kc_policyKind i = Adjudicated \<longrightarrow> kc_adjudicatorPrincipalIds i \<noteq> [])"

definition trust_ok :: "evidence_trust_record \<Rightarrow> bool" where
  "trust_ok t \<longleftrightarrow> tr_tenantId t \<noteq> [] \<and> absolute_uri (tr_authorityUri t) \<and> 0 < tr_authorityVersion t \<and>
     sha256_ref (tr_authorityDigest t) \<and> between 1 2000 (tr_reason t) \<and> 0 \<le> tr_verifiedAt t \<and>
     opt_all (\<lambda>x. 0 \<le> x) (tr_validUntil t) \<and> opt_all (\<lambda>x. 0 \<le> x) (tr_retentionUntil t) \<and>
     between 1 500 (tr_recordedByPrincipalId t) \<and> 0 \<le> tr_createdAt t \<and>
     opt_all (\<lambda>x. tr_verifiedAt t \<le> x) (tr_validUntil t) \<and> opt_all (\<lambda>x. tr_verifiedAt t \<le> x) (tr_retentionUntil t) \<and>
     (tr_action t = Revoke \<longrightarrow> tr_supersedesTrustRecordId t \<noteq> None)"

record trust_insert =
  kt_id :: "string option"
  kt_taskId :: string
  kt_evidenceId :: string
  kt_authenticity :: authenticity
  kt_authorityUri :: string
  kt_authorityVersion :: int
  kt_authorityDigest :: string
  kt_reason :: string
  kt_verifiedAt :: int
  kt_validUntil :: "int option"
  kt_retentionUntil :: "int option"

definition trust_insert_ok :: "trust_insert \<Rightarrow> bool" where
  "trust_insert_ok i \<longleftrightarrow> opt_all (\<lambda>x. x \<noteq> []) (kt_id i) \<and> absolute_uri (kt_authorityUri i) \<and> 0 < kt_authorityVersion i \<and>
     sha256_ref (kt_authorityDigest i) \<and> between 1 2000 (kt_reason i) \<and> 0 \<le> kt_verifiedAt i \<and>
     opt_all (\<lambda>x. 0 \<le> x) (kt_validUntil i) \<and> opt_all (\<lambda>x. 0 \<le> x) (kt_retentionUntil i)"

definition criterion_evidence_ok :: "criterion_evidence \<Rightarrow> bool" where
  "criterion_evidence_ok m \<longleftrightarrow> criterion_id_ok (ce_criterionId m) \<and> ce_evidenceIds m \<noteq> [] \<and>
     length (ce_evidenceIds m) \<le> 100 \<and> distinct (ce_evidenceIds m)"

definition mappings_ok :: "criterion_evidence list \<Rightarrow> bool" where
  "mappings_ok ms \<longleftrightarrow> ms \<noteq> [] \<and> length ms \<le> 100 \<and> list_all criterion_evidence_ok ms"

definition proposal_ok :: "completion_proposal \<Rightarrow> bool" where
  "proposal_ok p \<longleftrightarrow> cp_tenantId p \<noteq> [] \<and> sha256_ref (cp_contractDigest p) \<and> between 1 500 (cp_proposerPrincipalId p) \<and>
     mappings_ok (cp_criterionEvidence p) \<and> opt_all (between 1 2000) (cp_summary p) \<and>
     sha256_ref (cp_proposalDigest p) \<and> 0 \<le> cp_proposedAt p"

record proposal_insert =
  kp_id :: "string option"
  kp_taskId :: string
  kp_resolutionContractId :: string
  kp_criterionEvidence :: "criterion_evidence list"
  kp_summary :: "string option"

definition proposal_insert_ok :: "proposal_insert \<Rightarrow> bool" where
  "proposal_insert_ok i \<longleftrightarrow> opt_all (\<lambda>x. x \<noteq> []) (kp_id i) \<and> mappings_ok (kp_criterionEvidence i) \<and> opt_all (between 1 2000) (kp_summary i)"

definition challenge_ok :: "completion_challenge \<Rightarrow> bool" where
  "challenge_ok c \<longleftrightarrow> ch_tenantId c \<noteq> [] \<and> between 1 500 (ch_challengerPrincipalId c) \<and> between 1 120 (ch_reasonCode c) \<and>
     between 1 2000 (ch_explanation c) \<and> length (ch_counterEvidenceIds c) \<le> 100 \<and> 0 \<le> ch_challengedAt c"

record challenge_insert =
  kh_id :: "string option"
  kh_proposalId :: string
  kh_reasonCode :: string
  kh_explanation :: string
  kh_counterEvidenceIds :: "string list"

definition challenge_insert_ok :: "challenge_insert \<Rightarrow> bool" where
  "challenge_insert_ok i \<longleftrightarrow> opt_all (\<lambda>x. x \<noteq> []) (kh_id i) \<and> between 1 120 (kh_reasonCode i) \<and> between 1 2000 (kh_explanation i) \<and>
     length (kh_counterEvidenceIds i) \<le> 100"

definition evidence_ok :: "task_evidence \<Rightarrow> bool" where
  "evidence_ok e \<longleftrightarrow> e_tenantId e \<noteq> [] \<and> e_actor e \<noteq> [] \<and> e_principalId e \<noteq> Some [] \<and> between 1 80 (e_kind e) \<and>
     0 \<le> e_observedAt e \<and> 0 \<le> e_createdAt e"

section \<open>Reading\<close>

text \<open>A row is validated whenever it is read: \<open>select \<dots> limit 1\<close>, and \<open>select\<close> of several rows.\<close>

definition select_one :: "string \<Rightarrow> ('r \<Rightarrow> bool) \<Rightarrow> ('r \<Rightarrow> bool) \<Rightarrow> 'r list \<Rightarrow> err + 'r option" where
  "select_one name ok P rows = (case find P rows of
      None \<Rightarrow> Inr None
    | Some r \<Rightarrow> if ok r then Inr (Some r) else Inl (InvalidInput name))"

definition select_all :: "string \<Rightarrow> ('r \<Rightarrow> bool) \<Rightarrow> ('r \<Rightarrow> bool) \<Rightarrow> 'r list \<Rightarrow> err + 'r list" where
  "select_all name ok P rows = (if list_all ok (filter P rows) then Inr (filter P rows) else Inl (InvalidInput name))"

lemma select_one_Some [res]: "select_one n ok P rs = Inr (Some r) \<longleftrightarrow> find P rs = Some r \<and> ok r"
  by (auto simp: select_one_def split: option.splits)

lemma select_one_None [res]: "select_one n ok P rs = Inr None \<longleftrightarrow> find P rs = None"
  by (auto simp: select_one_def split: option.splits)

lemma select_all_Inr [res]: "select_all n ok P rs = Inr xs \<longleftrightarrow> xs = filter P rs \<and> list_all ok (filter P rs)"
  by (auto simp: select_all_def)

definition getResolutionContract :: "string \<Rightarrow> string \<Rightarrow> db \<Rightarrow> err + resolution_contract option" where
  "getResolutionContract cid tenantId d =
     select_one ''resolution_contract'' contract_ok (\<lambda>c. rc_id c = cid \<and> rc_tenantId c = tenantId) (contracts d)"

definition listResolutionContracts :: "string \<Rightarrow> string \<Rightarrow> db \<Rightarrow> err + resolution_contract list" where
  "listResolutionContracts tid tenantId d = select_all ''resolution_contract'' contract_ok
     (\<lambda>c. rc_tenantId c = tenantId \<and> rc_taskId c = tid) (sort_key rc_createdAt (contracts d))"

definition getEvidenceTrustRecord :: "string \<Rightarrow> string \<Rightarrow> db \<Rightarrow> err + evidence_trust_record option" where
  "getEvidenceTrustRecord rid tenantId d =
     select_one ''evidence_trust_record'' trust_ok (\<lambda>t. tr_id t = rid \<and> tr_tenantId t = tenantId) (trustRecords d)"

definition listEvidenceTrustRecords :: "string \<Rightarrow> string \<Rightarrow> db \<Rightarrow> err + evidence_trust_record list" where
  "listEvidenceTrustRecords eid tenantId d = select_all ''evidence_trust_record'' trust_ok
     (\<lambda>t. tr_tenantId t = tenantId \<and> tr_evidenceId t = eid) (sort_key tr_createdAt (trustRecords d))"

definition getCompletionProposal :: "string \<Rightarrow> string \<Rightarrow> db \<Rightarrow> err + completion_proposal option" where
  "getCompletionProposal pid tenantId d =
     select_one ''completion_proposal'' proposal_ok (\<lambda>p. cp_id p = pid \<and> cp_tenantId p = tenantId) (proposals d)"

definition listCompletionProposals :: "string \<Rightarrow> string \<Rightarrow> db \<Rightarrow> err + completion_proposal list" where
  "listCompletionProposals tid tenantId d = select_all ''completion_proposal'' proposal_ok
     (\<lambda>p. cp_tenantId p = tenantId \<and> cp_taskId p = tid) (sort_key cp_proposedAt (proposals d))"

definition getCompletionChallenge :: "string \<Rightarrow> string \<Rightarrow> db \<Rightarrow> err + completion_challenge option" where
  "getCompletionChallenge hid tenantId d =
     select_one ''completion_challenge'' challenge_ok (\<lambda>h. ch_id h = hid \<and> ch_tenantId h = tenantId) (challenges d)"

definition listCompletionChallenges :: "string \<Rightarrow> string \<Rightarrow> db \<Rightarrow> err + completion_challenge list" where
  "listCompletionChallenges pid tenantId d = select_all ''completion_challenge'' challenge_ok
     (\<lambda>h. ch_tenantId h = tenantId \<and> ch_proposalId h = pid) (sort_key ch_challengedAt (challenges d))"

definition getEvidence :: "string \<Rightarrow> string \<Rightarrow> db \<Rightarrow> err + task_evidence option" where
  "getEvidence eid tenantId d =
     select_one ''task_evidence'' evidence_ok (\<lambda>e. e_id e = eid \<and> e_tenantId e = tenantId) (evidence d)"

definition childTrustRecord :: "string \<Rightarrow> string \<Rightarrow> db \<Rightarrow> err + evidence_trust_record option" where
  "childTrustRecord rid tenantId d = select_one ''evidence_trust_record'' trust_ok
     (\<lambda>t. tr_tenantId t = tenantId \<and> tr_supersedesTrustRecordId t = Some rid) (trustRecords d)"

section \<open>Callers, identities and events\<close>

definition callerPrincipal :: "env \<Rightarrow> string \<Rightarrow> service_context \<Rightarrow> int \<Rightarrow> db \<Rightarrow> err + db \<times> principal" where
  "callerPrincipal env tenantId ctx now d = resolveAttribution env (ctx_principalId ctx) tenantId (actor_of ctx) now d"

definition requireEnabledPrincipal :: "string \<Rightarrow> string \<Rightarrow> db \<Rightarrow> err + principal" where
  "requireEnabledPrincipal pid tenantId d = (case getPrincipal pid tenantId d of Inl e \<Rightarrow> Inl e
      | Inr None \<Rightarrow> Inl (Refused ''Principal not found in workspace'' [pid])
      | Inr (Some p) \<Rightarrow> if p_status p \<noteq> Enabled then Inl (Refused ''Principal is disabled'' [pid]) else Inr p)"

fun require_enabled_all :: "string list \<Rightarrow> string \<Rightarrow> db \<Rightarrow> err + unit" where
  "require_enabled_all [] tenantId d = Inr ()"
| "require_enabled_all (pid # pids) tenantId d = (case requireEnabledPrincipal pid tenantId d of Inl e \<Rightarrow> Inl e
     | Inr _ \<Rightarrow> require_enabled_all pids tenantId d)"

text \<open>The durable identity of a mutation: \<open>retry\<close>, then the lookup inside the transaction, then the
  row an earlier run wrote, or a fresh run.\<close>

definition retry ::
  "env \<Rightarrow> service_context \<Rightarrow> string \<Rightarrow> string \<Rightarrow> json \<Rightarrow> int \<Rightarrow> err + prepared_idempotency option" where
  "retry env ctx tenantId operation request now =
     prepareIdempotency env (ctx\<lparr>ctx_tenantId := Some tenantId\<rparr>) operation request now (Some Durable) None
       (Some (JObj [(''operation'', JStr operation), (''request'', request)]))"

definition earlier_row ::
  "string \<Rightarrow> (string \<Rightarrow> db \<Rightarrow> err + 'r option) \<Rightarrow> idempotency_record \<Rightarrow> db \<Rightarrow> err + 'r" where
  "earlier_row name get prior d = (case get (ik_resultId prior) d of Inl e \<Rightarrow> Inl e
      | Inr None \<Rightarrow> Inl (Refused (''Idempotency record points at missing '' @ name) [ik_resultId prior])
      | Inr (Some r) \<Rightarrow> Inr r)"

definition once ::
  "string \<Rightarrow> (string \<Rightarrow> db \<Rightarrow> err + 'r option) \<Rightarrow> prepared_idempotency option \<Rightarrow>
    (db \<Rightarrow> err + db \<times> 'r \<times> event list) \<Rightarrow> db \<Rightarrow> err + db \<times> 'r \<times> event list" where
  "once name get identity fresh d = (case findIdempotencyResult identity d of Inl e \<Rightarrow> Inl e
      | Inr (d, Some prior) \<Rightarrow> (case earlier_row name get prior d of Inl e \<Rightarrow> Inl e | Inr r \<Rightarrow> Inr (d, r, []))
      | Inr (d, None) \<Rightarrow> fresh d)"

definition recordResolutionEvent ::
  "env \<Rightarrow> string \<Rightarrow> string \<Rightarrow> string \<Rightarrow> string \<Rightarrow> string \<Rightarrow> (string \<times> json) list \<Rightarrow> int \<Rightarrow> db \<Rightarrow> err + db \<times> event" where
  "recordResolutionEvent env tenantId tid actor principalId eventType after now d =
     recordEvent env (task_event tenantId actor (Some principalId) tid eventType [(''after'', JObj after)]) now d"

text \<open>What follows an insertion: the row is read back and its event recorded; then the outcome is
  saved.\<close>

definition read_back :: "string \<Rightarrow> (db \<Rightarrow> err + 'r option) \<Rightarrow> db \<Rightarrow> err + 'r" where
  "read_back name get d = (case get d of Inl e \<Rightarrow> Inl e
      | Inr None \<Rightarrow> Inl (Refused (''Failed to read '' @ name) []) | Inr (Some r) \<Rightarrow> Inr r)"

definition save_outcome ::
  "prepared_idempotency option \<Rightarrow> string \<Rightarrow> string \<Rightarrow> string \<Rightarrow> event \<Rightarrow> db \<Rightarrow> err + db" where
  "save_outcome identity resultType rid status ev d = saveIdempotencyResult identity
     \<lparr>o_resultType = resultType, o_resultId = rid, o_resultStatus = Some status, o_resultRevision = None,
      o_eventSequence = Some (ev_sequence ev)\<rparr> d"

lemma earlier_row_Inr [res]:
  "earlier_row name get prior d = Inr r \<longleftrightarrow> get (ik_resultId prior) d = Inr (Some r)"
  by (auto simp: earlier_row_def res split: sum.splits option.splits)

lemma read_back_Inr [res]: "read_back name get d = Inr r \<longleftrightarrow> get d = Inr (Some r)"
  by (auto simp: read_back_def split: sum.splits option.splits)

section \<open>Requests\<close>

fun authenticity_text :: "authenticity \<Rightarrow> string" where
  "authenticity_text Unverified = ''unverified''"
| "authenticity_text AuthenticatedPrincipal = ''authenticated_principal''"
| "authenticity_text AuthenticatedSource = ''authenticated_source''"
| "authenticity_text ProviderVerified = ''provider_verified''"

fun AUTHENTICITY_RANK :: "authenticity \<Rightarrow> nat" where
  "AUTHENTICITY_RANK Unverified = 0"
| "AUTHENTICITY_RANK AuthenticatedPrincipal = 1"
| "AUTHENTICITY_RANK AuthenticatedSource = 2"
| "AUTHENTICITY_RANK ProviderVerified = 3"

fun policy_kind_text :: "policy_kind \<Rightarrow> string" where
  "policy_kind_text Deterministic = ''deterministic''"
| "policy_kind_text Attestation = ''attestation''"
| "policy_kind_text Optimistic = ''optimistic''"
| "policy_kind_text Adjudicated = ''adjudicated''"

definition str_array :: "string list \<Rightarrow> json" where
  "str_array xs = JArr (map JStr xs)"

definition criterion_json :: "criterion \<Rightarrow> json" where
  "criterion_json c = JObj [(''id'', JStr (cn_id c)), (''statement'', JStr (cn_statement c)),
     (''minimumEvidenceCount'', JInt (cn_minimumEvidenceCount c)),
     (''acceptedEvidenceKinds'', str_array (cn_acceptedEvidenceKinds c)),
     (''acceptedSources'', str_array (cn_acceptedSources c)),
     (''minimumAuthenticity'', JStr (authenticity_text (cn_minimumAuthenticity c))),
     (''maxAgeMs'', nullable JInt (cn_maxAgeMs c)), (''minimumRetentionMs'', JInt (cn_minimumRetentionMs c)),
     (''evaluatorInput'', JObj (cn_evaluatorInput c))]"

definition contract_request :: "contract_insert \<Rightarrow> json" where
  "contract_request i = JObj [(''taskId'', JStr (kc_taskId i)), (''criteria'', JArr (map criterion_json (kc_criteria i))),
     (''policyKind'', JStr (policy_kind_text (kc_policyKind i))), (''policyUri'', JStr (kc_policyUri i)),
     (''policyVersion'', JInt (kc_policyVersion i)), (''implementationDigest'', JStr (kc_implementationDigest i)),
     (''notBefore'', nullable JInt (kc_notBefore i)), (''challengeWindowMs'', JInt (kc_challengeWindowMs i)),
     (''allowSelfValidation'', JBool (kc_allowSelfValidation i)),
     (''eligibleValidatorPrincipalIds'', str_array (kc_eligibleValidatorPrincipalIds i)),
     (''adjudicatorPrincipalIds'', str_array (kc_adjudicatorPrincipalIds i)),
     (''metadata'', JObj (kc_metadata i)), (''id'', optional JStr (kc_id i))]"

definition trust_request :: "trust_insert \<Rightarrow> json" where
  "trust_request i = JObj [(''id'', optional JStr (kt_id i)), (''taskId'', JStr (kt_taskId i)),
     (''evidenceId'', JStr (kt_evidenceId i)), (''authenticity'', JStr (authenticity_text (kt_authenticity i))),
     (''authorityUri'', JStr (kt_authorityUri i)), (''authorityVersion'', JInt (kt_authorityVersion i)),
     (''authorityDigest'', JStr (kt_authorityDigest i)), (''reason'', JStr (kt_reason i)),
     (''verifiedAt'', JInt (kt_verifiedAt i)), (''validUntil'', nullable JInt (kt_validUntil i)),
     (''retentionUntil'', nullable JInt (kt_retentionUntil i))]"

definition mapping_json :: "criterion_evidence \<Rightarrow> json" where
  "mapping_json m = JObj [(''criterionId'', JStr (ce_criterionId m)), (''evidenceIds'', str_array (ce_evidenceIds m))]"

definition proposal_request :: "proposal_insert \<Rightarrow> json" where
  "proposal_request i = JObj [(''taskId'', JStr (kp_taskId i)),
     (''resolutionContractId'', JStr (kp_resolutionContractId i)),
     (''criterionEvidence'', JArr (map mapping_json (kp_criterionEvidence i))),
     (''summary'', nullable JStr (kp_summary i)), (''id'', optional JStr (kp_id i))]"

definition challenge_request :: "challenge_insert \<Rightarrow> json" where
  "challenge_request i = JObj [(''proposalId'', JStr (kh_proposalId i)), (''reasonCode'', JStr (kh_reasonCode i)),
     (''explanation'', JStr (kh_explanation i)), (''counterEvidenceIds'', str_array (kh_counterEvidenceIds i)),
     (''id'', optional JStr (kh_id i))]"

section \<open>Resolution contracts\<close>

text \<open>The insertion, behind the trigger of the table.\<close>

definition contract_admitted :: "resolution_contract \<Rightarrow> db \<Rightarrow> bool" where
  "contract_admitted c d \<longleftrightarrow>
     list_ex (\<lambda>t. t_id t = rc_taskId c \<and> t_tenantId t = rc_tenantId c \<and> t_deletedAt t = None \<and>
       t_validationRequired t \<and> t_successCriteria t = Some (rc_successCriteriaSnapshot c)) (tasks d) \<and>
     list_ex (\<lambda>p. p_id p = rc_createdByPrincipalId c \<and> p_tenantId p = rc_tenantId c) (principals d)"

definition contract_check :: "resolution_contract \<Rightarrow> bool" where
  "contract_check c \<longleftrightarrow> rc_taskRevision c > 0 \<and> \<not> sql_blank (rc_successCriteriaSnapshot c) \<and> rc_criteria c \<noteq> [] \<and>
     rc_policyVersion c > 0 \<and> rc_challengeWindowMs c \<ge> 0"

definition insert_contract :: "resolution_contract \<Rightarrow> db \<Rightarrow> err + db" where
  "insert_contract c d = (if \<not> contract_admitted c d then Inl (CheckViolation ''resolution_contract'')
     else insert_row ''resolution_contract''
       (\<forall>x \<in> set (contracts d). rc_id x \<noteq> rc_id c \<and>
          \<not> (rc_tenantId x = rc_tenantId c \<and> rc_contractDigest x = rc_contractDigest c))
       (contract_check c) (d\<lparr>contracts := contracts d @ [c]\<rparr>))"

definition contract_task :: "string \<Rightarrow> string \<Rightarrow> db \<Rightarrow> err + task \<times> string" where
  "contract_task tid tenantId d = (case requireTask tid tenantId d of Inl e \<Rightarrow> Inl e | Inr t \<Rightarrow>
     if \<not> t_validationRequired t \<or> t_completionMode t \<noteq> EvidenceMode
     then Inl (Refused ''Resolution contracts require an evidence task with validationRequired'' [])
     else case t_successCriteria t of
         None \<Rightarrow> Inl (Refused ''Resolution contract requires success criteria'' [])
       | Some s \<Rightarrow> if js_blank s then Inl (Refused ''Resolution contract requires success criteria'' []) else Inr (t, s))"

definition criteria_digest :: "env \<Rightarrow> string \<Rightarrow> criterion list \<Rightarrow> string" where
  "criteria_digest env successCriteria criteria = sha256Digest env (canonicalJson (JObj
     [(''successCriteria'', JStr successCriteria), (''criteria'', JArr (map criterion_json criteria))]))"

definition contract_digest_input :: "env \<Rightarrow> contract_insert \<Rightarrow> task \<Rightarrow> string \<Rightarrow> criterion list \<Rightarrow> json" where
  "contract_digest_input env i t successCriteria criteria = JObj
     [(''taskId'', JStr (t_id t)), (''taskRevision'', JInt (t_revision t)),
      (''successCriteriaSnapshot'', JStr successCriteria), (''criteria'', JArr (map criterion_json criteria)),
      (''criteriaDigest'', JStr (criteria_digest env successCriteria criteria)),
      (''policyKind'', JStr (policy_kind_text (kc_policyKind i))), (''policyUri'', JStr (kc_policyUri i)),
      (''policyVersion'', JInt (kc_policyVersion i)), (''implementationDigest'', JStr (kc_implementationDigest i)),
      (''notBefore'', nullable JInt (kc_notBefore i)), (''challengeWindowMs'', JInt (kc_challengeWindowMs i)),
      (''allowSelfValidation'', JBool (kc_allowSelfValidation i)),
      (''eligibleValidatorPrincipalIds'', str_array (sort (kc_eligibleValidatorPrincipalIds i))),
      (''adjudicatorPrincipalIds'', str_array (sort (kc_adjudicatorPrincipalIds i))),
      (''metadata'', JObj (kc_metadata i))]"

definition new_contract ::
  "env \<Rightarrow> contract_insert \<Rightarrow> string \<Rightarrow> string \<Rightarrow> task \<Rightarrow> string \<Rightarrow> string \<Rightarrow> int \<Rightarrow> resolution_contract" where
  "new_contract env i cid tenantId t successCriteria creatorId now =
     (let criteria = sort_by (\<lambda>a b. localeLe env (cn_id a) (cn_id b)) (kc_criteria i) in
      \<lparr>rc_id = cid, rc_tenantId = tenantId, rc_taskId = t_id t, rc_taskRevision = t_revision t,
       rc_successCriteriaSnapshot = successCriteria, rc_criteria = criteria,
       rc_criteriaDigest = criteria_digest env successCriteria criteria, rc_policyKind = kc_policyKind i,
       rc_policyUri = kc_policyUri i, rc_policyVersion = kc_policyVersion i,
       rc_implementationDigest = kc_implementationDigest i, rc_notBefore = kc_notBefore i,
       rc_challengeWindowMs = kc_challengeWindowMs i, rc_allowSelfValidation = kc_allowSelfValidation i,
       rc_eligibleValidatorPrincipalIds = sort (kc_eligibleValidatorPrincipalIds i),
       rc_adjudicatorPrincipalIds = sort (kc_adjudicatorPrincipalIds i),
       rc_contractDigest = sha256Digest env (canonicalJson (contract_digest_input env i t successCriteria criteria)),
       rc_createdByPrincipalId = creatorId, rc_metadata = kc_metadata i, rc_createdAt = now\<rparr>)"

definition write_contract ::
  "env \<Rightarrow> contract_insert \<Rightarrow> string \<Rightarrow> string \<Rightarrow> task \<Rightarrow> string \<Rightarrow> string \<Rightarrow> int \<Rightarrow> db \<Rightarrow>
    err + db \<times> resolution_contract \<times> event" where
  "write_contract env i tenantId actor t successCriteria creatorId now d0 =
     (let (d, cid) = draw_id env (kc_id i) now d0; c = new_contract env i cid tenantId t successCriteria creatorId now in
      case insert_contract c d of Inl e \<Rightarrow> Inl e | Inr d \<Rightarrow>
      (case read_back ''resolution contract'' (getResolutionContract cid tenantId) d of Inl e \<Rightarrow> Inl e | Inr r \<Rightarrow>
      (case recordResolutionEvent env tenantId (t_id t) actor creatorId ''resolution_contract_created''
              [(''resolutionContractId'', JStr cid), (''contractDigest'', JStr (rc_contractDigest c)),
               (''policyKind'', JStr (policy_kind_text (kc_policyKind i)))] now d of Inl e \<Rightarrow> Inl e
       | Inr (d, ev) \<Rightarrow> Inr (d, r, ev))))"

definition createResolutionContractInTransaction ::
  "env \<Rightarrow> contract_insert \<Rightarrow> string \<Rightarrow> string \<Rightarrow> string option \<Rightarrow> int \<Rightarrow> db \<Rightarrow>
    err + db \<times> resolution_contract \<times> event" where
  "createResolutionContractInTransaction env i tenantId actor principalId now d =
     (if \<not> contract_insert_ok i then Inl (InvalidInput ''resolution_contract'')
      else case contract_task (kc_taskId i) tenantId d of Inl e \<Rightarrow> Inl e | Inr (t, successCriteria) \<Rightarrow>
      (case require_enabled_all (kc_eligibleValidatorPrincipalIds i @ kc_adjudicatorPrincipalIds i) tenantId d of
         Inl e \<Rightarrow> Inl e | Inr _ \<Rightarrow>
      (case resolveAttribution env principalId tenantId actor now d of Inl e \<Rightarrow> Inl e | Inr (d, creator) \<Rightarrow>
       write_contract env i tenantId actor t successCriteria (p_id creator) now d)))"

definition createResolutionContract ::
  "env \<Rightarrow> contract_insert \<Rightarrow> service_context \<Rightarrow> db \<Rightarrow> db \<times> (err + resolution_contract)" where
  "createResolutionContract env i ctx =
     (let tenantId = tenant_of ctx in
      prologue (if \<not> contract_insert_ok i then Inl (InvalidInput ''resolution_contract'')
          else case serviceNow ctx of Inl e \<Rightarrow> Inl e | Inr now \<Rightarrow>
          (case retry env ctx tenantId ''resolution.contract.create'' (contract_request i) now of Inl e \<Rightarrow> Inl e
           | Inr identity \<Rightarrow> Inr (now, identity)))
        (\<lambda>(now, identity). runInTransaction (once ''resolution contract'' (\<lambda>rid. getResolutionContract rid tenantId) identity
          (\<lambda>d. case createResolutionContractInTransaction env i tenantId (actor_of ctx) (ctx_principalId ctx) now d of
                Inl e \<Rightarrow> Inl e
              | Inr (d, r, ev) \<Rightarrow>
                (case save_outcome identity ''resolution_contract'' (rc_id r) ''created'' ev d of Inl e \<Rightarrow> Inl e
                 | Inr d \<Rightarrow> Inr (d, r, [ev]))))))"

section \<open>Trust in evidence\<close>

definition trust_parent_present :: "evidence_trust_record \<Rightarrow> evidence_trust_record list \<Rightarrow> bool" where
  "trust_parent_present r rs \<longleftrightarrow> (case tr_supersedesTrustRecordId r of None \<Rightarrow> True
     | Some q \<Rightarrow> list_ex (\<lambda>x. tr_id x = q \<and> tr_tenantId x = tr_tenantId r \<and> tr_taskId x = tr_taskId r \<and>
         tr_evidenceId x = tr_evidenceId r \<and> tr_action x = Attest) rs)"

definition trust_admitted :: "evidence_trust_record \<Rightarrow> db \<Rightarrow> bool" where
  "trust_admitted r d \<longleftrightarrow>
     list_ex (\<lambda>e. e_id e = tr_evidenceId r \<and> e_tenantId e = tr_tenantId r \<and> e_taskId e = tr_taskId r) (evidence d) \<and>
     list_ex (\<lambda>p. p_id p = tr_recordedByPrincipalId r \<and> p_tenantId p = tr_tenantId r) (principals d) \<and>
     trust_parent_present r (trustRecords d)"

definition trust_check :: "evidence_trust_record \<Rightarrow> bool" where
  "trust_check r \<longleftrightarrow> tr_authorityVersion r > 0 \<and> \<not> sql_blank (tr_reason r) \<and>
     opt_all (\<lambda>x. x \<ge> tr_verifiedAt r) (tr_validUntil r) \<and> opt_all (\<lambda>x. x \<ge> tr_verifiedAt r) (tr_retentionUntil r) \<and>
     (tr_action r = Attest \<and> tr_supersedesTrustRecordId r = None \<or>
      tr_action r = Revoke \<and> tr_supersedesTrustRecordId r \<noteq> None \<and> tr_supersedesTrustRecordId r \<noteq> Some (tr_id r))"

definition trust_unique :: "evidence_trust_record \<Rightarrow> evidence_trust_record list \<Rightarrow> bool" where
  "trust_unique r rs \<longleftrightarrow> (\<forall>x \<in> set rs. tr_id x \<noteq> tr_id r \<and>
     (tr_tenantId x = tr_tenantId r \<longrightarrow>
        (if tr_supersedesTrustRecordId r = None
         then \<not> (tr_evidenceId x = tr_evidenceId r \<and> tr_supersedesTrustRecordId x = None)
         else tr_supersedesTrustRecordId x \<noteq> tr_supersedesTrustRecordId r)))"

definition insert_trust :: "evidence_trust_record \<Rightarrow> db \<Rightarrow> err + db" where
  "insert_trust r d = (if \<not> trust_admitted r d then Inl (CheckViolation ''evidence_trust_record'')
     else insert_row ''evidence_trust_record'' (trust_unique r (trustRecords d)) (trust_check r)
       (d\<lparr>trustRecords := trustRecords d @ [r]\<rparr>))"

text \<open>The host authority that vouches for an authenticity above \<open>unverified\<close>.\<close>

record trust_authority =
  ta_authorityUri :: string
  ta_authorityVersion :: int
  ta_authorityDigest :: string
  ta_authorize :: "string \<Rightarrow> string \<Rightarrow> task_evidence \<Rightarrow> authenticity \<Rightarrow> bool"

definition authority_vouches :: "trust_authority option \<Rightarrow> trust_insert \<Rightarrow> string \<Rightarrow> string \<Rightarrow> task_evidence \<Rightarrow> bool" where
  "authority_vouches authority i tenantId recorderId ev \<longleftrightarrow> (case authority of None \<Rightarrow> False
     | Some a \<Rightarrow> ta_authorityUri a = kt_authorityUri i \<and> ta_authorityVersion a = kt_authorityVersion i \<and>
         ta_authorityDigest a = kt_authorityDigest i \<and> ta_authorize a tenantId recorderId ev (kt_authenticity i))"

definition new_trust :: "trust_insert \<Rightarrow> string \<Rightarrow> string \<Rightarrow> string \<Rightarrow> int \<Rightarrow> evidence_trust_record" where
  "new_trust i rid tenantId recorderId now = \<lparr>tr_id = rid, tr_tenantId = tenantId, tr_taskId = kt_taskId i,
     tr_evidenceId = kt_evidenceId i, tr_action = Attest, tr_authenticity = kt_authenticity i,
     tr_authorityUri = kt_authorityUri i, tr_authorityVersion = kt_authorityVersion i,
     tr_authorityDigest = kt_authorityDigest i, tr_supersedesTrustRecordId = None, tr_reason = kt_reason i,
     tr_verifiedAt = kt_verifiedAt i, tr_validUntil = kt_validUntil i, tr_retentionUntil = kt_retentionUntil i,
     tr_recordedByPrincipalId = recorderId, tr_createdAt = now\<rparr>"

text \<open>A trust record is written the same way by an attestation and by a revocation.\<close>

definition write_trust ::
  "env \<Rightarrow> evidence_trust_record \<Rightarrow> string \<Rightarrow> string \<Rightarrow> (string \<times> json) list \<Rightarrow> string \<Rightarrow> string \<Rightarrow>
    prepared_idempotency option \<Rightarrow> int \<Rightarrow> db \<Rightarrow> err + db \<times> evidence_trust_record \<times> event list" where
  "write_trust env r name eventType after actor status identity now d =
     (case insert_trust r d of Inl e \<Rightarrow> Inl e | Inr d \<Rightarrow>
      (case read_back name (getEvidenceTrustRecord (tr_id r) (tr_tenantId r)) d of Inl e \<Rightarrow> Inl e | Inr row \<Rightarrow>
      (case recordResolutionEvent env (tr_tenantId r) (tr_taskId r) actor (tr_recordedByPrincipalId r) eventType after now d of
         Inl e \<Rightarrow> Inl e
       | Inr (d, ev) \<Rightarrow>
      (case save_outcome identity ''evidence_trust_record'' (tr_id r) status ev d of Inl e \<Rightarrow> Inl e
       | Inr d \<Rightarrow> Inr (d, row, [ev])))))"

definition attest_fresh ::
  "env \<Rightarrow> trust_insert \<Rightarrow> service_context \<Rightarrow> trust_authority option \<Rightarrow> prepared_idempotency option \<Rightarrow> int \<Rightarrow> db \<Rightarrow>
    err + db \<times> evidence_trust_record \<times> event list" where
  "attest_fresh env i ctx authority identity now d =
     (let tenantId = tenant_of ctx in
      case getEvidence (kt_evidenceId i) tenantId d of Inl e \<Rightarrow> Inl e
      | Inr None \<Rightarrow> Inl (Refused ''Evidence does not belong to task'' [kt_taskId i])
      | Inr (Some ev) \<Rightarrow>
        if e_taskId ev \<noteq> kt_taskId i then Inl (Refused ''Evidence does not belong to task'' [kt_taskId i])
        else case callerPrincipal env tenantId ctx now d of Inl e \<Rightarrow> Inl e | Inr (d, recorder) \<Rightarrow>
          if kt_authenticity i \<noteq> Unverified \<and> \<not> authority_vouches authority i tenantId (p_id recorder) ev
          then Inl (Refused ''Authenticated evidence trust requires a matching host authority'' [])
          else let (d, rid) = draw_id env (kt_id i) now d in
            write_trust env (new_trust i rid tenantId (p_id recorder) now) ''evidence trust'' ''evidence_trust_attested''
              [(''trustRecordId'', JStr rid), (''evidenceId'', JStr (kt_evidenceId i)),
               (''authenticity'', JStr (authenticity_text (kt_authenticity i)))] (actor_of ctx) ''attested'' identity now d)"

definition attestEvidenceTrust ::
  "env \<Rightarrow> trust_insert \<Rightarrow> service_context \<Rightarrow> trust_authority option \<Rightarrow> db \<Rightarrow> db \<times> (err + evidence_trust_record)" where
  "attestEvidenceTrust env i ctx authority =
     prologue (if \<not> trust_insert_ok i then Inl (InvalidInput ''evidence_trust_record'')
          else case serviceNow ctx of Inl e \<Rightarrow> Inl e | Inr now \<Rightarrow>
          (case retry env ctx (tenant_of ctx) ''resolution.evidence-trust.attest'' (trust_request i) now of Inl e \<Rightarrow> Inl e
           | Inr identity \<Rightarrow> Inr (now, identity)))
        (\<lambda>(now, identity). runInTransaction (once ''evidence trust'' (\<lambda>rid. getEvidenceTrustRecord rid (tenant_of ctx)) identity
           (attest_fresh env i ctx authority identity now)))"

definition revocation :: "evidence_trust_record \<Rightarrow> string \<Rightarrow> string \<Rightarrow> string \<Rightarrow> int \<Rightarrow> evidence_trust_record" where
  "revocation prior rid reason recorderId now = prior\<lparr>tr_id := rid, tr_action := Revoke,
     tr_supersedesTrustRecordId := Some (tr_id prior), tr_reason := reason, tr_verifiedAt := now,
     tr_recordedByPrincipalId := recorderId, tr_createdAt := now\<rparr>"

definition revoke_fresh ::
  "env \<Rightarrow> string \<Rightarrow> string \<Rightarrow> service_context \<Rightarrow> prepared_idempotency option \<Rightarrow> int \<Rightarrow> db \<Rightarrow>
    err + db \<times> evidence_trust_record \<times> event list" where
  "revoke_fresh env trustRecordId reason ctx identity now d =
     (let tenantId = tenant_of ctx in
      case getEvidenceTrustRecord trustRecordId tenantId d of Inl e \<Rightarrow> Inl e
      | Inr None \<Rightarrow> Inl (Refused ''Trust revocation must supersede an attestation'' [])
      | Inr (Some prior) \<Rightarrow>
        if tr_action prior \<noteq> Attest then Inl (Refused ''Trust revocation must supersede an attestation'' [])
        else case childTrustRecord (tr_id prior) tenantId d of Inl e \<Rightarrow> Inl e
        | Inr (Some child) \<Rightarrow> Inl (Refused ''Evidence trust already superseded by'' [tr_id child])
        | Inr None \<Rightarrow>
          (case callerPrincipal env tenantId ctx now d of Inl e \<Rightarrow> Inl e | Inr (d, recorder) \<Rightarrow>
           if p_id recorder \<noteq> tr_recordedByPrincipalId prior
           then Inl (Refused ''Only the attesting principal may revoke this local trust record'' [])
           else let (d, rid) = fresh_id env now d in
             write_trust env (revocation prior rid reason (p_id recorder) now) ''evidence trust revocation''
               ''evidence_trust_revoked'' [(''trustRecordId'', JStr rid), (''supersedesTrustRecordId'', JStr (tr_id prior)),
                 (''evidenceId'', JStr (tr_evidenceId prior))] (actor_of ctx) ''revoked'' identity now d))"

definition revokeEvidenceTrust ::
  "env \<Rightarrow> string \<Rightarrow> string \<Rightarrow> service_context \<Rightarrow> db \<Rightarrow> db \<times> (err + evidence_trust_record)" where
  "revokeEvidenceTrust env trustRecordId reason ctx =
     prologue (case serviceNow ctx of Inl e \<Rightarrow> Inl e | Inr now \<Rightarrow>
          if js_blank reason then Inl (Refused ''Evidence trust revocation requires a reason'' [])
          else case retry env ctx (tenant_of ctx) ''resolution.evidence-trust.revoke''
                 (JObj [(''trustRecordId'', JStr trustRecordId), (''reason'', JStr reason)]) now of Inl e \<Rightarrow> Inl e
               | Inr identity \<Rightarrow> Inr (now, identity))
        (\<lambda>(now, identity). runInTransaction (once ''evidence trust'' (\<lambda>rid. getEvidenceTrustRecord rid (tenant_of ctx)) identity
           (revoke_fresh env trustRecordId reason ctx identity now)))"

section \<open>Proposals and challenges\<close>

definition normalizeCriterionEvidence ::
  "env \<Rightarrow> resolution_contract \<Rightarrow> criterion_evidence list \<Rightarrow> err + criterion_evidence list" where
  "normalizeCriterionEvidence env c ms =
     (if \<not> distinct (map ce_criterionId ms) \<or> sort (map cn_id (rc_criteria c)) \<noteq> sort (map ce_criterionId ms)
      then Inl (Refused ''Completion proposal must map every frozen criterion exactly once'' [])
      else Inr (sort_by (\<lambda>a b. localeLe env (ce_criterionId a) (ce_criterionId b))
        (map (\<lambda>m. \<lparr>ce_criterionId = ce_criterionId m, ce_evidenceIds = sort (ce_evidenceIds m)\<rparr>) ms)))"

definition uniqueEvidenceIds :: "criterion_evidence list \<Rightarrow> string list" where
  "uniqueEvidenceIds ms = sort_uniq (concat (map ce_evidenceIds ms))"

definition requireCurrentEvidence ::
  "env \<Rightarrow> string \<Rightarrow> string \<Rightarrow> string list \<Rightarrow> db \<Rightarrow> err + task_evidence list" where
  "requireCurrentEvidence env tenantId tid ids d =
     (let rows = filter (\<lambda>e. e_tenantId e = tenantId \<and> e_taskId e = tid \<and> e_id e \<in> set ids) (evidence d);
          missing = filter (\<lambda>i. i \<notin> set (map e_id rows)) ids
      in if ids = [] then Inr []
         else if missing \<noteq> [] then Inl (Refused ''Evidence does not belong to task'' (tid # missing))
         else if evidence_superseded tenantId ids d then Inl (Refused ''Completion evidence has been superseded'' [])
         else if \<not> list_all evidence_ok rows then Inl (InvalidInput ''task_evidence'')
         else Inr (sort_by (\<lambda>a b. localeLe env (e_id a) (e_id b)) rows))"

definition proposal_admitted :: "completion_proposal \<Rightarrow> db \<Rightarrow> bool" where
  "proposal_admitted p d \<longleftrightarrow>
     list_ex (\<lambda>c. rc_id c = cp_resolutionContractId p \<and> rc_tenantId c = cp_tenantId p \<and> rc_taskId c = cp_taskId p \<and>
       rc_contractDigest c = cp_contractDigest p \<and>
       list_ex (\<lambda>t. t_id t = rc_taskId c \<and> t_tenantId t = rc_tenantId c \<and> t_deletedAt t = None \<and>
         t_successCriteria t = Some (rc_successCriteriaSnapshot c)) (tasks d)) (contracts d) \<and>
     list_ex (\<lambda>q. p_id q = cp_proposerPrincipalId p \<and> p_tenantId q = cp_tenantId p \<and> p_status q = Enabled) (principals d)"

definition insert_proposal :: "completion_proposal \<Rightarrow> db \<Rightarrow> err + db" where
  "insert_proposal p d = (if \<not> proposal_admitted p d then Inl (CheckViolation ''completion_proposal'')
     else insert_row ''completion_proposal''
       (\<forall>x \<in> set (proposals d). cp_id x \<noteq> cp_id p \<and>
          \<not> (cp_tenantId x = cp_tenantId p \<and> cp_proposalDigest x = cp_proposalDigest p))
       (cp_criterionEvidence p \<noteq> []) (d\<lparr>proposals := proposals d @ [p]\<rparr>))"

definition challenge_admitted :: "completion_challenge \<Rightarrow> db \<Rightarrow> bool" where
  "challenge_admitted h d \<longleftrightarrow>
     list_ex (\<lambda>p. cp_id p = ch_proposalId h \<and> cp_tenantId p = ch_tenantId h \<and> cp_taskId p = ch_taskId h) (proposals d) \<and>
     list_ex (\<lambda>q. p_id q = ch_challengerPrincipalId h \<and> p_tenantId q = ch_tenantId h \<and> p_status q = Enabled) (principals d)"

definition insert_challenge :: "completion_challenge \<Rightarrow> db \<Rightarrow> err + db" where
  "insert_challenge h d = (if \<not> challenge_admitted h d then Inl (CheckViolation ''completion_challenge'')
     else insert_row ''completion_challenge'' (\<forall>x \<in> set (challenges d). ch_id x \<noteq> ch_id h)
       (\<not> sql_blank (ch_reasonCode h) \<and> \<not> sql_blank (ch_explanation h)) (d\<lparr>challenges := challenges d @ [h]\<rparr>))"

text \<open>The commitment a proposal or a decision is about is open, and its criteria are those frozen.\<close>

definition open_commitment :: "string \<Rightarrow> string \<Rightarrow> string \<Rightarrow> resolution_contract \<Rightarrow> db \<Rightarrow> err + task" where
  "open_commitment purpose tid tenantId c d = (case getTask tid tenantId d of Inl e \<Rightarrow> Inl e
      | Inr None \<Rightarrow> Inl (Refused (''Commitment is not open for '' @ purpose) [tid])
      | Inr (Some t) \<Rightarrow>
        if t_deletedAt t \<noteq> None \<or> terminal (t_status t) then Inl (Refused (''Commitment is not open for '' @ purpose) [tid])
        else if t_successCriteria t \<noteq> Some (rc_successCriteriaSnapshot c)
        then Inl (Refused ''Success criteria changed after the resolution contract was frozen'' [])
        else Inr t)"

definition proposal_digest ::
  "env \<Rightarrow> string \<Rightarrow> resolution_contract \<Rightarrow> string \<Rightarrow> criterion_evidence list \<Rightarrow> string option \<Rightarrow> string" where
  "proposal_digest env tid c proposerId ms summary = sha256Digest env (canonicalJson (JObj
     [(''taskId'', JStr tid), (''resolutionContractId'', JStr (rc_id c)),
      (''contractDigest'', JStr (rc_contractDigest c)), (''proposerPrincipalId'', JStr proposerId),
      (''criterionEvidence'', JArr (map mapping_json ms)), (''summary'', nullable JStr summary)]))"

definition write_proposal ::
  "env \<Rightarrow> proposal_insert \<Rightarrow> service_context \<Rightarrow> prepared_idempotency option \<Rightarrow> resolution_contract \<Rightarrow> string \<Rightarrow>
    criterion_evidence list \<Rightarrow> int \<Rightarrow> db \<Rightarrow> err + db \<times> completion_proposal \<times> event list" where
  "write_proposal env i ctx identity c proposerId ms now d0 =
     (let tenantId = tenant_of ctx; (d, pid) = draw_id env (kp_id i) now d0 in
      case insert_proposal \<lparr>cp_id = pid, cp_tenantId = tenantId, cp_taskId = kp_taskId i, cp_resolutionContractId = rc_id c,
              cp_contractDigest = rc_contractDigest c, cp_proposerPrincipalId = proposerId, cp_criterionEvidence = ms,
              cp_summary = kp_summary i, cp_proposalDigest = proposal_digest env (kp_taskId i) c proposerId ms (kp_summary i),
              cp_proposedAt = now\<rparr> d of Inl e \<Rightarrow> Inl e | Inr d \<Rightarrow>
      (case read_back ''completion proposal'' (getCompletionProposal pid tenantId) d of Inl e \<Rightarrow> Inl e | Inr row \<Rightarrow>
      (case recordResolutionEvent env tenantId (kp_taskId i) (actor_of ctx) proposerId ''completion_proposed''
              [(''proposalId'', JStr pid), (''resolutionContractId'', JStr (rc_id c)),
               (''evidenceIds'', str_array (uniqueEvidenceIds ms))] now d of Inl e \<Rightarrow> Inl e
       | Inr (d, ev) \<Rightarrow>
      (case save_outcome identity ''completion_proposal'' pid ''proposed'' ev d of Inl e \<Rightarrow> Inl e
       | Inr d \<Rightarrow> Inr (d, row, [ev])))))"

definition propose_fresh ::
  "env \<Rightarrow> proposal_insert \<Rightarrow> service_context \<Rightarrow> prepared_idempotency option \<Rightarrow> int \<Rightarrow> db \<Rightarrow>
    err + db \<times> completion_proposal \<times> event list" where
  "propose_fresh env i ctx identity now d =
     (let tenantId = tenant_of ctx in
      case getResolutionContract (kp_resolutionContractId i) tenantId d of Inl e \<Rightarrow> Inl e
      | Inr None \<Rightarrow> Inl (Refused ''Resolution contract does not belong to task'' [kp_taskId i])
      | Inr (Some c) \<Rightarrow>
        if rc_taskId c \<noteq> kp_taskId i then Inl (Refused ''Resolution contract does not belong to task'' [kp_taskId i])
        else case open_commitment ''completion proposal'' (kp_taskId i) tenantId c d of Inl e \<Rightarrow> Inl e | Inr _ \<Rightarrow>
        (case callerPrincipal env tenantId ctx now d of Inl e \<Rightarrow> Inl e | Inr (d, proposer) \<Rightarrow>
        (case normalizeCriterionEvidence env c (kp_criterionEvidence i) of Inl e \<Rightarrow> Inl e | Inr ms \<Rightarrow>
        (case requireCurrentEvidence env tenantId (kp_taskId i) (uniqueEvidenceIds ms) d of Inl e \<Rightarrow> Inl e | Inr _ \<Rightarrow>
         write_proposal env i ctx identity c (p_id proposer) ms now d))))"

definition proposeCompletion ::
  "env \<Rightarrow> proposal_insert \<Rightarrow> service_context \<Rightarrow> db \<Rightarrow> db \<times> (err + completion_proposal)" where
  "proposeCompletion env i ctx =
     prologue (if \<not> proposal_insert_ok i then Inl (InvalidInput ''completion_proposal'')
          else case serviceNow ctx of Inl e \<Rightarrow> Inl e | Inr now \<Rightarrow>
          (case retry env ctx (tenant_of ctx) ''resolution.proposal.create'' (proposal_request i) now of Inl e \<Rightarrow> Inl e
           | Inr identity \<Rightarrow> Inr (now, identity)))
        (\<lambda>(now, identity). runInTransaction (once ''completion proposal'' (\<lambda>rid. getCompletionProposal rid (tenant_of ctx)) identity
           (propose_fresh env i ctx identity now)))"

definition write_challenge ::
  "env \<Rightarrow> challenge_insert \<Rightarrow> service_context \<Rightarrow> prepared_idempotency option \<Rightarrow> completion_proposal \<Rightarrow> string \<Rightarrow> int \<Rightarrow> db \<Rightarrow>
    err + db \<times> completion_challenge \<times> event list" where
  "write_challenge env i ctx identity p challengerId now d0 =
     (let tenantId = tenant_of ctx; (d, hid) = draw_id env (kh_id i) now d0 in
      case insert_challenge \<lparr>ch_id = hid, ch_tenantId = tenantId, ch_taskId = cp_taskId p, ch_proposalId = cp_id p,
              ch_challengerPrincipalId = challengerId, ch_reasonCode = kh_reasonCode i, ch_explanation = kh_explanation i,
              ch_counterEvidenceIds = sort (kh_counterEvidenceIds i), ch_challengedAt = now\<rparr> d of Inl e \<Rightarrow> Inl e | Inr d \<Rightarrow>
      (case read_back ''completion challenge'' (getCompletionChallenge hid tenantId) d of Inl e \<Rightarrow> Inl e | Inr row \<Rightarrow>
      (case recordResolutionEvent env tenantId (cp_taskId p) (actor_of ctx) challengerId ''completion_challenged''
              [(''challengeId'', JStr hid), (''proposalId'', JStr (cp_id p)), (''reasonCode'', JStr (kh_reasonCode i))] now d of
         Inl e \<Rightarrow> Inl e
       | Inr (d, ev) \<Rightarrow>
      (case save_outcome identity ''completion_challenge'' hid ''challenged'' ev d of Inl e \<Rightarrow> Inl e
       | Inr d \<Rightarrow> Inr (d, row, [ev])))))"

definition challenge_fresh ::
  "env \<Rightarrow> challenge_insert \<Rightarrow> service_context \<Rightarrow> prepared_idempotency option \<Rightarrow> int \<Rightarrow> db \<Rightarrow>
    err + db \<times> completion_challenge \<times> event list" where
  "challenge_fresh env i ctx identity now d =
     (let tenantId = tenant_of ctx in
      case getCompletionProposal (kh_proposalId i) tenantId d of Inl e \<Rightarrow> Inl e
      | Inr None \<Rightarrow> Inl (Refused ''Completion proposal not found'' [kh_proposalId i])
      | Inr (Some p) \<Rightarrow>
        (case getResolutionContract (cp_resolutionContractId p) tenantId d of Inl e \<Rightarrow> Inl e
         | Inr None \<Rightarrow> Inl (Refused ''Resolution contract not found'' [cp_resolutionContractId p])
         | Inr (Some c) \<Rightarrow>
           if rc_challengeWindowMs c \<le> 0 then Inl (Refused ''Resolution contract has no challenge window'' [])
           else if now \<ge> cp_proposedAt p + rc_challengeWindowMs c
           then Inl (Refused ''Challenge deadline passed'' [dec_int (cp_proposedAt p + rc_challengeWindowMs c)])
           else case requireCurrentEvidence env tenantId (cp_taskId p) (kh_counterEvidenceIds i) d of Inl e \<Rightarrow> Inl e | Inr _ \<Rightarrow>
           (case callerPrincipal env tenantId ctx now d of Inl e \<Rightarrow> Inl e | Inr (d, challenger) \<Rightarrow>
            write_challenge env i ctx identity p (p_id challenger) now d)))"

definition challengeCompletion ::
  "env \<Rightarrow> challenge_insert \<Rightarrow> service_context \<Rightarrow> db \<Rightarrow> db \<times> (err + completion_challenge)" where
  "challengeCompletion env i ctx =
     prologue (if \<not> challenge_insert_ok i then Inl (InvalidInput ''completion_challenge'')
          else case serviceNow ctx of Inl e \<Rightarrow> Inl e | Inr now \<Rightarrow>
          (case retry env ctx (tenant_of ctx) ''resolution.challenge.create'' (challenge_request i) now of Inl e \<Rightarrow> Inl e
           | Inr identity \<Rightarrow> Inr (now, identity)))
        (\<lambda>(now, identity). runInTransaction (once ''completion challenge'' (\<lambda>rid. getCompletionChallenge rid (tenant_of ctx)) identity
           (challenge_fresh env i ctx identity now)))"

end
