(* ===== verification/Resolution.thy ===== *)
theory Resolution
  imports Resolution_Records
begin

text \<open>
  Validation decisions (\<open>packages/tasq-core/src/service/resolution.ts\<close>): a proposal is prepared against
  its contract, the current evidence and the effective trust in it; one of the four policies decides
  it (a deterministic evaluator, an eligible validator, the elapsed challenge window, an
  adjudicator); the decision is appended to the chain of decisions of the proposal. What
  \<open>prepareValidation\<close> accepts is compared with a declarative specification, every accepted decision
  is shown to meet it, and the ledger to hold justified decisions only.
\<close>

section \<open>Decisions: reading and writing\<close>

definition validation_decision_ok :: "validation_decision \<Rightarrow> bool" where
  "validation_decision_ok v \<longleftrightarrow> vd_tenantId v \<noteq> [] \<and> absolute_uri (vd_policyUri v) \<and> 0 < vd_policyVersion v \<and>
     sha256_ref (vd_implementationDigest v) \<and> sha256_ref (vd_policyInputDigest v) \<and>
     between 1 500 (vd_decidedByPrincipalId v) \<and> between 1 120 (vd_reasonCode v) \<and>
     between 1 2000 (vd_explanation v) \<and> 0 \<le> vd_decidedAt v"

definition getValidationDecision :: "string \<Rightarrow> string \<Rightarrow> db \<Rightarrow> err + validation_decision option" where
  "getValidationDecision vid tenantId d =
     select_one ''validation_decision'' validation_decision_ok (\<lambda>v. vd_id v = vid \<and> vd_tenantId v = tenantId) (decisions d)"

definition listValidationDecisions :: "string \<Rightarrow> string \<Rightarrow> db \<Rightarrow> err + validation_decision list" where
  "listValidationDecisions pid tenantId d = select_all ''validation_decision'' validation_decision_ok
     (\<lambda>v. vd_tenantId v = tenantId \<and> vd_proposalId v = pid) (sort_key vd_decidedAt (decisions d))"

text \<open>The rows no other row of the list supersedes.\<close>

definition leaves :: "('r \<Rightarrow> string) \<Rightarrow> ('r \<Rightarrow> string option) \<Rightarrow> 'r list \<Rightarrow> 'r list" where
  "leaves ident parent rs = filter (\<lambda>r. \<not> list_ex (\<lambda>x. truthy_str (parent x) \<and> parent x = Some (ident r)) rs) rs"

definition currentDecision :: "string \<Rightarrow> string \<Rightarrow> db \<Rightarrow> err + validation_decision option" where
  "currentDecision pid tenantId d = (case listValidationDecisions pid tenantId d of Inl e \<Rightarrow> Inl e | Inr rs \<Rightarrow>
     if rs = [] then Inr None
     else case leaves vd_id vd_supersedesDecisionId rs of
         [v] \<Rightarrow> Inr (Some v) | _ \<Rightarrow> Inl (Refused ''Validation decision chain has several leaves'' []))"

definition effectiveTrust :: "string \<Rightarrow> string \<Rightarrow> db \<Rightarrow> err + evidence_trust_record option" where
  "effectiveTrust eid tenantId d =
     (case select_all ''evidence_trust_record'' trust_ok (\<lambda>t. tr_tenantId t = tenantId \<and> tr_evidenceId t = eid) (trustRecords d) of
        Inl e \<Rightarrow> Inl e
      | Inr rs \<Rightarrow>
        if rs = [] then Inr None
        else case leaves tr_id tr_supersedesTrustRecordId rs of
            [t] \<Rightarrow> Inr (Some t) | _ \<Rightarrow> Inl (Refused ''Evidence trust chain has several leaves'' []))"

definition decision_parent_present :: "validation_decision \<Rightarrow> validation_decision list \<Rightarrow> bool" where
  "decision_parent_present v vs \<longleftrightarrow> (case vd_supersedesDecisionId v of None \<Rightarrow> True
     | Some q \<Rightarrow> list_ex (\<lambda>x. vd_id x = q \<and> vd_tenantId x = vd_tenantId v \<and> vd_taskId x = vd_taskId v \<and>
         vd_proposalId x = vd_proposalId v) vs)"

definition decision_admitted :: "validation_decision \<Rightarrow> db \<Rightarrow> bool" where
  "decision_admitted v d \<longleftrightarrow>
     list_ex (\<lambda>p. cp_id p = vd_proposalId v \<and> cp_tenantId p = vd_tenantId v \<and> cp_taskId p = vd_taskId v \<and>
       list_ex (\<lambda>c. rc_id c = cp_resolutionContractId p \<and> rc_tenantId c = cp_tenantId p \<and>
         rc_id c = vd_resolutionContractId v \<and> rc_policyUri c = vd_policyUri v \<and>
         rc_policyVersion c = vd_policyVersion v \<and> rc_implementationDigest c = vd_implementationDigest v) (contracts d))
       (proposals d) \<and>
     list_ex (\<lambda>q. p_id q = vd_decidedByPrincipalId v \<and> p_tenantId q = vd_tenantId v \<and> p_status q = Enabled) (principals d) \<and>
     decision_parent_present v (decisions d)"

definition decision_unique :: "validation_decision \<Rightarrow> validation_decision list \<Rightarrow> bool" where
  "decision_unique v vs \<longleftrightarrow> (\<forall>x \<in> set vs. vd_id x \<noteq> vd_id v \<and>
     (vd_tenantId x = vd_tenantId v \<longrightarrow>
        (if vd_supersedesDecisionId v = None
         then \<not> (vd_proposalId x = vd_proposalId v \<and> vd_supersedesDecisionId x = None)
         else vd_supersedesDecisionId x \<noteq> vd_supersedesDecisionId v)))"

definition insert_decision :: "validation_decision \<Rightarrow> db \<Rightarrow> err + db" where
  "insert_decision v d = (if \<not> decision_admitted v d then Inl (CheckViolation ''validation_decision'')
     else insert_row ''validation_decision'' (decision_unique v (decisions d))
       (vd_policyVersion v > 0 \<and> vd_supersedesDecisionId v \<noteq> Some (vd_id v) \<and>
        \<not> sql_blank (vd_reasonCode v) \<and> \<not> sql_blank (vd_explanation v))
       (d\<lparr>decisions := decisions d @ [v]\<rparr>))"

section \<open>Preparation\<close>

text \<open>The outcome a proposal has before any policy looks at it: the first check that fails.\<close>

record verdict =
  ve_outcome :: validation_outcome
  ve_reasonCode :: string
  ve_explanation :: string

definition first_failure :: "verdict option \<Rightarrow> bool \<Rightarrow> verdict \<Rightarrow> verdict option" where
  "first_failure early failed v = (if failed \<and> early = None then Some v else early)"

definition indeterminate :: "string \<Rightarrow> string \<Rightarrow> verdict" where
  "indeterminate code text = \<lparr>ve_outcome = OutIndeterminate, ve_reasonCode = code, ve_explanation = text\<rparr>"

definition eligible_yet :: "resolution_contract \<Rightarrow> int \<Rightarrow> verdict option" where
  "eligible_yet c now = (case rc_notBefore c of
      Some t \<Rightarrow> if now < t then Some \<lparr>ve_outcome = OutTooEarly, ve_reasonCode = ''resolution_not_eligible'',
          ve_explanation = ''Resolution is not eligible before '' @ dec_int t\<rparr> else None
    | None \<Rightarrow> None)"

definition item_failure :: "criterion \<Rightarrow> int \<Rightarrow> task_evidence \<Rightarrow> verdict option \<Rightarrow> verdict option" where
  "item_failure cn now e early =
     (let early = first_failure early (cn_acceptedEvidenceKinds cn \<noteq> [] \<and> e_kind e \<notin> set (cn_acceptedEvidenceKinds cn))
            (indeterminate ''evidence_kind_not_accepted''
              (''Evidence '' @ e_id e @ '' kind '' @ e_kind e @ '' is not accepted for '' @ cn_id cn));
          early = first_failure early (cn_acceptedSources cn \<noteq> [] \<and>
              (case e_source e of None \<Rightarrow> True | Some s \<Rightarrow> s \<notin> set (cn_acceptedSources cn)))
            (indeterminate ''evidence_source_not_accepted''
              (''Evidence '' @ e_id e @ '' source is not accepted for '' @ cn_id cn))
      in first_failure early (case cn_maxAgeMs cn of None \<Rightarrow> False | Some m \<Rightarrow> now - e_observedAt e > m)
            (indeterminate ''evidence_stale'' (''Evidence '' @ e_id e @ '' exceeds the freshness window'')))"

definition trust_failure :: "criterion \<Rightarrow> int \<Rightarrow> task_evidence \<Rightarrow> evidence_trust_record \<Rightarrow> verdict option \<Rightarrow> verdict option" where
  "trust_failure cn now e leaf early =
     (let early = first_failure early
            (AUTHENTICITY_RANK (tr_authenticity leaf) < AUTHENTICITY_RANK (cn_minimumAuthenticity cn))
            (indeterminate ''evidence_authenticity_insufficient''
              (''Evidence '' @ e_id e @ '' does not meet '' @ authenticity_text (cn_minimumAuthenticity cn)));
          early = first_failure early (case tr_validUntil leaf of None \<Rightarrow> False | Some t \<Rightarrow> now > t)
            (indeterminate ''evidence_trust_expired'' (''Evidence trust '' @ tr_id leaf @ '' expired''))
      in first_failure early (cn_minimumRetentionMs cn > 0 \<and>
              (case tr_retentionUntil leaf of None \<Rightarrow> True | Some t \<Rightarrow> t < now + cn_minimumRetentionMs cn))
            (indeterminate ''evidence_retention_insufficient''
              (''Evidence trust '' @ tr_id leaf @ '' does not cover the required retention window'')))"

text \<open>One evidence record of a mapping: the trust gathered so far and the first failure so far go
  through the checks of the criterion. A lookup that finds nothing dereferences \<open>undefined\<close>.\<close>

fun check_items ::
  "criterion \<Rightarrow> task_evidence list \<Rightarrow> string \<Rightarrow> int \<Rightarrow> db \<Rightarrow> string list \<Rightarrow> evidence_trust_record list \<times> verdict option \<Rightarrow>
    err + evidence_trust_record list \<times> verdict option" where
  "check_items cn items tenantId now d [] st = Inr st"
| "check_items cn items tenantId now d (eid # eids) (trust, early) =
     (case find (\<lambda>e. e_id e = eid) items of None \<Rightarrow> Inl (Refused ''undefined evidence'' [])
      | Some e \<Rightarrow>
        (let early = item_failure cn now e early in
         case effectiveTrust (e_id e) tenantId d of Inl er \<Rightarrow> Inl er
         | Inr None \<Rightarrow> check_items cn items tenantId now d eids (trust, first_failure early True
              (indeterminate ''evidence_trust_missing'' (''Evidence '' @ e_id e @ '' has no effective trust attestation'')))
         | Inr (Some leaf) \<Rightarrow>
             if tr_action leaf = Revoke
             then check_items cn items tenantId now d eids (trust, first_failure early True
                (indeterminate ''evidence_trust_revoked'' (''Evidence '' @ e_id e @ '' has no effective trust attestation'')))
             else check_items cn items tenantId now d eids (trust @ [leaf], trust_failure cn now e leaf early)))"

fun check_mappings ::
  "resolution_contract \<Rightarrow> task_evidence list \<Rightarrow> string \<Rightarrow> int \<Rightarrow> db \<Rightarrow> criterion_evidence list \<Rightarrow>
    evidence_trust_record list \<times> verdict option \<Rightarrow> err + evidence_trust_record list \<times> verdict option" where
  "check_mappings c items tenantId now d [] st = Inr st"
| "check_mappings c items tenantId now d (m # ms) (trust, early) =
     (case find (\<lambda>cn. cn_id cn = ce_criterionId m) (rc_criteria c) of None \<Rightarrow> Inl (Refused ''undefined criterion'' [])
      | Some cn \<Rightarrow>
        (case check_items cn items tenantId now d (ce_evidenceIds m)
                (trust, first_failure early (int (length (ce_evidenceIds m)) < cn_minimumEvidenceCount cn)
                   (indeterminate ''insufficient_evidence'' (''Criterion '' @ cn_id cn @ '' requires '' @
                      dec_int (cn_minimumEvidenceCount cn) @ '' evidence record(s)''))) of Inl e \<Rightarrow> Inl e
         | Inr st \<Rightarrow> check_mappings c items tenantId now d ms st))"

definition dedupeById :: "env \<Rightarrow> evidence_trust_record list \<Rightarrow> evidence_trust_record list" where
  "dedupeById env rs = sort_by (\<lambda>a b. localeLe env (tr_id a) (tr_id b))
     (rev (fold (\<lambda>r acc. if tr_id r \<in> set (map tr_id acc)
                then map (\<lambda>x. if tr_id x = tr_id r then r else x) acc else r # acc) rs []))"

record prepared_validation =
  pv_contract :: resolution_contract
  pv_proposal :: completion_proposal
  pv_evidence :: "task_evidence list"
  pv_trust :: "evidence_trust_record list"
  pv_evidenceIds :: "string list"
  pv_earlyOutcome :: "verdict option"

definition prepareValidation :: "env \<Rightarrow> string \<Rightarrow> string \<Rightarrow> int \<Rightarrow> db \<Rightarrow> err + prepared_validation" where
  "prepareValidation env pid tenantId now d =
     (case getCompletionProposal pid tenantId d of Inl e \<Rightarrow> Inl e
      | Inr None \<Rightarrow> Inl (Refused ''Completion proposal not found'' [pid])
      | Inr (Some p) \<Rightarrow>
      (case getResolutionContract (cp_resolutionContractId p) tenantId d of Inl e \<Rightarrow> Inl e
       | Inr None \<Rightarrow> Inl (Refused ''Completion proposal contract identity mismatch'' [])
       | Inr (Some c) \<Rightarrow>
         if rc_contractDigest c \<noteq> cp_contractDigest p
         then Inl (Refused ''Completion proposal contract identity mismatch'' [])
         else case open_commitment ''validation'' (cp_taskId p) tenantId c d of Inl e \<Rightarrow> Inl e | Inr _ \<Rightarrow>
         (case normalizeCriterionEvidence env c (cp_criterionEvidence p) of Inl e \<Rightarrow> Inl e | Inr ms \<Rightarrow>
         (case requireCurrentEvidence env tenantId (cp_taskId p) (uniqueEvidenceIds ms) d of Inl e \<Rightarrow> Inl e | Inr items \<Rightarrow>
         (case check_mappings c items tenantId now d ms ([], eligible_yet c now) of Inl e \<Rightarrow> Inl e
          | Inr (trust, early) \<Rightarrow> Inr \<lparr>pv_contract = c, pv_proposal = p, pv_evidence = items,
              pv_trust = dedupeById env trust, pv_evidenceIds = uniqueEvidenceIds ms, pv_earlyOutcome = early\<rparr>)))))"

fun trust_action_text :: "trust_action \<Rightarrow> string" where
  "trust_action_text Attest = ''attest''"
| "trust_action_text Revoke = ''revoke''"

fun validation_outcome_text :: "validation_outcome \<Rightarrow> string" where
  "validation_outcome_text OutAccepted = ''accepted''"
| "validation_outcome_text OutRejected = ''rejected''"
| "validation_outcome_text OutTooEarly = ''too_early''"
| "validation_outcome_text OutIndeterminate = ''indeterminate''"
| "validation_outcome_text OutChallenged = ''challenged''"

definition validationInputDigest :: "env \<Rightarrow> prepared_validation \<Rightarrow> int \<Rightarrow> string" where
  "validationInputDigest env pv evaluatedAt = sha256Digest env (canonicalJson (JObj
     [(''contractDigest'', JStr (rc_contractDigest (pv_contract pv))),
      (''proposalDigest'', JStr (cp_proposalDigest (pv_proposal pv))),
      (''evidence'', JArr (map (\<lambda>e. JObj [(''id'', JStr (e_id e)), (''digest'', nullable JStr (e_digest e)),
          (''observedAt'', JInt (e_observedAt e)), (''supersedesEvidenceId'', nullable JStr (e_supersedesEvidenceId e))])
          (sort_by (\<lambda>a b. localeLe env (e_id a) (e_id b)) (pv_evidence pv)))),
      (''trust'', JArr (map (\<lambda>t. JObj [(''id'', JStr (tr_id t)), (''action'', JStr (trust_action_text (tr_action t))),
          (''authenticity'', JStr (authenticity_text (tr_authenticity t))),
          (''authorityDigest'', JStr (tr_authorityDigest t)), (''validUntil'', nullable JInt (tr_validUntil t)),
          (''retentionUntil'', nullable JInt (tr_retentionUntil t))])
          (sort_by (\<lambda>a b. localeLe env (tr_id a) (tr_id b)) (pv_trust pv)))),
      (''evaluatedAt'', JInt evaluatedAt)]))"

section \<open>Appending a decision\<close>

definition decision_chain_guard :: "string option \<Rightarrow> string \<Rightarrow> string \<Rightarrow> db \<Rightarrow> err + unit" where
  "decision_chain_guard supersedes pid tenantId d =
     (if \<not> truthy_str supersedes then Inr ()
      else case currentDecision pid tenantId d of Inl e \<Rightarrow> Inl e
      | Inr current \<Rightarrow> if map_option vd_id current \<noteq> supersedes
          then Inl (Refused ''Decision must supersede current leaf'' [or_else (map_option vd_id current) ''none'']) else Inr ())"

definition new_decision ::
  "env \<Rightarrow> prepared_validation \<Rightarrow> verdict \<Rightarrow> string \<Rightarrow> string \<Rightarrow> string option \<Rightarrow> string \<Rightarrow> int \<Rightarrow> validation_decision" where
  "new_decision env pv r vid tenantId supersedes deciderId now =
     \<lparr>vd_id = vid, vd_tenantId = tenantId, vd_taskId = cp_taskId (pv_proposal pv),
      vd_resolutionContractId = rc_id (pv_contract pv), vd_proposalId = cp_id (pv_proposal pv),
      vd_outcome = ve_outcome r, vd_policyUri = rc_policyUri (pv_contract pv),
      vd_policyVersion = rc_policyVersion (pv_contract pv),
      vd_implementationDigest = rc_implementationDigest (pv_contract pv),
      vd_policyInputDigest = validationInputDigest env pv now, vd_evidenceIds = pv_evidenceIds pv,
      vd_trustRecordIds = sort (map tr_id (pv_trust pv)), vd_supersedesDecisionId = supersedes,
      vd_decidedByPrincipalId = deciderId, vd_reasonCode = ve_reasonCode r, vd_explanation = ve_explanation r,
      vd_decidedAt = now\<rparr>"

definition append_fresh ::
  "env \<Rightarrow> prepared_validation \<Rightarrow> verdict \<Rightarrow> service_context \<Rightarrow> string \<Rightarrow> int \<Rightarrow> string option \<Rightarrow>
    prepared_idempotency option \<Rightarrow> db \<Rightarrow> err + db \<times> validation_decision \<times> event list" where
  "append_fresh env pv r ctx tenantId now supersedes identity d =
     (case callerPrincipal env tenantId ctx now d of Inl e \<Rightarrow> Inl e | Inr (d, decider) \<Rightarrow>
      (case decision_chain_guard supersedes (cp_id (pv_proposal pv)) tenantId d of Inl e \<Rightarrow> Inl e | Inr _ \<Rightarrow>
      (let (d, vid) = fresh_id env now d in
      (case insert_decision (new_decision env pv r vid tenantId supersedes (p_id decider) now) d of Inl e \<Rightarrow> Inl e | Inr d \<Rightarrow>
      (case read_back ''validation decision'' (getValidationDecision vid tenantId) d of Inl e \<Rightarrow> Inl e | Inr row \<Rightarrow>
      (case recordResolutionEvent env tenantId (cp_taskId (pv_proposal pv)) (actor_of ctx) (p_id decider) ''validation_decided''
              [(''validationDecisionId'', JStr vid), (''proposalId'', JStr (cp_id (pv_proposal pv))),
               (''outcome'', JStr (validation_outcome_text (ve_outcome r))), (''supersedesDecisionId'', nullable JStr supersedes)] now d of
         Inl e \<Rightarrow> Inl e
       | Inr (d, ev) \<Rightarrow>
      (case save_outcome identity ''validation_decision'' vid (validation_outcome_text (ve_outcome r)) ev d of Inl e \<Rightarrow> Inl e
       | Inr d \<Rightarrow> Inr (d, row, [ev]))))))))"

definition appendDecision ::
  "env \<Rightarrow> prepared_validation \<Rightarrow> verdict \<Rightarrow> service_context \<Rightarrow> int \<Rightarrow> string option \<Rightarrow> string \<Rightarrow> json \<Rightarrow> db \<Rightarrow>
    db \<times> (err + validation_decision)" where
  "appendDecision env pv r ctx now supersedes operation request =
     (let tenantId = or_else (ctx_tenantId ctx) (rc_tenantId (pv_contract pv)) in
      prologue (retry env ctx tenantId operation request now)
        (\<lambda>identity. runInTransaction (once ''validation decision'' (\<lambda>rid. getValidationDecision rid tenantId) identity
           (append_fresh env pv r ctx tenantId now supersedes identity))))"

text \<open>An earlier result is looked for before anything is prepared, outside any transaction: an
  expired identity is removed at once.\<close>

definition replayDecision ::
  "env \<Rightarrow> service_context \<Rightarrow> string \<Rightarrow> string \<Rightarrow> json \<Rightarrow> int \<Rightarrow> db \<Rightarrow> db \<times> (err + validation_decision option)" where
  "replayDecision env ctx tenantId operation request now d =
     (case retry env ctx tenantId operation request now of Inl e \<Rightarrow> (d, Inl e) | Inr identity \<Rightarrow>
      (case findIdempotencyResult identity d of Inl e \<Rightarrow> (d, Inl e)
       | Inr (d, None) \<Rightarrow> (d, Inr None)
       | Inr (d, Some prior) \<Rightarrow>
         (case earlier_row ''validation decision'' (\<lambda>rid. getValidationDecision rid tenantId) prior d of
            Inl e \<Rightarrow> (d, Inl e) | Inr v \<Rightarrow> (d, Inr (Some v)))))"

definition unless_decided ::
  "db \<times> (err + validation_decision option) \<Rightarrow> (db \<Rightarrow> db \<times> (err + validation_decision)) \<Rightarrow>
    db \<times> (err + validation_decision)" where
  "unless_decided earlier k = (case earlier of (d, Inl e) \<Rightarrow> (d, Inl e) | (d, Inr (Some v)) \<Rightarrow> (d, Inr v)
     | (d, Inr None) \<Rightarrow> k d)"

section \<open>Policies\<close>

text \<open>The deterministic policy: an evaluator of the host, bound by the three fields of its identity.\<close>

record completion_evaluator =
  cv_policyUri :: string
  cv_policyVersion :: int
  cv_implementationDigest :: string
  cv_evaluate :: "resolution_contract \<Rightarrow> completion_proposal \<Rightarrow> task_evidence list \<Rightarrow> evidence_trust_record list \<Rightarrow> int \<Rightarrow>
    err + verdict"

definition assertEvaluatorIdentity :: "resolution_contract \<Rightarrow> completion_evaluator \<Rightarrow> err + unit" where
  "assertEvaluatorIdentity c ev =
     (if cv_policyUri ev \<noteq> rc_policyUri c \<or> cv_policyVersion ev \<noteq> rc_policyVersion c \<or>
        cv_implementationDigest ev \<noteq> rc_implementationDigest c
      then Inl (Refused ''Completion evaluator identity does not match the frozen resolution contract'' []) else Inr ())"

definition evaluate_prepared :: "completion_evaluator \<Rightarrow> prepared_validation \<Rightarrow> int \<Rightarrow> err + verdict" where
  "evaluate_prepared ev pv now =
     (if rc_policyKind (pv_contract pv) \<noteq> Deterministic then Inl (Refused ''Resolution policy is not deterministic'' [])
      else case assertEvaluatorIdentity (pv_contract pv) ev of Inl e \<Rightarrow> Inl e | Inr _ \<Rightarrow>
      (case pv_earlyOutcome pv of Some r \<Rightarrow> Inr r
       | None \<Rightarrow> cv_evaluate ev (pv_contract pv) (pv_proposal pv) (pv_evidence pv) (pv_trust pv) now))"

definition evaluate_request :: "string \<Rightarrow> completion_evaluator \<Rightarrow> string option \<Rightarrow> json" where
  "evaluate_request pid ev supersedes = JObj [(''proposalId'', JStr pid),
     (''evaluator'', JObj [(''policyUri'', JStr (cv_policyUri ev)), (''policyVersion'', JInt (cv_policyVersion ev)),
        (''implementationDigest'', JStr (cv_implementationDigest ev))]),
     (''supersedesDecisionId'', nullable JStr supersedes)]"

definition evaluateCompletionDeterministically ::
  "env \<Rightarrow> string \<Rightarrow> completion_evaluator \<Rightarrow> string option \<Rightarrow> service_context \<Rightarrow> db \<Rightarrow> db \<times> (err + validation_decision)" where
  "evaluateCompletionDeterministically env pid ev supersedes ctx =
     prologue (serviceNow ctx) (\<lambda>now d.
       let request = evaluate_request pid ev supersedes in
       unless_decided (replayDecision env ctx (tenant_of ctx) ''resolution.decision.evaluate'' request now d) (\<lambda>d.
       case prepareValidation env pid (tenant_of ctx) now d of Inl e \<Rightarrow> (d, Inl e) | Inr pv \<Rightarrow>
       (case evaluate_prepared ev pv now of Inl e \<Rightarrow> (d, Inl e) | Inr r \<Rightarrow>
        appendDecision env pv r ctx now supersedes ''resolution.decision.evaluate'' request d)))"

text \<open>Decisions of a principal: a validator, or an adjudicator.\<close>

record manual_decision_insert =
  kd_id :: "string option"
  kd_proposalId :: string
  kd_outcome :: validation_outcome
  kd_reasonCode :: string
  kd_explanation :: string
  kd_supersedesDecisionId :: "string option"

definition manual_decision_ok :: "manual_decision_insert \<Rightarrow> bool" where
  "manual_decision_ok i \<longleftrightarrow> opt_all (\<lambda>x. x \<noteq> []) (kd_id i) \<and> between 1 120 (kd_reasonCode i) \<and> between 1 2000 (kd_explanation i)"

definition manual_request :: "manual_decision_insert \<Rightarrow> json" where
  "manual_request i = JObj [(''proposalId'', JStr (kd_proposalId i)), (''outcome'', JStr (validation_outcome_text (kd_outcome i))),
     (''reasonCode'', JStr (kd_reasonCode i)), (''explanation'', JStr (kd_explanation i)),
     (''supersedesDecisionId'', nullable JStr (kd_supersedesDecisionId i)), (''id'', optional JStr (kd_id i))]"

definition resolveCallerFromDb :: "env \<Rightarrow> string \<Rightarrow> service_context \<Rightarrow> int \<Rightarrow> db \<Rightarrow> db \<times> (err + principal)" where
  "resolveCallerFromDb env tenantId ctx now = runInTransaction (\<lambda>d.
     case callerPrincipal env tenantId ctx now d of Inl e \<Rightarrow> Inl e | Inr (d, p) \<Rightarrow> Inr (d, p, []))"

definition assertSelfValidation :: "prepared_validation \<Rightarrow> string \<Rightarrow> err + unit" where
  "assertSelfValidation pv validatorId =
     (if \<not> rc_allowSelfValidation (pv_contract pv) \<and> cp_proposerPrincipalId (pv_proposal pv) = validatorId
      then Inl (Refused ''Resolution contract forbids self-validation'' []) else Inr ())"

definition acceptedOnlyWhenReady :: "prepared_validation \<Rightarrow> manual_decision_insert \<Rightarrow> err + verdict" where
  "acceptedOnlyWhenReady pv i =
     (if kd_outcome i = OutChallenged then Inl (Refused ''Manual decision cannot synthesize a challenge'' [])
      else if kd_outcome i = OutAccepted \<and> pv_earlyOutcome pv \<noteq> None
      then Inl (Refused ''Proposal cannot be accepted'' [ve_reasonCode (the (pv_earlyOutcome pv))])
      else Inr \<lparr>ve_outcome = kd_outcome i, ve_reasonCode = kd_reasonCode i, ve_explanation = kd_explanation i\<rparr>)"

definition eligible_validator :: "prepared_validation \<Rightarrow> string \<Rightarrow> err + unit" where
  "eligible_validator pv pid = (if pid \<notin> set (rc_eligibleValidatorPrincipalIds (pv_contract pv))
     then Inl (Refused ''Principal is not an eligible validator'' [pid]) else assertSelfValidation pv pid)"

definition attestCompletion ::
  "env \<Rightarrow> manual_decision_insert \<Rightarrow> service_context \<Rightarrow> db \<Rightarrow> db \<times> (err + validation_decision)" where
  "attestCompletion env i ctx =
     prologue (if \<not> manual_decision_ok i then Inl (InvalidInput ''validation_decision'') else serviceNow ctx) (\<lambda>now d.
       unless_decided (replayDecision env ctx (tenant_of ctx) ''resolution.decision.attest'' (manual_request i) now d) (\<lambda>d.
       case prepareValidation env (kd_proposalId i) (tenant_of ctx) now d of Inl e \<Rightarrow> (d, Inl e) | Inr pv \<Rightarrow>
       if rc_policyKind (pv_contract pv) \<noteq> Attestation then (d, Inl (Refused ''Resolution policy is not attestation'' []))
       else case resolveCallerFromDb env (tenant_of ctx) ctx now d of (d, Inl e) \<Rightarrow> (d, Inl e) | (d, Inr validator) \<Rightarrow>
       (case eligible_validator pv (p_id validator) of Inl e \<Rightarrow> (d, Inl e) | Inr _ \<Rightarrow>
       (case acceptedOnlyWhenReady pv i of Inl e \<Rightarrow> (d, Inl e) | Inr r \<Rightarrow>
        appendDecision env pv r ctx now (kd_supersedesDecisionId i) ''resolution.decision.attest'' (manual_request i) d))))"

text \<open>The optimistic policy: what the end of the challenge window brings.\<close>

definition challenge_deadline :: "prepared_validation \<Rightarrow> int" where
  "challenge_deadline pv = cp_proposedAt (pv_proposal pv) + rc_challengeWindowMs (pv_contract pv)"

definition optimistic_verdict :: "prepared_validation \<Rightarrow> completion_challenge list \<Rightarrow> verdict" where
  "optimistic_verdict pv hs = (case pv_earlyOutcome pv of Some r \<Rightarrow> r
     | None \<Rightarrow> if hs \<noteq> []
         then \<lparr>ve_outcome = OutChallenged, ve_reasonCode = ''eligible_challenge_recorded'',
               ve_explanation = dec_int (int (length hs)) @ '' challenge(s) require adjudication''\<rparr>
         else \<lparr>ve_outcome = OutAccepted, ve_reasonCode = ''challenge_window_elapsed'',
               ve_explanation = ''No challenge was recorded before the deadline''\<rparr>)"

definition window_open_verdict :: "int \<Rightarrow> verdict" where
  "window_open_verdict deadline = \<lparr>ve_outcome = OutTooEarly, ve_reasonCode = ''challenge_window_open'',
     ve_explanation = ''Challenge window remains open until '' @ dec_int deadline\<rparr>"

definition settle_prepared ::
  "env \<Rightarrow> prepared_validation \<Rightarrow> string \<Rightarrow> service_context \<Rightarrow> int \<Rightarrow> json \<Rightarrow> db \<Rightarrow> db \<times> (err + validation_decision)" where
  "settle_prepared env pv pid ctx now request d =
     (if rc_policyKind (pv_contract pv) \<noteq> Optimistic then (d, Inl (Refused ''Resolution policy is not optimistic'' []))
      else case currentDecision pid (tenant_of ctx) d of Inl e \<Rightarrow> (d, Inl e) | Inr prior \<Rightarrow>
      if now < challenge_deadline pv
      then (case prior of Some v \<Rightarrow> (d, Inr v)
            | None \<Rightarrow> appendDecision env pv (window_open_verdict (challenge_deadline pv)) ctx now None
                ''resolution.decision.settle-optimistic'' request d)
      else case listCompletionChallenges pid (tenant_of ctx) d of Inl e \<Rightarrow> (d, Inl e) | Inr hs \<Rightarrow>
        (case prior of
           Some v \<Rightarrow> if vd_outcome v \<noteq> OutTooEarly then (d, Inr v)
             else appendDecision env pv (optimistic_verdict pv hs) ctx now (Some (vd_id v))
               ''resolution.decision.settle-optimistic'' request d
         | None \<Rightarrow> appendDecision env pv (optimistic_verdict pv hs) ctx now None
               ''resolution.decision.settle-optimistic'' request d))"

definition settleOptimisticCompletion ::
  "env \<Rightarrow> string \<Rightarrow> service_context \<Rightarrow> db \<Rightarrow> db \<times> (err + validation_decision)" where
  "settleOptimisticCompletion env pid ctx =
     prologue (serviceNow ctx) (\<lambda>now d.
       let request = JObj [(''proposalId'', JStr pid)] in
       unless_decided (replayDecision env ctx (tenant_of ctx) ''resolution.decision.settle-optimistic'' request now d) (\<lambda>d.
       case prepareValidation env pid (tenant_of ctx) now d of Inl e \<Rightarrow> (d, Inl e) | Inr pv \<Rightarrow>
        settle_prepared env pv pid ctx now request d))"

text \<open>Adjudication, of its own policy or of a challenged optimistic decision.\<close>

definition eligible_adjudicator :: "prepared_validation \<Rightarrow> string \<Rightarrow> err + unit" where
  "eligible_adjudicator pv pid = (if pid \<notin> set (rc_adjudicatorPrincipalIds (pv_contract pv))
     then Inl (Refused ''Principal is not an eligible adjudicator'' [pid]) else assertSelfValidation pv pid)"

definition adjudicable :: "prepared_validation \<Rightarrow> manual_decision_insert \<Rightarrow> string \<Rightarrow> db \<Rightarrow> err + unit" where
  "adjudicable pv i tenantId d =
     (if rc_policyKind (pv_contract pv) \<noteq> Optimistic then Inr ()
      else case currentDecision (cp_id (pv_proposal pv)) tenantId d of Inl e \<Rightarrow> Inl e
      | Inr None \<Rightarrow> Inl (Refused ''Optimistic adjudication must supersede the current challenged decision'' [])
      | Inr (Some v) \<Rightarrow> if vd_outcome v \<noteq> OutChallenged \<or> kd_supersedesDecisionId i \<noteq> Some (vd_id v)
          then Inl (Refused ''Optimistic adjudication must supersede the current challenged decision'' []) else Inr ())"

definition adjudicateCompletion ::
  "env \<Rightarrow> manual_decision_insert \<Rightarrow> service_context \<Rightarrow> db \<Rightarrow> db \<times> (err + validation_decision)" where
  "adjudicateCompletion env i ctx =
     prologue (if \<not> manual_decision_ok i then Inl (InvalidInput ''validation_decision'') else serviceNow ctx) (\<lambda>now d.
       unless_decided (replayDecision env ctx (tenant_of ctx) ''resolution.decision.adjudicate'' (manual_request i) now d) (\<lambda>d.
       case prepareValidation env (kd_proposalId i) (tenant_of ctx) now d of Inl e \<Rightarrow> (d, Inl e) | Inr pv \<Rightarrow>
       if rc_policyKind (pv_contract pv) \<noteq> Adjudicated \<and> rc_policyKind (pv_contract pv) \<noteq> Optimistic
       then (d, Inl (Refused ''Resolution policy cannot be adjudicated'' []))
       else case resolveCallerFromDb env (tenant_of ctx) ctx now d of (d, Inl e) \<Rightarrow> (d, Inl e) | (d, Inr adjudicator) \<Rightarrow>
       (case eligible_adjudicator pv (p_id adjudicator) of Inl e \<Rightarrow> (d, Inl e) | Inr _ \<Rightarrow>
       (case adjudicable pv i (tenant_of ctx) d of Inl e \<Rightarrow> (d, Inl e) | Inr _ \<Rightarrow>
       (case acceptedOnlyWhenReady pv i of Inl e \<Rightarrow> (d, Inl e) | Inr r \<Rightarrow>
        appendDecision env pv r ctx now (kd_supersedesDecisionId i) ''resolution.decision.adjudicate'' (manual_request i) d)))))"

section \<open>The resolution of a contract\<close>

record resolution_chain =
  rn_contract :: resolution_contract
  rn_proposals :: "completion_proposal list"
  rn_challenges :: "completion_challenge list"
  rn_decisions :: "validation_decision list"
  rn_trustRecords :: "evidence_trust_record list"

definition getCompletionResolutionChain :: "string \<Rightarrow> string \<Rightarrow> db \<Rightarrow> err + resolution_chain option" where
  "getCompletionResolutionChain cid tenantId d =
     (case getResolutionContract cid tenantId d of Inl e \<Rightarrow> Inl e | Inr None \<Rightarrow> Inr None | Inr (Some c) \<Rightarrow>
      (case select_all ''completion_proposal'' proposal_ok
              (\<lambda>p. cp_tenantId p = tenantId \<and> cp_resolutionContractId p = cid) (sort_key cp_proposedAt (proposals d)) of
         Inl e \<Rightarrow> Inl e
       | Inr ps \<Rightarrow>
         (let pids = map cp_id ps; eids = uniqueEvidenceIds (concat (map cp_criterionEvidence ps)) in
          case select_all ''completion_challenge'' challenge_ok
                 (\<lambda>h. ch_tenantId h = tenantId \<and> ch_proposalId h \<in> set pids) (sort_key ch_challengedAt (challenges d)) of
            Inl e \<Rightarrow> Inl e
          | Inr hs \<Rightarrow>
          (case select_all ''validation_decision'' validation_decision_ok
                  (\<lambda>v. vd_tenantId v = tenantId \<and> vd_proposalId v \<in> set pids) (sort_key vd_decidedAt (decisions d)) of
             Inl e \<Rightarrow> Inl e
           | Inr vs \<Rightarrow>
           (case select_all ''evidence_trust_record'' trust_ok
                   (\<lambda>t. tr_tenantId t = tenantId \<and> tr_evidenceId t \<in> set eids) (sort_key tr_createdAt (trustRecords d)) of
              Inl e \<Rightarrow> Inl e
            | Inr ts \<Rightarrow> Inr (Some \<lparr>rn_contract = c, rn_proposals = ps, rn_challenges = hs, rn_decisions = vs,
                 rn_trustRecords = ts\<rparr>))))))"

end
