(* ===== verification/Validation.thy ===== *)
theory Validation
  imports Resolution
begin

text \<open>
  What the resolution of completions guarantees (\<open>packages/tasq-core/src/service/resolution.ts\<close>). The
  checks of \<open>prepareValidation\<close> are those of a declarative specification, \<open>criteria_met\<close>; a decision
  that accepts was taken when they held, and by whom its policy allows; decisions and trust records
  form chains with one current element; a validated completion rests on such a decision.
\<close>

section \<open>When the criteria of a contract are met\<close>

definition supersedes_trust :: "evidence_trust_record \<Rightarrow> evidence_trust_record \<Rightarrow> bool" where
  "supersedes_trust x t \<longleftrightarrow> truthy_str (tr_supersedesTrustRecordId x) \<and> tr_supersedesTrustRecordId x = Some (tr_id t)"

text \<open>The trust in force for an evidence record: the record of its chain that none supersedes.\<close>

definition trust_in_force :: "string \<Rightarrow> string \<Rightarrow> db \<Rightarrow> evidence_trust_record \<Rightarrow> bool" where
  "trust_in_force eid tenantId d t \<longleftrightarrow> t \<in> set (trustRecords d) \<and> tr_tenantId t = tenantId \<and> tr_evidenceId t = eid \<and>
     (\<forall>x \<in> set (trustRecords d). tr_tenantId x = tenantId \<and> tr_evidenceId x = eid \<longrightarrow> \<not> supersedes_trust x t)"

definition trust_suffices :: "criterion \<Rightarrow> int \<Rightarrow> evidence_trust_record \<Rightarrow> bool" where
  "trust_suffices cn now t \<longleftrightarrow> tr_action t = Attest \<and>
     AUTHENTICITY_RANK (cn_minimumAuthenticity cn) \<le> AUTHENTICITY_RANK (tr_authenticity t) \<and>
     (\<forall>u. tr_validUntil t = Some u \<longrightarrow> now \<le> u) \<and>
     (cn_minimumRetentionMs cn > 0 \<longrightarrow> (\<exists>u. tr_retentionUntil t = Some u \<and> now + cn_minimumRetentionMs cn \<le> u))"

definition item_suffices :: "criterion \<Rightarrow> int \<Rightarrow> task_evidence \<Rightarrow> bool" where
  "item_suffices cn now e \<longleftrightarrow> (cn_acceptedEvidenceKinds cn = [] \<or> e_kind e \<in> set (cn_acceptedEvidenceKinds cn)) \<and>
     (cn_acceptedSources cn = [] \<or> (\<exists>s. e_source e = Some s \<and> s \<in> set (cn_acceptedSources cn))) \<and>
     (\<forall>m. cn_maxAgeMs cn = Some m \<longrightarrow> now - e_observedAt e \<le> m)"

definition criterion_met :: "criterion \<Rightarrow> criterion_evidence \<Rightarrow> string \<Rightarrow> string \<Rightarrow> int \<Rightarrow> db \<Rightarrow> bool" where
  "criterion_met cn m tid tenantId now d \<longleftrightarrow> cn_minimumEvidenceCount cn \<le> int (length (ce_evidenceIds m)) \<and>
     \<not> evidence_superseded tenantId (ce_evidenceIds m) d \<and>
     (\<forall>i \<in> set (ce_evidenceIds m).
        (\<exists>e \<in> set (evidence d). e_id e = i \<and> e_tenantId e = tenantId \<and> e_taskId e = tid \<and> item_suffices cn now e) \<and>
        (\<exists>t. trust_in_force i tenantId d t \<and> trust_suffices cn now t))"

definition criteria_met :: "resolution_contract \<Rightarrow> completion_proposal \<Rightarrow> string \<Rightarrow> int \<Rightarrow> db \<Rightarrow> bool" where
  "criteria_met c p tenantId now d \<longleftrightarrow> (\<forall>t. rc_notBefore c = Some t \<longrightarrow> t \<le> now) \<and>
     (\<forall>cn \<in> set (rc_criteria c). \<exists>m \<in> set (cp_criterionEvidence p). ce_criterionId m = cn_id cn \<and>
        criterion_met cn m (cp_taskId p) tenantId now d)"

section \<open>The checks of a preparation\<close>

lemma first_failure_None [simp]: "first_failure early b v = None \<longleftrightarrow> early = None \<and> \<not> b"
  by (auto simp: first_failure_def)

lemma item_failure_None: "item_failure cn now e early = None \<longleftrightarrow> early = None \<and> item_suffices cn now e"
  by (auto simp: item_failure_def Let_def item_suffices_def not_less split: option.splits)

lemma trust_failure_None:
  "tr_action t = Attest \<Longrightarrow> trust_failure cn now e t early = None \<longleftrightarrow> early = None \<and> trust_suffices cn now t"
  by (auto simp: trust_failure_def Let_def trust_suffices_def not_less split: option.splits)

lemma eligible_yet_None: "eligible_yet c now = None \<longleftrightarrow> (\<forall>t. rc_notBefore c = Some t \<longrightarrow> t \<le> now)"
  by (auto simp: eligible_yet_def split: option.splits)

lemma trust_suffices_Attest: "trust_suffices cn now t \<Longrightarrow> tr_action t = Attest"
  by (simp add: trust_suffices_def)

lemma not_Revoke [simp]: "a \<noteq> Revoke \<longleftrightarrow> a = Attest"
  by (cases a) simp_all

lemma check_items_None:
  assumes "check_items cn items tn now d eids (tr, early) = Inr (tr', early')"
  shows "early' = None \<longleftrightarrow> early = None \<and> (\<forall>i \<in> set eids. \<exists>e. find (\<lambda>e. e_id e = i) items = Some e \<and>
     item_suffices cn now e \<and> (\<exists>t. effectiveTrust i tn d = Inr (Some t) \<and> trust_suffices cn now t))"
  using assms
proof (induction eids arbitrary: tr early)
  case (Cons i eids)
  then obtain e where e: "find (\<lambda>e. e_id e = i) items = Some e" by (auto split: option.splits)
  then have i: "e_id e = i" by (auto dest: find_SomeD)
  show ?case
  proof (cases "effectiveTrust i tn d")
    case (Inr found)
    show ?thesis
    proof (cases "\<exists>t. found = Some t \<and> tr_action t = Attest")
      case True
      then obtain t where t: "found = Some t" "tr_action t = Attest" by blast
      with Cons.prems e i Inr have "check_items cn items tn now d eids
          (tr @ [t], trust_failure cn now e t (item_failure cn now e early)) = Inr (tr', early')" by (simp add: Let_def)
      from Cons.IH [OF this] t show ?thesis
        by (simp add: trust_failure_None item_failure_None e Inr conj_ac)
    next
      case False
      then obtain v where "check_items cn items tn now d eids (tr, first_failure (item_failure cn now e early) True v) =
          Inr (tr', early')"
        using Cons.prems e i Inr by (cases found) (auto simp: Let_def split: if_splits)
      from Cons.IH [OF this] False show ?thesis
        by (auto simp: Inr dest: trust_suffices_Attest)
    qed
  qed (use Cons.prems e i in \<open>simp add: Let_def\<close>)
qed simp

lemma check_mappings_None:
  assumes "check_mappings c items tn now d ms (tr, early) = Inr (tr', early')"
  shows "early' = None \<longleftrightarrow> early = None \<and> (\<forall>m \<in> set ms. \<exists>cn. find (\<lambda>cn. cn_id cn = ce_criterionId m) (rc_criteria c) = Some cn \<and>
     cn_minimumEvidenceCount cn \<le> int (length (ce_evidenceIds m)) \<and>
     (\<forall>i \<in> set (ce_evidenceIds m). \<exists>e. find (\<lambda>e. e_id e = i) items = Some e \<and> item_suffices cn now e \<and>
        (\<exists>t. effectiveTrust i tn d = Inr (Some t) \<and> trust_suffices cn now t)))"
  using assms
proof (induction ms arbitrary: tr early)
  case (Cons m ms)
  then obtain cn tr1 early1 where cn: "find (\<lambda>cn. cn_id cn = ce_criterionId m) (rc_criteria c) = Some cn"
    and items: "check_items cn items tn now d (ce_evidenceIds m)
       (tr, first_failure early (int (length (ce_evidenceIds m)) < cn_minimumEvidenceCount cn)
         (indeterminate ''insufficient_evidence'' (''Criterion '' @ cn_id cn @ '' requires '' @
                      dec_int (cn_minimumEvidenceCount cn) @ '' evidence record(s)''))) = Inr (tr1, early1)"
    and rest: "check_mappings c items tn now d ms (tr1, early1) = Inr (tr', early')"
    by (auto simp: res split: option.splits)
  from Cons.IH [OF rest] check_items_None [OF items] cn show ?case by (auto simp: not_less)
qed simp

lemma leaves_set: "set (leaves ident parent rs) =
    {r \<in> set rs. \<forall>x \<in> set rs. \<not> (truthy_str (parent x) \<and> parent x = Some (ident r))}"
  by (auto simp: leaves_def list_ex_iff)

lemma effectiveTrust_in_force:
  assumes "effectiveTrust eid tn d = Inr found"
  shows "found = Some t \<longleftrightarrow> trust_in_force eid tn d t"
proof -
  let ?rs = "filter (\<lambda>t. tr_tenantId t = tn \<and> tr_evidenceId t = eid) (trustRecords d)"
  have leaf: "trust_in_force eid tn d t \<longleftrightarrow> t \<in> set (leaves tr_id tr_supersedesTrustRecordId ?rs)"
    by (auto simp: leaves_set trust_in_force_def supersedes_trust_def)
  show ?thesis
  proof (cases "?rs = []")
    case True
    with assms leaf show ?thesis by (simp add: effectiveTrust_def res leaves_def)
  next
    case False
    then obtain u where "leaves tr_id tr_supersedesTrustRecordId ?rs = [u]" "found = Some u"
      using assms by (auto simp: effectiveTrust_def res split: list.splits)
    with leaf show ?thesis by auto
  qed
qed

lemma effectiveTrust_Some: "effectiveTrust eid tn d = Inr (Some t) \<Longrightarrow> trust_in_force eid tn d t"
  using effectiveTrust_in_force by blast

text \<open>The parts of a preparation.\<close>

lemma prepared_parts:
  assumes "prepareValidation env pid tn now d = Inr pv"
  obtains ms tr where "find (\<lambda>p. cp_id p = pid \<and> cp_tenantId p = tn) (proposals d) = Some (pv_proposal pv)"
    "find (\<lambda>c. rc_id c = cp_resolutionContractId (pv_proposal pv) \<and> rc_tenantId c = tn) (contracts d) = Some (pv_contract pv)"
    "rc_contractDigest (pv_contract pv) = cp_contractDigest (pv_proposal pv)"
    "normalizeCriterionEvidence env (pv_contract pv) (cp_criterionEvidence (pv_proposal pv)) = Inr ms"
    "requireCurrentEvidence env tn (cp_taskId (pv_proposal pv)) (uniqueEvidenceIds ms) d = Inr (pv_evidence pv)"
    "check_mappings (pv_contract pv) (pv_evidence pv) tn now d ms ([], eligible_yet (pv_contract pv) now) = Inr (tr, pv_earlyOutcome pv)"
    "pv_evidenceIds pv = uniqueEvidenceIds ms"
    "\<exists>t. open_commitment ''validation'' (cp_taskId (pv_proposal pv)) tn (pv_contract pv) d = Inr t"
  using assms unfolding prepareValidation_def getCompletionProposal_def getResolutionContract_def
  by (auto simp: res split: option.splits sum.splits if_splits intro: that)

text \<open>A normalized mapping pairs every criterion with the evidence mapped to it.\<close>

lemma normalized_set:
  assumes "normalizeCriterionEvidence env c ms = Inr ns"
  shows "set ns = (\<lambda>m. \<lparr>ce_criterionId = ce_criterionId m, ce_evidenceIds = sort (ce_evidenceIds m)\<rparr>) ` set ms"
  using assms by (auto simp: normalizeCriterionEvidence_def split: if_splits)

lemma normalized_ids:
  assumes "normalizeCriterionEvidence env c ms = Inr ns"
  shows "distinct (map ce_criterionId ms)" "set (map cn_id (rc_criteria c)) = set (map ce_criterionId ms)"
    "distinct (map cn_id (rc_criteria c))"
proof -
  show d: "distinct (map ce_criterionId ms)"
    using assms by (auto simp: normalizeCriterionEvidence_def split: if_splits)
  have eq: "sort (map cn_id (rc_criteria c)) = sort (map ce_criterionId ms)"
    using assms by (auto simp: normalizeCriterionEvidence_def split: if_splits)
  show "set (map cn_id (rc_criteria c)) = set (map ce_criterionId ms)"
    using arg_cong [OF eq, of set] by (simp only: set_sort)
  have "distinct (sort (map cn_id (rc_criteria c)))" using d by (simp only: eq distinct_sort)
  then show "distinct (map cn_id (rc_criteria c))" by (simp only: distinct_sort)
qed

lemma find_by_key:
  assumes "distinct (map k xs)" and "x \<in> set xs" shows "find (\<lambda>y. k y = k x) xs = Some x"
  using assms by (intro find_uniq [where k = k]) (auto simp: uniq_by_def)

text \<open>Everything mapped exactly once: a property of all pairs is a property of all mappings.\<close>

lemma normalized_all:
  assumes "normalizeCriterionEvidence env c ms = Inr ns"
  shows "(\<forall>n \<in> set ns. \<exists>cn. find (\<lambda>cn. cn_id cn = ce_criterionId n) (rc_criteria c) = Some cn \<and> P cn (ce_evidenceIds n)) \<longleftrightarrow>
    (\<forall>cn \<in> set (rc_criteria c). \<exists>m \<in> set ms. ce_criterionId m = cn_id cn \<and> P cn (sort (ce_evidenceIds m)))"
    (is "?L \<longleftrightarrow> ?R")
proof
  note ids = normalized_ids [OF assms] and ns = normalized_set [OF assms]
  assume L: ?L
  show ?R
  proof
    fix cn assume cn: "cn \<in> set (rc_criteria c)"
    then have "cn_id cn \<in> ce_criterionId ` set ms" using ids(2) by (metis imageI set_map)
    then obtain m where m: "m \<in> set ms" "ce_criterionId m = cn_id cn" by auto
    with L ns obtain cn' where "find (\<lambda>x. cn_id x = cn_id cn) (rc_criteria c) = Some cn'" "P cn' (sort (ce_evidenceIds m))"
      by fastforce
    moreover have "find (\<lambda>x. cn_id x = cn_id cn) (rc_criteria c) = Some cn" using ids(3) cn by (rule find_by_key)
    ultimately show "\<exists>m \<in> set ms. ce_criterionId m = cn_id cn \<and> P cn (sort (ce_evidenceIds m))" using m by auto
  qed
next
  note ids = normalized_ids [OF assms] and ns = normalized_set [OF assms]
  assume R: ?R
  show ?L
  proof
    fix n assume "n \<in> set ns"
    then obtain m where m: "m \<in> set ms" "ce_criterionId n = ce_criterionId m" "ce_evidenceIds n = sort (ce_evidenceIds m)"
      using ns by auto
    then have "ce_criterionId m \<in> cn_id ` set (rc_criteria c)" using ids(2) by (metis imageI set_map)
    then obtain cn where cn: "cn \<in> set (rc_criteria c)" "cn_id cn = ce_criterionId m" by auto
    with R obtain m' where m': "m' \<in> set ms" "ce_criterionId m' = cn_id cn" "P cn (sort (ce_evidenceIds m'))" by blast
    have "m' = m" using ids(1) m(1) m'(1,2) cn(2) by (metis distinct_map inj_onD)
    moreover have "find (\<lambda>x. cn_id x = cn_id cn) (rc_criteria c) = Some cn" using ids(3) cn(1) by (rule find_by_key)
    ultimately show "\<exists>cn. find (\<lambda>cn. cn_id cn = ce_criterionId n) (rc_criteria c) = Some cn \<and> P cn (ce_evidenceIds n)"
      using m m' cn by auto
  qed
qed

lemma set_uniqueEvidenceIds: "set (uniqueEvidenceIds ms) = (\<Union>m \<in> set ms. set (ce_evidenceIds m))"
  by (simp add: uniqueEvidenceIds_def sort_uniq_def)

text \<open>The evidence of a preparation: the rows of the commitment with the identifiers asked for, each
  of them there and none superseded.\<close>

lemma current_evidence:
  assumes "requireCurrentEvidence env tn tid ids d = Inr items"
  shows "set items = {e \<in> set (evidence d). e_tenantId e = tn \<and> e_taskId e = tid \<and> e_id e \<in> set ids}"
    "\<forall>i \<in> set ids. \<exists>e \<in> set items. e_id e = i" "\<not> evidence_superseded tn ids d"
proof -
  let ?rows = "filter (\<lambda>e. e_tenantId e = tn \<and> e_taskId e = tid \<and> e_id e \<in> set ids) (evidence d)"
  have facts: "set items = set ?rows \<and> filter (\<lambda>i. i \<notin> set (map e_id ?rows)) ids = [] \<and> \<not> evidence_superseded tn ids d"
  proof (cases "ids = []")
    case True
    with assms show ?thesis
      by (simp add: requireCurrentEvidence_def Let_def evidence_superseded_def list_ex_iff split: option.splits)
  next
    case False
    then have "\<not> filter (\<lambda>i. i \<notin> set (map e_id ?rows)) ids \<noteq> [] \<and> \<not> evidence_superseded tn ids d \<and>
        (if \<not> list_all evidence_ok ?rows then Inl (InvalidInput ''task_evidence'')
         else Inr (sort_by (\<lambda>a b. localeLe env (e_id a) (e_id b)) ?rows)) = Inr items"
      using assms by (simp only: requireCurrentEvidence_def Let_def if_False if_Inl_eq_Inr) blast
    then show ?thesis by (auto split: if_splits)
  qed
  note rows = conjunct1 [OF facts] and missing = conjunct1 [OF conjunct2 [OF facts]]
    and live = conjunct2 [OF conjunct2 [OF facts]]
  from rows show "set items = {e \<in> set (evidence d). e_tenantId e = tn \<and> e_taskId e = tid \<and> e_id e \<in> set ids}"
    by (simp only: set_filter)
  show "\<forall>i \<in> set ids. \<exists>e \<in> set items. e_id e = i"
  proof
    fix i assume "i \<in> set ids"
    then have "\<not> i \<notin> set (map e_id ?rows)" by (rule bspec [OF missing [unfolded filter_empty_conv]])
    then have "i \<in> set (map e_id ?rows)" by (rule notnotD)
    then show "\<exists>e \<in> set items. e_id e = i" unfolding rows set_map by (rule imageE) (rule bexI, rule sym)
  qed
  show "\<not> evidence_superseded tn ids d" by (rule live)
qed

lemma evidence_superseded_mono:
  assumes "evidence_superseded tn xs d" and "set xs \<subseteq> set ys" shows "evidence_superseded tn ys d"
proof -
  from assms(1) obtain e s where "e \<in> set (evidence d)" "e_tenantId e = tn" "e_supersedesEvidenceId e = Some s" "s \<in> set xs"
    by (auto simp: evidence_superseded_def list_ex_iff split: option.splits)
  with assms(2) show ?thesis unfolding evidence_superseded_def list_ex_iff by (intro bexI [of _ e]) auto
qed

lemma find_some_eq:
  assumes "uniq_by k xs"
  shows "(\<exists>e. find (\<lambda>e. k e = i) xs = Some e \<and> P e) \<longleftrightarrow> (\<exists>e \<in> set xs. k e = i \<and> P e)"
proof
  assume "\<exists>e \<in> set xs. k e = i \<and> P e"
  then obtain e where "e \<in> set xs" "k e = i" "P e" by blast
  with find_by_key [of k xs e] assms show "\<exists>e. find (\<lambda>e. k e = i) xs = Some e \<and> P e" by (auto simp: uniq_by_def)
qed (auto dest: find_SomeD)

lemma distinct_insert_by: "distinct (map k (insert_by le x xs)) \<longleftrightarrow> k x \<notin> k ` set xs \<and> distinct (map k xs)"
  by (induction xs) auto

lemma distinct_sort_by: "distinct (map k (sort_by le xs)) \<longleftrightarrow> distinct (map k xs)"
proof -
  have step: "sort_by le (x # ys) = insert_by le x (sort_by le ys)" for x ys by (simp add: sort_by_def)
  show ?thesis by (induction xs) (auto simp: step distinct_insert_by, simp_all add: sort_by_def)
qed

lemma current_evidence_uniq:
  assumes "requireCurrentEvidence env tn tid ids d = Inr items" and "uniq_by e_id (evidence d)"
  shows "uniq_by e_id items"
  using assms by (auto simp: requireCurrentEvidence_def Let_def uniq_by_def distinct_sort_by distinct_map_filter split: if_splits)

text \<open>A preparation that returns looked up the trust in force of everything mapped.\<close>

lemma check_items_trust:
  "check_items cn items tn now d eids st = Inr st' \<Longrightarrow> i \<in> set eids \<Longrightarrow> \<exists>t. effectiveTrust i tn d = Inr t"
  by (induction cn items tn now d eids st rule: check_items.induct)
    (auto simp: Let_def split: option.splits sum.splits if_splits dest!: find_SomeD)

lemma check_mappings_trust:
  "check_mappings c items tn now d ms st = Inr st' \<Longrightarrow> m \<in> set ms \<Longrightarrow> i \<in> set (ce_evidenceIds m) \<Longrightarrow>
    \<exists>t. effectiveTrust i tn d = Inr t"
  by (induction c items tn now d ms st rule: check_mappings.induct)
    (auto split: option.splits sum.splits dest: check_items_trust)

text \<open>C9. The preparation of a validation finds no failure exactly when the criteria of the contract
  are met: the time of eligibility has come and every criterion has enough evidence of the
  commitment, unsuperseded, of an accepted kind and source, fresh, and trusted by a record in force
  with the authenticity, validity and retention asked for.\<close>

theorem preparation_exact:
  assumes "prepareValidation env pid tn now d = Inr pv" and "uniq_by e_id (evidence d)"
  shows "pv_earlyOutcome pv = None \<longleftrightarrow> criteria_met (pv_contract pv) (pv_proposal pv) tn now d"
  using assms(1)
proof (cases rule: prepared_parts)
  case (1 ms tr)
  let ?c = "pv_contract pv" and ?p = "pv_proposal pv" and ?items = "pv_evidence pv"
  let ?Q = "\<lambda>cn is. cn_minimumEvidenceCount cn \<le> int (length is) \<and>
     (\<forall>i \<in> set is. \<exists>e. find (\<lambda>e. e_id e = i) ?items = Some e \<and> item_suffices cn now e \<and>
        (\<exists>t. effectiveTrust i tn d = Inr (Some t) \<and> trust_suffices cn now t))"
  note cur = current_evidence [OF 1(5)] and uniq = current_evidence_uniq [OF 1(5) assms(2)]
  have one: "?Q cn (sort (ce_evidenceIds m)) \<longleftrightarrow> criterion_met cn m (cp_taskId ?p) tn now d"
    if m: "m \<in> set (cp_criterionEvidence ?p)" for cn m
  proof -
    let ?n = "\<lparr>ce_criterionId = ce_criterionId m, ce_evidenceIds = sort (ce_evidenceIds m)\<rparr>"
    have n: "?n \<in> set ms" using m normalized_set [OF 1(4)] by blast
    have sub: "set (ce_evidenceIds m) \<subseteq> set (uniqueEvidenceIds ms)" using n by (auto simp: set_uniqueEvidenceIds)
    have live: "\<not> evidence_superseded tn (ce_evidenceIds m) d" using cur(3) sub evidence_superseded_mono by blast
    have trust: "(\<exists>t. effectiveTrust i tn d = Inr (Some t) \<and> trust_suffices cn now t) \<longleftrightarrow>
        (\<exists>t. trust_in_force i tn d t \<and> trust_suffices cn now t)" if i: "i \<in> set (ce_evidenceIds m)" for i
    proof -
      obtain t where "effectiveTrust i tn d = Inr t" using check_mappings_trust [OF 1(6) n, of i] i by auto
      with effectiveTrust_in_force [OF this] show ?thesis by auto
    qed
    have item: "(\<exists>e. find (\<lambda>e. e_id e = i) ?items = Some e \<and> item_suffices cn now e \<and> R) \<longleftrightarrow>
        (\<exists>e \<in> set (evidence d). e_id e = i \<and> e_tenantId e = tn \<and> e_taskId e = cp_taskId ?p \<and> item_suffices cn now e) \<and> R"
      if "i \<in> set (ce_evidenceIds m)" for i R
      using that sub cur(1) find_some_eq [OF uniq, of i "\<lambda>e. item_suffices cn now e \<and> R"] by auto
    show ?thesis unfolding criterion_met_def using live by (simp add: item trust)
  qed
  have "pv_earlyOutcome pv = None \<longleftrightarrow> eligible_yet ?c now = None \<and>
      (\<forall>n \<in> set ms. \<exists>cn. find (\<lambda>cn. cn_id cn = ce_criterionId n) (rc_criteria ?c) = Some cn \<and> ?Q cn (ce_evidenceIds n))"
    by (rule check_mappings_None [OF 1(6)])
  also have "\<dots> \<longleftrightarrow> eligible_yet ?c now = None \<and> (\<forall>cn \<in> set (rc_criteria ?c). \<exists>m \<in> set (cp_criterionEvidence ?p).
      ce_criterionId m = cn_id cn \<and> ?Q cn (sort (ce_evidenceIds m)))"
    by (subst normalized_all [OF 1(4)]) (rule refl)
  also have "\<dots> \<longleftrightarrow> criteria_met ?c ?p tn now d"
    unfolding criteria_met_def eligible_yet_None using one by (meson)
  finally show ?thesis .
qed

section \<open>What a decision changes\<close>

definition same_basis :: "db \<Rightarrow> db \<Rightarrow> bool" where
  "same_basis d d' \<longleftrightarrow> tasks d' = tasks d \<and> evidence d' = evidence d \<and> contracts d' = contracts d \<and>
     proposals d' = proposals d \<and> challenges d' = challenges d \<and> trustRecords d' = trustRecords d"

lemma same_basis_trans: "same_basis d d1 \<Longrightarrow> same_basis d1 d2 \<Longrightarrow> same_basis d d2"
  by (simp add: same_basis_def)

lemma callerPrincipal_basis:
  assumes "callerPrincipal env tn ctx now d = Inr (d', p)"
  shows "same_basis d d' \<and> decisions d' = decisions d"
  using resolveAttribution_frame [OF assms [unfolded callerPrincipal_def]] by (auto simp: same_basis_def)

lemma recordResolutionEvent_basis:
  assumes "recordResolutionEvent env tn tid actor pid ty after now d = Inr (d', ev)"
  shows "same_basis d d' \<and> decisions d' = decisions d"
  using recordEvent_frame [OF assms [unfolded recordResolutionEvent_def]] by (auto simp: same_basis_def)

lemma save_outcome_basis:
  assumes "save_outcome identity ty rid st ev d = Inr d'"
  shows "same_basis d d' \<and> decisions d' = decisions d"
  using saveIdempotencyResult_frame [OF assms [unfolded save_outcome_def]] by (auto simp: same_basis_def)

lemma find_appended:
  assumes "find P (xs @ [r]) = Some x" and "\<And>y. P y \<Longrightarrow> k y = k r" and "\<And>y. y \<in> set xs \<Longrightarrow> k y \<noteq> k r"
  shows "x = r"
proof (cases "find P xs")
  case None
  with assms(1) show ?thesis by (auto simp: find_append split: if_splits)
next
  case (Some y)
  then have "P y" "y \<in> set xs" by (auto dest: find_SomeD)
  with assms(2,3) show ?thesis by blast
qed

lemma insert_decision_Inr:
  "insert_decision v d = Inr d' \<longleftrightarrow> d' = d\<lparr>decisions := decisions d @ [v]\<rparr> \<and> decision_admitted v d \<and>
     decision_unique v (decisions d) \<and> vd_policyVersion v > 0 \<and> vd_supersedesDecisionId v \<noteq> Some (vd_id v) \<and>
     \<not> sql_blank (vd_reasonCode v) \<and> \<not> sql_blank (vd_explanation v)"
  by (auto simp: insert_decision_def insert_row_def)

text \<open>What the table asks of a new decision.\<close>

definition decision_admits :: "validation_decision \<Rightarrow> validation_decision list \<Rightarrow> bool" where
  "decision_admits v vs \<longleftrightarrow> decision_unique v vs \<and> decision_parent_present v vs \<and> vd_supersedesDecisionId v \<noteq> Some (vd_id v)"

text \<open>A decision appended by its transaction: one row more, and nothing else of the resolution.\<close>

lemma append_fresh_result:
  assumes "append_fresh env pv r ctx tn now prev identity d = Inr (d', v, evs)"
  obtains d1 decider n where "callerPrincipal env tn ctx now d = Inr (d1, decider)"
    "decision_chain_guard prev (cp_id (pv_proposal pv)) tn d1 = Inr ()"
    "v = new_decision env pv r (uuid env n now) tn prev (p_id decider) now" "decision_admits v (decisions d)" "validation_decision_ok v"
    "decisions d' = decisions d @ [v]" "same_basis d d'"
proof -
  let ?p = "cp_id (pv_proposal pv)"
  obtain d1 decider d2 d3 ev where c: "callerPrincipal env tn ctx now d = Inr (d1, decider)"
    and g: "decision_chain_guard prev ?p tn d1 = Inr ()"
    and ins: "insert_decision (new_decision env pv r (uuid env (draws d1) now) tn prev (p_id decider) now) (d1\<lparr>draws := draws d1 + 1\<rparr>) = Inr d2"
    and row: "getValidationDecision (uuid env (draws d1) now) tn d2 = Inr (Some v)"
    and ev: "recordResolutionEvent env tn (cp_taskId (pv_proposal pv)) (actor_of ctx) (p_id decider) ''validation_decided''
              [(''validationDecisionId'', JStr (uuid env (draws d1) now)), (''proposalId'', JStr ?p),
               (''outcome'', JStr (validation_outcome_text (ve_outcome r))), (''supersedesDecisionId'', nullable JStr prev)] now d2 = Inr (d3, ev)"
    and save: "save_outcome identity ''validation_decision'' (uuid env (draws d1) now) (validation_outcome_text (ve_outcome r)) ev d3 = Inr d'"
    using assms unfolding append_fresh_def by (auto simp: res fresh_id_simp split: prod.splits)
  define vid where "vid = uuid env (draws d1) now"
  define w where "w = new_decision env pv r vid tn prev (p_id decider) now"
  note b = callerPrincipal_basis [OF c] and e = recordResolutionEvent_basis [OF ev] and s = save_outcome_basis [OF save]
  note i = ins [folded vid_def, folded w_def, unfolded insert_decision_Inr]
  have d2: "decisions d2 = decisions d @ [w]" "same_basis d d2" using i b by (simp_all add: same_basis_def)
  have u: "decision_unique w (decisions d)" using i b by simp
  have vw: "v = w"
  proof (rule find_appended [where k = vd_id])
    show "find (\<lambda>x. vd_id x = vid \<and> vd_tenantId x = tn) (decisions d @ [w]) = Some v"
      using row [folded vid_def] d2 by (simp add: getValidationDecision_def res)
  qed (use u in \<open>auto simp: decision_unique_def w_def new_decision_def\<close>)
  have adm: "decision_admits w (decisions d)" using i b by (simp add: decision_admits_def decision_admitted_def)
  have ok: "validation_decision_ok w" using row vw by (simp add: getValidationDecision_def res)
  show thesis
    by (rule that [OF c g _ _ _ _ same_basis_trans [OF d2(2)]]) (use vw w_def vid_def adm ok d2 e s in \<open>auto simp: same_basis_def\<close>)
qed

text \<open>Resolving the caller of a decision again finds the same principal.\<close>

lemma resolveAttribution_same:
  assumes "principals d2 = principals d1" and "resolveAttribution env pid tn al now d1 = Inr (d1', p)"
    and "resolveAttribution env pid tn al now d2 = Inr (d2', q)"
  shows "q = p"
proof -
  show ?thesis
  proof (cases "truthy_str pid")
    case True
    with assms show ?thesis
      by (auto simp: resolveAttribution_def getPrincipal_def res split: option.splits sum.splits if_splits)
  next
    case False
    with assms show ?thesis
      by (auto simp: resolveAttribution_def ensureLocalPrincipal_def Let_def insert_principal_def insert_row_def res
          split: option.splits sum.splits if_splits)
  qed
qed

lemma resolveAttribution_again:
  assumes "resolveAttribution env pid tn al now d = Inr (d1, p)"
  shows "resolveAttribution env pid tn al now d1 = Inr (d1, p)"
  using assms ensureLocalPrincipal_again unfolding resolveAttribution_def
  by (auto simp: res split: option.splits sum.splits if_splits)

lemma callerPrincipal_again:
  assumes "callerPrincipal env tn ctx now d = Inr (d1, p)" and "principals d2 = principals d1"
    and "callerPrincipal env tn ctx now d2 = Inr (d3, q)"
  shows "q = p"
  using resolveAttribution_same [OF assms(2)] resolveAttribution_again assms(1,3) unfolding callerPrincipal_def by blast

section \<open>New decisions\<close>

lemma decision_chain_guard_cong:
  "decisions d1 = decisions d \<Longrightarrow> decision_chain_guard prev pid tn d1 = decision_chain_guard prev pid tn d"
  by (simp add: decision_chain_guard_def currentDecision_def listValidationDecisions_def)

lemma appendDecision_new:
  assumes "appendDecision env pv r ctx now prev operation request d = (d', Inr v)" and "v \<notin> set (decisions d)"
    and "or_else (ctx_tenantId ctx) (rc_tenantId (pv_contract pv)) = tn"
  obtains d1 d2 decider n where "callerPrincipal env tn ctx now d1 = Inr (d2, decider)" "principals d1 = principals d"
    "decision_chain_guard prev (cp_id (pv_proposal pv)) tn d = Inr ()"
    "v = new_decision env pv r (uuid env n now) tn prev (p_id decider) now" "decision_admits v (decisions d)" "validation_decision_ok v"
    "decisions d' = decisions d @ [v]" "same_basis d d'"
proof -
  obtain identity d3 evs n j where once: "once ''validation decision'' (\<lambda>rid. getValidationDecision rid tn) identity
      (append_fresh env pv r ctx tn now prev identity) d = Inr (d3, v, evs)"
    and d': "d' = d3\<lparr>committedMutations := n, journal := j\<rparr>"
    using assms(1) unfolding appendDecision_def Let_def assms(3)
    by (auto simp: prologue_def runInTransaction_def split: sum.splits prod.splits)
  obtain xs where fresh: "append_fresh env pv r ctx tn now prev identity (d\<lparr>idems := xs\<rparr>) = Inr (d3, v, evs)"
    using once assms(2) unfolding once_def
    by (auto simp: res getValidationDecision_def dest!: findIdempotencyResult_frame find_SomeD split: option.splits prod.splits)
  from fresh show thesis
  proof (cases rule: append_fresh_result)
    case (1 d1 decider n)
    have "decision_chain_guard prev (cp_id (pv_proposal pv)) tn d = Inr ()"
      using 1(2) callerPrincipal_basis [OF 1(1)] decision_chain_guard_cong [of d1 d] by simp
    then show thesis
      using that [OF 1(1) _ _ 1(3)] 1(4-7) by (simp add: d' same_basis_def)
  qed
qed

lemma check_items_idems:
  "check_items cn items tn now (d\<lparr>idems := xs\<rparr>) eids st = check_items cn items tn now d eids st"
  by (induction cn items tn now d eids st rule: check_items.induct)
    (simp_all add: effectiveTrust_def Let_def split: option.splits sum.splits)

lemma check_mappings_idems:
  "check_mappings c items tn now (d\<lparr>idems := xs\<rparr>) ms st = check_mappings c items tn now d ms st"
  by (induction c items tn now d ms st rule: check_mappings.induct)
    (simp_all add: check_items_idems split: option.splits sum.splits)

lemma prepareValidation_idems: "prepareValidation env pid tn now (d\<lparr>idems := xs\<rparr>) = prepareValidation env pid tn now d"
proof -
  let ?d = "d\<lparr>idems := xs\<rparr>"
  have reads: "getCompletionProposal pid tn ?d = getCompletionProposal pid tn d"
    "getResolutionContract cid tn ?d = getResolutionContract cid tn d"
    "open_commitment purpose tid tn c ?d = open_commitment purpose tid tn c d"
    "requireCurrentEvidence env tn tid ids ?d = requireCurrentEvidence env tn tid ids d" for cid purpose tid c ids
    by (simp_all add: getCompletionProposal_def getResolutionContract_def open_commitment_def getTask_def
        task_row_def requireCurrentEvidence_def evidence_superseded_def Let_def)
  show ?thesis unfolding prepareValidation_def reads check_mappings_idems by (rule refl)
qed

text \<open>A failed check never accepts.\<close>

definition not_accepting :: "verdict option \<Rightarrow> bool" where
  "not_accepting early \<longleftrightarrow> (\<forall>x. early = Some x \<longrightarrow> ve_outcome x \<noteq> OutAccepted)"

lemma not_accepting_first [intro]:
  "not_accepting early \<Longrightarrow> ve_outcome v \<noteq> OutAccepted \<Longrightarrow> not_accepting (first_failure early b v)"
  by (simp add: not_accepting_def first_failure_def)

lemma indeterminate_outcome [simp]: "ve_outcome (indeterminate c x) = OutIndeterminate"
  by (simp add: indeterminate_def)

lemma not_accepting_item [intro]: "not_accepting early \<Longrightarrow> not_accepting (item_failure cn now e early)"
  unfolding item_failure_def Let_def by (intro not_accepting_first) simp_all

lemma not_accepting_trust [intro]: "not_accepting early \<Longrightarrow> not_accepting (trust_failure cn now e t early)"
  unfolding trust_failure_def Let_def by (intro not_accepting_first) simp_all

lemma check_items_outcome:
  "check_items cn items tn now d eids (tr, early) = Inr (tr', early') \<Longrightarrow> not_accepting early \<Longrightarrow> not_accepting early'"
proof (induction eids arbitrary: tr early)
  case (Cons i eids)
  have first: "not_accepting (first_failure (item_failure cn now e early) b (indeterminate k x))" for e b k x
    by (intro not_accepting_first not_accepting_item Cons.prems(2)) simp
  have trust: "not_accepting (trust_failure cn now e t (item_failure cn now e early))" for e t
    by (intro not_accepting_trust not_accepting_item Cons.prems(2))
  from Cons.prems(1) obtain e q where e: "find (\<lambda>e. e_id e = i) items = Some e" and q: "effectiveTrust (e_id e) tn d = Inr q"
    by (auto simp: Let_def split: option.splits sum.splits)
  show ?case
  proof (cases "\<exists>leaf. q = Some leaf \<and> tr_action leaf = Attest")
    case True
    then obtain leaf where "q = Some leaf" "tr_action leaf = Attest" by blast
    with Cons.prems(1) e q show ?thesis by (auto simp: Let_def intro: Cons.IH [OF _ trust])
  next
    case False
    with Cons.prems(1) e q show ?thesis by (cases q) (auto simp: Let_def split: if_splits intro: Cons.IH [OF _ first])
  qed
qed auto

lemma check_mappings_outcome:
  "check_mappings c items tn now d ms (tr, early) = Inr (tr', early') \<Longrightarrow> not_accepting early \<Longrightarrow> not_accepting early'"
proof (induction ms arbitrary: tr early)
  case (Cons m ms)
  have first: "not_accepting (first_failure early b (indeterminate k x))" for b k x
    by (intro not_accepting_first Cons.prems(2)) simp
  from Cons.prems(1) show ?case
    by (auto simp only: check_mappings.simps res split_paired_Ex split: option.splits dest!: check_items_outcome [OF _ first] intro: Cons.IH)
qed auto

lemma prepared_outcome:
  assumes "prepareValidation env pid tn now d = Inr pv" and "pv_earlyOutcome pv = Some e"
  shows "ve_outcome e \<noteq> OutAccepted"
  using assms(1)
proof (cases rule: prepared_parts)
  case (1 ms tr)
  show ?thesis
    using check_mappings_outcome [OF 1(6)] assms(2)
    by (auto simp: not_accepting_def eligible_yet_def split: option.splits if_splits)
qed

lemma prepared_tenant:
  assumes "prepareValidation env pid (tenant_of ctx) now d = Inr pv"
  shows "or_else (ctx_tenantId ctx) (rc_tenantId (pv_contract pv)) = tenant_of ctx"
  using assms by (cases rule: prepared_parts) (auto simp: tenant_of_def or_else_def dest!: find_SomeD split: option.splits)

text \<open>A decision that is not an earlier one of the ledger was prepared and appended.\<close>

definition decision_appended :: "db \<Rightarrow> validation_decision \<Rightarrow> db \<Rightarrow> bool" where
  "decision_appended d v d' \<longleftrightarrow> decisions d' = decisions d @ [v] \<and> same_basis d d' \<and> validation_decision_ok v \<and>
     decision_admits v (decisions d)"

definition decided ::
  "env \<Rightarrow> string \<Rightarrow> int \<Rightarrow> prepared_validation \<Rightarrow> verdict \<Rightarrow> string \<Rightarrow> string option \<Rightarrow> db \<Rightarrow> validation_decision \<Rightarrow> bool" where
  "decided env tn now pv r decider prev d v \<longleftrightarrow> (\<exists>pid n. prepareValidation env pid tn now d = Inr pv \<and>
     v = new_decision env pv r (uuid env n now) tn prev decider now)"

lemma unless_decided_new:
  assumes "unless_decided (replayDecision env ctx tn operation request now d) k = (d', Inr v)" and "v \<notin> set (decisions d)"
  obtains xs where "k (d\<lparr>idems := xs\<rparr>) = (d', Inr v)"
  using assms unfolding unless_decided_def replayDecision_def
  by (auto simp: res getValidationDecision_def dest!: findIdempotencyResult_frame find_SomeD
      split: sum.splits option.splits prod.splits if_splits)

lemma appended_decided:
  assumes "appendDecision env pv r ctx now prev operation request d1 = (d', Inr v)" and "v \<notin> set (decisions d)"
    and "prepareValidation env pid (tenant_of ctx) now d = Inr pv" and "decisions d1 = decisions d" and "same_basis d d1"
  obtains d2 d3 decider where "callerPrincipal env (tenant_of ctx) ctx now d2 = Inr (d3, decider)" "principals d2 = principals d1"
    "decided env (tenant_of ctx) now pv r (p_id decider) prev d v" "decision_appended d v d'"
    "decision_chain_guard prev (cp_id (pv_proposal pv)) (tenant_of ctx) d = Inr ()"
proof -
  have v: "v \<notin> set (decisions d1)" using assms(2,4) by simp
  from assms(1) v prepared_tenant [OF assms(3)] show thesis
  proof (cases rule: appendDecision_new)
    case (1 d2 d3 decider n)
    have "decided env (tenant_of ctx) now pv r (p_id decider) prev d v"
      unfolding decided_def using assms(3) 1(4) by blast
    moreover have "decision_appended d v d'"
      using 1(5-8) assms(4) same_basis_trans [OF assms(5) 1(8)] by (simp add: decision_appended_def)
    moreover have "decision_chain_guard prev (cp_id (pv_proposal pv)) (tenant_of ctx) d = Inr ()"
      using 1(3) decision_chain_guard_cong [OF assms(4)] by simp
    ultimately show thesis using that [OF 1(1,2)] by blast
  qed
qed

lemma idems_basis: "decisions (d\<lparr>idems := xs\<rparr>) = decisions d" "same_basis d (d\<lparr>idems := xs\<rparr>)"
  by (simp_all add: same_basis_def)

text \<open>The four ways to decide.\<close>

lemma evaluate_new:
  assumes "evaluateCompletionDeterministically env pid ev prev ctx d = (d', Inr v)" and "v \<notin> set (decisions d)"
  obtains now pv r decider where "decided env (tenant_of ctx) now pv r decider prev d v" "decision_appended d v d'"
    "rc_policyKind (pv_contract pv) = Deterministic" "pv_earlyOutcome pv = Some r \<or> pv_earlyOutcome pv = None"
    "decision_chain_guard prev (cp_id (pv_proposal pv)) (tenant_of ctx) d = Inr ()"
proof -
  obtain now xs where "(case prepareValidation env pid (tenant_of ctx) now (d\<lparr>idems := xs\<rparr>) of Inl e \<Rightarrow> (d\<lparr>idems := xs\<rparr>, Inl e) | Inr pv \<Rightarrow>
       (case evaluate_prepared ev pv now of Inl e \<Rightarrow> (d\<lparr>idems := xs\<rparr>, Inl e) | Inr r \<Rightarrow>
        appendDecision env pv r ctx now prev ''resolution.decision.evaluate'' (evaluate_request pid ev prev) (d\<lparr>idems := xs\<rparr>))) = (d', Inr v)"
    using assms unfolding evaluateCompletionDeterministically_def Let_def
    by (auto simp: prologue_def elim!: unless_decided_new split: sum.splits)
  then obtain pv r where pv: "prepareValidation env pid (tenant_of ctx) now d = Inr pv" and r: "evaluate_prepared ev pv now = Inr r"
    and a: "appendDecision env pv r ctx now prev ''resolution.decision.evaluate'' (evaluate_request pid ev prev) (d\<lparr>idems := xs\<rparr>) = (d', Inr v)"
    by (auto simp: prepareValidation_idems split: sum.splits)
  from a assms(2) pv idems_basis show thesis
  proof (cases rule: appended_decided)
    case (1 d2 d3 decider)
    show thesis
      by (rule that [OF 1(3,4) _ _ 1(5)]) (use r in \<open>auto simp: evaluate_prepared_def res split: option.splits\<close>)
  qed
qed

lemma resolveCallerFromDb_result:
  assumes "resolveCallerFromDb env tn ctx now d = (d1, Inr p)"
  obtains d0 where "callerPrincipal env tn ctx now d = Inr (d0, p)" "principals d1 = principals d0"
    "decisions d1 = decisions d" "same_basis d d1"
proof -
  obtain d0 n j where c: "callerPrincipal env tn ctx now d = Inr (d0, p)" and d1: "d1 = d0\<lparr>committedMutations := n, journal := j\<rparr>"
    using assms unfolding resolveCallerFromDb_def by (auto simp: runInTransaction_def split: sum.splits)
  show thesis using that [OF c] callerPrincipal_basis [OF c] by (simp add: d1 same_basis_def)
qed

text \<open>A decision of a principal, after the checks of its policy.\<close>

definition judged_by :: "prepared_validation \<Rightarrow> string list \<Rightarrow> string \<Rightarrow> bool" where
  "judged_by pv ids decider \<longleftrightarrow> decider \<in> set ids \<and>
     (rc_allowSelfValidation (pv_contract pv) \<or> decider \<noteq> cp_proposerPrincipalId (pv_proposal pv))"

lemma acceptedOnlyWhenReady_Inr:
  "acceptedOnlyWhenReady pv i = Inr r \<Longrightarrow> ve_outcome r \<noteq> OutChallenged \<and> (ve_outcome r = OutAccepted \<longrightarrow> pv_earlyOutcome pv = None)"
  by (auto simp: acceptedOnlyWhenReady_def split: if_splits)

lemma attest_new:
  assumes "attestCompletion env i ctx d = (d', Inr v)" and "v \<notin> set (decisions d)"
  obtains now pv r decider where "decided env (tenant_of ctx) now pv r decider (kd_supersedesDecisionId i) d v" "decision_appended d v d'"
    "rc_policyKind (pv_contract pv) = Attestation" "judged_by pv (rc_eligibleValidatorPrincipalIds (pv_contract pv)) decider"
    "ve_outcome r = OutAccepted \<longrightarrow> pv_earlyOutcome pv = None"
    "decision_chain_guard (kd_supersedesDecisionId i) (cp_id (pv_proposal pv)) (tenant_of ctx) d = Inr ()"
proof -
  obtain now xs where body: "(case prepareValidation env (kd_proposalId i) (tenant_of ctx) now (d\<lparr>idems := xs\<rparr>) of
       Inl e \<Rightarrow> (d\<lparr>idems := xs\<rparr>, Inl e) | Inr pv \<Rightarrow>
       if rc_policyKind (pv_contract pv) \<noteq> Attestation then (d\<lparr>idems := xs\<rparr>, Inl (Refused ''Resolution policy is not attestation'' []))
       else case resolveCallerFromDb env (tenant_of ctx) ctx now (d\<lparr>idems := xs\<rparr>) of (d, Inl e) \<Rightarrow> (d, Inl e) | (d, Inr validator) \<Rightarrow>
       (case eligible_validator pv (p_id validator) of Inl e \<Rightarrow> (d, Inl e) | Inr _ \<Rightarrow>
       (case acceptedOnlyWhenReady pv i of Inl e \<Rightarrow> (d, Inl e) | Inr r \<Rightarrow>
        appendDecision env pv r ctx now (kd_supersedesDecisionId i) ''resolution.decision.attest'' (manual_request i) d))) = (d', Inr v)"
    using assms unfolding attestCompletion_def
    by (auto simp: prologue_def elim!: unless_decided_new split: sum.splits)
  then obtain pv d1 p r where pv: "prepareValidation env (kd_proposalId i) (tenant_of ctx) now d = Inr pv"
    and kind: "rc_policyKind (pv_contract pv) = Attestation"
    and c: "resolveCallerFromDb env (tenant_of ctx) ctx now (d\<lparr>idems := xs\<rparr>) = (d1, Inr p)"
    and e: "eligible_validator pv (p_id p) = Inr ()" and r: "acceptedOnlyWhenReady pv i = Inr r"
    and a: "appendDecision env pv r ctx now (kd_supersedesDecisionId i) ''resolution.decision.attest'' (manual_request i) d1 = (d', Inr v)"
    by (auto simp: prepareValidation_idems split: sum.splits prod.splits if_splits)
  from c obtain d0 where d0: "callerPrincipal env (tenant_of ctx) ctx now (d\<lparr>idems := xs\<rparr>) = Inr (d0, p)" "principals d1 = principals d0"
    "decisions d1 = decisions d" "same_basis d d1" by (cases rule: resolveCallerFromDb_result) (auto simp: same_basis_def)
  from a assms(2) pv d0(3,4) show thesis
  proof (cases rule: appended_decided)
    case (1 d2 d3 decider)
    have "decider = p" using callerPrincipal_again [OF d0(1) _ 1(1)] 1(2) d0(2) by simp
    with e have "judged_by pv (rc_eligibleValidatorPrincipalIds (pv_contract pv)) (p_id decider)"
      by (auto simp: eligible_validator_def assertSelfValidation_def judged_by_def split: if_splits)
    with that [OF 1(3,4) kind] 1(5) acceptedOnlyWhenReady_Inr [OF r] show thesis by blast
  qed
qed

text \<open>The decision in force for a proposal: the one no other decision of the proposal supersedes.\<close>

definition decision_in_force :: "string \<Rightarrow> string \<Rightarrow> db \<Rightarrow> validation_decision \<Rightarrow> bool" where
  "decision_in_force pid tenantId d v \<longleftrightarrow> v \<in> set (decisions d) \<and> vd_tenantId v = tenantId \<and> vd_proposalId v = pid \<and>
     (\<forall>x \<in> set (decisions d). vd_tenantId x = tenantId \<and> vd_proposalId x = pid \<longrightarrow>
        \<not> (truthy_str (vd_supersedesDecisionId x) \<and> vd_supersedesDecisionId x = Some (vd_id v)))"

lemma currentDecision_in_force:
  assumes "currentDecision pid tn d = Inr found"
  shows "found = Some v \<longleftrightarrow> decision_in_force pid tn d v"
proof -
  let ?rs = "filter (\<lambda>v. vd_tenantId v = tn \<and> vd_proposalId v = pid) (sort_key vd_decidedAt (decisions d))"
  have leaf: "decision_in_force pid tn d v \<longleftrightarrow> v \<in> set (leaves vd_id vd_supersedesDecisionId ?rs)"
    by (auto simp: leaves_set decision_in_force_def)
  show ?thesis
  proof (cases "?rs = []")
    case True
    with assms leaf show ?thesis by (simp add: currentDecision_def listValidationDecisions_def res leaves_def)
  next
    case False
    then obtain u where "leaves vd_id vd_supersedesDecisionId ?rs = [u]" "found = Some u"
      using assms by (auto simp: currentDecision_def listValidationDecisions_def res split: list.splits)
    with leaf show ?thesis by auto
  qed
qed

lemma currentDecision_idems: "currentDecision pid tn (d\<lparr>idems := xs\<rparr>) = currentDecision pid tn d"
  by (simp add: currentDecision_def listValidationDecisions_def)

lemma optimistic_outcome:
  "ve_outcome (optimistic_verdict pv hs) = OutAccepted \<Longrightarrow> pv_earlyOutcome pv = None \<Longrightarrow> hs = []"
  by (auto simp: optimistic_verdict_def split: if_splits)

lemma settle_new:
  assumes "settleOptimisticCompletion env pid ctx d = (d', Inr v)" and "v \<notin> set (decisions d)"
  obtains now pv r decider prev where "decided env (tenant_of ctx) now pv r decider prev d v" "decision_appended d v d'"
    "rc_policyKind (pv_contract pv) = Optimistic" "cp_id (pv_proposal pv) = pid"
    "ve_outcome r = OutAccepted \<longrightarrow> pv_earlyOutcome pv = None"
    "ve_outcome r = OutAccepted \<longrightarrow> challenge_deadline pv \<le> now \<and>
       (\<forall>h \<in> set (challenges d). ch_tenantId h = tenant_of ctx \<longrightarrow> ch_proposalId h \<noteq> pid)"
    "decision_chain_guard prev (cp_id (pv_proposal pv)) (tenant_of ctx) d = Inr ()"
proof -
  let ?req = "JObj [(''proposalId'', JStr pid)]" and ?op = "''resolution.decision.settle-optimistic''"
  obtain now xs where body: "(case prepareValidation env pid (tenant_of ctx) now (d\<lparr>idems := xs\<rparr>) of
       Inl e \<Rightarrow> (d\<lparr>idems := xs\<rparr>, Inl e) | Inr pv \<Rightarrow> settle_prepared env pv pid ctx now ?req (d\<lparr>idems := xs\<rparr>)) = (d', Inr v)"
    using assms unfolding settleOptimisticCompletion_def Let_def
    by (auto simp: prologue_def elim!: unless_decided_new split: sum.splits)
  then obtain pv where pv: "prepareValidation env pid (tenant_of ctx) now d = Inr pv"
    and s: "settle_prepared env pv pid ctx now ?req (d\<lparr>idems := xs\<rparr>) = (d', Inr v)"
    by (auto simp: prepareValidation_idems split: sum.splits)
  have pid: "cp_id (pv_proposal pv) = pid" using pv by (cases rule: prepared_parts) (auto dest!: find_SomeD)
  have old: "w \<in> set (decisions d)" if "currentDecision pid (tenant_of ctx) (d\<lparr>idems := xs\<rparr>) = Inr (Some w)" for w
    using currentDecision_in_force that unfolding currentDecision_idems decision_in_force_def by blast
  have kind: "rc_policyKind (pv_contract pv) = Optimistic" using s by (auto simp: settle_prepared_def split: if_splits)
  obtain r prev where a: "appendDecision env pv r ctx now prev ?op ?req (d\<lparr>idems := xs\<rparr>) = (d', Inr v)"
    and r: "now < challenge_deadline pv \<and> r = window_open_verdict (challenge_deadline pv) \<or>
       challenge_deadline pv \<le> now \<and> (\<exists>hs. listCompletionChallenges pid (tenant_of ctx) (d\<lparr>idems := xs\<rparr>) = Inr hs \<and> r = optimistic_verdict pv hs)"
    using s assms(2) old unfolding settle_prepared_def
    by (auto split: sum.splits option.splits if_splits)
  from a assms(2) pv idems_basis show thesis
  proof (cases rule: appended_decided)
    case (1 d2 d3 decider)
    have early: "pv_earlyOutcome pv = None" if acc: "ve_outcome r = OutAccepted"
    proof (rule ccontr)
      assume "pv_earlyOutcome pv \<noteq> None"
      then obtain x where x: "pv_earlyOutcome pv = Some x" by blast
      with r acc have "r = x" by (auto simp: window_open_verdict_def optimistic_verdict_def)
      with prepared_outcome [OF pv x] acc show False by simp
    qed
    have "challenge_deadline pv \<le> now \<and> (\<forall>h \<in> set (challenges d). ch_tenantId h = tenant_of ctx \<longrightarrow> ch_proposalId h \<noteq> pid)"
      if acc: "ve_outcome r = OutAccepted"
    proof -
      from r acc obtain hs where late: "challenge_deadline pv \<le> now"
        and hs: "listCompletionChallenges pid (tenant_of ctx) (d\<lparr>idems := xs\<rparr>) = Inr hs" "r = optimistic_verdict pv hs"
        by (auto simp: window_open_verdict_def)
      have "hs = []" using optimistic_outcome acc hs(2) early [OF acc] by blast
      with hs(1) late show ?thesis by (auto simp: listCompletionChallenges_def res filter_empty_conv eq_commute [of "[]"])
    qed
    with early that [OF 1(3,4) kind pid _ _ 1(5)] show thesis by blast
  qed
qed

lemma adjudicate_new:
  assumes "adjudicateCompletion env i ctx d = (d', Inr v)" and "v \<notin> set (decisions d)"
  obtains now pv r decider where "decided env (tenant_of ctx) now pv r decider (kd_supersedesDecisionId i) d v" "decision_appended d v d'"
    "rc_policyKind (pv_contract pv) = Adjudicated \<or> rc_policyKind (pv_contract pv) = Optimistic \<and>
       (\<exists>u. decision_in_force (cp_id (pv_proposal pv)) (tenant_of ctx) d u \<and> vd_outcome u = OutChallenged \<and>
          kd_supersedesDecisionId i = Some (vd_id u))"
    "judged_by pv (rc_adjudicatorPrincipalIds (pv_contract pv)) decider"
    "ve_outcome r = OutAccepted \<longrightarrow> pv_earlyOutcome pv = None"
    "decision_chain_guard (kd_supersedesDecisionId i) (cp_id (pv_proposal pv)) (tenant_of ctx) d = Inr ()"
proof -
  obtain now xs where body: "(case prepareValidation env (kd_proposalId i) (tenant_of ctx) now (d\<lparr>idems := xs\<rparr>) of
       Inl e \<Rightarrow> (d\<lparr>idems := xs\<rparr>, Inl e) | Inr pv \<Rightarrow>
       if rc_policyKind (pv_contract pv) \<noteq> Adjudicated \<and> rc_policyKind (pv_contract pv) \<noteq> Optimistic
       then (d\<lparr>idems := xs\<rparr>, Inl (Refused ''Resolution policy cannot be adjudicated'' []))
       else case resolveCallerFromDb env (tenant_of ctx) ctx now (d\<lparr>idems := xs\<rparr>) of (d, Inl e) \<Rightarrow> (d, Inl e) | (d, Inr adjudicator) \<Rightarrow>
       (case eligible_adjudicator pv (p_id adjudicator) of Inl e \<Rightarrow> (d, Inl e) | Inr _ \<Rightarrow>
       (case adjudicable pv i (tenant_of ctx) d of Inl e \<Rightarrow> (d, Inl e) | Inr _ \<Rightarrow>
       (case acceptedOnlyWhenReady pv i of Inl e \<Rightarrow> (d, Inl e) | Inr r \<Rightarrow>
        appendDecision env pv r ctx now (kd_supersedesDecisionId i) ''resolution.decision.adjudicate'' (manual_request i) d)))) = (d', Inr v)"
    using assms unfolding adjudicateCompletion_def
    by (auto simp: prologue_def elim!: unless_decided_new split: sum.splits)
  then obtain pv d1 p r where pv: "prepareValidation env (kd_proposalId i) (tenant_of ctx) now d = Inr pv"
    and kind: "rc_policyKind (pv_contract pv) = Adjudicated \<or> rc_policyKind (pv_contract pv) = Optimistic"
    and c: "resolveCallerFromDb env (tenant_of ctx) ctx now (d\<lparr>idems := xs\<rparr>) = (d1, Inr p)"
    and e: "eligible_adjudicator pv (p_id p) = Inr ()" and j: "adjudicable pv i (tenant_of ctx) d1 = Inr ()"
    and r: "acceptedOnlyWhenReady pv i = Inr r"
    and a: "appendDecision env pv r ctx now (kd_supersedesDecisionId i) ''resolution.decision.adjudicate'' (manual_request i) d1 = (d', Inr v)"
    by (auto simp: prepareValidation_idems split: sum.splits prod.splits if_splits)
  from c obtain d0 where d0: "callerPrincipal env (tenant_of ctx) ctx now (d\<lparr>idems := xs\<rparr>) = Inr (d0, p)" "principals d1 = principals d0"
    "decisions d1 = decisions d" "same_basis d d1" by (cases rule: resolveCallerFromDb_result) (auto simp: same_basis_def)
  have cur: "currentDecision q tn d1 = currentDecision q tn d" for q tn
    by (simp add: currentDecision_def listValidationDecisions_def d0(3))
  have basis: "rc_policyKind (pv_contract pv) = Adjudicated \<or> rc_policyKind (pv_contract pv) = Optimistic \<and>
       (\<exists>u. decision_in_force (cp_id (pv_proposal pv)) (tenant_of ctx) d u \<and> vd_outcome u = OutChallenged \<and>
          kd_supersedesDecisionId i = Some (vd_id u))"
  proof (cases "rc_policyKind (pv_contract pv) = Optimistic")
    case True
    with j obtain u where "currentDecision (cp_id (pv_proposal pv)) (tenant_of ctx) d = Inr (Some u)" "vd_outcome u = OutChallenged"
      "kd_supersedesDecisionId i = Some (vd_id u)" unfolding adjudicable_def cur by (auto simp: res split: option.splits sum.splits if_splits)
    with True currentDecision_in_force show ?thesis by blast
  qed (use kind in blast)
  from a assms(2) pv d0(3,4) show thesis
  proof (cases rule: appended_decided)
    case (1 d2 d3 decider)
    have "decider = p" using callerPrincipal_again [OF d0(1) _ 1(1)] 1(2) d0(2) by simp
    with e have "judged_by pv (rc_adjudicatorPrincipalIds (pv_contract pv)) (p_id decider)"
      by (auto simp: eligible_adjudicator_def assertSelfValidation_def judged_by_def split: if_splits)
    with that [OF 1(3,4) basis] 1(5) acceptedOnlyWhenReady_Inr [OF r] show thesis by blast
  qed
qed

section \<open>Accepted decisions\<close>

text \<open>A decision being taken: one of the four operations returns it.\<close>

inductive decision_step :: "env \<Rightarrow> db \<Rightarrow> db \<Rightarrow> validation_decision \<Rightarrow> bool" for env where
  evaluate: "evaluateCompletionDeterministically env pid ev prev ctx d = (d', Inr v) \<Longrightarrow> decision_step env d d' v"
| attest: "attestCompletion env i ctx d = (d', Inr v) \<Longrightarrow> decision_step env d d' v"
| settle: "settleOptimisticCompletion env pid ctx d = (d', Inr v) \<Longrightarrow> decision_step env d d' v"
| adjudicate: "adjudicateCompletion env i ctx d = (d', Inr v) \<Longrightarrow> decision_step env d d' v"

text \<open>Who may decide, by the policy of the contract.\<close>

definition decided_by_one_of :: "string list \<Rightarrow> resolution_contract \<Rightarrow> completion_proposal \<Rightarrow> validation_decision \<Rightarrow> bool" where
  "decided_by_one_of ids c p v \<longleftrightarrow> vd_decidedByPrincipalId v \<in> set ids \<and>
     (rc_allowSelfValidation c \<or> vd_decidedByPrincipalId v \<noteq> cp_proposerPrincipalId p)"

definition supersedes_challenged :: "validation_decision \<Rightarrow> db \<Rightarrow> bool" where
  "supersedes_challenged v d \<longleftrightarrow> (\<exists>u \<in> set (decisions d). vd_tenantId u = vd_tenantId v \<and>
     vd_proposalId u = vd_proposalId v \<and> vd_outcome u = OutChallenged \<and> vd_supersedesDecisionId v = Some (vd_id u))"

fun policy_satisfied :: "policy_kind \<Rightarrow> resolution_contract \<Rightarrow> completion_proposal \<Rightarrow> validation_decision \<Rightarrow> db \<Rightarrow> bool" where
  "policy_satisfied Deterministic c p v d \<longleftrightarrow> True"
| "policy_satisfied Attestation c p v d \<longleftrightarrow> decided_by_one_of (rc_eligibleValidatorPrincipalIds c) c p v"
| "policy_satisfied Adjudicated c p v d \<longleftrightarrow> decided_by_one_of (rc_adjudicatorPrincipalIds c) c p v"
| "policy_satisfied Optimistic c p v d \<longleftrightarrow>
     cp_proposedAt p + rc_challengeWindowMs c \<le> vd_decidedAt v \<or>
     decided_by_one_of (rc_adjudicatorPrincipalIds c) c p v \<and> supersedes_challenged v d"

text \<open>The basis of a decision: its proposal, and the contract of the proposal.\<close>

definition decision_basis :: "validation_decision \<Rightarrow> completion_proposal \<Rightarrow> resolution_contract \<Rightarrow> db \<Rightarrow> bool" where
  "decision_basis v p c d \<longleftrightarrow> p \<in> set (proposals d) \<and> c \<in> set (contracts d) \<and> cp_id p = vd_proposalId v \<and>
     cp_tenantId p = vd_tenantId v \<and> cp_taskId p = vd_taskId v \<and> rc_id c = cp_resolutionContractId p \<and>
     rc_tenantId c = vd_tenantId v \<and> vd_resolutionContractId v = rc_id c \<and> rc_contractDigest c = cp_contractDigest p \<and>
     vd_policyUri v = rc_policyUri c \<and> vd_policyVersion v = rc_policyVersion c \<and>
     vd_implementationDigest v = rc_implementationDigest c"

lemma decided_basis:
  assumes "decided env tn now pv r decider prev d v"
  shows "decision_basis v (pv_proposal pv) (pv_contract pv) d" "vd_outcome v = ve_outcome r" "vd_decidedAt v = now"
    "vd_tenantId v = tn" "vd_decidedByPrincipalId v = decider" "vd_proposalId v = cp_id (pv_proposal pv)"
    "vd_supersedesDecisionId v = prev"
proof -
  obtain pid n where pv: "prepareValidation env pid tn now d = Inr pv"
    and v: "v = new_decision env pv r (uuid env n now) tn prev decider now"
    using assms unfolding decided_def by blast
  from pv show "decision_basis v (pv_proposal pv) (pv_contract pv) d"
    by (cases rule: prepared_parts) (auto simp: decision_basis_def v new_decision_def dest!: find_SomeD)
qed (use assms in \<open>auto simp: decided_def new_decision_def\<close>)

text \<open>What every new decision satisfies.\<close>

lemma decision_step_new:
  assumes "decision_step env d d' v" and "v \<notin> set (decisions d)"
  obtains now pv r decider where "decided env (vd_tenantId v) now pv r decider (vd_supersedesDecisionId v) d v" "decision_appended d v d'"
    "vd_outcome v = OutAccepted \<longrightarrow> pv_earlyOutcome pv = None \<and>
       policy_satisfied (rc_policyKind (pv_contract pv)) (pv_contract pv) (pv_proposal pv) v d"
  using assms(1)
proof cases
  case (evaluate pid ev prev ctx)
  from evaluate assms(2) show thesis
  proof (cases rule: evaluate_new)
    case (1 now pv r decider)
    have "vd_outcome v = OutAccepted \<longrightarrow> pv_earlyOutcome pv = None"
      using prepared_outcome 1(1,4) decided_basis(2) [OF 1(1)] unfolding decided_def by auto
    with that [of now pv r decider] 1 decided_basis [OF 1(1)] show thesis by simp
  qed
next
  case (attest i ctx)
  from attest assms(2) show thesis
  proof (cases rule: attest_new)
    case (1 now pv r decider)
    with that [of now pv r decider] decided_basis [OF 1(1)] show thesis
      by (simp add: decided_by_one_of_def judged_by_def)
  qed
next
  case (settle pid ctx)
  from settle assms(2) show thesis
  proof (cases rule: settle_new)
    case (1 now pv r decider prev)
    with that [of now pv r decider] decided_basis [OF 1(1)] show thesis by (simp add: challenge_deadline_def)
  qed
next
  case (adjudicate i ctx)
  from adjudicate assms(2) show thesis
  proof (cases rule: adjudicate_new)
    case (1 now pv r decider)
    have "policy_satisfied (rc_policyKind (pv_contract pv)) (pv_contract pv) (pv_proposal pv) v d"
      using 1(3,4) decided_basis [OF 1(1)]
      by (auto simp: decided_by_one_of_def judged_by_def supersedes_challenged_def decision_in_force_def)
    with that [of now pv r decider] 1 decided_basis [OF 1(1)] show thesis by simp
  qed
qed


section \<open>A sample resolution\<close>

abbreviation sample_digest :: string where
  "sample_digest \<equiv> ''sha256:'' @ replicate 64 (CHR ''a'')"

definition sample_criterion :: criterion where
  "sample_criterion = \<lparr>cn_id = ''c1'', cn_statement = ''painted'', cn_minimumEvidenceCount = 1, cn_acceptedEvidenceKinds = [''photo''],
     cn_acceptedSources = [], cn_minimumAuthenticity = AuthenticatedPrincipal, cn_maxAgeMs = Some 5000,
     cn_minimumRetentionMs = 0, cn_evaluatorInput = []\<rparr>"

definition sample_contract :: resolution_contract where
  "sample_contract = \<lparr>rc_id = ''k1'', rc_tenantId = ''w'', rc_taskId = ''t1'', rc_taskRevision = 1,
     rc_successCriteriaSnapshot = ''dry'', rc_criteria = [sample_criterion], rc_criteriaDigest = sample_digest,
     rc_policyKind = Attestation, rc_policyUri = ''urn:p'', rc_policyVersion = 1, rc_implementationDigest = sample_digest,
     rc_notBefore = None, rc_challengeWindowMs = 0, rc_allowSelfValidation = False,
     rc_eligibleValidatorPrincipalIds = [''p1''], rc_adjudicatorPrincipalIds = [], rc_contractDigest = sample_digest,
     rc_createdByPrincipalId = ''p2'', rc_metadata = [], rc_createdAt = 1000\<rparr>"

definition sample_evidence_row :: task_evidence where
  "sample_evidence_row = \<lparr>e_id = ''e1'', e_tenantId = ''w'', e_taskId = ''t1'', e_attemptId = None, e_supersedesEvidenceId = None,
     e_actor = ''bob'', e_principalId = Some ''p2'', e_kind = ''photo'', e_summary = Some ''wall'', e_uri = None, e_digest = None,
     e_source = None, e_observedAt = 1100, e_metadata = [], e_createdAt = 1100\<rparr>"

definition sample_trust :: evidence_trust_record where
  "sample_trust = \<lparr>tr_id = ''r1'', tr_tenantId = ''w'', tr_taskId = ''t1'', tr_evidenceId = ''e1'', tr_action = Attest,
     tr_authenticity = AuthenticatedSource, tr_authorityUri = ''urn:a'', tr_authorityVersion = 1,
     tr_authorityDigest = sample_digest, tr_supersedesTrustRecordId = None, tr_reason = ''seen'', tr_verifiedAt = 1200,
     tr_validUntil = Some 9000, tr_retentionUntil = None, tr_recordedByPrincipalId = ''p2'', tr_createdAt = 1200\<rparr>"

definition sample_proposal :: completion_proposal where
  "sample_proposal = \<lparr>cp_id = ''q1'', cp_tenantId = ''w'', cp_taskId = ''t1'', cp_resolutionContractId = ''k1'',
     cp_contractDigest = sample_digest, cp_proposerPrincipalId = ''p2'',
     cp_criterionEvidence = [\<lparr>ce_criterionId = ''c1'', ce_evidenceIds = [''e1'']\<rparr>], cp_summary = None,
     cp_proposalDigest = sample_digest, cp_proposedAt = 1300\<rparr>"

text \<open>A commitment that asks for validation, with its contract, trusted evidence and a proposal.\<close>

definition sample_validation_db :: db where
  "sample_validation_db = sample_db\<lparr>tasks := [(sample_task ''t1'' ''paint'' None)\<lparr>t_successCriteria := Some ''dry'',
       t_completionMode := EvidenceMode, t_validationRequired := True\<rparr>],
     principals := [sample_principal, sample_principal2], evidence := [sample_evidence_row], contracts := [sample_contract],
     trustRecords := [sample_trust], proposals := [sample_proposal]\<rparr>"

definition sample_verdict :: manual_decision_insert where
  "sample_verdict = \<lparr>kd_id = None, kd_proposalId = ''q1'', kd_outcome = OutAccepted, kd_reasonCode = ''ok'',
     kd_explanation = ''dry'', kd_supersedesDecisionId = None\<rparr>"

abbreviation sample_validated :: "db \<times> (err + validation_decision)" where
  "sample_validated \<equiv> attestCompletion hex_env sample_verdict (sample_ctx ''alice'' 2000) sample_validation_db"

lemma sample_validated_ok: "returned (snd sample_validated)" by code_simp


abbreviation sample_preparation :: prepared_validation where
  "sample_preparation \<equiv> projr (prepareValidation hex_env ''q1'' ''w'' 2000 sample_validation_db)"

lemma sample_preparation_ok: "returned (prepareValidation hex_env ''q1'' ''w'' 2000 sample_validation_db)"
  "pv_earlyOutcome sample_preparation = None" "uniq_by e_id (evidence sample_validation_db)" by code_simp+

theorem preparation_exact_witness:
  "criteria_met (pv_contract sample_preparation) (pv_proposal sample_preparation) ''w'' 2000 sample_validation_db"
  using preparation_exact [OF returnedD [OF sample_preparation_ok(1)] sample_preparation_ok(3)] sample_preparation_ok(2) by simp

lemma sample_validated_new: "projr (snd sample_validated) \<notin> set (decisions sample_validation_db)"
  "vd_outcome (projr (snd sample_validated)) = OutAccepted"
proof -
  show "projr (snd sample_validated) \<notin> set (decisions sample_validation_db)"
    by (simp add: sample_validation_db_def sample_db_def empty_db_def)
qed code_simp


end
