(* ===== verification/Resolution_Invariant.thy ===== *)
theory Resolution_Invariant
  imports Validation
begin

text \<open>
  The ledger under the operations of the resolution (\<open>packages/tasq-core/src/service/resolution.ts\<close>).
  Decisions and trust records supersede one another; the locale \<open>supersession\<close> states what a table
  asks of a new record of such a chain and derives that one record is current, and both tables are
  interpretations of it. Every operation, failed or not, keeps the invariant, and the completion of a
  commitment that asks for validation rests on it.
\<close>

section \<open>Chains of superseding records\<close>

lemma distinct_singleton: "set xs = {r} \<Longrightarrow> distinct xs \<Longrightarrow> xs = [r]"
  by (cases xs; cases "tl xs") auto

locale supersession =
  fixes ident :: "'r \<Rightarrow> string" and parent :: "'r \<Rightarrow> string option" and scope :: "'r \<Rightarrow> 's"
    and admits :: "'r \<Rightarrow> 'r list \<Rightarrow> bool"
  assumes fresh: "admits r rs \<Longrightarrow> x \<in> set rs \<Longrightarrow> ident x \<noteq> ident r"
    and self: "admits r rs \<Longrightarrow> parent r \<noteq> Some (ident r)"
    and root: "admits r rs \<Longrightarrow> parent r = None \<Longrightarrow> x \<in> set rs \<Longrightarrow> scope x = scope r \<Longrightarrow> parent x \<noteq> None"
    and child: "admits r rs \<Longrightarrow> parent r = Some q \<Longrightarrow> \<exists>x \<in> set rs. ident x = q \<and> scope x = scope r"
    and only_child: "admits r rs \<Longrightarrow> parent r = Some q \<Longrightarrow> x \<in> set rs \<Longrightarrow> scope x = scope r \<Longrightarrow> parent x \<noteq> Some q"
begin

inductive chain :: "'r list \<Rightarrow> bool" where
  empty: "chain []"
| add: "chain rs \<Longrightarrow> admits r rs \<Longrightarrow> chain (rs @ [r])"

definition leaf :: "'s \<Rightarrow> 'r list \<Rightarrow> 'r \<Rightarrow> bool" where
  "leaf s rs r \<longleftrightarrow> r \<in> set rs \<and> scope r = s \<and> (\<forall>x \<in> set rs. scope x = s \<longrightarrow> parent x \<noteq> Some (ident r))"

lemma chain_parents:
  "chain rs \<Longrightarrow> x \<in> set rs \<Longrightarrow> parent x = Some q \<Longrightarrow> \<exists>y \<in> set rs. ident y = q \<and> scope y = scope x"
  by (induction rs rule: chain.induct) (auto dest: child)

lemma chain_root: "chain rs \<Longrightarrow> x \<in> set rs \<Longrightarrow> \<exists>y \<in> set rs. scope y = scope x \<and> parent y = None"
proof (induction rs arbitrary: x rule: chain.induct)
  case (add rs r)
  have old: "\<exists>y \<in> set (rs @ [r]). scope y = scope z \<and> parent y = None" if "z \<in> set rs" for z
    using add.IH [OF that] by auto
  consider "x \<in> set rs" | "x = r" "parent r = None" | q where "x = r" "parent r = Some q" using add.prems by auto
  then show ?case
  proof cases
    case 3
    then obtain y where "y \<in> set rs" "scope y = scope x" using child [OF add.hyps(2)] by blast
    with old show ?thesis by metis
  qed (use old in auto)
qed simp

lemma chain_distinct: "chain rs \<Longrightarrow> uniq_by ident rs"
  by (induction rs rule: chain.induct) (auto simp: uniq_by_append1 dest: fresh)

text \<open>Every scope that has records has exactly one that none supersedes.\<close>

lemma chain_leaf: "chain rs \<Longrightarrow> x \<in> set rs \<Longrightarrow> \<exists>!r. leaf (scope x) rs r"
proof (induction rs arbitrary: x rule: chain.induct)
  case (add rs r)
  have r_leaf: "leaf (scope r) (rs @ [r]) r"
    using self [OF add.hyps(2)] chain_parents [OF add.hyps(1)] fresh [OF add.hyps(2)] by (fastforce simp: leaf_def)
  show ?case
  proof (cases "scope x = scope r")
    case False
    then have "leaf (scope x) (rs @ [r]) y \<longleftrightarrow> leaf (scope x) rs y" for y by (auto simp: leaf_def)
    moreover have "x \<in> set rs" using add.prems False by auto
    ultimately show ?thesis using add.IH by simp
  next
    case True
    have "y = r" if y: "leaf (scope r) (rs @ [r]) y" for y
    proof (rule ccontr)
      assume "y \<noteq> r"
      with y have old: "y \<in> set rs" "scope y = scope r" and leaf: "leaf (scope r) rs y" and up: "parent r \<noteq> Some (ident y)"
        by (auto simp: leaf_def)
      show False
      proof (cases "parent r")
        case None
        obtain w where "w \<in> set rs" "scope w = scope r" "parent w = None"
          using chain_root [OF add.hyps(1) old(1)] old(2) by auto
        with root [OF add.hyps(2) None] show False by blast
      next
        case (Some q)
        then obtain z where z: "z \<in> set rs" "ident z = q" "scope z = scope r" using child [OF add.hyps(2)] by blast
        have "leaf (scope r) rs z" using z only_child [OF add.hyps(2) Some] by (auto simp: leaf_def)
        moreover have "\<exists>!w. leaf (scope r) rs w" using add.IH [OF z(1)] z(3) by simp
        ultimately have "y = z" using leaf by blast
        with up Some z(2) show False by simp
      qed
    qed
    with r_leaf True show ?thesis by auto
  qed
qed simp

lemma chain_leaves:
  assumes "chain rs" and "x \<in> set rs" and "\<And>r. r \<in> set rs \<Longrightarrow> ident r \<noteq> []"
    and "distinct ys" and "set ys = {r \<in> set rs. scope r = scope x}"
  shows "\<exists>r. leaves ident parent ys = [r]"
proof -
  obtain r where r: "leaf (scope x) rs r" and uniq: "\<And>y. leaf (scope x) rs y \<Longrightarrow> y = r"
    using chain_leaf [OF assms(1,2)] by blast
  have mem: "y \<in> set (leaves ident parent ys) \<longleftrightarrow> leaf (scope x) rs y" for y
    using assms(3) [of y] by (auto simp: leaves_set assms(5) leaf_def truthy_str_def)
  have "set (leaves ident parent ys) = {r}"
  proof (rule set_eqI)
    fix y show "y \<in> set (leaves ident parent ys) \<longleftrightarrow> y \<in> {r}" unfolding mem using r uniq [of y] by blast
  qed
  moreover have "distinct (leaves ident parent ys)" using assms(4) by (simp add: leaves_def)
  ultimately have "leaves ident parent ys = [r]" by (rule distinct_singleton)
  then show ?thesis by (rule exI)
qed

end

section \<open>The chains of decisions and of trust records\<close>

interpretation decision_chain: supersession vd_id vd_supersedesDecisionId "\<lambda>v. (vd_tenantId v, vd_proposalId v)" decision_admits
proof unfold_locales
  fix r rs q
  assume "decision_admits r rs" "vd_supersedesDecisionId r = Some q"
  then show "\<exists>x \<in> set rs. vd_id x = q \<and> (vd_tenantId x, vd_proposalId x) = (vd_tenantId r, vd_proposalId r)"
    by (auto simp: decision_admits_def decision_parent_present_def list_ex_iff)
qed (auto simp: decision_admits_def decision_unique_def)

definition trust_admits :: "evidence_trust_record \<Rightarrow> evidence_trust_record list \<Rightarrow> bool" where
  "trust_admits r rs \<longleftrightarrow> trust_unique r rs \<and> trust_parent_present r rs \<and> tr_supersedesTrustRecordId r \<noteq> Some (tr_id r)"

interpretation trust_chain: supersession tr_id tr_supersedesTrustRecordId "\<lambda>t. (tr_tenantId t, tr_evidenceId t)" trust_admits
proof unfold_locales
  fix r rs q
  assume "trust_admits r rs" "tr_supersedesTrustRecordId r = Some q"
  then show "\<exists>x \<in> set rs. tr_id x = q \<and> (tr_tenantId x, tr_evidenceId x) = (tr_tenantId r, tr_evidenceId r)"
    by (auto simp: trust_admits_def trust_parent_present_def list_ex_iff)
qed (auto simp: trust_admits_def trust_unique_def)

definition decisions_justified :: "db \<Rightarrow> bool" where
  "decisions_justified d \<longleftrightarrow> (\<forall>v \<in> set (decisions d). \<exists>p c. decision_basis v p c d \<and>
     (vd_outcome v = OutAccepted \<longrightarrow> policy_satisfied (rc_policyKind c) c p v d))"

definition resolution_inv :: "db \<Rightarrow> bool" where
  "resolution_inv d \<longleftrightarrow> decision_chain.chain (decisions d) \<and> (\<forall>v \<in> set (decisions d). validation_decision_ok v \<and> vd_id v \<noteq> []) \<and>
     trust_chain.chain (trustRecords d) \<and> (\<forall>t \<in> set (trustRecords d). trust_ok t \<and> tr_id t \<noteq> []) \<and>
     uniq_by rc_id (contracts d) \<and> uniq_by cp_id (proposals d) \<and> decisions_justified d"

lemma resolution_inv_empty: "resolution_inv empty_db"
  by (simp add: resolution_inv_def decisions_justified_def empty_db_def decision_chain.chain.empty trust_chain.chain.empty)

text \<open>What the operations on the records do to the resolution: contracts and proposals are kept,
  decisions are left alone, a trust record may be added to its chain.\<close>

definition records_grow :: "db \<Rightarrow> db \<Rightarrow> bool" where
  "records_grow d d' \<longleftrightarrow> decisions d' = decisions d \<and> set (contracts d) \<subseteq> set (contracts d') \<and>
     set (proposals d) \<subseteq> set (proposals d') \<and>
     (uniq_by rc_id (contracts d) \<longrightarrow> uniq_by rc_id (contracts d')) \<and>
     (uniq_by cp_id (proposals d) \<longrightarrow> uniq_by cp_id (proposals d')) \<and>
     (trustRecords d' = trustRecords d \<or>
      (\<exists>t. trustRecords d' = trustRecords d @ [t] \<and> trust_admits t (trustRecords d) \<and> trust_ok t \<and> tr_id t \<noteq> []))"

lemma policy_satisfied_mono:
  "policy_satisfied k c p v d \<Longrightarrow> set (decisions d) \<subseteq> set (decisions d') \<Longrightarrow> policy_satisfied k c p v d'"
  by (cases k) (auto simp: supersedes_challenged_def)

lemma decisions_justified_mono:
  assumes "decisions_justified d" and "set (contracts d) \<subseteq> set (contracts d')" and "set (proposals d) \<subseteq> set (proposals d')"
    and "set (decisions d) \<subseteq> set (decisions d')" and "v \<in> set (decisions d)"
  shows "\<exists>p c. decision_basis v p c d' \<and> (vd_outcome v = OutAccepted \<longrightarrow> policy_satisfied (rc_policyKind c) c p v d')"
proof -
  obtain p c where "decision_basis v p c d" "vd_outcome v = OutAccepted \<longrightarrow> policy_satisfied (rc_policyKind c) c p v d"
    using assms(1,5) unfolding decisions_justified_def by blast
  moreover from this(1) assms(2,3) have "decision_basis v p c d'" by (auto simp: decision_basis_def)
  ultimately show ?thesis using policy_satisfied_mono [OF _ assms(4)] by blast
qed

lemma records_grow_inv:
  assumes "records_grow d d'" and "resolution_inv d" shows "resolution_inv d'"
proof -
  have "decisions_justified d'"
    using assms decisions_justified_mono [of d d'] unfolding decisions_justified_def [of d'] by (simp add: records_grow_def resolution_inv_def)
  moreover have "trust_chain.chain (trustRecords d') \<and> (\<forall>t \<in> set (trustRecords d'). trust_ok t \<and> tr_id t \<noteq> [])"
    using assms trust_chain.chain.add by (auto simp: records_grow_def resolution_inv_def)
  ultimately show ?thesis using assms by (simp add: records_grow_def resolution_inv_def)
qed

lemma decision_appended_inv:
  assumes "decision_appended d v d'" and "resolution_inv d" and "vd_id v \<noteq> []"
    and "decision_basis v p c d" and "vd_outcome v = OutAccepted \<longrightarrow> policy_satisfied (rc_policyKind c) c p v d"
  shows "resolution_inv d'"
proof -
  note a = assms(1) [unfolded decision_appended_def same_basis_def]
  have new: "\<exists>p c. decision_basis v p c d' \<and> (vd_outcome v = OutAccepted \<longrightarrow> policy_satisfied (rc_policyKind c) c p v d')"
    using assms(4,5) a policy_satisfied_mono [of _ c p v d d'] by (intro exI [of _ p] exI [of _ c]) (auto simp: decision_basis_def)
  have old: "\<exists>p c. decision_basis w p c d' \<and> (vd_outcome w = OutAccepted \<longrightarrow> policy_satisfied (rc_policyKind c) c p w d')"
    if "w \<in> set (decisions d)" for w
    using assms(2) a that by (intro decisions_justified_mono [of d]) (auto simp: resolution_inv_def)
  have "decisions_justified d'" unfolding decisions_justified_def using new old a by auto
  with assms(2,3) a decision_chain.chain.add show ?thesis by (auto simp: resolution_inv_def)
qed

text \<open>C14. In such a ledger the current decision of a proposal is always defined: the lookup never fails,
  it finds a decision whenever one was taken, and the one it finds is the only one in force.\<close>

theorem current_decision_defined:
  assumes "resolution_inv d"
  shows "\<exists>found. currentDecision pid tn d = Inr found \<and> (\<forall>v. found = Some v \<longleftrightarrow> decision_in_force pid tn d v) \<and>
    (found = None \<longleftrightarrow> (\<forall>v \<in> set (decisions d). (vd_tenantId v, vd_proposalId v) \<noteq> (tn, pid)))"
proof -
  let ?rs = "filter (\<lambda>v. vd_tenantId v = tn \<and> vd_proposalId v = pid) (sort_key vd_decidedAt (decisions d))"
  have chain: "decision_chain.chain (decisions d)" and ok: "list_all validation_decision_ok ?rs"
    and ids: "\<And>v. v \<in> set (decisions d) \<Longrightarrow> vd_id v \<noteq> []"
    using assms by (auto simp: resolution_inv_def list_all_iff)
  have dist: "distinct ?rs"
    using decision_chain.chain_distinct [OF chain] by (auto simp: uniq_by_def distinct_map intro: distinct_filter)
  have "\<exists>found. currentDecision pid tn d = Inr found \<and> (found = None \<longleftrightarrow> ?rs = [])"
  proof (cases "?rs = []")
    case True
    then show ?thesis by (simp add: currentDecision_def listValidationDecisions_def select_all_def)
  next
    case False
    then obtain v where "v \<in> set ?rs" by (cases ?rs) auto
    then have v: "v \<in> set (decisions d)" "vd_tenantId v = tn" "vd_proposalId v = pid" by auto
    have "\<exists>u. leaves vd_id vd_supersedesDecisionId ?rs = [u]"
      by (rule decision_chain.chain_leaves [OF chain v(1) ids dist]) (use v in auto)
    with False ok show ?thesis by (auto simp: currentDecision_def listValidationDecisions_def select_all_def)
  qed
  then obtain found where f: "currentDecision pid tn d = Inr found" "found = None \<longleftrightarrow> ?rs = []" by blast
  show ?thesis
    using f(1) currentDecision_in_force [OF f(1)] by (intro exI [of _ found]) (auto simp: f(2) filter_empty_conv)
qed

lemma effective_trust_defined:
  assumes "resolution_inv d"
  obtains found where "effectiveTrust eid tn d = Inr found" "\<And>t. found = Some t \<longleftrightarrow> trust_in_force eid tn d t"
    "found = None \<longleftrightarrow> (\<forall>t \<in> set (trustRecords d). (tr_tenantId t, tr_evidenceId t) \<noteq> (tn, eid))"
proof -
  let ?rs = "filter (\<lambda>t. tr_tenantId t = tn \<and> tr_evidenceId t = eid) (trustRecords d)"
  have chain: "trust_chain.chain (trustRecords d)" and ok: "list_all trust_ok ?rs"
    and ids: "\<And>t. t \<in> set (trustRecords d) \<Longrightarrow> tr_id t \<noteq> []"
    using assms by (auto simp: resolution_inv_def list_all_iff)
  have dist: "distinct ?rs"
    using trust_chain.chain_distinct [OF chain] by (auto simp: uniq_by_def distinct_map intro: distinct_filter)
  have "\<exists>found. effectiveTrust eid tn d = Inr found \<and> (found = None \<longleftrightarrow> ?rs = [])"
  proof (cases "?rs = []")
    case True
    then show ?thesis by (simp add: effectiveTrust_def select_all_def)
  next
    case False
    then obtain t where "t \<in> set ?rs" by (cases ?rs) auto
    then have t: "t \<in> set (trustRecords d)" "tr_tenantId t = tn" "tr_evidenceId t = eid" by auto
    have "\<exists>u. leaves tr_id tr_supersedesTrustRecordId ?rs = [u]"
      by (rule trust_chain.chain_leaves [OF chain t(1) ids dist]) (use t in auto)
    with False ok show ?thesis by (auto simp: effectiveTrust_def select_all_def)
  qed
  then obtain found where f: "effectiveTrust eid tn d = Inr found" "found = None \<longleftrightarrow> ?rs = []" by blast
  show thesis
    by (rule that [OF f(1) effectiveTrust_in_force [OF f(1)]]) (auto simp: f(2) filter_empty_conv)
qed

section \<open>The operations on the records\<close>

lemma records_grow_refl [simp]: "records_grow d d"
  by (simp add: records_grow_def)

text \<open>Steps before and after the insertion leave the records alone.\<close>

definition quiet :: "db \<Rightarrow> db \<Rightarrow> bool" where
  "quiet d d' \<longleftrightarrow> same_basis d d' \<and> decisions d' = decisions d"

lemma quiet_refl [simp]: "quiet d d" by (simp add: quiet_def same_basis_def)

lemma quiet_trans: "quiet d d1 \<Longrightarrow> quiet d1 d2 \<Longrightarrow> quiet d d2"
  by (simp add: quiet_def same_basis_def)

lemma quiet_grow: "quiet d d1 \<Longrightarrow> records_grow d1 d2 \<Longrightarrow> quiet d2 d3 \<Longrightarrow> records_grow d d3"
  by (simp add: quiet_def same_basis_def records_grow_def)

lemma quiet_updates [simp]:
  "quiet d (d\<lparr>idems := xs\<rparr>)" "quiet d (d\<lparr>draws := k\<rparr>)" "quiet d (d\<lparr>committedMutations := n, journal := j\<rparr>)"
  "quiet d (d\<lparr>committedMutations := n\<rparr>)"
  by (simp_all add: quiet_def same_basis_def)

lemma quiet_caller: "callerPrincipal env tn ctx now d = Inr (d', p) \<Longrightarrow> quiet d d'"
  by (drule callerPrincipal_basis) (simp add: quiet_def)

lemma quiet_attribution: "resolveAttribution env pid tn al now d = Inr (d', p) \<Longrightarrow> quiet d d'"
  by (drule resolveAttribution_frame) (auto simp: quiet_def same_basis_def)

lemma quiet_event: "recordResolutionEvent env tn tid actor pid ty after now d = Inr (d', ev) \<Longrightarrow> quiet d d'"
  by (drule recordResolutionEvent_basis) (simp add: quiet_def)

lemma quiet_save: "save_outcome identity ty rid st ev d = Inr d' \<Longrightarrow> quiet d d'"
  by (drule save_outcome_basis) (simp add: quiet_def)

lemma quiet_draw: "draw_id env g now d = (d', i) \<Longrightarrow> quiet d d'"
  by (drule draw_id_frame) auto

lemma insert_contract_grow: "insert_contract c d = Inr d' \<Longrightarrow> records_grow d d'"
  by (auto simp: insert_contract_def insert_row_def records_grow_def uniq_by_append1 split: if_splits)

lemma insert_proposal_grow: "insert_proposal p d = Inr d' \<Longrightarrow> records_grow d d'"
  by (auto simp: insert_proposal_def insert_row_def records_grow_def uniq_by_append1 split: if_splits)

lemma insert_challenge_grow: "insert_challenge h d = Inr d' \<Longrightarrow> records_grow d d'"
  by (auto simp: insert_challenge_def insert_row_def records_grow_def uniq_by_append1 split: if_splits)

lemma insert_trust_Inr:
  "insert_trust t d = Inr d' \<Longrightarrow> d' = d\<lparr>trustRecords := trustRecords d @ [t]\<rparr> \<and> trust_admits t (trustRecords d)"
  by (auto simp: insert_trust_def insert_row_def trust_admits_def trust_admitted_def trust_check_def split: if_splits)

lemma insert_trust_read:
  assumes "insert_trust t d = Inr d'" and "getEvidenceTrustRecord (tr_id t) (tr_tenantId t) d' = Inr (Some row)"
  shows "row = t \<and> trust_ok t"
proof -
  note i = insert_trust_Inr [OF assms(1)]
  have "find (\<lambda>x. tr_id x = tr_id t \<and> tr_tenantId x = tr_tenantId t) (trustRecords d @ [t]) = Some row" "trust_ok row"
    using assms(2) i by (auto simp: getEvidenceTrustRecord_def res)
  moreover from this(1) have "row = t"
    by (rule find_appended [where k = tr_id]) (use i in \<open>auto simp: trust_admits_def trust_unique_def\<close>)
  ultimately show ?thesis by simp
qed

lemma write_trust_grow:
  assumes "write_trust env t name ty after actor st identity now d = Inr (d', row, evs)" and "tr_id t \<noteq> []"
  shows "records_grow d d'"
proof -
  obtain d1 d2 ev where i: "insert_trust t d = Inr d1" and g: "getEvidenceTrustRecord (tr_id t) (tr_tenantId t) d1 = Inr (Some row)"
    and e: "recordResolutionEvent env (tr_tenantId t) (tr_taskId t) actor (tr_recordedByPrincipalId t) ty after now d1 = Inr (d2, ev)"
    and s: "save_outcome identity ''evidence_trust_record'' (tr_id t) st ev d2 = Inr d'"
    using assms(1) unfolding write_trust_def by (auto simp: res)
  have "records_grow d d1" using insert_trust_Inr [OF i] insert_trust_read [OF i g] assms(2) by (simp add: records_grow_def)
  with quiet_trans [OF quiet_event [OF e] quiet_save [OF s]] show ?thesis using quiet_grow quiet_refl by blast
qed

lemma grow_between: "quiet d d1 \<Longrightarrow> records_grow d1 d2 \<Longrightarrow> quiet d2 d3 \<Longrightarrow> quiet d3 d4 \<Longrightarrow> records_grow d d4"
  using quiet_grow quiet_trans by blast

lemma write_contract_grow:
  assumes "write_contract env i tn actor t sc pid now d = Inr (d', r, ev)" shows "records_grow d d'"
proof -
  obtain d1 cid where dr: "draw_id env (kc_id i) now d = (d1, cid)" by (cases "draw_id env (kc_id i) now d")
  with assms obtain d2 d3 after where "insert_contract (new_contract env i cid tn t sc pid now) d1 = Inr d2"
    "recordResolutionEvent env tn (t_id t) actor pid ''resolution_contract_created'' after now d2 = Inr (d3, ev)" "d' = d3"
    unfolding write_contract_def by (auto simp: res Let_def)
  then show ?thesis using grow_between [OF quiet_draw [OF dr] insert_contract_grow quiet_event quiet_refl] by blast
qed

lemma createResolutionContractInTransaction_grow:
  assumes "createResolutionContractInTransaction env i tn actor pid now d = Inr (d', r, ev)" shows "records_grow d d'"
proof -
  obtain d1 t sc creator where "resolveAttribution env pid tn actor now d = Inr (d1, creator)"
    "write_contract env i tn actor t sc (p_id creator) now d1 = Inr (d', r, ev)"
    using assms unfolding createResolutionContractInTransaction_def by (auto simp: res split: if_splits)
  then show ?thesis using quiet_grow [OF quiet_attribution write_contract_grow quiet_refl] by blast
qed

definition uuid_nonempty :: "env \<Rightarrow> bool" where
  "uuid_nonempty env \<longleftrightarrow> (\<forall>n t. uuid env n t \<noteq> [])"

lemma draw_id_nonempty: "draw_id env g now d = (d', i) \<Longrightarrow> uuid_nonempty env \<Longrightarrow> opt_all (\<lambda>x. x \<noteq> []) g \<Longrightarrow> i \<noteq> []"
  by (auto simp: draw_id_def fresh_id_def uuid_nonempty_def opt_all_def split: option.splits)

lemma attest_fresh_grow:
  assumes "attest_fresh env i ctx authority identity now d = Inr (d', r, evs)" and "uuid_nonempty env" and "trust_insert_ok i"
  shows "records_grow d d'"
proof -
  obtain d1 recorder where c: "callerPrincipal env (tenant_of ctx) ctx now d = Inr (d1, recorder)"
    and w: "(let (d, rid) = draw_id env (kt_id i) now d1 in
            write_trust env (new_trust i rid (tenant_of ctx) (p_id recorder) now) ''evidence trust'' ''evidence_trust_attested''
              [(''trustRecordId'', JStr rid), (''evidenceId'', JStr (kt_evidenceId i)),
               (''authenticity'', JStr (authenticity_text (kt_authenticity i)))] (actor_of ctx) ''attested'' identity now d) = Inr (d', r, evs)"
    using assms(1) unfolding attest_fresh_def by (auto simp: res Let_def split: option.splits sum.splits if_splits)
  obtain d2 rid where dr: "draw_id env (kt_id i) now d1 = (d2, rid)" by (cases "draw_id env (kt_id i) now d1")
  have "rid \<noteq> []" using draw_id_nonempty [OF dr assms(2)] assms(3) by (simp add: trust_insert_ok_def)
  with w dr have "records_grow d2 d'" by (auto intro: write_trust_grow simp: new_trust_def)
  with quiet_trans [OF quiet_caller [OF c] quiet_draw [OF dr]] show ?thesis using quiet_grow quiet_refl by blast
qed

lemma revoke_fresh_grow:
  assumes "revoke_fresh env trid reason ctx identity now d = Inr (d', r, evs)" and "uuid_nonempty env"
  shows "records_grow d d'"
proof -
  obtain d1 recorder prior rid after where c: "callerPrincipal env (tenant_of ctx) ctx now d = Inr (d1, recorder)"
    and w: "write_trust env (revocation prior (uuid env (draws d1) now) reason (p_id recorder) now) ''evidence trust revocation''
               ''evidence_trust_revoked'' after (actor_of ctx) ''revoked'' identity now (d1\<lparr>draws := draws d1 + 1\<rparr>) = Inr (d', r, evs)"
    using assms(1) unfolding revoke_fresh_def fresh_id_simp Let_def prod.case by (auto simp: res split: option.splits sum.splits if_splits)
  have "records_grow (d1\<lparr>draws := draws d1 + 1\<rparr>) d'"
    by (rule write_trust_grow [OF w]) (use assms(2) in \<open>simp add: revocation_def uuid_nonempty_def\<close>)
  with quiet_trans [OF quiet_caller [OF c] quiet_updates(2)] show ?thesis using quiet_grow quiet_refl by blast
qed

lemma propose_fresh_grow:
  assumes "propose_fresh env i ctx identity now d = Inr (d', r, evs)" shows "records_grow d d'"
proof -
  obtain d1 proposer c ms where cal: "callerPrincipal env (tenant_of ctx) ctx now d = Inr (d1, proposer)"
    and w: "write_proposal env i ctx identity c (p_id proposer) ms now d1 = Inr (d', r, evs)"
    using assms unfolding propose_fresh_def by (auto simp: res Let_def split: option.splits sum.splits if_splits)
  obtain d2 pid where dr: "draw_id env (kp_id i) now d1 = (d2, pid)" by (cases "draw_id env (kp_id i) now d1")
  with w obtain p d3 ty after d4 ev st where "insert_proposal p d2 = Inr d3"
    "recordResolutionEvent env (tenant_of ctx) (kp_taskId i) (actor_of ctx) (p_id proposer) ty after now d3 = Inr (d4, ev)"
    "save_outcome identity ''completion_proposal'' pid st ev d4 = Inr d'"
    unfolding write_proposal_def by (auto simp: res Let_def)
  then show ?thesis
    using grow_between [OF quiet_trans [OF quiet_caller [OF cal] quiet_draw [OF dr]] insert_proposal_grow quiet_event quiet_save] by blast
qed

lemma challenge_fresh_grow:
  assumes "challenge_fresh env i ctx identity now d = Inr (d', r, evs)" shows "records_grow d d'"
proof -
  obtain d1 challenger p where cal: "callerPrincipal env (tenant_of ctx) ctx now d = Inr (d1, challenger)"
    and w: "write_challenge env i ctx identity p (p_id challenger) now d1 = Inr (d', r, evs)"
    using assms unfolding challenge_fresh_def by (auto simp: res Let_def split: option.splits sum.splits if_splits)
  obtain d2 hid where dr: "draw_id env (kh_id i) now d1 = (d2, hid)" by (cases "draw_id env (kh_id i) now d1")
  with w obtain h d3 ty after d4 ev st where "insert_challenge h d2 = Inr d3"
    "recordResolutionEvent env (tenant_of ctx) (cp_taskId p) (actor_of ctx) (p_id challenger) ty after now d3 = Inr (d4, ev)"
    "save_outcome identity ''completion_challenge'' hid st ev d4 = Inr d'"
    unfolding write_challenge_def by (auto simp: res Let_def)
  then show ?thesis
    using grow_between [OF quiet_trans [OF quiet_caller [OF cal] quiet_draw [OF dr]] insert_challenge_grow quiet_event quiet_save] by blast
qed

text \<open>From the body of an operation to the operation.\<close>

lemma once_cases:
  assumes "once name get identity fresh d = Inr (d', r, evs)"
  obtains (earlier) xs where "d' = d\<lparr>idems := xs\<rparr>" | (fresh) xs where "fresh (d\<lparr>idems := xs\<rparr>) = Inr (d', r, evs)"
proof (cases "findIdempotencyResult identity d")
  case (Inr q)
  then obtain xs prior where q: "q = (d\<lparr>idems := xs\<rparr>, prior)" using findIdempotencyResult_frame by (cases q) blast
  show thesis
  proof (cases prior)
    case None
    with assms Inr q that(2) show thesis by (simp add: once_def)
  next
    case (Some p)
    with assms Inr q have "d' = d\<lparr>idems := xs\<rparr>" by (auto simp: once_def res)
    then show thesis by (rule that(1))
  qed
qed (use assms in \<open>simp add: once_def\<close>)

lemma once_grow:
  assumes "once name get identity fresh d = Inr (d', r, evs)" and "\<And>xs. fresh (d\<lparr>idems := xs\<rparr>) = Inr (d', r, evs) \<Longrightarrow> records_grow (d\<lparr>idems := xs\<rparr>) d'"
  shows "records_grow d d'"
  using assms(1)
proof (cases rule: once_cases)
  case (earlier xs)
  then show ?thesis using quiet_grow [OF quiet_updates(1) records_grow_refl quiet_refl] by simp
next
  case (fresh xs)
  then show ?thesis using quiet_grow [OF quiet_updates(1) assms(2) quiet_refl] by blast
qed

lemma once_operation:
  assumes "\<And>now identity xs d1 r evs. m = Inr (now, identity) \<Longrightarrow> fresh now identity (d\<lparr>idems := xs\<rparr>) = Inr (d1, r, evs) \<Longrightarrow>
      records_grow (d\<lparr>idems := xs\<rparr>) d1"
  shows "records_grow d (fst (prologue m (\<lambda>(now, identity). runInTransaction (once name get identity (fresh now identity))) d))"
proof -
  have "records_grow d (d1\<lparr>committedMutations := n, journal := j\<rparr>)"
    if "m = Inr (now, identity)" "once name get identity (fresh now identity) d = Inr (d1, r, evs)" for now identity d1 r evs n j
    using quiet_grow [OF quiet_refl once_grow [OF that(2)] quiet_updates(3)] assms [OF that(1)] by blast
  then show ?thesis by (auto simp: prologue_def runInTransaction_def split: sum.splits)
qed

lemma createResolutionContract_grow: "records_grow d (fst (createResolutionContract env i ctx d))"
  unfolding createResolutionContract_def Let_def
proof (rule once_operation)
  fix now identity xs d1 r evs
  assume "(case createResolutionContractInTransaction env i (tenant_of ctx) (actor_of ctx) (ctx_principalId ctx) now (d\<lparr>idems := xs\<rparr>) of
      Inl e \<Rightarrow> Inl e | Inr (d, r, ev) \<Rightarrow>
        (case save_outcome identity ''resolution_contract'' (rc_id r) ''created'' ev d of Inl e \<Rightarrow> Inl e | Inr d \<Rightarrow> Inr (d, r, [ev]))) = Inr (d1, r, evs)"
  then obtain d2 ev where "createResolutionContractInTransaction env i (tenant_of ctx) (actor_of ctx) (ctx_principalId ctx) now (d\<lparr>idems := xs\<rparr>) = Inr (d2, r, ev)"
    "save_outcome identity ''resolution_contract'' (rc_id r) ''created'' ev d2 = Inr d1"
    by (auto simp: res)
  then show "records_grow (d\<lparr>idems := xs\<rparr>) d1"
    using quiet_grow [OF quiet_refl createResolutionContractInTransaction_grow quiet_save] by blast
qed

lemma attestEvidenceTrust_grow: "uuid_nonempty env \<Longrightarrow> records_grow d (fst (attestEvidenceTrust env i ctx authority d))"
  unfolding attestEvidenceTrust_def
  by (rule once_operation) (auto intro: attest_fresh_grow split: if_splits)

lemma revokeEvidenceTrust_grow: "uuid_nonempty env \<Longrightarrow> records_grow d (fst (revokeEvidenceTrust env trid reason ctx d))"
  unfolding revokeEvidenceTrust_def by (rule once_operation) (auto intro: revoke_fresh_grow)

lemma proposeCompletion_grow: "records_grow d (fst (proposeCompletion env i ctx d))"
  unfolding proposeCompletion_def by (rule once_operation) (auto intro: propose_fresh_grow)

lemma challengeCompletion_grow: "records_grow d (fst (challengeCompletion env i ctx d))"
  unfolding challengeCompletion_def by (rule once_operation) (auto intro: challenge_fresh_grow)

section \<open>The decisions\<close>

text \<open>A decision operation that returns no new decision changes nothing of the resolution.\<close>

definition quiet_unless_new :: "db \<Rightarrow> db \<times> (err + validation_decision) \<Rightarrow> bool" where
  "quiet_unless_new d r \<longleftrightarrow> quiet d (fst r) \<or> (\<exists>v. snd r = Inr v \<and> v \<notin> set (decisions d))"

lemma quiet_result: "quiet d d' \<Longrightarrow> quiet_unless_new d (d', x)"
  by (simp add: quiet_unless_new_def)

lemma quiet_unless_new_trans: "quiet d d1 \<Longrightarrow> quiet_unless_new d1 r \<Longrightarrow> quiet_unless_new d r"
  by (auto simp: quiet_unless_new_def intro: quiet_trans) (auto simp: quiet_def)

lemma appendDecision_quiet: "quiet_unless_new d (appendDecision env pv r ctx now prev operation request d)"
proof -
  let ?tn = "or_else (ctx_tenantId ctx) (rc_tenantId (pv_contract pv))"
  have "quiet_unless_new d (d1\<lparr>committedMutations := n, journal := j\<rparr>, Inr v)"
    if ran: "once ''validation decision'' (\<lambda>rid. getValidationDecision rid ?tn) identity (append_fresh env pv r ctx ?tn now prev identity) d = Inr (d1, v, evs)"
    for identity d1 v evs n j
  proof -
    from ran show ?thesis
    proof (cases rule: once_cases)
      case (earlier xs)
      then show ?thesis using quiet_trans [OF quiet_updates(1,3)] by (simp add: quiet_result)
    next
      case (fresh xs)
      then obtain d2 decider n2 where "decision_admits v (decisions (d\<lparr>idems := xs\<rparr>))" by (cases rule: append_fresh_result)
      then have "v \<notin> set (decisions d)" by (auto simp: decision_admits_def decision_unique_def)
      then show ?thesis by (simp add: quiet_unless_new_def)
    qed
  qed
  then show ?thesis unfolding appendDecision_def Let_def
    by (auto simp: prologue_def runInTransaction_def quiet_result split: sum.splits)
qed

lemma unless_decided_quiet:
  assumes "\<And>xs. quiet_unless_new (d\<lparr>idems := xs\<rparr>) (k (d\<lparr>idems := xs\<rparr>))"
  shows "quiet_unless_new d (unless_decided (replayDecision env ctx tn operation request now d) k)"
proof -
  have "quiet_unless_new d (k (d\<lparr>idems := xs\<rparr>))" for xs using quiet_unless_new_trans [OF quiet_updates(1) assms] .
  then show ?thesis unfolding unless_decided_def replayDecision_def
    by (auto simp: quiet_result dest!: findIdempotencyResult_frame split: sum.splits option.splits prod.splits)
qed

lemma prologue_quiet: "(\<And>x. quiet_unless_new d (k x d)) \<Longrightarrow> quiet_unless_new d (prologue m k d)"
  by (auto simp: prologue_def quiet_result split: sum.splits)

lemma resolveCallerFromDb_quiet: "resolveCallerFromDb env tn ctx now d = (d1, x) \<Longrightarrow> quiet d d1"
  by (auto simp: resolveCallerFromDb_def runInTransaction_def dest!: quiet_caller split: sum.splits prod.splits
      intro: quiet_trans [OF _ quiet_updates(3)] quiet_trans [OF _ quiet_updates(4)])

lemma evaluate_quiet: "quiet_unless_new d (evaluateCompletionDeterministically env pid ev prev ctx d)"
  unfolding evaluateCompletionDeterministically_def Let_def
  by (intro prologue_quiet unless_decided_quiet) (auto simp: quiet_result appendDecision_quiet split: sum.splits)

lemma attest_quiet: "quiet_unless_new d (attestCompletion env i ctx d)"
  unfolding attestCompletion_def
  by (intro prologue_quiet unless_decided_quiet)
    (auto simp: quiet_result split: sum.splits prod.splits dest!: resolveCallerFromDb_quiet
      intro: quiet_unless_new_trans appendDecision_quiet)

lemma settle_prepared_quiet: "quiet_unless_new d (settle_prepared env pv pid ctx now request d)"
  unfolding settle_prepared_def by (auto simp: quiet_result appendDecision_quiet split: sum.splits option.splits)

lemma settle_quiet: "quiet_unless_new d (settleOptimisticCompletion env pid ctx d)"
  unfolding settleOptimisticCompletion_def Let_def
  by (intro prologue_quiet unless_decided_quiet) (auto simp: quiet_result settle_prepared_quiet split: sum.splits)

lemma adjudicate_quiet: "quiet_unless_new d (adjudicateCompletion env i ctx d)"
  unfolding adjudicateCompletion_def
  by (intro prologue_quiet unless_decided_quiet)
    (auto simp: quiet_result split: sum.splits prod.splits dest!: resolveCallerFromDb_quiet
      intro: quiet_unless_new_trans appendDecision_quiet)

section \<open>The invariant\<close>

inductive resolution_step :: "env \<Rightarrow> db \<Rightarrow> db \<Rightarrow> bool" for env where
  contract: "resolution_step env d (fst (createResolutionContract env i ctx d))"
| trust: "resolution_step env d (fst (attestEvidenceTrust env ti ctx authority d))"
| revoke: "resolution_step env d (fst (revokeEvidenceTrust env trid reason ctx d))"
| propose: "resolution_step env d (fst (proposeCompletion env pi ctx d))"
| challenge: "resolution_step env d (fst (challengeCompletion env hi ctx d))"
| evaluate: "resolution_step env d (fst (evaluateCompletionDeterministically env pid ev prev ctx d))"
| attest: "resolution_step env d (fst (attestCompletion env mi ctx d))"
| settle: "resolution_step env d (fst (settleOptimisticCompletion env pid ctx d))"
| adjudicate: "resolution_step env d (fst (adjudicateCompletion env mi ctx d))"

lemma quiet_inv: "quiet d d' \<Longrightarrow> resolution_inv d \<Longrightarrow> resolution_inv d'"
  using quiet_grow [OF _ records_grow_refl quiet_refl] records_grow_inv by blast

lemma decided_id: "decided env tn now pv r decider prev d v \<Longrightarrow> uuid_nonempty env \<Longrightarrow> vd_id v \<noteq> []"
  by (auto simp: decided_def new_decision_def uuid_nonempty_def)

lemma decision_step_inv:
  assumes "quiet_unless_new d r" and "\<And>v. snd r = Inr v \<Longrightarrow> decision_step env d (fst r) v"
    and "uuid_nonempty env" and "resolution_inv d"
  shows "resolution_inv (fst r)"
proof (cases "quiet d (fst r)")
  case True
  then show ?thesis using assms(4) by (rule quiet_inv)
next
  case False
  then obtain v where v: "snd r = Inr v" "v \<notin> set (decisions d)" using assms(1) by (auto simp: quiet_unless_new_def)
  from assms(2) [OF v(1)] v(2) show ?thesis
  proof (cases rule: decision_step_new)
    case (1 now pv r' decider)
    show ?thesis
      using decision_appended_inv [OF 1(2) assms(4) decided_id [OF 1(1) assms(3)] decided_basis(1) [OF 1(1)]] 1(3) by blast
  qed
qed


section \<open>Validated completions\<close>

text \<open>The basis of a validated completion is a decision in force, on the criteria of the commitment.\<close>

lemma validated_completion_basis:
  assumes "validated_completion tid tn before decisionId requested d = Inr (ids, basis)" and "resolution_inv d"
  obtains v p c where "v \<in> set (decisions d)" "vb_validationDecisionId basis = vd_id v" "vd_taskId v = tid"
    "vd_outcome v = OutAccepted" "decision_in_force (vd_proposalId v) tn d v" "decision_basis v p c d"
    "policy_satisfied (rc_policyKind c) c p v d" "t_successCriteria before = Some (rc_successCriteriaSnapshot c)"
    "ids = vd_evidenceIds v"
proof -
  obtain v c' where v: "find (\<lambda>v. vd_id v = the decisionId \<and> vd_tenantId v = tn \<and> vd_taskId v = tid) (decisions d) = Some v"
    and acc: "vd_outcome v = OutAccepted"
    and live: "\<not> list_ex (\<lambda>x. vd_tenantId x = tn \<and> vd_supersedesDecisionId x = Some (vd_id v)) (decisions d)"
    and c': "find (\<lambda>c. rc_id c = vd_resolutionContractId v \<and> rc_tenantId c = tn \<and> rc_taskId c = tid) (contracts d) = Some c'"
    and snap: "Some (rc_successCriteriaSnapshot c') = t_successCriteria before"
    and b: "vb_validationDecisionId basis = vd_id v" "ids = vd_evidenceIds v"
    using assms(1) unfolding validated_completion_def by (auto simp: res split: if_splits option.splits)
  note vf = find_SomeD [OF v] and cf = find_SomeD [OF c']
  obtain p c where pc: "decision_basis v p c d" "policy_satisfied (rc_policyKind c) c p v d"
    using assms(2) vf acc unfolding resolution_inv_def decisions_justified_def by blast
  have "c = c'"
    using uniq_by_eqD [of rc_id "contracts d" c c'] assms(2) pc(1) cf by (simp add: resolution_inv_def decision_basis_def)
  moreover have "decision_in_force (vd_proposalId v) tn d v" using vf live by (auto simp: decision_in_force_def list_ex_iff)
  ultimately show thesis using that [of v p c] vf b acc pc snap by simp
qed



section \<open>A validated completion in full\<close>

definition sample_decision :: validation_decision where
  "sample_decision = \<lparr>vd_id = ''v1'', vd_tenantId = ''w'', vd_taskId = ''t1'', vd_resolutionContractId = ''k1'', vd_proposalId = ''q1'',
     vd_outcome = OutAccepted, vd_policyUri = ''urn:p'', vd_policyVersion = 1, vd_implementationDigest = sample_digest,
     vd_policyInputDigest = sample_digest, vd_evidenceIds = [''e1''], vd_trustRecordIds = [''r1''], vd_supersedesDecisionId = None,
     vd_decidedByPrincipalId = ''p1'', vd_reasonCode = ''ok'', vd_explanation = ''dry'', vd_decidedAt = 2000\<rparr>"

definition sample_decided_db :: db where
  "sample_decided_db = sample_validation_db\<lparr>decisions := [sample_decision]\<rparr>"

lemma sample_trust_chain: "trust_chain.chain [sample_trust]"
  using trust_chain.chain.add [OF trust_chain.chain.empty, of sample_trust]
  by (simp add: trust_admits_def trust_unique_def trust_parent_present_def sample_trust_def)

lemma sample_decision_chain: "decision_chain.chain [sample_decision]"
  using decision_chain.chain.add [OF decision_chain.chain.empty, of sample_decision]
  by (simp add: decision_admits_def decision_unique_def decision_parent_present_def sample_decision_def)

lemma sample_rows_ok: "trust_ok sample_trust" "validation_decision_ok sample_decision" by code_simp+

lemma sample_resolution_inv: "resolution_inv sample_validation_db" "resolution_inv sample_decided_db"
proof -
  have t: "trustRecords sample_validation_db = [sample_trust]" "decisions sample_validation_db = []"
    "contracts sample_validation_db = [sample_contract]" "proposals sample_validation_db = [sample_proposal]"
    by (simp_all add: sample_validation_db_def sample_db_def empty_db_def)
  have r: "tr_id sample_trust = ''r1''" "vd_id sample_decision = ''v1''" by (simp_all add: sample_trust_def sample_decision_def)
  show "resolution_inv sample_validation_db"
    by (simp add: resolution_inv_def decisions_justified_def t r sample_trust_chain sample_rows_ok uniq_by_def
        decision_chain.chain.empty)
  have "decision_basis sample_decision sample_proposal sample_contract sample_decided_db"
    "policy_satisfied (rc_policyKind sample_contract) sample_contract sample_proposal sample_decision sample_decided_db"
    by (simp_all add: decision_basis_def sample_decided_db_def t sample_decision_def sample_proposal_def sample_contract_def
        decided_by_one_of_def)
  then have "decisions_justified sample_decided_db"
    unfolding decisions_justified_def by (auto simp: sample_decided_db_def)
  then show "resolution_inv sample_decided_db"
    by (simp add: resolution_inv_def t r sample_trust_chain sample_decision_chain sample_rows_ok uniq_by_def sample_decided_db_def)
qed

lemma sample_uuids: "uuid_nonempty hex_env"
  by (simp add: uuid_nonempty_def hex_env_def sample_env_def)

theorem current_decision_defined_witness: "\<exists>v. currentDecision ''q1'' ''w'' sample_decided_db = Inr v"
  using current_decision_defined [OF sample_resolution_inv(2), of "''q1''" "''w''"] by blast


abbreviation sample_validated_done :: "db \<times> (err + task)" where
  "sample_validated_done \<equiv> completeTask hex_env flatHierarchyPolicy ''t1''
     ((sample_options ''bob'' 3000)\<lparr>so_validationDecisionId := Some ''v1''\<rparr>) sample_decided_db"

lemma sample_validated_done_ok: "returned (snd sample_validated_done)"
  "task_row ''t1'' ''w'' sample_decided_db = Some (hd (tasks sample_decided_db))"
  "t_status (hd (tasks sample_decided_db)) \<noteq> Done" "t_validationRequired (hd (tasks sample_decided_db))" by code_simp+


end
