(* ===== verification/Premises.thy ===== *)
theory Premises
  imports Resolution_Records Collaboration
begin

text \<open>
  The motivating premise of a commitment (\<open>packages/tasq-core/src/service/premises.ts\<close>): a commitment
  created on an observation carries the proposition it rests on; anyone may propose to uphold or to
  refute it with evidence of the commitment, challenge a proposal, and the validators the premise names
  decide. An accepted refutation invalidates the premise, releases the claim and cancels the attempts
  of the commitment, and stops every later acquisition. All records are rows of \<open>external_ref\<close>
  under resource types reserved to this service; their values are JSON objects that the contracts below
  read back. An identifier is only required not to be empty.
\<close>

section \<open>Contracts\<close>

definition TASK_PREMISE_SYSTEM_URI :: string where
  "TASK_PREMISE_SYSTEM_URI = ''https://tasq.run''"

definition TASK_PREMISE_URI :: string where
  "TASK_PREMISE_URI = ''https://tasq.run/contracts/task-premise/v1''"

definition TASK_PREMISE_PROPOSAL_URI :: string where
  "TASK_PREMISE_PROPOSAL_URI = ''https://tasq.run/contracts/task-premise-proposal/v1''"

definition TASK_PREMISE_CHALLENGE_URI :: string where
  "TASK_PREMISE_CHALLENGE_URI = ''https://tasq.run/contracts/task-premise-challenge/v1''"

definition TASK_PREMISE_DECISION_URI :: string where
  "TASK_PREMISE_DECISION_URI = ''https://tasq.run/contracts/task-premise-decision/v1''"

lemma premise_uris:
  "RESERVED_TASK_PREMISE_RESOURCE_TYPES = [TASK_PREMISE_URI, TASK_PREMISE_PROPOSAL_URI,
     TASK_PREMISE_CHALLENGE_URI, TASK_PREMISE_DECISION_URI, TASK_PREMISE_INVALIDATION_URI]"
  "distinct [TASK_PREMISE_URI, TASK_PREMISE_PROPOSAL_URI, TASK_PREMISE_CHALLENGE_URI,
     TASK_PREMISE_DECISION_URI, TASK_PREMISE_INVALIDATION_URI]"
  by (simp_all add: RESERVED_TASK_PREMISE_RESOURCE_TYPES_def TASK_PREMISE_URI_def TASK_PREMISE_PROPOSAL_URI_def
      TASK_PREMISE_CHALLENGE_URI_def TASK_PREMISE_DECISION_URI_def TASK_PREMISE_INVALIDATION_URI_def)

datatype premise_verdict = Uphold | Refute

datatype premise_outcome = PremiseAccepted | PremiseRejected | PremiseChallenged | PremiseIndeterminate

fun premise_verdict_text :: "premise_verdict \<Rightarrow> string" where
  "premise_verdict_text Uphold = ''uphold''"
| "premise_verdict_text Refute = ''refute''"

fun premise_outcome_text :: "premise_outcome \<Rightarrow> string" where
  "premise_outcome_text PremiseAccepted = ''accepted''"
| "premise_outcome_text PremiseRejected = ''rejected''"
| "premise_outcome_text PremiseChallenged = ''challenged''"
| "premise_outcome_text PremiseIndeterminate = ''indeterminate''"

record task_premise =
  tp_taskId :: string
  tp_taskRevision :: int
  tp_observationId :: string
  tp_observationDigest :: string
  tp_proposition :: string
  tp_eligibleValidatorPrincipalIds :: "string list"
  tp_adjudicatorPrincipalIds :: "string list"
  tp_allowSelfValidation :: bool
  tp_createdByPrincipalId :: string
  tp_createdAt :: int

record premise_proposal =
  pp_taskId :: string
  pp_premiseId :: string
  pp_verdict :: premise_verdict
  pp_evidenceIds :: "string list"
  pp_rationale :: string
  pp_proposedByPrincipalId :: string
  pp_proposedAt :: int

record premise_challenge =
  pc_taskId :: string
  pc_premiseId :: string
  pc_proposalId :: string
  pc_counterEvidenceIds :: "string list"
  pc_rationale :: string
  pc_challengedByPrincipalId :: string
  pc_challengedAt :: int

record premise_decision =
  pd_taskId :: string
  pd_premiseId :: string
  pd_proposalId :: string
  pd_outcome :: premise_outcome
  pd_challengeIds :: "string list"
  pd_evidenceIds :: "string list"
  pd_rationale :: string
  pd_decidedByPrincipalId :: string
  pd_decidedAt :: int

record premise_invalidation =
  pv_taskId :: string
  pv_premiseId :: string
  pv_proposalId :: string
  pv_decisionId :: string
  pv_invalidatedByPrincipalId :: string
  pv_invalidatedAt :: int
  pv_reason :: string

text \<open>\<open>PrincipalIds\<close> and \<open>EvidenceIds\<close>: lists of bounded length, turned into sorted lists without
  repetition. A text is trimmed before its length is checked.\<close>

definition sorted_ids :: "string list \<Rightarrow> string list" where
  "sorted_ids ids = sort (remdups ids)"

definition PrincipalIds :: "string list \<Rightarrow> (string list) option" where
  "PrincipalIds ids = (if list_all (between 1 500) ids \<and> length ids \<le> 32 then Some (sorted_ids ids) else None)"

definition EvidenceIds :: "string list \<Rightarrow> (string list) option" where
  "EvidenceIds ids = (if list_all (\<lambda>i. i \<noteq> []) ids \<and> 1 \<le> length ids \<and> length ids \<le> 128 then Some (sorted_ids ids) else None)"

definition premise_text :: "string \<Rightarrow> string option" where
  "premise_text s = (if between 1 2000 (js_trim s) then Some (js_trim s) else None)"

text \<open>\<open>parse\<close> of a value of each contract, the transformations included.\<close>

definition parse_task_premise :: "task_premise \<Rightarrow> task_premise option" where
  "parse_task_premise p = (case (premise_text (tp_proposition p), PrincipalIds (tp_eligibleValidatorPrincipalIds p),
       PrincipalIds (tp_adjudicatorPrincipalIds p)) of
     (Some proposition, Some validators, Some adjudicators) \<Rightarrow>
       if tp_taskId p \<noteq> [] \<and> 0 < tp_taskRevision p \<and> tp_observationId p \<noteq> [] \<and>
          sha256_ref (tp_observationDigest p) \<and> validators \<noteq> [] \<and>
          between 1 500 (tp_createdByPrincipalId p) \<and> 0 \<le> tp_createdAt p
       then Some (p\<lparr>tp_proposition := proposition, tp_eligibleValidatorPrincipalIds := validators,
              tp_adjudicatorPrincipalIds := adjudicators\<rparr>)
       else None
   | _ \<Rightarrow> None)"

definition parse_premise_proposal :: "premise_proposal \<Rightarrow> premise_proposal option" where
  "parse_premise_proposal p = (case (EvidenceIds (pp_evidenceIds p), premise_text (pp_rationale p)) of
     (Some ids, Some rationale) \<Rightarrow>
       if pp_taskId p \<noteq> [] \<and> pp_premiseId p \<noteq> [] \<and> between 1 500 (pp_proposedByPrincipalId p) \<and> 0 \<le> pp_proposedAt p
       then Some (p\<lparr>pp_evidenceIds := ids, pp_rationale := rationale\<rparr>) else None
   | _ \<Rightarrow> None)"

definition parse_premise_challenge :: "premise_challenge \<Rightarrow> premise_challenge option" where
  "parse_premise_challenge p = (case (EvidenceIds (pc_counterEvidenceIds p), premise_text (pc_rationale p)) of
     (Some ids, Some rationale) \<Rightarrow>
       if pc_taskId p \<noteq> [] \<and> pc_premiseId p \<noteq> [] \<and> pc_proposalId p \<noteq> [] \<and>
          between 1 500 (pc_challengedByPrincipalId p) \<and> 0 \<le> pc_challengedAt p
       then Some (p\<lparr>pc_counterEvidenceIds := ids, pc_rationale := rationale\<rparr>) else None
   | _ \<Rightarrow> None)"

definition parse_premise_decision :: "premise_decision \<Rightarrow> premise_decision option" where
  "parse_premise_decision p = (case (EvidenceIds (pd_evidenceIds p), premise_text (pd_rationale p)) of
     (Some ids, Some rationale) \<Rightarrow>
       if pd_taskId p \<noteq> [] \<and> pd_premiseId p \<noteq> [] \<and> pd_proposalId p \<noteq> [] \<and>
          list_all (\<lambda>i. i \<noteq> []) (pd_challengeIds p) \<and> length (pd_challengeIds p) \<le> 128 \<and>
          between 1 500 (pd_decidedByPrincipalId p) \<and> 0 \<le> pd_decidedAt p
       then Some (p\<lparr>pd_evidenceIds := ids, pd_rationale := rationale\<rparr>) else None
   | _ \<Rightarrow> None)"

definition parse_premise_invalidation :: "premise_invalidation \<Rightarrow> premise_invalidation option" where
  "parse_premise_invalidation p = (case premise_text (pv_reason p) of
     Some reason \<Rightarrow>
       if pv_taskId p \<noteq> [] \<and> pv_premiseId p \<noteq> [] \<and> pv_proposalId p \<noteq> [] \<and> pv_decisionId p \<noteq> [] \<and>
          between 1 500 (pv_invalidatedByPrincipalId p) \<and> 0 \<le> pv_invalidatedAt p
       then Some (p\<lparr>pv_reason := reason\<rparr>) else None
   | _ \<Rightarrow> None)"

text \<open>The objects the contracts describe.\<close>

definition task_premise_json :: "task_premise \<Rightarrow> metadata" where
  "task_premise_json p = [(''contract'', JStr ''tasq.task-premise.v1''), (''taskId'', JStr (tp_taskId p)),
     (''taskRevision'', JInt (tp_taskRevision p)), (''observationId'', JStr (tp_observationId p)),
     (''observationDigest'', JStr (tp_observationDigest p)), (''proposition'', JStr (tp_proposition p)),
     (''eligibleValidatorPrincipalIds'', str_array (tp_eligibleValidatorPrincipalIds p)),
     (''adjudicatorPrincipalIds'', str_array (tp_adjudicatorPrincipalIds p)),
     (''allowSelfValidation'', JBool (tp_allowSelfValidation p)),
     (''createdByPrincipalId'', JStr (tp_createdByPrincipalId p)), (''createdAt'', JInt (tp_createdAt p))]"

definition premise_proposal_json :: "premise_proposal \<Rightarrow> metadata" where
  "premise_proposal_json p = [(''contract'', JStr ''tasq.task-premise-proposal.v1''), (''taskId'', JStr (pp_taskId p)),
     (''premiseId'', JStr (pp_premiseId p)), (''verdict'', JStr (premise_verdict_text (pp_verdict p))),
     (''evidenceIds'', str_array (pp_evidenceIds p)), (''rationale'', JStr (pp_rationale p)),
     (''proposedByPrincipalId'', JStr (pp_proposedByPrincipalId p)), (''proposedAt'', JInt (pp_proposedAt p))]"

definition premise_challenge_json :: "premise_challenge \<Rightarrow> metadata" where
  "premise_challenge_json p = [(''contract'', JStr ''tasq.task-premise-challenge.v1''), (''taskId'', JStr (pc_taskId p)),
     (''premiseId'', JStr (pc_premiseId p)), (''proposalId'', JStr (pc_proposalId p)),
     (''counterEvidenceIds'', str_array (pc_counterEvidenceIds p)), (''rationale'', JStr (pc_rationale p)),
     (''challengedByPrincipalId'', JStr (pc_challengedByPrincipalId p)), (''challengedAt'', JInt (pc_challengedAt p))]"

definition premise_decision_json :: "premise_decision \<Rightarrow> metadata" where
  "premise_decision_json p = [(''contract'', JStr ''tasq.task-premise-decision.v1''), (''taskId'', JStr (pd_taskId p)),
     (''premiseId'', JStr (pd_premiseId p)), (''proposalId'', JStr (pd_proposalId p)),
     (''outcome'', JStr (premise_outcome_text (pd_outcome p))), (''challengeIds'', str_array (pd_challengeIds p)),
     (''evidenceIds'', str_array (pd_evidenceIds p)), (''rationale'', JStr (pd_rationale p)),
     (''decidedByPrincipalId'', JStr (pd_decidedByPrincipalId p)), (''decidedAt'', JInt (pd_decidedAt p))]"

definition premise_invalidation_json :: "premise_invalidation \<Rightarrow> metadata" where
  "premise_invalidation_json p = [(''contract'', JStr ''tasq.task-premise-invalidation.v1''),
     (''taskId'', JStr (pv_taskId p)), (''premiseId'', JStr (pv_premiseId p)), (''proposalId'', JStr (pv_proposalId p)),
     (''decisionId'', JStr (pv_decisionId p)), (''invalidatedByPrincipalId'', JStr (pv_invalidatedByPrincipalId p)),
     (''invalidatedAt'', JInt (pv_invalidatedAt p)), (''reason'', JStr (pv_reason p))]"

text \<open>\<open>metadataFor\<close>: the object of a row read under a contract.\<close>

fun json_strs :: "json list \<Rightarrow> (string list) option" where
  "json_strs [] = Some []"
| "json_strs (JStr s # js) = map_option (\<lambda>ss. s # ss) (json_strs js)"
| "json_strs (_ # js) = None"

definition str_list :: "json \<Rightarrow> (string list) option" where
  "str_list j = (case j of JArr js \<Rightarrow> json_strs js | _ \<Rightarrow> None)"

definition json_num :: "json \<Rightarrow> int option" where
  "json_num j = (case j of JInt n \<Rightarrow> Some n | _ \<Rightarrow> None)"

definition json_bool :: "json \<Rightarrow> bool option" where
  "json_bool j = (case j of JBool b \<Rightarrow> Some b | _ \<Rightarrow> None)"

definition defaulted :: "(json \<Rightarrow> 'a option) \<Rightarrow> 'a \<Rightarrow> json \<Rightarrow> 'a option" where
  "defaulted f x j = (if j = JUndef then Some x else f j)"

definition verdict_of :: "json \<Rightarrow> premise_verdict option" where
  "verdict_of j = find (\<lambda>v. j = JStr (premise_verdict_text v)) [Uphold, Refute]"

definition outcome_of :: "json \<Rightarrow> premise_outcome option" where
  "outcome_of j = find (\<lambda>v. j = JStr (premise_outcome_text v))
     [PremiseAccepted, PremiseRejected, PremiseChallenged, PremiseIndeterminate]"

definition read_task_premise :: "metadata \<Rightarrow> task_premise option" where
  "read_task_premise m = (case (obj_get m ''contract'', map (\<lambda>k. json_str (obj_get m k)) [''taskId'', ''observationId'',
         ''observationDigest'', ''proposition'', ''createdByPrincipalId''], json_num (obj_get m ''taskRevision''),
       str_list (obj_get m ''eligibleValidatorPrincipalIds''),
       defaulted str_list [] (obj_get m ''adjudicatorPrincipalIds''),
       defaulted json_bool False (obj_get m ''allowSelfValidation''), json_num (obj_get m ''createdAt'')) of
     (JStr contract, [Some t, Some ob, Some dg, Some prop, Some by], Some rv, Some vs, Some adj, Some self, Some ts) \<Rightarrow>
       if contract = ''tasq.task-premise.v1''
       then parse_task_premise \<lparr>tp_taskId = t, tp_taskRevision = rv, tp_observationId = ob, tp_observationDigest = dg,
         tp_proposition = prop, tp_eligibleValidatorPrincipalIds = vs, tp_adjudicatorPrincipalIds = adj,
         tp_allowSelfValidation = self, tp_createdByPrincipalId = by, tp_createdAt = ts\<rparr>
       else None
   | _ \<Rightarrow> None)"

definition read_premise_proposal :: "metadata \<Rightarrow> premise_proposal option" where
  "read_premise_proposal m = (case (obj_get m ''contract'', map (\<lambda>k. json_str (obj_get m k)) [''taskId'', ''premiseId'',
         ''rationale'', ''proposedByPrincipalId''], verdict_of (obj_get m ''verdict''), str_list (obj_get m ''evidenceIds''),
       json_num (obj_get m ''proposedAt'')) of
     (JStr contract, [Some t, Some p, Some r, Some by], Some v, Some ids, Some ts) \<Rightarrow>
       if contract = ''tasq.task-premise-proposal.v1''
       then parse_premise_proposal \<lparr>pp_taskId = t, pp_premiseId = p, pp_verdict = v, pp_evidenceIds = ids,
         pp_rationale = r, pp_proposedByPrincipalId = by, pp_proposedAt = ts\<rparr>
       else None
   | _ \<Rightarrow> None)"

definition read_premise_challenge :: "metadata \<Rightarrow> premise_challenge option" where
  "read_premise_challenge m = (case (obj_get m ''contract'', map (\<lambda>k. json_str (obj_get m k)) [''taskId'', ''premiseId'',
         ''proposalId'', ''rationale'', ''challengedByPrincipalId''], str_list (obj_get m ''counterEvidenceIds''),
       json_num (obj_get m ''challengedAt'')) of
     (JStr contract, [Some t, Some p, Some q, Some r, Some by], Some ids, Some ts) \<Rightarrow>
       if contract = ''tasq.task-premise-challenge.v1''
       then parse_premise_challenge \<lparr>pc_taskId = t, pc_premiseId = p, pc_proposalId = q, pc_counterEvidenceIds = ids,
         pc_rationale = r, pc_challengedByPrincipalId = by, pc_challengedAt = ts\<rparr>
       else None
   | _ \<Rightarrow> None)"

definition read_premise_decision :: "metadata \<Rightarrow> premise_decision option" where
  "read_premise_decision m = (case (obj_get m ''contract'', map (\<lambda>k. json_str (obj_get m k)) [''taskId'', ''premiseId'',
         ''proposalId'', ''rationale'', ''decidedByPrincipalId''], outcome_of (obj_get m ''outcome''),
       str_list (obj_get m ''challengeIds''), str_list (obj_get m ''evidenceIds''), json_num (obj_get m ''decidedAt'')) of
     (JStr contract, [Some t, Some p, Some q, Some r, Some by], Some out, Some hs, Some ids, Some ts) \<Rightarrow>
       if contract = ''tasq.task-premise-decision.v1''
       then parse_premise_decision \<lparr>pd_taskId = t, pd_premiseId = p, pd_proposalId = q, pd_outcome = out,
         pd_challengeIds = hs, pd_evidenceIds = ids, pd_rationale = r, pd_decidedByPrincipalId = by, pd_decidedAt = ts\<rparr>
       else None
   | _ \<Rightarrow> None)"

definition read_premise_invalidation :: "metadata \<Rightarrow> premise_invalidation option" where
  "read_premise_invalidation m = (case (obj_get m ''contract'', map (\<lambda>k. json_str (obj_get m k)) [''taskId'', ''premiseId'',
         ''proposalId'', ''decisionId'', ''invalidatedByPrincipalId'', ''reason''], json_num (obj_get m ''invalidatedAt'')) of
     (JStr contract, [Some t, Some p, Some q, Some dc, Some by, Some r], Some ts) \<Rightarrow>
       if contract = ''tasq.task-premise-invalidation.v1''
       then parse_premise_invalidation \<lparr>pv_taskId = t, pv_premiseId = p, pv_proposalId = q, pv_decisionId = dc,
         pv_invalidatedByPrincipalId = by, pv_invalidatedAt = ts, pv_reason = r\<rparr>
       else None
   | _ \<Rightarrow> None)"

section \<open>Rows\<close>

definition external_ref_ok :: "external_ref \<Rightarrow> bool" where
  "external_ref_ok x \<longleftrightarrow> x_id x \<noteq> [] \<and> x_tenantId x \<noteq> [] \<and> between 1 80 (x_recordType x) \<and>
     between 1 500 (x_recordId x) \<and> absolute_uri (x_system x) \<and> between 1 120 (x_resourceType x) \<and>
     between 1 1000 (x_externalId x) \<and> opt_all absolute_uri (x_url x) \<and> opt_all (between 1 500) (x_version x) \<and>
     opt_all (between 1 500) (x_digest x) \<and> x_createdByPrincipalId x \<noteq> [] \<and> 0 \<le> x_createdAt x"

definition parseRef :: "external_ref \<Rightarrow> err + external_ref" where
  "parseRef x = (if external_ref_ok x then Inr x else Inl (InvalidInput ''external_ref''))"

lemma parseRef_Inr [res]: "parseRef x = Inr y \<longleftrightarrow> y = x \<and> external_ref_ok x"
  by (auto simp: parseRef_def)

text \<open>\<open>insertTypedRef\<close>: a reference of the commitment to itself, whose metadata is the canonical text
  of the value; read back, that text is the object with its entries in order.\<close>

definition typed_ref :: "env \<Rightarrow> string \<Rightarrow> string \<Rightarrow> string \<Rightarrow> string \<Rightarrow> metadata \<Rightarrow> string \<Rightarrow> int \<Rightarrow> external_ref" where
  "typed_ref env xid tenantId tid resourceType v pid now =
     \<lparr>x_id = xid, x_tenantId = tenantId, x_recordType = ''commitment'', x_recordId = tid,
      x_system = TASK_PREMISE_SYSTEM_URI, x_resourceType = resourceType, x_externalId = xid, x_url = None,
      x_version = Some ''1'', x_digest = Some (sha256Digest env (canonicalJson (JObj v))),
      x_metadata = sorted_entries v, x_createdByPrincipalId = pid, x_createdAt = now\<rparr>"

definition insertTypedRef ::
  "env \<Rightarrow> string \<Rightarrow> string \<Rightarrow> string \<Rightarrow> metadata \<Rightarrow> string \<Rightarrow> int \<Rightarrow> db \<Rightarrow> err + db \<times> external_ref" where
  "insertTypedRef env tenantId tid resourceType v pid now d0 =
     (let (d, xid) = fresh_id env now d0 in
      case insert_external_ref (typed_ref env xid tenantId tid resourceType v pid now) d of Inl e \<Rightarrow> Inl e | Inr d \<Rightarrow>
      (case find (\<lambda>x. x_id x = xid) (externalRefs d) of
         None \<Rightarrow> Inl (InvalidInput ''external_ref'')
       | Some x \<Rightarrow> (case parseRef x of Inl e \<Rightarrow> Inl e | Inr x \<Rightarrow> Inr (d, x))))"

definition premise_ref_of :: "string \<Rightarrow> string \<Rightarrow> external_ref \<Rightarrow> bool" where
  "premise_ref_of tid tenantId x \<longleftrightarrow> x_tenantId x = tenantId \<and> x_recordType x = ''commitment'' \<and> x_recordId x = tid \<and>
     x_system x = TASK_PREMISE_SYSTEM_URI \<and> x_resourceType x \<in> set RESERVED_TASK_PREMISE_RESOURCE_TYPES"

definition refsForTask :: "string \<Rightarrow> string \<Rightarrow> db \<Rightarrow> err + external_ref list" where
  "refsForTask tid tenantId d = map_res parseRef
     (sort_key (\<lambda>x. (x_createdAt x, x_id x)) (filter (premise_ref_of tid tenantId) (externalRefs d)))"

definition metadataFor :: "(metadata \<Rightarrow> 'a option) \<Rightarrow> external_ref \<Rightarrow> err + 'a" where
  "metadataFor schema x = (case schema (x_metadata x) of None \<Rightarrow> Inl (InvalidInput (x_resourceType x)) | Some v \<Rightarrow> Inr v)"

definition typed_items :: "(metadata \<Rightarrow> 'a option) \<Rightarrow> string \<Rightarrow> external_ref list \<Rightarrow> err + (string \<times> 'a) list" where
  "typed_items schema resourceType refs = map_res (\<lambda>x. case metadataFor schema x of Inl e \<Rightarrow> Inl e | Inr v \<Rightarrow> Inr (x_id x, v))
     (filter (\<lambda>x. x_resourceType x = resourceType) refs)"

definition requireEvidence :: "string \<Rightarrow> string \<Rightarrow> string list \<Rightarrow> db \<Rightarrow> err + unit" where
  "requireEvidence tid tenantId ids d =
     (let missing = filter (\<lambda>i. \<not> list_ex (\<lambda>e. e_tenantId e = tenantId \<and> e_taskId e = tid \<and> e_id e = i) (evidence d)) ids
      in if missing \<noteq> [] then Inl (Refused ''Premise evidence does not belong to task'' (tid # missing)) else Inr ())"

section \<open>The state of a premise\<close>

record task_premise_state =
  ps_task :: task
  ps_premiseId :: string
  ps_premise :: task_premise
  ps_proposals :: "(string \<times> premise_proposal) list"
  ps_challenges :: "(string \<times> premise_challenge) list"
  ps_decisions :: "(string \<times> premise_decision) list"
  ps_invalidation :: "(string \<times> premise_invalidation) option"
  ps_actionable :: bool

text \<open>The bindings of the records to the commitment, to its premise and to each other, checked at every
  reading.\<close>

definition known_proposal :: "(string \<times> premise_proposal) list \<Rightarrow> string \<Rightarrow> bool" where
  "known_proposal props i \<longleftrightarrow> i \<in> fst ` set props"

definition proposal_bound :: "string \<Rightarrow> string \<Rightarrow> string \<times> premise_proposal \<Rightarrow> bool" where
  "proposal_bound tid premiseId item \<longleftrightarrow> pp_taskId (snd item) = tid \<and> pp_premiseId (snd item) = premiseId"

definition challenge_bound :: "string \<Rightarrow> string \<Rightarrow> (string \<times> premise_proposal) list \<Rightarrow> string \<times> premise_challenge \<Rightarrow> bool" where
  "challenge_bound tid premiseId props item \<longleftrightarrow> pc_taskId (snd item) = tid \<and> pc_premiseId (snd item) = premiseId \<and>
     known_proposal props (pc_proposalId (snd item))"

definition decision_bound :: "string \<Rightarrow> string \<Rightarrow> (string \<times> premise_proposal) list \<Rightarrow> string \<times> premise_decision \<Rightarrow> bool" where
  "decision_bound tid premiseId props item \<longleftrightarrow> pd_taskId (snd item) = tid \<and> pd_premiseId (snd item) = premiseId \<and>
     known_proposal props (pd_proposalId (snd item))"

definition invalidation_bound ::
  "string \<Rightarrow> string \<Rightarrow> (string \<times> premise_proposal) list \<Rightarrow> (string \<times> premise_decision) list \<Rightarrow>
    string \<times> premise_invalidation \<Rightarrow> bool" where
  "invalidation_bound tid premiseId props decs item \<longleftrightarrow>
     (let v = snd item in pv_taskId v = tid \<and> pv_premiseId v = premiseId \<and>
       (case map_of (rev decs) (pv_decisionId v) of None \<Rightarrow> False
        | Some dc \<Rightarrow> pd_outcome dc = PremiseAccepted \<and> pd_proposalId dc = pv_proposalId v) \<and>
       (case map_of (rev props) (pv_proposalId v) of None \<Rightarrow> False | Some p \<Rightarrow> pp_verdict p = Refute))"

definition all_bound :: "string \<Rightarrow> (string \<times> 'a \<Rightarrow> bool) \<Rightarrow> (string \<times> 'a) list \<Rightarrow> err + unit" where
  "all_bound what bound items = (case find (\<lambda>i. \<not> bound i) items of None \<Rightarrow> Inr ()
      | Some i \<Rightarrow> Inl (Refused (what @ '' binding drift'') [fst i]))"

definition premise_actionable :: "task \<Rightarrow> 'v option \<Rightarrow> bool" where
  "premise_actionable t invalidation \<longleftrightarrow> invalidation = None \<and> t_deletedAt t = None \<and> \<not> terminal (t_status t)"

definition read_premise_state :: "string \<Rightarrow> task \<Rightarrow> external_ref \<Rightarrow> external_ref list \<Rightarrow> err + task_premise_state" where
  "read_premise_state tid t premiseRef refs =
     (case typed_items read_premise_proposal TASK_PREMISE_PROPOSAL_URI refs of Inl e \<Rightarrow> Inl e | Inr props \<Rightarrow>
     (case typed_items read_premise_challenge TASK_PREMISE_CHALLENGE_URI refs of Inl e \<Rightarrow> Inl e | Inr chals \<Rightarrow>
     (case typed_items read_premise_decision TASK_PREMISE_DECISION_URI refs of Inl e \<Rightarrow> Inl e | Inr decs \<Rightarrow>
     (case typed_items read_premise_invalidation TASK_PREMISE_INVALIDATION_URI refs of Inl e \<Rightarrow> Inl e | Inr invalidations \<Rightarrow>
      if length invalidations > 1 then Inl (Refused ''Task has multiple premise invalidations'' [tid])
      else case metadataFor read_task_premise premiseRef of Inl e \<Rightarrow> Inl e | Inr premise \<Rightarrow>
      if tp_taskId premise \<noteq> tid then Inl (Refused ''Premise task binding drift'' [x_id premiseRef])
      else case all_bound ''Premise proposal'' (proposal_bound tid (x_id premiseRef)) props of Inl e \<Rightarrow> Inl e | Inr _ \<Rightarrow>
     (case all_bound ''Premise challenge'' (challenge_bound tid (x_id premiseRef) props) chals of Inl e \<Rightarrow> Inl e | Inr _ \<Rightarrow>
     (case all_bound ''Premise decision'' (decision_bound tid (x_id premiseRef) props) decs of Inl e \<Rightarrow> Inl e | Inr _ \<Rightarrow>
     (case all_bound ''Premise invalidation'' (invalidation_bound tid (x_id premiseRef) props decs) invalidations of
        Inl e \<Rightarrow> Inl e
      | Inr _ \<Rightarrow> (let invalidation = (case invalidations of [] \<Rightarrow> None | i # _ \<Rightarrow> Some i) in
          Inr \<lparr>ps_task = t, ps_premiseId = x_id premiseRef, ps_premise = premise, ps_proposals = props,
            ps_challenges = chals, ps_decisions = decs, ps_invalidation = invalidation,
            ps_actionable = premise_actionable t invalidation\<rparr>))))))))"

definition getTaskPremiseState :: "string \<Rightarrow> string \<Rightarrow> db \<Rightarrow> err + task_premise_state option" where
  "getTaskPremiseState tid tenantId d =
     (case getTask tid tenantId d of Inl e \<Rightarrow> Inl e
      | Inr None \<Rightarrow> Inl (Refused ''Task not found'' [tid])
      | Inr (Some t) \<Rightarrow>
        (case refsForTask tid tenantId d of Inl e \<Rightarrow> Inl e | Inr refs \<Rightarrow>
         (case filter (\<lambda>x. x_resourceType x = TASK_PREMISE_URI) refs of
            [] \<Rightarrow> Inr None
          | [premiseRef] \<Rightarrow> (case read_premise_state tid t premiseRef refs of Inl e \<Rightarrow> Inl e | Inr st \<Rightarrow> Inr (Some st))
          | _ \<Rightarrow> Inl (Refused ''Task has multiple motivating premises'' [tid]))))"

section \<open>Creating a commitment on a premise\<close>

record premise_input =
  pr_observationId :: string
  pr_proposition :: string
  pr_eligibleValidatorPrincipalIds :: "string list"
  pr_adjudicatorPrincipalIds :: "string list"
  pr_allowSelfValidation :: bool

definition parse_premise_input :: "premise_input \<Rightarrow> premise_input option" where
  "parse_premise_input i = (case (premise_text (pr_proposition i), PrincipalIds (pr_eligibleValidatorPrincipalIds i),
       PrincipalIds (pr_adjudicatorPrincipalIds i)) of
     (Some proposition, Some validators, Some adjudicators) \<Rightarrow>
       if pr_observationId i \<noteq> [] \<and> validators \<noteq> []
       then Some (i\<lparr>pr_proposition := proposition, pr_eligibleValidatorPrincipalIds := validators,
              pr_adjudicatorPrincipalIds := adjudicators\<rparr>)
       else None
   | _ \<Rightarrow> None)"

definition premise_input_json :: "premise_input \<Rightarrow> json" where
  "premise_input_json i = JObj [(''observationId'', JStr (pr_observationId i)), (''proposition'', JStr (pr_proposition i)),
     (''eligibleValidatorPrincipalIds'', str_array (pr_eligibleValidatorPrincipalIds i)),
     (''adjudicatorPrincipalIds'', str_array (pr_adjudicatorPrincipalIds i)),
     (''allowSelfValidation'', JBool (pr_allowSelfValidation i))]"

definition premise_retry ::
  "env \<Rightarrow> service_context \<Rightarrow> string \<Rightarrow> string \<Rightarrow> json \<Rightarrow> int \<Rightarrow> err + prepared_idempotency option" where
  "premise_retry env ctx tenantId operation request now =
     prepareIdempotency env (ctx\<lparr>ctx_tenantId := Some tenantId\<rparr>) operation request now (Some Durable) None None"

definition observation_row_json :: "observation \<Rightarrow> json" where
  "observation_row_json r = JObj [(''id'', JStr (ob_id r)), (''tenantId'', JStr (ob_tenantId r)),
     (''source'', JStr (ob_source r)), (''externalEventId'', JStr (ob_externalEventId r)), (''kind'', JStr (ob_kind r)),
     (''typeUri'', JStr (ob_typeUri r)), (''schemaVersion'', JInt (ob_schemaVersion r)),
     (''subjectRef'', JStr (ob_subjectRef r)), (''payload'', JStr (ob_payload r)), (''occurredAt'', JInt (ob_occurredAt r)),
     (''recordedAt'', JInt (ob_recordedAt r)), (''recordedBy'', JStr (ob_recordedBy r)),
     (''verificationLevel'', JStr (ob_verificationLevel r)), (''verificationMethod'', nullable JStr (ob_verificationMethod r)),
     (''rawRef'', nullable JStr (ob_rawRef r)), (''digest'', nullable JStr (ob_digest r)), (''metadata'', JObj (ob_metadata r))]"

definition observation_digest :: "env \<Rightarrow> observation \<Rightarrow> string" where
  "observation_digest env r = sha256Digest env (canonicalJson (observation_row_json r))"

fun premise_validators_enabled :: "string list \<Rightarrow> string \<Rightarrow> db \<Rightarrow> err + unit" where
  "premise_validators_enabled [] tenantId d = Inr ()"
| "premise_validators_enabled (pid # pids) tenantId d = (case getPrincipal pid tenantId d of Inl e \<Rightarrow> Inl e
     | Inr None \<Rightarrow> Inl (Refused ''Premise validator is not enabled'' [pid])
     | Inr (Some p) \<Rightarrow> if p_status p \<noteq> Enabled then Inl (Refused ''Premise validator is not enabled'' [pid])
         else premise_validators_enabled pids tenantId d)"

definition premise_of :: "env \<Rightarrow> premise_input \<Rightarrow> observation \<Rightarrow> task \<Rightarrow> string \<Rightarrow> int \<Rightarrow> task_premise" where
  "premise_of env i ob t pid now = \<lparr>tp_taskId = t_id t, tp_taskRevision = t_revision t,
     tp_observationId = pr_observationId i, tp_observationDigest = observation_digest env ob,
     tp_proposition = pr_proposition i, tp_eligibleValidatorPrincipalIds = pr_eligibleValidatorPrincipalIds i,
     tp_adjudicatorPrincipalIds = pr_adjudicatorPrincipalIds i, tp_allowSelfValidation = pr_allowSelfValidation i,
     tp_createdByPrincipalId = pid, tp_createdAt = now\<rparr>"

record premised_task =
  pk_task :: task
  pk_premiseId :: string
  pk_premise :: task_premise
  pk_replayed :: bool

definition replay_premised :: "string \<Rightarrow> idempotency_record \<Rightarrow> db \<Rightarrow> err + premised_task" where
  "replay_premised tenantId prior d =
     (case find (\<lambda>x. x_tenantId x = tenantId \<and> x_id x = ik_resultId prior) (externalRefs d) of
        None \<Rightarrow> Inl (Refused ''Idempotency record points at missing premise'' [ik_resultId prior])
      | Some x \<Rightarrow> (case parseRef x of Inl e \<Rightarrow> Inl e | Inr x \<Rightarrow>
        (case metadataFor read_task_premise x of Inl e \<Rightarrow> Inl e | Inr v \<Rightarrow>
        (case getTask (tp_taskId v) tenantId d of Inl e \<Rightarrow> Inl e
         | Inr None \<Rightarrow> Inl (Refused ''Premise points at missing task'' [tp_taskId v])
         | Inr (Some t) \<Rightarrow> Inr \<lparr>pk_task = t, pk_premiseId = x_id x, pk_premise = v, pk_replayed = True\<rparr>))))"

text \<open>The premise of the task just created, its event and the saved outcome.\<close>

definition attach_premise ::
  "env \<Rightarrow> string \<Rightarrow> string \<Rightarrow> premise_input \<Rightarrow> observation \<Rightarrow> prepared_idempotency option \<Rightarrow> string \<Rightarrow> int \<Rightarrow>
    task \<Rightarrow> event \<Rightarrow> db \<Rightarrow> err + db \<times> premised_task \<times> event list" where
  "attach_premise env tenantId actor i ob identity pid now t created d =
     (case parse_task_premise (premise_of env i ob t pid now) of
        None \<Rightarrow> Inl (InvalidInput ''TaskPremise'')
      | Some v \<Rightarrow>
        (case insertTypedRef env tenantId (t_id t) TASK_PREMISE_URI (task_premise_json v) pid now d of Inl e \<Rightarrow> Inl e
         | Inr (d, x) \<Rightarrow>
        (case recordEvent env (task_event tenantId actor (Some pid) (t_id t) ''premise_attached''
               [(''after'', JObj [(''premiseId'', JStr (x_id x)), (''observationId'', JStr (tp_observationId v)),
                  (''observationDigest'', JStr (tp_observationDigest v))])]) now d of Inl e \<Rightarrow> Inl e
         | Inr (d, ev) \<Rightarrow>
        (case save_outcome identity ''task_premise'' (x_id x) ''attached'' ev d of Inl e \<Rightarrow> Inl e
         | Inr d \<Rightarrow> Inr (d, \<lparr>pk_task = t, pk_premiseId = x_id x, pk_premise = v, pk_replayed = False\<rparr>, [created, ev])))))"

definition premised_fresh ::
  "env \<Rightarrow> task_insert \<Rightarrow> premise_input \<Rightarrow> service_context \<Rightarrow> prepared_idempotency option \<Rightarrow> int \<Rightarrow> db \<Rightarrow>
    err + db \<times> premised_task \<times> event list" where
  "premised_fresh env parsed i ctx identity now d =
     (let tenantId = tenant_of ctx; actor = actor_of ctx in
      case find (\<lambda>r. ob_tenantId r = tenantId \<and> ob_id r = pr_observationId i) (observations d) of
        None \<Rightarrow> Inl (Refused ''Observation not found in workspace'' [pr_observationId i])
      | Some ob \<Rightarrow>
        (case callerPrincipal env tenantId ctx now d of Inl e \<Rightarrow> Inl e | Inr (d, p) \<Rightarrow>
        (case premise_validators_enabled (pr_eligibleValidatorPrincipalIds i @ pr_adjudicatorPrincipalIds i) tenantId d of
           Inl e \<Rightarrow> Inl e | Inr _ \<Rightarrow>
        (case createTaskInTransaction env flatHierarchyPolicy parsed tenantId actor (Some (p_id p)) now
               [(''source'', JStr ''task_premise'')] False d of Inl e \<Rightarrow> Inl e
         | Inr (d, t, created) \<Rightarrow> attach_premise env tenantId actor i ob identity (p_id p) now t created d))))"

definition premisedTx ::
  "env \<Rightarrow> task_insert \<Rightarrow> premise_input \<Rightarrow> service_context \<Rightarrow> prepared_idempotency option \<Rightarrow> int \<Rightarrow> db \<Rightarrow>
    err + db \<times> premised_task \<times> event list" where
  "premisedTx env parsed i ctx identity now d0 = (case findIdempotencyResult identity d0 of Inl e \<Rightarrow> Inl e
      | Inr (d, Some prior) \<Rightarrow> (case replay_premised (tenant_of ctx) prior d of Inl e \<Rightarrow> Inl e | Inr r \<Rightarrow> Inr (d, r, []))
      | Inr (d, None) \<Rightarrow> premised_fresh env parsed i ctx identity now d)"

definition createTaskWithPremise ::
  "env \<Rightarrow> task_insert \<Rightarrow> premise_input \<Rightarrow> service_context \<Rightarrow> db \<Rightarrow> db \<times> (err + premised_task)" where
  "createTaskWithPremise env taskInput premiseInput ctx =
     (let tenantId = tenant_of ctx; parsed = taskInput\<lparr>ti_tenantId := tenantId\<rparr> in
      prologue (case serviceNow ctx of Inl e \<Rightarrow> Inl e | Inr now \<Rightarrow>
          if \<not> task_insert_ok parsed then Inl (InvalidInput ''task'')
          else case parse_premise_input premiseInput of None \<Rightarrow> Inl (InvalidInput ''premise'') | Some i \<Rightarrow>
          (case premise_retry env ctx tenantId ''premise.task.create''
                 (JObj [(''task'', JObj (task_insert_entries parsed @ [(''tenantId'', JStr tenantId)])),
                    (''premise'', premise_input_json i)]) now of Inl e \<Rightarrow> Inl e
           | Inr identity \<Rightarrow> Inr (i, now, identity)))
        (\<lambda>(i, now, identity). runInTransaction (premisedTx env parsed i ctx identity now)))"

section \<open>Proposals, challenges and decisions\<close>

text \<open>What a mutation builds, from what its transaction read.\<close>

record premise_basis =
  ba_tenantId :: string
  ba_now :: int
  ba_principal :: principal
  ba_state :: task_premise_state

record mutation_build =
  mb_resourceType :: string
  mb_value :: metadata
  mb_status :: string
  mb_eventType :: string
  mb_invalidate :: "(string \<times> string) option"

record premise_record =
  px_id :: string
  px_value :: metadata
  px_replayed :: bool

text \<open>An accepted refutation: the invalidation is recorded, the claim released, the attempts cancelled.\<close>

definition premise_cancelled :: "int \<Rightarrow> task_attempt \<Rightarrow> task_attempt" where
  "premise_cancelled now a = a\<lparr>a_status := AttemptCancelled, a_statusMessage := Some ''motivating premise invalidated'',
     a_endedAt := Some now, a_updatedAt := now, a_revision := a_revision a + 1\<rparr>"

definition active_attempt_in :: "string \<Rightarrow> string \<Rightarrow> task_attempt \<Rightarrow> bool" where
  "active_attempt_in tid tenantId a \<longleftrightarrow> a_tenantId a = tenantId \<and> a_taskId a = tid \<and> active_attempt_status (a_status a)"

definition settle_invalidated :: "string \<Rightarrow> string \<Rightarrow> int \<Rightarrow> db \<Rightarrow> err + db" where
  "settle_invalidated tid tenantId now d =
     (case update_claims (unreleased_claim tid tenantId) (close_claim ''premise_invalidated'' now) d of Inl e \<Rightarrow> Inl e
      | Inr d \<Rightarrow> update_attempts (active_attempt_in tid tenantId) (premise_cancelled now) d)"

definition invalidation_of_decision ::
  "string \<Rightarrow> string \<Rightarrow> string \<Rightarrow> string \<Rightarrow> string \<Rightarrow> int \<Rightarrow> string \<Rightarrow> premise_invalidation" where
  "invalidation_of_decision tid premiseId proposalId decisionId pid now reason =
     \<lparr>pv_taskId = tid, pv_premiseId = premiseId, pv_proposalId = proposalId, pv_decisionId = decisionId,
      pv_invalidatedByPrincipalId = pid, pv_invalidatedAt = now, pv_reason = reason\<rparr>"

definition invalidate_premise ::
  "env \<Rightarrow> string \<Rightarrow> string \<Rightarrow> string \<Rightarrow> string \<Rightarrow> string \<Rightarrow> string \<Rightarrow> string \<Rightarrow> string \<Rightarrow> int \<Rightarrow> db \<Rightarrow> err + db \<times> event" where
  "invalidate_premise env tid tenantId actor pid premiseId decisionId proposalId reason now d =
     (case parse_premise_invalidation (invalidation_of_decision tid premiseId proposalId decisionId pid now reason) of
        None \<Rightarrow> Inl (InvalidInput ''TaskPremiseInvalidation'')
      | Some v \<Rightarrow>
        (case insertTypedRef env tenantId tid TASK_PREMISE_INVALIDATION_URI (premise_invalidation_json v) pid now d of
           Inl e \<Rightarrow> Inl e
         | Inr (d, x) \<Rightarrow>
        (case settle_invalidated tid tenantId now d of Inl e \<Rightarrow> Inl e
         | Inr d' \<Rightarrow> recordEvent env (task_event tenantId actor (Some pid) tid ''premise_invalidated''
             [(''after'', JObj [(''invalidationId'', JStr (x_id x)), (''decisionId'', JStr decisionId),
                 (''releasedClaimIds'', str_array (map c_id (filter (unreleased_claim tid tenantId) (claims d)))),
                 (''cancelledAttemptIds'', str_array (map a_id (filter (active_attempt_in tid tenantId) (attempts d))))]),
              (''reason'', JStr reason)]) now d')))"

definition follow_up ::
  "env \<Rightarrow> string \<Rightarrow> string \<Rightarrow> string \<Rightarrow> string \<Rightarrow> string \<Rightarrow> string \<Rightarrow> (string \<times> string) option \<Rightarrow> int \<Rightarrow> db \<Rightarrow>
    err + db \<times> event list" where
  "follow_up env tid tenantId actor pid premiseId recordId refuted now d = (case refuted of
      None \<Rightarrow> Inr (d, [])
    | Some (proposalId, reason) \<Rightarrow>
        (case invalidate_premise env tid tenantId actor pid premiseId recordId proposalId reason now d of Inl e \<Rightarrow> Inl e
         | Inr (d, ev) \<Rightarrow> Inr (d, [ev])))"

definition write_premise_record ::
  "env \<Rightarrow> string \<Rightarrow> string \<Rightarrow> string \<Rightarrow> prepared_idempotency option \<Rightarrow> premise_basis \<Rightarrow> mutation_build \<Rightarrow> db \<Rightarrow>
    err + db \<times> premise_record \<times> event list" where
  "write_premise_record env tid tenantId actor identity b built d =
     (let pid = p_id (ba_principal b); now = ba_now b; premiseId = ps_premiseId (ba_state b) in
      case insertTypedRef env tenantId tid (mb_resourceType built) (mb_value built) pid now d of Inl e \<Rightarrow> Inl e
      | Inr (d, x) \<Rightarrow>
      (case recordEvent env (task_event tenantId actor (Some pid) tid (mb_eventType built)
             [(''after'', JObj [(''premiseRecordId'', JStr (x_id x)), (''premiseId'', JStr premiseId),
                (''status'', JStr (mb_status built))])]) now d of Inl e \<Rightarrow> Inl e
       | Inr (d, ev) \<Rightarrow>
      (case follow_up env tid tenantId actor pid premiseId (x_id x) (mb_invalidate built) now d of Inl e \<Rightarrow> Inl e
       | Inr (d, evs) \<Rightarrow>
      (case save_outcome identity (mb_resourceType built) (x_id x) (mb_status built) ev d of Inl e \<Rightarrow> Inl e
       | Inr d \<Rightarrow> Inr (d, \<lparr>px_id = x_id x, px_value = mb_value built, px_replayed = False\<rparr>, ev # evs)))))"

definition premise_mutation_fresh ::
  "env \<Rightarrow> string \<Rightarrow> service_context \<Rightarrow> (db \<Rightarrow> premise_basis \<Rightarrow> err + mutation_build) \<Rightarrow> prepared_idempotency option \<Rightarrow> int \<Rightarrow>
    db \<Rightarrow> err + db \<times> premise_record \<times> event list" where
  "premise_mutation_fresh env tid ctx build identity now d =
     (let tenantId = tenant_of ctx in
      case getTaskPremiseState tid tenantId d of Inl e \<Rightarrow> Inl e
      | Inr None \<Rightarrow> Inl (Refused ''Task has no motivating premise'' [tid])
      | Inr (Some st) \<Rightarrow>
        (case callerPrincipal env tenantId ctx now d of Inl e \<Rightarrow> Inl e | Inr (d, p) \<Rightarrow>
         (let b = \<lparr>ba_tenantId = tenantId, ba_now = now, ba_principal = p, ba_state = st\<rparr> in
          case build d b of Inl e \<Rightarrow> Inl e
          | Inr built \<Rightarrow> write_premise_record env tid tenantId (actor_of ctx) identity b built d)))"

definition replay_premise_record :: "string \<Rightarrow> idempotency_record \<Rightarrow> db \<Rightarrow> err + premise_record" where
  "replay_premise_record tenantId prior d =
     (case find (\<lambda>x. x_tenantId x = tenantId \<and> x_id x = ik_resultId prior) (externalRefs d) of
        None \<Rightarrow> Inl (Refused ''Idempotency record points at missing premise record'' [ik_resultId prior])
      | Some x \<Rightarrow> (case parseRef x of Inl e \<Rightarrow> Inl e
          | Inr x \<Rightarrow> Inr \<lparr>px_id = x_id x, px_value = x_metadata x, px_replayed = True\<rparr>))"

definition premise_mutationTx ::
  "env \<Rightarrow> string \<Rightarrow> service_context \<Rightarrow> (db \<Rightarrow> premise_basis \<Rightarrow> err + mutation_build) \<Rightarrow> prepared_idempotency option \<Rightarrow> int \<Rightarrow>
    db \<Rightarrow> err + db \<times> premise_record \<times> event list" where
  "premise_mutationTx env tid ctx build identity now d0 = (case findIdempotencyResult identity d0 of Inl e \<Rightarrow> Inl e
      | Inr (d, Some prior) \<Rightarrow>
          (case replay_premise_record (tenant_of ctx) prior d of Inl e \<Rightarrow> Inl e | Inr r \<Rightarrow> Inr (d, r, []))
      | Inr (d, None) \<Rightarrow> premise_mutation_fresh env tid ctx build identity now d)"

definition appendPremiseMutation ::
  "env \<Rightarrow> string \<Rightarrow> string \<Rightarrow> json option \<Rightarrow> service_context \<Rightarrow> (db \<Rightarrow> premise_basis \<Rightarrow> err + mutation_build) \<Rightarrow> db \<Rightarrow>
    db \<times> (err + premise_record)" where
  "appendPremiseMutation env tid operation request ctx build =
     (let tenantId = tenant_of ctx in
      prologue (case request of None \<Rightarrow> Inl (InvalidInput operation) | Some request \<Rightarrow>
          (case serviceNow ctx of Inl e \<Rightarrow> Inl e | Inr now \<Rightarrow>
          (case premise_retry env ctx tenantId operation (JObj [(''taskId'', JStr tid), (''request'', request)]) now of
             Inl e \<Rightarrow> Inl e | Inr identity \<Rightarrow> Inr (now, identity))))
        (\<lambda>(now, identity). runInTransaction (premise_mutationTx env tid ctx build identity now)))"

text \<open>\<open>proposeTaskPremise\<close>.\<close>

record premise_proposal_input =
  qp_verdict :: premise_verdict
  qp_evidenceIds :: "string list"
  qp_rationale :: string

definition parse_proposal_input :: "premise_proposal_input \<Rightarrow> premise_proposal_input option" where
  "parse_proposal_input i = (case (EvidenceIds (qp_evidenceIds i), premise_text (qp_rationale i)) of
     (Some ids, Some rationale) \<Rightarrow> Some (i\<lparr>qp_evidenceIds := ids, qp_rationale := rationale\<rparr>) | _ \<Rightarrow> None)"

definition proposal_input_json :: "premise_proposal_input \<Rightarrow> json" where
  "proposal_input_json i = JObj [(''verdict'', JStr (premise_verdict_text (qp_verdict i))),
     (''evidenceIds'', str_array (qp_evidenceIds i)), (''rationale'', JStr (qp_rationale i))]"

definition not_invalidated :: "premise_basis \<Rightarrow> err + unit" where
  "not_invalidated b = (if ps_invalidation (ba_state b) \<noteq> None
     then Inl (Refused ''Task premise is already invalidated'' []) else Inr ())"

definition build_proposal :: "string \<Rightarrow> premise_proposal_input \<Rightarrow> db \<Rightarrow> premise_basis \<Rightarrow> err + mutation_build" where
  "build_proposal tid i d b =
     (case not_invalidated b of Inl e \<Rightarrow> Inl e | Inr _ \<Rightarrow>
     (case requireEvidence tid (ba_tenantId b) (qp_evidenceIds i) d of Inl e \<Rightarrow> Inl e | Inr _ \<Rightarrow>
     (case parse_premise_proposal \<lparr>pp_taskId = tid, pp_premiseId = ps_premiseId (ba_state b), pp_verdict = qp_verdict i,
             pp_evidenceIds = qp_evidenceIds i, pp_rationale = qp_rationale i,
             pp_proposedByPrincipalId = p_id (ba_principal b), pp_proposedAt = ba_now b\<rparr> of
        None \<Rightarrow> Inl (InvalidInput ''TaskPremiseProposal'')
      | Some v \<Rightarrow> Inr \<lparr>mb_resourceType = TASK_PREMISE_PROPOSAL_URI, mb_value = premise_proposal_json v,
          mb_status = ''proposed'', mb_eventType = ''premise_resolution_proposed'', mb_invalidate = None\<rparr>)))"

definition proposeTaskPremise ::
  "env \<Rightarrow> string \<Rightarrow> premise_proposal_input \<Rightarrow> service_context \<Rightarrow> db \<Rightarrow> db \<times> (err + premise_record)" where
  "proposeTaskPremise env tid input ctx = (let parsed = parse_proposal_input input in
     appendPremiseMutation env tid ''premise.propose'' (map_option proposal_input_json parsed) ctx
       (build_proposal tid (the parsed)))"

text \<open>\<open>challengeTaskPremise\<close>.\<close>

record premise_challenge_input =
  qc_proposalId :: string
  qc_counterEvidenceIds :: "string list"
  qc_rationale :: string

definition parse_challenge_input :: "premise_challenge_input \<Rightarrow> premise_challenge_input option" where
  "parse_challenge_input i = (case (EvidenceIds (qc_counterEvidenceIds i), premise_text (qc_rationale i)) of
     (Some ids, Some rationale) \<Rightarrow>
       if qc_proposalId i \<noteq> [] then Some (i\<lparr>qc_counterEvidenceIds := ids, qc_rationale := rationale\<rparr>) else None
   | _ \<Rightarrow> None)"

definition challenge_input_json :: "premise_challenge_input \<Rightarrow> json" where
  "challenge_input_json i = JObj [(''proposalId'', JStr (qc_proposalId i)),
     (''counterEvidenceIds'', str_array (qc_counterEvidenceIds i)), (''rationale'', JStr (qc_rationale i))]"

definition find_proposal :: "string \<Rightarrow> task_premise_state \<Rightarrow> err + string \<times> premise_proposal" where
  "find_proposal i st = (case find (\<lambda>item. fst item = i) (ps_proposals st) of
      None \<Rightarrow> Inl (Refused ''Premise proposal not found for task'' [i]) | Some item \<Rightarrow> Inr item)"

definition decided :: "string \<Rightarrow> task_premise_state \<Rightarrow> bool" where
  "decided i st \<longleftrightarrow> list_ex (\<lambda>item. pd_proposalId (snd item) = i) (ps_decisions st)"

definition build_challenge :: "string \<Rightarrow> premise_challenge_input \<Rightarrow> db \<Rightarrow> premise_basis \<Rightarrow> err + mutation_build" where
  "build_challenge tid i d b =
     (case not_invalidated b of Inl e \<Rightarrow> Inl e | Inr _ \<Rightarrow>
     (case find_proposal (qc_proposalId i) (ba_state b) of Inl e \<Rightarrow> Inl e | Inr item \<Rightarrow>
      if decided (fst item) (ba_state b) then Inl (Refused ''Decided premise proposals are terminal'' [])
      else case requireEvidence tid (ba_tenantId b) (qc_counterEvidenceIds i) d of Inl e \<Rightarrow> Inl e | Inr _ \<Rightarrow>
     (case parse_premise_challenge \<lparr>pc_taskId = tid, pc_premiseId = ps_premiseId (ba_state b),
             pc_proposalId = qc_proposalId i, pc_counterEvidenceIds = qc_counterEvidenceIds i,
             pc_rationale = qc_rationale i, pc_challengedByPrincipalId = p_id (ba_principal b),
             pc_challengedAt = ba_now b\<rparr> of
        None \<Rightarrow> Inl (InvalidInput ''TaskPremiseChallenge'')
      | Some v \<Rightarrow> Inr \<lparr>mb_resourceType = TASK_PREMISE_CHALLENGE_URI, mb_value = premise_challenge_json v,
          mb_status = ''challenged'', mb_eventType = ''premise_resolution_challenged'', mb_invalidate = None\<rparr>)))"

definition challengeTaskPremise ::
  "env \<Rightarrow> string \<Rightarrow> premise_challenge_input \<Rightarrow> service_context \<Rightarrow> db \<Rightarrow> db \<times> (err + premise_record)" where
  "challengeTaskPremise env tid input ctx = (let parsed = parse_challenge_input input in
     appendPremiseMutation env tid ''premise.challenge'' (map_option challenge_input_json parsed) ctx
       (build_challenge tid (the parsed)))"

text \<open>\<open>decideTaskPremise\<close>.\<close>

record premise_decision_input =
  qd_proposalId :: string
  qd_outcome :: premise_outcome
  qd_rationale :: string

definition parse_decision_input :: "premise_decision_input \<Rightarrow> premise_decision_input option" where
  "parse_decision_input i = (case premise_text (qd_rationale i) of None \<Rightarrow> None
     | Some rationale \<Rightarrow> if qd_proposalId i \<noteq> [] then Some (i\<lparr>qd_rationale := rationale\<rparr>) else None)"

definition decision_input_json :: "premise_decision_input \<Rightarrow> json" where
  "decision_input_json i = JObj [(''proposalId'', JStr (qd_proposalId i)),
     (''outcome'', JStr (premise_outcome_text (qd_outcome i))), (''rationale'', JStr (qd_rationale i))]"

definition challenges_of :: "string \<Rightarrow> task_premise_state \<Rightarrow> (string \<times> premise_challenge) list" where
  "challenges_of i st = filter (\<lambda>item. pc_proposalId (snd item) = i) (ps_challenges st)"

text \<open>Who may decide a proposal, and how.\<close>

definition decider_guard :: "task_premise \<Rightarrow> premise_proposal \<Rightarrow> bool \<Rightarrow> premise_outcome \<Rightarrow> string \<Rightarrow> err + unit" where
  "decider_guard premise proposal challenged outcome pid =
     (let isValidator = pid \<in> set (tp_eligibleValidatorPrincipalIds premise);
          isAdjudicator = pid \<in> set (tp_adjudicatorPrincipalIds premise) in
      if \<not> isValidator \<and> \<not> isAdjudicator then Inl (Refused ''Principal is not eligible to decide premise'' [pid])
      else if \<not> tp_allowSelfValidation premise \<and> pp_proposedByPrincipalId proposal = pid
      then Inl (Refused ''Premise proposer cannot validate their own proposal'' [])
      else if challenged \<and> outcome = PremiseAccepted \<and> \<not> isAdjudicator
      then Inl (Refused ''A challenged premise proposal requires a named adjudicator'' [])
      else Inr ())"

definition decision_value ::
  "string \<Rightarrow> premise_decision_input \<Rightarrow> string \<times> premise_proposal \<Rightarrow> premise_basis \<Rightarrow> premise_decision" where
  "decision_value tid i item b =
     (let chs = challenges_of (fst item) (ba_state b) in
      \<lparr>pd_taskId = tid, pd_premiseId = ps_premiseId (ba_state b), pd_proposalId = fst item, pd_outcome = qd_outcome i,
       pd_challengeIds = sort (map fst chs),
       pd_evidenceIds = sorted_ids (pp_evidenceIds (snd item) @ concat (map (\<lambda>c. pc_counterEvidenceIds (snd c)) chs)),
       pd_rationale = qd_rationale i, pd_decidedByPrincipalId = p_id (ba_principal b), pd_decidedAt = ba_now b\<rparr>)"

definition build_decision :: "string \<Rightarrow> premise_decision_input \<Rightarrow> db \<Rightarrow> premise_basis \<Rightarrow> err + mutation_build" where
  "build_decision tid i d b =
     (case not_invalidated b of Inl e \<Rightarrow> Inl e | Inr _ \<Rightarrow>
     (case find_proposal (qd_proposalId i) (ba_state b) of Inl e \<Rightarrow> Inl e | Inr item \<Rightarrow>
      if decided (fst item) (ba_state b) then Inl (Refused ''Premise proposal already has a decision'' [])
      else case decider_guard (ps_premise (ba_state b)) (snd item) (challenges_of (fst item) (ba_state b) \<noteq> [])
             (qd_outcome i) (p_id (ba_principal b)) of Inl e \<Rightarrow> Inl e | Inr _ \<Rightarrow>
     (case parse_premise_decision (decision_value tid i item b) of
        None \<Rightarrow> Inl (InvalidInput ''TaskPremiseDecision'')
      | Some v \<Rightarrow> Inr \<lparr>mb_resourceType = TASK_PREMISE_DECISION_URI, mb_value = premise_decision_json v,
          mb_status = premise_outcome_text (qd_outcome i), mb_eventType = ''premise_resolution_decided'',
          mb_invalidate = (if qd_outcome i = PremiseAccepted \<and> pp_verdict (snd item) = Refute
            then Some (fst item, qd_rationale i) else None)\<rparr>)))"

definition decideTaskPremise ::
  "env \<Rightarrow> string \<Rightarrow> premise_decision_input \<Rightarrow> service_context \<Rightarrow> db \<Rightarrow> db \<times> (err + premise_record)" where
  "decideTaskPremise env tid input ctx = (let parsed = parse_decision_input input in
     appendPremiseMutation env tid ''premise.decide'' (map_option decision_input_json parsed) ctx
       (build_decision tid (the parsed)))"

end
