(* ===== verification/Premise_State.thy ===== *)
theory Premise_State
  imports Premises
begin

text \<open>
  What the premise service (\<open>packages/tasq-core/src/service/premises.ts\<close>) guarantees: a record it wrote is
  read back as it was, the records of a commitment stay bound to each other through every operation, a
  decision is taken by someone entitled to it, and an accepted refutation stops the work.
\<close>

section \<open>Reading back\<close>

lemma js_trim_ends: "js_trim s = [] \<or> (\<not> js_space (hd (js_trim s)) \<and> \<not> js_space (last (js_trim s)))"
proof (cases "js_trim s = []")
  case False
  let ?u = "dropWhile js_space s"
  have r: "js_trim s = rev (dropWhile js_space (rev ?u))" by (simp add: js_trim_def)
  with False have n: "dropWhile js_space (rev ?u) \<noteq> []" by simp
  then have u: "?u \<noteq> []" by (metis dropWhile.simps(1) rev.simps(1))
  have last: "\<not> js_space (last (js_trim s))"
    using hd_dropWhile [OF n] n by (simp add: r last_rev)
  obtain ys where ys: "rev ?u = ys @ dropWhile js_space (rev ?u)" by (metis takeWhile_dropWhile_id)
  then have "?u = js_trim s @ rev ys" by (metis r rev_append rev_rev_ident)
  then have "hd ?u = hd (js_trim s)" using False by (metis hd_append2)
  with hd_dropWhile [OF u] last show ?thesis by simp
qed simp

lemma js_trim_id: "s = [] \<or> (\<not> js_space (hd s) \<and> \<not> js_space (last s)) \<Longrightarrow> js_trim s = s"
proof (cases "s = []")
  case False
  assume "s = [] \<or> (\<not> js_space (hd s) \<and> \<not> js_space (last s))"
  with False have e: "\<not> js_space (hd s)" "\<not> js_space (hd (rev s))" by (simp_all add: hd_rev)
  have id: "xs \<noteq> [] \<Longrightarrow> \<not> js_space (hd xs) \<Longrightarrow> dropWhile js_space xs = xs" for xs by (cases xs) auto
  show ?thesis using id [OF False e(1)] id [of "rev s"] False e(2) by (simp add: js_trim_def)
qed (simp add: js_trim_def)

lemma js_trim_idem [simp]: "js_trim (js_trim s) = js_trim s"
  by (rule js_trim_id [OF js_trim_ends])

lemma premise_text_again: "premise_text s = Some t \<Longrightarrow> premise_text t = Some t"
  by (auto simp: premise_text_def split: if_splits)

lemma sorted_ids_again: "sorted_ids (sorted_ids ids) = sorted_ids ids"
  by (simp add: sorted_ids_def distinct_remdups_id sort_key_id_if_sorted)

lemma set_sorted_ids [simp]: "set (sorted_ids ids) = set ids"
  by (simp add: sorted_ids_def)

lemma length_sorted_ids: "length (sorted_ids ids) \<le> length ids"
  by (simp add: sorted_ids_def length_remdups_leq)

lemma PrincipalIds_again: "PrincipalIds ids = Some vs \<Longrightarrow> PrincipalIds vs = Some vs"
  using length_sorted_ids [of ids]
  by (auto simp: PrincipalIds_def list_all_iff sorted_ids_again split: if_splits)

lemma EvidenceIds_again: "EvidenceIds ids = Some vs \<Longrightarrow> EvidenceIds vs = Some vs"
proof -
  assume a: "EvidenceIds ids = Some vs"
  then have "set vs = set ids" "ids \<noteq> []" "vs = sorted_ids ids" by (auto simp: EvidenceIds_def split: if_splits)
  then have "vs \<noteq> []" by (metis set_empty)
  then show ?thesis using a length_sorted_ids [of ids]
    by (auto simp: EvidenceIds_def list_all_iff sorted_ids_again Suc_le_eq split: if_splits)
qed

lemmas again = premise_text_again PrincipalIds_again EvidenceIds_again

lemma parse_task_premise_again:
  assumes "parse_task_premise p = Some p'" shows "parse_task_premise p' = Some p'"
proof -
  obtain t vs adj where "premise_text (tp_proposition p) = Some t" "PrincipalIds (tp_eligibleValidatorPrincipalIds p) = Some vs"
    "PrincipalIds (tp_adjudicatorPrincipalIds p) = Some adj"
    using assms by (auto simp: parse_task_premise_def split: option.splits)
  note t = this again(1) [OF this(1)] again(2) [OF this(2)] again(2) [OF this(3)]
  show ?thesis using assms by (auto simp: parse_task_premise_def t split: if_splits)
qed

lemma parse_premise_proposal_again:
  assumes "parse_premise_proposal p = Some p'" shows "parse_premise_proposal p' = Some p'"
proof -
  obtain t ids where "premise_text (pp_rationale p) = Some t" "EvidenceIds (pp_evidenceIds p) = Some ids"
    using assms by (auto simp: parse_premise_proposal_def split: option.splits)
  note t = this again(1) [OF this(1)] again(3) [OF this(2)]
  show ?thesis using assms by (auto simp: parse_premise_proposal_def t split: if_splits)
qed

lemma parse_premise_challenge_again:
  assumes "parse_premise_challenge p = Some p'" shows "parse_premise_challenge p' = Some p'"
proof -
  obtain t ids where "premise_text (pc_rationale p) = Some t" "EvidenceIds (pc_counterEvidenceIds p) = Some ids"
    using assms by (auto simp: parse_premise_challenge_def split: option.splits)
  note t = this again(1) [OF this(1)] again(3) [OF this(2)]
  show ?thesis using assms by (auto simp: parse_premise_challenge_def t split: if_splits)
qed

lemma parse_premise_decision_again:
  assumes "parse_premise_decision p = Some p'" shows "parse_premise_decision p' = Some p'"
proof -
  obtain t ids where "premise_text (pd_rationale p) = Some t" "EvidenceIds (pd_evidenceIds p) = Some ids"
    using assms by (auto simp: parse_premise_decision_def split: option.splits)
  note t = this again(1) [OF this(1)] again(3) [OF this(2)]
  show ?thesis using assms by (auto simp: parse_premise_decision_def t split: if_splits)
qed

lemma parse_premise_invalidation_again:
  assumes "parse_premise_invalidation p = Some p'" shows "parse_premise_invalidation p' = Some p'"
proof -
  obtain t where "premise_text (pv_reason p) = Some t"
    using assms by (auto simp: parse_premise_invalidation_def split: option.splits)
  note t = this again(1) [OF this]
  show ?thesis using assms by (auto simp: parse_premise_invalidation_def t split: if_splits)
qed

text \<open>The order of the entries does not matter to a reader.\<close>

lemma obj_get_sorted:
  assumes "distinct (map fst m)" and "\<forall>(k, v) \<in> set m. v \<noteq> JUndef"
  shows "obj_get (sorted_entries m) k = obj_get m k"
proof -
  have f: "filter (\<lambda>(k, v). v \<noteq> JUndef) m = m" using assms(2) by (auto simp: filter_id_conv)
  have "map_of (sorted_entries m) = map_of m"
  proof (rule map_of_inject_set [THEN iffD2])
    have "mset (map fst (sort_key fst m)) = mset (map fst m)" by simp
    then show "distinct (map fst (sorted_entries m))" using assms(1) unfolding sorted_entries_def f
      by (metis distinct_count_atmost_1 mset_eq_imp_distinct_iff)
  qed (use assms(1) in \<open>auto simp: sorted_entries_def f\<close>)
  then show ?thesis by (simp add: obj_get_def)
qed

lemma json_strs_map [simp]: "json_strs (map JStr xs) = Some xs"
  by (induction xs) auto

lemma str_list_array [simp]: "str_list (str_array xs) = Some xs"
  by (simp add: str_list_def str_array_def)

lemma scalar_readers [simp]:
  "json_str (JStr s) = Some s" "json_num (JInt n) = Some n" "json_bool (JBool b) = Some b"
  by (simp_all add: json_str_def json_num_def json_bool_def)

lemma verdict_of_text [simp]: "verdict_of (JStr (premise_verdict_text v)) = Some v"
  by (cases v) (simp_all add: verdict_of_def)

lemma outcome_of_text [simp]: "outcome_of (JStr (premise_outcome_text c)) = Some c"
  by (cases c) (simp_all add: outcome_of_def)

lemma defaulted_simps [simp]:
  "defaulted f x (str_array xs) = f (str_array xs)" "defaulted f x (JBool b) = f (JBool b)"
  by (simp_all add: defaulted_def str_array_def)

lemma obj_get_Cons [simp]: "obj_get ((k, v) # m) k' = (if k = k' then v else obj_get m k')"
  by (simp add: obj_get_def)

lemma json_keys:
  "distinct (map fst (task_premise_json p)) \<and> (\<forall>(k, v) \<in> set (task_premise_json p). v \<noteq> JUndef)"
  "distinct (map fst (premise_proposal_json q)) \<and> (\<forall>(k, v) \<in> set (premise_proposal_json q). v \<noteq> JUndef)"
  "distinct (map fst (premise_challenge_json c)) \<and> (\<forall>(k, v) \<in> set (premise_challenge_json c). v \<noteq> JUndef)"
  "distinct (map fst (premise_decision_json d)) \<and> (\<forall>(k, v) \<in> set (premise_decision_json d). v \<noteq> JUndef)"
  "distinct (map fst (premise_invalidation_json i)) \<and> (\<forall>(k, v) \<in> set (premise_invalidation_json i). v \<noteq> JUndef)"
  by (simp_all add: task_premise_json_def premise_proposal_json_def premise_challenge_json_def
      premise_decision_json_def premise_invalidation_json_def str_array_def)

lemmas stored_entry =
  obj_get_sorted [OF json_keys(1) [THEN conjunct1] json_keys(1) [THEN conjunct2]]
  obj_get_sorted [OF json_keys(2) [THEN conjunct1] json_keys(2) [THEN conjunct2]]
  obj_get_sorted [OF json_keys(3) [THEN conjunct1] json_keys(3) [THEN conjunct2]]
  obj_get_sorted [OF json_keys(4) [THEN conjunct1] json_keys(4) [THEN conjunct2]]
  obj_get_sorted [OF json_keys(5) [THEN conjunct1] json_keys(5) [THEN conjunct2]]

lemma read_task_premise_stored: "read_task_premise (sorted_entries (task_premise_json p)) = parse_task_premise p"
  unfolding read_task_premise_def stored_entry by (cases p) (simp add: task_premise_json_def)

lemma read_proposal_stored: "read_premise_proposal (sorted_entries (premise_proposal_json q)) = parse_premise_proposal q"
  unfolding read_premise_proposal_def stored_entry by (cases q) (simp add: premise_proposal_json_def)

lemma read_challenge_stored: "read_premise_challenge (sorted_entries (premise_challenge_json c)) = parse_premise_challenge c"
  unfolding read_premise_challenge_def stored_entry by (cases c) (simp add: premise_challenge_json_def)

lemma read_decision_stored: "read_premise_decision (sorted_entries (premise_decision_json v)) = parse_premise_decision v"
  unfolding read_premise_decision_def stored_entry by (cases v) (simp add: premise_decision_json_def)

lemma read_invalidation_stored:
  "read_premise_invalidation (sorted_entries (premise_invalidation_json w)) = parse_premise_invalidation w"
  unfolding read_premise_invalidation_def stored_entry by (cases w) (simp add: premise_invalidation_json_def)

lemmas read_stored = read_task_premise_stored read_proposal_stored read_challenge_stored read_decision_stored
  read_invalidation_stored

section \<open>The state as a view of the references\<close>

lemma map_parseRef: "map parseRef xs = map Inr ys \<longleftrightarrow> ys = xs \<and> (\<forall>x \<in> set xs. external_ref_ok x)"
proof (induction xs arbitrary: ys)
  case (Cons x xs) show ?case by (cases ys) (auto simp: Cons.IH res)
qed auto

definition ref_key :: "external_ref \<Rightarrow> int \<times> string" where
  "ref_key x = (x_createdAt x, x_id x)"

definition refs_of :: "string \<Rightarrow> string \<Rightarrow> string \<Rightarrow> db \<Rightarrow> external_ref list" where
  "refs_of rt tid tn d = sort_key ref_key (filter (\<lambda>x. x_resourceType x = rt \<and> premise_ref_of tid tn x) (externalRefs d))"

definition record_item :: "(metadata \<Rightarrow> 'a option) \<Rightarrow> external_ref \<Rightarrow> err + string \<times> 'a" where
  "record_item schema x = (case metadataFor schema x of Inl e \<Rightarrow> Inl e | Inr v \<Rightarrow> Inr (x_id x, v))"

lemma record_item_Inr [res]:
  "record_item schema x = Inr it \<longleftrightarrow> fst it = x_id x \<and> metadataFor schema x = Inr (snd it)"
  by (cases it) (auto simp: record_item_def res)

text \<open>The records of a type, in order.\<close>

definition records ::
  "(metadata \<Rightarrow> 'a option) \<Rightarrow> string \<Rightarrow> string \<Rightarrow> string \<Rightarrow> db \<Rightarrow> (string \<times> 'a) list \<Rightarrow> bool" where
  "records schema rt tid tn d its \<longleftrightarrow> map (record_item schema) (refs_of rt tid tn d) = map Inr its"

definition refs_ok :: "string \<Rightarrow> string \<Rightarrow> db \<Rightarrow> bool" where
  "refs_ok tid tn d \<longleftrightarrow> (\<forall>x \<in> set (externalRefs d). premise_ref_of tid tn x \<longrightarrow> external_ref_ok x)"

lemma refsForTask_Inr [res]:
  "refsForTask tid tn d = Inr refs \<longleftrightarrow>
    refs = sort_key ref_key (filter (premise_ref_of tid tn) (externalRefs d)) \<and> refs_ok tid tn d"
  by (simp add: refsForTask_def res map_parseRef refs_ok_def ref_key_def) (rule conj_cong, auto simp: ref_key_def [abs_def])

lemma filter_refs:
  "filter (\<lambda>x. x_resourceType x = rt) (sort_key ref_key (filter (premise_ref_of tid tn) (externalRefs d))) = refs_of rt tid tn d"
  by (simp add: refs_of_def filter_sort conj_commute)

lemma typed_items_Inr:
  "typed_items schema rt (sort_key ref_key (filter (premise_ref_of tid tn) (externalRefs d))) = Inr its \<longleftrightarrow>
    records schema rt tid tn d its"
  unfolding typed_items_def filter_refs records_def map_res_Inr by (simp add: record_item_def [abs_def])

lemma all_bound_Inr [res]: "all_bound w P its = Inr u \<longleftrightarrow> (\<forall>i \<in> set its. P i)"
  by (cases u) (auto simp: all_bound_def split: option.splits dest: find_SomeD find_NoneD)

definition opt_list :: "'a option \<Rightarrow> 'a list" where
  "opt_list x = (case x of None \<Rightarrow> [] | Some v \<Rightarrow> [v])"

lemma opt_list_simps [simp]: "opt_list None = []" "opt_list (Some v) = [v]"
  by (simp_all add: opt_list_def)

definition bindings_hold :: "string \<Rightarrow> task_premise_state \<Rightarrow> bool" where
  "bindings_hold tid st \<longleftrightarrow> tp_taskId (ps_premise st) = tid \<and>
     (\<forall>i \<in> set (ps_proposals st). proposal_bound tid (ps_premiseId st) i) \<and>
     (\<forall>i \<in> set (ps_challenges st). challenge_bound tid (ps_premiseId st) (ps_proposals st) i) \<and>
     (\<forall>i \<in> set (ps_decisions st). decision_bound tid (ps_premiseId st) (ps_proposals st) i) \<and>
     (\<forall>i \<in> set (opt_list (ps_invalidation st)). invalidation_bound tid (ps_premiseId st) (ps_proposals st) (ps_decisions st) i)"

definition premise_view :: "string \<Rightarrow> string \<Rightarrow> db \<Rightarrow> task_premise_state \<Rightarrow> bool" where
  "premise_view tid tn d st \<longleftrightarrow> getTask tid tn d = Inr (Some (ps_task st)) \<and> refs_ok tid tn d \<and>
     records read_task_premise TASK_PREMISE_URI tid tn d [(ps_premiseId st, ps_premise st)] \<and>
     records read_premise_proposal TASK_PREMISE_PROPOSAL_URI tid tn d (ps_proposals st) \<and>
     records read_premise_challenge TASK_PREMISE_CHALLENGE_URI tid tn d (ps_challenges st) \<and>
     records read_premise_decision TASK_PREMISE_DECISION_URI tid tn d (ps_decisions st) \<and>
     records read_premise_invalidation TASK_PREMISE_INVALIDATION_URI tid tn d (opt_list (ps_invalidation st)) \<and>
     bindings_hold tid st \<and> ps_actionable st = premise_actionable (ps_task st) (ps_invalidation st)"

lemma records_single:
  "records schema rt tid tn d [(i, v)] \<longleftrightarrow> (\<exists>x. refs_of rt tid tn d = [x] \<and> x_id x = i \<and> metadataFor schema x = Inr v)"
  by (auto simp: records_def map_eq_Cons_conv res)

lemma opt_list_of: "length its \<le> 1 \<Longrightarrow> opt_list (case its of [] \<Rightarrow> None | i # _ \<Rightarrow> Some i) = its"
  by (cases its) auto

lemma length_opt_list: "length (opt_list x) \<le> 1"
  by (cases x) auto

lemma read_premise_state_Inr:
  assumes "refs = sort_key ref_key (filter (premise_ref_of tid tn) (externalRefs d))"
  shows "read_premise_state tid t x refs = Inr st \<longleftrightarrow>
    records read_premise_proposal TASK_PREMISE_PROPOSAL_URI tid tn d (ps_proposals st) \<and>
    records read_premise_challenge TASK_PREMISE_CHALLENGE_URI tid tn d (ps_challenges st) \<and>
    records read_premise_decision TASK_PREMISE_DECISION_URI tid tn d (ps_decisions st) \<and>
    records read_premise_invalidation TASK_PREMISE_INVALIDATION_URI tid tn d (opt_list (ps_invalidation st)) \<and>
    metadataFor read_task_premise x = Inr (ps_premise st) \<and> ps_premiseId st = x_id x \<and> ps_task st = t \<and>
    bindings_hold tid st \<and> ps_actionable st = premise_actionable t (ps_invalidation st)" (is "?l \<longleftrightarrow> ?r")
proof
  assume ?l
  then show ?r unfolding read_premise_state_def assms typed_items_Inr res
    by (auto simp: bindings_hold_def Let_def opt_list_of not_less)
next
  assume r: ?r
  let ?i = "opt_list (ps_invalidation st)"
  have e: "(case ?i of [] \<Rightarrow> None | i # _ \<Rightarrow> Some i) = ps_invalidation st" by (cases "ps_invalidation st") auto
  show ?l unfolding read_premise_state_def assms typed_items_Inr res
    using r length_opt_list [of "ps_invalidation st"]
    by (intro exI [of _ "ps_proposals st"] exI [of _ "ps_challenges st"] exI [of _ "ps_decisions st"] exI [of _ ?i] conjI)
      (auto simp: bindings_hold_def Let_def e)
qed

lemma single_row [res]:
  "(case xs of [] \<Rightarrow> Inr None | [x] \<Rightarrow> f x | _ # _ # _ \<Rightarrow> Inl e) = Inr (Some y) \<longleftrightarrow> (\<exists>x. xs = [x] \<and> f x = Inr (Some y))"
  by (auto split: list.splits)

lemma getTaskPremiseState_view:
  "getTaskPremiseState tid tn d = Inr (Some st) \<longleftrightarrow> premise_view tid tn d st"
  unfolding getTaskPremiseState_def
  by (auto simp: filter_refs res read_premise_state_Inr [OF refl] premise_view_def records_single)

section \<open>Adding a reference\<close>

definition appended :: "db \<Rightarrow> external_ref \<Rightarrow> db \<Rightarrow> bool" where
  "appended d x d' \<longleftrightarrow> tasks d' = tasks d \<and> externalRefs d' = externalRefs d @ [x]"

lemma refs_of_frame: "externalRefs d' = externalRefs d \<Longrightarrow> refs_of rt tid tn d' = refs_of rt tid tn d"
  by (simp add: refs_of_def)

lemma refs_of_other:
  "appended d x d' \<Longrightarrow> x_resourceType x \<noteq> rt \<or> \<not> premise_ref_of tid tn x \<Longrightarrow> refs_of rt tid tn d' = refs_of rt tid tn d"
  by (auto simp: refs_of_def appended_def)

lemma set_refs_of:
  "set (refs_of rt tid tn d) = {x \<in> set (externalRefs d). x_resourceType x = rt \<and> premise_ref_of tid tn x}"
  by (auto simp: refs_of_def)

lemma set_refs_of_new:
  "appended d x d' \<Longrightarrow> x_resourceType x = rt \<Longrightarrow> premise_ref_of tid tn x \<Longrightarrow>
    set (refs_of rt tid tn d') = insert x (set (refs_of rt tid tn d))"
  by (auto simp: set_refs_of appended_def)

lemma records_ex:
  assumes "\<And>x. x \<in> set (refs_of rt tid tn d) \<Longrightarrow> \<exists>v. metadataFor schema x = Inr v"
  shows "\<exists>its. records schema rt tid tn d its"
proof -
  have "\<exists>its. map (record_item schema) xs = map Inr its" if "\<forall>x \<in> set xs. \<exists>v. metadataFor schema x = Inr v" for xs
    using that
  proof (induction xs)
    case (Cons x xs)
    then obtain v its where "metadataFor schema x = Inr v" "map (record_item schema) xs = map Inr its" by auto
    then show ?case by (intro exI [of _ "(x_id x, v) # its"]) (simp add: res)
  qed simp
  with assms show ?thesis by (auto simp: records_def)
qed

lemma in_records:
  assumes "records schema rt tid tn d its"
  shows "(i, v) \<in> set its \<longleftrightarrow> (\<exists>x \<in> set (refs_of rt tid tn d). x_id x = i \<and> metadataFor schema x = Inr v)"
proof -
  have "(i, v) \<in> set its \<longleftrightarrow> (\<exists>y \<in> set (map (record_item schema) (refs_of rt tid tn d)). y = Inr (i, v))"
    using assms unfolding records_def by (simp add: image_iff)
  then show ?thesis unfolding set_map bex_simps(7) record_item_Inr by (simp add: conj_commute eq_commute)
qed

lemma records_all:
  assumes "records schema rt tid tn d its" and "x \<in> set (refs_of rt tid tn d)"
  shows "\<exists>v. metadataFor schema x = Inr v"
proof -
  have "record_item schema x \<in> set (map Inr its)" using assms unfolding records_def by (metis imageI set_map)
  then show ?thesis by (auto simp: res dest: sym)
qed

lemma records_add:
  assumes "records schema rt tid tn d its" and "appended d x d'" and "x_resourceType x = rt" and "premise_ref_of tid tn x"
    and "metadataFor schema x = Inr v"
  obtains its' where "records schema rt tid tn d' its'" "set its' = insert (x_id x, v) (set its)"
proof -
  note new = set_refs_of_new [OF assms(2-4)]
  obtain its' where its': "records schema rt tid tn d' its'"
    using records_ex [of rt tid tn d' schema] records_all [OF assms(1)] assms(5) unfolding new by auto
  have "set its' = insert (x_id x, v) (set its)"
  proof (rule set_eqI)
    fix p show "p \<in> set its' \<longleftrightarrow> p \<in> insert (x_id x, v) (set its)"
      using assms(5) by (cases p) (auto simp: in_records [OF its'] in_records [OF assms(1)] new)
  qed
  with its' show thesis by (rule that)
qed

lemma records_frame: "externalRefs d' = externalRefs d \<Longrightarrow> records schema rt tid tn d' = records schema rt tid tn d"
  by (simp add: records_def [abs_def] refs_of_def)

lemma records_other:
  "appended d x d' \<Longrightarrow> x_resourceType x \<noteq> rt \<or> \<not> premise_ref_of tid tn x \<Longrightarrow>
    records schema rt tid tn d' = records schema rt tid tn d"
  by (simp add: records_def [abs_def] refs_of_other)

lemma records_distinct:
  assumes "records schema rt tid tn d its" and "uniq_by x_id (externalRefs d)"
  shows "distinct (map fst its)"
proof -
  have "map x_id xs = map fst its'" if "map (record_item schema) xs = map Inr its'" for xs its'
    using that by (induction xs arbitrary: its') (auto simp: res map_eq_Cons_conv Cons_eq_map_conv)
  then have e: "map fst its = map x_id (refs_of rt tid tn d)" using assms(1) by (simp add: records_def)
  have "mset (map x_id (refs_of rt tid tn d)) =
      mset (map x_id (filter (\<lambda>x. x_resourceType x = rt \<and> premise_ref_of tid tn x) (externalRefs d)))"
    by (simp add: refs_of_def)
  then show ?thesis unfolding e using assms(2) mset_eq_imp_distinct_iff distinct_map_filter
    unfolding uniq_by_def by blast
qed

lemma refs_ok_add: "refs_ok tid tn d \<Longrightarrow> appended d x d' \<Longrightarrow> external_ref_ok x \<Longrightarrow> refs_ok tid tn d'"
  by (auto simp: refs_ok_def appended_def)

lemma getTask_frame: "tasks d' = tasks d \<Longrightarrow> getTask tid tn d' = getTask tid tn d"
  by (simp add: getTask_def task_row_def)

lemma view_frame:
  "tasks d' = tasks d \<Longrightarrow> externalRefs d' = externalRefs d \<Longrightarrow> premise_view tid tn d' st = premise_view tid tn d st"
  by (simp add: premise_view_def getTask_frame [of d' d] records_frame [of d' d] refs_ok_def)

lemma view_other:
  assumes "premise_view tid tn d st" and "appended d x d'" and "\<not> premise_ref_of tid tn x"
  shows "premise_view tid tn d' st"
proof -
  have "refs_ok tid tn d'" using assms by (auto simp: refs_ok_def appended_def premise_view_def)
  with assms show ?thesis by (simp add: premise_view_def records_other [OF assms(2)] getTask_frame [of d' d] appended_def)
qed

lemma view_add_proposal:
  assumes v: "premise_view tid tn d st" "ps_invalidation st = None" and x: "appended d x d'" "x_resourceType x = TASK_PREMISE_PROPOSAL_URI"
      "premise_ref_of tid tn x" "external_ref_ok x" "metadataFor read_premise_proposal x = Inr p"
    and "proposal_bound tid (ps_premiseId st) (x_id x, p)"
  obtains props where "premise_view tid tn d' (st\<lparr>ps_proposals := props\<rparr>)" "set props = insert (x_id x, p) (set (ps_proposals st))"
proof -
  obtain props where r: "records read_premise_proposal TASK_PREMISE_PROPOSAL_URI tid tn d' props"
    and s: "set props = insert (x_id x, p) (set (ps_proposals st))"
    using records_add [OF _ x(1-3) x(5)] v(1) unfolding premise_view_def by blast
  have "bindings_hold tid (st\<lparr>ps_proposals := props\<rparr>)" using v assms(8)
    by (auto simp: premise_view_def bindings_hold_def s challenge_bound_def decision_bound_def known_proposal_def)
  with v r x(1,2,4) refs_ok_add [OF _ x(1,4)] premise_uris(2) s show thesis
    by (intro that [of props]) (auto simp: premise_view_def records_other [OF x(1)] getTask_frame [of d' d] appended_def)
qed

lemma view_add_challenge:
  assumes v: "premise_view tid tn d st" "ps_invalidation st = None" and x: "appended d x d'" "x_resourceType x = TASK_PREMISE_CHALLENGE_URI"
      "premise_ref_of tid tn x" "external_ref_ok x" "metadataFor read_premise_challenge x = Inr p"
    and "challenge_bound tid (ps_premiseId st) (ps_proposals st) (x_id x, p)"
  obtains chals where "premise_view tid tn d' (st\<lparr>ps_challenges := chals\<rparr>)" "set chals = insert (x_id x, p) (set (ps_challenges st))"
proof -
  obtain chals where r: "records read_premise_challenge TASK_PREMISE_CHALLENGE_URI tid tn d' chals"
    and s: "set chals = insert (x_id x, p) (set (ps_challenges st))"
    using records_add [OF _ x(1-3) x(5)] v(1) unfolding premise_view_def by blast
  have "bindings_hold tid (st\<lparr>ps_challenges := chals\<rparr>)" using v assms(8)
    by (auto simp: premise_view_def bindings_hold_def s)
  with v r x(1,2,4) refs_ok_add [OF _ x(1,4)] premise_uris(2) s show thesis
    by (intro that [of chals]) (auto simp: premise_view_def records_other [OF x(1)] getTask_frame [of d' d] appended_def)
qed

lemma view_add_decision:
  assumes v: "premise_view tid tn d st" "ps_invalidation st = None" and x: "appended d x d'" "x_resourceType x = TASK_PREMISE_DECISION_URI"
      "premise_ref_of tid tn x" "external_ref_ok x" "metadataFor read_premise_decision x = Inr p"
    and "decision_bound tid (ps_premiseId st) (ps_proposals st) (x_id x, p)"
  obtains decs where "premise_view tid tn d' (st\<lparr>ps_decisions := decs\<rparr>)" "set decs = insert (x_id x, p) (set (ps_decisions st))"
proof -
  obtain decs where r: "records read_premise_decision TASK_PREMISE_DECISION_URI tid tn d' decs"
    and s: "set decs = insert (x_id x, p) (set (ps_decisions st))"
    using records_add [OF _ x(1-3) x(5)] v(1) unfolding premise_view_def by blast
  have "bindings_hold tid (st\<lparr>ps_decisions := decs\<rparr>)" using v assms(8)
    by (auto simp: premise_view_def bindings_hold_def s)
  with v r x(1,2,4) refs_ok_add [OF _ x(1,4)] premise_uris(2) s show thesis
    by (intro that [of decs]) (auto simp: premise_view_def records_other [OF x(1)] getTask_frame [of d' d] appended_def)
qed

lemma view_add_invalidation:
  assumes v: "premise_view tid tn d st" "ps_invalidation st = None" and x: "appended d x d'" "x_resourceType x = TASK_PREMISE_INVALIDATION_URI"
      "premise_ref_of tid tn x" "external_ref_ok x" "metadataFor read_premise_invalidation x = Inr p"
    and "invalidation_bound tid (ps_premiseId st) (ps_proposals st) (ps_decisions st) (x_id x, p)"
  shows "premise_view tid tn d' (st\<lparr>ps_invalidation := Some (x_id x, p), ps_actionable := False\<rparr>)"
proof -
  have "refs_of TASK_PREMISE_INVALIDATION_URI tid tn d = []" using v by (simp add: premise_view_def records_def)
  then have "filter (\<lambda>x. x_resourceType x = TASK_PREMISE_INVALIDATION_URI \<and> premise_ref_of tid tn x) (externalRefs d) = []"
    using set_refs_of [of TASK_PREMISE_INVALIDATION_URI tid tn d] by (simp add: filter_empty_conv)
  then have "refs_of TASK_PREMISE_INVALIDATION_URI tid tn d' = [x]" using x(1-3) by (simp add: refs_of_def appended_def)
  then have r: "records read_premise_invalidation TASK_PREMISE_INVALIDATION_URI tid tn d' [(x_id x, p)]"
    using x(5) by (simp add: records_single)
  have "bindings_hold tid (st\<lparr>ps_invalidation := Some (x_id x, p), ps_actionable := False\<rparr>)" using v assms(8)
    by (auto simp: premise_view_def bindings_hold_def)
  with v r x(1,2,4) refs_ok_add [OF _ x(1,4)] premise_uris(2) show ?thesis
    by (auto simp: premise_view_def records_other [OF x(1)] getTask_frame [of d' d] appended_def premise_actionable_def)
qed

section \<open>What a mutation writes\<close>

lemma premise_ref_of_typed [simp]:
  "premise_ref_of tid tn (typed_ref env xid tn' tid' rt v pid now) \<longleftrightarrow>
    tn' = tn \<and> tid' = tid \<and> rt \<in> set RESERVED_TASK_PREMISE_RESOURCE_TYPES"
  by (auto simp: premise_ref_of_def typed_ref_def)

lemma typed_ref_simps [simp]:
  "x_id (typed_ref env xid tn tid rt v pid now) = xid" "x_resourceType (typed_ref env xid tn tid rt v pid now) = rt"
  "x_metadata (typed_ref env xid tn tid rt v pid now) = sorted_entries v"
  by (simp_all add: typed_ref_def)

lemma insertTypedRef_result:
  assumes "insertTypedRef env tn tid rt v pid now d = Inr (d', x)"
  shows "\<exists>k. d' = d\<lparr>draws := k, externalRefs := externalRefs d @ [x]\<rparr>"
    and "x = typed_ref env (x_id x) tn tid rt v pid now" and "external_ref_ok x"
    and "\<forall>y \<in> set (externalRefs d). x_id y \<noteq> x_id x"
proof -
  let ?i = "uuid env (draws d) now" and ?d = "d\<lparr>draws := draws d + 1\<rparr>"
  let ?r = "typed_ref env ?i tn tid rt v pid now"
  obtain d1 where i: "insert_external_ref ?r ?d = Inr d1" and f: "find (\<lambda>x. x_id x = ?i) (externalRefs d1) = Some x"
    and ok: "external_ref_ok x" and d': "d' = d1"
    using assms unfolding insertTypedRef_def fresh_id_def by (auto simp: Let_def res)
  have u: "\<forall>y \<in> set (externalRefs d). x_id y \<noteq> ?i" and d1: "d1 = ?d\<lparr>externalRefs := externalRefs d @ [?r]\<rparr>"
    using i by (auto simp: insert_external_ref_def res)
  have "find (\<lambda>x. x_id x = ?i) (externalRefs d) = None" using u by (auto simp: find_None_iff)
  with f d1 have x: "x = ?r" by (simp add: find_append)
  show "\<exists>k. d' = d\<lparr>draws := k, externalRefs := externalRefs d @ [x]\<rparr>"
    using d1 d' x by (intro exI [of _ "draws d + 1"]) simp
  show "x = typed_ref env (x_id x) tn tid rt v pid now" "external_ref_ok x" "\<forall>y \<in> set (externalRefs d). x_id y \<noteq> x_id x"
    using x ok u by simp_all
qed

text \<open>The tables a step leaves alone.\<close>

definition premise_frame :: "db \<Rightarrow> db \<Rightarrow> bool" where
  "premise_frame d d' \<longleftrightarrow> tasks d' = tasks d \<and> externalRefs d' = externalRefs d \<and> claims d' = claims d \<and> attempts d' = attempts d"

lemma premise_frame_event: "recordEvent env inp now d = Inr (d', ev) \<Longrightarrow> premise_frame d d'"
  by (auto simp: premise_frame_def dest!: recordEvent_frame)

lemma premise_frame_save: "save_outcome identity rt i s ev d = Inr d' \<Longrightarrow> premise_frame d d'"
  by (auto simp: premise_frame_def save_outcome_def dest!: saveIdempotencyResult_frame)

lemma premise_frame_caller: "callerPrincipal env tn ctx now d = Inr (d', p) \<Longrightarrow> premise_frame d d'"
  by (auto simp: premise_frame_def callerPrincipal_def dest!: resolveAttribution_frame)

lemma premise_frame_find: "findIdempotencyResult p d = Inr (d', r) \<Longrightarrow> premise_frame d d'"
  by (auto simp: premise_frame_def dest!: findIdempotencyResult_frame)

lemma settle_invalidated_result:
  assumes "settle_invalidated tid tn now d = Inr d'"
  shows "tasks d' = tasks d" "externalRefs d' = externalRefs d"
    "claims d' = update_rows (unreleased_claim tid tn) (close_claim ''premise_invalidated'' now) (claims d)"
    "attempts d' = update_rows (active_attempt_in tid tn) (premise_cancelled now) (attempts d)"
  using assms unfolding settle_invalidated_def
  by (auto simp: res update_attempts_def dest!: update_claims_Inr)

text \<open>No claim and no attempt is left on the commitment.\<close>

definition settled_work :: "string \<Rightarrow> string \<Rightarrow> db \<Rightarrow> bool" where
  "settled_work tid tn d \<longleftrightarrow> (\<forall>c \<in> set (claims d). \<not> unreleased_claim tid tn c) \<and>
     (\<forall>a \<in> set (attempts d). \<not> active_attempt_in tid tn a)"

lemma closed_work [simp]:
  "\<not> unreleased_claim tid tn (close_claim r now c)" "\<not> active_attempt_in tid tn (premise_cancelled now a)"
  by (simp_all add: unreleased_claim_def active_attempt_in_def premise_cancelled_def)

lemma settle_settles:
  assumes "settle_invalidated tid tn now d = Inr d'" shows "settled_work tid tn d'"
  unfolding settled_work_def settle_invalidated_result(3,4) [OF assms] by (auto elim!: update_rows_cases)

lemma invalidate_premise_result:
  assumes "invalidate_premise env tid tn actor pid premiseId decisionId proposalId reason now d = Inr (d', ev)"
  obtains v x where "parse_premise_invalidation (invalidation_of_decision tid premiseId proposalId decisionId pid now reason) = Some v"
    "appended d x d'" "x = typed_ref env (x_id x) tn tid TASK_PREMISE_INVALIDATION_URI (premise_invalidation_json v) pid now"
    "external_ref_ok x" "\<forall>y \<in> set (externalRefs d). x_id y \<noteq> x_id x" "settled_work tid tn d'"
proof -
  obtain v d1 x d2 where v: "parse_premise_invalidation (invalidation_of_decision tid premiseId proposalId decisionId pid now reason) = Some v"
    and i: "insertTypedRef env tn tid TASK_PREMISE_INVALIDATION_URI (premise_invalidation_json v) pid now d = Inr (d1, x)"
    and s: "settle_invalidated tid tn now d1 = Inr d2"
    and e: "premise_frame d2 d'"
    using assms unfolding invalidate_premise_def by (auto simp: res dest!: premise_frame_event)
  note x = insertTypedRef_result [OF i]
  have "appended d x d'" using x(1) e settle_invalidated_result(1,2) [OF s] by (auto simp: appended_def premise_frame_def)
  moreover have "settled_work tid tn d'" using settle_settles [OF s] e by (simp add: settled_work_def premise_frame_def)
  ultimately show thesis using that v x(2-4) by blast
qed

lemma write_premise_record_result:
  assumes "write_premise_record env tid tn actor identity b built d = Inr (d', r, evs)"
  obtains x d1 d2 evs' where "appended d x d1" "premise_frame d2 d'"
    "x = typed_ref env (px_id r) tn tid (mb_resourceType built) (mb_value built) (p_id (ba_principal b)) (ba_now b)"
    "x_id x = px_id r" "external_ref_ok x" "\<forall>y \<in> set (externalRefs d). x_id y \<noteq> px_id r"
    "follow_up env tid tn actor (p_id (ba_principal b)) (ps_premiseId (ba_state b)) (px_id r) (mb_invalidate built) (ba_now b) d1
       = Inr (d2, evs')"
    "px_value r = mb_value built" "claims d1 = claims d \<and> attempts d1 = attempts d"
proof -
  obtain d0 x d1 ev d2 evs' where i: "insertTypedRef env tn tid (mb_resourceType built) (mb_value built) (p_id (ba_principal b)) (ba_now b) d = Inr (d0, x)"
    and e: "premise_frame d0 d1"
    and f: "follow_up env tid tn actor (p_id (ba_principal b)) (ps_premiseId (ba_state b)) (x_id x) (mb_invalidate built) (ba_now b) d1
       = Inr (d2, evs')"
    and s: "save_outcome identity (mb_resourceType built) (x_id x) (mb_status built) ev d2 = Inr d'"
    and r: "r = \<lparr>px_id = x_id x, px_value = mb_value built, px_replayed = False\<rparr>"
    using assms unfolding write_premise_record_def by (auto simp: Let_def res dest!: premise_frame_event)
  note x = insertTypedRef_result [OF i]
  have "appended d x d1" "claims d1 = claims d \<and> attempts d1 = attempts d"
    using x(1) e by (auto simp: appended_def premise_frame_def)
  with f premise_frame_save [OF s] x(2-4) r show thesis by (intro that [of x d1 d2 evs']) simp_all
qed

lemma appended_frame: "premise_frame d0 d1 \<Longrightarrow> appended d1 x d2 \<Longrightarrow> premise_frame d2 d3 \<Longrightarrow> appended d0 x d3"
  by (simp add: appended_def premise_frame_def)

lemma premise_frame_refl [simp]: "premise_frame d d"
  by (simp add: premise_frame_def)

lemma write_plain:
  assumes "write_premise_record env tid tn actor identity b built d = Inr (d', r, evs)" and "mb_invalidate built = None"
  obtains x where "appended d x d'"
    "x = typed_ref env (px_id r) tn tid (mb_resourceType built) (mb_value built) (p_id (ba_principal b)) (ba_now b)"
    "x_id x = px_id r" "external_ref_ok x" "\<forall>y \<in> set (externalRefs d). x_id y \<noteq> px_id r"
proof (rule write_premise_record_result [OF assms(1)])
  fix x d1 d2 evs'
  assume a: "appended d x d1" "premise_frame d2 d'"
    and x: "x = typed_ref env (px_id r) tn tid (mb_resourceType built) (mb_value built) (p_id (ba_principal b)) (ba_now b)"
      "x_id x = px_id r" "external_ref_ok x" "\<forall>y \<in> set (externalRefs d). x_id y \<noteq> px_id r"
    and f: "follow_up env tid tn actor (p_id (ba_principal b)) (ps_premiseId (ba_state b)) (px_id r) (mb_invalidate built) (ba_now b) d1
       = Inr (d2, evs')"
  have "d2 = d1" using f assms(2) by (simp add: follow_up_def)
  with a have "appended d x d'" using appended_frame [of d d x d1 d'] by simp
  then show thesis using that x by blast
qed

section \<open>Operations\<close>

lemma premise_frame_trans: "premise_frame a b \<Longrightarrow> premise_frame b c \<Longrightarrow> premise_frame a c"
  by (simp add: premise_frame_def)

lemma premise_frame_view: "premise_frame d d' \<Longrightarrow> premise_view tid tn d' = premise_view tid tn d"
  unfolding premise_frame_def by (intro ext view_frame) simp_all

lemma premise_mutation_cases:
  assumes "appendPremiseMutation env tid op request ctx build d = (d', Inr r)"
  obtains (again) "px_replayed r" "premise_frame d d'"
  | (fresh) now identity d1 d2 evs where "premise_frame d d1" "request \<noteq> None"
      "premise_mutation_fresh env tid ctx build identity now d1 = Inr (d2, r, evs)" "premise_frame d2 d'"
proof -
  obtain now identity d2 evs n j where req: "request \<noteq> None" and tx: "premise_mutationTx env tid ctx build identity now d = Inr (d2, r, evs)"
    and d': "d' = d2\<lparr>committedMutations := n, journal := j\<rparr>"
    using assms unfolding appendPremiseMutation_def by (auto simp: Let_def res)
  have last: "premise_frame d2 d'" using d' by (simp add: premise_frame_def)
  obtain d1 found where f: "findIdempotencyResult identity d = Inr (d1, found)"
    and b: "(case found of None \<Rightarrow> premise_mutation_fresh env tid ctx build identity now d1
       | Some prior \<Rightarrow> (case replay_premise_record (tenant_of ctx) prior d1 of Inl e \<Rightarrow> Inl e | Inr r \<Rightarrow> Inr (d1, r, []))) = Inr (d2, r, evs)"
    using tx unfolding premise_mutationTx_def by (auto simp: res)
  show thesis
  proof (cases found)
    case None
    with fresh [OF premise_frame_find [OF f] req _ last] b show thesis by simp
  next
    case (Some prior)
    then have "d2 = d1" "px_replayed r" using b by (auto simp: res replay_premise_record_def)
    with again premise_frame_find [OF f] last premise_frame_trans show thesis by blast
  qed
qed

lemma premise_mutation_basis:
  assumes "premise_mutation_fresh env tid ctx build identity now d = Inr (d', r, evs)"
  obtains st p d1 built where "premise_view tid (tenant_of ctx) d st" "callerPrincipal env (tenant_of ctx) ctx now d = Inr (d1, p)"
    "premise_frame d d1"
    "build d1 \<lparr>ba_tenantId = tenant_of ctx, ba_now = now, ba_principal = p, ba_state = st\<rparr> = Inr built"
    "write_premise_record env tid (tenant_of ctx) (actor_of ctx) identity
       \<lparr>ba_tenantId = tenant_of ctx, ba_now = now, ba_principal = p, ba_state = st\<rparr> built d1 = Inr (d', r, evs)"
proof -
  obtain st d1 p built where "premise_view tid (tenant_of ctx) d st" "callerPrincipal env (tenant_of ctx) ctx now d = Inr (d1, p)"
    "build d1 \<lparr>ba_tenantId = tenant_of ctx, ba_now = now, ba_principal = p, ba_state = st\<rparr> = Inr built"
    "write_premise_record env tid (tenant_of ctx) (actor_of ctx) identity
       \<lparr>ba_tenantId = tenant_of ctx, ba_now = now, ba_principal = p, ba_state = st\<rparr> built d1 = Inr (d', r, evs)"
    using assms unfolding premise_mutation_fresh_def getTaskPremiseState_view [symmetric] by (auto simp: Let_def res)
  with premise_frame_caller [OF this(2)] show thesis by (intro that)
qed

text \<open>What each builder knows; parsing keeps the identifiers of a record.\<close>

lemma parse_fields:
  "parse_premise_proposal q = Some q' \<Longrightarrow> pp_taskId q' = pp_taskId q \<and> pp_premiseId q' = pp_premiseId q \<and>
     pp_verdict q' = pp_verdict q \<and> pp_proposedByPrincipalId q' = pp_proposedByPrincipalId q"
  "parse_premise_challenge c = Some c' \<Longrightarrow> pc_taskId c' = pc_taskId c \<and> pc_premiseId c' = pc_premiseId c \<and>
     pc_proposalId c' = pc_proposalId c"
  "parse_premise_decision e = Some e' \<Longrightarrow> pd_taskId e' = pd_taskId e \<and> pd_premiseId e' = pd_premiseId e \<and>
     pd_proposalId e' = pd_proposalId e \<and> pd_outcome e' = pd_outcome e \<and> pd_decidedByPrincipalId e' = pd_decidedByPrincipalId e"
  "parse_premise_invalidation w = Some w' \<Longrightarrow> pv_taskId w' = pv_taskId w \<and> pv_premiseId w' = pv_premiseId w \<and>
     pv_proposalId w' = pv_proposalId w \<and> pv_decisionId w' = pv_decisionId w"
  unfolding parse_premise_proposal_def parse_premise_challenge_def parse_premise_decision_def parse_premise_invalidation_def
  by (auto split: option.splits if_splits)

lemma not_invalidated_Inr [res]: "not_invalidated b = Inr u \<longleftrightarrow> ps_invalidation (ba_state b) = None"
  by (cases u; cases "ps_invalidation (ba_state b)") (simp_all add: not_invalidated_def)

lemma build_proposal_Inr:
  assumes "build_proposal tid i d b = Inr built"
  obtains v where "ps_invalidation (ba_state b) = None" "mb_resourceType built = TASK_PREMISE_PROPOSAL_URI"
    "mb_value built = premise_proposal_json v" "mb_invalidate built = None" "parse_premise_proposal v = Some v"
    "pp_taskId v = tid" "pp_premiseId v = ps_premiseId (ba_state b)"
proof -
  obtain v where n: "ps_invalidation (ba_state b) = None"
    and v: "parse_premise_proposal \<lparr>pp_taskId = tid, pp_premiseId = ps_premiseId (ba_state b), pp_verdict = qp_verdict i,
             pp_evidenceIds = qp_evidenceIds i, pp_rationale = qp_rationale i,
             pp_proposedByPrincipalId = p_id (ba_principal b), pp_proposedAt = ba_now b\<rparr> = Some v"
    and b: "built = \<lparr>mb_resourceType = TASK_PREMISE_PROPOSAL_URI, mb_value = premise_proposal_json v,
          mb_status = ''proposed'', mb_eventType = ''premise_resolution_proposed'', mb_invalidate = None\<rparr>"
    using assms unfolding build_proposal_def by (auto simp: res)
  show thesis using n b parse_fields(1) [OF v] parse_premise_proposal_again [OF v] by (intro that [of v]) simp_all
qed

lemma find_proposal_Inr [res]:
  "find_proposal i st = Inr item \<longleftrightarrow> find (\<lambda>item. fst item = i) (ps_proposals st) = Some item"
  by (auto simp: find_proposal_def split: option.splits)

lemma build_challenge_Inr:
  assumes "build_challenge tid i d b = Inr built"
  obtains v proposal where "ps_invalidation (ba_state b) = None" "mb_resourceType built = TASK_PREMISE_CHALLENGE_URI"
    "mb_value built = premise_challenge_json v" "mb_invalidate built = None" "parse_premise_challenge v = Some v"
    "pc_taskId v = tid" "pc_premiseId v = ps_premiseId (ba_state b)" "(pc_proposalId v, proposal) \<in> set (ps_proposals (ba_state b))"
    "\<not> decided (pc_proposalId v) (ba_state b)"
proof -
  obtain v item where n: "ps_invalidation (ba_state b) = None"
    and f: "find (\<lambda>item. fst item = qc_proposalId i) (ps_proposals (ba_state b)) = Some item"
    and nd: "\<not> decided (fst item) (ba_state b)"
    and v: "parse_premise_challenge \<lparr>pc_taskId = tid, pc_premiseId = ps_premiseId (ba_state b),
             pc_proposalId = qc_proposalId i, pc_counterEvidenceIds = qc_counterEvidenceIds i,
             pc_rationale = qc_rationale i, pc_challengedByPrincipalId = p_id (ba_principal b),
             pc_challengedAt = ba_now b\<rparr> = Some v"
    and b: "built = \<lparr>mb_resourceType = TASK_PREMISE_CHALLENGE_URI, mb_value = premise_challenge_json v,
          mb_status = ''challenged'', mb_eventType = ''premise_resolution_challenged'', mb_invalidate = None\<rparr>"
    using assms unfolding build_challenge_def by (auto simp: res)
  have it: "fst item = qc_proposalId i" "item \<in> set (ps_proposals (ba_state b))" using find_SomeD [OF f] by auto
  show thesis using n b nd it parse_fields(2) [OF v] parse_premise_challenge_again [OF v]
    by (intro that [of v "snd item"]) (simp_all add: prod_eq_iff, metis prod.collapse)
qed

lemma build_decision_Inr:
  assumes "build_decision tid i d b = Inr built"
  obtains v proposal where "ps_invalidation (ba_state b) = None" "mb_resourceType built = TASK_PREMISE_DECISION_URI"
    "mb_value built = premise_decision_json v" "parse_premise_decision v = Some v"
    "pd_taskId v = tid" "pd_premiseId v = ps_premiseId (ba_state b)" "pd_proposalId v = qd_proposalId i" "pd_outcome v = qd_outcome i"
    "pd_decidedByPrincipalId v = p_id (ba_principal b)"
    "(qd_proposalId i, proposal) \<in> set (ps_proposals (ba_state b))" "\<not> decided (qd_proposalId i) (ba_state b)"
    "decider_guard (ps_premise (ba_state b)) proposal (challenges_of (qd_proposalId i) (ba_state b) \<noteq> []) (qd_outcome i) (p_id (ba_principal b)) = Inr ()"
    "mb_invalidate built = (if qd_outcome i = PremiseAccepted \<and> pp_verdict proposal = Refute
            then Some (qd_proposalId i, qd_rationale i) else None)"
proof -
  obtain v item where n: "ps_invalidation (ba_state b) = None"
    and f: "find (\<lambda>item. fst item = qd_proposalId i) (ps_proposals (ba_state b)) = Some item"
    and nd: "\<not> decided (fst item) (ba_state b)"
    and g: "decider_guard (ps_premise (ba_state b)) (snd item) (challenges_of (fst item) (ba_state b) \<noteq> [])
             (qd_outcome i) (p_id (ba_principal b)) = Inr ()"
    and v: "parse_premise_decision (decision_value tid i item b) = Some v"
    and b: "built = \<lparr>mb_resourceType = TASK_PREMISE_DECISION_URI, mb_value = premise_decision_json v,
          mb_status = premise_outcome_text (qd_outcome i), mb_eventType = ''premise_resolution_decided'',
          mb_invalidate = (if qd_outcome i = PremiseAccepted \<and> pp_verdict (snd item) = Refute
            then Some (fst item, qd_rationale i) else None)\<rparr>"
    using assms unfolding build_decision_def by (auto simp: res)
  have it: "fst item = qd_proposalId i" "item \<in> set (ps_proposals (ba_state b))" using find_SomeD [OF f] by auto
  have m: "(qd_proposalId i, snd item) \<in> set (ps_proposals (ba_state b))" using it by (metis prod.collapse)
  show thesis by (rule that [OF n _ _ parse_premise_decision_again [OF v] _ _ _ _ _ m])
      (use b nd g it parse_fields(3) [OF v] in \<open>simp_all add: decision_value_def Let_def\<close>)
qed

section \<open>The invariant\<close>

definition readable :: "string \<Rightarrow> string \<Rightarrow> db \<Rightarrow> bool" where
  "readable tid tn d \<longleftrightarrow> (\<exists>st. getTaskPremiseState tid tn d = Inr (Some st))"

text \<open>Every premise record of a workspace belongs to a commitment whose premise state can be read.\<close>

definition premises_inv :: "string \<Rightarrow> db \<Rightarrow> bool" where
  "premises_inv tn d \<longleftrightarrow> uniq_by x_id (externalRefs d) \<and>
     (\<forall>x \<in> set (externalRefs d). premise_ref_of (x_recordId x) tn x \<longrightarrow> readable (x_recordId x) tn d)"

lemma readable_view: "readable tid tn d \<longleftrightarrow> (\<exists>st. premise_view tid tn d st)"
  by (simp add: readable_def getTaskPremiseState_view)

lemma premises_inv_cong:
  assumes "tasks d' = tasks d" and "externalRefs d' = externalRefs d"
  shows "premises_inv tn d' = premises_inv tn d"
proof -
  have "premise_view tid tn d' = premise_view tid tn d" for tid by (intro ext view_frame assms)
  then show ?thesis unfolding premises_inv_def readable_view by (simp add: assms)
qed

lemma premises_inv_frame: "premise_frame d d' \<Longrightarrow> premises_inv tn d' = premises_inv tn d"
  by (rule premises_inv_cong) (simp_all add: premise_frame_def)

interpretation premises_tx: tx_invariant "premises_inv tn"
  by unfold_locales (simp_all add: premises_inv_cong [of "_\<lparr>committedMutations := _, journal := _\<rparr>"]
      premises_inv_cong [of "_\<lparr>contentions := _\<rparr>"])

lemma premises_inv_append:
  assumes inv: "premises_inv tn d" and x: "appended d x d'" "\<forall>y \<in> set (externalRefs d). x_id y \<noteq> x_id x"
    and r: "\<And>tid. premise_ref_of tid tn x \<Longrightarrow> readable tid tn d'"
  shows "premises_inv tn d'"
proof -
  have "readable (x_recordId y) tn d'" if y: "y \<in> set (externalRefs d')" "premise_ref_of (x_recordId y) tn y" for y
  proof (cases "premise_ref_of (x_recordId y) tn x")
    case False
    with y x(1) have "y \<in> set (externalRefs d)" by (auto simp: appended_def)
    with inv y(2) obtain st where "premise_view (x_recordId y) tn d st" by (auto simp: premises_inv_def readable_view)
    from view_other [OF this x(1) False] show ?thesis by (auto simp: readable_view)
  qed (rule r)
  with inv x show ?thesis by (auto simp: premises_inv_def appended_def uniq_by_append1)
qed

lemma reserved [simp]:
  "TASK_PREMISE_URI \<in> set RESERVED_TASK_PREMISE_RESOURCE_TYPES"
  "TASK_PREMISE_PROPOSAL_URI \<in> set RESERVED_TASK_PREMISE_RESOURCE_TYPES"
  "TASK_PREMISE_CHALLENGE_URI \<in> set RESERVED_TASK_PREMISE_RESOURCE_TYPES"
  "TASK_PREMISE_DECISION_URI \<in> set RESERVED_TASK_PREMISE_RESOURCE_TYPES"
  "TASK_PREMISE_INVALIDATION_URI \<in> set RESERVED_TASK_PREMISE_RESOURCE_TYPES"
  by (simp_all add: premise_uris(1))

lemma metadataFor_typed:
  "schema (sorted_entries v) = Some w \<Longrightarrow> metadataFor schema (typed_ref env xid tn tid rt v pid now) = Inr w"
  by (simp add: metadataFor_def)

section \<open>Each mutation on the state\<close>

lemma proposal_step:
  assumes "premise_mutation_fresh env tid ctx (build_proposal tid i) identity now d = Inr (d', r, evs)"
  obtains st x props v where "premise_view tid (tenant_of ctx) d st" "appended d x d'" "x_id x = px_id r"
    "\<forall>y \<in> set (externalRefs d). x_id y \<noteq> x_id x" "\<And>k tn. premise_ref_of k tn x \<longleftrightarrow> k = tid \<and> tn = tenant_of ctx"
    "premise_view tid (tenant_of ctx) d' (st\<lparr>ps_proposals := props\<rparr>)" "set props = insert (px_id r, v) (set (ps_proposals st))"
proof -
  obtain st p d1 built where v: "premise_view tid (tenant_of ctx) d st" and f: "premise_frame d d1"
    and b: "build_proposal tid i d1 \<lparr>ba_tenantId = tenant_of ctx, ba_now = now, ba_principal = p, ba_state = st\<rparr> = Inr built"
    and w: "write_premise_record env tid (tenant_of ctx) (actor_of ctx) identity
       \<lparr>ba_tenantId = tenant_of ctx, ba_now = now, ba_principal = p, ba_state = st\<rparr> built d1 = Inr (d', r, evs)"
    by (rule premise_mutation_basis [OF assms])
  obtain q where q: "ps_invalidation st = None" "mb_resourceType built = TASK_PREMISE_PROPOSAL_URI"
    "mb_value built = premise_proposal_json q" "mb_invalidate built = None" "parse_premise_proposal q = Some q"
    "pp_taskId q = tid" "pp_premiseId q = ps_premiseId st" using build_proposal_Inr [OF b] by auto
  obtain x where x: "appended d1 x d'"
    "x = typed_ref env (px_id r) (tenant_of ctx) tid TASK_PREMISE_PROPOSAL_URI (premise_proposal_json q) (p_id p) now"
    "x_id x = px_id r" "external_ref_ok x" "\<forall>y \<in> set (externalRefs d1). x_id y \<noteq> px_id r"
    using write_plain [OF w q(4)] q(2,3) by (metis premise_basis.select_convs(2,3))
  have a: "appended d x d'" using appended_frame [OF f x(1)] by simp
  have refs: "premise_ref_of k tn x \<longleftrightarrow> k = tid \<and> tn = tenant_of ctx" for k tn by (subst x(2)) auto
  obtain props where "premise_view tid (tenant_of ctx) d' (st\<lparr>ps_proposals := props\<rparr>)"
    "set props = insert (x_id x, q) (set (ps_proposals st))"
  proof (rule view_add_proposal [OF v q(1) a])
    show "metadataFor read_premise_proposal x = Inr q" unfolding x(2) by (rule metadataFor_typed) (simp add: read_stored q(5))
    show "x_resourceType x = TASK_PREMISE_PROPOSAL_URI" by (subst x(2)) simp
  qed (use refs x q in \<open>auto simp: proposal_bound_def\<close>)
  with v a x(3,5) f refs show thesis by (intro that [of st x props q]) (auto simp: premise_frame_def)
qed

lemma challenge_step:
  assumes "premise_mutation_fresh env tid ctx (build_challenge tid i) identity now d = Inr (d', r, evs)"
  obtains st x chals v where "premise_view tid (tenant_of ctx) d st" "appended d x d'" "x_id x = px_id r"
    "\<forall>y \<in> set (externalRefs d). x_id y \<noteq> x_id x" "\<And>k tn. premise_ref_of k tn x \<longleftrightarrow> k = tid \<and> tn = tenant_of ctx"
    "premise_view tid (tenant_of ctx) d' (st\<lparr>ps_challenges := chals\<rparr>)" "set chals = insert (px_id r, v) (set (ps_challenges st))"
proof -
  obtain st p d1 built where v: "premise_view tid (tenant_of ctx) d st" and f: "premise_frame d d1"
    and b: "build_challenge tid i d1 \<lparr>ba_tenantId = tenant_of ctx, ba_now = now, ba_principal = p, ba_state = st\<rparr> = Inr built"
    and w: "write_premise_record env tid (tenant_of ctx) (actor_of ctx) identity
       \<lparr>ba_tenantId = tenant_of ctx, ba_now = now, ba_principal = p, ba_state = st\<rparr> built d1 = Inr (d', r, evs)"
    by (rule premise_mutation_basis [OF assms])
  obtain q proposal where q: "ps_invalidation st = None" "mb_resourceType built = TASK_PREMISE_CHALLENGE_URI"
    "mb_value built = premise_challenge_json q" "mb_invalidate built = None" "parse_premise_challenge q = Some q"
    "pc_taskId q = tid" "pc_premiseId q = ps_premiseId st" "(pc_proposalId q, proposal) \<in> set (ps_proposals st)"
    using build_challenge_Inr [OF b] by (metis premise_basis.select_convs(4))
  obtain x where x: "appended d1 x d'"
    "x = typed_ref env (px_id r) (tenant_of ctx) tid TASK_PREMISE_CHALLENGE_URI (premise_challenge_json q) (p_id p) now"
    "x_id x = px_id r" "external_ref_ok x" "\<forall>y \<in> set (externalRefs d1). x_id y \<noteq> px_id r"
    using write_plain [OF w q(4)] q(2,3) by (metis premise_basis.select_convs(2,3))
  have a: "appended d x d'" using appended_frame [OF f x(1)] by simp
  have refs: "premise_ref_of k tn x \<longleftrightarrow> k = tid \<and> tn = tenant_of ctx" for k tn by (subst x(2)) auto
  obtain chals where "premise_view tid (tenant_of ctx) d' (st\<lparr>ps_challenges := chals\<rparr>)"
    "set chals = insert (x_id x, q) (set (ps_challenges st))"
  proof (rule view_add_challenge [OF v q(1) a])
    show "metadataFor read_premise_challenge x = Inr q" unfolding x(2) by (rule metadataFor_typed) (simp add: read_stored q(5))
    show "x_resourceType x = TASK_PREMISE_CHALLENGE_URI" by (subst x(2)) simp
    show "challenge_bound tid (ps_premiseId st) (ps_proposals st) (x_id x, q)"
      using q(6-8) by (force simp: challenge_bound_def known_proposal_def)
  qed (use refs x in auto)
  with v a x(3,5) f refs show thesis by (intro that [of st x chals q]) (auto simp: premise_frame_def)
qed

text \<open>Whether a decision invalidates the premise.\<close>

definition refutes :: "premise_decision_input \<Rightarrow> premise_proposal \<Rightarrow> bool" where
  "refutes i proposal \<longleftrightarrow> qd_outcome i = PremiseAccepted \<and> pp_verdict proposal = Refute"

lemma decision_step:
  assumes "premise_mutation_fresh env tid ctx (build_decision tid i) identity now d = Inr (d', r, evs)"
    and uniq: "uniq_by x_id (externalRefs d)"
  obtains st d0 p proposal v x da decs where "premise_view tid (tenant_of ctx) d st"
    "callerPrincipal env (tenant_of ctx) ctx now d = Inr (d0, p)" "ps_invalidation st = None"
    "(qd_proposalId i, proposal) \<in> set (ps_proposals st)" "\<not> decided (qd_proposalId i) st"
    "decider_guard (ps_premise st) proposal (challenges_of (qd_proposalId i) st \<noteq> []) (qd_outcome i) (p_id p) = Inr ()"
    "appended d x da" "x_id x = px_id r" "\<forall>y \<in> set (externalRefs d). x_id y \<noteq> x_id x"
    "\<And>k tn. premise_ref_of k tn x \<longleftrightarrow> k = tid \<and> tn = tenant_of ctx"
    "pd_proposalId v = qd_proposalId i" "pd_outcome v = qd_outcome i" "pd_decidedByPrincipalId v = p_id p"
    "set decs = insert (px_id r, v) (set (ps_decisions st))" "premise_view tid (tenant_of ctx) da (st\<lparr>ps_decisions := decs\<rparr>)"
    "\<not> refutes i proposal \<Longrightarrow> premise_frame da d'"
    "refutes i proposal \<Longrightarrow> settled_work tid (tenant_of ctx) d' \<and> (\<exists>y w. appended da y d' \<and>
       (\<forall>z \<in> set (externalRefs da). x_id z \<noteq> x_id y) \<and> (\<forall>k tn. premise_ref_of k tn y \<longleftrightarrow> k = tid \<and> tn = tenant_of ctx) \<and>
       x_resourceType y = TASK_PREMISE_INVALIDATION_URI \<and>
       premise_view tid (tenant_of ctx) d' (st\<lparr>ps_decisions := decs, ps_invalidation := Some (x_id y, w), ps_actionable := False\<rparr>))"
proof -
  let ?tn = "tenant_of ctx"
  obtain st p d1 built where v: "premise_view tid ?tn d st" and c: "callerPrincipal env ?tn ctx now d = Inr (d1, p)" and f: "premise_frame d d1"
    and b: "build_decision tid i d1 \<lparr>ba_tenantId = ?tn, ba_now = now, ba_principal = p, ba_state = st\<rparr> = Inr built"
    and w: "write_premise_record env tid ?tn (actor_of ctx) identity
       \<lparr>ba_tenantId = ?tn, ba_now = now, ba_principal = p, ba_state = st\<rparr> built d1 = Inr (d', r, evs)"
    by (rule premise_mutation_basis [OF assms(1)])
  obtain q proposal where q: "ps_invalidation st = None" "mb_resourceType built = TASK_PREMISE_DECISION_URI"
    "mb_value built = premise_decision_json q" "parse_premise_decision q = Some q" "pd_taskId q = tid" "pd_premiseId q = ps_premiseId st"
    "pd_proposalId q = qd_proposalId i" "pd_outcome q = qd_outcome i" "pd_decidedByPrincipalId q = p_id p"
    and m: "(qd_proposalId i, proposal) \<in> set (ps_proposals st)" and nd: "\<not> decided (qd_proposalId i) st"
    and g: "decider_guard (ps_premise st) proposal (challenges_of (qd_proposalId i) st \<noteq> []) (qd_outcome i) (p_id p) = Inr ()"
    and inv: "mb_invalidate built = (if refutes i proposal then Some (qd_proposalId i, qd_rationale i) else None)"
    by (rule build_decision_Inr [OF b]) (simp add: refutes_def)
  obtain x da db evs' where x: "appended d1 x da" "premise_frame db d'"
    "x = typed_ref env (px_id r) ?tn tid TASK_PREMISE_DECISION_URI (premise_decision_json q) (p_id p) now"
    "x_id x = px_id r" "external_ref_ok x" "\<forall>y \<in> set (externalRefs d1). x_id y \<noteq> px_id r"
    and fu: "follow_up env tid ?tn (actor_of ctx) (p_id p) (ps_premiseId st) (px_id r) (mb_invalidate built) now da = Inr (db, evs')"
    by (rule write_premise_record_result [OF w]) (simp add: q)
  have a: "appended d x da" using appended_frame [OF f x(1)] by simp
  have fresh: "\<forall>y \<in> set (externalRefs d). x_id y \<noteq> x_id x" using x(4,6) f by (simp add: premise_frame_def)
  have refs: "premise_ref_of k tn x \<longleftrightarrow> k = tid \<and> tn = ?tn" for k tn by (subst x(3)) auto
  obtain decs where decs: "premise_view tid ?tn da (st\<lparr>ps_decisions := decs\<rparr>)" "set decs = insert (x_id x, q) (set (ps_decisions st))"
  proof (rule view_add_decision [OF v q(1) a])
    show "metadataFor read_premise_decision x = Inr q" unfolding x(3) by (rule metadataFor_typed) (simp add: read_stored q(4))
    show "x_resourceType x = TASK_PREMISE_DECISION_URI" by (subst x(3)) simp
    show "decision_bound tid (ps_premiseId st) (ps_proposals st) (x_id x, q)"
      using q(5-7) m by (force simp: decision_bound_def known_proposal_def)
  qed (use refs x in auto)
  have plain: "premise_frame da d'" if "\<not> refutes i proposal" using fu x(2) that by (simp add: inv follow_up_def)
  have uda: "uniq_by x_id (externalRefs da)" using uniq a fresh by (simp add: appended_def uniq_by_append1)
  have "settled_work tid ?tn d' \<and> (\<exists>y u. appended da y d' \<and>
       (\<forall>z \<in> set (externalRefs da). x_id z \<noteq> x_id y) \<and> (\<forall>k tn. premise_ref_of k tn y \<longleftrightarrow> k = tid \<and> tn = ?tn) \<and>
       x_resourceType y = TASK_PREMISE_INVALIDATION_URI \<and>
       premise_view tid ?tn d' (st\<lparr>ps_decisions := decs, ps_invalidation := Some (x_id y, u), ps_actionable := False\<rparr>))"
    if rf: "refutes i proposal"
  proof -
    obtain ev where ip: "invalidate_premise env tid ?tn (actor_of ctx) (p_id p) (ps_premiseId st) (px_id r) (qd_proposalId i)
        (qd_rationale i) now da = Inr (db, ev)"
      using fu rf by (auto simp: inv follow_up_def res)
    obtain u y where u: "parse_premise_invalidation (invalidation_of_decision tid (ps_premiseId st) (qd_proposalId i) (px_id r) (p_id p) now (qd_rationale i)) = Some u"
      and y: "appended da y db" "y = typed_ref env (x_id y) ?tn tid TASK_PREMISE_INVALIDATION_URI (premise_invalidation_json u) (p_id p) now"
        "external_ref_ok y" "\<forall>z \<in> set (externalRefs da). x_id z \<noteq> x_id y" and settled: "settled_work tid ?tn db"
      by (rule invalidate_premise_result [OF ip])
    have ay: "appended da y d'" using appended_frame [OF _ y(1) x(2)] by simp
    have ry: "premise_ref_of k tn y \<longleftrightarrow> k = tid \<and> tn = ?tn" for k tn by (subst y(2)) auto
    have ty: "x_resourceType y = TASK_PREMISE_INVALIDATION_URI" by (subst y(2)) simp
    have dd: "distinct (map fst decs)" "distinct (map fst (ps_proposals st))"
      using records_distinct [OF _ uda] records_distinct [OF _ uniq] decs(1) v by (auto simp: premise_view_def)
    have "map_of (rev decs) (px_id r) = Some q" "map_of (rev (ps_proposals st)) (qd_proposalId i) = Some proposal"
      using dd decs(2) x(4) m by (simp_all add: rev_map [symmetric])
    then have bound: "invalidation_bound tid (ps_premiseId st) (ps_proposals st) decs (x_id y, u)"
      using parse_fields(4) [OF u] q(7,8) rf by (simp add: invalidation_bound_def Let_def invalidation_of_decision_def refutes_def)
    have "premise_view tid ?tn d' ((st\<lparr>ps_decisions := decs\<rparr>)\<lparr>ps_invalidation := Some (x_id y, u), ps_actionable := False\<rparr>)"
    proof (rule view_add_invalidation [OF decs(1) _ ay ty])
      show "metadataFor read_premise_invalidation y = Inr u"
        by (subst y(2), rule metadataFor_typed) (simp add: read_stored parse_premise_invalidation_again [OF u])
    qed (use q(1) ry y(3) bound in simp_all)
    moreover have "settled_work tid ?tn d'" using settled x(2) by (simp add: settled_work_def premise_frame_def)
    ultimately show ?thesis using ay y(4) ry ty by auto
  qed
  with plain show thesis
    using that [OF v c q(1) m nd g a x(4) fresh refs q(7-9)] decs x(4) by simp
qed

section \<open>Creation\<close>

lemma create_reads:
  assumes "createTaskInTransaction env hp i tn actor pid now ec inh d = Inr (d', t, ev)"
  shows "getTask (t_id t) tn d' = Inr (Some t)"
proof -
  obtain d0 tid where split: "(case ti_id i of Some x \<Rightarrow> (d, x) | None \<Rightarrow> fresh_id env now d) = (d0, tid)"
    by (rule prod.exhaust)
  have "\<exists>tid. getTask tid tn d' = Inr (Some t)"
    using assms unfolding createTaskInTransaction_def split Let_def
    by (simp only: case_Inl_eq_Inr case_option_Inl_eq_Inr if_Inl_eq_Inr prod.case split_paired_Ex sum.inject prod.inject) blast
  then show ?thesis by (metis getTask_Some task_row_Some)
qed

lemma view_new_task:
  assumes "premise_view tid tn d st" and "tasks d' = tasks d @ [t]" and "externalRefs d' = externalRefs d"
  shows "premise_view tid tn d' st"
proof -
  have "getTask tid tn d' = Inr (Some (ps_task st))"
    using assms(1,2) by (auto simp: premise_view_def res task_row_def find_append)
  with assms(1,3) show ?thesis by (simp add: premise_view_def records_frame [of d' d] refs_ok_def)
qed

lemma premises_inv_new_task:
  assumes "premises_inv tn d" and "tasks d' = tasks d @ [t]" and "externalRefs d' = externalRefs d"
  shows "premises_inv tn d'"
  using assms view_new_task [OF _ assms(2,3)] unfolding premises_inv_def readable_view by fastforce

lemma records_none:
  "appended d x d' \<Longrightarrow> x_resourceType x \<noteq> rt \<Longrightarrow> refs_of rt tid tn d = [] \<Longrightarrow> records schema rt tid tn d' []"
  by (simp add: records_def refs_of_other)

lemma premised_step:
  assumes "premised_fresh env parsed i ctx identity now d = Inr (d', k, evs)" and inv: "premises_inv (tenant_of ctx) d"
  obtains da x st where "tasks da = tasks d @ [pk_task k]" "externalRefs da = externalRefs d" "appended da x d'"
    "x_id x = pk_premiseId k" "\<forall>y \<in> set (externalRefs da). x_id y \<noteq> x_id x"
    "\<And>j tn. premise_ref_of j tn x \<longleftrightarrow> j = t_id (pk_task k) \<and> tn = tenant_of ctx"
    "premise_view (t_id (pk_task k)) (tenant_of ctx) d' st" "ps_task st = pk_task k" "ps_premiseId st = pk_premiseId k"
    "ps_premise st = pk_premise k" "ps_proposals st = []" "ps_decisions st = []" "ps_invalidation st = None" "ps_actionable st"
    "task_row (t_id (pk_task k)) (tenant_of ctx) d = None"
proof -
  let ?tn = "tenant_of ctx"
  obtain ob d1 p d2 t created where c: "callerPrincipal env ?tn ctx now d = Inr (d1, p)"
    and cr: "createTaskInTransaction env flatHierarchyPolicy parsed ?tn (actor_of ctx) (Some (p_id p)) now
               [(''source'', JStr ''task_premise'')] False d1 = Inr (d2, t, created)"
    and at: "attach_premise env ?tn (actor_of ctx) i ob identity (p_id p) now t created d2 = Inr (d', k, evs)"
    using assms(1) unfolding premised_fresh_def by (auto simp: Let_def res)
  obtain v d3 x d4 where v: "parse_task_premise (premise_of env i ob t (p_id p) now) = Some v"
    and ins: "insertTypedRef env ?tn (t_id t) TASK_PREMISE_URI (task_premise_json v) (p_id p) now d2 = Inr (d3, x)"
    and f: "premise_frame d3 d4" "premise_frame d4 d'"
    and k: "k = \<lparr>pk_task = t, pk_premiseId = x_id x, pk_premise = v, pk_replayed = False\<rparr>"
    using at unfolding attach_premise_def by (auto simp: res dest!: premise_frame_event premise_frame_save)
  note x = insertTypedRef_result [OF ins]
  obtain row ps j where new: "tasks d2 = tasks d1 @ [row]" "externalRefs d2 = externalRefs d1" "t = row" "t_status t = Open" "t_deletedAt t = None"
    by (rule createTaskInTransaction_Inr [OF cr]) (auto simp: new_task_def creation_guard_def res)
  have none_task: "task_row (t_id t) ?tn d = None"
    using flat.create_parent_of [OF cr] premise_frame_caller [OF c] by (auto simp: task_row_def premise_frame_def)
  have tv: "tp_taskId v = t_id t" using v by (auto simp: parse_task_premise_def premise_of_def split: option.splits if_splits)
  have d2: "tasks d2 = tasks d @ [t]" "externalRefs d2 = externalRefs d"
    using new premise_frame_caller [OF c] by (simp_all add: premise_frame_def)
  have a: "appended d2 x d'" using x(1) f by (auto simp: appended_def premise_frame_def)
  have refs: "premise_ref_of j tn x \<longleftrightarrow> j = t_id t \<and> tn = ?tn" for j tn by (subst x(2)) auto
  have empty: "\<not> premise_ref_of (t_id t) ?tn y" if "y \<in> set (externalRefs d)" for y
  proof
    assume y: "premise_ref_of (t_id t) ?tn y"
    then have "x_recordId y = t_id t" by (simp add: premise_ref_of_def)
    with inv that y have "readable (t_id t) ?tn d" by (auto simp: premises_inv_def)
    with none_task show False by (auto simp: readable_view premise_view_def res)
  qed
  have nil: "refs_of rt (t_id t) ?tn d2 = []" for rt
    using set_refs_of [of rt "t_id t" ?tn d2] empty d2(2) by (cases "refs_of rt (t_id t) ?tn d2") auto
  have ty: "x_resourceType x = TASK_PREMISE_URI" by (subst x(2)) simp
  have "refs_of TASK_PREMISE_URI (t_id t) ?tn d' = [x]"
    using a refs ty empty d2(2) by (simp add: refs_of_def appended_def filter_empty_conv)
  moreover have "metadataFor read_task_premise x = Inr v"
    by (subst x(2), rule metadataFor_typed) (simp add: read_stored parse_task_premise_again [OF v])
  ultimately have pr: "records read_task_premise TASK_PREMISE_URI (t_id t) ?tn d' [(x_id x, v)]" by (simp add: records_single)
  let ?st = "\<lparr>ps_task = t, ps_premiseId = x_id x, ps_premise = v, ps_proposals = [], ps_challenges = [], ps_decisions = [],
      ps_invalidation = None, ps_actionable = True\<rparr>"
  have "TASK_PREMISE_URI \<noteq> TASK_PREMISE_PROPOSAL_URI" "TASK_PREMISE_URI \<noteq> TASK_PREMISE_CHALLENGE_URI"
    "TASK_PREMISE_URI \<noteq> TASK_PREMISE_DECISION_URI" "TASK_PREMISE_URI \<noteq> TASK_PREMISE_INVALIDATION_URI"
    using premise_uris(2) by simp_all
  note none = this [folded ty, THEN records_none [OF a _ nil]]
  have "getTask (t_id t) ?tn d' = Inr (Some t)"
    using create_reads [OF cr] a getTask_frame [of d' d2 "t_id t" ?tn] by (simp add: appended_def)
  moreover have "refs_ok (t_id t) ?tn d'" using a empty x(3) d2(2) by (auto simp: refs_ok_def appended_def)
  ultimately have "premise_view (t_id t) ?tn d' ?st"
    using pr tv new(4,5) by (simp add: premise_view_def bindings_hold_def premise_actionable_def none)
  note view = this
  show thesis
  proof (rule that)
    show "tasks d2 = tasks d @ [pk_task k]" "x_id x = pk_premiseId k" using d2(1) by (simp_all add: k)
    show "\<And>j tn. premise_ref_of j tn x \<longleftrightarrow> j = t_id (pk_task k) \<and> tn = ?tn" by (simp add: refs k)
    show "premise_view (t_id (pk_task k)) ?tn d' ?st" using view by (simp add: k)
    show "appended d2 x d'" "\<forall>y \<in> set (externalRefs d2). x_id y \<noteq> x_id x" by (fact a, fact x(4))
  qed (simp_all add: k d2(2) none_task)
qed

section \<open>Properties\<close>

inductive premise_op :: "env \<Rightarrow> db \<Rightarrow> db \<Rightarrow> bool" for env where
  create: "premise_op env d (fst (createTaskWithPremise env taskInput premiseInput ctx d))"
| propose: "premise_op env d (fst (proposeTaskPremise env tid p ctx d))"
| challenge: "premise_op env d (fst (challengeTaskPremise env tid c ctx d))"
| decide: "premise_op env d (fst (decideTaskPremise env tid v ctx d))"

inductive_cases premise_opE: "premise_op env d d'"

text \<open>A transaction on the premise of a commitment adds nothing, or one or two references to it, after which
  its state can be read; a creation adds a commitment and its premise.\<close>

definition premise_growth :: "string \<Rightarrow> string \<Rightarrow> db \<Rightarrow> db \<Rightarrow> bool" where
  "premise_growth tid tn d d' \<longleftrightarrow> (\<exists>x. appended d x d' \<and> (\<forall>y \<in> set (externalRefs d). x_id y \<noteq> x_id x) \<and>
     (\<forall>k tn'. premise_ref_of k tn' x \<longleftrightarrow> k = tid \<and> tn' = tn) \<and> readable tid tn d')"

definition uninvalidated :: "string \<Rightarrow> string \<Rightarrow> db \<Rightarrow> bool" where
  "uninvalidated tid tn d \<longleftrightarrow> (\<exists>st. getTaskPremiseState tid tn d = Inr (Some st) \<and> ps_invalidation st = None)"

lemma growth_keeps_inv: "premise_growth tid tn0 d d' \<Longrightarrow> premises_inv tn d \<Longrightarrow> premises_inv tn d'"
  unfolding premise_growth_def by (elim exE conjE) (rule premises_inv_append, auto)

lemma growth_keeps_view:
  "premise_growth tid0 tn0 d d' \<Longrightarrow> (tid, tn) \<noteq> (tid0, tn0) \<Longrightarrow> premise_view tid tn d st \<Longrightarrow> premise_view tid tn d' st"
  unfolding premise_growth_def by (elim exE conjE) (rule view_other, auto)

inductive premise_growths :: "string \<Rightarrow> string \<Rightarrow> db \<Rightarrow> db \<Rightarrow> bool" for tid tn where
  none: "premise_frame d d' \<Longrightarrow> premise_growths tid tn d d'"
| more: "premise_growth tid tn d d1 \<Longrightarrow> premise_growths tid tn d1 d' \<Longrightarrow> premise_growths tid tn d d'"

lemma growths_keep_inv: "premise_growths tid tn0 d d' \<Longrightarrow> premises_inv tn d \<Longrightarrow> premises_inv tn d'"
  by (induction rule: premise_growths.induct) (auto simp: premises_inv_frame dest: growth_keeps_inv)

lemma growths_keep_view:
  "premise_growths tid0 tn0 d d' \<Longrightarrow> (tid, tn) \<noteq> (tid0, tn0) \<Longrightarrow> premise_view tid tn d st \<Longrightarrow> premise_view tid tn d' st"
  by (induction rule: premise_growths.induct) (auto simp: premise_frame_view dest: growth_keeps_view)

lemma premise_uninvalidated_frame: "premise_frame d d' \<Longrightarrow> uninvalidated tid tn d' = uninvalidated tid tn d"
  by (simp add: uninvalidated_def getTaskPremiseState_view premise_frame_view)

lemma premise_growths_frame: "premise_growths tid tn b c \<Longrightarrow> premise_frame a b \<Longrightarrow> premise_growths tid tn a c"
proof (induction arbitrary: a rule: premise_growths.induct)
  case (none b c)
  then show ?case by (intro premise_growths.none premise_frame_trans [of a b c])
next
  case (more b d1 c)
  have "premise_growth tid tn a d1" using more.hyps(1) more.prems appended_frame [OF more.prems, of _ d1 d1]
    by (auto simp: premise_growth_def premise_frame_def)
  then show ?case using more.hyps(2) by (rule premise_growths.more)
qed

text \<open>Every mutation of a premise, whichever it is.\<close>

lemma mutation_growth:
  assumes uniq: "uniq_by x_id (externalRefs d)"
    and b: "build \<in> {build_proposal tid p, build_challenge tid c, build_decision tid v}"
    and f: "premise_mutation_fresh env tid ctx build identity now d = Inr (d', r, evs)"
  shows "premise_growths tid (tenant_of ctx) d d' \<and> uninvalidated tid (tenant_of ctx) d"
proof -
  have un: "uninvalidated tid (tenant_of ctx) d"
  proof (rule premise_mutation_basis [OF f])
    fix st p0 d1 built
    assume "premise_view tid (tenant_of ctx) d st"
      and "build d1 \<lparr>ba_tenantId = tenant_of ctx, ba_now = now, ba_principal = p0, ba_state = st\<rparr> = Inr built"
    moreover from this(2) b have "ps_invalidation st = None"
      by (auto elim!: build_proposal_Inr build_challenge_Inr build_decision_Inr)
    ultimately show ?thesis unfolding uninvalidated_def getTaskPremiseState_view by blast
  qed
  have one: "premise_growth tid (tenant_of ctx) e e'" if "appended e x e'" "\<forall>y \<in> set (externalRefs e). x_id y \<noteq> x_id x"
      "\<And>k tn. premise_ref_of k tn x \<longleftrightarrow> k = tid \<and> tn = tenant_of ctx" "premise_view tid (tenant_of ctx) e' st" for e e' x st
    unfolding premise_growth_def readable_view using that by blast
  from b have "premise_growths tid (tenant_of ctx) d d'"
  proof (elim insertE emptyE)
    assume e: "build = build_proposal tid p"
    show ?thesis
      by (rule proposal_step [OF f [unfolded e]]) (rule premise_growths.more [OF one premise_growths.none [OF premise_frame_refl]])
  next
    assume e: "build = build_challenge tid c"
    show ?thesis
      by (rule challenge_step [OF f [unfolded e]]) (rule premise_growths.more [OF one premise_growths.none [OF premise_frame_refl]])
  next
    assume e: "build = build_decision tid v"
    show ?thesis
    proof (rule decision_step [OF f [unfolded e] uniq])
      fix st proposal x da decs
      assume a: "appended d x da" "\<forall>y \<in> set (externalRefs d). x_id y \<noteq> x_id x"
          "\<And>k tn. premise_ref_of k tn x \<longleftrightarrow> k = tid \<and> tn = tenant_of ctx"
          "premise_view tid (tenant_of ctx) da (st\<lparr>ps_decisions := decs\<rparr>)"
        and nr: "\<not> refutes v proposal \<Longrightarrow> premise_frame da d'"
        and rf: "refutes v proposal \<Longrightarrow> settled_work tid (tenant_of ctx) d' \<and> (\<exists>y w. appended da y d' \<and>
         (\<forall>z \<in> set (externalRefs da). x_id z \<noteq> x_id y) \<and> (\<forall>k tn. premise_ref_of k tn y \<longleftrightarrow> k = tid \<and> tn = tenant_of ctx) \<and>
         x_resourceType y = TASK_PREMISE_INVALIDATION_URI \<and>
         premise_view tid (tenant_of ctx) d' (st\<lparr>ps_decisions := decs, ps_invalidation := Some (x_id y, w), ps_actionable := False\<rparr>))"
      have g: "premise_growth tid (tenant_of ctx) d da" by (rule one [OF a])
      have "premise_growths tid (tenant_of ctx) da d'"
      proof (cases "refutes v proposal")
        case True
        then obtain y st2 where "appended da y d'" "\<forall>z \<in> set (externalRefs da). x_id z \<noteq> x_id y"
          "\<And>k tn. premise_ref_of k tn y \<longleftrightarrow> k = tid \<and> tn = tenant_of ctx" "premise_view tid (tenant_of ctx) d' st2"
          using rf by blast
        then show ?thesis by (rule premise_growths.more [OF one premise_growths.none [OF premise_frame_refl]])
      qed (blast intro: premise_growths.none nr)
      with g show ?thesis by (rule premise_growths.more)
    qed
  qed
  with un show ?thesis by blast
qed

lemma mutation_op:
  assumes uniq: "uniq_by x_id (externalRefs d)"
    and b: "build \<in> {build_proposal tid p, build_challenge tid c, build_decision tid v}"
    and op: "d' = fst (appendPremiseMutation env tid op request ctx build d)"
  shows "premise_growths tid (tenant_of ctx) d d' \<and> (premise_frame d d' \<or> uninvalidated tid (tenant_of ctx) d)"
proof (cases "snd (appendPremiseMutation env tid op request ctx build d)")
  case (Inl e)
  then have "d' = d" using op unfolding appendPremiseMutation_def Let_def
    by (auto simp: prologue_def runInTransaction_def split: sum.splits prod.splits option.splits)
  then show ?thesis by (simp add: premise_growths.none)
next
  case (Inr r)
  then have "appendPremiseMutation env tid op request ctx build d = (d', Inr r)" using op by (metis prod.collapse)
  then show ?thesis
  proof (cases rule: premise_mutation_cases)
    case again
    then show ?thesis by (simp add: premise_growths.none)
  next
    case (fresh now identity d1 d2 evs)
    have "uniq_by x_id (externalRefs d1)" using uniq fresh(1) by (simp add: premise_frame_def)
    from mutation_growth [OF this b fresh(3)] have g: "premise_growths tid (tenant_of ctx) d d2" "uninvalidated tid (tenant_of ctx) d"
      using premise_growths_frame [OF _ fresh(1)] premise_uninvalidated_frame [OF fresh(1)] by blast+
    have "premise_growths tid (tenant_of ctx) a b" if "premise_growths tid (tenant_of ctx) a d2" "premise_frame d2 b" for a b
      using that by (induction rule: premise_growths.induct) (auto intro: premise_growths.intros premise_frame_trans)
    with g fresh(4) show ?thesis by blast
  qed
qed

lemma creation_op:
  assumes inv: "premises_inv (tenant_of ctx) d" and op: "d' = fst (createTaskWithPremise env taskInput premiseInput ctx d)"
  shows "premise_frame d d' \<or> (\<exists>da t. tasks da = tasks d @ [t] \<and> externalRefs da = externalRefs d \<and>
    task_row (t_id t) (tenant_of ctx) d = None \<and> premise_growth (t_id t) (tenant_of ctx) da d')"
proof (cases "snd (createTaskWithPremise env taskInput premiseInput ctx d)")
  case (Inl e)
  then have "d' = d" using op unfolding createTaskWithPremise_def Let_def
    by (auto simp: prologue_def runInTransaction_def split: sum.splits prod.splits option.splits)
  then show ?thesis by simp
next
  case (Inr k)
  then have "createTaskWithPremise env taskInput premiseInput ctx d = (d', Inr k)" using op by (metis prod.collapse)
  then obtain parsed i identity now d2 evs n j where tx: "premisedTx env parsed i ctx identity now d = Inr (d2, k, evs)"
    and d': "d' = d2\<lparr>committedMutations := n, journal := j\<rparr>"
    unfolding createTaskWithPremise_def by (auto simp: Let_def res)
  have last: "premise_frame d2 d'" using d' by (simp add: premise_frame_def)
  obtain d1 found where f: "findIdempotencyResult identity d = Inr (d1, found)"
    and b: "(case found of None \<Rightarrow> premised_fresh env parsed i ctx identity now d1
       | Some prior \<Rightarrow> (case replay_premised (tenant_of ctx) prior d1 of Inl e \<Rightarrow> Inl e | Inr r \<Rightarrow> Inr (d1, r, []))) = Inr (d2, k, evs)"
    using tx unfolding premisedTx_def by (auto simp: res)
  note f = premise_frame_find [OF f]
  show ?thesis
  proof (cases found)
    case (Some prior)
    then have "d2 = d1" using b by (auto simp: res)
    then show ?thesis using premise_frame_trans [OF f] last by blast
  next
    case None
    then have fr: "premised_fresh env parsed i ctx identity now d1 = Inr (d2, k, evs)" using b by simp
    have inv1: "premises_inv (tenant_of ctx) d1" using inv premises_inv_frame [OF f] by simp
    show ?thesis
    proof (rule premised_step [OF fr inv1])
      fix da x st
      assume a: "tasks da = tasks d1 @ [pk_task k]" "externalRefs da = externalRefs d1" "appended da x d2"
          "\<forall>y \<in> set (externalRefs da). x_id y \<noteq> x_id x"
          "\<And>j tn. premise_ref_of j tn x \<longleftrightarrow> j = t_id (pk_task k) \<and> tn = tenant_of ctx"
          "premise_view (t_id (pk_task k)) (tenant_of ctx) d2 st" "task_row (t_id (pk_task k)) (tenant_of ctx) d1 = None"
      have "premise_growth (t_id (pk_task k)) (tenant_of ctx) da d'"
        unfolding premise_growth_def readable_view premise_frame_view [OF last]
        using appended_frame [OF premise_frame_refl a(3) last] a(4-6) by blast
      then show ?thesis using a(1,2,7) f by (intro disjI2 exI [of _ da] exI [of _ "pk_task k"]) (simp add: premise_frame_def task_row_def)
    qed
  qed
qed

lemma propose_op:
  "uniq_by x_id (externalRefs d) \<Longrightarrow> premise_growths tid (tenant_of ctx) d (fst (proposeTaskPremise env tid p ctx d)) \<and>
     (premise_frame d (fst (proposeTaskPremise env tid p ctx d)) \<or> uninvalidated tid (tenant_of ctx) d)"
  unfolding proposeTaskPremise_def Let_def by (rule mutation_op [OF _ insertI1 refl])

lemma challenge_op:
  "uniq_by x_id (externalRefs d) \<Longrightarrow> premise_growths tid (tenant_of ctx) d (fst (challengeTaskPremise env tid c ctx d)) \<and>
     (premise_frame d (fst (challengeTaskPremise env tid c ctx d)) \<or> uninvalidated tid (tenant_of ctx) d)"
  unfolding challengeTaskPremise_def Let_def by (rule mutation_op [OF _ insertI2 [OF insertI1] refl])

lemma decide_op:
  "uniq_by x_id (externalRefs d) \<Longrightarrow> premise_growths tid (tenant_of ctx) d (fst (decideTaskPremise env tid v ctx d)) \<and>
     (premise_frame d (fst (decideTaskPremise env tid v ctx d)) \<or> uninvalidated tid (tenant_of ctx) d)"
  unfolding decideTaskPremise_def Let_def by (rule mutation_op [OF _ insertI2 [OF insertI2 [OF insertI1]] refl])

lemma premise_op_effect:
  assumes "premise_op env d d'" and inv: "\<And>tn. premises_inv tn d"
  obtains (grown) tid tn where "premise_growths tid tn d d'" "premise_frame d d' \<or> uninvalidated tid tn d"
  | (created) da t tn where "tasks da = tasks d @ [t]" "externalRefs da = externalRefs d" "task_row (t_id t) tn d = None"
      "premise_growth (t_id t) tn da d'"
proof -
  have u: "uniq_by x_id (externalRefs d)" using inv by (simp add: premises_inv_def)
  from assms(1) show thesis
  proof (cases rule: premise_op.cases)
    case (create taskInput premiseInput ctx)
    from creation_op [OF inv create(1)] show thesis using grown [OF premise_growths.none] created by blast
  next
    case (propose tid p ctx)
    show thesis using grown [of tid "tenant_of ctx"] propose_op [OF u] unfolding propose by blast
  next
    case (challenge tid c ctx)
    show thesis using grown [of tid "tenant_of ctx"] challenge_op [OF u] unfolding challenge by blast
  next
    case (decide tid v ctx)
    show thesis using grown [of tid "tenant_of ctx"] decide_op [OF u] unfolding decide by blast
  qed
qed

lemma premise_op_inv:
  assumes "premise_op env d d'" and inv: "\<And>tn. premises_inv tn d" shows "premises_inv tn d'"
  using assms
proof (cases rule: premise_op_effect)
  case (grown tid tn0)
  then show ?thesis using growths_keep_inv inv by blast
next
  case (created da t tn0)
  then show ?thesis using growth_keeps_inv premises_inv_new_task inv by blast
qed

lemma premise_op_final:
  assumes "premise_op env d d'" and inv: "\<And>tn. premises_inv tn d" and v: "premise_view tid tn d st" "ps_invalidation st \<noteq> None"
  shows "premise_view tid tn d' st"
  using assms(1) inv
proof (cases rule: premise_op_effect)
  case (grown tid0 tn0)
  have "(tid, tn) \<noteq> (tid0, tn0)" if "uninvalidated tid0 tn0 d" using that v
    unfolding uninvalidated_def getTaskPremiseState_view [symmetric] by auto
  with grown(2) show ?thesis
    using growths_keep_view [OF grown(1) _ v(1)] premise_frame_view [of d d' tid tn] v(1) by auto
next
  case (created da t tn0)
  have "(tid, tn) \<noteq> (t_id t, tn0)" using v(1) created(3) by (auto simp: premise_view_def res)
  from growth_keeps_view [OF created(4) this view_new_task [OF v(1) created(1,2)]] show ?thesis .
qed

text \<open>C12. The records of a premise stay bound to each other and to their commitment: whatever is created, proposed,
  challenged and decided, by whoever and on whatever commitment, every premise record belongs to a commitment
  whose premise state can still be read, so none of the drift errors is ever raised.\<close>

theorem premises_stay_readable:
  assumes "(premise_op env)\<^sup>*\<^sup>* d d'" and "\<forall>tn. premises_inv tn d"
  shows "\<forall>tn. premises_inv tn d'"
  using assms by (induction rule: rtranclp_induct) (auto intro: premise_op_inv)

text \<open>C13. An invalidation is final: once the premise of a commitment is invalidated, its state is the same after
  any sequence of premise operations, on this commitment and on others.\<close>

theorem premise_invalidation_final:
  assumes "(premise_op env)\<^sup>*\<^sup>* d d'" and "\<forall>tn. premises_inv tn d"
    and "getTaskPremiseState tid tn d = Inr (Some st)" and "ps_invalidation st \<noteq> None"
  shows "getTaskPremiseState tid tn d' = Inr (Some st)"
proof -
  from assms(1-3) have "(\<forall>tn. premises_inv tn d') \<and> premise_view tid tn d' st"
    unfolding getTaskPremiseState_view
    by (induction rule: rtranclp_induct) (use assms(4) in \<open>auto intro: premise_op_inv premise_op_final\<close>)
  then show ?thesis by (simp add: getTaskPremiseState_view)
qed


lemma invalidation_stops_claims:
  assumes "x \<in> set (externalRefs d)" "x_resourceType x = TASK_PREMISE_INVALIDATION_URI" "premise_ref_of tid (tenant_of (ac_ctx opts)) x"
    and "ctx_idempotencyKey (ac_ctx opts) = None"
  shows "\<not> returned (snd (acquireTaskClaim env tid opts d))"
proof
  assume "returned (snd (acquireTaskClaim env tid opts d))"
  from acquire_success [OF returned_op [OF this] assms(4)]
  have "\<not> list_ex (invalidation_of tid (tenant_of (ac_ctx opts))) (externalRefs d)"
    by (metis acquire_fresh_gates)
  with assms(1-3) show False by (auto simp: list_ex_iff invalidation_of_def premise_ref_of_def)
qed


section \<open>A sample premise\<close>

text \<open>The commitment \<open>t1\<close>, claimed by \<open>bob\<close>, rests on a premise that \<open>alice\<close> proposes to refute.\<close>

definition sample_typed_ref :: "string \<Rightarrow> string \<Rightarrow> metadata \<Rightarrow> int \<Rightarrow> external_ref" where
  "sample_typed_ref xid rt v now = \<lparr>x_id = xid, x_tenantId = ''w'', x_recordType = ''commitment'', x_recordId = ''t1'',
     x_system = TASK_PREMISE_SYSTEM_URI, x_resourceType = rt, x_externalId = xid, x_url = None, x_version = Some ''1'',
     x_digest = None, x_metadata = v, x_createdByPrincipalId = ''p1'', x_createdAt = now\<rparr>"

definition sample_premise :: task_premise where
  "sample_premise = \<lparr>tp_taskId = ''t1'', tp_taskRevision = 1, tp_observationId = ''o1'',
     tp_observationDigest = ''sha256:'' @ replicate 64 (CHR ''a''), tp_proposition = ''it is dry'',
     tp_eligibleValidatorPrincipalIds = [''p2''], tp_adjudicatorPrincipalIds = [], tp_allowSelfValidation = False,
     tp_createdByPrincipalId = ''p1'', tp_createdAt = 1000\<rparr>"

definition sample_refutation :: premise_proposal where
  "sample_refutation = \<lparr>pp_taskId = ''t1'', pp_premiseId = ''x1'', pp_verdict = Refute, pp_evidenceIds = [''e1''],
     pp_rationale = ''it rains'', pp_proposedByPrincipalId = ''p1'', pp_proposedAt = 2000\<rparr>"

definition sample_premise_db :: db where
  "sample_premise_db = sample_claimed_db\<lparr>externalRefs :=
     [sample_typed_ref ''x1'' TASK_PREMISE_URI (task_premise_json sample_premise) 1000,
      sample_typed_ref ''x2'' TASK_PREMISE_PROPOSAL_URI (premise_proposal_json sample_refutation) 2000]\<rparr>"

abbreviation sample_verdict :: premise_decision_input where
  "sample_verdict \<equiv> \<lparr>qd_proposalId = ''x2'', qd_outcome = PremiseAccepted, qd_rationale = ''checked''\<rparr>"

abbreviation sample_invalidated :: "db \<times> (err + premise_record)" where
  "sample_invalidated \<equiv> decideTaskPremise hex_env ''t1'' sample_verdict (sample_ctx ''bob'' 3000) sample_premise_db"

abbreviation sample_premise_state :: task_premise_state where
  "sample_premise_state \<equiv> the (projr (getTaskPremiseState ''t1'' ''w'' sample_premise_db))"

lemma sample_premise_states:
  "getTaskPremiseState ''t1'' ''w'' sample_premise_db = Inr (Some sample_premise_state)"
  "(''x2'', sample_refutation) \<in> set (ps_proposals sample_premise_state)"
  "''p2'' \<in> set (tp_eligibleValidatorPrincipalIds (ps_premise sample_premise_state))"
  "refutes sample_verdict sample_refutation"
  by code_simp+

lemma sample_invalidated_ok: "returned (snd sample_invalidated)" by code_simp

lemma sample_invalidated_new: "\<not> px_replayed (projr (snd sample_invalidated))" by code_simp

lemma sample_premise_inv: "\<forall>tn. premises_inv tn sample_premise_db"
proof -
  have "readable ''t1'' ''w'' sample_premise_db" using sample_premise_states(1) by (auto simp: readable_def)
  then show ?thesis
    by (auto simp: premises_inv_def premise_ref_of_def sample_premise_db_def sample_typed_ref_def uniq_by_def)
qed

theorem premises_stay_readable_witness: "\<forall>tn. premises_inv tn (fst sample_invalidated)"
  by (rule premises_stay_readable [OF r_into_rtranclp sample_premise_inv, OF premise_op.decide])



lemma sample_invalidated_state: "\<exists>st'. getTaskPremiseState ''t1'' ''w'' (fst sample_invalidated) = Inr (Some st') \<and> ps_invalidation st' \<noteq> None"
proof -
  let ?st = "the (projr (getTaskPremiseState ''t1'' ''w'' (fst sample_invalidated)))"
  have "getTaskPremiseState ''t1'' ''w'' (fst sample_invalidated) = Inr (Some ?st) \<and> ps_invalidation ?st \<noteq> None" by code_simp
  then show ?thesis by blast
qed

abbreviation sample_proposed_again :: db where
  "sample_proposed_again \<equiv> fst (proposeTaskPremise hex_env ''t1''
     \<lparr>qp_verdict = Uphold, qp_evidenceIds = [''e1''], qp_rationale = ''again''\<rparr> (sample_ctx ''alice'' 4000) (fst sample_invalidated))"

theorem premise_invalidation_final_witness:
  "\<exists>st'. getTaskPremiseState ''t1'' ''w'' sample_proposed_again = Inr (Some st') \<and> ps_invalidation st' \<noteq> None"
proof -
  obtain st' where st': "getTaskPremiseState ''t1'' ''w'' (fst sample_invalidated) = Inr (Some st')" "ps_invalidation st' \<noteq> None"
    using sample_invalidated_state by blast
  have inv: "\<forall>tn. premises_inv tn (fst sample_invalidated)" using premise_op_inv [OF premise_op.decide] sample_premise_inv by blast
  have "(premise_op hex_env)\<^sup>*\<^sup>* (fst sample_invalidated) sample_proposed_again"
    by (rule r_into_rtranclp, rule premise_op.propose)
  from premise_invalidation_final [OF this inv st'] st'(2) show ?thesis by blast
qed

end
