(* ===== verification/Claim_Lock.thy ===== *)
theory Claim_Lock
  imports Budget_Enforcement Task_Deletion Premise_State
begin

text \<open>
  What claims promise, as an abstract specification: a fenced lock per commitment. A lock knows the last
  fence it handed out and the grant that stands. Asking hands out the next fence when no grant stands or
  the grant has expired, and extends the grant for its owner; its owner, or anyone by force, gives it up;
  the work on a commitment being over, its grant is withdrawn. Every operation that writes claims
  (\<open>agentic.ts\<close>, \<open>tasks.ts\<close>, \<open>costs.ts\<close>, \<open>premises.ts\<close>) is simulated by one step of the locks, so a run of
  the program is a run of the locks, and a fence that lost its commitment is dead for ever.
\<close>

section \<open>The locks\<close>

record claim_grant =
  gr_principal :: "string option"
  gr_actor :: string
  gr_fence :: int
  gr_expires :: int

record claim_lock =
  lk_fence :: int
  lk_grant :: "claim_grant option"

type_synonym claim_locks = "string \<times> string \<Rightarrow> claim_lock"

text \<open>Who asks, when, and what for.\<close>

datatype lock_request = Asked int string string | Released string string bool | Settled

definition owns :: "string \<Rightarrow> string \<Rightarrow> claim_grant \<Rightarrow> bool" where
  "owns pid actor g \<longleftrightarrow> (if truthy_str (gr_principal g) then gr_principal g = Some pid else gr_actor g = actor)"

definition withdrawn :: "(string \<times> string) set \<Rightarrow> claim_locks \<Rightarrow> claim_locks" where
  "withdrawn K L = (\<lambda>k. if k \<in> K then (L k)\<lparr>lk_grant := None\<rparr> else L k)"

inductive lock_step :: "claim_locks \<Rightarrow> lock_request \<Rightarrow> claim_locks \<Rightarrow> bool" where
  idle: "lock_step L q L"
| hand_out: "lock_step L (Asked now pid actor) (L(k := \<lparr>lk_fence = lk_fence (L k) + 1, lk_grant =
     Some \<lparr>gr_principal = Some pid, gr_actor = actor, gr_fence = lk_fence (L k) + 1, gr_expires = expires\<rparr>\<rparr>))"
  if "\<forall>g. lk_grant (L k) = Some g \<longrightarrow> gr_expires g \<le> now"
| extend: "lock_step L (Asked now pid actor) (L(k := (L k)\<lparr>lk_grant := Some (g\<lparr>gr_expires := expires\<rparr>)\<rparr>))"
  if "lk_grant (L k) = Some g" and "now < gr_expires g" and "owns pid actor g"
| give_up: "lock_step L (Released pid actor force) (L(k := (L k)\<lparr>lk_grant := None\<rparr>))"
  if "lk_grant (L k) = Some g" and "force \<or> owns pid actor g"
| settle: "lock_step L Settled (withdrawn K L)"

inductive_cases lock_stepE: "lock_step L q L'"

text \<open>Runs of a labelled step relation, and the simulation of one by another.\<close>

inductive runs :: "('s \<Rightarrow> 'l \<Rightarrow> 's \<Rightarrow> bool) \<Rightarrow> 's \<Rightarrow> 'l list \<Rightarrow> 's \<Rightarrow> bool" for step where
  stop: "runs step s [] s"
| go: "runs step s (l # ls) s''" if "step s l s'" and "runs step s' ls s''"

inductive_simps runs_Nil [simp]: "runs step s [] s'"
inductive_simps runs_Cons: "runs step s (l # ls) s'"

lemma runs_append: "runs step a ls b \<Longrightarrow> runs step b ls' c \<Longrightarrow> runs step a (ls @ ls') c"
  by (induction rule: runs.induct) (auto intro: runs.intros)

lemma runs_preorder:
  assumes "runs step a ls b" and "\<And>x. R x x" and "\<And>x y z. R x y \<Longrightarrow> R y z \<Longrightarrow> R x z"
    and "\<And>x l y. step x l y \<Longrightarrow> R x y"
  shows "R a b"
  using assms(1) by induction (auto intro: assms(2-4))

locale labelled_simulation =
  fixes concrete :: "'s \<Rightarrow> 'l \<Rightarrow> 's \<Rightarrow> bool" and abstract :: "'a \<Rightarrow> 'l \<Rightarrow> 'a \<Rightarrow> bool"
    and view :: "'s \<Rightarrow> 'a" and I :: "'s \<Rightarrow> bool"
  assumes simulated: "I s \<Longrightarrow> concrete s l s' \<Longrightarrow> abstract (view s) l (view s')"
    and kept: "I s \<Longrightarrow> concrete s l s' \<Longrightarrow> I s'"
begin

lemma runs_kept: "runs concrete s ls s' \<Longrightarrow> I s \<Longrightarrow> I s'"
  by (induction rule: runs.induct) (auto intro: kept)

lemma runs_simulated: "runs concrete s ls s' \<Longrightarrow> I s \<Longrightarrow> runs abstract (view s) ls (view s')"
  by (induction rule: runs.induct) (auto intro: runs.intros simulated kept)

text \<open>What holds of every abstract step and composes holds between the ends of a concrete run.\<close>

lemma runs_related:
  assumes "runs concrete s ls s'" and "I s" and "\<And>x. R x x" and "\<And>x y z. R x y \<Longrightarrow> R y z \<Longrightarrow> R x z"
    and "\<And>x l y. abstract x l y \<Longrightarrow> R x y"
  shows "R (view s) (view s')"
  using runs_preorder [OF runs_simulated [OF assms(1,2)], of R] assms(3-5) by blast

end

text \<open>The progress of a lock: fences only grow, and a grant that stands later is either the same lease or
  carries a fence handed out in between.\<close>

definition same_lease :: "claim_grant \<Rightarrow> claim_grant \<Rightarrow> bool" where
  "same_lease g g' \<longleftrightarrow> gr_principal g' = gr_principal g \<and> gr_actor g' = gr_actor g \<and> gr_fence g' = gr_fence g"

definition lock_grown :: "claim_lock \<Rightarrow> claim_lock \<Rightarrow> bool" where
  "lock_grown l l' \<longleftrightarrow> lk_fence l \<le> lk_fence l' \<and> (\<forall>g'. lk_grant l' = Some g' \<longrightarrow>
     lk_fence l < gr_fence g' \<or> (\<exists>g. lk_grant l = Some g \<and> same_lease g g'))"

definition lock_later :: "claim_locks \<Rightarrow> claim_locks \<Rightarrow> bool" where
  "lock_later L L' \<longleftrightarrow> (\<forall>k. lock_grown (L k) (L' k))"

lemma lock_grown_refl: "lock_grown l l"
  by (simp add: lock_grown_def same_lease_def)

lemma lock_grown_trans:
  assumes a: "lock_grown l m" and b: "lock_grown m n" shows "lock_grown l n"
  unfolding lock_grown_def
proof (intro conjI allI impI)
  from a b have f: "lk_fence l \<le> lk_fence m" "lk_fence m \<le> lk_fence n" by (simp_all add: lock_grown_def)
  then show "lk_fence l \<le> lk_fence n" by simp
  fix g assume "lk_grant n = Some g"
  with b consider "lk_fence m < gr_fence g" | h where "lk_grant m = Some h" "same_lease h g"
    by (auto simp: lock_grown_def)
  then show "lk_fence l < gr_fence g \<or> (\<exists>h. lk_grant l = Some h \<and> same_lease h g)"
  proof cases
    case 2
    from a 2(1) have "lk_fence l < gr_fence h \<or> (\<exists>g0. lk_grant l = Some g0 \<and> same_lease g0 h)"
      by (simp add: lock_grown_def)
    with 2(2) show ?thesis by (auto simp: same_lease_def)
  qed (use f in simp)
qed

lemma lock_later_refl: "lock_later L L"
  by (simp add: lock_later_def lock_grown_refl)

lemma lock_later_trans: "lock_later L M \<Longrightarrow> lock_later M N \<Longrightarrow> lock_later L N"
  unfolding lock_later_def using lock_grown_trans by fast

lemma lock_step_later: "lock_step L q L' \<Longrightarrow> lock_later L L'"
  by (induction rule: lock_step.induct) (simp_all add: lock_later_def lock_grown_def same_lease_def withdrawn_def)

section \<open>The locks of a ledger\<close>

definition grant_of :: "task_claim \<Rightarrow> claim_grant" where
  "grant_of c = \<lparr>gr_principal = c_principalId c, gr_actor = c_actor c, gr_fence = c_fence c, gr_expires = c_expiresAt c\<rparr>"

definition claim_scope :: "task_claim \<Rightarrow> string \<times> string" where
  "claim_scope c = (c_tenantId c, c_taskId c)"

definition open_in :: "string \<times> string \<Rightarrow> task_claim \<Rightarrow> bool" where
  "open_in k c \<longleftrightarrow> claim_scope c = k \<and> c_releasedAt c = None"

definition lock_of :: "task_claim list \<Rightarrow> claim_locks" where
  "lock_of cs k = \<lparr>lk_fence = top_fence (map c_fence (filter (\<lambda>c. claim_scope c = k) cs)),
     lk_grant = map_option grant_of (find (open_in k) cs)\<rparr>"

definition locks_of :: "db \<Rightarrow> claim_locks" where
  "locks_of d = lock_of (claims d)"

lemma open_in_unreleased: "open_in (tn, tid) = unreleased_claim tid tn"
  by (auto simp: open_in_def claim_scope_def unreleased_claim_def fun_eq_iff)

lemma scope_simps [simp]:
  "claim_scope (close_claim r now c) = claim_scope c" "claim_scope (renew_claim now e c) = claim_scope c"
  "\<not> open_in k (close_claim r now c)" "open_in k (renew_claim now e c) = open_in k c"
  "c_fence (close_claim r now c) = c_fence c" "c_fence (renew_claim now e c) = c_fence c"
  by (simp_all add: claim_scope_def open_in_def close_claim_def renew_claim_def)

lemma top_fence_update:
  assumes "\<And>c. claim_scope (f c) = claim_scope c" and "\<And>c. c_fence (f c) = c_fence c"
  shows "map c_fence (filter (\<lambda>c. claim_scope c = k) (update_rows P f cs)) = map c_fence (filter (\<lambda>c. claim_scope c = k) cs)"
  by (induction cs) (simp_all add: assms)

lemma open_unique_in:
  "claim_lease.table_inv cs \<Longrightarrow> x \<in> set cs \<Longrightarrow> y \<in> set cs \<Longrightarrow> open_in k x \<Longrightarrow> open_in k y \<Longrightarrow> x = y"
  using claim_lease.open_unique [of cs x y] by (auto simp: open_in_def claim_scope_def)

lemma find_open:
  assumes "claim_lease.table_inv cs" and "c \<in> set cs" and "open_in k c" shows "find (open_in k) cs = Some c"
proof (cases "find (open_in k) cs")
  case None
  with assms(2,3) show ?thesis by (auto dest: find_NoneD)
next
  case (Some x)
  then have "x \<in> set cs" "open_in k x" by (auto dest: find_SomeD)
  from open_unique_in [OF assms(1) this(1) assms(2) this(2) assms(3)] Some show ?thesis by simp
qed

text \<open>Closing rows withdraws the grants among them.\<close>

lemma lock_of_close:
  assumes "claim_lease.table_inv cs"
  shows "lock_of (update_rows P (close_claim r now) cs) = withdrawn {k. \<exists>c \<in> set cs. open_in k c \<and> P c} (lock_of cs)"
proof (rule ext)
  fix k
  have "find (open_in k) (update_rows P (close_claim r now) cs) =
    (if \<exists>c \<in> set cs. open_in k c \<and> P c then None else find (open_in k) cs)"
  proof (cases "\<exists>c \<in> set cs. open_in k c \<and> P c")
    case True
    then obtain c where c: "c \<in> set cs" "open_in k c" "P c" by blast
    have "\<not> open_in k x" if "x \<in> set (update_rows P (close_claim r now) cs)" for x
      using that by (cases rule: update_rows_cases) (use open_unique_in [OF assms _ c(1) _ c(2)] c(3) in auto)
    with True show ?thesis by (auto simp: find_None_iff)
  next
    case False
    then show ?thesis by (subst find_update_rows_other) auto
  qed
  then show "lock_of (update_rows P (close_claim r now) cs) k = withdrawn {k. \<exists>c \<in> set cs. open_in k c \<and> P c} (lock_of cs) k"
    by (cases "\<exists>c \<in> set cs. open_in k c \<and> P c") (auto simp add: lock_of_def withdrawn_def top_fence_update)
qed

text \<open>Extending the claim that stands, and adding one after it is closed.\<close>

lemma lock_of_renew:
  assumes inv: "claim_lease.table_inv cs" "uniq_by c_id cs" and c: "c \<in> set cs" "open_in k c"
  shows "lock_of (update_rows (\<lambda>x. c_id x = c_id c \<and> m x) (renew_claim now ex) cs) = (if m c
    then (lock_of cs)(k := (lock_of cs k)\<lparr>lk_grant := Some ((grant_of c)\<lparr>gr_expires := ex\<rparr>)\<rparr>) else lock_of cs)"
    (is "lock_of (update_rows ?P _ _) = _")
proof (rule ext)
  fix k'
  have only: "?P x \<longleftrightarrow> x = c \<and> m c" if "x \<in> set cs" for x using uniq_by_eqD [OF inv(2) that c(1)] by auto
  have found: "find (open_in k') (update_rows ?P (renew_claim now ex) cs) =
      map_option (\<lambda>r. if ?P r then renew_claim now ex r else r) (find (open_in k') cs)"
    by (rule find_update_rows_key) simp
  have "find (open_in k') (update_rows ?P (renew_claim now ex) cs) =
      (if k' = k \<and> m c then Some (renew_claim now ex c) else find (open_in k') cs)"
  proof (cases "find (open_in k') cs")
    case None
    have "k' \<noteq> k" using find_open [OF inv(1) c] None by auto
    with None found show ?thesis by simp
  next
    case (Some x)
    then have x: "x \<in> set cs" "open_in k' x" by (auto dest: find_SomeD)
    have "x = c \<longleftrightarrow> k' = k" using x c open_unique_in [OF inv(1) x(1) c(1), of k] by (auto simp: open_in_def)
    with Some found only [OF x(1)] show ?thesis by auto
  qed
  then show "lock_of (update_rows ?P (renew_claim now ex) cs) k' = (if m c
    then (lock_of cs)(k := (lock_of cs k)\<lparr>lk_grant := Some ((grant_of c)\<lparr>gr_expires := ex\<rparr>)\<rparr>) else lock_of cs) k'"
    using top_fence_update [of "renew_claim now ex" k' ?P cs]
    by (auto simp: lock_of_def grant_of_def) (simp_all add: renew_claim_def)
qed

lemma top_fence_next: "top_fence (fs @ [top_fence fs + 1]) = top_fence fs + 1"
  by (simp add: top_fence_def)

lemma lock_of_append:
  assumes "claim_scope c = k" and "c_releasedAt c = None" and "c_fence c = claim_lease.next_fence k cs"
    and "\<And>x. x \<in> set cs \<Longrightarrow> \<not> open_in k x"
  shows "lock_of (cs @ [c]) = (lock_of cs)(k := \<lparr>lk_fence = lk_fence (lock_of cs k) + 1, lk_grant = Some (grant_of c)\<rparr>)"
proof (rule ext)
  fix k'
  have f: "find (open_in k') (cs @ [c]) = (case find (open_in k') cs of None \<Rightarrow> if open_in k' c then Some c else None | Some x \<Rightarrow> Some x)"
    by (induction cs) auto
  have "find (open_in k) cs = None" using assms(4) by (auto simp: find_None_iff)
  then show "lock_of (cs @ [c]) k' =
      ((lock_of cs)(k := \<lparr>lk_fence = lk_fence (lock_of cs k) + 1, lk_grant = Some (grant_of c)\<rparr>)) k'"
    using assms(1-3) f top_fence_next
    by (auto simp: lock_of_def open_in_def claim_lease.next_fence_def claim_scope_def split: option.splits)
qed

section \<open>The operations that write claims\<close>

definition caller_id :: "env \<Rightarrow> service_context \<Rightarrow> int \<Rightarrow> db \<Rightarrow> string" where
  "caller_id env ctx now d = (case resolveCallerPrincipal env (tenant_of ctx) ctx (actor_of ctx) now d of
     Inl _ \<Rightarrow> [] | Inr (_, p) \<Rightarrow> p_id p)"

definition clock_of :: "service_context \<Rightarrow> int" where
  "clock_of ctx = (case serviceNow ctx of Inl _ \<Rightarrow> 0 | Inr now \<Rightarrow> now)"

definition ask_of :: "env \<Rightarrow> service_context \<Rightarrow> db \<Rightarrow> lock_request" where
  "ask_of env ctx d = Asked (clock_of ctx) (caller_id env ctx (clock_of ctx) d) (actor_of ctx)"

definition release_of :: "env \<Rightarrow> service_context \<Rightarrow> bool \<Rightarrow> db \<Rightarrow> lock_request" where
  "release_of env ctx force d = Released (caller_id env ctx (clock_of ctx) d) (actor_of ctx) force"

inductive claim_op :: "env \<Rightarrow> db \<Rightarrow> lock_request \<Rightarrow> db \<Rightarrow> bool" for env where
  acquire: "claim_op env d (ask_of env (ac_ctx opts) d) (fst (acquireTaskClaim env tid opts d))"
| release: "claim_op env d (release_of env (rl_ctx opts) (rl_force opts) d) (fst (releaseTaskClaim env tid opts d))"
| transition: "claim_op env d Settled (fst (transitionTaskStatus env hp tid to opts None d))"
| deletion: "claim_op env d Settled d'" if "softDeleteTask n env tid cascade ctx d = Some (d', r)"
| receipt: "claim_op env d Settled (fst (recordAttemptCost env aid i ctx d))"
| refutation: "claim_op env d Settled (fst (decideTaskPremise env tid j ctx d))"
| elsewhere: "claim_op env d q d'" if "claims d' = claims d"

text \<open>Closing claims, one selection of rows after the other.\<close>

definition closing :: "task_claim list \<Rightarrow> task_claim list \<Rightarrow> bool" where
  "closing cs cs' \<longleftrightarrow> (\<exists>P r now. cs' = update_rows P (close_claim r now) cs)"

definition settles :: "db \<Rightarrow> db \<Rightarrow> bool" where
  "settles d d' \<longleftrightarrow> closing\<^sup>*\<^sup>* (claims d) (claims d')"

lemma settles_refl: "claims d' = claims d \<Longrightarrow> settles d d'"
  by (simp add: settles_def)

lemma settles_trans: "settles a b \<Longrightarrow> settles b c \<Longrightarrow> settles a c"
  unfolding settles_def by (rule rtranclp_trans)

lemma settles_close: "claims d' = update_rows P (close_claim r now) (claims d) \<Longrightarrow> settles d d'"
  unfolding settles_def closing_def by (rule r_into_rtranclp) blast

lemma settles_inv:
  assumes "settles d d'" and "claims_inv d" shows "claims_inv d' \<and> (\<exists>K. locks_of d' = withdrawn K (locks_of d))"
proof -
  have "claim_lease.table_inv cs' \<and> uniq_by c_id cs' \<and> (\<exists>K. lock_of cs' = withdrawn K (lock_of cs))"
    if "closing\<^sup>*\<^sup>* cs cs'" "claim_lease.table_inv cs \<and> uniq_by c_id cs" for cs cs'
    using that
  proof (induction rule: rtranclp_induct)
    case base
    then show ?case by (intro conjI exI [of _ "{}"]) (simp_all add: withdrawn_def)
  next
    case (step b c)
    then obtain P r now K where c: "c = update_rows P (close_claim r now) b" and K: "lock_of b = withdrawn K (lock_of cs)"
      by (auto simp: closing_def)
    note b = step.IH [OF step.prems]
    have "lock_of c = withdrawn ({k. \<exists>x \<in> set b. open_in k x \<and> P x} \<union> K) (lock_of cs)"
      unfolding c using b by (subst lock_of_close) (auto simp: K withdrawn_def fun_eq_iff)
    then show ?case using b claim_lease.table_inv_close [of b P "(r, now)"] by (auto simp: c uniq_by_update_rows)
  qed
  with assms show ?thesis by (simp add: settles_def claims_inv_def locks_of_def)
qed

lemma settles_step: "settles d d' \<Longrightarrow> claims_inv d \<Longrightarrow> claims_inv d' \<and> lock_step (locks_of d) Settled (locks_of d')"
  using settles_inv by (metis lock_step.settle)

interpretation settles_tx: tx_invariant "settles d0" for d0
  by unfold_locales (simp_all add: settles_def)

lemma transition_settles: "settles d (fst (transitionTaskStatus env hp tid to opts None d))"
proof (rule transition_keeps [OF settles_tx.tx_invariant_axioms settles_refl])
  fix now occ identity d' t evs
  assume "transition_tx env hp tid to opts None identity (tenant_of (so_ctx opts)) (actor_of (so_ctx opts)) occ now d = Inr (d', t, evs)"
  then show "settles d d'"
    by (cases rule: transition_tx_tables) (auto intro: settles_refl settles_close)
qed simp

lemma close_claims_settles: "close_claims env tid tn actor now cs d = Inr (d', evs) \<Longrightarrow> settles d d'"
proof (induction cs arbitrary: d evs)
  case (Cons x cs)
  let ?d1 = "d\<lparr>claims := update_rows (\<lambda>y. c_id y = c_id x) (close_claim ''task_deleted'' now) (claims d)\<rparr>"
  obtain inp d2 ev evs' where 1: "recordEvent env inp now ?d1 = Inr (d2, ev)"
    and 2: "close_claims env tid tn actor now cs d2 = Inr (d', evs')"
    using Cons.prems by (auto simp: res dest!: update_claims_Inr)
  have "settles d d2" using recordEvent_frame [OF 1] by (auto intro: settles_close)
  with Cons.IH [OF 2] show ?case using settles_trans by blast
qed (simp add: settles_refl)

lemma tombstone_settles:
  assumes "tombstone_row env tid tn actor now d = Inr (d', evs)" shows "settles d d'"
proof -
  obtain d1 ev1 inp ev where 1: "closeAgentExecutionForDeletion env tid tn actor now d = Inr (d1, ev1)"
    and 2: "recordEvent env inp now (update_tasks (is_task tid tn) (tombstone now) d1) = Inr (d', ev)"
    using assms by (auto simp: tombstone_row_def res)
  obtain a ev2 b ev3 ids ev4 where 3: "close_claims env tid tn actor now (filter (unreleased_claim tid tn) (claims d)) d = Inr (a, ev2)"
    and 4: "close_attempts env tid tn actor now (filter (active_attempt_of tid tn) (attempts a)) a = Inr (b, ev3)"
    and 5: "cancelWaitingConditionsForTaskTx env tid tn actor now b = Inr (d1, ids, ev4)"
    using 1 by (auto simp: closeAgentExecutionForDeletion_def res)
  have "claims b = claims a" using close_attempts_result [OF 4] by blast
  moreover have "claims d1 = claims b" using conjunct1 [OF cancelWaiting_result [OF 5]] by auto
  moreover have "claims d' = claims d1" using recordEvent_frame [OF 2] by (auto simp: update_tasks_def)
  ultimately show ?thesis using close_claims_settles [OF 3] by (simp add: settles_def)
qed

lemma delete_settles:
  "softDeleteTaskTx n env tid tn actor now d = Some (Inr (d', evs)) \<Longrightarrow> settles d d'"
  "delete_children n env cs tn actor now d = Some (Inr (d', evs)) \<Longrightarrow> settles d d'"
proof (induction n env tid tn actor now d and n env cs tn actor now d arbitrary: d' evs and d' evs
    rule: softDeleteTaskTx_delete_children.induct)
  case (2 n env tid tn actor now d)
  show ?case
  proof (cases "task_row tid tn d = None \<or> (\<exists>t. task_row tid tn d = Some t \<and> t_deletedAt t \<noteq> None)")
    case True
    with 2 show ?thesis by (auto intro: settles_refl)
  next
    case False
    then obtain t where t: "task_row tid tn d = Some t" "t_deletedAt t = None" by auto
    with 2(2) obtain d1 ev1 ev2 where 1: "delete_children n env (liveSubtaskIds tid tn d) tn actor now d = Some (Inr (d1, ev1))"
      and w: "tombstone_row env tid tn actor now d1 = Inr (d', ev2)"
      by (auto simp: res split: option.splits sum.splits)
    have "settles d d1" by (rule 2(1) [OF t(1) _ 1]) (simp add: t(2))
    from settles_trans [OF this tombstone_settles [OF w]] show ?thesis .
  qed
next
  case (4 n env c cs tn actor now d)
  from 4(3) obtain d1 ev1 ev2 where 1: "softDeleteTaskTx n env c tn actor now d = Some (Inr (d1, ev1))"
    and 2: "delete_children n env cs tn actor now d1 = Some (Inr (d', ev2))"
    by (auto split: option.splits sum.splits)
  show ?case by (rule settles_trans [OF 4(1) [OF 1] 4(2) [OF 1 _ _ 2]]) simp_all
qed (auto intro: settles_refl)

lemma softDelete_settles: "softDeleteTask n env tid cascade ctx d = Some (d', r) \<Longrightarrow> settles d d'"
proof (erule softDelete_success)
  fix now d1 evs d2 evs' m j
  assume "delete_children n env (liveSubtaskIds tid (tenant_of ctx) d) (tenant_of ctx) (actor_of ctx) now d = Some (Inr (d1, evs))"
    "tombstone_row env tid (tenant_of ctx) (actor_of ctx) now d1 = Inr (d2, evs')" "d' = d2\<lparr>committedMutations := m, journal := j\<rparr>"
  then show "settles d d'" using settles_trans [OF delete_settles(2) tombstone_settles] by (simp add: settles_def)
qed (simp add: settles_refl)

lemma write_cost_settles:
  assumes "write_cost env tn actor ob identity p now d = Inr (d', r, evs)" shows "settles d d'"
proof (rule write_cost_result [OF assms])
  fix active
  assume "claims d' = (case active of None \<Rightarrow> claims d | Some c \<Rightarrow> if su_allowed (cx_summary r) then claims d
    else update_rows (\<lambda>x. c_id x = c_id c) (close_claim ''cost_bound_reached'' now) (claims d))"
  then show ?thesis by (auto split: option.splits if_splits intro: settles_refl settles_close)
qed

lemma replay_cost_same: "replay_cost env tn ob x d = Inr (d', r, evs) \<Longrightarrow> settles d0 d \<Longrightarrow> settles d0 d'"
  by (auto simp: replay_cost_def res)

lemma fresh_cost_settles:
  assumes "fresh_cost env tn ctx ob identity now d = Inr (d', r, evs)" shows "settles d d'"
proof (cases "cx_replayed r")
  case False
  then obtain ps p where "write_cost env tn (actor_of ctx) ob identity p now (d\<lparr>principals := ps\<rparr>) = Inr (d', r, evs)"
    by (rule fresh_cost_cases [OF assms])
  from write_cost_settles [OF this] show ?thesis by (simp add: settles_def)
next
  case True
  have "\<not> cx_replayed r'" if "write_cost env tn (actor_of ctx) ob identity p now a = Inr (b, r', es)" for p a b r' es
    using that by (auto simp: write_cost_def Let_def res split: prod.splits)
  with assms True show ?thesis
    unfolding fresh_cost_def
    by (auto simp: res settles_refl split: option.splits if_splits intro: replay_cost_same)
qed

lemma receipt_settles: "settles d (fst (recordAttemptCost env aid i ctx d))"
  unfolding recordAttemptCost_def Let_def
proof (rule settles_tx.operation3 [OF settles_refl])
  fix ob identity now d' r evs
  assume tx: "recordCostTx env (tenant_of ctx) ctx ob identity now d = Inr (d', r, evs)"
  obtain d1 prior where f: "findIdempotencyResult identity d = Inr (d1, prior)"
    using tx by (auto simp: recordCostTx_def split: sum.splits)
  have 1: "settles d d1" using findIdempotencyResult_frame [OF f] by (auto intro: settles_refl)
  have "settles d1 d'"
    using tx f by (auto simp: recordCostTx_def settles_refl split: option.splits intro: replay_cost_same fresh_cost_settles)
  with 1 show "settles d d'" by (rule settles_trans)
qed simp

lemma refused_operation_same:
  "prologue m (\<lambda>(x, y). runInTransaction (body x y)) d = (d', Inl e) \<Longrightarrow> d' = d"
  by (auto simp: prologue_def runInTransaction_def split: sum.splits prod.splits)

lemma refutation_settles: "settles d (fst (decideTaskPremise env tid j ctx d))"
proof -
  obtain d' r where run: "decideTaskPremise env tid j ctx d = (d', r)" by (rule prod.exhaust)
  have frame: "premise_frame a b \<Longrightarrow> settles a b" for a b by (simp add: premise_frame_def settles_refl)
  show ?thesis
  proof (cases r)
    case (Inl e)
    have "d' = d" by (rule refused_operation_same [OF run [unfolded decideTaskPremise_def appendPremiseMutation_def Let_def Inl]])
    with run show ?thesis by (simp add: settles_refl)
  next
    case (Inr x)
    with run obtain op request build where m: "appendPremiseMutation env tid op request ctx build d = (d', Inr x)"
      unfolding decideTaskPremise_def Let_def by metis
    from m have "settles d d'"
    proof (cases rule: premise_mutation_cases)
      case again
      then show ?thesis by (simp add: frame)
    next
      case (fresh now identity d1 d2 evs)
      obtain p d3 built st where c: "premise_frame d1 d3"
        and w: "write_premise_record env tid (tenant_of ctx) (actor_of ctx) identity
          \<lparr>ba_tenantId = tenant_of ctx, ba_now = now, ba_principal = p, ba_state = st\<rparr> built d3 = Inr (d2, x, evs)"
        by (rule premise_mutation_basis [OF fresh(3)])
      obtain y d4 d5 evs' premiseId where a: "claims d4 = claims d3" "premise_frame d5 d2"
        and f: "follow_up env tid (tenant_of ctx) (actor_of ctx) (p_id p) premiseId y (mb_invalidate built) now d4 = Inr (d5, evs')"
        by (rule write_premise_record_result [OF w]) auto
      have "settles d4 d5"
      proof (cases "mb_invalidate built")
        case None
        with f show ?thesis by (simp add: follow_up_def settles_refl)
      next
        case (Some pr)
        then obtain v d6 z d7 inp ev where i: "insertTypedRef env (tenant_of ctx) tid TASK_PREMISE_INVALIDATION_URI v (p_id p) now d4 = Inr (d6, z)"
          and s: "settle_invalidated tid (tenant_of ctx) now d6 = Inr d7" and e: "recordEvent env inp now d7 = Inr (d5, ev)"
          using f by (auto simp: follow_up_def invalidate_premise_def res split: prod.splits)
        have "claims d6 = claims d4" using insertTypedRef_result(1) [OF i] by auto
        moreover have "settles d6 d7" by (rule settles_close [OF settle_invalidated_result(3) [OF s]])
        moreover have "claims d5 = claims d7" using recordEvent_frame [OF e] by auto
        ultimately show ?thesis by (simp add: settles_def)
      qed
      then have "settles d3 d2" using a by (simp add: settles_def premise_frame_def)
      with settles_trans [OF frame [OF fresh(1)]] settles_trans [OF frame [OF c]] frame [OF fresh(4)]
      show ?thesis using settles_trans by blast
    qed
    with run show ?thesis by simp
  qed
qed

section \<open>Acquiring and releasing\<close>

lemma insert_principal_idems:
  "insert_principal r (d\<lparr>idems := xs\<rparr>) = (case insert_principal r d of Inl e \<Rightarrow> Inl e | Inr d' \<Rightarrow> Inr (d'\<lparr>idems := xs\<rparr>))"
  unfolding insert_principal_def insert_row_def by auto

lemma ensureLocalPrincipal_Inr:
  "ensureLocalPrincipal env tn al now d = Inr (d', p) \<longleftrightarrow> \<not> js_blank al \<and>
    d' = (case insert_principal (\<lparr>p_id = localPrincipalId env tn al, p_tenantId = tn,
      p_kind = (if al = ''system'' then Service else Agent), p_displayName = al, p_localAlias = Some al, p_status = Enabled,
      p_metadata = [], p_revision = 1, p_createdAt = now, p_updatedAt = now\<rparr>) d of Inl _ \<Rightarrow> d | Inr d1 \<Rightarrow> d1) \<and>
    (\<exists>x. find (\<lambda>p. p_tenantId p = tn \<and> p_localAlias p = Some al) (principals d') = Some x \<and>
      parsePrincipal x = Inr p \<and> p_status p = Enabled)"
  unfolding ensureLocalPrincipal_def Let_def by (auto simp: res simp del: split_paired_Ex)

lemma ensure_idems:
  assumes "ensureLocalPrincipal env tn al now (d\<lparr>idems := xs\<rparr>) = Inr (d', p)"
  shows "\<exists>d0. ensureLocalPrincipal env tn al now d = Inr (d0, p)"
proof -
  have same: "principals (case insert_principal r (d\<lparr>idems := xs\<rparr>) of Inl _ \<Rightarrow> d\<lparr>idems := xs\<rparr> | Inr d' \<Rightarrow> d') =
    principals (case insert_principal r d of Inl _ \<Rightarrow> d | Inr d' \<Rightarrow> d')" for r
    by (cases "insert_principal r d") (simp_all add: insert_principal_idems)
  from assms show ?thesis unfolding ensureLocalPrincipal_Inr
    by (elim conjE, hypsubst, unfold same) (rule exI, intro conjI, assumption, rule refl, assumption)
qed

lemma resolve_idems:
  "resolveCallerPrincipal env tn ctx actor now (d\<lparr>idems := xs\<rparr>) = Inr (d', p) \<Longrightarrow>
    \<exists>d0. resolveCallerPrincipal env tn ctx actor now d = Inr (d0, p)"
  unfolding resolveCallerPrincipal_def resolveAttribution_def
  by (auto simp: getPrincipal_def split: if_splits option.splits sum.splits intro: ensure_idems)

lemma owns_grant: "owns pid actor (grant_of c) = held_by pid actor c"
  by (simp add: owns_def held_by_def grant_of_def)

lemma renewed_locks:
  assumes "claims_inv d" and "find (unreleased_claim tid tn) (claims d) = Some c" and "now < c_expiresAt c"
    and "held_by pid actor c"
    and "claims d' = update_rows (\<lambda>x. c_id x = c_id c \<and> revision_matches rv (c_revision x)) (renew_claim now ex) (claims d)"
  shows "lock_step (locks_of d) (Asked now pid actor) (locks_of d')"
proof -
  have c: "c \<in> set (claims d)" "open_in (tn, tid) c" using find_SomeD [OF assms(2)] by (simp_all add: open_in_unreleased)
  have g: "lk_grant (locks_of d (tn, tid)) = Some (grant_of c)"
    using assms(2) by (simp add: locks_of_def lock_of_def open_in_unreleased)
  have e: "now < gr_expires (grant_of c)" using assms(3) by (simp add: grant_of_def)
  note step = lock_step.extend [where L = "locks_of d", OF g e, of pid actor ex]
  have "locks_of d' = (if revision_matches rv (c_revision c)
    then (locks_of d)((tn, tid) := (locks_of d (tn, tid))\<lparr>lk_grant := Some ((grant_of c)\<lparr>gr_expires := ex\<rparr>)\<rparr>) else locks_of d)"
    using assms(1) unfolding locks_of_def assms(5) claims_inv_def
    by (intro lock_of_renew [where m = "\<lambda>x. revision_matches rv (c_revision x)"]) (use c in auto)
  then show ?thesis using step assms(4) by (auto simp: owns_grant intro: lock_step.idle)
qed

lemma replaced_locks:
  assumes inv: "claims_inv d" and cur: "current = find (unreleased_claim tid tn) (claims d)"
    and old: "\<And>c0. current = Some c0 \<Longrightarrow> \<not> now < c_expiresAt c0"
    and run: "replaceTx env tid tn pid actor md current identity now ex d = Inr (d', c, evs)"
  shows "lock_step (locks_of d) (Asked now pid actor) (locks_of d')"
proof -
  let ?cs = "after_expiry current now (claims d)" and ?k = "(tn, tid)" and ?L = "locks_of d"
  obtain cid where c: "c = new_claim cid tid tn pid actor (claim_lease.next_fence ?k ?cs) md now ex"
    and d': "claims d' = ?cs @ [c]"
    using replaceTx_result [OF run] by blast
  have other: "lock_of ?cs k = ?L k" if "k \<noteq> ?k" for k
  proof (cases current)
    case None
    then show ?thesis by (simp add: after_expiry_def locks_of_def)
  next
    case (Some c0)
    have c0: "c0 \<in> set (claims d)" "open_in ?k c0" using find_SomeD [of _ _ c0] cur Some by (auto simp: open_in_unreleased)
    have "x = c0" if "x \<in> set (claims d)" "c_id x = c_id c0" for x
      using inv uniq_by_eqD [of c_id, OF _ that(1) c0(1) that(2)] by (simp add: claims_inv_def)
    then have "\<not> (\<exists>x \<in> set (claims d). open_in k x \<and> c_id x = c_id c0)" using c0(2) that by (auto simp: open_in_def)
    then show ?thesis using inv Some
      by (auto simp add: after_expiry_def locks_of_def lock_of_close claims_inv_def withdrawn_def)
  qed
  have same_fence: "lk_fence (lock_of ?cs ?k) = lk_fence (?L ?k)"
    using inv by (cases current) (simp_all add: after_expiry_def locks_of_def lock_of_close claims_inv_def withdrawn_def)
  have free: "\<not> open_in ?k x" if "x \<in> set ?cs" for x
    using after_expiry_table(3) [OF inv cur that] by (simp add: open_in_unreleased)
  have "locks_of d' = (lock_of ?cs)(?k := \<lparr>lk_fence = lk_fence (?L ?k) + 1, lk_grant = Some (grant_of c)\<rparr>)"
    unfolding locks_of_def d' same_fence [unfolded locks_of_def, symmetric]
    by (rule lock_of_append) (use free in \<open>auto simp: c new_claim_def claim_scope_def\<close>)
  also have "\<dots> = ?L(?k := \<lparr>lk_fence = lk_fence (?L ?k) + 1, lk_grant = Some (grant_of c)\<rparr>)"
    using other by (simp add: fun_eq_iff)
  also have "grant_of c = \<lparr>gr_principal = Some pid, gr_actor = actor, gr_fence = lk_fence (?L ?k) + 1, gr_expires = ex\<rparr>"
    using same_fence by (simp add: c new_claim_def grant_of_def claim_lease.next_fence_def lock_of_def claim_scope_def)
  finally have "locks_of d' = ?L(?k := \<lparr>lk_fence = lk_fence (?L ?k) + 1, lk_grant = Some
     \<lparr>gr_principal = Some pid, gr_actor = actor, gr_fence = lk_fence (?L ?k) + 1, gr_expires = ex\<rparr>\<rparr>)" .
  moreover have "\<forall>g. lk_grant (?L ?k) = Some g \<longrightarrow> gr_expires g \<le> now"
    using old cur by (auto simp: locks_of_def lock_of_def open_in_unreleased grant_of_def)
  ultimately show ?thesis using lock_step.hand_out [of ?L ?k now pid actor ex] by simp
qed

lemma acquire_fresh_locks:
  assumes inv: "claims_inv d" and run: "acquire_fresh env tid opts identity now ex d = Inr (d', c, evs)"
  shows "\<exists>d0 p. resolveCallerPrincipal env (tenant_of (ac_ctx opts)) (ac_ctx opts) (actor_of (ac_ctx opts)) now d = Inr (d0, p) \<and>
    lock_step (locks_of d) (Asked now (p_id p) (actor_of (ac_ctx opts))) (locks_of d')"
proof (rule acquire_fresh_cases [OF run])
  fix t p ps current
  let ?d1 = "d\<lparr>principals := ps\<rparr>" and ?tn = "tenant_of (ac_ctx opts)" and ?actor = "actor_of (ac_ctx opts)"
  assume p: "resolveCallerPrincipal env ?tn (ac_ctx opts) ?actor now d = Inr (?d1, p)"
    and gates: "acquire_gates env tid ?tn t (p_id p) ?actor (ac_force opts) now ?d1 = Inr current"
    and run: "(\<exists>c0. current = Some c0 \<and> c_expiresAt c0 > now \<and> renewTx env tid ?tn (p_id p) ?actor
          (ctx_expectedRevision (ac_ctx opts)) c0 identity now ex ?d1 = Inr (d', c, evs)) \<or>
     ((\<forall>c0. current = Some c0 \<longrightarrow> \<not> c_expiresAt c0 > now) \<and> replaceTx env tid ?tn (p_id p) ?actor
          (or_else (ac_metadata opts) []) current identity now ex ?d1 = Inr (d', c, evs))"
  have i: "claims_inv ?d1" and same: "locks_of ?d1 = locks_of d" using inv by (simp_all add: claims_inv_def locks_of_def)
  have cur: "current = find (unreleased_claim tid ?tn) (claims ?d1)" by (rule acquire_gates_Inr(5) [OF gates])
  have "lock_step (locks_of ?d1) (Asked now (p_id p) ?actor) (locks_of d')"
    using run
  proof (elim disjE exE conjE)
    fix c0 assume c0: "current = Some c0" "c_expiresAt c0 > now"
      and r: "renewTx env tid ?tn (p_id p) ?actor (ctx_expectedRevision (ac_ctx opts)) c0 identity now ex ?d1 = Inr (d', c, evs)"
    have held: "held_by (p_id p) ?actor c0" by (rule acquire_gates_Inr(7) [OF gates c0])
    have "find (unreleased_claim tid ?tn) (claims ?d1) = Some c0" using cur c0(1) by simp
    from renewed_locks [OF i this c0(2) held conjunct1 [OF renewTx_result [OF r]]] show ?thesis .
  next
    assume "\<forall>c0. current = Some c0 \<longrightarrow> \<not> c_expiresAt c0 > now"
      and r: "replaceTx env tid ?tn (p_id p) ?actor (or_else (ac_metadata opts) []) current identity now ex ?d1 = Inr (d', c, evs)"
    then show ?thesis using replaced_locks [OF i cur _ r] by blast
  qed
  with p same show ?thesis by auto
qed

lemma caller_idI:
  "resolveCallerPrincipal env (tenant_of ctx) ctx (actor_of ctx) now d = Inr (d0, p) \<Longrightarrow> caller_id env ctx now d = p_id p"
  by (simp add: caller_id_def)

lemma acquireTx_locks:
  assumes inv: "claims_inv d" and run: "acquireTx env tid opts identity now ex d = Inr (d', c, evs)"
  shows "lock_step (locks_of d) (Asked now (caller_id env (ac_ctx opts) now d) (actor_of (ac_ctx opts))) (locks_of d')"
    (is "lock_step _ ?q _")
proof -
  obtain d1 pid where 1: "priorResultId identity d = Inr (d1, pid)"
    and 2: "replayed (prior_claim (tenant_of (ac_ctx opts))) (acquire_fresh env tid opts identity now ex) pid d1
      = Inr (d', c, evs)"
    using run by (auto simp: acquireTx_def res)
  obtain xs where d1: "d1 = d\<lparr>idems := xs\<rparr>" using priorResultId_frame [OF 1] by blast
  have inv1: "claims_inv d1" and same: "locks_of d1 = locks_of d" using inv by (simp_all add: d1 claims_inv_def locks_of_def)
  show ?thesis
  proof (rule replayed_keeps [where P = "\<lambda>d'. lock_step (locks_of d) ?q (locks_of d')", OF 2])
    show "lock_step (locks_of d) ?q (locks_of d1)" by (simp add: same lock_step.idle)
    fix d' c evs assume "acquire_fresh env tid opts identity now ex d1 = Inr (d', c, evs)"
    from acquire_fresh_locks [OF inv1 this] obtain d0 p
      where p: "resolveCallerPrincipal env (tenant_of (ac_ctx opts)) (ac_ctx opts) (actor_of (ac_ctx opts)) now d1 = Inr (d0, p)"
        and st: "lock_step (locks_of d1) (Asked now (p_id p) (actor_of (ac_ctx opts))) (locks_of d')" by blast
    obtain d00 where "resolveCallerPrincipal env (tenant_of (ac_ctx opts)) (ac_ctx opts) (actor_of (ac_ctx opts)) now d = Inr (d00, p)"
      using resolve_idems [OF p [unfolded d1]] by blast
    with st same show "lock_step (locks_of d) ?q (locks_of d')" by (simp add: caller_idI)
  qed
qed

lemma clock_ofI: "serviceNow ctx = Inr now \<Longrightarrow> clock_of ctx = now"
  by (simp add: clock_of_def)

lemma lock_step_tx: "claims d' = claims d \<Longrightarrow> lock_step (locks_of d) q (locks_of d')"
  by (simp add: locks_of_def lock_step.idle)

interpretation lock_step_inv: tx_invariant "\<lambda>d'. lock_step (locks_of d) q (locks_of d')" for d q
  by unfold_locales (simp_all add: locks_of_def)

lemma acquire_locks:
  assumes "claims_inv d"
  shows "lock_step (locks_of d) (ask_of env (ac_ctx opts) d) (locks_of (fst (acquireTaskClaim env tid opts d)))"
  unfolding acquireTaskClaim_def
proof (rule lock_step_inv.prologue_keeps [OF lock_step.idle], clarify)
  fix now ex identity assume "acquire_prologue env tid opts = Inr (now, ex, identity)"
  then have now: "clock_of (ac_ctx opts) = now"
    by (auto simp: acquire_prologue_def Let_def res validateUnixMs_def clock_of_def split: if_splits)
  show "lock_step (locks_of d) (ask_of env (ac_ctx opts) d)
     (locks_of (fst (withContentionRecorded now (runInTransaction (acquireTx env tid opts identity now ex)) d)))"
    by (rule lock_step_inv.contention_keeps, rule lock_step_inv.transaction [OF lock_step.idle])
      (use acquireTx_locks [OF assms] in \<open>simp add: ask_of_def now\<close>)
qed

lemma release_write_locks:
  assumes inv: "claims_inv d" and c0: "find (unreleased_claim tid tn) (claims d) = Some c0"
    and claims: "claims d' = update_rows (\<lambda>x. c_id x = c_id c0 \<and> m x) (close_claim r now) (claims d)"
    and allowed: "force \<or> held_by pid actor c0"
  shows "lock_step (locks_of d) (Released pid actor force) (locks_of d')"
proof -
  let ?k = "(tn, tid)" and ?L = "locks_of d"
  have c: "c0 \<in> set (claims d)" "open_in ?k c0" using find_SomeD [OF c0] by (simp_all add: open_in_unreleased)
  have g: "lk_grant (?L ?k) = Some (grant_of c0)" using c0 by (simp add: locks_of_def lock_of_def open_in_unreleased)
  have only: "x = c0" if "x \<in> set (claims d)" "c_id x = c_id c0" for x
    using inv uniq_by_eqD [of c_id, OF _ that(1) c(1) that(2)] by (simp add: claims_inv_def)
  have "(\<exists>x \<in> set (claims d). open_in k x \<and> c_id x = c_id c0 \<and> m x) \<longleftrightarrow> k = ?k \<and> m c0" for k
  proof
    assume "\<exists>x \<in> set (claims d). open_in k x \<and> c_id x = c_id c0 \<and> m x"
    then obtain x where x: "x \<in> set (claims d)" "open_in k x" "c_id x = c_id c0" "m x" by blast
    from only [OF x(1,3)] x(2,4) c(2) show "k = ?k \<and> m c0" by (simp add: open_in_def)
  qed (use c in auto)
  then have "locks_of d' = (if m c0 then ?L(?k := (?L ?k)\<lparr>lk_grant := None\<rparr>) else ?L)"
    using inv unfolding locks_of_def claims claims_inv_def by (auto simp: lock_of_close withdrawn_def fun_eq_iff)
  then show ?thesis using lock_step.give_up [where L = ?L, OF g, of force pid actor] allowed by (auto simp: owns_grant intro: lock_step.idle)
qed

lemma release_fresh_locks:
  assumes inv: "claims_inv d" and run: "release_fresh env tid opts identity now d = Inr (d', c, evs)"
  shows "lock_step (locks_of d) (Released (caller_id env (rl_ctx opts) now d) (actor_of (rl_ctx opts)) (rl_force opts)) (locks_of d')"
proof (rule release_fresh_cases [OF run])
  fix c0 p ps
  let ?d1 = "d\<lparr>principals := ps\<rparr>"
  assume c0: "find (unreleased_claim tid (tenant_of (rl_ctx opts))) (claims d) = Some c0"
    and ok: "rl_force opts \<or> held_by (p_id p) (actor_of (rl_ctx opts)) c0"
    and p: "resolveCallerPrincipal env (tenant_of (rl_ctx opts)) (rl_ctx opts) (actor_of (rl_ctx opts)) now d = Inr (?d1, p)"
    and w: "release_write env tid opts identity c0 p now ?d1 = Inr (d', c, evs)"
  from release_write_result [OF w] obtain r where "claims d' = update_rows
      (\<lambda>x. c_id x = c_id c0 \<and> revision_matches (ctx_expectedRevision (rl_ctx opts)) (c_revision x)) (close_claim r now) (claims d)"
    by auto
  from release_write_locks [OF inv c0 this ok] show ?thesis by (simp add: caller_idI [OF p])
qed

lemma releaseTx_locks:
  assumes inv: "claims_inv d" and run: "releaseTx env tid opts identity now d = Inr (d', c, evs)"
  shows "lock_step (locks_of d) (Released (caller_id env (rl_ctx opts) now d) (actor_of (rl_ctx opts)) (rl_force opts)) (locks_of d')"
    (is "lock_step _ ?q _")
proof -
  obtain d1 pid where 1: "priorResultId identity d = Inr (d1, pid)"
    and 2: "replayed (prior_claim (tenant_of (rl_ctx opts))) (release_fresh env tid opts identity now) pid d1
      = Inr (d', c, evs)"
    using run by (auto simp: releaseTx_def res)
  obtain xs where d1: "d1 = d\<lparr>idems := xs\<rparr>" using priorResultId_frame [OF 1] by blast
  have inv1: "claims_inv d1" and same: "locks_of d1 = locks_of d" using inv by (simp_all add: d1 claims_inv_def locks_of_def)
  show ?thesis
  proof (rule replayed_keeps [where P = "\<lambda>d'. lock_step (locks_of d) ?q (locks_of d')", OF 2])
    show "lock_step (locks_of d) ?q (locks_of d1)" by (simp add: same lock_step.idle)
    fix d' c evs assume f: "release_fresh env tid opts identity now d1 = Inr (d', c, evs)"
    show "lock_step (locks_of d) ?q (locks_of d')"
    proof (rule release_fresh_cases [OF f])
      fix c0 p ps
      assume p: "resolveCallerPrincipal env (tenant_of (rl_ctx opts)) (rl_ctx opts) (actor_of (rl_ctx opts)) now d1
          = Inr (d1\<lparr>principals := ps\<rparr>, p)"
      obtain d0 where "resolveCallerPrincipal env (tenant_of (rl_ctx opts)) (rl_ctx opts) (actor_of (rl_ctx opts)) now d = Inr (d0, p)"
        using resolve_idems [OF p [unfolded d1]] by blast
      with p release_fresh_locks [OF inv1 f] show ?thesis by (simp add: caller_idI same)
    qed
  qed
qed

lemma release_locks:
  assumes "claims_inv d"
  shows "lock_step (locks_of d) (release_of env (rl_ctx opts) (rl_force opts) d) (locks_of (fst (releaseTaskClaim env tid opts d)))"
  unfolding releaseTaskClaim_def Let_def
proof (rule lock_step_inv.prologue_keeps [OF lock_step.idle], clarify)
  fix now identity assume "(case serviceNow (rl_ctx opts) of Inl e \<Rightarrow> Inl e | Inr now0 \<Rightarrow>
      (case validateUnixMs now0 ''now'' of Inl e \<Rightarrow> Inl e | Inr now \<Rightarrow>
      (case retryIdentity env ((rl_ctx opts)\<lparr>ctx_tenantId := Some (tenant_of (rl_ctx opts))\<rparr>) ''claim.release''
            (release_request tid opts) now of Inl e \<Rightarrow> Inl e | Inr identity \<Rightarrow> Inr (now, identity)))) = Inr (now, identity)"
  then have now: "clock_of (rl_ctx opts) = now"
    by (auto simp: res validateUnixMs_def clock_of_def split: if_splits)
  show "lock_step (locks_of d) (release_of env (rl_ctx opts) (rl_force opts) d)
     (locks_of (fst (runInTransaction (releaseTx env tid opts identity now) d)))"
    by (rule lock_step_inv.transaction [OF lock_step.idle]) (use releaseTx_locks [OF assms] in \<open>simp add: release_of_def now\<close>)
qed

section \<open>The refinement\<close>

lemma claim_op_step:
  assumes "claim_op env d q d'" and "claims_inv d"
  shows "claims_inv d' \<and> lock_step (locks_of d) q (locks_of d')"
  using assms
proof (cases rule: claim_op.cases)
  case acquire
  with assms(2) show ?thesis by (simp add: acquire_locks acquireTaskClaim_inv)
next
  case release
  with assms(2) show ?thesis by (simp add: release_locks releaseTaskClaim_inv)
next
  case elsewhere
  with assms(2) show ?thesis by (simp add: lock_step_tx claims_inv_def)
qed (use assms(2) in \<open>auto intro!: settles_step transition_settles softDelete_settles receipt_settles refutation_settles\<close>)

interpretation claim_lock: labelled_simulation "claim_op env" lock_step locks_of claims_inv for env
  by unfold_locales (simp_all add: claim_op_step)


lemma locks_later:
  assumes "runs (claim_op env) d qs d'" and "claims_inv d" shows "lock_grown (locks_of d k) (locks_of d' k)"
proof -
  have "lock_later (locks_of d) (locks_of d')"
    using assms by (rule claim_lock.runs_related) (auto intro: lock_later_refl lock_later_trans lock_step_later)
  then show ?thesis unfolding lock_later_def ..
qed

lemma locks_grant:
  "claims_inv d \<Longrightarrow> c \<in> set (claims d) \<Longrightarrow> unreleased_claim tid tn c \<Longrightarrow> lk_grant (locks_of d (tn, tid)) = Some (grant_of c)"
  using find_unreleased by (simp add: locks_of_def lock_of_def open_in_unreleased)

lemma locks_fence:
  assumes "c \<in> set (claims d)" and "unreleased_claim tid tn c" shows "c_fence c \<le> lk_fence (locks_of d (tn, tid))"
proof -
  have "c \<in> set (filter (\<lambda>c. claim_scope c = (tn, tid)) (claims d))" using assms by (simp add: unreleased_claim_def claim_scope_def)
  then have "c_fence c \<in> set (map c_fence (filter (\<lambda>c. claim_scope c = (tn, tid)) (claims d)))" by force
  then show ?thesis unfolding locks_of_def lock_of_def top_fence_def by (auto simp del: set_map)
qed

text \<open>C4. A fence that lost its commitment is dead: if a run passes through a ledger in which no unreleased claim
  of the commitment carries the fence of an earlier holder, then whatever comes later, every claim that
  holds the commitment carries a greater fence.\<close>

theorem superseded_fence_stays_dead:
  assumes "runs (claim_op env) d qs m" and "runs (claim_op env) m qs' d'" and "claims_inv d"
    and "c \<in> set (claims d)" and "unreleased_claim tid tn c"
    and "\<forall>x \<in> set (claims m). unreleased_claim tid tn x \<longrightarrow> c_fence x \<noteq> c_fence c"
    and "y \<in> set (claims d')" and "unreleased_claim tid tn y"
  shows "c_fence c < c_fence y"
proof -
  let ?k = "(tn, tid)"
  have inv: "claims_inv m" "claims_inv d'" using claim_lock.runs_kept assms(1-3) by blast+
  have y: "lk_grant (locks_of d' ?k) = Some (grant_of y)" by (rule locks_grant [OF inv(2) assms(7,8)])
  have low: "c_fence c \<le> lk_fence (locks_of m ?k)"
    using locks_fence [OF assms(4,5)] locks_later [OF assms(1,3), of ?k] by (simp add: lock_grown_def)
  from locks_later [OF assms(2) inv(1), of ?k] y
  consider "lk_fence (locks_of m ?k) < c_fence y" | g where "lk_grant (locks_of m ?k) = Some g" "same_lease g (grant_of y)"
    by (auto simp: lock_grown_def grant_of_def)
  then show ?thesis
  proof cases
    case 2
    then obtain x where x: "find (unreleased_claim tid tn) (claims m) = Some x" "g = grant_of x"
      by (auto simp: locks_of_def lock_of_def open_in_unreleased)
    have "c_fence y = c_fence x" using 2(2) x(2) by (simp add: same_lease_def grant_of_def)
    moreover have "x \<in> set (claims m)" "unreleased_claim tid tn x" using x(1) by (auto dest: find_SomeD)
    moreover from locks_later [OF assms(1,3), of ?k] locks_grant [OF inv(1) this]
    have "lk_fence (locks_of d ?k) < c_fence x \<or> (\<exists>g. lk_grant (locks_of d ?k) = Some g \<and> same_lease g (grant_of x))"
      by (auto simp: lock_grown_def grant_of_def)
    ultimately show ?thesis
      using assms(6) locks_fence [OF assms(4,5)] locks_grant [OF assms(3-5)] by (auto simp: same_lease_def grant_of_def)
  qed (use low in simp)
qed

text \<open>\<open>alice\<close> takes over the expired claim of \<open>bob\<close>.\<close>

lemma sample_takeover:
  "runs (claim_op sample_env) sample_claimed_db [ask_of sample_env (sample_ctx ''alice'' 20000) sample_claimed_db] (fst sample_acquired)"
  using claim_op.acquire [where env = sample_env and opts = "sample_acquire_options ''alice'' 20000"
    and d = sample_claimed_db and tid = "''t1''"]
  by (auto simp: runs_Cons)


lemma sample_taken:
  "list_all (\<lambda>x. unreleased_claim ''t1'' ''w'' x \<longrightarrow> c_fence x \<noteq> c_fence sample_claim) (claims (fst sample_acquired))"
  "list_ex (\<lambda>x. c_id x = c_id (projr (snd sample_acquired)) \<and> unreleased_claim ''t1'' ''w'' x) (claims (fst sample_acquired))"
  by code_simp+

theorem superseded_fence_stays_dead_witness:
  "\<exists>y \<in> set (claims (fst sample_acquired)). unreleased_claim ''t1'' ''w'' y \<and> c_fence sample_claim < c_fence y"
proof -
  obtain y where y: "y \<in> set (claims (fst sample_acquired))" "unreleased_claim ''t1'' ''w'' y"
    using sample_taken(2) by (auto simp: list_ex_iff)
  have c: "sample_claim \<in> set (claims sample_claimed_db)" "unreleased_claim ''t1'' ''w'' sample_claim" by code_simp+
  from superseded_fence_stays_dead [OF sample_takeover runs.stop sample_claims(2) c _ y] sample_taken(1) y
  show ?thesis by (auto simp: list_all_iff)
qed

end
