(* ===== verification/Effect_Contract.thy ===== *)
theory Effect_Contract
  imports Resolution_Records
begin

text \<open>
  The contract of effects (\<open>packages/tasq-schema/src/effects.ts\<close>) and the enforcement of a dispatch at
  the connector (\<open>packages/tasq-extension-sdk/src/effects.ts\<close>): strict canonical JSON, requests with
  their digest and dispatch key, the schemas of effects, approvals, reports, receipts and permits, and
  the checks a connector repeats before it acts. The URL parser belongs to the host, beside the digest.
  Identifiers are only required not to be empty; strings hold no surrogates, so every string is a
  sequence of Unicode scalar values, and integers have no negative zero.
\<close>

record effect_host =
  eh_env :: env
  eh_https :: "string \<Rightarrow> bool"

section \<open>Strict canonical JSON\<close>

definition EFFECT_REQUEST_DIGEST_DOMAIN :: string where
  "EFFECT_REQUEST_DIGEST_DOMAIN = ''tasq.effect-request-digest.v1'' @ [CHR 0x00]"

definition EFFECT_DISPATCH_KEY_DOMAIN :: string where
  "EFFECT_DISPATCH_KEY_DOMAIN = ''tasq.effect-dispatch.v1'' @ [CHR 0x00]"

definition EFFECT_RECEIPT_DIGEST_DOMAIN :: string where
  "EFFECT_RECEIPT_DIGEST_DOMAIN = ''tasq.effect-receipt-digest.v1'' @ [CHR 0x00]"

definition EFFECT_REQUEST_MAX_CANONICAL_BYTES :: nat where
  "EFFECT_REQUEST_MAX_CANONICAL_BYTES = 65536"

definition EFFECT_REQUEST_MAX_DEPTH :: nat where
  "EFFECT_REQUEST_MAX_DEPTH = 32"

definition EFFECT_REQUEST_MAX_NODES :: nat where
  "EFFECT_REQUEST_MAX_NODES = 10000"

definition PROTOTYPE_POLLUTION_KEYS :: "string list" where
  "PROTOTYPE_POLLUTION_KEYS = [''__proto__'', ''constructor'', ''prototype'']"

text \<open>The nodes a serialization visits, and the serialization itself; \<open>None\<close> is a refused value.\<close>

fun json_nodes :: "json \<Rightarrow> nat" where
  "json_nodes (JArr xs) = 1 + sum_list (map json_nodes xs)"
| "json_nodes (JObj kvs) = 1 + sum_list (map (\<lambda>(k, v). json_nodes v) kvs)"
| "json_nodes _ = 1"

lemma size_sort_entries_key [termination_simp]:
  "(k, v) \<in> set (sort_key fst kvs) \<Longrightarrow> size v < Suc (size_list (\<lambda>x. Suc (size (snd x))) kvs)"
  using size_entries [of k v kvs] by simp

fun serialize :: "nat \<Rightarrow> json \<Rightarrow> string option" where
  "serialize lv JNull = (if lv > EFFECT_REQUEST_MAX_DEPTH then None else Some ''null'')"
| "serialize lv (JBool b) = (if lv > EFFECT_REQUEST_MAX_DEPTH then None else Some (if b then ''true'' else ''false''))"
| "serialize lv (JStr s) = (if lv > EFFECT_REQUEST_MAX_DEPTH then None else Some (json_quote s))"
| "serialize lv (JInt n) = (if lv > EFFECT_REQUEST_MAX_DEPTH \<or> \<not> isSafeInteger n then None else Some (dec_int n))"
| "serialize lv (JArr xs) = (if lv > EFFECT_REQUEST_MAX_DEPTH then None
     else case those (map (serialize (lv + 1)) xs) of None \<Rightarrow> None
     | Some ts \<Rightarrow> Some (''['' @ join_with '','' ts @ '']''))"
| "serialize lv (JObj kvs) = (if lv > EFFECT_REQUEST_MAX_DEPTH \<or> list_ex (\<lambda>(k, v). k \<in> set PROTOTYPE_POLLUTION_KEYS) kvs then None
     else case those (map (\<lambda>(k, v). map_option (\<lambda>t. json_quote k @ '':'' @ t) (serialize (lv + 1) v)) (sort_key fst kvs)) of
       None \<Rightarrow> None
     | Some ts \<Rightarrow> Some (''{'' @ join_with '','' ts @ ''}''))"
| "serialize lv JUndef = None"

text \<open>The length of a text in UTF-8.\<close>

definition utf8_length :: "string \<Rightarrow> nat" where
  "utf8_length s = length (concat (map utf8_bytes s))"

definition canonicalizeEffectJson :: "json \<Rightarrow> err + string" where
  "canonicalizeEffectJson v =
     (if json_nodes v > EFFECT_REQUEST_MAX_NODES then Inl (Refused ''Effect request exceeds JSON nodes'' [])
      else case serialize 0 v of None \<Rightarrow> Inl (Refused ''Effect canonicalization'' [])
      | Some canonical \<Rightarrow> if utf8_length canonical > EFFECT_REQUEST_MAX_CANONICAL_BYTES
          then Inl (Refused ''Effect request exceeds canonical bytes'' []) else Inr canonical)"

section \<open>Requests\<close>

definition optional_entry :: "string \<Rightarrow> string option \<Rightarrow> json_object" where
  "optional_entry k x = (case x of None \<Rightarrow> [] | Some s \<Rightarrow> [(k, JStr s)])"

definition secret_binding_json :: "secret_binding \<Rightarrow> json" where
  "secret_binding_json b = JObj ([(''name'', JStr (sx_name b)), (''ref'', JStr (sx_ref b)), (''version'', JStr (sx_version b))] @
     optional_entry ''contentDigest'' (sx_contentDigest b))"

definition effect_request_json :: "effect_request \<Rightarrow> json" where
  "effect_request_json q = JObj [(''protocol'', JStr ''tasq.effect-request.v1''),
     (''canonicalization'', JStr ''tasq.jcs-safe-integer.v1''), (''digestAlgorithm'', JStr ''sha-256''),
     (''workspaceId'', JStr (fq_workspaceId q)), (''effectTypeUri'', JStr (fq_effectTypeUri q)),
     (''effectSchemaVersion'', JInt (fq_effectSchemaVersion q)),
     (''connector'', JObj [(''operationUri'', JStr (kb_operationUri (fq_connector q))),
        (''operationVersion'', JInt (kb_operationVersion (fq_connector q))),
        (''contractDigest'', JStr (kb_contractDigest (fq_connector q))),
        (''instanceRef'', JStr (kb_instanceRef (fq_connector q))),
        (''bindingDigest'', JStr (kb_bindingDigest (fq_connector q)))]),
     (''parameters'', JObj (fq_parameters q)), (''secretBindings'', JArr (map secret_binding_json (fq_secretBindings q)))]"

definition lower_alpha :: "char \<Rightarrow> bool" where
  "lower_alpha c \<longleftrightarrow> CHR ''a'' \<le> c \<and> c \<le> CHR ''z''"

definition secret_binding_ok :: "secret_binding \<Rightarrow> bool" where
  "secret_binding_ok b \<longleftrightarrow> between 1 128 (sx_name b) \<and> lower_alpha (hd (sx_name b)) \<and>
     list_all (\<lambda>c. lower_alpha c \<or> is_digit c \<or> c \<in> set ''._-'') (tl (sx_name b)) \<and>
     between 1 512 (sx_ref b) \<and> between 1 256 (sx_version b) \<and> opt_all sha256_ref (sx_contentDigest b)"

definition connector_binding_ok :: "effect_host \<Rightarrow> connector_binding \<Rightarrow> bool" where
  "connector_binding_ok h c \<longleftrightarrow> eh_https h (kb_operationUri c) \<and> 0 < kb_operationVersion c \<and>
     sha256_ref (kb_contractDigest c) \<and> between 1 512 (kb_instanceRef c) \<and> sha256_ref (kb_bindingDigest c)"

definition effect_request_ok :: "effect_host \<Rightarrow> effect_request \<Rightarrow> bool" where
  "effect_request_ok h q \<longleftrightarrow> between 1 256 (fq_workspaceId q) \<and> eh_https h (fq_effectTypeUri q) \<and>
     0 < fq_effectSchemaVersion q \<and> connector_binding_ok h (fq_connector q) \<and>
     length (fq_secretBindings q) \<le> 256 \<and> list_all secret_binding_ok (fq_secretBindings q)"

record prepared_effect =
  pq_request :: effect_request
  pq_canonicalRequest :: string
  pq_requestDigest :: string

definition duplicate_names :: "secret_binding list \<Rightarrow> bool" where
  "duplicate_names bs \<longleftrightarrow> list_ex (\<lambda>(a, b). sx_name a = sx_name b) (zip bs (tl bs))"

definition prepareEffectRequest :: "effect_host \<Rightarrow> effect_request \<Rightarrow> err + prepared_effect" where
  "prepareEffectRequest h input =
     (case canonicalizeEffectJson (effect_request_json input) of Inl e \<Rightarrow> Inl e | Inr _ \<Rightarrow>
      if \<not> effect_request_ok h input then Inl (InvalidInput ''EffectRequestEnvelope'')
      else let parsed = input\<lparr>fq_secretBindings := sort_key sx_name (fq_secretBindings input)\<rparr> in
      if duplicate_names (fq_secretBindings parsed) then Inl (Refused ''Duplicate effect secret binding'' [])
      else case canonicalizeEffectJson (effect_request_json parsed) of Inl e \<Rightarrow> Inl e
      | Inr canonical \<Rightarrow> Inr \<lparr>pq_request = parsed, pq_canonicalRequest = canonical,
          pq_requestDigest = ''sha256:'' @ sha256_hex (eh_env h) (EFFECT_REQUEST_DIGEST_DOMAIN @ canonical)\<rparr>)"

text \<open>The digest of a text in base64url, from its hexadecimal form.\<close>

definition nibble_bits :: "char \<Rightarrow> bool list" where
  "nibble_bits c = (let n = (of_char c :: nat); k = (if n < 58 then n - 48 else n - 87) in
     [odd (k div 8), odd (k div 4), odd (k div 2), odd k])"

fun sextets :: "bool list \<Rightarrow> nat list" where
  "sextets (a # b # c # d # e # f # rest) =
     foldl (\<lambda>n x. 2 * n + of_bool x) 0 [a, b, c, d, e, f] # sextets rest"
| "sextets [] = []"
| "sextets bs = [foldl (\<lambda>n x. 2 * n + of_bool x) 0 (take 6 (bs @ replicate 5 False))]"

definition base64url_char :: "nat \<Rightarrow> char" where
  "base64url_char n = (if n < 26 then char_of (65 + n) else if n < 52 then char_of (71 + n)
     else if n < 62 then char_of (n - 4) else if n = 62 then CHR ''-'' else CHR ''_'')"

definition base64url_of_hex :: "string \<Rightarrow> string" where
  "base64url_of_hex hex = map base64url_char (sextets (concat (map nibble_bits hex)))"

definition deriveEffectDispatchKey :: "effect_host \<Rightarrow> string \<Rightarrow> prepared_effect \<Rightarrow> err + string" where
  "deriveEffectDispatchKey h effectId prepared =
     (if effectId = [] \<or> \<not> sha256_ref (pq_requestDigest prepared) then Inl (InvalidInput ''effect identity'')
      else Inr (''tqfx1_'' @ base64url_of_hex (sha256_hex (eh_env h) (EFFECT_DISPATCH_KEY_DOMAIN @
        fq_workspaceId (pq_request prepared) @ [CHR 0x00] @ effectId @ [CHR 0x00] @ pq_requestDigest prepared))))"

definition base64url_text :: "string \<Rightarrow> bool" where
  "base64url_text = list_all (\<lambda>c. is_alpha c \<or> is_digit c \<or> c \<in> set ''_-'')"

definition dispatch_key_ok :: "string \<Rightarrow> bool" where
  "dispatch_key_ok s \<longleftrightarrow> take 6 s = ''tqfx1_'' \<and> length s = 49 \<and> base64url_text (drop 6 s)"

section \<open>Schemas\<close>

definition opt_le :: "int option \<Rightarrow> int option \<Rightarrow> bool" where
  "opt_le a b \<longleftrightarrow> (case (a, b) of (Some x, Some y) \<Rightarrow> x \<le> y | (None, _) \<Rightarrow> False | (_, None) \<Rightarrow> True)"

text \<open>\<open>Effect\<close>: the chronology and what each status requires.\<close>

definition chronology_ok :: "effect \<Rightarrow> bool" where
  "chronology_ok e \<longleftrightarrow> fx_createdAt e \<le> fx_updatedAt e \<and> opt_all (\<lambda>t. fx_createdAt e \<le> t) (fx_authorizedAt e) \<and>
     (fx_executionStartedAt e \<noteq> None \<longrightarrow> opt_le (fx_authorizedAt e) (fx_executionStartedAt e)) \<and>
     (fx_indeterminateAt e \<noteq> None \<longrightarrow> opt_le (fx_executionStartedAt e) (fx_indeterminateAt e)) \<and>
     (fx_resolvedAt e \<noteq> None \<longrightarrow> opt_le (fx_executionStartedAt e) (fx_resolvedAt e)) \<and>
     opt_all (\<lambda>t. fx_createdAt e \<le> t) (fx_cancelledAt e)"

definition has_authority :: "effect \<Rightarrow> bool" where
  "has_authority e \<longleftrightarrow> fx_authorizedByApprovalId e \<noteq> None \<and> fx_authorizedAt e \<noteq> None"

definition no_authority :: "effect \<Rightarrow> bool" where
  "no_authority e \<longleftrightarrow> fx_authorizedByApprovalId e = None \<and> fx_authorizedAt e = None"

definition has_execution :: "effect \<Rightarrow> bool" where
  "has_execution e \<longleftrightarrow> fx_claimId e \<noteq> None \<and> fx_fence e \<noteq> None \<and> fx_executionStartedAt e \<noteq> None"

definition no_execution :: "effect \<Rightarrow> bool" where
  "no_execution e \<longleftrightarrow> fx_claimId e = None \<and> fx_fence e = None \<and> fx_executionStartedAt e = None"

definition no_cancellation :: "effect \<Rightarrow> bool" where
  "no_cancellation e \<longleftrightarrow> fx_cancelledAt e = None \<and> fx_cancelReason e = None"

fun lifecycle_ok :: "effect_status \<Rightarrow> effect \<Rightarrow> bool" where
  "lifecycle_ok EffectProposed e \<longleftrightarrow> no_authority e \<and> no_execution e \<and> fx_outcomeReceiptId e = None \<and>
     fx_indeterminateAt e = None \<and> fx_resolvedAt e = None \<and> no_cancellation e"
| "lifecycle_ok EffectAuthorized e \<longleftrightarrow> has_authority e \<and> no_execution e \<and> fx_outcomeReceiptId e = None \<and>
     fx_indeterminateAt e = None \<and> fx_resolvedAt e = None \<and> no_cancellation e"
| "lifecycle_ok EffectExecuting e \<longleftrightarrow> has_authority e \<and> has_execution e \<and> fx_outcomeReceiptId e = None \<and>
     fx_indeterminateAt e = None \<and> fx_resolvedAt e = None \<and> no_cancellation e"
| "lifecycle_ok EffectIndeterminate e \<longleftrightarrow> has_authority e \<and> has_execution e \<and> fx_outcomeReceiptId e \<noteq> None \<and>
     fx_indeterminateAt e \<noteq> None \<and> fx_resolvedAt e = None \<and> no_cancellation e"
| "lifecycle_ok EffectCancelled e \<longleftrightarrow> no_authority e \<and> no_execution e \<and> fx_outcomeReceiptId e = None \<and>
     fx_indeterminateAt e = None \<and> fx_resolvedAt e = None \<and> fx_cancelledAt e \<noteq> None \<and>
     (case fx_cancelReason e of None \<Rightarrow> False | Some r \<Rightarrow> r \<noteq> [] \<and> \<not> js_blank r)"
| "lifecycle_ok _ e \<longleftrightarrow> has_authority e \<and> has_execution e \<and> fx_outcomeReceiptId e \<noteq> None \<and> fx_resolvedAt e \<noteq> None \<and>
     no_cancellation e"

definition effect_ok :: "effect_host \<Rightarrow> effect \<Rightarrow> bool" where
  "effect_ok h e \<longleftrightarrow> fx_id e \<noteq> [] \<and> between 1 256 (fx_tenantId e) \<and> effect_request_ok h (fx_request e) \<and>
     fx_canonicalRequest e \<noteq> [] \<and> sha256_ref (fx_requestDigest e) \<and> dispatch_key_ok (fx_dispatchIdempotencyKey e) \<and>
     opt_all (\<lambda>n. 0 < n) (fx_fence e) \<and> fx_createdByPrincipalId e \<noteq> [] \<and> 0 < fx_revision e \<and>
     list_all (opt_all (\<lambda>t. 0 \<le> t)) [fx_authorizedAt e, fx_executionStartedAt e, fx_indeterminateAt e, fx_resolvedAt e,
       fx_cancelledAt e] \<and> 0 \<le> fx_createdAt e \<and> 0 \<le> fx_updatedAt e \<and> chronology_ok e \<and> lifecycle_ok (fx_status e) e"

record effect_proposal =
  ep_id :: "string option"
  ep_tenantId :: string
  ep_taskId :: string
  ep_attemptId :: "string option"
  ep_request :: effect_request
  ep_supersedesEffectId :: "string option"
  ep_compensationOfEffectId :: "string option"

definition effect_proposal_ok :: "effect_host \<Rightarrow> effect_proposal \<Rightarrow> bool" where
  "effect_proposal_ok h i \<longleftrightarrow> opt_all (\<lambda>x. x \<noteq> []) (ep_id i) \<and> between 1 256 (ep_tenantId i) \<and> ep_taskId i \<noteq> [] \<and>
     effect_request_ok h (ep_request i) \<and> (ep_supersedesEffectId i = None \<or> ep_compensationOfEffectId i = None)"

definition effect_approval_ok :: "effect_approval \<Rightarrow> bool" where
  "effect_approval_ok a \<longleftrightarrow> fa_id a \<noteq> [] \<and> between 1 256 (fa_tenantId a) \<and> sha256_ref (fa_requestDigest a) \<and>
     fa_approverPrincipalId a \<noteq> [] \<and> opt_all (\<lambda>t. 0 \<le> t) (fa_validFrom a) \<and> opt_all (\<lambda>t. 0 \<le> t) (fa_expiresAt a) \<and>
     fa_verificationMethod a \<noteq> [] \<and> 0 \<le> fa_decidedAt a \<and>
     (fa_decision a = ApprovalRevoked \<longrightarrow> fa_supersedesApprovalId a \<noteq> None) \<and>
     opt_all (\<lambda>t. fa_decidedAt a < t) (fa_expiresAt a) \<and>
     (case (fa_validFrom a, fa_expiresAt a) of (Some v, Some t) \<Rightarrow> v < t | _ \<Rightarrow> True)"

record approval_input =
  ai_id :: "string option"
  ai_tenantId :: string
  ai_effectId :: string
  ai_decision :: approval_decision
  ai_scope :: json_object
  ai_limits :: json_object
  ai_validFrom :: "int option"
  ai_expiresAt :: "int option"
  ai_supersedesApprovalId :: "string option"

definition approval_input_ok :: "approval_input \<Rightarrow> bool" where
  "approval_input_ok i \<longleftrightarrow> opt_all (\<lambda>x. x \<noteq> []) (ai_id i) \<and> between 1 256 (ai_tenantId i) \<and> ai_effectId i \<noteq> [] \<and>
     opt_all (\<lambda>t. 0 \<le> t) (ai_validFrom i) \<and> opt_all (\<lambda>t. 0 \<le> t) (ai_expiresAt i) \<and>
     (ai_decision i = ApprovalRevoked \<longrightarrow> ai_supersedesApprovalId i \<noteq> None) \<and>
     (case (ai_validFrom i, ai_expiresAt i) of (Some v, Some t) \<Rightarrow> v < t | _ \<Rightarrow> True)"

section \<open>Reports and receipts\<close>

definition EFFECT_RECEIPT_COVERAGE :: "receipt_coverage list" where
  "EFFECT_RECEIPT_COVERAGE = [ProviderAccount, ProviderOperation, RequestIdentity, OutcomeCoverage]"

definition effect_report_json :: "effect_report \<Rightarrow> json" where
  "effect_report_json r = JObj [(''protocol'', JStr ''tasq.effect-receipt.v1''), (''workspaceId'', JStr (fr_workspaceId r)),
     (''effectId'', JStr (fr_effectId r)), (''requestDigest'', JStr (fr_requestDigest r)),
     (''dispatchIdempotencyKey'', JStr (fr_dispatchIdempotencyKey r)), (''approvalId'', JStr (fr_approvalId r)),
     (''claimId'', JStr (fr_claimId r)), (''fence'', JInt (fr_fence r)),
     (''connectorInstanceRef'', JStr (fr_connectorInstanceRef r)),
     (''connectorBindingDigest'', JStr (fr_connectorBindingDigest r)), (''externalReceiptId'', JStr (fr_externalReceiptId r)),
     (''providerOperationId'', nullable JStr (fr_providerOperationId r)),
     (''outcome'', JStr (receipt_outcome_text (fr_outcome r))), (''occurredAt'', JInt (fr_occurredAt r)),
     (''rawRef'', JStr (fr_rawRef r)), (''rawDigest'', JStr (fr_rawDigest r)), (''payload'', JObj (fr_payload r)),
     (''resolvesReceiptId'', nullable JStr (fr_resolvesReceiptId r))]"

definition effect_report_ok :: "effect_report \<Rightarrow> bool" where
  "effect_report_ok r \<longleftrightarrow> between 1 256 (fr_workspaceId r) \<and> fr_effectId r \<noteq> [] \<and> sha256_ref (fr_requestDigest r) \<and>
     dispatch_key_ok (fr_dispatchIdempotencyKey r) \<and> fr_approvalId r \<noteq> [] \<and> fr_claimId r \<noteq> [] \<and> 0 < fr_fence r \<and>
     between 1 512 (fr_connectorInstanceRef r) \<and> sha256_ref (fr_connectorBindingDigest r) \<and>
     between 1 512 (fr_externalReceiptId r) \<and> opt_all (between 1 512) (fr_providerOperationId r) \<and> 0 \<le> fr_occurredAt r \<and>
     between 1 2048 (fr_rawRef r) \<and> sha256_ref (fr_rawDigest r) \<and>
     (fr_outcome r \<noteq> ReceiptIndeterminate \<longrightarrow> fr_providerOperationId r \<noteq> None) \<and>
     (fr_outcome r = ReceiptIndeterminate \<longrightarrow> fr_providerOperationId r = None \<and> fr_resolvesReceiptId r = None)"

record prepared_report =
  pt_report :: effect_report
  pt_canonicalReport :: string
  pt_receiptDigest :: string

definition prepareEffectReceiptReport :: "effect_host \<Rightarrow> effect_report \<Rightarrow> err + prepared_report" where
  "prepareEffectReceiptReport h r =
     (case canonicalizeEffectJson (effect_report_json r) of Inl e \<Rightarrow> Inl e
      | Inr canonical \<Rightarrow> if \<not> effect_report_ok r then Inl (InvalidInput ''EffectReceiptReport'')
          else Inr \<lparr>pt_report = r, pt_canonicalReport = canonical,
            pt_receiptDigest = ''sha256:'' @ sha256_hex (eh_env h) (EFFECT_RECEIPT_DIGEST_DOMAIN @ canonical)\<rparr>)"

definition strong_verification :: "verification_level \<Rightarrow> receipt_coverage list \<Rightarrow> bool" where
  "strong_verification level coverage \<longleftrightarrow> level \<noteq> SelfAsserted \<and> list_all (\<lambda>c. c \<in> set coverage) EFFECT_RECEIPT_COVERAGE"

definition effect_receipt_ok :: "effect_receipt \<Rightarrow> bool" where
  "effect_receipt_ok c \<longleftrightarrow> fc_id c \<noteq> [] \<and> between 1 256 (fc_tenantId c) \<and> effect_report_ok (fc_report c) \<and>
     fc_canonicalReport c \<noteq> [] \<and> sha256_ref (fc_receiptDigest c) \<and> fc_verificationMethod c \<noteq> [] \<and>
     length (fc_coverage c) \<le> length EFFECT_RECEIPT_COVERAGE \<and> fc_recordedByPrincipalId c \<noteq> [] \<and> 0 \<le> fc_recordedAt c \<and>
     fc_tenantId c = fr_workspaceId (fc_report c) \<and> fc_effectId c = fr_effectId (fc_report c) \<and>
     fc_approvalId c = fr_approvalId (fc_report c) \<and> distinct (fc_coverage c) \<and>
     (fr_outcome (fc_report c) \<noteq> ReceiptIndeterminate \<longrightarrow> strong_verification (fc_verificationLevel c) (fc_coverage c))"

section \<open>Permits and their enforcement\<close>

text \<open>What a permit says of the approval and of the claim, and its signed payload.\<close>

record permit_approval =
  ma_id :: string
  ma_requestDigest :: string
  ma_approverPrincipalId :: string
  ma_decision :: approval_decision
  ma_scope :: json_object
  ma_limits :: json_object
  ma_validFrom :: "int option"
  ma_expiresAt :: "int option"
  ma_verificationLevel :: verification_level
  ma_verificationMethod :: string
  ma_verification :: json_object
  ma_decidedAt :: int

record permit_claim =
  mc_id :: string
  mc_fence :: int
  mc_principalId :: string
  mc_expiresAt :: int

record permit_payload =
  mp_issuedAt :: int
  mp_workspaceId :: string
  mp_effectId :: string
  mp_effectRevision :: int
  mp_taskId :: string
  mp_attemptId :: string
  mp_request :: effect_request
  mp_canonicalRequest :: string
  mp_requestDigest :: string
  mp_dispatchIdempotencyKey :: string
  mp_approval :: permit_approval
  mp_claim :: permit_claim
  mp_executionStartedAt :: int

record dispatch_permit =
  dp_payload :: permit_payload
  dp_algorithm :: string
  dp_keyId :: string
  dp_signature :: string

definition permit_payload_json :: "permit_payload \<Rightarrow> json" where
  "permit_payload_json m = (let a = mp_approval m; c = mp_claim m in
     JObj [(''contractVersion'', JStr ''tasq.effect-dispatch-permit.v1''), (''issuedAt'', JInt (mp_issuedAt m)),
       (''workspaceId'', JStr (mp_workspaceId m)), (''effectId'', JStr (mp_effectId m)),
       (''effectRevision'', JInt (mp_effectRevision m)), (''effectStatus'', JStr ''executing''),
       (''taskId'', JStr (mp_taskId m)), (''attemptId'', JStr (mp_attemptId m)),
       (''request'', effect_request_json (mp_request m)), (''canonicalRequest'', JStr (mp_canonicalRequest m)),
       (''requestDigest'', JStr (mp_requestDigest m)),
       (''dispatchIdempotencyKey'', JStr (mp_dispatchIdempotencyKey m)),
       (''approval'', JObj [(''id'', JStr (ma_id a)), (''requestDigest'', JStr (ma_requestDigest a)),
          (''approverPrincipalId'', JStr (ma_approverPrincipalId a)),
          (''decision'', JStr (approval_decision_text (ma_decision a))), (''scope'', JObj (ma_scope a)),
          (''limits'', JObj (ma_limits a)), (''validFrom'', nullable JInt (ma_validFrom a)),
          (''expiresAt'', nullable JInt (ma_expiresAt a)),
          (''verificationLevel'', JStr (verification_level_text (ma_verificationLevel a))),
          (''verificationMethod'', JStr (ma_verificationMethod a)), (''verification'', JObj (ma_verification a)),
          (''decidedAt'', JInt (ma_decidedAt a))]),
       (''claim'', JObj [(''id'', JStr (mc_id c)), (''fence'', JInt (mc_fence c)),
          (''principalId'', JStr (mc_principalId c)), (''expiresAt'', JInt (mc_expiresAt c))]),
       (''executionStartedAt'', JInt (mp_executionStartedAt m))])"

text \<open>An approval in force at a time, and the schema of a payload and of a permit.\<close>

definition within_validity :: "int option \<Rightarrow> int option \<Rightarrow> int \<Rightarrow> bool" where
  "within_validity validFrom expiresAt now \<longleftrightarrow> opt_all (\<lambda>t. t \<le> now) validFrom \<and> opt_all (\<lambda>t. now < t) expiresAt"

definition permit_payload_ok :: "effect_host \<Rightarrow> permit_payload \<Rightarrow> bool" where
  "permit_payload_ok h m \<longleftrightarrow> 0 \<le> mp_issuedAt m \<and> between 1 256 (mp_workspaceId m) \<and> mp_effectId m \<noteq> [] \<and>
     0 < mp_effectRevision m \<and> effect_request_ok h (mp_request m) \<and> mp_canonicalRequest m \<noteq> [] \<and>
     sha256_ref (mp_requestDigest m) \<and> dispatch_key_ok (mp_dispatchIdempotencyKey m) \<and>
     ma_decision (mp_approval m) = ApprovalApproved \<and> sha256_ref (ma_requestDigest (mp_approval m)) \<and>
     ma_approverPrincipalId (mp_approval m) \<noteq> [] \<and> ma_verificationMethod (mp_approval m) \<noteq> [] \<and>
     opt_all (\<lambda>t. 0 \<le> t) (ma_validFrom (mp_approval m)) \<and> opt_all (\<lambda>t. 0 \<le> t) (ma_expiresAt (mp_approval m)) \<and>
     0 \<le> ma_decidedAt (mp_approval m) \<and> 0 < mc_fence (mp_claim m) \<and> mc_principalId (mp_claim m) \<noteq> [] \<and>
     0 \<le> mc_expiresAt (mp_claim m) \<and> 0 \<le> mp_executionStartedAt m \<and>
     mp_workspaceId m = fq_workspaceId (mp_request m) \<and> ma_requestDigest (mp_approval m) = mp_requestDigest m \<and>
     mp_executionStartedAt m = mp_issuedAt m \<and> mp_issuedAt m < mc_expiresAt (mp_claim m) \<and>
     within_validity (ma_validFrom (mp_approval m)) (ma_expiresAt (mp_approval m)) (mp_issuedAt m)"

definition dispatch_permit_ok :: "effect_host \<Rightarrow> dispatch_permit \<Rightarrow> bool" where
  "dispatch_permit_ok h p \<longleftrightarrow> permit_payload_ok h (dp_payload p) \<and>
     between 1 64 (dp_algorithm p) \<and> lower_alpha (hd (dp_algorithm p)) \<and>
     list_all (\<lambda>c. lower_alpha c \<or> is_digit c \<or> c \<in> set ''._-'') (tl (dp_algorithm p)) \<and>
     between 1 256 (dp_keyId p) \<and> between 32 1024 (dp_signature p) \<and> base64url_text (dp_signature p)"

text \<open>The policy of a connector: what it is bound to, its parser and its decision over a request and
  the scope and limits of the approval.\<close>

record authority_question =
  aq_parameters :: json_object
  aq_secretBindings :: "secret_binding list"
  aq_scope :: json_object
  aq_limits :: json_object
  aq_approverPrincipalId :: string
  aq_verificationLevel :: verification_level
  aq_verification :: json_object
  aq_now :: int

record authority_decision =
  ad_allowed :: bool
  ad_reasonCode :: string
  ad_explanation :: string

record connector_policy =
  cl_effectTypeUri :: string
  cl_effectSchemaVersion :: int
  cl_operationUri :: string
  cl_operationVersion :: int
  cl_contractDigest :: string
  cl_instanceRef :: string
  cl_bindingDigest :: string
  cl_parseParameters :: "json_object \<Rightarrow> json_object option"
  cl_evaluateAuthority :: "authority_question \<Rightarrow> authority_decision"

record permit_issuer =
  is_algorithm :: string
  is_keyId :: string
  is_sign :: "string \<Rightarrow> string"

definition assertUnixMs :: "int \<Rightarrow> string \<Rightarrow> err + int" where
  "assertUnixMs value label = (if \<not> isSafeInteger value \<or> value < 0
     then Inl (Refused (label @ '' must be a non-negative safe integer'') []) else Inr value)"

definition assertPolicyBinding :: "effect_request \<Rightarrow> connector_policy \<Rightarrow> err + unit" where
  "assertPolicyBinding q pol =
     (if fq_effectTypeUri q = cl_effectTypeUri pol \<and> fq_effectSchemaVersion q = cl_effectSchemaVersion pol \<and>
         kb_operationUri (fq_connector q) = cl_operationUri pol \<and>
         kb_operationVersion (fq_connector q) = cl_operationVersion pol \<and>
         kb_contractDigest (fq_connector q) = cl_contractDigest pol \<and>
         kb_instanceRef (fq_connector q) = cl_instanceRef pol \<and> kb_bindingDigest (fq_connector q) = cl_bindingDigest pol
      then Inr () else Inl (Refused ''Effect request does not match the loaded connector policy binding'' []))"

definition authority_question_of :: "effect_request \<Rightarrow> permit_approval \<Rightarrow> json_object \<Rightarrow> int \<Rightarrow> authority_question" where
  "authority_question_of q a parameters now = \<lparr>aq_parameters = parameters, aq_secretBindings = fq_secretBindings q,
     aq_scope = ma_scope a, aq_limits = ma_limits a, aq_approverPrincipalId = ma_approverPrincipalId a,
     aq_verificationLevel = ma_verificationLevel a, aq_verification = ma_verification a, aq_now = now\<rparr>"

definition connector_decision :: "effect_request \<Rightarrow> permit_approval \<Rightarrow> json_object \<Rightarrow> int \<Rightarrow> connector_policy \<Rightarrow> err + json_object" where
  "connector_decision q a parsed now pol =
     (let dc = cl_evaluateAuthority pol (authority_question_of q a parsed now) in
      if js_blank (ad_reasonCode dc) \<or> js_blank (ad_explanation dc)
      then Inl (Refused ''Connector authority decision requires a reason code and explanation'' [])
      else if \<not> ad_allowed dc then Inl (Refused ''Connector authority denied'' [ad_reasonCode dc, ad_explanation dc])
      else Inr parsed)"

definition assertEffectAuthority ::
  "effect_request \<Rightarrow> string \<Rightarrow> permit_approval \<Rightarrow> int \<Rightarrow> connector_policy \<Rightarrow> err + json_object" where
  "assertEffectAuthority q digest a now0 pol =
     (case assertUnixMs now0 ''authority now'' of Inl e \<Rightarrow> Inl e | Inr now \<Rightarrow>
      if ma_decision a \<noteq> ApprovalApproved \<or> ma_requestDigest a \<noteq> digest
      then Inl (Refused ''Effect authority is not an exact approved request'' [])
      else if (case ma_validFrom a of None \<Rightarrow> False | Some t \<Rightarrow> now < t) then Inl (Refused ''Effect authority is not valid yet'' [])
      else if (case ma_expiresAt a of None \<Rightarrow> False | Some t \<Rightarrow> t \<le> now) then Inl (Refused ''Effect authority has expired'' [])
      else case assertPolicyBinding q pol of Inl e \<Rightarrow> Inl e | Inr _ \<Rightarrow>
      (case cl_parseParameters pol (fq_parameters q) of None \<Rightarrow> Inl (Refused ''Connector parameters'' [])
       | Some parsed \<Rightarrow>
         (case canonicalizeEffectJson (JObj (fq_parameters q)) of Inl e \<Rightarrow> Inl e | Inr exactInput \<Rightarrow>
         (case canonicalizeEffectJson (JObj parsed) of Inl e \<Rightarrow> Inl e | Inr parsedText \<Rightarrow>
          if parsedText \<noteq> exactInput then Inl (Refused ''Connector parser changed the approved parameters'' [])
          else connector_decision q a parsed now pol))))"

definition canonicalEffectPermitPayload :: "permit_payload \<Rightarrow> err + string" where
  "canonicalEffectPermitPayload m = canonicalizeEffectJson (permit_payload_json m)"

text \<open>The final check at the connector, right before the external call. The verifier is given the
  algorithm, the key, the canonical payload and the signature.\<close>

definition enforceEffectDispatch ::
  "effect_host \<Rightarrow> dispatch_permit \<Rightarrow> connector_policy \<Rightarrow> int \<Rightarrow> (string \<Rightarrow> string \<Rightarrow> string \<Rightarrow> string \<Rightarrow> bool) \<Rightarrow>
    err + dispatch_permit \<times> json_object" where
  "enforceEffectDispatch h permit pol now0 verify =
     (case assertUnixMs now0 ''connector dispatch now'' of Inl e \<Rightarrow> Inl e | Inr now \<Rightarrow>
      if \<not> dispatch_permit_ok h permit then Inl (InvalidInput ''EffectDispatchPermit'')
      else let m = dp_payload permit in
      case canonicalEffectPermitPayload m of Inl e \<Rightarrow> Inl e | Inr canonicalPayload \<Rightarrow>
      if \<not> verify (dp_algorithm permit) (dp_keyId permit) canonicalPayload (dp_signature permit)
      then Inl (Refused ''Effect dispatch permit authentication failed'' [])
      else if now < mp_issuedAt m then Inl (Refused ''Connector clock precedes dispatch authorization'' [])
      else if mc_expiresAt (mp_claim m) \<le> now then Inl (Refused ''Effect claim fence expired before dispatch'' [])
      else case prepareEffectRequest h (mp_request m) of Inl e \<Rightarrow> Inl e | Inr prepared \<Rightarrow>
      if pq_canonicalRequest prepared \<noteq> mp_canonicalRequest m \<or> pq_requestDigest prepared \<noteq> mp_requestDigest m
      then Inl (Refused ''Effect dispatch permit request identity mismatch'' [])
      else case deriveEffectDispatchKey h (mp_effectId m) prepared of Inl e \<Rightarrow> Inl e | Inr key \<Rightarrow>
      if key \<noteq> mp_dispatchIdempotencyKey m then Inl (Refused ''Effect dispatch permit idempotency identity mismatch'' [])
      else case assertEffectAuthority (mp_request m) (mp_requestDigest m) (mp_approval m) now pol of Inl e \<Rightarrow> Inl e
      | Inr parameters \<Rightarrow> Inr (permit, parameters))"

text \<open>The authenticator a local composition root may use. The keyed digest is the host's; it is given
  the key and the payload.\<close>

record permit_authenticator =
  pa_issuer :: permit_issuer
  pa_verify :: "string \<Rightarrow> string \<Rightarrow> string \<Rightarrow> string \<Rightarrow> bool"

definition createHmacEffectPermitAuthenticator ::
  "(string \<Rightarrow> string \<Rightarrow> string) \<Rightarrow> string \<Rightarrow> string \<Rightarrow> err + permit_authenticator" where
  "createHmacEffectPermitAuthenticator hmac keyId secret =
     (if js_blank keyId then Inl (Refused ''Effect permit keyId must not be empty'' [])
      else if utf8_length secret < 32 then Inl (Refused ''Effect permit HMAC secret must contain at least 32 bytes'' [])
      else Inr \<lparr>pa_issuer = \<lparr>is_algorithm = ''hmac-sha256'', is_keyId = keyId, is_sign = hmac secret\<rparr>,
        pa_verify = (\<lambda>algorithm kid payload signature. algorithm = ''hmac-sha256'' \<and> kid = keyId \<and>
          hmac secret payload = signature)\<rparr>)"

end
