(* ===== verification/Effect_Guards.thy ===== *)
theory Effect_Guards
  imports Effect_Contract
begin

text \<open>
  The constraints and triggers of the effect ledger (migrations 0014 to 0016 of
  \<open>packages/tasq-core/src/migrations\<close>): which rows of effects, approvals and receipts may be written, and
  which update of an effect is one of its transitions, with the approval, the claim or the receipt it
  needs. A trigger that refuses a row is reported as a violated constraint of its table.
\<close>

section \<open>Constraints and triggers\<close>

definition at_least :: "int option \<Rightarrow> int option \<Rightarrow> bool" where
  "at_least a b \<longleftrightarrow> (case (a, b) of (Some x, Some y) \<Rightarrow> x \<ge> y | _ \<Rightarrow> True)"

fun effect_row_lifecycle :: "effect_status \<Rightarrow> effect \<Rightarrow> bool" where
  "effect_row_lifecycle EffectProposed e \<longleftrightarrow> no_authority e \<and> fx_claimId e = None \<and> fx_executionStartedAt e = None \<and>
     fx_indeterminateAt e = None \<and> fx_resolvedAt e = None \<and> no_cancellation e"
| "effect_row_lifecycle EffectAuthorized e \<longleftrightarrow> has_authority e \<and> fx_claimId e = None \<and> fx_executionStartedAt e = None \<and>
     fx_indeterminateAt e = None \<and> fx_resolvedAt e = None \<and> no_cancellation e"
| "effect_row_lifecycle EffectExecuting e \<longleftrightarrow> has_authority e \<and> fx_claimId e \<noteq> None \<and> fx_executionStartedAt e \<noteq> None \<and>
     fx_indeterminateAt e = None \<and> fx_resolvedAt e = None \<and> no_cancellation e"
| "effect_row_lifecycle EffectIndeterminate e \<longleftrightarrow> has_authority e \<and> fx_claimId e \<noteq> None \<and>
     fx_executionStartedAt e \<noteq> None \<and> fx_indeterminateAt e \<noteq> None \<and> fx_resolvedAt e = None \<and> no_cancellation e"
| "effect_row_lifecycle EffectCancelled e \<longleftrightarrow> no_authority e \<and> fx_claimId e = None \<and> fx_executionStartedAt e = None \<and>
     fx_indeterminateAt e = None \<and> fx_resolvedAt e = None \<and> fx_cancelledAt e \<noteq> None \<and>
     (case fx_cancelReason e of None \<Rightarrow> False | Some r \<Rightarrow> \<not> sql_blank r)"
| "effect_row_lifecycle _ e \<longleftrightarrow> has_authority e \<and> fx_claimId e \<noteq> None \<and> fx_executionStartedAt e \<noteq> None \<and>
     fx_resolvedAt e \<noteq> None \<and> no_cancellation e"

definition effect_check :: "effect \<Rightarrow> bool" where
  "effect_check e \<longleftrightarrow> 0 < fq_effectSchemaVersion (fx_request e) \<and> 0 < kb_operationVersion (fq_connector (fx_request e)) \<and>
     0 < fx_revision e \<and>
     (case (fx_claimId e, fx_fence e) of (None, None) \<Rightarrow> True | (Some _, Some n) \<Rightarrow> 0 < n | _ \<Rightarrow> False) \<and>
     fx_supersedesEffectId e \<noteq> Some (fx_id e) \<and> fx_compensationOfEffectId e \<noteq> Some (fx_id e) \<and>
     (fx_supersedesEffectId e = None \<or> fx_compensationOfEffectId e = None) \<and>
     fx_updatedAt e \<ge> fx_createdAt e \<and> at_least (fx_authorizedAt e) (Some (fx_createdAt e)) \<and>
     at_least (fx_executionStartedAt e) (fx_authorizedAt e) \<and> at_least (fx_indeterminateAt e) (fx_executionStartedAt e) \<and>
     at_least (fx_resolvedAt e) (fx_executionStartedAt e) \<and> at_least (fx_cancelledAt e) (Some (fx_createdAt e)) \<and>
     effect_row_lifecycle (fx_status e) e"

definition owned_attempt :: "string \<Rightarrow> string \<Rightarrow> string \<Rightarrow> task_attempt \<Rightarrow> bool" where
  "owned_attempt tid tenantId aid a \<longleftrightarrow> a_id a = aid \<and> a_taskId a = tid \<and> a_tenantId a = tenantId"

text \<open>\<open>effect_workspace_guard\<close> and \<open>effect_outcome_insert_guard\<close>.\<close>

definition effect_insert_guard :: "effect \<Rightarrow> db \<Rightarrow> bool" where
  "effect_insert_guard e d \<longleftrightarrow> fx_status e = EffectProposed \<and> fx_revision e = 1 \<and> fx_outcomeReceiptId e = None \<and>
     (\<exists>t \<in> set (tasks d). t_id t = fx_taskId e \<and> t_tenantId t = fx_tenantId e \<and> t_deletedAt t = None) \<and>
     opt_all (\<lambda>aid. \<exists>a \<in> set (attempts d). owned_attempt (fx_taskId e) (fx_tenantId e) aid a) (fx_attemptId e) \<and>
     (\<exists>p \<in> set (principals d). p_id p = fx_createdByPrincipalId e \<and> p_tenantId p = fx_tenantId e) \<and>
     opt_all (\<lambda>s. \<exists>x \<in> set (effects d). fx_id x = s \<and> fx_tenantId x = fx_tenantId e \<and> fx_taskId x = fx_taskId e \<and>
       fx_status x = EffectCancelled) (fx_supersedesEffectId e) \<and>
     opt_all (\<lambda>s. \<exists>x \<in> set (effects d). fx_id x = s \<and> fx_tenantId x = fx_tenantId e \<and> fx_status x = EffectCommitted)
       (fx_compensationOfEffectId e)"

definition insert_effect :: "effect \<Rightarrow> db \<Rightarrow> err + db" where
  "insert_effect e d = insert_row ''effect''
     (\<forall>x \<in> set (effects d). fx_id x \<noteq> fx_id e \<and>
        \<not> (fx_tenantId x = fx_tenantId e \<and> (fx_dispatchIdempotencyKey x = fx_dispatchIdempotencyKey e \<or>
           fx_supersedesEffectId x = fx_supersedesEffectId e \<and> fx_supersedesEffectId e \<noteq> None)))
     (effect_check e \<and> effect_insert_guard e d) (d\<lparr>effects := effects d @ [e]\<rparr>)"

text \<open>\<open>effect_revision_and_identity_guard\<close>.\<close>

definition same_identity :: "effect \<Rightarrow> effect \<Rightarrow> bool" where
  "same_identity old new \<longleftrightarrow> fx_id new = fx_id old \<and> fx_tenantId new = fx_tenantId old \<and> fx_taskId new = fx_taskId old \<and>
     fx_attemptId new = fx_attemptId old \<and> fx_request new = fx_request old \<and>
     fx_canonicalRequest new = fx_canonicalRequest old \<and> fx_requestDigest new = fx_requestDigest old \<and>
     fx_dispatchIdempotencyKey new = fx_dispatchIdempotencyKey old \<and>
     fx_supersedesEffectId new = fx_supersedesEffectId old \<and>
     fx_compensationOfEffectId new = fx_compensationOfEffectId old \<and>
     fx_createdByPrincipalId new = fx_createdByPrincipalId old \<and> fx_createdAt new = fx_createdAt old"

fun effect_transition :: "effect_status \<Rightarrow> effect_status \<Rightarrow> bool" where
  "effect_transition EffectProposed s \<longleftrightarrow> s = EffectAuthorized \<or> s = EffectCancelled"
| "effect_transition EffectAuthorized s \<longleftrightarrow> s = EffectProposed \<or> s = EffectExecuting \<or> s = EffectCancelled"
| "effect_transition EffectExecuting s \<longleftrightarrow> s = EffectCommitted \<or> s = EffectFailed \<or> s = EffectIndeterminate"
| "effect_transition EffectIndeterminate s \<longleftrightarrow> s = EffectCommitted \<or> s = EffectFailed"
| "effect_transition _ s \<longleftrightarrow> False"

text \<open>A current, valid and exact approval of an effect at a time.\<close>

definition current_approval :: "effect \<Rightarrow> int \<Rightarrow> db \<Rightarrow> effect_approval \<Rightarrow> bool" where
  "current_approval e t d a \<longleftrightarrow> Some (fa_id a) = fx_authorizedByApprovalId e \<and> fa_effectId a = fx_id e \<and>
     fa_tenantId a = fx_tenantId e \<and> fa_requestDigest a = fx_requestDigest e \<and> fa_decision a = ApprovalApproved \<and>
     within_validity (fa_validFrom a) (fa_expiresAt a) t \<and>
     \<not> (\<exists>child \<in> set (effectApprovals d). fa_supersedesApprovalId child = Some (fa_id a))"

definition effect_authorization_guard :: "effect \<Rightarrow> db \<Rightarrow> bool" where
  "effect_authorization_guard e d \<longleftrightarrow> (case fx_authorizedAt e of None \<Rightarrow> False
     | Some t \<Rightarrow> \<exists>a \<in> set (effectApprovals d). current_approval e t d a)"

text \<open>The live claim that a row names with its fence.\<close>

definition effect_claim :: "effect \<Rightarrow> int \<Rightarrow> task_claim \<Rightarrow> bool" where
  "effect_claim e t c \<longleftrightarrow> Some (c_id c) = fx_claimId e \<and> c_taskId c = fx_taskId e \<and> c_tenantId c = fx_tenantId e \<and>
     Some (c_fence c) = fx_fence e \<and> c_releasedAt c = None \<and> t < c_expiresAt c"

text \<open>\<open>effect_execution_authority_guard\<close> and \<open>effect_execution_attempt_guard\<close>.\<close>

definition effect_execution_guard :: "effect \<Rightarrow> db \<Rightarrow> bool" where
  "effect_execution_guard e d \<longleftrightarrow> (case fx_executionStartedAt e of None \<Rightarrow> False
     | Some t \<Rightarrow> (\<exists>a \<in> set (effectApprovals d). current_approval e t d a) \<and>
        (\<exists>c \<in> set (claims d). effect_claim e t c) \<and>
        (\<exists>k \<in> set (tasks d). t_id k = fx_taskId e \<and> t_tenantId k = fx_tenantId e \<and> t_deletedAt k = None \<and>
           \<not> terminal (t_status k)) \<and>
        (\<exists>a \<in> set (attempts d). Some (a_id a) = fx_attemptId e \<and> a_tenantId a = fx_tenantId e \<and>
           a_taskId a = fx_taskId e \<and> a_status a = Running \<and> a_claimId a = fx_claimId e \<and>
           (\<exists>c \<in> set (claims d). effect_claim e t c \<and> c_principalId c = a_principalId a \<and> a_principalId a \<noteq> None)))"

fun outcome_status :: "receipt_outcome \<Rightarrow> effect_status" where
  "outcome_status ReceiptCommitted = EffectCommitted"
| "outcome_status ReceiptFailed = EffectFailed"
| "outcome_status ReceiptIndeterminate = EffectIndeterminate"

text \<open>\<open>effect_outcome_transition_guard\<close>: the receipt of an outcome.\<close>

definition outcome_receipt :: "effect \<Rightarrow> effect \<Rightarrow> effect_receipt \<Rightarrow> bool" where
  "outcome_receipt old new r \<longleftrightarrow> Some (fc_id r) = fx_outcomeReceiptId new \<and> fc_tenantId r = fx_tenantId new \<and>
     fc_effectId r = fx_id new \<and> fc_taskId r = fx_taskId new \<and> Some (fc_attemptId r) = fx_attemptId new \<and>
     Some (fc_approvalId r) = fx_authorizedByApprovalId new \<and>
     outcome_status (fr_outcome (fc_report r)) = fx_status new \<and>
     (fx_status old = EffectExecuting \<and> fr_resolvesReceiptId (fc_report r) = None \<or>
      fx_status old = EffectIndeterminate \<and> fr_resolvesReceiptId (fc_report r) \<noteq> None \<and>
        fr_resolvesReceiptId (fc_report r) = fx_outcomeReceiptId old)"

definition effect_outcome_guard :: "effect \<Rightarrow> effect \<Rightarrow> db \<Rightarrow> bool" where
  "effect_outcome_guard old new d \<longleftrightarrow>
     (if fx_status new \<in> {EffectIndeterminate, EffectCommitted, EffectFailed}
      then \<exists>r \<in> set (effectReceipts d). outcome_receipt old new r
      else fx_outcomeReceiptId new = None)"

definition effect_update_guard :: "effect \<Rightarrow> effect \<Rightarrow> db \<Rightarrow> bool" where
  "effect_update_guard old new d \<longleftrightarrow> fx_revision new = fx_revision old + 1 \<and> same_identity old new \<and>
     effect_transition (fx_status old) (fx_status new) \<and>
     (fx_status new = EffectAuthorized \<longrightarrow> effect_authorization_guard new d) \<and>
     (fx_status new = EffectExecuting \<longrightarrow> effect_execution_guard new d) \<and> effect_outcome_guard old new d"

definition effect_matches :: "string \<Rightarrow> string \<Rightarrow> int \<Rightarrow> effect \<Rightarrow> bool" where
  "effect_matches eid tenantId rv e \<longleftrightarrow> fx_id e = eid \<and> fx_tenantId e = tenantId \<and> fx_revision e = rv"

text \<open>A guarded update of one row at an expected revision; it returns the row.\<close>

definition update_effect ::
  "string \<Rightarrow> string \<Rightarrow> int \<Rightarrow> (effect \<Rightarrow> effect) \<Rightarrow> db \<Rightarrow> err + db \<times> effect" where
  "update_effect eid tenantId rv f d = (case find (effect_matches eid tenantId rv) (effects d) of
      None \<Rightarrow> Inl (Refused ''Stale effect revision'' [])
    | Some e \<Rightarrow> (case insert_row ''effect'' True
          (\<forall>x \<in> set (effects d). effect_matches eid tenantId rv x \<longrightarrow> effect_check (f x) \<and> effect_update_guard x (f x) d)
          (d\<lparr>effects := update_rows (effect_matches eid tenantId rv) f (effects d)\<rparr>) of
        Inl er \<Rightarrow> Inl er | Inr d \<Rightarrow> Inr (d, f e)))"

text \<open>\<open>effect_approval\<close>: constraints and \<open>effect_approval_workspace_guard\<close>.\<close>

definition approval_check :: "effect_approval \<Rightarrow> bool" where
  "approval_check a \<longleftrightarrow> opt_all (\<lambda>t. 0 \<le> t) (fa_validFrom a) \<and> opt_all (\<lambda>t. fa_decidedAt a < t) (fa_expiresAt a) \<and>
     (case (fa_validFrom a, fa_expiresAt a) of (Some v, Some t) \<Rightarrow> v < t | _ \<Rightarrow> True) \<and>
     (fa_decision a = ApprovalRevoked \<longrightarrow> fa_supersedesApprovalId a \<noteq> None) \<and> \<not> sql_blank (fa_verificationMethod a)"

definition superseded_leaf :: "effect_approval \<Rightarrow> db \<Rightarrow> string \<Rightarrow> bool" where
  "superseded_leaf a d s \<longleftrightarrow> (\<exists>x \<in> set (effectApprovals d). fa_id x = s \<and> fa_tenantId x = fa_tenantId a \<and>
     fa_effectId x = fa_effectId a \<and> fa_requestDigest x = fa_requestDigest a \<and> fa_decidedAt a \<ge> fa_decidedAt x \<and>
     \<not> (\<exists>child \<in> set (effectApprovals d). fa_supersedesApprovalId child = Some (fa_id x)))"

definition approval_insert_guard :: "effect_approval \<Rightarrow> db \<Rightarrow> bool" where
  "approval_insert_guard a d \<longleftrightarrow>
     (\<exists>e \<in> set (effects d). fx_id e = fa_effectId a \<and> fx_tenantId e = fa_tenantId a \<and>
        fx_requestDigest e = fa_requestDigest a) \<and>
     (\<exists>p \<in> set (principals d). p_id p = fa_approverPrincipalId a \<and> p_tenantId p = fa_tenantId a \<and> p_status p = Enabled) \<and>
     (\<exists>e \<in> set (effects d). fx_id e = fa_effectId a \<and> fa_decidedAt a \<ge> fx_createdAt e) \<and>
     opt_all (superseded_leaf a d) (fa_supersedesApprovalId a) \<and>
     (fa_decision a = ApprovalRevoked \<longrightarrow> (\<exists>x \<in> set (effectApprovals d). Some (fa_id x) = fa_supersedesApprovalId a \<and>
        fa_decision x = ApprovalApproved))"

definition insert_approval :: "effect_approval \<Rightarrow> db \<Rightarrow> err + db" where
  "insert_approval a d = insert_row ''effect_approval''
     (\<forall>x \<in> set (effectApprovals d). fa_id x \<noteq> fa_id a \<and>
        \<not> (fa_tenantId x = fa_tenantId a \<and> fa_supersedesApprovalId x = fa_supersedesApprovalId a \<and>
           (fa_supersedesApprovalId a \<noteq> None \<or> fa_effectId x = fa_effectId a)))
     (approval_check a \<and> approval_insert_guard a d) (d\<lparr>effectApprovals := effectApprovals d @ [a]\<rparr>)"

text \<open>\<open>effect_receipt\<close>: constraints and \<open>effect_receipt_insert_guard\<close>.\<close>

definition receipt_check :: "effect_receipt \<Rightarrow> bool" where
  "receipt_check r \<longleftrightarrow> take 7 (fc_receiptDigest r) = ''sha256:'' \<and> length (fc_receiptDigest r) = 71 \<and>
     fc_receiptDigest r ! 7 \<in> set ''0123456789abcdef'' \<and> \<not> sql_blank (fc_verificationMethod r) \<and>
     0 \<le> fr_occurredAt (fc_report r) \<and> 0 \<le> fc_recordedAt r \<and>
     (if fr_outcome (fc_report r) = ReceiptIndeterminate
      then fr_resolvesReceiptId (fc_report r) = None \<and> fr_providerOperationId (fc_report r) = None
      else fr_providerOperationId (fc_report r) \<noteq> None)"

definition exact_binding :: "effect \<Rightarrow> effect_report \<Rightarrow> bool" where
  "exact_binding e r \<longleftrightarrow> fr_requestDigest r = fx_requestDigest e \<and>
     fr_dispatchIdempotencyKey r = fx_dispatchIdempotencyKey e \<and> Some (fr_approvalId r) = fx_authorizedByApprovalId e \<and>
     Some (fr_claimId r) = fx_claimId e \<and> Some (fr_fence r) = fx_fence e \<and>
     fr_connectorInstanceRef r = kb_instanceRef (fq_connector (fx_request e)) \<and>
     fr_connectorBindingDigest r = kb_bindingDigest (fq_connector (fx_request e))"

definition bound_effect :: "effect_receipt \<Rightarrow> effect \<Rightarrow> bool" where
  "bound_effect r e \<longleftrightarrow> fx_id e = fc_effectId r \<and> fx_tenantId e = fc_tenantId r \<and> fx_taskId e = fc_taskId r \<and>
     fx_attemptId e = Some (fc_attemptId r) \<and> fx_authorizedByApprovalId e = Some (fc_approvalId r) \<and>
     fx_status e \<in> {EffectExecuting, EffectIndeterminate} \<and> exact_binding e (fc_report r)"

definition receipt_metadata :: "effect_receipt \<Rightarrow> json_object" where
  "receipt_metadata r = [(''effectId'', JStr (fc_effectId r)), (''approvalId'', JStr (fc_approvalId r)),
     (''receiptId'', JStr (fc_id r)), (''receiptDigest'', JStr (fc_receiptDigest r)),
     (''outcome'', JStr (receipt_outcome_text (fr_outcome (fc_report r))))]"

definition bound_evidence :: "effect_receipt \<Rightarrow> task_evidence \<Rightarrow> bool" where
  "bound_evidence r v \<longleftrightarrow> e_id v = fc_evidenceId r \<and> e_tenantId v = fc_tenantId r \<and> e_taskId v = fc_taskId r \<and>
     e_attemptId v = Some (fc_attemptId r) \<and> e_kind v = ''effect_receipt'' \<and> e_uri v = Some (fr_rawRef (fc_report r)) \<and>
     e_digest v = Some (fr_rawDigest (fc_report r)) \<and> e_source v = Some (fr_connectorInstanceRef (fc_report r)) \<and>
     e_observedAt v = fr_occurredAt (fc_report r) \<and>
     list_all (\<lambda>(k, x). obj_get (e_metadata v) k = x) (receipt_metadata r)"

definition resolution_matches :: "effect_receipt \<Rightarrow> db \<Rightarrow> bool" where
  "resolution_matches r d \<longleftrightarrow> (\<exists>e \<in> set (effects d). fx_id e = fc_effectId r \<and>
     (case fr_resolvesReceiptId (fc_report r) of None \<Rightarrow> fx_status e = EffectExecuting
      | Some p \<Rightarrow> fx_status e = EffectIndeterminate \<and> fx_outcomeReceiptId e = Some p \<and>
          (\<exists>prior \<in> set (effectReceipts d). fc_id prior = p \<and> fc_effectId prior = fx_id e \<and>
             fr_outcome (fc_report prior) = ReceiptIndeterminate)))"

definition receipt_insert_guard :: "effect_receipt \<Rightarrow> db \<Rightarrow> bool" where
  "receipt_insert_guard r d \<longleftrightarrow>
     (\<exists>p \<in> set (principals d). p_id p = fc_recordedByPrincipalId r \<and> p_tenantId p = fc_tenantId r \<and> p_status p = Enabled) \<and>
     (\<exists>e \<in> set (effects d). bound_effect r e) \<and> fc_tenantId r = fr_workspaceId (fc_report r) \<and>
     fc_effectId r = fr_effectId (fc_report r) \<and> fc_approvalId r = fr_approvalId (fc_report r) \<and>
     (\<exists>v \<in> set (evidence d). bound_evidence r v) \<and>
     (fr_outcome (fc_report r) \<noteq> ReceiptIndeterminate \<longrightarrow>
        strong_verification (fc_verificationLevel r) (fc_coverage r) \<and> length (fc_coverage r) = 4) \<and>
     resolution_matches r d"

definition insert_receipt :: "effect_receipt \<Rightarrow> db \<Rightarrow> err + db" where
  "insert_receipt r d = insert_row ''effect_receipt''
     (\<forall>x \<in> set (effectReceipts d). fc_id x \<noteq> fc_id r \<and>
        \<not> (fc_tenantId x = fc_tenantId r \<and> (fc_evidenceId x = fc_evidenceId r \<or>
           fr_connectorInstanceRef (fc_report x) = fr_connectorInstanceRef (fc_report r) \<and>
           fr_externalReceiptId (fc_report x) = fr_externalReceiptId (fc_report r))))
     (receipt_check r \<and> receipt_insert_guard r d) (d\<lparr>effectReceipts := effectReceipts d @ [r]\<rparr>)"

end
