(* ===== verification/Effects.thy ===== *)
theory Effects
  imports Effect_Guards
begin

text \<open>
  The effect service (\<open>packages/tasq-core/src/service/effects.ts\<close>): an effect on the outside world is
  proposed with its exact request, decided about by a chain of approvals, authorized, begun once under a
  live claim, and resolved by a receipt of the connector. A column of JSON text holds the value it
  encodes, written canonically. Inputs are those after the schema has filled in its defaults.
\<close>

section \<open>Reading\<close>

definition parseEffect :: "effect_host \<Rightarrow> effect \<Rightarrow> err + effect" where
  "parseEffect h row = (case prepareEffectRequest h (fx_request row) of Inl e \<Rightarrow> Inl e | Inr prepared \<Rightarrow>
     if pq_canonicalRequest prepared \<noteq> fx_canonicalRequest row \<or> pq_requestDigest prepared \<noteq> fx_requestDigest row
     then Inl (Refused ''Effect request integrity mismatch'' [fx_id row])
     else case deriveEffectDispatchKey h (fx_id row) prepared of Inl e \<Rightarrow> Inl e | Inr key \<Rightarrow>
     if key \<noteq> fx_dispatchIdempotencyKey row then Inl (Refused ''Effect dispatch identity mismatch'' [fx_id row])
     else let v = row\<lparr>fx_request := pq_request prepared\<rparr> in
       if effect_ok h v then Inr v else Inl (InvalidInput ''Effect''))"

definition parseApproval :: "effect_approval \<Rightarrow> err + effect_approval" where
  "parseApproval row =
     (case canonicalizeEffectJson (JObj (fa_scope row)) of Inl e \<Rightarrow> Inl e | Inr _ \<Rightarrow>
      case canonicalizeEffectJson (JObj (fa_limits row)) of Inl e \<Rightarrow> Inl e | Inr _ \<Rightarrow>
      case canonicalizeEffectJson (JObj (fa_verification row)) of Inl e \<Rightarrow> Inl e | Inr _ \<Rightarrow>
      if effect_approval_ok row then Inr row else Inl (InvalidInput ''EffectApproval''))"

definition getEffect :: "effect_host \<Rightarrow> string \<Rightarrow> string \<Rightarrow> db \<Rightarrow> err + effect option" where
  "getEffect h eid tenantId d = (case find (\<lambda>e. fx_id e = eid \<and> fx_tenantId e = tenantId) (effects d) of
      None \<Rightarrow> Inr None
    | Some row \<Rightarrow> (case parseEffect h row of Inl e \<Rightarrow> Inl e | Inr v \<Rightarrow> Inr (Some v)))"

record list_effects_options =
  le_tenantId :: "string option"
  le_taskId :: "string option"
  le_status :: "effect_status option"

definition listEffects :: "effect_host \<Rightarrow> list_effects_options \<Rightarrow> db \<Rightarrow> err + effect list" where
  "listEffects h opts d = map_res (parseEffect h) (sort_key fx_createdAt (filter
     (\<lambda>e. fx_tenantId e = or_else (le_tenantId opts) LEGACY_DEFAULT_WORKSPACE_ID \<and>
        (truthy_str (le_taskId opts) \<longrightarrow> le_taskId opts = Some (fx_taskId e)) \<and>
        opt_all (\<lambda>s. fx_status e = s) (le_status opts)) (effects d)))"

definition getEffectApproval :: "string \<Rightarrow> string \<Rightarrow> db \<Rightarrow> err + effect_approval option" where
  "getEffectApproval aid tenantId d =
     (case find (\<lambda>a. fa_id a = aid \<and> fa_tenantId a = tenantId) (effectApprovals d) of
        None \<Rightarrow> Inr None
      | Some row \<Rightarrow> (case parseApproval row of Inl e \<Rightarrow> Inl e | Inr v \<Rightarrow> Inr (Some v)))"

record list_approvals_options =
  la_tenantId :: "string option"
  la_effectId :: "string option"
  la_decision :: "approval_decision option"

definition listEffectApprovals :: "list_approvals_options \<Rightarrow> db \<Rightarrow> err + effect_approval list" where
  "listEffectApprovals opts d = map_res parseApproval (sort_key fa_decidedAt (filter
     (\<lambda>a. fa_tenantId a = or_else (la_tenantId opts) LEGACY_DEFAULT_WORKSPACE_ID \<and>
        (truthy_str (la_effectId opts) \<longrightarrow> la_effectId opts = Some (fa_effectId a)) \<and>
        opt_all (\<lambda>s. fa_decision a = s) (la_decision opts)) (effectApprovals d)))"

definition approval_leaves :: "effect_approval list \<Rightarrow> effect_approval list" where
  "approval_leaves approvals = filter (\<lambda>v. Some (fa_id v) \<notin> set (filter truthy_str (map fa_supersedesApprovalId approvals))) approvals"

definition getEffectiveEffectApproval :: "string \<Rightarrow> string \<Rightarrow> db \<Rightarrow> err + effect_approval option" where
  "getEffectiveEffectApproval eid tenantId d =
     (case listEffectApprovals \<lparr>la_tenantId = Some tenantId, la_effectId = Some eid, la_decision = None\<rparr> d of Inl e \<Rightarrow> Inl e
      | Inr approvals \<Rightarrow> if approvals = [] then Inr None
          else (case approval_leaves approvals of [a] \<Rightarrow> Inr (Some a)
                | _ \<Rightarrow> Inl (Refused ''Effect has a branched approval history'' [eid])))"

definition parseReceipt :: "effect_host \<Rightarrow> effect_receipt \<Rightarrow> err + effect_receipt" where
  "parseReceipt h row = (case prepareEffectReceiptReport h (fc_report row) of Inl e \<Rightarrow> Inl e | Inr prepared \<Rightarrow>
     if pt_canonicalReport prepared \<noteq> fc_canonicalReport row \<or> pt_receiptDigest prepared \<noteq> fc_receiptDigest row
     then Inl (Refused ''Effect receipt integrity mismatch'' [fc_id row])
     else case canonicalizeEffectJson (JObj (fc_verification row)) of Inl e \<Rightarrow> Inl e | Inr _ \<Rightarrow>
     if effect_receipt_ok row then Inr row else Inl (InvalidInput ''EffectReceipt''))"

definition getEffectReceipt :: "effect_host \<Rightarrow> string \<Rightarrow> string \<Rightarrow> db \<Rightarrow> err + effect_receipt option" where
  "getEffectReceipt h rid tenantId d =
     (case find (\<lambda>r. fc_id r = rid \<and> fc_tenantId r = tenantId) (effectReceipts d) of
        None \<Rightarrow> Inr None
      | Some row \<Rightarrow> (case parseReceipt h row of Inl e \<Rightarrow> Inl e | Inr v \<Rightarrow> Inr (Some v)))"

definition listEffectReceipts :: "effect_host \<Rightarrow> string option \<Rightarrow> string option \<Rightarrow> db \<Rightarrow> err + effect_receipt list" where
  "listEffectReceipts h tenantId effectId d = map_res (parseReceipt h) (sort_key fc_recordedAt (filter
     (\<lambda>r. fc_tenantId r = or_else tenantId LEGACY_DEFAULT_WORKSPACE_ID \<and>
        (truthy_str effectId \<longrightarrow> effectId = Some (fc_effectId r))) (effectReceipts d)))"

text \<open>A row that must be there, with the error when it is not.\<close>

definition found :: "string \<Rightarrow> string \<Rightarrow> err + 'a option \<Rightarrow> err + 'a" where
  "found msg i m = (case m of Inl e \<Rightarrow> Inl e | Inr None \<Rightarrow> Inl (Refused msg [i]) | Inr (Some v) \<Rightarrow> Inr v)"

section \<open>Retries and references\<close>

text \<open>The identity of a retried call with the identifier and the revision of the result it has.\<close>

definition effectRetry ::
  "env \<Rightarrow> string \<Rightarrow> service_context \<Rightarrow> string \<Rightarrow> json \<Rightarrow> int \<Rightarrow> db \<Rightarrow>
    err + db \<times> string option \<times> int option \<times> prepared_idempotency option" where
  "effectRetry env tenantId ctx operation request now d =
     (case prepareIdempotency env (ctx\<lparr>ctx_tenantId := Some tenantId\<rparr>) operation request now (Some Durable) None
         (Some (JObj [(''operation'', JStr operation), (''request'', request)])) of Inl e \<Rightarrow> Inl e
      | Inr identity \<Rightarrow> (case findIdempotencyResult identity d of Inl e \<Rightarrow> Inl e
          | Inr (d, prior) \<Rightarrow> Inr (d, map_option ik_resultId prior,
              (case prior of None \<Rightarrow> None | Some r \<Rightarrow> ik_resultRevision r), identity)))"

definition prior_effect :: "effect_host \<Rightarrow> string \<Rightarrow> string \<Rightarrow> db \<Rightarrow> err + effect" where
  "prior_effect h tenantId eid d = found ''Idempotency record points at missing effect'' eid (getEffect h eid tenantId d)"

definition requireTaskAndAttempt :: "string \<Rightarrow> string \<Rightarrow> string option \<Rightarrow> db \<Rightarrow> err + unit" where
  "requireTaskAndAttempt tenantId tid attemptId d =
     (if \<not> (\<exists>t \<in> set (tasks d). t_id t = tid \<and> t_tenantId t = tenantId \<and> t_deletedAt t = None)
      then Inl (Refused ''Commitment not found'' [tid])
      else case attemptId of None \<Rightarrow> Inr ()
      | Some aid \<Rightarrow> if \<exists>a \<in> set (attempts d). owned_attempt tid tenantId aid a then Inr ()
          else Inl (Refused ''Attempt does not belong to commitment'' [aid]))"

definition requireRegisteredEffectType :: "string \<Rightarrow> string \<Rightarrow> int \<Rightarrow> db \<Rightarrow> err + unit" where
  "requireRegisteredEffectType tenantId typeUri schemaVersion d =
     (if \<exists>x \<in> set (extensionTypes d). ft_tenantId x = tenantId \<and> ft_recordKind x = ''effect'' \<and>
        ft_typeUri x = typeUri \<and> ft_schemaVersion x = schemaVersion then Inr ()
      else Inl (Refused ''Unsupported effect type'' [typeUri]))"

definition effect_outcome :: "effect \<Rightarrow> int \<Rightarrow> idempotency_outcome" where
  "effect_outcome e sequence = \<lparr>o_resultType = ''effect'', o_resultId = fx_id e,
     o_resultStatus = Some (effect_status_text (fx_status e)), o_resultRevision = Some (fx_revision e),
     o_eventSequence = Some sequence\<rparr>"

text \<open>The event and the saved outcome that end a change of an effect.\<close>

definition close_effect ::
  "effect_host \<Rightarrow> service_context \<Rightarrow> prepared_idempotency option \<Rightarrow> principal \<Rightarrow> int \<Rightarrow> string \<Rightarrow> json_object \<Rightarrow> effect \<Rightarrow>
    db \<Rightarrow> err + db \<times> effect \<times> event list" where
  "close_effect h ctx identity caller now eventType payload e d =
     (case recordEvent (eh_env h) (task_event (fx_tenantId e) (actorLabel ctx caller) (Some (p_id caller)) (fx_taskId e)
          eventType payload) now d of Inl er \<Rightarrow> Inl er | Inr (d, ev) \<Rightarrow>
      (case saveIdempotencyResult identity (effect_outcome e (ev_sequence ev)) d of Inl er \<Rightarrow> Inl er
       | Inr d \<Rightarrow> Inr (d, e, [ev])))"

section \<open>Proposing\<close>

definition effect_proposal_json :: "effect_proposal \<Rightarrow> json" where
  "effect_proposal_json i = JObj (optional_entry ''id'' (ep_id i) @ [(''tenantId'', JStr (ep_tenantId i)),
     (''taskId'', JStr (ep_taskId i)), (''attemptId'', nullable JStr (ep_attemptId i)),
     (''request'', effect_request_json (ep_request i)),
     (''supersedesEffectId'', nullable JStr (ep_supersedesEffectId i)),
     (''compensationOfEffectId'', nullable JStr (ep_compensationOfEffectId i))])"

definition propose_request :: "effect_proposal \<Rightarrow> prepared_effect \<Rightarrow> json" where
  "propose_request i prepared = JObj [(''taskId'', JStr (ep_taskId i)), (''attemptId'', nullable JStr (ep_attemptId i)),
     (''requestDigest'', JStr (pq_requestDigest prepared)),
     (''supersedesEffectId'', nullable JStr (ep_supersedesEffectId i)),
     (''compensationOfEffectId'', nullable JStr (ep_compensationOfEffectId i))]"

definition new_effect :: "effect_proposal \<Rightarrow> prepared_effect \<Rightarrow> string \<Rightarrow> string \<Rightarrow> string \<Rightarrow> int \<Rightarrow> effect" where
  "new_effect i prepared eid key callerId now = \<lparr>fx_id = eid, fx_tenantId = ep_tenantId i, fx_taskId = ep_taskId i,
     fx_attemptId = ep_attemptId i, fx_request = pq_request prepared, fx_canonicalRequest = pq_canonicalRequest prepared,
     fx_requestDigest = pq_requestDigest prepared, fx_dispatchIdempotencyKey = key, fx_status = EffectProposed,
     fx_authorizedByApprovalId = None, fx_outcomeReceiptId = None, fx_claimId = None, fx_fence = None,
     fx_supersedesEffectId = ep_supersedesEffectId i, fx_compensationOfEffectId = ep_compensationOfEffectId i,
     fx_createdByPrincipalId = callerId, fx_revision = 1, fx_authorizedAt = None, fx_executionStartedAt = None,
     fx_indeterminateAt = None, fx_resolvedAt = None, fx_cancelledAt = None, fx_cancelReason = None,
     fx_createdAt = now, fx_updatedAt = now\<rparr>"

definition superseded_effect :: "effect_host \<Rightarrow> effect_proposal \<Rightarrow> db \<Rightarrow> err + unit" where
  "superseded_effect h i d = (if \<not> truthy_str (ep_supersedesEffectId i) then Inr ()
     else case getEffect h (the (ep_supersedesEffectId i)) (ep_tenantId i) d of Inl e \<Rightarrow> Inl e
     | Inr prior \<Rightarrow> if (case prior of None \<Rightarrow> False | Some p \<Rightarrow> fx_taskId p = ep_taskId i \<and> fx_status p = EffectCancelled)
         then Inr () else Inl (Refused ''A correction must supersede a cancelled effect on the same commitment'' []))"

definition compensated_effect :: "effect_host \<Rightarrow> effect_proposal \<Rightarrow> db \<Rightarrow> err + unit" where
  "compensated_effect h i d = (if \<not> truthy_str (ep_compensationOfEffectId i) then Inr ()
     else case getEffect h (the (ep_compensationOfEffectId i)) (ep_tenantId i) d of Inl e \<Rightarrow> Inl e
     | Inr original \<Rightarrow> if (case original of None \<Rightarrow> False | Some p \<Rightarrow> fx_status p = EffectCommitted)
         then Inr () else Inl (Refused ''A compensation must reference a committed effect'' []))"

definition write_effect ::
  "effect_host \<Rightarrow> effect_proposal \<Rightarrow> prepared_effect \<Rightarrow> service_context \<Rightarrow> prepared_idempotency option \<Rightarrow> principal \<Rightarrow> int \<Rightarrow>
    db \<Rightarrow> err + db \<times> effect \<times> event list" where
  "write_effect h i prepared ctx identity caller now d0 =
     (let (d, eid) = draw_id (eh_env h) (ep_id i) now d0 in
      case deriveEffectDispatchKey h eid prepared of Inl e \<Rightarrow> Inl e | Inr key \<Rightarrow>
      (case insert_effect (new_effect i prepared eid key (p_id caller) now) d of Inl e \<Rightarrow> Inl e | Inr d \<Rightarrow>
      (case found ''Failed to read back effect'' eid (getEffect h eid (ep_tenantId i) d) of Inl e \<Rightarrow> Inl e | Inr e \<Rightarrow>
       close_effect h ctx identity caller now ''effect_proposed''
         [(''after'', JObj [(''effectId'', JStr eid), (''requestDigest'', JStr (pq_requestDigest prepared)),
            (''effectTypeUri'', JStr (fq_effectTypeUri (pq_request prepared)))])] e d)))"

definition fresh_effect ::
  "effect_host \<Rightarrow> effect_proposal \<Rightarrow> prepared_effect \<Rightarrow> service_context \<Rightarrow> prepared_idempotency option \<Rightarrow> int \<Rightarrow> db \<Rightarrow>
    err + db \<times> effect \<times> event list" where
  "fresh_effect h i prepared ctx identity now d =
     (case requireTaskAndAttempt (ep_tenantId i) (ep_taskId i) (ep_attemptId i) d of Inl e \<Rightarrow> Inl e | Inr _ \<Rightarrow>
      (case requireRegisteredEffectType (ep_tenantId i) (fq_effectTypeUri (pq_request prepared))
          (fq_effectSchemaVersion (pq_request prepared)) d of Inl e \<Rightarrow> Inl e | Inr _ \<Rightarrow>
      (case contextPrincipal (eh_env h) (ep_tenantId i) ctx now d of Inl e \<Rightarrow> Inl e | Inr (d, caller) \<Rightarrow>
      (case superseded_effect h i d of Inl e \<Rightarrow> Inl e | Inr _ \<Rightarrow>
      (case compensated_effect h i d of Inl e \<Rightarrow> Inl e | Inr _ \<Rightarrow>
       write_effect h i prepared ctx identity caller now d)))))"

definition proposeTx ::
  "effect_host \<Rightarrow> effect_proposal \<Rightarrow> prepared_effect \<Rightarrow> service_context \<Rightarrow> int \<Rightarrow> db \<Rightarrow> err + db \<times> effect \<times> event list" where
  "proposeTx h i prepared ctx now d =
     (case effectRetry (eh_env h) (ep_tenantId i) ctx ''effect.propose'' (propose_request i prepared) now d of
        Inl e \<Rightarrow> Inl e
      | Inr (d, priorId, _, identity) \<Rightarrow>
          replayed (prior_effect h (ep_tenantId i)) (fresh_effect h i prepared ctx identity now) priorId d)"

definition propose_input :: "effect_host \<Rightarrow> effect_proposal \<Rightarrow> err + prepared_effect" where
  "propose_input h i = (case canonicalizeEffectJson (effect_proposal_json i) of Inl e \<Rightarrow> Inl e | Inr _ \<Rightarrow>
     if \<not> effect_proposal_ok h i then Inl (InvalidInput ''EffectProposal'')
     else if fq_workspaceId (ep_request i) \<noteq> ep_tenantId i
     then Inl (Refused ''Effect request workspaceId must match tenantId'' [])
     else prepareEffectRequest h (ep_request i))"

definition proposeEffect ::
  "effect_host \<Rightarrow> effect_proposal \<Rightarrow> service_context \<Rightarrow> db \<Rightarrow> db \<times> (err + effect)" where
  "proposeEffect h i ctx = prologue (propose_input h i) (\<lambda>prepared.
     prologue (serviceNow ctx) (\<lambda>now. runInTransaction (proposeTx h i prepared ctx now)))"

section \<open>Approvals\<close>

text \<open>How the caller was verified, when the context says.\<close>

record authority_verification =
  av_level :: verification_level
  av_method :: string
  av_details :: "json_object option"

record verified_caller =
  vc_level :: verification_level
  vc_method :: string
  vc_details :: json_object

definition verificationFromContext :: "authority_verification option \<Rightarrow> err + verified_caller" where
  "verificationFromContext supplied = (case supplied of
      None \<Rightarrow> Inr \<lparr>vc_level = SelfAsserted, vc_method = ''local-actor-alias'', vc_details = []\<rparr>
    | Some s \<Rightarrow> if js_blank (av_method s) then Inl (Refused ''authority verification method must not be empty'' [])
        else (case canonicalizeEffectJson (JObj (or_else (av_details s) [])) of Inl e \<Rightarrow> Inl e
          | Inr _ \<Rightarrow> Inr \<lparr>vc_level = av_level s, vc_method = av_method s, vc_details = or_else (av_details s) []\<rparr>))"

definition approval_input_json :: "approval_input \<Rightarrow> json" where
  "approval_input_json i = JObj (optional_entry ''id'' (ai_id i) @ [(''tenantId'', JStr (ai_tenantId i)),
     (''effectId'', JStr (ai_effectId i)), (''decision'', JStr (approval_decision_text (ai_decision i))),
     (''scope'', JObj (ai_scope i)), (''limits'', JObj (ai_limits i)), (''validFrom'', nullable JInt (ai_validFrom i)),
     (''expiresAt'', nullable JInt (ai_expiresAt i)),
     (''supersedesApprovalId'', nullable JStr (ai_supersedesApprovalId i))])"

definition approval_request :: "approval_input \<Rightarrow> effect \<Rightarrow> string \<Rightarrow> verified_caller \<Rightarrow> json" where
  "approval_request i target callerId v = JObj [(''input'', approval_input_json i),
     (''requestDigest'', JStr (fx_requestDigest target)), (''approverPrincipalId'', JStr callerId),
     (''verification'', JObj [(''level'', JStr (verification_level_text (vc_level v))), (''method'', JStr (vc_method v)),
        (''details'', JObj (vc_details v))])]"

definition new_approval :: "approval_input \<Rightarrow> effect \<Rightarrow> string \<Rightarrow> string \<Rightarrow> verified_caller \<Rightarrow> int \<Rightarrow> effect_approval" where
  "new_approval i target aid callerId v now = \<lparr>fa_id = aid, fa_tenantId = ai_tenantId i, fa_effectId = fx_id target,
     fa_requestDigest = fx_requestDigest target, fa_approverPrincipalId = callerId, fa_decision = ai_decision i,
     fa_scope = ai_scope i, fa_limits = ai_limits i, fa_validFrom = ai_validFrom i, fa_expiresAt = ai_expiresAt i,
     fa_verificationLevel = vc_level v, fa_verificationMethod = vc_method v, fa_verification = vc_details v,
     fa_supersedesApprovalId = ai_supersedesApprovalId i, fa_decidedAt = now\<rparr>"

text \<open>A decision continues the chain at its only leaf; a revocation revokes an approval.\<close>

definition chain_guard :: "approval_input \<Rightarrow> effect_approval option \<Rightarrow> err + unit" where
  "chain_guard i current = (case current of
      None \<Rightarrow> if ai_supersedesApprovalId i \<noteq> None
        then Inl (Refused ''The first approval decision cannot supersede another record'' [])
        else if ai_decision i = ApprovalRevoked then Inl (Refused ''Revocation must supersede an approved decision'' [])
        else Inr ()
    | Some c \<Rightarrow> if ai_supersedesApprovalId i \<noteq> Some (fa_id c)
        then Inl (Refused ''Approval decision must supersede current leaf'' [fa_id c])
        else if ai_decision i = ApprovalRevoked \<and> fa_decision c \<noteq> ApprovalApproved
        then Inl (Refused ''Revocation must supersede an approved decision'' []) else Inr ())"

definition withdraw_effect_patch :: "int \<Rightarrow> effect \<Rightarrow> effect" where
  "withdraw_effect_patch now e = e\<lparr>fx_status := EffectProposed, fx_authorizedByApprovalId := None, fx_authorizedAt := None,
     fx_updatedAt := now, fx_revision := fx_revision e + 1\<rparr>"

text \<open>A new decision withdraws the authority of an effect that rested on the decision it supersedes.\<close>

definition withdraw_authority ::
  "effect_host \<Rightarrow> service_context \<Rightarrow> principal \<Rightarrow> effect \<Rightarrow> effect_approval option \<Rightarrow> int \<Rightarrow> db \<Rightarrow> err + db \<times> event list" where
  "withdraw_authority h ctx caller target current now d =
     (case current of None \<Rightarrow> Inr (d, [])
      | Some c \<Rightarrow> if \<not> (fx_status target = EffectAuthorized \<and> fx_authorizedByApprovalId target = Some (fa_id c)) then Inr (d, [])
        else (case update_effect (fx_id target) (fx_tenantId target) (fx_revision target) (withdraw_effect_patch now) d of Inl e \<Rightarrow> Inl e
          | Inr (d, _) \<Rightarrow>
            (case recordEvent (eh_env h) (task_event (fx_tenantId target) (actorLabel ctx caller) (Some (p_id caller))
                (fx_taskId target) ''effect_authority_withdrawn''
                [(''before'', JObj [(''effectId'', JStr (fx_id target)), (''approvalId'', JStr (fa_id c))]),
                 (''after'', JObj [(''status'', JStr ''proposed'')])]) now d of Inl e \<Rightarrow> Inl e
             | Inr (d, ev) \<Rightarrow> Inr (d, [ev]))))"

definition approval_outcome :: "effect_approval \<Rightarrow> int \<Rightarrow> idempotency_outcome" where
  "approval_outcome a sequence = \<lparr>o_resultType = ''effect_approval'', o_resultId = fa_id a,
     o_resultStatus = Some (approval_decision_text (fa_decision a)), o_resultRevision = None, o_eventSequence = Some sequence\<rparr>"

definition approval_event :: "service_context \<Rightarrow> principal \<Rightarrow> effect \<Rightarrow> effect_approval \<Rightarrow> event_insert" where
  "approval_event ctx caller target a = task_event (fa_tenantId a) (actorLabel ctx caller) (Some (p_id caller))
     (fx_taskId target) ''effect_approval_recorded''
     [(''after'', JObj [(''effectId'', JStr (fx_id target)), (''approvalId'', JStr (fa_id a)),
        (''requestDigest'', JStr (fx_requestDigest target)), (''decision'', JStr (approval_decision_text (fa_decision a))),
        (''supersedesApprovalId'', nullable JStr (fa_supersedesApprovalId a))])]"

definition write_approval ::
  "effect_host \<Rightarrow> approval_input \<Rightarrow> verified_caller \<Rightarrow> service_context \<Rightarrow> prepared_idempotency option \<Rightarrow> principal \<Rightarrow> effect \<Rightarrow>
    effect_approval option \<Rightarrow> int \<Rightarrow> db \<Rightarrow> err + db \<times> effect_approval \<times> event list" where
  "write_approval h i v ctx identity caller target current now d0 =
     (let (d, aid) = draw_id (eh_env h) (ai_id i) now d0; a = new_approval i target aid (p_id caller) v now in
      case insert_approval a d of Inl e \<Rightarrow> Inl e | Inr d \<Rightarrow>
      (case recordEvent (eh_env h) (approval_event ctx caller target a) now d of Inl e \<Rightarrow> Inl e | Inr (d, ev) \<Rightarrow>
      (case withdraw_authority h ctx caller target current now d of Inl e \<Rightarrow> Inl e | Inr (d, evs) \<Rightarrow>
      (case saveIdempotencyResult identity (approval_outcome a (ev_sequence ev)) d of Inl e \<Rightarrow> Inl e | Inr d \<Rightarrow>
      (case found ''Failed to read back effect approval'' aid (getEffectApproval aid (ai_tenantId i) d) of Inl e \<Rightarrow> Inl e
       | Inr r \<Rightarrow> Inr (d, r, ev # evs))))))"

definition fresh_approval ::
  "effect_host \<Rightarrow> approval_input \<Rightarrow> verified_caller \<Rightarrow> service_context \<Rightarrow> prepared_idempotency option \<Rightarrow> principal \<Rightarrow> effect \<Rightarrow>
    int \<Rightarrow> db \<Rightarrow> err + db \<times> effect_approval \<times> event list" where
  "fresh_approval h i v ctx identity caller target now d =
     (case getEffectiveEffectApproval (fx_id target) (ai_tenantId i) d of Inl e \<Rightarrow> Inl e | Inr current \<Rightarrow>
      (case chain_guard i current of Inl e \<Rightarrow> Inl e | Inr _ \<Rightarrow>
       write_approval h i v ctx identity caller target current now d))"

definition prior_approval :: "string \<Rightarrow> string \<Rightarrow> db \<Rightarrow> err + effect_approval" where
  "prior_approval tenantId aid d = found ''Idempotency record points at missing approval'' aid (getEffectApproval aid tenantId d)"

definition approvalTx ::
  "effect_host \<Rightarrow> approval_input \<Rightarrow> verified_caller \<Rightarrow> service_context \<Rightarrow> int \<Rightarrow> db \<Rightarrow>
    err + db \<times> effect_approval \<times> event list" where
  "approvalTx h i v ctx now d =
     (case found ''Effect not found'' (ai_effectId i) (getEffect h (ai_effectId i) (ai_tenantId i) d) of Inl e \<Rightarrow> Inl e
      | Inr target \<Rightarrow>
      (case contextPrincipal (eh_env h) (ai_tenantId i) ctx now d of Inl e \<Rightarrow> Inl e | Inr (d, caller) \<Rightarrow>
      (case effectRetry (eh_env h) (ai_tenantId i) ctx ''effect.approval.record''
          (approval_request i target (p_id caller) v) now d of Inl e \<Rightarrow> Inl e
       | Inr (d, priorId, _, identity) \<Rightarrow> replayed (prior_approval (ai_tenantId i))
           (fresh_approval h i v ctx identity caller target now) priorId d)))"

definition approval_inputs :: "approval_input \<Rightarrow> authority_verification option \<Rightarrow> int \<Rightarrow> err + verified_caller" where
  "approval_inputs i av now = (if (case ai_expiresAt i of None \<Rightarrow> False | Some t \<Rightarrow> t \<le> now)
     then Inl (Refused ''Approval expiry must be in the future at decision time'' [])
     else case verificationFromContext av of Inl e \<Rightarrow> Inl e | Inr v \<Rightarrow>
     (case canonicalizeEffectJson (JObj (ai_scope i)) of Inl e \<Rightarrow> Inl e | Inr _ \<Rightarrow>
     (case canonicalizeEffectJson (JObj (ai_limits i)) of Inl e \<Rightarrow> Inl e | Inr _ \<Rightarrow>
     (case canonicalizeEffectJson (JObj (vc_details v)) of Inl e \<Rightarrow> Inl e | Inr _ \<Rightarrow> Inr v))))"

definition approval_prologue :: "approval_input \<Rightarrow> service_context \<Rightarrow> err + int" where
  "approval_prologue i ctx = (case canonicalizeEffectJson (approval_input_json i) of Inl e \<Rightarrow> Inl e | Inr _ \<Rightarrow>
     if \<not> approval_input_ok i then Inl (InvalidInput ''EffectApprovalDecision'') else serviceNow ctx)"

definition recordEffectApproval ::
  "effect_host \<Rightarrow> approval_input \<Rightarrow> authority_verification option \<Rightarrow> service_context \<Rightarrow> db \<Rightarrow> db \<times> (err + effect_approval)" where
  "recordEffectApproval h i av ctx = prologue (approval_prologue i ctx) (\<lambda>now.
     prologue (approval_inputs i av now) (\<lambda>v. runInTransaction (approvalTx h i v ctx now)))"

section \<open>Authorization and cancellation\<close>

definition authorize_patch :: "string \<Rightarrow> int \<Rightarrow> effect \<Rightarrow> effect" where
  "authorize_patch aid now e = e\<lparr>fx_status := EffectAuthorized, fx_authorizedByApprovalId := Some aid,
     fx_authorizedAt := Some now, fx_updatedAt := now, fx_revision := fx_revision e + 1\<rparr>"

definition authorizing_approval :: "effect \<Rightarrow> string \<Rightarrow> int \<Rightarrow> db \<Rightarrow> err + effect_approval" where
  "authorizing_approval before aid now d =
     (case getEffectiveEffectApproval (fx_id before) (fx_tenantId before) d of Inl e \<Rightarrow> Inl e
      | Inr None \<Rightarrow> Inl (Refused ''Effect authorization requires the current approved decision'' [])
      | Inr (Some a) \<Rightarrow> if fa_id a \<noteq> aid \<or> fa_decision a \<noteq> ApprovalApproved
          then Inl (Refused ''Effect authorization requires the current approved decision'' [])
          else if fa_requestDigest a \<noteq> fx_requestDigest before
          then Inl (Refused ''Approval request digest does not match the effect'' [])
          else if (case fa_validFrom a of None \<Rightarrow> False | Some t \<Rightarrow> now < t) then Inl (Refused ''Approval is not valid yet'' [])
          else if (case fa_expiresAt a of None \<Rightarrow> False | Some t \<Rightarrow> t \<le> now) then Inl (Refused ''Approval has expired'' [])
          else Inr a)"

definition effect_state_json :: "string \<Rightarrow> string \<Rightarrow> json_object" where
  "effect_state_json eid status = [(''effectId'', JStr eid), (''status'', JStr status)]"

definition fresh_authorization ::
  "effect_host \<Rightarrow> string \<Rightarrow> string \<Rightarrow> int \<Rightarrow> service_context \<Rightarrow> prepared_idempotency option \<Rightarrow> int \<Rightarrow> db \<Rightarrow>
    err + db \<times> effect \<times> event list" where
  "fresh_authorization h eid aid expectedRevision ctx identity now d =
     (case found ''Effect not found'' eid (getEffect h eid (tenant_of ctx) d) of Inl e \<Rightarrow> Inl e | Inr before \<Rightarrow>
      if fx_status before \<noteq> EffectProposed then Inl (Refused ''Effect must be proposed before authorization'' [])
      else case authorizing_approval before aid now d of Inl e \<Rightarrow> Inl e | Inr a \<Rightarrow>
      (case contextPrincipal (eh_env h) (tenant_of ctx) ctx now d of Inl e \<Rightarrow> Inl e | Inr (d, caller) \<Rightarrow>
      (case update_effect eid (tenant_of ctx) expectedRevision (authorize_patch (fa_id a) now) d of Inl e \<Rightarrow> Inl e
       | Inr (d, row) \<Rightarrow>
      (case parseEffect h row of Inl e \<Rightarrow> Inl e | Inr e \<Rightarrow>
       close_effect h ctx identity caller now ''effect_authorized''
         [(''before'', JObj (effect_state_json eid (effect_status_text (fx_status before)))),
          (''after'', JObj (effect_state_json eid ''authorized'' @ [(''approvalId'', JStr aid)]))] e d))))"

definition authorize_request :: "string \<Rightarrow> string \<Rightarrow> int \<Rightarrow> json" where
  "authorize_request eid aid expectedRevision = JObj [(''effectId'', JStr eid), (''approvalId'', JStr aid),
     (''expectedRevision'', JInt expectedRevision)]"

definition authorizeTx ::
  "effect_host \<Rightarrow> string \<Rightarrow> string \<Rightarrow> int \<Rightarrow> service_context \<Rightarrow> int \<Rightarrow> db \<Rightarrow> err + db \<times> effect \<times> event list" where
  "authorizeTx h eid aid expectedRevision ctx now d =
     (case effectRetry (eh_env h) (tenant_of ctx) ctx ''effect.authorize'' (authorize_request eid aid expectedRevision) now d of
        Inl e \<Rightarrow> Inl e
      | Inr (d, priorId, _, identity) \<Rightarrow> replayed (prior_effect h (tenant_of ctx))
          (fresh_authorization h eid aid expectedRevision ctx identity now) priorId d)"

definition authorizeEffect ::
  "effect_host \<Rightarrow> string \<Rightarrow> string \<Rightarrow> int \<Rightarrow> service_context \<Rightarrow> db \<Rightarrow> db \<times> (err + effect)" where
  "authorizeEffect h eid aid expectedRevision ctx = prologue (serviceNow ctx) (\<lambda>now.
     runInTransaction (authorizeTx h eid aid expectedRevision ctx now))"

definition cancel_patch :: "string \<Rightarrow> int \<Rightarrow> effect \<Rightarrow> effect" where
  "cancel_patch reason now e = e\<lparr>fx_status := EffectCancelled, fx_authorizedByApprovalId := None, fx_authorizedAt := None,
     fx_cancelledAt := Some now, fx_cancelReason := Some (js_trim reason), fx_updatedAt := now,
     fx_revision := fx_revision e + 1\<rparr>"

definition fresh_cancellation ::
  "effect_host \<Rightarrow> string \<Rightarrow> string \<Rightarrow> int \<Rightarrow> service_context \<Rightarrow> prepared_idempotency option \<Rightarrow> int \<Rightarrow> db \<Rightarrow>
    err + db \<times> effect \<times> event list" where
  "fresh_cancellation h eid reason expectedRevision ctx identity now d =
     (case found ''Effect not found'' eid (getEffect h eid (tenant_of ctx) d) of Inl e \<Rightarrow> Inl e | Inr before \<Rightarrow>
      if fx_status before \<noteq> EffectProposed \<and> fx_status before \<noteq> EffectAuthorized
      then Inl (Refused ''Effect cannot be cancelled after dispatch'' [])
      else case contextPrincipal (eh_env h) (tenant_of ctx) ctx now d of Inl e \<Rightarrow> Inl e | Inr (d, caller) \<Rightarrow>
      (case update_effect eid (tenant_of ctx) expectedRevision (cancel_patch reason now) d of Inl e \<Rightarrow> Inl e
       | Inr (d, row) \<Rightarrow>
      (case parseEffect h row of Inl e \<Rightarrow> Inl e | Inr e \<Rightarrow>
       close_effect h ctx identity caller now ''effect_cancelled''
         [(''before'', JObj (effect_state_json eid (effect_status_text (fx_status before)))),
          (''after'', JObj (effect_state_json eid ''cancelled'' @ [(''reason'', JStr (js_trim reason))]))] e d)))"

definition cancel_request :: "string \<Rightarrow> string \<Rightarrow> int \<Rightarrow> json" where
  "cancel_request eid reason expectedRevision = JObj [(''effectId'', JStr eid),
     (''expectedRevision'', JInt expectedRevision), (''reason'', JStr (js_trim reason))]"

definition cancelTx ::
  "effect_host \<Rightarrow> string \<Rightarrow> string \<Rightarrow> int \<Rightarrow> service_context \<Rightarrow> int \<Rightarrow> db \<Rightarrow> err + db \<times> effect \<times> event list" where
  "cancelTx h eid reason expectedRevision ctx now d =
     (case effectRetry (eh_env h) (tenant_of ctx) ctx ''effect.cancel'' (cancel_request eid reason expectedRevision) now d of
        Inl e \<Rightarrow> Inl e
      | Inr (d, priorId, _, identity) \<Rightarrow> replayed (prior_effect h (tenant_of ctx))
          (fresh_cancellation h eid reason expectedRevision ctx identity now) priorId d)"

definition cancelEffect ::
  "effect_host \<Rightarrow> string \<Rightarrow> string \<Rightarrow> int \<Rightarrow> service_context \<Rightarrow> db \<Rightarrow> db \<times> (err + effect)" where
  "cancelEffect h eid reason expectedRevision ctx =
     prologue (if js_blank reason then Inl (Refused ''Effect cancellation requires a reason'' []) else serviceNow ctx)
       (\<lambda>now. runInTransaction (cancelTx h eid reason expectedRevision ctx now))"

section \<open>Dispatch\<close>

record begin_options =
  bo_expectedRevision :: int
  bo_claimId :: string
  bo_fence :: int
  bo_policy :: connector_policy
  bo_issuer :: permit_issuer

definition permit_approval_of :: "effect_approval \<Rightarrow> permit_approval" where
  "permit_approval_of a = \<lparr>ma_id = fa_id a, ma_requestDigest = fa_requestDigest a,
     ma_approverPrincipalId = fa_approverPrincipalId a, ma_decision = ApprovalApproved, ma_scope = fa_scope a,
     ma_limits = fa_limits a, ma_validFrom = fa_validFrom a, ma_expiresAt = fa_expiresAt a,
     ma_verificationLevel = fa_verificationLevel a, ma_verificationMethod = fa_verificationMethod a,
     ma_verification = fa_verification a, ma_decidedAt = fa_decidedAt a\<rparr>"

definition permit_payload_of :: "effect \<Rightarrow> effect_approval \<Rightarrow> string \<Rightarrow> permit_claim \<Rightarrow> int \<Rightarrow> int \<Rightarrow> permit_payload" where
  "permit_payload_of e a attemptId c effectRevision issuedAt = \<lparr>mp_issuedAt = issuedAt, mp_workspaceId = fx_tenantId e,
     mp_effectId = fx_id e, mp_effectRevision = effectRevision, mp_taskId = fx_taskId e, mp_attemptId = attemptId,
     mp_request = fx_request e, mp_canonicalRequest = fx_canonicalRequest e, mp_requestDigest = fx_requestDigest e,
     mp_dispatchIdempotencyKey = fx_dispatchIdempotencyKey e, mp_approval = permit_approval_of a, mp_claim = c,
     mp_executionStartedAt = issuedAt\<rparr>"

definition issueEffectDispatchPermit ::
  "effect_host \<Rightarrow> effect \<Rightarrow> effect_approval \<Rightarrow> string \<Rightarrow> permit_claim \<Rightarrow> int \<Rightarrow> int \<Rightarrow> permit_issuer \<Rightarrow> err + dispatch_permit" where
  "issueEffectDispatchPermit h e a attemptId c effectRevision issuedAt iss =
     (if fa_decision a \<noteq> ApprovalApproved then Inl (Refused ''An effect dispatch permit requires an approved decision'' [])
      else let m = permit_payload_of e a attemptId c effectRevision issuedAt in
      case canonicalEffectPermitPayload m of Inl er \<Rightarrow> Inl er
      | Inr text \<Rightarrow> let p = \<lparr>dp_payload = m, dp_algorithm = is_algorithm iss, dp_keyId = is_keyId iss,
            dp_signature = is_sign iss text\<rparr> in
          if dispatch_permit_ok h p then Inr p else Inl (InvalidInput ''EffectDispatchPermit''))"

definition begin_request :: "string \<Rightarrow> begin_options \<Rightarrow> json" where
  "begin_request eid opts = (let pol = bo_policy opts in JObj [(''effectId'', JStr eid),
     (''expectedRevision'', JInt (bo_expectedRevision opts)), (''claimId'', JStr (bo_claimId opts)),
     (''fence'', JInt (bo_fence opts)),
     (''policy'', JObj [(''effectTypeUri'', JStr (cl_effectTypeUri pol)),
        (''effectSchemaVersion'', JInt (cl_effectSchemaVersion pol)), (''operationUri'', JStr (cl_operationUri pol)),
        (''operationVersion'', JInt (cl_operationVersion pol)), (''contractDigest'', JStr (cl_contractDigest pol)),
        (''instanceRef'', JStr (cl_instanceRef pol)), (''bindingDigest'', JStr (cl_bindingDigest pol))]),
     (''permitIssuer'', JObj [(''algorithm'', JStr (is_algorithm (bo_issuer opts))),
        (''keyId'', JStr (is_keyId (bo_issuer opts)))])])"

text \<open>A repeated call issues the permit of the dispatch it began, as long as the outcome is open.\<close>

definition replayed_dispatch ::
  "effect_host \<Rightarrow> string \<Rightarrow> begin_options \<Rightarrow> string \<Rightarrow> int option \<Rightarrow> db \<Rightarrow> err + effect \<times> dispatch_permit" where
  "replayed_dispatch h tenantId opts eid resultRevision d =
     (case prior_effect h tenantId eid d of Inl e \<Rightarrow> Inl e | Inr prior \<Rightarrow>
      if fx_status prior \<noteq> EffectExecuting \<and> fx_status prior \<noteq> EffectIndeterminate
      then Inl (Refused ''Effect dispatch is already resolved'' [eid])
      else (case (fx_executionStartedAt prior, fx_attemptId prior, fx_authorizedByApprovalId prior, fx_claimId prior,
          fx_fence prior, resultRevision) of
        (Some startedAt, Some attemptId, Some approvalId, Some claimId, Some fence, Some revision) \<Rightarrow>
          (case getEffectApproval approvalId tenantId d of Inl e \<Rightarrow> Inl e
           | Inr None \<Rightarrow> Inl (Refused ''Effect dispatch approval is missing'' [approvalId])
           | Inr (Some a) \<Rightarrow> if fa_decision a \<noteq> ApprovalApproved
               then Inl (Refused ''Effect dispatch approval is missing'' [approvalId])
               else (case find (\<lambda>c. c_id c = claimId \<and> c_tenantId c = tenantId) (claims d) of
                   None \<Rightarrow> Inl (Refused ''Effect dispatch claim is missing'' [claimId])
                 | Some c \<Rightarrow> if c_fence c \<noteq> fence \<or> \<not> truthy_str (c_principalId c)
                     then Inl (Refused ''Effect dispatch claim is missing'' [claimId])
                     else (case issueEffectDispatchPermit h prior a attemptId
                         \<lparr>mc_id = c_id c, mc_fence = c_fence c, mc_principalId = the (c_principalId c), mc_expiresAt = c_expiresAt c\<rparr>
                         revision startedAt (bo_issuer opts) of Inl e \<Rightarrow> Inl e
                       | Inr permit \<Rightarrow> Inr (prior, permit))))
      | _ \<Rightarrow> Inl (Refused ''Idempotent execution result has an incomplete dispatch binding'' [eid])))"

text \<open>The attempt and the live claim an execution is bound to.\<close>

definition dispatch_binding :: "string \<Rightarrow> effect \<Rightarrow> string \<Rightarrow> begin_options \<Rightarrow> int \<Rightarrow> db \<Rightarrow> err + task_attempt \<times> permit_claim" where
  "dispatch_binding tenantId before aid opts now d =
     (case find (owned_attempt (fx_taskId before) tenantId aid) (attempts d) of
        None \<Rightarrow> Inl (Refused ''Effect execution requires a running attempt bound to the supplied claim'' [])
      | Some a \<Rightarrow> if a_status a \<noteq> Running \<or> a_claimId a \<noteq> Some (bo_claimId opts)
          then Inl (Refused ''Effect execution requires a running attempt bound to the supplied claim'' [])
          else (case find (\<lambda>c. c_id c = bo_claimId opts \<and> c_tenantId c = tenantId \<and> c_taskId c = fx_taskId before) (claims d) of
              None \<Rightarrow> Inl (Refused ''Effect execution requires the current live claim fence'' [])
            | Some c \<Rightarrow> if c_releasedAt c \<noteq> None \<or> c_expiresAt c \<le> now \<or> c_fence c \<noteq> bo_fence opts
                then Inl (Refused ''Effect execution requires the current live claim fence'' [])
                else if \<not> truthy_str (c_principalId c) \<or> a_principalId a \<noteq> c_principalId c
                then Inl (Refused ''Effect attempt and claim principal attribution do not match'' [])
                else Inr (a, \<lparr>mc_id = c_id c, mc_fence = c_fence c, mc_principalId = the (c_principalId c),
                  mc_expiresAt = c_expiresAt c\<rparr>)))"

definition executing_approval :: "effect \<Rightarrow> string \<Rightarrow> db \<Rightarrow> err + effect_approval" where
  "executing_approval before tenantId d = (case getEffectiveEffectApproval (fx_id before) tenantId d of Inl e \<Rightarrow> Inl e
     | Inr None \<Rightarrow> Inl (Refused ''Effect execution requires its current exact approved decision'' [])
     | Inr (Some a) \<Rightarrow> if Some (fa_id a) \<noteq> fx_authorizedByApprovalId before \<or> fa_decision a \<noteq> ApprovalApproved
         then Inl (Refused ''Effect execution requires its current exact approved decision'' []) else Inr a)"

definition begin_patch :: "permit_claim \<Rightarrow> int \<Rightarrow> effect \<Rightarrow> effect" where
  "begin_patch c now e = e\<lparr>fx_status := EffectExecuting, fx_claimId := Some (mc_id c), fx_fence := Some (mc_fence c),
     fx_executionStartedAt := Some now, fx_updatedAt := now, fx_revision := fx_revision e + 1\<rparr>"

definition begin_event :: "service_context \<Rightarrow> principal \<Rightarrow> effect \<Rightarrow> effect \<Rightarrow> string \<Rightarrow> permit_claim \<Rightarrow> event_insert" where
  "begin_event ctx caller before after aid c =
     task_event (fx_tenantId before) (actorLabel ctx caller) (Some (p_id caller)) (fx_taskId before) ''effect_execution_started''
       [(''before'', JObj (effect_state_json (fx_id before) (effect_status_text (fx_status before)) @
           [(''revision'', JInt (fx_revision before))])),
        (''after'', JObj (effect_state_json (fx_id before) (effect_status_text (fx_status after)) @
           [(''revision'', JInt (fx_revision after)), (''approvalId'', JStr aid), (''claimId'', JStr (mc_id c)),
            (''fence'', JInt (mc_fence c))]))]"

definition dispatch_outcome :: "effect \<Rightarrow> int \<Rightarrow> idempotency_outcome" where
  "dispatch_outcome e sequence = (effect_outcome e sequence)\<lparr>o_resultType := ''effect_dispatch''\<rparr>"

definition write_dispatch ::
  "effect_host \<Rightarrow> begin_options \<Rightarrow> service_context \<Rightarrow> prepared_idempotency option \<Rightarrow> principal \<Rightarrow> effect \<Rightarrow> effect_approval \<Rightarrow>
    task_attempt \<Rightarrow> permit_claim \<Rightarrow> int \<Rightarrow> db \<Rightarrow> err + db \<times> (effect \<times> dispatch_permit) \<times> event list" where
  "write_dispatch h opts ctx identity caller before a att c now d =
     (case update_effect (fx_id before) (fx_tenantId before) (bo_expectedRevision opts) (begin_patch c now) d of Inl e \<Rightarrow> Inl e
      | Inr (d, row) \<Rightarrow>
      (case parseEffect h row of Inl e \<Rightarrow> Inl e | Inr after \<Rightarrow>
      (case issueEffectDispatchPermit h after a (a_id att) c (fx_revision after) now (bo_issuer opts) of Inl e \<Rightarrow> Inl e
       | Inr permit \<Rightarrow>
      (case recordEvent (eh_env h) (begin_event ctx caller before after (fa_id a) c) now d of Inl e \<Rightarrow> Inl e
       | Inr (d, ev) \<Rightarrow>
      (case saveIdempotencyResult identity (dispatch_outcome after (ev_sequence ev)) d of Inl e \<Rightarrow> Inl e
       | Inr d \<Rightarrow> Inr (d, (after, permit), [ev]))))))"

definition fresh_dispatch ::
  "effect_host \<Rightarrow> string \<Rightarrow> begin_options \<Rightarrow> service_context \<Rightarrow> prepared_idempotency option \<Rightarrow> int \<Rightarrow> db \<Rightarrow>
    err + db \<times> (effect \<times> dispatch_permit) \<times> event list" where
  "fresh_dispatch h eid opts ctx identity now d =
     (case found ''Effect not found'' eid (getEffect h eid (tenant_of ctx) d) of Inl e \<Rightarrow> Inl e | Inr before \<Rightarrow>
      if fx_status before \<noteq> EffectAuthorized then Inl (Refused ''Effect must be authorized before execution'' [])
      else case fx_attemptId before of None \<Rightarrow> Inl (Refused ''Effect execution requires an attached attempt'' [])
      | Some attemptId \<Rightarrow>
      (case executing_approval before (tenant_of ctx) d of Inl e \<Rightarrow> Inl e | Inr a \<Rightarrow>
      (case dispatch_binding (tenant_of ctx) before attemptId opts now d of Inl e \<Rightarrow> Inl e | Inr (att, c) \<Rightarrow>
      (case contextPrincipal (eh_env h) (tenant_of ctx) ctx now d of Inl e \<Rightarrow> Inl e | Inr (d, caller) \<Rightarrow>
       if p_id caller \<noteq> mc_principalId c
       then Inl (Refused ''Only the principal holding the live claim may begin effect execution'' [])
       else (case assertEffectAuthority (fx_request before) (fx_requestDigest before)
           ((permit_approval_of a)\<lparr>ma_decision := fa_decision a\<rparr>) now (bo_policy opts) of Inl e \<Rightarrow> Inl e
         | Inr _ \<Rightarrow> write_dispatch h opts ctx identity caller before a att c now d)))))"

definition beginTx ::
  "effect_host \<Rightarrow> string \<Rightarrow> begin_options \<Rightarrow> service_context \<Rightarrow> int \<Rightarrow> db \<Rightarrow> err + db \<times> (effect \<times> dispatch_permit) \<times> event list" where
  "beginTx h eid opts ctx now d =
     (case effectRetry (eh_env h) (tenant_of ctx) ctx ''effect.execution.begin'' (begin_request eid opts) now d of
        Inl e \<Rightarrow> Inl e
      | Inr (d, priorId, resultRevision, identity) \<Rightarrow>
          replayed (\<lambda>i. replayed_dispatch h (tenant_of ctx) opts i resultRevision)
            (fresh_dispatch h eid opts ctx identity now) priorId d)"

definition beginEffectExecution ::
  "effect_host \<Rightarrow> string \<Rightarrow> begin_options \<Rightarrow> service_context \<Rightarrow> db \<Rightarrow> db \<times> (err + effect \<times> dispatch_permit)" where
  "beginEffectExecution h eid opts ctx = prologue (serviceNow ctx) (\<lambda>now. runInTransaction (beginTx h eid opts ctx now))"

section \<open>Receipts\<close>

record verified_receipt =
  vr_level :: verification_level
  vr_method :: string
  vr_coverage :: "receipt_coverage list"
  vr_details :: json_object

record receipt_options =
  rx_expectedRevision :: int
  rx_verify :: "effect_report \<Rightarrow> int \<Rightarrow> verified_receipt"

record receipt_input =
  rv_id :: "string option"
  rv_evidenceId :: "string option"
  rv_report :: effect_report

text \<open>The receipt answers the current state of the execution.\<close>

definition receipt_resolution :: "effect \<Rightarrow> effect_report \<Rightarrow> err + unit" where
  "receipt_resolution target r =
     (if fr_outcome r = ReceiptIndeterminate
      then if fx_status target \<noteq> EffectExecuting \<or> fr_resolvesReceiptId r \<noteq> None
        then Inl (Refused ''Only an executing effect can become indeterminate'' []) else Inr ()
      else if fx_status target = EffectIndeterminate
      then if fr_resolvesReceiptId r \<noteq> fx_outcomeReceiptId target
        then Inl (Refused ''Terminal recovery must resolve the current indeterminate receipt'' []) else Inr ()
      else if fr_resolvesReceiptId r \<noteq> None
      then Inl (Refused ''A direct terminal receipt cannot resolve another receipt'' []) else Inr ())"

definition receipt_target ::
  "effect_host \<Rightarrow> string \<Rightarrow> effect_report \<Rightarrow> int \<Rightarrow> db \<Rightarrow> err + effect" where
  "receipt_target h tenantId r expectedRevision d =
     (case found ''Effect not found'' (fr_effectId r) (getEffect h (fr_effectId r) tenantId d) of Inl e \<Rightarrow> Inl e
      | Inr target \<Rightarrow>
        if fx_revision target \<noteq> expectedRevision then Inl (Refused ''Stale effect revision'' [])
        else if fx_status target \<noteq> EffectExecuting \<and> fx_status target \<noteq> EffectIndeterminate
        then Inl (Refused ''Effect cannot accept a receipt'' [effect_status_text (fx_status target)])
        else if \<not> truthy_str (fx_attemptId target) \<or> \<not> truthy_str (fx_authorizedByApprovalId target) \<or>
          \<not> truthy_str (fx_claimId target) \<or> \<not> truthy_num (fx_fence target)
        then Inl (Refused ''Effect receipt requires a complete execution binding'' [])
        else if \<not> exact_binding target r
        then Inl (Refused ''Receipt does not match the exact effect execution binding'' [])
        else (case receipt_resolution target r of Inl e \<Rightarrow> Inl e | Inr _ \<Rightarrow> Inr target))"

text \<open>What the verifier says of the report; a terminal outcome needs all of it.\<close>

definition receipt_verification :: "effect_report \<Rightarrow> verified_receipt \<Rightarrow> err + verified_receipt" where
  "receipt_verification r v = (if js_blank (vr_method v) then Inl (Refused ''Receipt verification method must not be empty'' [])
     else let coverage = sort_key receipt_coverage_text (remdups (vr_coverage v)) in
     if length coverage \<noteq> length (vr_coverage v) then Inl (Refused ''Receipt verification coverage contains duplicates'' [])
     else if fr_outcome r \<noteq> ReceiptIndeterminate \<and> \<not> strong_verification (vr_level v) coverage
     then Inl (Refused ''Terminal receipt requires strong verification with complete coverage'' [])
     else Inr (v\<lparr>vr_coverage := coverage\<rparr>))"

definition new_receipt ::
  "effect \<Rightarrow> prepared_report \<Rightarrow> verified_receipt \<Rightarrow> string \<Rightarrow> string \<Rightarrow> string \<Rightarrow> int \<Rightarrow> effect_receipt" where
  "new_receipt target prepared v rid vid callerId now = \<lparr>fc_id = rid, fc_tenantId = fx_tenantId target,
     fc_effectId = fx_id target, fc_taskId = fx_taskId target, fc_attemptId = the (fx_attemptId target),
     fc_approvalId = the (fx_authorizedByApprovalId target), fc_evidenceId = vid, fc_report = pt_report prepared,
     fc_canonicalReport = pt_canonicalReport prepared, fc_receiptDigest = pt_receiptDigest prepared,
     fc_verificationLevel = vr_level v, fc_verificationMethod = vr_method v, fc_coverage = vr_coverage v,
     fc_verification = vr_details v, fc_recordedByPrincipalId = callerId, fc_recordedAt = now\<rparr>"

definition receipt_evidence :: "effect_receipt \<Rightarrow> string \<Rightarrow> string \<Rightarrow> int \<Rightarrow> task_evidence" where
  "receipt_evidence c actor callerId now = (let r = fc_report c in \<lparr>e_id = fc_evidenceId c, e_tenantId = fc_tenantId c,
     e_taskId = fc_taskId c, e_attemptId = Some (fc_attemptId c), e_supersedesEvidenceId = None, e_actor = actor,
     e_principalId = Some callerId, e_kind = ''effect_receipt'',
     e_summary = Some (''Effect '' @ receipt_outcome_text (fr_outcome r) @ '': receipt '' @ fr_externalReceiptId r),
     e_uri = Some (fr_rawRef r), e_digest = Some (fr_rawDigest r), e_source = Some (fr_connectorInstanceRef r),
     e_observedAt = fr_occurredAt r, e_metadata = receipt_metadata c, e_createdAt = now\<rparr>)"

definition outcome_patch :: "effect_receipt \<Rightarrow> int \<Rightarrow> effect \<Rightarrow> effect" where
  "outcome_patch c now e = (let terminal = fr_outcome (fc_report c) \<noteq> ReceiptIndeterminate in
     e\<lparr>fx_status := outcome_status (fr_outcome (fc_report c)), fx_outcomeReceiptId := Some (fc_id c),
       fx_indeterminateAt := (if terminal then fx_indeterminateAt e else Some now),
       fx_resolvedAt := (if terminal then Some now else None), fx_updatedAt := now, fx_revision := fx_revision e + 1\<rparr>)"

definition evidence_event :: "service_context \<Rightarrow> principal \<Rightarrow> effect_receipt \<Rightarrow> event_insert" where
  "evidence_event ctx caller c = task_event (fc_tenantId c) (actorLabel ctx caller) (Some (p_id caller)) (fc_taskId c)
     ''evidence_added'' [(''after'', JObj [(''evidenceId'', JStr (fc_evidenceId c)), (''attemptId'', JStr (fc_attemptId c)),
        (''kind'', JStr ''effect_receipt''), (''receiptId'', JStr (fc_id c))])]"

definition receipt_event :: "service_context \<Rightarrow> principal \<Rightarrow> effect \<Rightarrow> effect \<Rightarrow> effect_receipt \<Rightarrow> event_insert" where
  "receipt_event ctx caller target after c =
     task_event (fc_tenantId c) (actorLabel ctx caller) (Some (p_id caller)) (fc_taskId c) ''effect_receipt_recorded''
       [(''before'', JObj (effect_state_json (fx_id target) (effect_status_text (fx_status target)) @
           [(''revision'', JInt (fx_revision target))])),
        (''after'', JObj (effect_state_json (fx_id target) (receipt_outcome_text (fr_outcome (fc_report c))) @
           [(''receiptId'', JStr (fc_id c)), (''evidenceId'', JStr (fc_evidenceId c)),
            (''revision'', JInt (fx_revision after))]))]"

definition write_receipt ::
  "effect_host \<Rightarrow> service_context \<Rightarrow> principal \<Rightarrow> effect \<Rightarrow> effect_receipt \<Rightarrow> int \<Rightarrow> int \<Rightarrow> db \<Rightarrow>
    err + db \<times> effect_receipt \<times> event list" where
  "write_receipt h ctx caller target c expectedRevision now d =
     (case insert_evidence (receipt_evidence c (actorLabel ctx caller) (p_id caller) now) d of Inl e \<Rightarrow> Inl e | Inr d \<Rightarrow>
      (case insert_receipt c d of Inl e \<Rightarrow> Inl e | Inr d \<Rightarrow>
      (case update_effect (fx_id target) (fx_tenantId target) expectedRevision (outcome_patch c now) d of Inl e \<Rightarrow> Inl e
       | Inr (d, row) \<Rightarrow>
      (case recordEvent (eh_env h) (evidence_event ctx caller c) now d of Inl e \<Rightarrow> Inl e | Inr (d, ev1) \<Rightarrow>
      (case recordEvent (eh_env h) (receipt_event ctx caller target row c) now d of Inl e \<Rightarrow> Inl e | Inr (d, ev2) \<Rightarrow>
      (case found ''Failed to read back effect receipt'' (fc_id c) (getEffectReceipt h (fc_id c) (fc_tenantId c) d) of
         Inl e \<Rightarrow> Inl e | Inr r \<Rightarrow> Inr (d, r, [ev1, ev2])))))))"

definition fresh_receipt ::
  "effect_host \<Rightarrow> receipt_input \<Rightarrow> prepared_report \<Rightarrow> string \<Rightarrow> receipt_options \<Rightarrow> service_context \<Rightarrow> int \<Rightarrow> db \<Rightarrow>
    err + db \<times> effect_receipt \<times> event list" where
  "fresh_receipt h i prepared tenantId opts ctx now d =
     (case receipt_target h tenantId (pt_report prepared) (rx_expectedRevision opts) d of Inl e \<Rightarrow> Inl e | Inr target \<Rightarrow>
      (case contextPrincipal (eh_env h) tenantId ctx now d of Inl e \<Rightarrow> Inl e | Inr (d, caller) \<Rightarrow>
      (case receipt_verification (pt_report prepared) (rx_verify opts (pt_report prepared) now) of Inl e \<Rightarrow> Inl e
       | Inr v \<Rightarrow>
         let (d, rid) = draw_id (eh_env h) (rv_id i) now d; (d, vid) = draw_id (eh_env h) (rv_evidenceId i) now d;
             c = new_receipt target prepared v rid vid (p_id caller) now in
         case canonicalizeEffectJson (JObj (receipt_metadata c)) of Inl e \<Rightarrow> Inl e | Inr _ \<Rightarrow>
         (case canonicalizeEffectJson (JObj (fc_verification c)) of Inl e \<Rightarrow> Inl e | Inr _ \<Rightarrow>
          write_receipt h ctx caller target c (rx_expectedRevision opts) now d))))"

text \<open>The delivery of a report that is already recorded returns its receipt, if the content is the same.\<close>

definition receiptTx ::
  "effect_host \<Rightarrow> receipt_input \<Rightarrow> prepared_report \<Rightarrow> string \<Rightarrow> receipt_options \<Rightarrow> service_context \<Rightarrow> int \<Rightarrow> db \<Rightarrow>
    err + db \<times> effect_receipt \<times> event list" where
  "receiptTx h i prepared tenantId opts ctx now d =
     (case find (\<lambda>x. fc_tenantId x = tenantId \<and>
         fr_connectorInstanceRef (fc_report x) = fr_connectorInstanceRef (pt_report prepared) \<and>
         fr_externalReceiptId (fc_report x) = fr_externalReceiptId (pt_report prepared)) (effectReceipts d) of
        Some prior \<Rightarrow> if fc_receiptDigest prior \<noteq> pt_receiptDigest prepared
          then Inl (Refused ''Effect receipt delivery identity was reused with different content'' [])
          else (case parseReceipt h prior of Inl e \<Rightarrow> Inl e | Inr r \<Rightarrow> Inr (d, r, []))
      | None \<Rightarrow> fresh_receipt h i prepared tenantId opts ctx now d)"

definition receipt_input_json :: "receipt_input \<Rightarrow> json" where
  "receipt_input_json i = JObj (optional_entry ''id'' (rv_id i) @ optional_entry ''evidenceId'' (rv_evidenceId i) @
     [(''report'', effect_report_json (rv_report i))])"

definition receipt_prologue :: "effect_host \<Rightarrow> receipt_input \<Rightarrow> service_context \<Rightarrow> err + prepared_report \<times> string" where
  "receipt_prologue h i ctx = (case canonicalizeEffectJson (receipt_input_json i) of Inl e \<Rightarrow> Inl e | Inr _ \<Rightarrow>
     if rv_id i = Some [] \<or> rv_evidenceId i = Some [] \<or> \<not> effect_report_ok (rv_report i)
     then Inl (InvalidInput ''EffectReceiptInput'')
     else case prepareEffectReceiptReport h (rv_report i) of Inl e \<Rightarrow> Inl e | Inr prepared \<Rightarrow>
     let tenantId = or_else (ctx_tenantId ctx) (fr_workspaceId (pt_report prepared)) in
     if fr_workspaceId (pt_report prepared) \<noteq> tenantId
     then Inl (Refused ''Receipt workspace does not match context'' []) else Inr (prepared, tenantId))"

definition recordEffectReceipt ::
  "effect_host \<Rightarrow> receipt_input \<Rightarrow> receipt_options \<Rightarrow> service_context \<Rightarrow> db \<Rightarrow> db \<times> (err + effect_receipt)" where
  "recordEffectReceipt h i opts ctx = prologue (receipt_prologue h i ctx) (\<lambda>(prepared, tenantId).
     prologue (serviceNow ctx) (\<lambda>now. runInTransaction (receiptTx h i prepared tenantId opts ctx now)))"

end
