(* ===== verification/Spec2Isabelle.thy ===== *)
theory Spec2Isabelle
  imports Tasq_Prelude Ids Json_Value Store Idempotency Principals Events Contention Tasks Tx_Invariant
    Claim_Table Sample_Ledger Hierarchy Relations Assumptions Costs Claims Executions Task_Transition
    Budget_Enforcement Composition Task_Deletion Collaboration Resources Authority_Contract Authority Resolution_Records Resolution Validation
    Resolution_Invariant Premises Premise_State Claim_Lock Effect_Rows Effect_Contract Effect_Guards Effects
begin

text \<open>
  A model of the coordination kernel of tasq, a ledger through which people and agents share
  commitments, and the theorems that make it correct. The program is TypeScript over SQLite; the
  kernel is \<open>src/packages/tasq-core\<close> (services) over \<open>src/packages/tasq-schema\<close> (tables, types,
  identifiers). The other packages bind it to a command line, a server, the MCP protocol and so on.

  The program and the model.

  A ledger is the value of one record \<open>db\<close> (theory \<open>Store\<close>): one list of rows per table, in insertion
  order, the counters of the event logs, a counter \<open>draws\<close> for the identifiers generated so far and a
  journal of committed mutations. A row is a record whose fields are the columns of \<open>tables.ts\<close>, with
  the initials of the table as prefix; a nullable column is an option, an enumeration of \<open>types.ts\<close> a
  datatype, a time an unbounded integer of milliseconds. Inserting checks the primary key and the
  unique indexes, and for claims, attempts and leases the lifecycle and chronology \<open>CHECK\<close>
  constraints; a violation is the error the driver would raise. What runs outside the ledger is in
  the record \<open>environ\<close>: the clock, the generator of identifiers, the digest (SHA-256) and the locale
  collation. They are parameters; a theorem that needs the digest to be injective says so.

  An operation of the code is a function \<open>db \<Rightarrow> db \<times> (err + 'a)\<close>: it always gives a ledger, the one
  before it when the transaction was rolled back. A transaction body gives \<open>err + (db \<times> 'a \<times> events)\<close>,
  and \<open>runInTransaction\<close> commits it, counts it and journals its events (\<open>db.ts\<close>). Each operation is
  split the way the code is: the checks of the arguments, the idempotency prologue (a saved result is
  returned without work), the transaction body, the refusals recorded outside of it.

  Theories, in the order of the imports.

  \<^item> \<open>Tasq_Prelude\<close>: results, JavaScript notions, tables as lists, the collection \<open>res\<close> that decomposes a
    successful chain of fallible steps.
  \<^item> \<open>Ids\<close> (\<open>tasq-schema/src/ids.ts\<close>): UUIDv7 generation and recognition; the round trip of the timestamp.
  \<^item> \<open>Json_Value\<close> (\<open>util/canonical-json.ts\<close>, \<open>util/diff.ts\<close>): canonical text of JSON, which is injective up
    to the order of keys, and the difference of two rows that update events carry.
  \<^item> \<open>Store\<close> (\<open>tables.ts\<close>, \<open>types.ts\<close>, \<open>db.ts\<close>): the ledger, errors and transactions.
  \<^item> \<open>Idempotency\<close>, \<open>Principals\<close>, \<open>Events\<close>, \<open>Contention\<close>: the services every mutation uses. A repeated
    request returns the saved result, a reused key with another request is refused; the event log is
    append-only and numbered without gaps (locale \<open>numbered_log\<close>).
  \<^item> \<open>Tx_Invariant\<close>: the locales \<open>tx_invariant\<close> (what an invariant must ignore for the transaction
    machinery to keep it) and \<open>lease_table\<close> (fenced exclusive leases), which claims and resource leases
    both interpret.
  \<^item> \<open>Tasks\<close>, \<open>Hierarchy\<close>: creation, update and reparenting of commitments; the decomposition tree has
    no dangling parent and no cycle and a bounded depth. The hierarchy policy is a seam of the code:
    the locale \<open>policy_contract\<close> states what is used of it and the kernel's flat policy interprets it.
  \<^item> \<open>Relations\<close> (\<open>collaboration.ts\<close>): typed relations; the walk that refuses cycles is exact, the
    \<open>depends_on\<close> graph stays acyclic, so some open commitment is always free of blockers.
  \<^item> \<open>Assumptions\<close>, \<open>Costs\<close>, \<open>Claim_Table\<close>, \<open>Claims\<close>, \<open>Executions\<close>: the gates of an acquisition, the one
    live claim of a commitment with its growing fence, the attempts that run under it and the evidence
    they leave.
  \<^item> \<open>Task_Transition\<close> and \<open>Task_Deletion\<close> (\<open>tasks.ts\<close>): status transitions follow the table of the
    documentation; a completion rests on evidence and an accepted decision where the policy asks for
    them; a terminal transition or a deletion leaves nothing running. The cascade of a deletion recurses
    over live children with the number of tasks plus one as fuel: in a ledger whose parents form no
    cycle, every chain of children visits different tasks, so the fuel is never exhausted
    (\<open>softDeleteTask_returns\<close>).
  \<^item> \<open>Budget_Enforcement\<close>, \<open>Composition\<close>: properties that span components.
  \<^item> \<open>Collaboration\<close>: assignments and their state machine, artifacts, external references, completion
    records.
  \<^item> \<open>Resources\<close> (\<open>resources.ts\<close>, \<open>spaces.ts\<close>): leases on opaque resources, their fences and their log.
  \<^item> \<open>Sample_Ledger\<close>: the concrete ledger on which the hypotheses of the properties are shown to hold.

  Bounds and encodings.

  A JavaScript number used as a time, an amount or a counter is an unbounded integer, with the
  safe-integer checks of the code written out; fences, sequence numbers and counters never reach the
  limit in the model. Decimal amounts are \<open>bigint\<close>s in the code and integers here. A string is a list of
  characters, that is of code units below 256. Identifiers are opaque: a freshly generated one is
  \<open>newId\<close> of the next draw, and its collision with an existing key is the driver's error, as in the code.

  Not modelled.

  Foreign keys and triggers of the SQL schema (the services check the references they rely on); the
  physical representation of rows; retries on a busy database; the view of the current lease that a
  \<open>ResourceLeaseError\<close> carries for display. Of the rest of the repository: replication, resolution
  contracts and premises, prepared effects and delivery, agreements and settlement, context records,
  and the read models are not reached yet; the command line, the servers, the bridges, the inspector
  and the site are bindings of the services to the outside and carry no ledger state of their own.
\<close>

end
